(* ===== verification/Prelude.thy ===== *)
theory Prelude
  imports Complex_Main "HOL-Library.Multiset" "HOL-Library.List_Lexorder" "HOL-Library.Char_ord"
    "HOL-Library.AList"
begin

text \<open>
  Shared vocabulary of the development: the collections of rewrite rules that the component
  theories fill, Go's fixed-width integers as wrapped values of type \<open>int\<close>, Go's string
  maps as association lists with the zero value for a missing key, the first-match loop
  that occurs in most of the sources, and \<open>sort.Slice\<close>/\<open>sort.SliceStable\<close> as a stable
  insertion sort over a comparator together with the contract (the locale \<open>go_order\<close>) under
  which every correct sort returns an equivalent result.
\<close>

named_theorems const_defs \<open>the string constants of the sources\<close>
named_theorems go_defs \<open>small helpers that proofs unfold\<close>

section \<open>Fixed-width integers\<close>

text \<open>
  Go's \<open>int64\<close>, \<open>int32\<close> and \<open>int\<close> (64 bits on the supported platforms) are
  two's complement. A value is an \<open>int\<close>; the result of an operation that may leave the range
  is brought back with \<open>wrap64\<close> or \<open>wrap32\<close>.
\<close>

definition wrap64 :: "int \<Rightarrow> int" where
  "wrap64 x = (x + 2 ^ 63) mod 2 ^ 64 - 2 ^ 63"

definition wrap32 :: "int \<Rightarrow> int" where
  "wrap32 x = (x + 2 ^ 31) mod 2 ^ 32 - 2 ^ 31"

definition maxInt64 :: int where
  "maxInt64 = 2 ^ 63 - 1"

definition is_int64 :: "int \<Rightarrow> bool" where
  "is_int64 x \<longleftrightarrow> - (2 ^ 63) \<le> x \<and> x < 2 ^ 63"

definition is_int32 :: "int \<Rightarrow> bool" where
  "is_int32 x \<longleftrightarrow> - (2 ^ 31) \<le> x \<and> x < 2 ^ 31"

lemma wrap64_id [simp]: "is_int64 x \<Longrightarrow> wrap64 x = x"
  by (simp add: wrap64_def is_int64_def mod_pos_pos_trivial)

lemma wrap64_range [simp]: "is_int64 (wrap64 x)"
proof -
  have "0 \<le> (x + 2 ^ 63) mod (2 ^ 64 :: int)" "(x + 2 ^ 63) mod 2 ^ 64 < (2 ^ 64 :: int)"
    by simp_all
  then show ?thesis by (simp add: wrap64_def is_int64_def)
qed

lemma wrap64_nonneg: "0 \<le> x \<Longrightarrow> x \<le> maxInt64 \<Longrightarrow> wrap64 x = x"
  by (simp add: is_int64_def maxInt64_def)

lemma is_int64_le_max: "is_int64 x \<Longrightarrow> x \<le> maxInt64"
  by (simp add: is_int64_def maxInt64_def)

text \<open>Addition that stops at the largest \<open>int64\<close>, guarded as the sources guard it.\<close>

lemma saturating_add64:
  assumes "0 \<le> a" "a \<le> maxInt64" "0 \<le> v"
  shows "(if v > wrap64 (maxInt64 - a) then maxInt64 else wrap64 (a + v)) = min maxInt64 (a + v)"
proof -
  have "wrap64 (maxInt64 - a) = maxInt64 - a" using assms by (intro wrap64_nonneg) auto
  moreover have "wrap64 (a + v) = a + v" if "a + v \<le> maxInt64" using assms that by (intro wrap64_nonneg) auto
  ultimately show ?thesis by auto
qed

lemma wrap32_id [simp]: "is_int32 x \<Longrightarrow> wrap32 x = x"
  by (simp add: wrap32_def is_int32_def mod_pos_pos_trivial)

lemma wrap32_range [simp]: "is_int32 (wrap32 x)"
proof -
  have "0 \<le> (x + 2 ^ 31) mod (2 ^ 32 :: int)" "(x + 2 ^ 31) mod 2 ^ 32 < (2 ^ 32 :: int)"
    by simp_all
  then show ?thesis by (simp add: wrap32_def is_int32_def)
qed

lemma is_int32_is_int64: "is_int32 x \<Longrightarrow> is_int64 x"
  by (simp add: is_int32_def is_int64_def)

section \<open>Results\<close>

text \<open>A Go function that returns a value or an error returns a sum: \<open>Inl\<close> is the error.\<close>

type_synonym ('e, 'a) result = "'e + 'a"

definition bind_result :: "('e, 'a) result \<Rightarrow> ('a \<Rightarrow> ('e, 'b) result) \<Rightarrow> ('e, 'b) result" where
  "bind_result r f = (case r of Inl e \<Rightarrow> Inl e | Inr x \<Rightarrow> f x)"

lemma bind_result_simps [simp]:
  "bind_result (Inl e) f = Inl e"
  "bind_result (Inr x) f = f x"
  by (simp_all add: bind_result_def)

lemma bind_result_Inr_iff:
  "bind_result r f = Inr y \<longleftrightarrow> (\<exists>x. r = Inr x \<and> f x = Inr y)"
  by (cases r) simp_all

section \<open>String maps\<close>

text \<open>
  \<open>map[string]string\<close>: an association list, read with the zero value \<open>''''\<close> for a missing
  key. Iteration order is not specified in Go; the sources only fold order-insensitive
  checks over such maps.
\<close>

type_synonym string_map = "(string \<times> string) list"

definition mget :: "string_map \<Rightarrow> string \<Rightarrow> string" where
  "mget m k = (case map_of m k of None \<Rightarrow> [] | Some v \<Rightarrow> v)"

lemma mget_Nil [simp]: "mget [] k = []"
  by (simp add: mget_def)

lemma mget_Cons [simp]: "mget ((k', v) # m) k = (if k = k' then v else mget m k)"
  by (simp add: mget_def)

section \<open>First match\<close>

text \<open>The loop \<open>for i := range xs { if p(xs[i]) { return f(xs[i]) } }\<close> is \<open>List.find\<close>.\<close>

lemma find_eq_Some_memD: "List.find p xs = Some x \<Longrightarrow> x \<in> set xs \<and> p x"
  by (induction xs) (auto split: if_splits)

lemma find_eq_None_iff [simp]: "List.find p xs = None \<longleftrightarrow> (\<forall>x \<in> set xs. \<not> p x)"
  by (induction xs) auto

lemma find_append: "List.find p (xs @ ys) = (case List.find p xs of None \<Rightarrow> List.find p ys | Some x \<Rightarrow> Some x)"
  by (induction xs) auto

lemma find_filter_neg: "List.find p (filter (\<lambda>x. \<not> p x) xs) = None"
  by (induction xs) auto

lemma find_filter_other:
  "(\<And>x. p x \<Longrightarrow> q x) \<Longrightarrow> List.find p (filter q xs) = List.find p xs"
  by (induction xs) auto

lemma find_map_comp: "List.find p (map f xs) = map_option f (List.find (p \<circ> f) xs)"
  by (induction xs) auto

section \<open>Sorting with a comparator\<close>

text \<open>
  \<open>sort.SliceStable(xs, lt)\<close>. The unstable \<open>sort.Slice\<close> is modelled by the same function;
  the theorem \<open>sorted_perm_hd_eq\<close> below is what makes the choice immaterial.
\<close>

fun insert_by :: "('a \<Rightarrow> 'a \<Rightarrow> bool) \<Rightarrow> 'a \<Rightarrow> 'a list \<Rightarrow> 'a list" where
  "insert_by lt x [] = [x]"
| "insert_by lt x (y # ys) = (if lt y x then y # insert_by lt x ys else x # y # ys)"

fun sort_by :: "('a \<Rightarrow> 'a \<Rightarrow> bool) \<Rightarrow> 'a list \<Rightarrow> 'a list" where
  "sort_by lt [] = []"
| "sort_by lt (x # xs) = insert_by lt x (sort_by lt xs)"

lemma mset_insert_by [simp]: "mset (insert_by lt x xs) = add_mset x (mset xs)"
  by (induction xs) auto

lemma mset_sort_by [simp]: "mset (sort_by lt xs) = mset xs"
  by (induction xs) auto

lemma set_insert_by [simp]: "set (insert_by lt x xs) = insert x (set xs)"
  by (induction xs) auto

lemma set_sort_by [simp]: "set (sort_by lt xs) = set xs"
  by (induction xs) auto

lemma length_sort_by [simp]: "length (sort_by lt xs) = length xs"
  by (metis mset_sort_by size_mset)

lemma sort_by_eq_Nil [simp]: "sort_by lt xs = [] \<longleftrightarrow> xs = []"
  by (metis length_sort_by length_0_conv)

text \<open>A comparator in Go's sense: a strict weak order.\<close>

locale go_order =
  fixes lt :: "'a \<Rightarrow> 'a \<Rightarrow> bool"
  assumes lt_asym: "lt x y \<Longrightarrow> \<not> lt y x"
    and lt_cotrans: "lt x z \<Longrightarrow> lt x y \<or> lt y z"
begin

lemma not_lt_trans: "\<not> lt y x \<Longrightarrow> \<not> lt z y \<Longrightarrow> \<not> lt z x"
  using lt_cotrans by blast

lemma sorted_insert_by:
  "sorted_wrt (\<lambda>a b. \<not> lt b a) xs \<Longrightarrow> sorted_wrt (\<lambda>a b. \<not> lt b a) (insert_by lt x xs)"
proof (induction xs)
  case Nil
  then show ?case by simp
next
  case (Cons y ys)
  show ?case
  proof (cases "lt y x")
    case True
    with Cons show ?thesis using lt_asym by auto
  next
    case False
    with Cons.prems show ?thesis using not_lt_trans [of y x] by auto
  qed
qed

lemma sorted_sort_by: "sorted_wrt (\<lambda>a b. \<not> lt b a) (sort_by lt xs)"
  by (induction xs) (simp_all add: sorted_insert_by)

lemma sorted_hd_least:
  assumes "sorted_wrt (\<lambda>a b. \<not> lt b a) ys" and "y \<in> set ys"
  shows "\<not> lt y (hd ys)"
  using assms lt_asym by (cases ys) auto

lemma sort_by_hd_least: "y \<in> set xs \<Longrightarrow> \<not> lt y (hd (sort_by lt xs))"
  using sorted_hd_least [OF sorted_sort_by] by simp

text \<open>A first-match search in a sorted list finds a least match.\<close>

lemma find_sorted_least:
  "sorted_wrt (\<lambda>a b. \<not> lt b a) xs \<Longrightarrow> List.find P xs = Some x \<Longrightarrow> y \<in> set xs \<Longrightarrow> P y \<Longrightarrow> \<not> lt y x"
  by (induction xs) (auto split: if_splits dest: lt_asym)

text \<open>Any two sorted arrangements of the same elements start with equivalent elements.\<close>

lemma sorted_perm_hd_eq:
  assumes tie: "\<And>a b. a \<in> set xs \<Longrightarrow> b \<in> set xs \<Longrightarrow> \<not> lt a b \<Longrightarrow> \<not> lt b a \<Longrightarrow> f a = f b"
    and ys: "sorted_wrt (\<lambda>a b. \<not> lt b a) ys" "mset ys = mset xs" and ne: "xs \<noteq> []"
  shows "f (hd ys) = f (hd (sort_by lt xs))"
proof (rule tie)
  have set_ys: "set ys = set xs" using ys(2) by (rule mset_eq_setD)
  with ne have "ys \<noteq> []" by auto
  then show "hd ys \<in> set xs" using set_ys hd_in_set by blast
  have "hd (sort_by lt xs) \<in> set (sort_by lt xs)" using ne by (intro hd_in_set) simp
  then show hd_mem: "hd (sort_by lt xs) \<in> set xs" by simp
  show "\<not> lt (hd ys) (hd (sort_by lt xs))"
    using \<open>hd ys \<in> set xs\<close> by (rule sort_by_hd_least)
  show "\<not> lt (hd (sort_by lt xs)) (hd ys)"
    using sorted_hd_least [OF ys(1)] hd_mem set_ys by simp
qed

text \<open>If the comparator only ties equal elements the sorted arrangement is unique.\<close>

lemma sorted_unique:
  assumes tie: "\<And>a b. a \<in> set xs \<Longrightarrow> b \<in> set xs \<Longrightarrow> \<not> lt a b \<Longrightarrow> \<not> lt b a \<Longrightarrow> a = b"
    and ys: "sorted_wrt (\<lambda>a b. \<not> lt b a) ys" "mset ys = mset xs"
    and zs: "sorted_wrt (\<lambda>a b. \<not> lt b a) zs" "mset zs = mset xs"
  shows "ys = zs"
  using assms
proof (induction ys arbitrary: xs zs)
  case Nil
  then show ?case by (metis mset_zero_iff)
next
  case (Cons y ys)
  from Cons.prems obtain z zs' where zs_eq: "zs = z # zs'"
    by (metis list.exhaust mset_zero_iff add_mset_not_empty mset.simps(2))
  have mem: "set (y # ys) = set xs" "set zs = set xs"
    using Cons.prems(3,5) by (metis mset_eq_setD)+
  have "\<not> lt z y"
    using mem Cons.prems(2) zs_eq lt_asym by (metis list.set_intros(1) sorted_hd_least list.sel(1))
  moreover have "\<not> lt y z"
    using mem Cons.prems(4) zs_eq lt_asym by (metis list.set_intros(1) sorted_hd_least list.sel(1))
  moreover have "y \<in> set xs" "z \<in> set xs" using mem zs_eq by auto
  ultimately have "y = z" using Cons.prems(1) by blast
  moreover have "ys = zs'"
  proof (rule Cons.IH [of ys])
    show "\<And>a b. a \<in> set ys \<Longrightarrow> b \<in> set ys \<Longrightarrow> \<not> lt a b \<Longrightarrow> \<not> lt b a \<Longrightarrow> a = b"
      using Cons.prems(1) mem by auto
    show "mset zs' = mset ys"
      using Cons.prems(3,5) zs_eq \<open>y = z\<close> by (metis add_mset_remove_trivial mset.simps(2))
  qed (use Cons.prems zs_eq in auto)
  ultimately show ?case by (simp add: zs_eq)
qed

end

section \<open>Orders on keys\<close>

text \<open>
  The comparators of the sources compare a sequence of keys. A comparator that compares a
  totally ordered key is a \<open>go_order\<close>, and so is the lexicographic product of two.
\<close>

definition less_on :: "('a \<Rightarrow> 'k::linorder) \<Rightarrow> 'a \<Rightarrow> 'a \<Rightarrow> bool" where
  "less_on key x y \<longleftrightarrow> key x < key y"

definition less_then :: "('a \<Rightarrow> 'k::linorder) \<Rightarrow> ('a \<Rightarrow> 'a \<Rightarrow> bool) \<Rightarrow> 'a \<Rightarrow> 'a \<Rightarrow> bool" where
  "less_then key lt x y \<longleftrightarrow> (if key x \<noteq> key y then key x < key y else lt x y)"

lemma go_order_less_on: "go_order (less_on key)"
  by unfold_locales (auto simp: less_on_def)

lemma go_order_less_then: "go_order lt \<Longrightarrow> go_order (less_then key lt)"
  unfolding go_order_def less_then_def by (auto split: if_splits)

lemma go_order_cong: "go_order f \<Longrightarrow> (\<And>x y. g x y = f x y) \<Longrightarrow> go_order g"
  by (simp add: go_order_def)

end
