(* ===== verification/Go_Strings.thy ===== *)
theory Go_Strings
  imports Prelude
begin

text \<open>
  What the sources use of Go's packages \<open>strings\<close>, \<open>strconv\<close> and \<open>path\<close>. A Go string is a
  sequence of bytes, so it is a \<open>string\<close> (a list of 8-bit characters). Unicode white space is
  recognised by its UTF-8 byte patterns: the first byte of such a pattern is ASCII or a lead
  byte, which no decoding of the bytes before it can consume, so matching the pattern at
  every byte position is what \<open>unicode.IsSpace\<close> over decoded runes does.
  The main results are that \<open>path.Clean\<close> is idempotent and that a clean absolute path
  is a slash-separated list of ordinary segments (no empty, dot or dot-dot segment).
\<close>

section \<open>Prefixes, suffixes, indices\<close>

definition has_prefix :: "string \<Rightarrow> string \<Rightarrow> bool" where
  "has_prefix s p \<longleftrightarrow> take (length p) s = p"

definition trim_prefix :: "string \<Rightarrow> string \<Rightarrow> string" where
  "trim_prefix s p = (if has_prefix s p then drop (length p) s else s)"

definition has_suffix :: "string \<Rightarrow> string \<Rightarrow> bool" where
  "has_suffix s p \<longleftrightarrow> has_prefix (rev s) (rev p)"

definition trim_suffix :: "string \<Rightarrow> string \<Rightarrow> string" where
  "trim_suffix s p = (if has_suffix s p then take (length s - length p) s else s)"

definition contains_char :: "string \<Rightarrow> char \<Rightarrow> bool" where
  "contains_char s c \<longleftrightarrow> c \<in> set s"

definition contains_any :: "string \<Rightarrow> string \<Rightarrow> bool" where
  "contains_any s cs \<longleftrightarrow> list_ex (\<lambda>c. c \<in> set cs) s"

definition index_byte :: "string \<Rightarrow> char \<Rightarrow> int" where
  "index_byte s c = (if c \<in> set s then int (length (takeWhile (\<lambda>x. x \<noteq> c) s)) else - 1)"

definition last_index :: "string \<Rightarrow> char \<Rightarrow> int" where
  "last_index s c =
     (if c \<in> set s then int (length s) - 1 - int (length (takeWhile (\<lambda>x. x \<noteq> c) (rev s))) else - 1)"

definition ascii_lower :: "char \<Rightarrow> char" where
  "ascii_lower c =
     (if 65 \<le> (of_char c :: nat) \<and> (of_char c :: nat) \<le> 90 then char_of ((of_char c :: nat) + 32) else c)"

definition ascii_upper :: "char \<Rightarrow> char" where
  "ascii_upper c =
     (if 97 \<le> (of_char c :: nat) \<and> (of_char c :: nat) \<le> 122 then char_of ((of_char c :: nat) - 32) else c)"

text \<open>The same on the bits of a character, for evaluation.\<close>

lemma ascii_lower_code [code]:
  "ascii_lower (Char b0 b1 b2 b3 b4 b5 b6 b7) =
     (let n = of_char (Char b0 b1 b2 b3 b4 b5 b6 b7) :: nat
      in if 65 \<le> n \<and> n \<le> 90 then Char b0 b1 b2 b3 b4 True b6 b7 else Char b0 b1 b2 b3 b4 b5 b6 b7)"
  by (cases b0; cases b1; cases b2; cases b3; cases b4; cases b5; cases b6; cases b7) (simp_all add: ascii_lower_def char_of_eq_iff)

lemma ascii_upper_code [code]:
  "ascii_upper (Char b0 b1 b2 b3 b4 b5 b6 b7) =
     (let n = of_char (Char b0 b1 b2 b3 b4 b5 b6 b7) :: nat
      in if 97 \<le> n \<and> n \<le> 122 then Char b0 b1 b2 b3 b4 False b6 b7 else Char b0 b1 b2 b3 b4 b5 b6 b7)"
  by (cases b0; cases b1; cases b2; cases b3; cases b4; cases b5; cases b6; cases b7) (simp_all add: ascii_upper_def char_of_eq_iff)

text \<open>
  \<open>strings.EqualFold(s, t)\<close> for an ASCII string \<open>t\<close>. Simple folding identifies an ASCII
  letter with the other case and, beyond ASCII, only \<open>s\<close> with U+017F (bytes C5 BF) and
  \<open>k\<close> with U+212A (bytes E2 84 AA).
\<close>

fun equal_fold :: "string \<Rightarrow> string \<Rightarrow> bool" where
  "equal_fold s [] = (s = [])"
| "equal_fold s (t # ts) =
     (case s of
        [] \<Rightarrow> False
      | x # xs \<Rightarrow>
          if ascii_lower x = ascii_lower t then equal_fold xs ts
          else if ascii_lower t = CHR ''s'' \<and> map of_char (take 2 s) = [0xC5, 0xBF :: nat]
            then equal_fold (drop 2 s) ts
          else if ascii_lower t = CHR ''k'' \<and> map of_char (take 3 s) = [0xE2, 0x84, 0xAA :: nat]
            then equal_fold (drop 3 s) ts
          else False)"

section \<open>White space\<close>

text \<open>Length in bytes of the white space rune a string starts with, 0 if there is none.\<close>

definition space_len :: "string \<Rightarrow> nat" where
  "space_len s =
     (case s of
        [] \<Rightarrow> 0
      | a # r \<Rightarrow>
          if (of_char a :: nat) \<in> {9, 10, 11, 12, 13, 32} then 1
          else if map of_char (take 2 s) \<in> {[0xC2, 0x85], [0xC2, 0xA0 :: nat]} then 2
          else if length s \<ge> 3 \<and>
                  (let t = map of_char (take 3 s) in
                     t \<in> {[0xE1, 0x9A, 0x80], [0xE2, 0x81, 0x9F], [0xE3, 0x80, 0x80 :: nat]} \<or>
                     (take 2 t = [0xE2, 0x80] \<and>
                      (0x80 \<le> t ! 2 \<and> t ! 2 \<le> 0x8A \<or> t ! 2 \<in> {0xA8, 0xA9, 0xAF}))) then 3
          else 0)"

text \<open>The same for the rune a string ends with; the argument is the reversed string.\<close>

definition last_space_len :: "string \<Rightarrow> nat" where
  "last_space_len r =
     (if space_len (rev (take 1 r)) = 1 then 1
      else if space_len (rev (take 2 r)) = 2 then 2
      else if space_len (rev (take 3 r)) = 3 then 3
      else 0)"

lemma space_len_le: "space_len s \<le> length s"
  by (cases s; cases "tl s"; cases "tl (tl s)") (auto simp: space_len_def)

lemma space_len_Nil [simp]: "space_len [] = 0"
  by (simp add: space_len_def)

lemma last_space_len_Nil [simp]: "last_space_len [] = 0"
  by (simp add: last_space_len_def)

lemma last_space_len_le: "last_space_len r \<le> length r"
  using space_len_le [of "rev (take 1 r)"] space_len_le [of "rev (take 2 r)"]
    space_len_le [of "rev (take 3 r)"]
  by (auto simp: last_space_len_def)

function trim_left_space :: "string \<Rightarrow> string" where
  "trim_left_space s = (if space_len s = 0 then s else trim_left_space (drop (space_len s) s))"
  by pat_completeness auto
termination
  by (relation "measure length") (auto intro: diff_less dest: order.strict_trans2 [OF _ space_len_le])

function trim_right_space_rev :: "string \<Rightarrow> string" where
  "trim_right_space_rev r =
     (if last_space_len r = 0 then r else trim_right_space_rev (drop (last_space_len r) r))"
  by pat_completeness auto
termination
  by (relation "measure length") (auto intro: diff_less dest: order.strict_trans2 [OF _ last_space_len_le])

declare trim_left_space.simps [simp del] trim_right_space_rev.simps [simp del]

definition trim_space :: "string \<Rightarrow> string" where
  "trim_space s = rev (trim_right_space_rev (rev (trim_left_space s)))"

text \<open>\<open>strings.Fields\<close>: the maximal runs without white space.\<close>

function fields_from :: "string \<Rightarrow> string \<Rightarrow> string list" where
  "fields_from cur s =
     (if s = [] then (if cur = [] then [] else [rev cur])
      else if space_len s = 0 then fields_from (hd s # cur) (tl s)
      else (if cur = [] then [] else [rev cur]) @ fields_from [] (drop (space_len s) s))"
  by pat_completeness auto
termination
  by (relation "measure (\<lambda>(cur, s). length s)") (auto simp: neq_Nil_conv)

declare fields_from.simps [simp del]

definition fields :: "string \<Rightarrow> string list" where
  "fields s = fields_from [] s"

section \<open>Splitting and joining\<close>

fun split_on :: "char \<Rightarrow> string \<Rightarrow> string list" where
  "split_on c [] = [[]]"
| "split_on c (x # xs) =
     (if x = c then [] # split_on c xs
      else (case split_on c xs of [] \<Rightarrow> [[x]] | s # ss \<Rightarrow> (x # s) # ss))"

fun join :: "string \<Rightarrow> string list \<Rightarrow> string" where
  "join sep [] = []"
| "join sep [x] = x"
| "join sep (x # y # ys) = x @ sep @ join sep (y # ys)"

lemma split_on_ne [simp]: "split_on c s \<noteq> []"
  by (induction s) (auto split: list.split)

lemma split_on_no_sep: "c \<notin> set s \<Longrightarrow> split_on c s = [s]"
  by (induction s) auto

lemma split_on_append_sep: "c \<notin> set s \<Longrightarrow> split_on c (s @ c # t) = s # split_on c t"
  by (induction s) auto

lemma split_on_parts: "p \<in> set (split_on c s) \<Longrightarrow> c \<notin> set p"
  by (induction s arbitrary: p) (auto split: if_splits list.splits)

lemma join_split_on [simp]: "join [c] (split_on c s) = s"
proof (induction s)
  case (Cons x xs)
  show ?case
  proof (cases "split_on c xs")
    case (Cons p ps)
    then show ?thesis using \<open>join [c] (split_on c xs) = xs\<close> by (cases ps) auto
  qed simp
qed simp

lemma split_on_join:
  "ss \<noteq> [] \<Longrightarrow> (\<forall>s \<in> set ss. c \<notin> set s) \<Longrightarrow> split_on c (join [c] ss) = ss"
  by (induction "[c]" ss rule: join.induct) (auto simp: split_on_no_sep split_on_append_sep)

section \<open>Decimal numbers\<close>

definition digit_char :: "int \<Rightarrow> char" where
  "digit_char n = ''0123456789'' ! nat (max 0 (min 9 n))"

function decimal_digits :: "int \<Rightarrow> string" where
  "decimal_digits n =
     (if n < 10 then [digit_char n] else decimal_digits (n div 10) @ [digit_char (n mod 10)])"
  by auto
termination by (relation "measure nat") auto

declare decimal_digits.simps [simp del]

definition itoa :: "int \<Rightarrow> string" where
  "itoa n = (if n < 0 then CHR ''-'' # decimal_digits (- n) else decimal_digits n)"

section \<open>The package path\<close>

definition path_is_abs :: "string \<Rightarrow> bool" where
  "path_is_abs p \<longleftrightarrow> p \<noteq> [] \<and> hd p = CHR ''/''"

text \<open>
  The loop of \<open>path.Clean\<close> over the segments of a path; \<open>out\<close> holds the output segments in
  reverse. A dot-dot segment removes the last output segment that is not itself a kept
  dot-dot; at the root it is dropped, elsewhere it is kept.
\<close>

fun clean_segs :: "bool \<Rightarrow> string list \<Rightarrow> string list \<Rightarrow> string list" where
  "clean_segs rooted out [] = rev out"
| "clean_segs rooted out (s # ss) =
     (if s = [] \<or> s = ''.'' then clean_segs rooted out ss
      else if s = ''..'' then
        (if out \<noteq> [] \<and> hd out \<noteq> ''..'' then clean_segs rooted (tl out) ss
         else if \<not> rooted then clean_segs rooted (''..'' # out) ss
         else clean_segs rooted out ss)
      else clean_segs rooted (s # out) ss)"

definition path_clean :: "string \<Rightarrow> string" where
  "path_clean p =
     (if p = [] then ''.''
      else
        let rooted = (hd p = CHR ''/'');
            body = join ''/'' (clean_segs rooted [] (split_on CHR ''/'' p))
        in if rooted then CHR ''/'' # body
           else if body = [] then ''.'' else body)"

definition path_join :: "string list \<Rightarrow> string" where
  "path_join elems =
     (case filter (\<lambda>e. e \<noteq> []) elems of
        [] \<Rightarrow> []
      | es \<Rightarrow> path_clean (join ''/'' es))"

text \<open>A segment that \<open>path.Clean\<close> keeps as it is.\<close>

definition plain_segment :: "string \<Rightarrow> bool" where
  "plain_segment s \<longleftrightarrow> s \<noteq> [] \<and> s \<noteq> ''.'' \<and> s \<noteq> ''..'' \<and> CHR ''/'' \<notin> set s"

lemma clean_segs_plain:
  "list_all plain_segment ss \<Longrightarrow> clean_segs rooted out ss = rev out @ ss"
  by (induction ss arbitrary: out) (auto simp: plain_segment_def)

text \<open>Below the root no dot-dot survives: every output segment is plain.\<close>

lemma clean_segs_rooted_plain:
  assumes "list_all plain_segment out" and "\<forall>s \<in> set ss. CHR ''/'' \<notin> set s"
  shows "list_all plain_segment (clean_segs True out ss)"
  using assms
proof (induction ss arbitrary: out)
  case Nil
  then show ?case by (simp add: list_all_iff)
next
  case (Cons s ss)
  have pop: "list_all plain_segment (tl out)" using Cons.prems(1) by (cases out) simp_all
  have rest: "\<forall>s \<in> set ss. CHR ''/'' \<notin> set s" using Cons.prems(2) by simp
  have push: "list_all plain_segment (s # out)" if "s \<noteq> []" "s \<noteq> ''.''" "s \<noteq> ''..''"
    using that Cons.prems unfolding plain_segment_def by simp
  show ?case
    unfolding clean_segs.simps
    using Cons.IH [OF pop rest] Cons.IH [OF Cons.prems(1) rest] Cons.IH [OF push rest]
    by presburger
qed

lemma split_on_slash_Cons: "split_on CHR ''/'' (CHR ''/'' # t) = [] # split_on CHR ''/'' t"
  by simp

lemma path_clean_rooted:
  "path_clean (CHR ''/'' # t) = CHR ''/'' # join ''/'' (clean_segs True [] (split_on CHR ''/'' t))"
  by (simp add: path_clean_def Let_def)

lemma plain_segments_of_clean:
  "list_all plain_segment (clean_segs True [] (split_on CHR ''/'' t))"
  by (rule clean_segs_rooted_plain) (auto dest: split_on_parts)

lemma split_on_join_plain:
  "list_all plain_segment ss \<Longrightarrow> ss \<noteq> [] \<Longrightarrow> split_on CHR ''/'' (join ''/'' ss) = ss"
  by (rule split_on_join) (auto simp: list_all_iff plain_segment_def)

lemma path_clean_plain:
  assumes "list_all plain_segment ss"
  shows "path_clean (CHR ''/'' # join ''/'' ss) = CHR ''/'' # join ''/'' ss"
proof (cases "ss = []")
  case True
  then show ?thesis by (simp add: path_clean_rooted)
next
  case False
  with assms show ?thesis
    by (simp add: path_clean_rooted split_on_join_plain clean_segs_plain)
qed

lemma path_clean_rooted_idem: "path_clean (path_clean (CHR ''/'' # t)) = path_clean (CHR ''/'' # t)"
  unfolding path_clean_rooted [of t] by (rule path_clean_plain [OF plain_segments_of_clean])

text \<open>A clean absolute path is the root or a list of plain segments.\<close>

lemma clean_absolute_iff:
  "path_is_abs p \<and> path_clean p = p \<longleftrightarrow>
   (\<exists>ss. list_all plain_segment ss \<and> p = CHR ''/'' # join ''/'' ss)"
proof
  assume a: "path_is_abs p \<and> path_clean p = p"
  then obtain t where p: "p = CHR ''/'' # t" by (cases p) (auto simp: path_is_abs_def)
  with a show "\<exists>ss. list_all plain_segment ss \<and> p = CHR ''/'' # join ''/'' ss"
    using plain_segments_of_clean path_clean_rooted by metis
next
  assume "\<exists>ss. list_all plain_segment ss \<and> p = CHR ''/'' # join ''/'' ss"
  then show "path_is_abs p \<and> path_clean p = p" by (auto simp: path_is_abs_def path_clean_plain)
qed

section \<open>Facts about prefixes and suffixes\<close>

lemma has_prefix_iff: "has_prefix s p \<longleftrightarrow> (\<exists>t. s = p @ t)"
  by (metis append_eq_conv_conj append_take_drop_id has_prefix_def)

lemma has_prefix_append [simp]: "has_prefix (p @ t) p"
  by (simp add: has_prefix_def)

lemma trim_prefix_append [simp]: "trim_prefix (p @ t) p = t"
  by (simp add: trim_prefix_def)

lemma has_prefix_refl [simp]: "has_prefix s s"
  by (simp add: has_prefix_def)

lemma has_suffix_iff: "has_suffix s p \<longleftrightarrow> (\<exists>t. s = t @ p)"
proof -
  have "has_suffix s p \<longleftrightarrow> (\<exists>t. rev s = rev p @ t)" by (simp add: has_suffix_def has_prefix_iff)
  also have "\<dots> \<longleftrightarrow> (\<exists>t. s = t @ p)" by (metis rev_append rev_rev_ident)
  finally show ?thesis .
qed

lemma trim_suffix_append [simp]: "trim_suffix (t @ p) p = t"
  by (simp add: trim_suffix_def has_suffix_iff)

lemma trim_suffix_no: "\<not> has_suffix s p \<Longrightarrow> trim_suffix s p = s"
  by (simp add: trim_suffix_def)

section \<open>Last positions\<close>

lemma last_index_split: "c \<notin> set b \<Longrightarrow> last_index (a @ c # b) c = int (length a)"
  by (simp add: last_index_def takeWhile_append)

lemma last_indexE:
  assumes "0 \<le> last_index s c"
  obtains a b where "s = a @ c # b" "c \<notin> set b" "last_index s c = int (length a)"
proof -
  have "c \<in> set s" using assms by (simp add: last_index_def split: if_splits)
  then obtain a b where "s = a @ c # b" "c \<notin> set b" by (meson split_list_last)
  then show ?thesis using that last_index_split by blast
qed

lemma last_index_ge: "- 1 \<le> last_index s c"
proof (cases "c \<in> set s")
  case True
  then show ?thesis using last_index_split [of c] by (auto dest: split_list_last)
qed (simp add: last_index_def)

lemma drop_last_index_mem:
  assumes "last_index s c > i" and "- 1 \<le> i"
  shows "c \<in> set (drop (nat (i + 1)) s)"
proof -
  have "0 \<le> last_index s c" using assms by simp
  then obtain a b where s: "s = a @ c # b" "last_index s c = int (length a)" by (rule last_indexE)
  have "nat (i + 1) \<le> length a" using assms s by simp
  then show ?thesis by (simp add: s(1))
qed

end
