(* ===== verification/Route_Paths.thy ===== *)
theory Route_Paths
  imports Go_Strings
begin

text \<open>
  The path rules every process shares: \<open>internal/routingpath\<close> (gateway route prefixes),
  \<open>operator/internal/paths\<close> (cache directories), \<open>internal/runtimecontract\<close> and the naming
  functions of \<open>operator/internal/templates\<close>. The lemmas show that an accepted route prefix is
  canonical and stable under normalisation, and that a clean path accepted below a
  root is below it segment by segment, so no sibling directory and no traversal segment passes.
\<close>

section \<open>Constants\<close>

definition DefaultModelPrefix :: string where
  [const_defs]: "DefaultModelPrefix = ''/models/''"

definition reservedPrefixes :: "string list" where
  [const_defs]: "reservedPrefixes = [''/healthz'', ''/readyz'', ''/metrics'']"

definition ServiceSuffix :: string where
  [const_defs]: "ServiceSuffix = ''-runtime''"

definition HTTPPortName :: string where
  [const_defs]: "HTTPPortName = ''http''"

definition ModelDeploymentLabel :: string where
  [const_defs]: "ModelDeploymentLabel = ''inferops.dev/modeldeployment''"

definition OpenAIPathPrefix :: string where
  [const_defs]: "OpenAIPathPrefix = ''/v1''"

section \<open>Names\<close>

definition DefaultModelRoute :: "string \<Rightarrow> string" where
  "DefaultModelRoute modelDeploymentName = DefaultModelPrefix @ modelDeploymentName"

definition ServiceName :: "string \<Rightarrow> string" where
  "ServiceName modelDeploymentName = modelDeploymentName @ ServiceSuffix"

definition RuntimeServiceName :: "string \<Rightarrow> string" where
  "RuntimeServiceName modelDeploymentName = ServiceName modelDeploymentName"

definition GatewayModelPath :: "string \<Rightarrow> string" where
  "GatewayModelPath modelDeploymentName = DefaultModelRoute modelDeploymentName"

definition GatewayOpenAIBasePath :: "string \<Rightarrow> string" where
  "GatewayOpenAIBasePath modelDeploymentName = GatewayModelPath modelDeploymentName @ OpenAIPathPrefix"

section \<open>Route prefixes\<close>

datatype route_error =
    RoutePrefixRequired
  | RoutePrefixNotRooted
  | RoutePrefixBadCharacter
  | RoutePrefixNotCanonical
  | RoutePrefixReserved string

definition control_character :: "char \<Rightarrow> bool" where
  "control_character c \<longleftrightarrow> (of_char c :: nat) < 32 \<or> (of_char c :: nat) = 127"

definition conflicts_with_reserved :: "string \<Rightarrow> string \<Rightarrow> bool" where
  "conflicts_with_reserved normalized reserved \<longleftrightarrow>
     normalized = reserved \<or> has_prefix normalized (reserved @ ''/'')"

definition Normalize :: "string \<Rightarrow> (route_error, string) result" where
  "Normalize prefix =
     (if prefix = [] then Inl RoutePrefixRequired
      else if \<not> has_prefix prefix ''/'' then Inl RoutePrefixNotRooted
      else if contains_any prefix (''?#'' @ [CHR 0x5C] @ ''%'') \<or> list_ex control_character prefix
        then Inl RoutePrefixBadCharacter
      else
        let normalized = trim_suffix prefix ''/''
        in if normalized = [] \<or> normalized = ''/'' \<or> path_clean prefix \<noteq> normalized
             then Inl RoutePrefixNotCanonical
           else (case List.find (conflicts_with_reserved normalized) reservedPrefixes of
                   Some reserved \<Rightarrow> Inl (RoutePrefixReserved reserved)
                 | None \<Rightarrow> Inr normalized))"

section \<open>Directories below a root\<close>

datatype path_error =
    PathRequired string
  | PathNotAbsolute string string
  | PathNotClean string string
  | PathOutsideRoot string string string
  | PathIsRoot
  | PathNotBelowRoot string string

definition CleanAbsolutePath :: "string \<Rightarrow> string \<Rightarrow> (path_error, string) result" where
  "CleanAbsolutePath path field =
     (if path = [] then Inl (PathRequired field)
      else if \<not> path_is_abs path then Inl (PathNotAbsolute field path)
      else
        let cleanPath = path_clean path
        in if cleanPath \<noteq> path then Inl (PathNotClean field path) else Inr cleanPath)"

definition UnderRoot :: "string \<Rightarrow> string \<Rightarrow> string \<Rightarrow> path_error option" where
  "UnderRoot path rootDir field =
     (let trimmed = trim_suffix rootDir ''/''
      in if path = trimmed then None
         else if \<not> has_prefix path (trimmed @ ''/'') then Some (PathOutsideRoot field path trimmed)
         else None)"

definition ChildOfRoot :: "string \<Rightarrow> string \<Rightarrow> (path_error, string) result" where
  "ChildOfRoot path rootDir =
     (let trimmed = trim_suffix rootDir ''/''
      in if path = trimmed then Inl PathIsRoot
         else if \<not> has_prefix path (trimmed @ ''/'') then Inl (PathNotBelowRoot path trimmed)
         else Inr (trim_prefix path (trimmed @ ''/'')))"

section \<open>Lemmas\<close>

lemma join_plain_last:
  "list_all plain_segment ss \<Longrightarrow> ss \<noteq> [] \<Longrightarrow> join ''/'' ss \<noteq> [] \<and> last (join ''/'' ss) \<noteq> CHR ''/''"
  by (induction "''/''" ss rule: join.induct) (auto simp: plain_segment_def dest: last_in_set)

lemma join_eq_Nil_plain: "list_all plain_segment ss \<Longrightarrow> join ''/'' ss = [] \<longleftrightarrow> ss = []"
  using join_plain_last by auto

lemma join_plain_inject:
  "list_all plain_segment xs \<Longrightarrow> list_all plain_segment ys \<Longrightarrow> join ''/'' xs = join ''/'' ys \<Longrightarrow> xs = ys"
  by (metis join_eq_Nil_plain split_on_join_plain)

lemma has_suffix_slash: "has_suffix s ''/'' \<longleftrightarrow> s \<noteq> [] \<and> last s = CHR ''/''"
  by (auto simp: has_suffix_iff) (metis append_butlast_last_id)

lemma trim_suffix_slash_cases: "s = trim_suffix s ''/'' \<or> s = trim_suffix s ''/'' @ ''/''"
  by (metis has_suffix_iff trim_suffix_append trim_suffix_no)

lemma trim_suffix_clean_root:
  assumes "list_all plain_segment rs"
  shows "trim_suffix (CHR ''/'' # join ''/'' rs) ''/'' = (if rs = [] then [] else CHR ''/'' # join ''/'' rs)"
proof (cases "rs = []")
  case True
  then show ?thesis using trim_suffix_append [of "[]" "''/''"] by simp
next
  case False
  then have "\<not> has_suffix (CHR ''/'' # join ''/'' rs) ''/''"
    using join_plain_last [OF assms] by (simp add: has_suffix_slash)
  then show ?thesis using False by (simp add: trim_suffix_no)
qed

lemma join_append:
  "xs \<noteq> [] \<Longrightarrow> ys \<noteq> [] \<Longrightarrow> join sep (xs @ ys) = join sep xs @ sep @ join sep ys"
  by (induction sep xs rule: join.induct) (auto simp: neq_Nil_conv)

lemma split_join_append:
  assumes "list_all plain_segment rs" and "rs \<noteq> []"
  shows "split_on CHR ''/'' (join ''/'' rs @ CHR ''/'' # t) = rs @ split_on CHR ''/'' t"
  using assms
  by (induction "''/''" rs rule: join.induct) (auto simp: plain_segment_def split_on_append_sep)

lemma CleanAbsolutePath_Inr_iff:
  "CleanAbsolutePath path field = Inr p \<longleftrightarrow>
   p = path \<and> (\<exists>ss. list_all plain_segment ss \<and> path = CHR ''/'' # join ''/'' ss)"
proof -
  have "CleanAbsolutePath path field = Inr p \<longleftrightarrow> p = path \<and> path_is_abs path \<and> path_clean path = path"
    by (auto simp: CleanAbsolutePath_def Let_def path_is_abs_def)
  then show ?thesis by (simp add: clean_absolute_iff)
qed

lemma Normalize_Inr_iff:
  "Normalize prefix = Inr q \<longleftrightarrow>
   q = trim_suffix prefix ''/'' \<and>
   \<not> contains_any prefix (''?#'' @ [CHR 0x5C] @ ''%'') \<and>
   \<not> list_ex control_character prefix \<and>
   has_prefix prefix ''/'' \<and> q \<noteq> [] \<and> q \<noteq> ''/'' \<and> path_clean prefix = q \<and>
   list_all (\<lambda>r. \<not> conflicts_with_reserved q r) reservedPrefixes"
  by (auto simp: Normalize_def Let_def list_all_iff has_prefix_def split: option.splits if_splits
      dest: find_eq_Some_memD)

text \<open>An accepted prefix is a non-empty list of plain segments.\<close>

lemma Normalize_segments:
  assumes "Normalize prefix = Inr q"
  obtains ss where "ss \<noteq> []" "list_all plain_segment ss" "q = CHR ''/'' # join ''/'' ss"
proof -
  from assms obtain t where t: "prefix = CHR ''/'' # t"
    by (auto simp: Normalize_Inr_iff has_prefix_iff)
  let ?ss = "clean_segs True [] (split_on CHR ''/'' t)"
  from assms have q: "q = CHR ''/'' # join ''/'' ?ss"
    by (simp add: Normalize_Inr_iff t path_clean_rooted)
  moreover have "?ss \<noteq> []" using assms q by (auto simp: Normalize_Inr_iff)
  ultimately show ?thesis using that plain_segments_of_clean by blast
qed

lemma Normalize_clean:
  assumes "Normalize prefix = Inr q"
  shows "path_clean q = q" and "trim_suffix q ''/'' = q"
proof -
  obtain ss where "ss \<noteq> []" "list_all plain_segment ss" "q = CHR ''/'' # join ''/'' ss"
    using assms by (rule Normalize_segments)
  then show "path_clean q = q" "trim_suffix q ''/'' = q"
    by (simp_all add: path_clean_plain trim_suffix_clean_root)
qed

lemma Normalize_chars: "Normalize prefix = Inr q \<Longrightarrow> set q \<subseteq> set prefix"
  using trim_suffix_slash_cases [of prefix] by (auto simp: Normalize_Inr_iff) (metis UnCI set_append)

lemma Normalize_char_checks:
  assumes "Normalize prefix = Inr q"
  shows "\<not> contains_any q (''?#'' @ [CHR 0x5C] @ ''%'')" "\<not> list_ex control_character q"
  using assms [unfolded Normalize_Inr_iff] Normalize_chars [OF assms]
  unfolding contains_any_def list_ex_iff by blast+

text \<open>The gateway normalises again what the API validator normalised before.\<close>

lemma Normalize_idem:
  assumes "Normalize prefix = Inr q"
  shows "Normalize q = Inr q"
proof -
  obtain ss where "q = CHR ''/'' # join ''/'' ss" using assms by (rule Normalize_segments)
  then have "has_prefix q ''/''" by (simp add: has_prefix_def)
  then show ?thesis
    unfolding Normalize_Inr_iff [of q]
    using assms [unfolded Normalize_Inr_iff] Normalize_char_checks [OF assms] Normalize_clean [OF assms]
    by metis
qed

lemma UnderRoot_segments:
  assumes "CleanAbsolutePath rootDir f = Inr rootDir" and "CleanAbsolutePath path g = Inr path"
    and "UnderRoot path rootDir h = None"
  obtains rs ss where "list_all plain_segment (rs @ ss)"
    "rootDir = CHR ''/'' # join ''/'' rs" "path = CHR ''/'' # join ''/'' (rs @ ss)"
proof -
  obtain rs where rs: "list_all plain_segment rs" "rootDir = CHR ''/'' # join ''/'' rs"
    using assms(1) by (auto simp: CleanAbsolutePath_Inr_iff)
  obtain ps where ps: "list_all plain_segment ps" "path = CHR ''/'' # join ''/'' ps"
    using assms(2) by (auto simp: CleanAbsolutePath_Inr_iff)
  note trim = trim_suffix_clean_root [OF rs(1)]
  have "\<exists>ss. ps = rs @ ss"
  proof (cases "rs = [] \<or> path = rootDir")
    case True
    then show ?thesis
    proof
      assume "path = rootDir"
      then have "join ''/'' ps = join ''/'' rs" using ps rs by simp
      then have "ps = rs"
        using ps(1) rs(1) by (metis join_eq_Nil_plain split_on_join_plain)
      then show ?thesis by simp
    qed simp
  next
    case False
    with assms(3) rs(2) trim have "has_prefix path (rootDir @ ''/'')"
      by (auto simp: UnderRoot_def Let_def split: if_splits)
    then obtain t where "join ''/'' ps = join ''/'' rs @ CHR ''/'' # t"
      using ps(2) rs(2) by (auto simp: has_prefix_iff)
    then have "split_on CHR ''/'' (join ''/'' ps) = rs @ split_on CHR ''/'' t"
      using split_join_append rs(1) False by simp
    moreover have "ps \<noteq> []" using \<open>join ''/'' ps = _\<close> by auto
    ultimately show ?thesis using split_on_join_plain ps(1) by metis
  qed
  then show ?thesis using that ps rs by auto
qed

section \<open>Properties\<close>

text \<open>
  C29. A route prefix that \<open>Normalize\<close> accepts is canonical: it is rooted, has at least one segment,
  none of its segments is empty, a dot or a dot-dot, it contains none of the characters a URL
  parser treats specially, it does not shadow a reserved endpoint, and normalising it again
  (as the gateway does with what the API validator accepted) gives the same value.
\<close>

theorem Normalize_canonical:
  assumes "Normalize prefix = Inr q"
  shows "(\<exists>ss. ss \<noteq> [] \<and> list_all plain_segment ss \<and> q = CHR ''/'' # join ''/'' ss) \<and>
         (prefix = q \<or> prefix = q @ ''/'') \<and>
         set q \<inter> {CHR ''?'', CHR ''#'', CHR ''%'', CHR 0x5C} = {} \<and>
         (\<forall>r \<in> set reservedPrefixes. q \<noteq> r \<and> \<not> has_prefix q (r @ ''/'')) \<and>
         Normalize q = Inr q"
proof (intro conjI)
  show "\<exists>ss. ss \<noteq> [] \<and> list_all plain_segment ss \<and> q = CHR ''/'' # join ''/'' ss"
    using assms by (metis Normalize_segments)
  show "prefix = q \<or> prefix = q @ ''/''"
    using assms trim_suffix_slash_cases [of prefix] by (auto simp: Normalize_Inr_iff)
  show "set q \<inter> {CHR ''?'', CHR ''#'', CHR ''%'', CHR 0x5C} = {}"
    using Normalize_char_checks(1) [OF assms] by (auto simp: contains_any_def list_ex_iff)
  show "\<forall>r \<in> set reservedPrefixes. q \<noteq> r \<and> \<not> has_prefix q (r @ ''/'')"
    using assms [unfolded Normalize_Inr_iff list_all_iff conflicts_with_reserved_def] by blast
qed (rule Normalize_idem [OF assms])

theorem Normalize_canonical_witness:
  "Normalize ''/models/llama/'' = Inr ''/models/llama'' \<and> Normalize ''/models/llama'' = Inr ''/models/llama''"
proof -
  have "Normalize ''/models/llama/'' = Inr ''/models/llama''" by code_simp
  then show ?thesis using Normalize_canonical [of "''/models/llama/''" "''/models/llama''"] by simp
qed

text \<open>
  Directory containment is decided by segments: when the root and the path are both clean
  absolute paths, \<open>UnderRoot\<close> accepts exactly the paths whose segments extend the
  segments of the root, so neither a sibling with a common name prefix nor a traversal passes.
\<close>

theorem UnderRoot_iff_segments:
  assumes "list_all plain_segment rs" and "list_all plain_segment ps"
    and "rootDir = CHR ''/'' # join ''/'' rs" and "path = CHR ''/'' # join ''/'' ps"
  shows "UnderRoot path rootDir field = None \<longleftrightarrow> (\<exists>ss. ps = rs @ ss)"
proof
  assume n: "UnderRoot path rootDir field = None"
  have "CleanAbsolutePath rootDir f = Inr rootDir" "CleanAbsolutePath path f = Inr path" for f
    using assms by (auto simp: CleanAbsolutePath_Inr_iff)
  then obtain rs' ss where x: "list_all plain_segment (rs' @ ss)" "rootDir = CHR ''/'' # join ''/'' rs'"
    "path = CHR ''/'' # join ''/'' (rs' @ ss)"
    using n UnderRoot_segments by metis
  then have "rs = rs'" "ps = rs' @ ss"
    using assms join_plain_inject [of rs rs'] join_plain_inject [of ps "rs' @ ss"] by auto
  then show "\<exists>ss. ps = rs @ ss" by simp
next
  assume "\<exists>ss. ps = rs @ ss"
  then obtain ss where ss: "ps = rs @ ss" ..
  show "UnderRoot path rootDir field = None"
    using assms ss trim_suffix_clean_root [OF assms(1)] join_append [of rs ss "''/''"]
    by (cases "ss = []"; cases "rs = []") (auto simp: UnderRoot_def Let_def has_prefix_iff)
qed

theorem UnderRoot_iff_segments_witness:
  "UnderRoot ''/cache/models/a'' ''/cache/models'' ''path'' = None \<and>
   UnderRoot ''/cache/models-old'' ''/cache/models'' ''path'' \<noteq> None"
proof -
  have a: "UnderRoot ''/cache/models/a'' ''/cache/models'' ''path'' = None"
    using UnderRoot_iff_segments [of "[''cache'', ''models'']" "[''cache'', ''models'', ''a'']"]
    by (simp add: plain_segment_def)
  have b: "UnderRoot ''/cache/models-old'' ''/cache/models'' ''path'' \<noteq> None"
    using UnderRoot_iff_segments [of "[''cache'', ''models'']" "[''cache'', ''models-old'']"]
    by (simp add: plain_segment_def)
  from a b show ?thesis by blast
qed

text \<open>
  \<open>ChildOfRoot\<close> is the inverse of joining below the root: for clean absolute
  paths it succeeds exactly on strict descendants, its result is the relative path, and
  appending it to the root with one slash gives the path back.
\<close>

theorem ChildOfRoot_round_trip:
  assumes "list_all plain_segment rs" and "rs \<noteq> []" and "list_all plain_segment ss" and "ss \<noteq> []"
  shows "ChildOfRoot (path_join [CHR ''/'' # join ''/'' rs, join ''/'' ss]) (CHR ''/'' # join ''/'' rs)
         = Inr (join ''/'' ss)"
proof -
  let ?root = "CHR ''/'' # join ''/'' rs"
  have all: "list_all plain_segment (rs @ ss)" using assms by simp
  have "join ''/'' [?root, join ''/'' ss] = CHR ''/'' # join ''/'' (rs @ ss)"
    using assms by (simp add: join_append)
  then have "path_join [?root, join ''/'' ss] = CHR ''/'' # join ''/'' (rs @ ss)"
    using assms by (simp add: path_join_def join_eq_Nil_plain path_clean_plain [OF all])
  also have "\<dots> = ?root @ ''/'' @ join ''/'' ss" using assms by (simp add: join_append)
  finally show ?thesis
    using assms trim_prefix_append [of "?root @ ''/''" "join ''/'' ss"]
      has_prefix_append [of "?root @ ''/''" "join ''/'' ss"]
    by (simp add: ChildOfRoot_def trim_suffix_clean_root)
qed

theorem ChildOfRoot_round_trip_witness:
  "ChildOfRoot (path_join [''/cache/models'', ''llama/8b'']) ''/cache/models'' = Inr ''llama/8b''"
  using ChildOfRoot_round_trip [of "[''cache'', ''models'']" "[''llama'', ''8b'']"]
  by (simp add: plain_segment_def)

end
