(* ===== verification/Api_Types.thy ===== *)
theory Api_Types
  imports Prelude
begin

text \<open>
  The custom resources of \<open>operator/api/v1alpha1\<close>: ModelDeployment, ModelCache and ModelRuntime
  with their specs, statuses, conditions and the constants of their condition types and reasons,
  and the fields of the Kubernetes \<open>ObjectMeta\<close> that the sources read or write.

  A Go struct is a record whose fields carry a prefix per struct; a pointer to an
  optional struct or scalar is an \<open>option\<close>; an \<open>int32\<close>/\<open>int64\<close> field is an \<open>int\<close>; a \<open>float64\<close>
  field is the rational number it denotes. A Go string enumeration is a datatype with
  one constructor per declared constant, one for the empty string and one for any other string.
  A time is a number of nanoseconds whose value 0 is Go's zero time.
\<close>

section \<open>Object metadata\<close>

type_synonym time = int
type_synonym duration = int

record OwnerReference =
  orAPIVersion :: string
  orKind :: string
  orName :: string
  orUID :: string
  orController :: "bool option"
  orBlockOwnerDeletion :: "bool option"

record ObjectMeta =
  omName :: string
  omNamespace :: string
  omUID :: string
  omResourceVersion :: string
  omGeneration :: int
  omCreationTimestamp :: time
  omDeletionTimestamp :: "time option"
  omLabels :: string_map
  omAnnotations :: string_map
  omFinalizers :: "string list"
  omOwnerReferences :: "OwnerReference list"

section \<open>Conditions\<close>

datatype ConditionStatus =
    ConditionStatusUnset
  | ConditionTrue
  | ConditionFalse
  | ConditionUnknown
  | ConditionStatusOther string

record Condition =
  cType :: string
  cStatus :: ConditionStatus
  cObservedGeneration :: int
  cLastTransitionTime :: time
  cReason :: string
  cMessage :: string

section \<open>Condition types and reasons of ModelDeployment\<close>

definition ConditionSpecValid :: string where
  [const_defs]: "ConditionSpecValid = ''SpecValid''"

definition ConditionRuntimeResolved :: string where
  [const_defs]: "ConditionRuntimeResolved = ''RuntimeResolved''"

definition ConditionSecretsReady :: string where
  [const_defs]: "ConditionSecretsReady = ''SecretsReady''"

definition ConditionCacheReady :: string where
  [const_defs]: "ConditionCacheReady = ''CacheReady''"

definition ConditionGPUAssigned :: string where
  [const_defs]: "ConditionGPUAssigned = ''GPUAssigned''"

definition ConditionRuntimeReady :: string where
  [const_defs]: "ConditionRuntimeReady = ''RuntimeReady''"

definition ConditionModelLoaded :: string where
  [const_defs]: "ConditionModelLoaded = ''ModelLoaded''"

definition ConditionRoutingReady :: string where
  [const_defs]: "ConditionRoutingReady = ''RoutingReady''"

definition ConditionReplacement :: string where
  [const_defs]: "ConditionReplacement = ''Replacement''"

definition ConditionRollout :: string where
  [const_defs]: "ConditionRollout = ''Rollout''"

definition ConditionReady :: string where
  [const_defs]: "ConditionReady = ''Ready''"

definition ReasonSpecValidated :: string where
  [const_defs]: "ReasonSpecValidated = ''SpecValidated''"

definition ReasonSpecInvalid :: string where
  [const_defs]: "ReasonSpecInvalid = ''SpecInvalid''"

definition ReasonRuntimeResolved :: string where
  [const_defs]: "ReasonRuntimeResolved = ''RuntimeResolved''"

definition ReasonRuntimeNotFound :: string where
  [const_defs]: "ReasonRuntimeNotFound = ''RuntimeNotFound''"

definition ReasonSecretsAvailable :: string where
  [const_defs]: "ReasonSecretsAvailable = ''SecretsAvailable''"

definition ReasonSecretRequired :: string where
  [const_defs]: "ReasonSecretRequired = ''SecretRequired''"

definition ReasonInvalidCachePath :: string where
  [const_defs]: "ReasonInvalidCachePath = ''InvalidCachePath''"

definition ReasonInvalidDrainTimeout :: string where
  [const_defs]: "ReasonInvalidDrainTimeout = ''InvalidDrainTimeout''"

definition ReasonCachePending :: string where
  [const_defs]: "ReasonCachePending = ''CachePending''"

definition ReasonCacheDownloading :: string where
  [const_defs]: "ReasonCacheDownloading = ''CacheDownloading''"

definition ReasonCacheVerified :: string where
  [const_defs]: "ReasonCacheVerified = ''CacheVerified''"

definition ReasonCacheFailed :: string where
  [const_defs]: "ReasonCacheFailed = ''CacheFailed''"

definition ReasonInactive :: string where
  [const_defs]: "ReasonInactive = ''Inactive''"

definition ReasonGPUCapacityReserved :: string where
  [const_defs]: "ReasonGPUCapacityReserved = ''GPUCapacityReserved''"

definition ReasonWaitingForCapacity :: string where
  [const_defs]: "ReasonWaitingForCapacity = ''WaitingForCapacity''"

definition ReasonWaitingForGPU :: string where
  [const_defs]: "ReasonWaitingForGPU = ''WaitingForGPU''"

definition ReasonInsufficientGPU :: string where
  [const_defs]: "ReasonInsufficientGPU = ''InsufficientGPUCapacity''"

definition ReasonInsufficientCompute :: string where
  [const_defs]: "ReasonInsufficientCompute = ''InsufficientComputeCapacity''"

definition ReasonSchedulingBlocked :: string where
  [const_defs]: "ReasonSchedulingBlocked = ''SchedulingConstraintsUnsatisfied''"

definition ReasonReplacementPending :: string where
  [const_defs]: "ReasonReplacementPending = ''ReplacementNotImplemented''"

definition ReasonDrainStarted :: string where
  [const_defs]: "ReasonDrainStarted = ''DrainStarted''"

definition ReasonDrainComplete :: string where
  [const_defs]: "ReasonDrainComplete = ''DrainComplete''"

definition ReasonDeactivationStarted :: string where
  [const_defs]: "ReasonDeactivationStarted = ''DeactivationStarted''"

definition ReasonReplacementStarted :: string where
  [const_defs]: "ReasonReplacementStarted = ''ReplacementStarted''"

definition ReasonReplacementCanceled :: string where
  [const_defs]: "ReasonReplacementCanceled = ''ReplacementCanceled''"

definition ReasonReplacementDraining :: string where
  [const_defs]: "ReasonReplacementDraining = ''ReplacementDraining''"

definition ReasonReplacementActivating :: string where
  [const_defs]: "ReasonReplacementActivating = ''ReplacementActivating''"

definition ReasonReplacementSucceeded :: string where
  [const_defs]: "ReasonReplacementSucceeded = ''ReplacementSucceeded''"

definition ReasonReplacementUnsupported :: string where
  [const_defs]: "ReasonReplacementUnsupported = ''ReplacementUnsupported''"

definition ReasonReplacementNoCandidate :: string where
  [const_defs]: "ReasonReplacementNoCandidate = ''ReplacementNoCandidate''"

definition ReasonReplacementDisplaced :: string where
  [const_defs]: "ReasonReplacementDisplaced = ''ReplacedByWorkload''"

definition ReasonReplacementActivationFailed :: string where
  [const_defs]: "ReasonReplacementActivationFailed = ''ReplacementActivationFailed''"

definition ReasonReplacementRollbackStarted :: string where
  [const_defs]: "ReasonReplacementRollbackStarted = ''ReplacementRollbackStarted''"

definition ReasonReplacementRolledBack :: string where
  [const_defs]: "ReasonReplacementRolledBack = ''ReplacementRolledBack''"

definition ReasonReplacementRollbackFailed :: string where
  [const_defs]: "ReasonReplacementRollbackFailed = ''ReplacementRollbackFailed''"

definition ReasonRuntimeCreating :: string where
  [const_defs]: "ReasonRuntimeCreating = ''RuntimeCreating''"

definition ReasonRuntimeReady :: string where
  [const_defs]: "ReasonRuntimeReady = ''RuntimeReady''"

definition ReasonRuntimeUnavailable :: string where
  [const_defs]: "ReasonRuntimeUnavailable = ''RuntimeUnavailable''"

definition ReasonIdleScaledToZero :: string where
  [const_defs]: "ReasonIdleScaledToZero = ''IdleScaledToZero''"

definition ReasonScalingMetricsUnavailable :: string where
  [const_defs]: "ReasonScalingMetricsUnavailable = ''ScalingMetricsUnavailable''"

definition ReasonScalingCapacityCapped :: string where
  [const_defs]: "ReasonScalingCapacityCapped = ''ScalingCapacityCapped''"

definition ReasonRolloutCapacityReserved :: string where
  [const_defs]: "ReasonRolloutCapacityReserved = ''RolloutCapacityReserved''"

definition ReasonRolloutComplete :: string where
  [const_defs]: "ReasonRolloutComplete = ''RolloutComplete''"

definition ReasonRolloutWaitingForCapacity :: string where
  [const_defs]: "ReasonRolloutWaitingForCapacity = ''RolloutWaitingForCapacity''"

definition ReasonRolloutRejected :: string where
  [const_defs]: "ReasonRolloutRejected = ''RolloutRejected''"

definition ReasonRouteEnabled :: string where
  [const_defs]: "ReasonRouteEnabled = ''RouteEnabled''"

definition ReasonRouteDisabled :: string where
  [const_defs]: "ReasonRouteDisabled = ''RouteDisabled''"

section \<open>Condition types and reasons of ModelCache\<close>

definition CacheConditionSpecValid :: string where
  [const_defs]: "CacheConditionSpecValid = ''SpecValid''"

definition CacheConditionPlaced :: string where
  [const_defs]: "CacheConditionPlaced = ''Placed''"

definition CacheConditionDownloaded :: string where
  [const_defs]: "CacheConditionDownloaded = ''Downloaded''"

definition CacheConditionVerified :: string where
  [const_defs]: "CacheConditionVerified = ''Verified''"

definition CacheConditionReady :: string where
  [const_defs]: "CacheConditionReady = ''Ready''"

definition CacheReasonSpecValidated :: string where
  [const_defs]: "CacheReasonSpecValidated = ''SpecValidated''"

definition CacheReasonSpecInvalid :: string where
  [const_defs]: "CacheReasonSpecInvalid = ''SpecInvalid''"

definition CacheReasonPlaced :: string where
  [const_defs]: "CacheReasonPlaced = ''Placed''"

definition CacheReasonNoEligibleNode :: string where
  [const_defs]: "CacheReasonNoEligibleNode = ''NoEligibleNode''"

definition CacheReasonPinnedNodeUnavailable :: string where
  [const_defs]: "CacheReasonPinnedNodeUnavailable = ''PinnedNodeUnavailable''"

definition CacheReasonDownloadRunning :: string where
  [const_defs]: "CacheReasonDownloadRunning = ''DownloadRunning''"

definition CacheReasonDownloadSucceeded :: string where
  [const_defs]: "CacheReasonDownloadSucceeded = ''DownloadSucceeded''"

definition CacheReasonDownloadFailed :: string where
  [const_defs]: "CacheReasonDownloadFailed = ''DownloadFailed''"

definition CacheReasonVerified :: string where
  [const_defs]: "CacheReasonVerified = ''Verified''"

definition CacheReasonCacheReady :: string where
  [const_defs]: "CacheReasonCacheReady = ''CacheReady''"

definition CacheReasonCacheFailed :: string where
  [const_defs]: "CacheReasonCacheFailed = ''CacheFailed''"

definition CacheReasonInsufficientCapacity :: string where
  [const_defs]: "CacheReasonInsufficientCapacity = ''InsufficientCapacity''"

definition CacheReasonPathConflict :: string where
  [const_defs]: "CacheReasonPathConflict = ''PathConflict''"

definition CacheReasonNodeLost :: string where
  [const_defs]: "CacheReasonNodeLost = ''NodeLost''"

definition CacheReasonIdentityChanged :: string where
  [const_defs]: "CacheReasonIdentityChanged = ''CacheIdentityChanged''"

definition CacheReasonSecretNotFound :: string where
  [const_defs]: "CacheReasonSecretNotFound = ''SecretNotFound''"

definition CacheReasonSecretKeyMissing :: string where
  [const_defs]: "CacheReasonSecretKeyMissing = ''SecretKeyMissing''"

section \<open>Constants of ModelRuntime\<close>

definition ModelRuntimeProtocolOpenAI :: string where
  [const_defs]: "ModelRuntimeProtocolOpenAI = ''openai''"

definition RuntimeConditionReady :: string where
  [const_defs]: "RuntimeConditionReady = ''Ready''"

definition RuntimeReasonValidated :: string where
  [const_defs]: "RuntimeReasonValidated = ''RuntimeValidated''"

definition RuntimeReasonInvalid :: string where
  [const_defs]: "RuntimeReasonInvalid = ''RuntimeInvalid''"

section \<open>Enumerations\<close>

datatype ReplacementPhase =
    ReplacementPhaseUnset
  | ReplacementPhaseDraining
  | ReplacementPhaseActivating
  | ReplacementPhaseSucceeded
  | ReplacementPhaseDisplaced
  | ReplacementPhaseRollingBack
  | ReplacementPhaseRolledBack
  | ReplacementPhaseRollbackFailed
  | ReplacementPhaseOther string

datatype ModelDeploymentPhase =
    ModelDeploymentPhaseUnset
  | ModelDeploymentPhasePending
  | ModelDeploymentPhaseDownloading
  | ModelDeploymentPhaseCached
  | ModelDeploymentPhaseWaitingForCapacity
  | ModelDeploymentPhaseWaitingForGPU
  | ModelDeploymentPhaseActivating
  | ModelDeploymentPhaseActive
  | ModelDeploymentPhaseDraining
  | ModelDeploymentPhaseDeactivating
  | ModelDeploymentPhaseFailed
  | ModelDeploymentPhaseOther string

datatype ActivationDesiredState =
    ActivationDesiredStateUnset
  | ActivationDesiredStateInactive
  | ActivationDesiredStateActive
  | ActivationDesiredStateOther string

datatype ActivationWhenFull =
    ActivationWhenFullUnset
  | ActivationWhenFullQueue
  | ActivationWhenFullReject
  | ActivationWhenFullReplaceOldest
  | ActivationWhenFullReplaceLowestPriority
  | ActivationWhenFullOther string

datatype RoutingStrategy =
    RoutingStrategyUnset
  | RoutingStrategyLeastLoaded
  | RoutingStrategyWeighted
  | RoutingStrategyOther string

datatype RolloutStrategy =
    RolloutStrategyUnset
  | RolloutStrategyRecreate
  | RolloutStrategyRolling
  | RolloutStrategyBlueGreen
  | RolloutStrategyCanary
  | RolloutStrategyOther string

datatype RolloutWhenCapacityUnavailable =
    RolloutWhenCapacityUnavailableUnset
  | RolloutWhenCapacityUnavailableQueue
  | RolloutWhenCapacityUnavailableReject
  | RolloutWhenCapacityUnavailableOther string

datatype ModelCachePhase =
    ModelCachePhaseUnset
  | ModelCachePhasePending
  | ModelCachePhaseDownloading
  | ModelCachePhaseReady
  | ModelCachePhaseFailed
  | ModelCachePhaseOther string

datatype ModelRuntimePhase =
    ModelRuntimePhaseUnset
  | ModelRuntimePhasePending
  | ModelRuntimePhaseReady
  | ModelRuntimePhaseUnavailable
  | ModelRuntimePhaseFailed
  | ModelRuntimePhaseOther string

section \<open>ModelDeployment\<close>

record ModelSpec =
  msName :: string
  msSource :: string
  msRepo :: string
  msRevision :: string

record RuntimeSpec =
  rsRef :: string
  rsImage :: string
  rsDType :: string
  rsMaxModelLen :: int
  rsTensorParallelSize :: int
  rsGPUMemoryUtilization :: rat

record GPUResourceRequest =
  grCount :: int
  grVendor :: string
  grType :: string

record ResourceRequirements =
  rrCPU :: string
  rrMemory :: string
  rrGPU :: "GPUResourceRequest option"

record ActivationSpec =
  asDesiredState :: ActivationDesiredState
  asWhenFull :: ActivationWhenFull
  asPriority :: int
  asDrainTimeout :: string

record ScalingSpec =
  scMinReplicas :: int
  scMaxReplicas :: int
  scTargetPendingRequests :: int
  scIdleTimeout :: string

record RateLimitSpec =
  rlRequestsPerMinute :: int
  rlBurst :: int

record RequestLoggingPolicy =
  lpEnabled :: "bool option"

record RoutingPolicySpec =
  rpRoutingStrategy :: RoutingStrategy
  rpWeight :: "int option"
  rpRateLimit :: "RateLimitSpec option"
  rpRequestLogging :: RequestLoggingPolicy

record RoutingSpec =
  roEnabled :: bool
  roPath :: string
  roOpenAICompatible :: bool
  roPolicy :: RoutingPolicySpec

record CacheSpec =
  csEnabled :: bool
  csType :: string
  csSize :: string
  csPath :: string

record SecretReferences =
  srHuggingFaceTokenSecretName :: string

record Toleration =
  toKey :: string
  toOperator :: string
  toValue :: string
  toEffect :: string
  toTolerationSeconds :: "int option"

record TopologySpreadConstraint =
  tsMaxSkew :: int
  tsTopologyKey :: string
  tsWhenUnsatisfiable :: string

record SchedulingSpec =
  ssNodeSelector :: string_map
  ssTolerations :: "Toleration list"
  ssTopologySpreadConstraints :: "TopologySpreadConstraint list"

record PodDisruptionBudgetSpec =
  pbEnabled :: "bool option"
  pbMinAvailable :: "int option"

record AvailabilitySpec =
  avPodDisruptionBudget :: PodDisruptionBudgetSpec

record RolloutSpec =
  roStrategy :: RolloutStrategy
  roWhenCapacityUnavailable :: RolloutWhenCapacityUnavailable
  roCanaryWeightPercent :: "int option"

record ModelDeploymentSpec =
  dsModel :: ModelSpec
  dsRuntime :: RuntimeSpec
  dsResources :: ResourceRequirements
  dsActivation :: ActivationSpec
  dsScaling :: ScalingSpec
  dsRouting :: RoutingSpec
  dsCache :: CacheSpec
  dsSecrets :: SecretReferences
  dsScheduling :: SchedulingSpec
  dsAvailability :: AvailabilitySpec
  dsRollout :: RolloutSpec

record ReplacementReference =
  rfNamespace :: string
  rfName :: string
  rfUID :: string

record ReplacementStatus =
  rtPhase :: ReplacementPhase
  rtRequestGeneration :: int
  rtTarget :: "ReplacementReference option"
  rtRequestedBy :: "ReplacementReference option"
  rtStartedAt :: "time option"
  rtMessage :: string

record ModelCacheSummary =
  cuState :: string
  cuNodeName :: string
  cuPath :: string

record ReplicaStatus =
  rcDesired :: int
  rcReady :: int

record ScalingStatus =
  stDesiredReplicas :: int
  stPendingRequests :: int
  stRunningRequests :: int
  stLastActivityTime :: "time option"
  stCapacityLimited :: bool
  stReason :: string
  stMessage :: string

record ModelStatus =
  moLoaded :: bool
  moRepo :: string

record ModelDeploymentStatus =
  dtObservedGeneration :: int
  dtPhase :: ModelDeploymentPhase
  dtEndpoint :: string
  dtServiceName :: string
  dtAssignedNode :: string
  dtAssignedGPUs :: "string list"
  dtDrainStartedAt :: "time option"
  dtReplacement :: "ReplacementStatus option"
  dtCache :: ModelCacheSummary
  dtReplicas :: ReplicaStatus
  dtScaling :: ScalingStatus
  dtModel :: ModelStatus
  dtConditions :: "Condition list"

record ModelDeployment =
  mdMeta :: ObjectMeta
  mdSpec :: ModelDeploymentSpec
  mdStatus :: ModelDeploymentStatus

section \<open>ModelCache\<close>

record ModelCacheStorage =
  cgType :: string
  cgSize :: string
  cgNodeName :: string
  cgNodeSelector :: string_map
  cgTolerations :: "Toleration list"
  cgPath :: string

record ModelCacheSpec =
  cpModelRepo :: string
  cpRevision :: string
  cpStorage :: ModelCacheStorage
  cpSecretRef :: string

record ModelCacheStatus =
  ctObservedGeneration :: int
  ctPhase :: ModelCachePhase
  ctRevision :: string
  ctChecksum :: string
  ctNodeName :: string
  ctNodeUID :: string
  ctPath :: string
  ctSize :: string
  ctReservedSize :: string
  ctInputHash :: string
  ctLastUsedTime :: time
  ctConditions :: "Condition list"

record ModelCache =
  mcMeta :: ObjectMeta
  mcSpec :: ModelCacheSpec
  mcStatus :: ModelCacheStatus

section \<open>ModelRuntime\<close>

record ModelRuntimeSpec =
  reEngine :: string
  reProtocol :: string
  reDefaultImage :: string
  rePort :: int
  reHealthPath :: string
  reReadinessPath :: string
  reMetricsPath :: string
  reCommand :: "string list"
  reArgs :: "string list"
  reEnv :: string_map

record ModelRuntimeStatus =
  ruObservedGeneration :: int
  ruPhase :: ModelRuntimePhase
  ruConditions :: "Condition list"

record ModelRuntime =
  mrMeta :: ObjectMeta
  mrSpec :: ModelRuntimeSpec
  mrStatus :: ModelRuntimeStatus

section \<open>Group and version\<close>

definition GroupVersion :: string where
  [const_defs]: "GroupVersion = ''inference.inferops.dev/v1alpha1''"

section \<open>Accessors\<close>

abbreviation mdName :: "ModelDeployment \<Rightarrow> string" where
  "mdName d \<equiv> omName (mdMeta d)"

abbreviation mdNamespace :: "ModelDeployment \<Rightarrow> string" where
  "mdNamespace d \<equiv> omNamespace (mdMeta d)"

abbreviation mcName :: "ModelCache \<Rightarrow> string" where
  "mcName c \<equiv> omName (mcMeta c)"

abbreviation mcUID :: "ModelCache \<Rightarrow> string" where
  "mcUID c \<equiv> omUID (mcMeta c)"

end
