(* ===== verification/Registry.thy ===== *)
theory Registry
  imports Route_Paths Api_Types
begin

text \<open>
  \<open>gateway/internal/routing/router.go\<close>: the gateway's model registry. A registry holds, per route
  prefix, the backends that share it, the prefixes in matching order, and the scores of the smooth
  weighted round robin. This theory holds the operations, the invariant of the registry and its
  preservation by every operation; the theory \<open>Registry_Selection\<close> holds what a request gets from it.

  The mutex makes each method atomic, so a method is a function from the registry before to the
  registry after; cloning a backend is the identity on values. A Go map keyed by prefix is an
  association list with distinct keys; every method sorts what it takes from a map, so the
  iteration order of the map is not observable.
\<close>

section \<open>Backends\<close>

datatype State =
    StateInactive
  | StateActivating
  | StateReady
  | StateUnavailable
  | StateDraining
  | StateOther string

text \<open>The fields of \<open>url.URL\<close> that the gateway reads or sets.\<close>

record URL =
  uScheme :: string
  uHost :: string
  uPath :: string
  uRawPath :: string

record RateLimitPolicy =
  lmRequestsPerMinute :: int
  lmBurst :: int

record TrafficPolicy =
  tpRoutingStrategy :: RoutingStrategy
  tpWeight :: "int option"
  tpRateLimit :: "RateLimitPolicy option"
  tpRequestLogging :: "RequestLoggingPolicy option"

record Backend =
  bName :: string
  bNamespace :: string
  bRoutePrefix :: string
  bEndpoint :: "URL option"
  bState :: State
  bMessage :: string
  bPolicy :: TrafficPolicy

record backendKey =
  bkNamespace :: string
  bkName :: string

definition DefaultTrafficWeight :: int where
  "DefaultTrafficWeight = 100"

definition effectiveWeight :: "Backend \<Rightarrow> int" where
  "effectiveWeight b = (case tpWeight (bPolicy b) of None \<Rightarrow> DefaultTrafficWeight | Some weight \<Rightarrow> weight)"

definition identity :: "Backend \<Rightarrow> backendKey" where
  "identity b = \<lparr>bkNamespace = bNamespace b, bkName = bName b\<rparr>"

definition zeroBackend :: Backend where
  "zeroBackend = \<lparr>bName = [], bNamespace = [], bRoutePrefix = [], bEndpoint = None, bState = StateOther [],
     bMessage = [], bPolicy = \<lparr>tpRoutingStrategy = RoutingStrategyUnset, tpWeight = None, tpRateLimit = None,
       tpRequestLogging = None\<rparr>\<rparr>"

section \<open>Paths\<close>

definition DefaultRoutePrefix :: "string \<Rightarrow> string" where
  "DefaultRoutePrefix model = DefaultModelRoute model"

definition ParseModelPath :: "string \<Rightarrow> (string \<times> string) option" where
  "ParseModelPath requestPath =
     (if \<not> has_prefix requestPath DefaultModelPrefix then None
      else
        let remainder = trim_prefix requestPath DefaultModelPrefix;
            separator = index_byte remainder CHR ''/''
        in if separator \<le> 0 then None
           else
             let model = take (nat separator) remainder
             in if model = ''.'' \<or> model = ''..'' then None
                else Some (model, drop (nat separator) remainder))"

section \<open>Normalisation of backends\<close>

datatype registry_error =
    BackendNameRequired
  | BackendNameNotSegment string
  | BackendRouteInvalid string route_error
  | BackendStateInvalid string State
  | BackendEndpointRequired string
  | BackendEndpointScheme string
  | BackendStrategyUnsupported string RoutingStrategy
  | BackendWeightNegative string
  | BackendRateNegative string
  | BackendBurstNegative string
  | DuplicateBackend string string string

definition normalizeTrafficPolicy :: "string \<Rightarrow> TrafficPolicy \<Rightarrow> (registry_error, TrafficPolicy) result" where
  "normalizeTrafficPolicy model policy =
     bind_result
       (if tpRoutingStrategy policy = RoutingStrategyUnset \<or> tpRoutingStrategy policy = RoutingStrategyLeastLoaded
          then Inr (policy\<lparr>tpRoutingStrategy := RoutingStrategyLeastLoaded\<rparr>)
        else if tpRoutingStrategy policy = RoutingStrategyWeighted then Inr policy
        else Inl (BackendStrategyUnsupported model (tpRoutingStrategy policy)))
       (\<lambda>policy.
          if (case tpWeight policy of Some weight \<Rightarrow> weight < 0 | None \<Rightarrow> False)
            then Inl (BackendWeightNegative model)
          else (case tpRateLimit policy of
                  None \<Rightarrow> Inr policy
                | Some rateLimit \<Rightarrow>
                    if lmRequestsPerMinute rateLimit < 0 then Inl (BackendRateNegative model)
                    else if lmBurst rateLimit < 0 then Inl (BackendBurstNegative model)
                    else Inr policy))"

definition endpointError :: "Backend \<Rightarrow> registry_error option" where
  "endpointError backend =
     (if bState backend \<noteq> StateReady then None
      else (case bEndpoint backend of
              None \<Rightarrow> Some (BackendEndpointRequired (bName backend))
            | Some endpoint \<Rightarrow>
                if uScheme endpoint = [] \<or> uHost endpoint = [] then Some (BackendEndpointRequired (bName backend))
                else if uScheme endpoint \<noteq> ''http'' \<and> uScheme endpoint \<noteq> ''https''
                  then Some (BackendEndpointScheme (bName backend))
                else None))"

definition normalizeBackend :: "Backend \<Rightarrow> (registry_error, Backend) result" where
  "normalizeBackend backend0 =
     (let name = trim_space (bName backend0)
      in if name = [] then Inl BackendNameRequired
         else if contains_char name CHR ''/'' then Inl (BackendNameNotSegment name)
         else
           let prefix = (if bRoutePrefix backend0 = [] then DefaultRoutePrefix name else bRoutePrefix backend0)
           in (case Normalize prefix of
                 Inl err \<Rightarrow> Inl (BackendRouteInvalid name err)
               | Inr normalizedPrefix \<Rightarrow>
                   let backend = backend0\<lparr>bName := name, bRoutePrefix := normalizedPrefix\<rparr>
                   in if \<not> (case bState backend of StateOther _ \<Rightarrow> False | _ \<Rightarrow> True)
                        then Inl (BackendStateInvalid name (bState backend))
                      else (case endpointError backend of
                              Some err \<Rightarrow> Inl err
                            | None \<Rightarrow> bind_result (normalizeTrafficPolicy name (bPolicy backend))
                                        (\<lambda>policy. Inr (backend\<lparr>bPolicy := policy\<rparr>)))))"

definition normalizeRoutePrefix :: "string \<Rightarrow> string" where
  "normalizeRoutePrefix prefix = (case Normalize prefix of Inl _ \<Rightarrow> [] | Inr normalized \<Rightarrow> normalized)"

definition backendLess :: "Backend \<Rightarrow> Backend \<Rightarrow> bool" where
  "backendLess left right =
     (if bNamespace left = bNamespace right then bName left < bName right
      else bNamespace left < bNamespace right)"

definition sortBackends :: "Backend list \<Rightarrow> Backend list" where
  "sortBackends backends = sort_by backendLess backends"

section \<open>The registry\<close>

record MemoryRegistry =
  mrRoutes :: "(string \<times> Backend list) list"
  mrPrefixes :: "string list"
  mrRR :: "string \<Rightarrow> (backendKey \<Rightarrow> int option) option"

definition NewMemoryRegistry :: MemoryRegistry where
  "NewMemoryRegistry = \<lparr>mrRoutes = [], mrPrefixes = [], mrRR = (\<lambda>_. None)\<rparr>"

definition routesAt :: "(string \<times> Backend list) list \<Rightarrow> string \<Rightarrow> Backend list" where
  "routesAt routes prefix = (case map_of routes prefix of None \<Rightarrow> [] | Some candidates \<Rightarrow> candidates)"

definition scoreAt :: "(string \<Rightarrow> (backendKey \<Rightarrow> int option) option) \<Rightarrow> string \<Rightarrow> backendKey \<Rightarrow> int" where
  "scoreAt rr prefix key =
     (case rr prefix of None \<Rightarrow> 0 | Some scores \<Rightarrow> (case scores key of None \<Rightarrow> 0 | Some s \<Rightarrow> s))"

definition prefixLess :: "string \<Rightarrow> string \<Rightarrow> bool" where
  "prefixLess p q = (if length p = length q then p < q else length p > length q)"

definition rebuildPrefixes :: "MemoryRegistry \<Rightarrow> MemoryRegistry" where
  "rebuildPrefixes r = r\<lparr>mrPrefixes := sort_by prefixLess (map fst (mrRoutes r))\<rparr>"

definition setScore ::
  "(string \<Rightarrow> (backendKey \<Rightarrow> int option) option) \<Rightarrow> string \<Rightarrow> backendKey \<Rightarrow> int \<Rightarrow>
   (string \<Rightarrow> (backendKey \<Rightarrow> int option) option)" where
  "setScore rr prefix key v =
     rr(prefix := Some ((case rr prefix of None \<Rightarrow> (\<lambda>_. None) | Some scores \<Rightarrow> scores)(key := Some v)))"

text \<open>The two loops of \<open>weightedBackendLocked\<close>: add the weights, then take the first maximal score.\<close>

fun addWeights ::
  "string \<Rightarrow> Backend list \<Rightarrow> (string \<Rightarrow> (backendKey \<Rightarrow> int option) option) \<times> int \<Rightarrow>
   (string \<Rightarrow> (backendKey \<Rightarrow> int option) option) \<times> int" where
  "addWeights prefix [] (rr, totalWeight) = (rr, totalWeight)"
| "addWeights prefix (candidate # candidates) (rr, totalWeight) =
     addWeights prefix candidates
       (setScore rr prefix (identity candidate)
          (wrap64 (scoreAt rr prefix (identity candidate) + effectiveWeight candidate)),
        wrap64 (totalWeight + effectiveWeight candidate))"

fun chooseMax :: "(backendKey \<Rightarrow> int) \<Rightarrow> Backend \<Rightarrow> Backend list \<Rightarrow> Backend" where
  "chooseMax score chosen [] = chosen"
| "chooseMax score chosen (candidate # candidates) =
     chooseMax score (if score (identity candidate) > score (identity chosen) then candidate else chosen) candidates"

definition weightedBackendLocked :: "MemoryRegistry \<Rightarrow> string \<Rightarrow> Backend list \<Rightarrow> MemoryRegistry \<times> Backend" where
  "weightedBackendLocked r prefix candidates =
     (if length candidates = 1 then (r, hd candidates)
      else
        let (rr, totalWeight) = addWeights prefix candidates (mrRR r, 0);
            chosen = chooseMax (scoreAt rr prefix) (hd candidates) (tl candidates)
        in (r\<lparr>mrRR := setScore rr prefix (identity chosen)
                          (wrap64 (scoreAt rr prefix (identity chosen) - totalWeight))\<rparr>, chosen))"

definition noPositiveWeightBackend :: "Backend list \<Rightarrow> Backend" where
  "noPositiveWeightBackend candidates =
     (case List.find (\<lambda>c. bState c = StateReady) candidates of
        Some candidate \<Rightarrow>
          candidate\<lparr>bState := StateUnavailable, bEndpoint := None,
            bMessage := ''model route has no positive traffic weight''\<rparr>
      | None \<Rightarrow> hd candidates)"

definition routeStrategy :: "Backend list \<Rightarrow> RoutingStrategy" where
  "routeStrategy candidates =
     (if list_ex (\<lambda>c. tpRoutingStrategy (bPolicy c) = RoutingStrategyWeighted) candidates
        then RoutingStrategyWeighted else RoutingStrategyLeastLoaded)"

text \<open>The loop over the ready candidates; \<open>None\<close> is the state before the first iteration.\<close>

fun leastLoadedLoop :: "(Backend \<Rightarrow> int) \<Rightarrow> int option \<Rightarrow> Backend list \<Rightarrow> Backend list \<Rightarrow> Backend list" where
  "leastLoadedLoop load minLoad acc [] = acc"
| "leastLoadedLoop load minLoad acc (candidate # candidates) =
     (let current = load candidate;
          smaller = (case minLoad of None \<Rightarrow> True | Some m \<Rightarrow> current < m);
          minLoad' = (if smaller then current else the minLoad);
          acc' = (if smaller then [] else acc)
      in leastLoadedLoop load (Some minLoad')
           (if current = minLoad' then acc' @ [candidate] else acc') candidates)"

definition readyCandidates :: "Backend list \<Rightarrow> Backend list" where
  "readyCandidates candidates = filter (\<lambda>c. bState c = StateReady \<and> effectiveWeight c > 0) candidates"

definition selectBackendLocked ::
  "MemoryRegistry \<Rightarrow> string \<Rightarrow> (Backend \<Rightarrow> int) option \<Rightarrow> MemoryRegistry \<times> Backend" where
  "selectBackendLocked r prefix load =
     (let candidates = routesAt (mrRoutes r) prefix;
          ready = readyCandidates candidates
      in if candidates = [] then (r, zeroBackend)
         else if ready = [] then (r, noPositiveWeightBackend candidates)
         else if length ready = 1 then (r, hd ready)
         else (case load of
                 None \<Rightarrow> weightedBackendLocked r prefix ready
               | Some load \<Rightarrow>
                   if routeStrategy ready = RoutingStrategyWeighted then weightedBackendLocked r prefix ready
                   else weightedBackendLocked r prefix (leastLoadedLoop load None [] ready)))"

definition routeMatches :: "string \<Rightarrow> string \<Rightarrow> bool" where
  "routeMatches requestPath prefix \<longleftrightarrow> requestPath = prefix \<or> has_prefix requestPath (prefix @ ''/'')"

definition Select ::
  "MemoryRegistry \<Rightarrow> string \<Rightarrow> (Backend \<Rightarrow> int) option \<Rightarrow> MemoryRegistry \<times> (Backend \<times> string) option" where
  "Select r requestPath load =
     (case List.find (routeMatches requestPath) (mrPrefixes r) of
        None \<Rightarrow> (r, None)
      | Some prefix \<Rightarrow>
          let (r', backend) = selectBackendLocked r prefix load;
              upstreamPath = trim_prefix requestPath prefix
          in (r', Some (backend, if upstreamPath = [] then ''/'' else upstreamPath)))"

definition Lookup :: "MemoryRegistry \<Rightarrow> string \<Rightarrow> MemoryRegistry \<times> (Backend \<times> string) option" where
  "Lookup r requestPath = Select r requestPath None"

fun replaceIdentity :: "Backend \<Rightarrow> Backend list \<Rightarrow> Backend list option" where
  "replaceIdentity normalized [] = None"
| "replaceIdentity normalized (candidate # candidates) =
     (if identity candidate = identity normalized then Some (normalized # candidates)
      else map_option ((#) candidate) (replaceIdentity normalized candidates))"

definition Upsert :: "MemoryRegistry \<Rightarrow> Backend \<Rightarrow> MemoryRegistry \<times> registry_error option" where
  "Upsert r backend =
     (case normalizeBackend backend of
        Inl err \<Rightarrow> (r, Some err)
      | Inr normalized \<Rightarrow>
          let prefix = bRoutePrefix normalized;
              candidates = routesAt (mrRoutes r) prefix;
              updated = (case replaceIdentity normalized candidates of
                           Some replaced \<Rightarrow> replaced
                         | None \<Rightarrow> candidates @ [normalized])
          in (rebuildPrefixes (r\<lparr>mrRoutes := AList.update prefix (sortBackends updated) (mrRoutes r)\<rparr>), None))"

definition DeleteRoute :: "MemoryRegistry \<Rightarrow> string \<Rightarrow> MemoryRegistry" where
  "DeleteRoute r routePrefix =
     (let prefix = normalizeRoutePrefix routePrefix
      in rebuildPrefixes (r\<lparr>mrRoutes := AList.delete prefix (mrRoutes r), mrRR := (mrRR r)(prefix := None)\<rparr>))"

definition Backends :: "MemoryRegistry \<Rightarrow> Backend list" where
  "Backends r = concat (map (routesAt (mrRoutes r)) (mrPrefixes r))"

definition pruneRoundRobinLocked :: "MemoryRegistry \<Rightarrow> MemoryRegistry" where
  "pruneRoundRobinLocked r =
     r\<lparr>mrRR := (\<lambda>prefix.
         let candidates = routesAt (mrRoutes r) prefix
         in if candidates = [] then None
            else map_option (\<lambda>scores key. if key \<in> set (map identity candidates) then scores key else None)
                   (mrRR r prefix))\<rparr>"

fun groupBackends ::
  "(string \<times> Backend list) list \<Rightarrow> (string \<times> backendKey) list \<Rightarrow> Backend list \<Rightarrow>
   (string \<times> Backend list) list \<times> registry_error list" where
  "groupBackends grouped seen [] = (grouped, [])"
| "groupBackends grouped seen (backend # backends) =
     (case normalizeBackend backend of
        Inl err \<Rightarrow>
          let (grouped', errs) = groupBackends grouped seen backends in (grouped', err # errs)
      | Inr normalized \<Rightarrow>
          let prefix = bRoutePrefix normalized; key = identity normalized
          in if (prefix, key) \<in> set seen then
               let (grouped', errs) = groupBackends grouped seen backends
               in (grouped', DuplicateBackend prefix (bNamespace normalized) (bName normalized) # errs)
             else
               groupBackends (AList.update prefix (routesAt grouped prefix @ [normalized]) grouped)
                 ((prefix, key) # seen) backends)"

definition Replace :: "MemoryRegistry \<Rightarrow> Backend list \<Rightarrow> MemoryRegistry \<times> registry_error list" where
  "Replace r backends =
     (let (grouped, errs) = groupBackends [] [] backends;
          nextRoutes = map (\<lambda>(prefix, candidates). (prefix, sortBackends candidates)) grouped
      in (rebuildPrefixes (pruneRoundRobinLocked (r\<lparr>mrRoutes := nextRoutes\<rparr>)), errs))"

definition markUnavailable :: "string \<Rightarrow> Backend \<Rightarrow> Backend" where
  "markUnavailable message backend =
     (if bState backend \<noteq> StateReady then backend
      else backend\<lparr>bState := StateUnavailable, bEndpoint := None, bMessage := message\<rparr>)"

definition MarkReadyUnavailable :: "MemoryRegistry \<Rightarrow> string \<Rightarrow> MemoryRegistry" where
  "MarkReadyUnavailable r message0 =
     (let message = (if trim_space message0 = [] then ''model registry is unavailable'' else message0)
      in r\<lparr>mrRoutes := map (\<lambda>(prefix, candidates). (prefix, map (markUnavailable message) candidates)) (mrRoutes r)\<rparr>)"

section \<open>The invariant\<close>

definition backend_ok :: "string \<Rightarrow> Backend \<Rightarrow> bool" where
  "backend_ok prefix b \<longleftrightarrow>
     bRoutePrefix b = prefix \<and> bName b \<noteq> [] \<and> CHR ''/'' \<notin> set (bName b) \<and>
     (\<forall>s. bState b \<noteq> StateOther s) \<and> endpointError b = None \<and> effectiveWeight b \<ge> 0 \<and>
     tpRoutingStrategy (bPolicy b) \<in> {RoutingStrategyLeastLoaded, RoutingStrategyWeighted}"

definition route_ok :: "string \<times> Backend list \<Rightarrow> bool" where
  "route_ok route \<longleftrightarrow>
     (case route of (prefix, candidates) \<Rightarrow>
        Normalize prefix = Inr prefix \<and> candidates \<noteq> [] \<and> distinct (map identity candidates) \<and>
        (\<forall>b \<in> set candidates. backend_ok prefix b))"

definition reg_ok :: "MemoryRegistry \<Rightarrow> bool" where
  "reg_ok r \<longleftrightarrow>
     distinct (map fst (mrRoutes r)) \<and> (\<forall>route \<in> set (mrRoutes r). route_ok route) \<and>
     mrPrefixes r = sort_by prefixLess (map fst (mrRoutes r))"

section \<open>Lemmas on normalisation\<close>

lemma normalizeTrafficPolicy_ok:
  assumes "normalizeTrafficPolicy m policy = Inr policy'"
  shows "tpRoutingStrategy policy' \<in> {RoutingStrategyLeastLoaded, RoutingStrategyWeighted}"
    and "(case tpWeight policy' of Some w \<Rightarrow> w | None \<Rightarrow> DefaultTrafficWeight) \<ge> 0"
    and "tpWeight policy' = tpWeight policy" "tpRateLimit policy' = tpRateLimit policy"
    and "tpRequestLogging policy' = tpRequestLogging policy"
  using assms
  by (auto simp: normalizeTrafficPolicy_def bind_result_Inr_iff DefaultTrafficWeight_def
      split: if_splits option.splits)

lemma normalizeBackend_InrE:
  assumes "normalizeBackend b = Inr n"
  obtains prefix policy where
    "n = b\<lparr>bName := trim_space (bName b), bRoutePrefix := prefix, bPolicy := policy\<rparr>"
    "Normalize (if bRoutePrefix b = [] then DefaultRoutePrefix (trim_space (bName b)) else bRoutePrefix b) = Inr prefix"
    "trim_space (bName b) \<noteq> []" "CHR ''/'' \<notin> set (trim_space (bName b))" "\<forall>s. bState b \<noteq> StateOther s"
    "endpointError (b\<lparr>bName := trim_space (bName b), bRoutePrefix := prefix\<rparr>) = None"
    "normalizeTrafficPolicy (trim_space (bName b)) (bPolicy b) = Inr policy"
  using assms
  by (auto simp: normalizeBackend_def Let_def bind_result_Inr_iff contains_char_def
      split: if_splits sum.splits option.splits State.splits)

lemma endpointError_cong:
  "bState a = bState b \<Longrightarrow> bEndpoint a = bEndpoint b \<Longrightarrow> endpointError a = None \<longleftrightarrow> endpointError b = None"
  by (auto simp: endpointError_def split: option.splits)

lemma normalizeBackend_ok:
  assumes "normalizeBackend b = Inr n"
  shows "backend_ok (bRoutePrefix n) n" and "Normalize (bRoutePrefix n) = Inr (bRoutePrefix n)"
proof -
  obtain prefix policy where n: "n = b\<lparr>bName := trim_space (bName b), bRoutePrefix := prefix, bPolicy := policy\<rparr>"
    "Normalize (if bRoutePrefix b = [] then DefaultRoutePrefix (trim_space (bName b)) else bRoutePrefix b) = Inr prefix"
    "trim_space (bName b) \<noteq> []" "CHR ''/'' \<notin> set (trim_space (bName b))" "\<forall>s. bState b \<noteq> StateOther s"
    "endpointError (b\<lparr>bName := trim_space (bName b), bRoutePrefix := prefix\<rparr>) = None"
    "normalizeTrafficPolicy (trim_space (bName b)) (bPolicy b) = Inr policy"
    using assms by (rule normalizeBackend_InrE)
  have "endpointError n = None" using n(6) endpointError_cong [of n "b\<lparr>bName := trim_space (bName b), bRoutePrefix := prefix\<rparr>"]
    unfolding n(1) by simp
  then show "backend_ok (bRoutePrefix n) n"
    using n(1,3,4,5) normalizeTrafficPolicy_ok [OF n(7)]
    by (simp add: backend_ok_def effectiveWeight_def split: option.splits)
  show "Normalize (bRoutePrefix n) = Inr (bRoutePrefix n)"
    using n(1) Normalize_idem [OF n(2)] by simp
qed

section \<open>Lemmas on the orders\<close>

lemma backendLess_keys: "backendLess = less_then bNamespace (less_on bName)"
  by (auto simp: fun_eq_iff backendLess_def less_then_def less_on_def)

interpretation backend_order: go_order backendLess
  unfolding backendLess_keys by (intro go_order_less_then go_order_less_on)

lemma prefixLess_keys: "prefixLess = less_then (\<lambda>p. - int (length p)) (less_on (\<lambda>p. p))"
  by (auto simp: fun_eq_iff prefixLess_def less_then_def less_on_def)

interpretation prefix_order: go_order prefixLess
  unfolding prefixLess_keys by (intro go_order_less_then go_order_less_on)

lemma set_sortBackends [simp]: "set (sortBackends bs) = set bs"
  by (simp add: sortBackends_def)

lemma sortBackends_eq_Nil [simp]: "sortBackends bs = [] \<longleftrightarrow> bs = []"
  by (simp add: sortBackends_def)

lemma mset_map_identity_sortBackends: "mset (map identity (sortBackends bs)) = mset (map identity bs)"
  by (simp add: sortBackends_def)

lemma distinct_sortBackends [simp]: "distinct (map identity (sortBackends bs)) \<longleftrightarrow> distinct (map identity bs)"
  using mset_map_identity_sortBackends mset_eq_imp_distinct_iff by blast

section \<open>Preservation of the invariant\<close>

lemma rebuildPrefixes_ok:
  "reg_ok (rebuildPrefixes r) \<longleftrightarrow> distinct (map fst (mrRoutes r)) \<and> (\<forall>route \<in> set (mrRoutes r). route_ok route)"
  by (simp add: reg_ok_def rebuildPrefixes_def)

lemma reg_okD: "reg_ok r \<Longrightarrow> distinct (map fst (mrRoutes r)) \<and> (\<forall>route \<in> set (mrRoutes r). route_ok route)"
  by (simp add: reg_ok_def)

lemma NewMemoryRegistry_ok: "reg_ok NewMemoryRegistry"
  by (simp add: reg_ok_def NewMemoryRegistry_def)

lemma routesAt_mem: "routesAt routes p = cs \<Longrightarrow> cs \<noteq> [] \<Longrightarrow> (p, cs) \<in> set routes"
  by (auto simp: routesAt_def split: option.splits dest: map_of_SomeD)

lemma routesAt_ok:
  assumes "\<forall>route \<in> set routes. route_ok route"
  shows "distinct (map identity (routesAt routes p)) \<and> (\<forall>b \<in> set (routesAt routes p). backend_ok p b)"
  using assms routesAt_mem [of routes p] by (cases "routesAt routes p = []") (fastforce simp: route_ok_def)+

lemma set_update_subset: "set (AList.update k v al) \<subseteq> insert (k, v) (set al)"
  by (induction al) auto

lemma routesAt_update: "routesAt (AList.update p v al) q = (if q = p then v else routesAt al q)"
  by (simp add: routesAt_def AList.update_conv)

lemma route_ok_update:
  assumes "\<forall>route \<in> set routes. route_ok route" and "route_ok (p, cs)"
  shows "\<forall>route \<in> set (AList.update p cs routes). route_ok route"
  using assms set_update_subset [of p cs routes] by blast

lemma replaceIdentity_Some:
  "replaceIdentity n cs = Some cs' \<Longrightarrow>
   map identity cs' = map identity cs \<and> set cs' \<subseteq> insert n (set cs) \<and> n \<in> set cs'"
  by (induction cs arbitrary: cs') (auto split: if_splits)

lemma replaceIdentity_None: "replaceIdentity n cs = None \<longleftrightarrow> identity n \<notin> set (map identity cs)"
  by (induction cs) auto

lemma Upsert_ok:
  assumes "reg_ok r"
  shows "reg_ok (fst (Upsert r b))"
proof (cases "normalizeBackend b")
  case (Inr n)
  note n = normalizeBackend_ok [OF Inr]
  let ?p = "bRoutePrefix n" and ?routes = "mrRoutes r"
  have routes: "\<forall>route \<in> set ?routes. route_ok route" "distinct (map fst ?routes)"
    using assms by (simp_all add: reg_ok_def)
  let ?cs = "case replaceIdentity n (routesAt ?routes ?p) of Some cs \<Rightarrow> cs | None \<Rightarrow> routesAt ?routes ?p @ [n]"
  have old: "distinct (map identity (routesAt ?routes ?p))" "\<forall>b \<in> set (routesAt ?routes ?p). backend_ok ?p b"
    using routesAt_ok [OF routes(1), of ?p] by auto
  have "?cs \<noteq> [] \<and> distinct (map identity ?cs) \<and> (\<forall>b \<in> set ?cs. backend_ok ?p b)"
  proof (cases "replaceIdentity n (routesAt ?routes ?p)")
    case None
    then have "identity n \<notin> set (map identity (routesAt ?routes ?p))" using replaceIdentity_None by blast
    then show ?thesis using None old n(1) by auto
  next
    case (Some cs)
    then show ?thesis using old n(1) replaceIdentity_Some [OF Some] by auto
  qed
  then have "route_ok (?p, sortBackends ?cs)" using n(2) by (simp add: route_ok_def)
  then have "\<forall>route \<in> set (AList.update ?p (sortBackends ?cs) ?routes). route_ok route"
    using route_ok_update routes(1) by blast
  moreover have "distinct (map fst (AList.update ?p (sortBackends ?cs) ?routes))"
    using routes(2) by (rule AList.distinct_update)
  ultimately show ?thesis using Inr by (simp add: Upsert_def Let_def rebuildPrefixes_ok)
qed (use assms in \<open>simp add: Upsert_def\<close>)

lemma DeleteRoute_ok: "reg_ok r \<Longrightarrow> reg_ok (DeleteRoute r p)"
  by (auto simp: DeleteRoute_def Let_def rebuildPrefixes_ok AList.distinct_delete AList.delete_eq dest!: reg_okD)
    (metis AList.delete_eq AList.distinct_delete)

definition grouped_ok :: "(string \<times> Backend list) list \<Rightarrow> (string \<times> backendKey) list \<Rightarrow> bool" where
  "grouped_ok grouped seen \<longleftrightarrow>
     distinct (map fst grouped) \<and> (\<forall>route \<in> set grouped. route_ok route) \<and>
     (\<forall>p. \<forall>b \<in> set (routesAt grouped p). (p, identity b) \<in> set seen)"

lemma grouped_ok_add:
  assumes "grouped_ok grouped seen" and "normalizeBackend b = Inr n" and "(bRoutePrefix n, identity n) \<notin> set seen"
  shows "grouped_ok (AList.update (bRoutePrefix n) (routesAt grouped (bRoutePrefix n) @ [n]) grouped)
           ((bRoutePrefix n, identity n) # seen)"
proof -
  let ?p = "bRoutePrefix n"
  have routes: "\<forall>route \<in> set grouped. route_ok route" "distinct (map fst grouped)"
    using assms(1) by (simp_all add: grouped_ok_def)
  have "route_ok (?p, routesAt grouped ?p @ [n])"
    using normalizeBackend_ok [OF assms(2)] routesAt_ok [OF routes(1), of ?p] assms(1,3)
    by (auto simp: route_ok_def grouped_ok_def)
  then have "\<forall>route \<in> set (AList.update ?p (routesAt grouped ?p @ [n]) grouped). route_ok route"
    using route_ok_update routes(1) by blast
  moreover have "distinct (map fst (AList.update ?p (routesAt grouped ?p @ [n]) grouped))"
    using routes(2) by (rule AList.distinct_update)
  ultimately show ?thesis using assms(1) by (simp add: grouped_ok_def routesAt_update)
qed

lemma groupBackends_ok:
  "grouped_ok grouped seen \<Longrightarrow> distinct (map fst (fst (groupBackends grouped seen bs))) \<and>
     (\<forall>route \<in> set (fst (groupBackends grouped seen bs)). route_ok route)"
proof (induction grouped seen bs rule: groupBackends.induct)
  case (1 grouped seen)
  then show ?case by (simp add: grouped_ok_def)
next
  case (2 grouped seen b bs)
  then show ?case
    using grouped_ok_add [OF "2.prems"]
    by (auto simp: Let_def split: sum.splits prod.splits if_splits)
qed

lemma Replace_ok: "reg_ok (fst (Replace r bs))"
proof -
  have "grouped_ok [] []" by (simp add: grouped_ok_def routesAt_def)
  from groupBackends_ok [OF this, of bs]
  have "distinct (map fst (fst (groupBackends [] [] bs)))"
    "\<forall>route \<in> set (fst (groupBackends [] [] bs)). route_ok route" by auto
  then show ?thesis
    by (auto simp: Replace_def Let_def rebuildPrefixes_ok pruneRoundRobinLocked_def case_prod_beta comp_def
        route_ok_def)
qed

lemma markUnavailable_fields [simp]:
  "identity (markUnavailable m b) = identity b" "bRoutePrefix (markUnavailable m b) = bRoutePrefix b"
  "bPolicy (markUnavailable m b) = bPolicy b" "bState (markUnavailable m b) \<noteq> StateReady"
  by (simp_all add: markUnavailable_def identity_def)

lemma backend_ok_markUnavailable: "backend_ok p b \<Longrightarrow> backend_ok p (markUnavailable m b)"
  by (simp add: backend_ok_def markUnavailable_def endpointError_def effectiveWeight_def)

lemma MarkReadyUnavailable_ok: "reg_ok r \<Longrightarrow> reg_ok (MarkReadyUnavailable r m)"
  by (auto simp: reg_ok_def MarkReadyUnavailable_def Let_def case_prod_beta comp_def route_ok_def
      backend_ok_markUnavailable)

lemma Select_routes [simp]:
  "mrRoutes (fst (Select r path load)) = mrRoutes r" "mrPrefixes (fst (Select r path load)) = mrPrefixes r"
  by (auto simp: Select_def selectBackendLocked_def weightedBackendLocked_def Let_def
      split: option.splits prod.splits)

lemma Select_ok: "reg_ok r \<Longrightarrow> reg_ok (fst (Select r path load))"
  by (simp add: reg_ok_def)

inductive reg_step :: "MemoryRegistry \<Rightarrow> MemoryRegistry \<Rightarrow> bool" where
  upsert: "reg_step r (fst (Upsert r b))"
| delete: "reg_step r (DeleteRoute r p)"
| replace: "reg_step r (fst (Replace r bs))"
| mark: "reg_step r (MarkReadyUnavailable r m)"
| select: "reg_step r (fst (Select r path load))"

lemma reg_step_ok: "reg_step r r' \<Longrightarrow> reg_ok r \<Longrightarrow> reg_ok r'"
  by (induction rule: reg_step.induct)
    (simp_all add: Upsert_ok DeleteRoute_ok Replace_ok MarkReadyUnavailable_ok Select_ok)

end
