(* ===== verification/Registry_Selection.thy ===== *)
theory Registry_Selection
  imports Registry
begin

text \<open>
  What a request gets from the registry of \<open>gateway/internal/routing/router.go\<close>: longest-prefix
  resolution, the choice among ready candidates, the fairness of the smooth weighted round robin,
  and what \<open>Replace\<close> and \<open>MarkReadyUnavailable\<close> publish. The round robin is analysed through its
  scores: they always sum to zero and never fall a full round behind, and after \<open>n\<close> picks the score of a
  candidate is \<open>n\<close> times its weight minus the sum of all weights for each time it was picked.
\<close>

section \<open>Selection\<close>

lemma chooseMax_mem: "chooseMax score c cs \<in> set (c # cs)"
  by (induction cs arbitrary: c) auto

lemma chooseMax_max: "b \<in> set (c # cs) \<Longrightarrow> score (identity b) \<le> score (identity (chooseMax score c cs))"
proof (induction cs arbitrary: c b)
  case (Cons d cs)
  let ?c = "if score (identity d) > score (identity c) then d else c"
  have "score (identity ?c) \<le> score (identity (chooseMax score ?c cs))"
    using Cons.IH [of ?c ?c] by simp
  then show ?case using Cons.IH [of b ?c] Cons.prems by auto
qed simp

lemma weightedBackendLocked_mem: "cs \<noteq> [] \<Longrightarrow> snd (weightedBackendLocked r p cs) \<in> set cs"
  using chooseMax_mem [of _ "hd cs" "tl cs"]
  by (simp add: weightedBackendLocked_def Let_def case_prod_beta)

lemma leastLoadedLoop_Some:
  "leastLoadedLoop load (Some m) acc cs =
     (let M = Min (insert m (load ` set cs)) in (if M = m then acc else []) @ filter (\<lambda>c. load c = M) cs)"
proof (induction cs arbitrary: m acc)
  case (Cons c cs)
  have ins: "Min (insert m (insert (load c) (load ` set cs))) = Min (insert (min m (load c)) (load ` set cs))"
    by (cases "cs = []") (simp_all add: min.assoc)
  obtain M where M: "M = Min (insert (min m (load c)) (load ` set cs))" by blast
  have le: "M \<le> min m (load c)" unfolding M by (rule Min_le) auto
  have step: "leastLoadedLoop load (Some m) acc (c # cs) =
      leastLoadedLoop load (Some (min m (load c)))
        (if load c < m then [c] else if load c = m then acc @ [c] else acc) cs"
    by (simp add: Let_def min_def)
  have "leastLoadedLoop load (Some m) acc (c # cs) =
      (if M = min m (load c) then (if load c < m then [c] else if load c = m then acc @ [c] else acc) else [])
        @ filter (\<lambda>c. load c = M) cs"
    unfolding step Cons.IH Let_def M ..
  also have "\<dots> = (if M = m then acc else []) @ filter (\<lambda>c. load c = M) (c # cs)"
    using le by (auto simp: min_def split: if_splits)
  finally show ?case by (simp add: Let_def ins M)
qed simp

lemma leastLoadedLoop_eq:
  assumes "cs \<noteq> []"
  shows "leastLoadedLoop load None [] cs = filter (\<lambda>c. load c = Min (load ` set cs)) cs"
  using assms
proof (cases cs)
  case (Cons c cs')
  have "Min (insert (load c) (load ` set cs')) \<le> load c" by simp
  then show ?thesis by (simp add: Cons leastLoadedLoop_Some Let_def)
qed simp

lemma leastLoadedLoop_ne: "cs \<noteq> [] \<Longrightarrow> leastLoadedLoop load None [] cs \<noteq> []"
proof -
  assume "cs \<noteq> []"
  then have "Min (load ` set cs) \<in> load ` set cs" by (intro Min_in) auto
  then obtain x where "x \<in> set cs" "load x = Min (load ` set cs)" by (metis imageE)
  then show ?thesis using \<open>cs \<noteq> []\<close> by (auto simp: leastLoadedLoop_eq filter_empty_conv)
qed

text \<open>What a selection among the candidates of one prefix returns.\<close>

lemma selectBackendLocked_ready:
  assumes "readyCandidates (routesAt (mrRoutes r) p) \<noteq> []"
  shows "snd (selectBackendLocked r p load) \<in> set (readyCandidates (routesAt (mrRoutes r) p))"
proof -
  let ?cs = "routesAt (mrRoutes r) p"
  have ne: "?cs \<noteq> []" using assms by (auto simp: readyCandidates_def)
  have "snd (weightedBackendLocked r p (leastLoadedLoop l None [] (readyCandidates ?cs)))
      \<in> set (readyCandidates ?cs)" for l
    using weightedBackendLocked_mem [OF leastLoadedLoop_ne [OF assms]] leastLoadedLoop_eq [OF assms, of l]
    by (metis filter_is_subset subsetD)
  then show ?thesis
    using assms ne weightedBackendLocked_mem [OF assms]
    by (auto simp: selectBackendLocked_def Let_def split: option.splits)
qed

lemma selectBackendLocked_not_ready:
  assumes "readyCandidates (routesAt (mrRoutes r) p) = []"
  shows "bState (snd (selectBackendLocked r p load)) \<noteq> StateReady"
  using assms
  by (auto simp: selectBackendLocked_def Let_def noPositiveWeightBackend_def zeroBackend_def
      split: option.splits)

lemma selectBackendLocked_least:
  assumes "readyCandidates (routesAt (mrRoutes r) p) \<noteq> []"
    and "routeStrategy (readyCandidates (routesAt (mrRoutes r) p)) \<noteq> RoutingStrategyWeighted"
    and "c \<in> set (readyCandidates (routesAt (mrRoutes r) p))"
  shows "load (snd (selectBackendLocked r p (Some load))) \<le> load c"
proof (cases "length (readyCandidates (routesAt (mrRoutes r) p)) = 1")
  case True
  then obtain y where "readyCandidates (routesAt (mrRoutes r) p) = [y]" by (auto simp: length_Suc_conv)
  then show ?thesis using selectBackendLocked_ready [OF assms(1)] assms(3) by simp
next
  case False
  let ?ready = "readyCandidates (routesAt (mrRoutes r) p)"
  have "routesAt (mrRoutes r) p \<noteq> []" using assms(1) by (auto simp: readyCandidates_def)
  then have "snd (selectBackendLocked r p (Some load)) \<in> set (leastLoadedLoop load None [] ?ready)"
    using False assms(1,2) weightedBackendLocked_mem [OF leastLoadedLoop_ne [OF assms(1)]]
    by (simp add: selectBackendLocked_def Let_def)
  then have "load (snd (selectBackendLocked r p (Some load))) = Min (load ` set ?ready)"
    by (simp add: leastLoadedLoop_eq [OF assms(1)])
  then show ?thesis using assms(3) by simp
qed

text \<open>The prefix that decides a request.\<close>

definition decidingPrefix :: "MemoryRegistry \<Rightarrow> string \<Rightarrow> string \<Rightarrow> bool" where
  "decidingPrefix r path p \<longleftrightarrow>
     p \<in> set (map fst (mrRoutes r)) \<and> routeMatches path p \<and>
     (\<forall>q \<in> set (map fst (mrRoutes r)). routeMatches path q \<longrightarrow> length q \<le> length p)"

lemma routeMatches_take: "routeMatches path p \<Longrightarrow> p = take (length p) path"
  by (auto simp: routeMatches_def has_prefix_iff)

lemma decidingPrefix_unique: "decidingPrefix r path p \<Longrightarrow> decidingPrefix r path q \<Longrightarrow> p = q"
  unfolding decidingPrefix_def using routeMatches_take by (metis order_antisym)

lemma find_decidingPrefix:
  assumes "reg_ok r" and "List.find (routeMatches path) (mrPrefixes r) = Some p"
  shows "decidingPrefix r path p"
proof -
  have pre: "mrPrefixes r = sort_by prefixLess (map fst (mrRoutes r))" using assms(1) by (simp add: reg_ok_def)
  have p: "p \<in> set (mrPrefixes r)" "routeMatches path p" using find_eq_Some_memD [OF assms(2)] by auto
  have "length q \<le> length p" if "q \<in> set (map fst (mrRoutes r))" "routeMatches path q" for q
  proof -
    have "\<not> prefixLess q p"
      using prefix_order.find_sorted_least [OF _ assms(2)] prefix_order.sorted_sort_by that pre by fastforce
    then show ?thesis by (auto simp: prefixLess_def split: if_splits)
  qed
  then show ?thesis using p pre by (auto simp: decidingPrefix_def)
qed

lemma Select_cases:
  assumes "reg_ok r"
  shows "snd (Select r path load) = None \<and> (\<forall>q \<in> set (map fst (mrRoutes r)). \<not> routeMatches path q) \<or>
    (\<exists>p. decidingPrefix r path p \<and>
       snd (Select r path load) =
         Some (snd (selectBackendLocked r p load), if path = p then ''/'' else drop (length p) path))"
proof (cases "List.find (routeMatches path) (mrPrefixes r)")
  case None
  then have "\<forall>q \<in> set (mrPrefixes r). \<not> routeMatches path q" by simp
  moreover have "set (mrPrefixes r) = set (map fst (mrRoutes r))" using assms by (simp add: reg_ok_def)
  ultimately show ?thesis using None by (simp add: Select_def del: find_eq_None_iff)
next
  case (Some p)
  have d: "decidingPrefix r path p" using find_decidingPrefix [OF assms Some] .
  have hp: "has_prefix path p"
    using d by (auto simp: decidingPrefix_def routeMatches_def has_prefix_iff)
  have "drop (length p) path = [] \<longleftrightarrow> path = p"
    using hp by (auto simp: has_prefix_def)
  then show ?thesis
    using Some d hp by (auto simp: Select_def Let_def trim_prefix_def case_prod_beta)
qed

lemma decidingPrefix_candidates:
  assumes "reg_ok r" and "decidingPrefix r path p"
  shows "routesAt (mrRoutes r) p \<noteq> []" and "(p, routesAt (mrRoutes r) p) \<in> set (mrRoutes r)"
proof -
  obtain cs where cs: "(p, cs) \<in> set (mrRoutes r)" using assms(2) by (auto simp: decidingPrefix_def)
  then have "map_of (mrRoutes r) p = Some cs" using reg_okD [OF assms(1)] by simp
  then have "routesAt (mrRoutes r) p = cs" by (simp add: routesAt_def)
  then show "routesAt (mrRoutes r) p \<noteq> []" "(p, routesAt (mrRoutes r) p) \<in> set (mrRoutes r)"
    using cs reg_okD [OF assms(1)] by (auto simp: route_ok_def)
qed

section \<open>Smooth weighted round robin\<close>

abbreviation scoreOf :: "MemoryRegistry \<Rightarrow> string \<Rightarrow> Backend \<Rightarrow> int" where
  "scoreOf r p c \<equiv> scoreAt (mrRR r) p (identity c)"

definition weightSum :: "Backend list \<Rightarrow> int" where
  "weightSum cs = sum_list (map effectiveWeight cs)"

lemma scoreAt_setScore [simp]: "scoreAt (setScore rr p k v) p k' = (if k' = k then v else scoreAt rr p k')"
  by (simp add: scoreAt_def setScore_def split: option.splits)

lemma addWeights_other:
  "k \<notin> set (map identity cs) \<Longrightarrow> scoreAt (fst (addWeights p cs (rr, t))) p k = scoreAt rr p k"
  by (induction cs arbitrary: rr t) auto

lemma addWeights_score:
  "distinct (map identity cs) \<Longrightarrow> c \<in> set cs \<Longrightarrow>
   scoreAt (fst (addWeights p cs (rr, t))) p (identity c) = wrap64 (scoreAt rr p (identity c) + effectiveWeight c)"
proof (induction cs arbitrary: rr t)
  case (Cons d cs)
  show ?case
  proof (cases "c = d")
    case True
    then show ?thesis using Cons.prems by (simp add: addWeights_other)
  next
    case False
    then have "c \<in> set cs" "identity c \<noteq> identity d" using Cons.prems by (auto simp: image_iff)
    then show ?thesis using Cons by simp
  qed
qed simp

lemma weightSum_nonneg: "\<forall>c \<in> set cs. 0 < effectiveWeight c \<Longrightarrow> 0 \<le> weightSum cs"
  unfolding weightSum_def by (rule sum_list_nonneg) auto

lemma addWeights_total:
  "\<forall>c \<in> set cs. 0 < effectiveWeight c \<Longrightarrow> 0 \<le> t \<Longrightarrow> t + weightSum cs \<le> maxInt64 \<Longrightarrow>
   snd (addWeights p cs (rr, t)) = t + weightSum cs"
proof (induction cs arbitrary: rr t)
  case (Cons c cs)
  have "0 \<le> weightSum cs" using Cons.prems(1) by (intro weightSum_nonneg) simp
  then have "wrap64 (t + effectiveWeight c) = t + effectiveWeight c"
    using Cons.prems by (intro wrap64_nonneg) (auto simp: weightSum_def less_imp_le)
  then show ?case
    using Cons.IH [of "t + effectiveWeight c"] Cons.prems by (simp add: weightSum_def add.assoc)
qed (simp add: weightSum_def)

text \<open>
  The candidates of a route on which the round robin runs: at least two, with distinct identities and positive weights
  small enough that scores stay within \<open>int64\<close>.
\<close>

definition swrr_ok :: "Backend list \<Rightarrow> bool" where
  "swrr_ok cs \<longleftrightarrow> 2 \<le> length cs \<and> distinct (map identity cs) \<and> (\<forall>c \<in> set cs. 0 < effectiveWeight c) \<and>
     (int (length cs) + 1) * weightSum cs \<le> maxInt64"

text \<open>Scores sum to zero and none is a full round behind.\<close>

definition swrr_inv :: "MemoryRegistry \<Rightarrow> string \<Rightarrow> Backend list \<Rightarrow> bool" where
  "swrr_inv r p cs \<longleftrightarrow>
     sum_list (map (scoreOf r p) cs) = 0 \<and> (\<forall>c \<in> set cs. - weightSum cs < scoreOf r p c)"

lemma weight_le_sum:
  assumes "\<forall>c \<in> set cs. 0 < effectiveWeight c" and "c \<in> set cs"
  shows "effectiveWeight c \<le> weightSum cs"
  unfolding weightSum_def using assms by (intro member_le_sum_list) (auto simp: less_imp_le)

lemma sum_list_lower:
  "(\<forall>x \<in> set xs. (b :: int) \<le> f x) \<Longrightarrow> int (length xs) * b \<le> sum_list (map f xs)"
  by (induction xs) (auto simp: algebra_simps)

lemma sum_list_upper_member:
  assumes "\<forall>x \<in> set xs. - (w :: int) \<le> f x" and "c \<in> set xs" and "0 \<le> w"
  shows "f c \<le> sum_list (map f xs) + int (length xs) * w"
proof -
  have "f c + w \<le> sum_list (map (\<lambda>x. f x + w) xs)"
    using assms by (intro member_le_sum_list) auto
  also have "\<dots> = sum_list (map f xs) + int (length xs) * w"
    by (simp add: sum_list_addf sum_list_triv)
  finally show ?thesis using assms(3) by simp
qed

lemma swrr_no_wrap:
  assumes "swrr_ok cs" and "swrr_inv r p cs" and "c \<in> set cs"
  shows "wrap64 (scoreOf r p c + effectiveWeight c) = scoreOf r p c + effectiveWeight c"
    and "wrap64 (scoreOf r p c + effectiveWeight c - weightSum cs) = scoreOf r p c + effectiveWeight c - weightSum cs"
proof -
  let ?W = "weightSum cs"
  have W: "0 \<le> ?W" "effectiveWeight c \<le> ?W" "0 < effectiveWeight c"
    using assms(1,3) weight_le_sum weightSum_nonneg by (auto simp: swrr_ok_def)
  have up: "scoreOf r p c \<le> int (length cs) * ?W"
    using sum_list_upper_member [of cs ?W "scoreOf r p" c] assms(2,3) W(1) by (simp add: swrr_inv_def less_imp_le)
  have lo: "- ?W < scoreOf r p c" using assms(2,3) by (simp add: swrr_inv_def)
  have sum: "int (length cs) * ?W + ?W \<le> maxInt64"
    using assms(1) by (simp add: swrr_ok_def algebra_simps)
  moreover have "2 * ?W \<le> int (length cs) * ?W"
    using W(1) assms(1) by (intro mult_right_mono) (auto simp: swrr_ok_def)
  ultimately have WM: "3 * ?W \<le> maxInt64" by linarith
  show "wrap64 (scoreOf r p c + effectiveWeight c) = scoreOf r p c + effectiveWeight c"
    using up lo W WM sum by (intro wrap64_id) (simp add: is_int64_def maxInt64_def)
  show "wrap64 (scoreOf r p c + effectiveWeight c - ?W) = scoreOf r p c + effectiveWeight c - ?W"
    using up lo W WM sum by (intro wrap64_id) (simp add: is_int64_def maxInt64_def)
qed

text \<open>One pick: the winner has a maximal raised score and pays the sum of all weights.\<close>

lemma swrr_pick:
  assumes ok: "swrr_ok cs" and inv: "swrr_inv r p cs" and wb: "weightedBackendLocked r p cs = (r', b)"
  shows "b \<in> set cs"
    and "c \<in> set cs \<Longrightarrow> scoreOf r' p c = scoreOf r p c + effectiveWeight c - (if c = b then weightSum cs else 0)"
    and "c \<in> set cs \<Longrightarrow> scoreOf r p c + effectiveWeight c \<le> scoreOf r p b + effectiveWeight b"
proof -
  let ?aw = "addWeights p cs (mrRR r, 0)"
  have dist: "distinct (map identity cs)" and pos: "\<forall>c \<in> set cs. 0 < effectiveWeight c" and ne: "cs \<noteq> []"
    and len: "length cs \<noteq> 1" using ok by (auto simp: swrr_ok_def)
  have W0: "0 \<le> weightSum cs" using pos by (rule weightSum_nonneg)
  have "(int (length cs) + 1) * weightSum cs \<le> maxInt64" using ok by (simp add: swrr_ok_def)
  moreover have "1 * weightSum cs \<le> (int (length cs) + 1) * weightSum cs"
    using W0 by (intro mult_right_mono) auto
  ultimately have total: "snd ?aw = weightSum cs" using pos by (simp add: addWeights_total)
  have raised: "scoreAt (fst ?aw) p (identity c) = scoreOf r p c + effectiveWeight c" if "c \<in> set cs" for c
    using addWeights_score [OF dist that] swrr_no_wrap(1) [OF ok inv that] by simp
  have b: "b = chooseMax (scoreAt (fst ?aw) p) (hd cs) (tl cs)"
    and r': "mrRR r' = setScore (fst ?aw) p (identity b) (wrap64 (scoreAt (fst ?aw) p (identity b) - snd ?aw))"
    using wb len by (auto simp: weightedBackendLocked_def Let_def case_prod_beta)
  show mem: "b \<in> set cs" using chooseMax_mem [of _ "hd cs" "tl cs"] ne b by simp
  show "scoreOf r' p c = scoreOf r p c + effectiveWeight c - (if c = b then weightSum cs else 0)" if "c \<in> set cs"
  proof -
    have "identity c = identity b \<longleftrightarrow> c = b" using dist that mem by (auto simp: distinct_map dest: inj_onD)
    then show ?thesis
      using raised [OF that] raised [OF mem] swrr_no_wrap(2) [OF ok inv mem] by (simp add: r' total)
  qed
  show "scoreOf r p c + effectiveWeight c \<le> scoreOf r p b + effectiveWeight b" if "c \<in> set cs"
  proof -
    have "c \<in> set (hd cs # tl cs)" using that ne by simp
    from chooseMax_max [OF this, of "scoreAt (fst ?aw) p"]
    show ?thesis using raised [OF that] raised [OF mem] by (simp add: b)
  qed
qed

lemma sum_list_if_eq:
  "distinct cs \<Longrightarrow> b \<in> set cs \<Longrightarrow> sum_list (map (\<lambda>c. if c = b then (x :: int) else 0) cs) = x"
proof (induction cs)
  case (Cons a cs)
  have "map (\<lambda>c. if c = a then x else 0) cs = map (\<lambda>_. 0) cs" using Cons.prems(1) by auto
  then have "sum_list (map (\<lambda>c. if c = a then x else 0) cs) = 0" by (simp only: sum_list_0)
  then show ?case using Cons by (cases "b = a") simp_all
qed simp

lemma swrr_inv_step:
  assumes ok: "swrr_ok cs" and inv: "swrr_inv r p cs" and wb: "weightedBackendLocked r p cs = (r', b)"
  shows "swrr_inv r' p cs"
proof -
  note pick = swrr_pick [OF ok inv wb]
  have pos: "\<forall>c \<in> set cs. 0 < effectiveWeight c" and ne: "cs \<noteq> []" and dist: "distinct cs"
    using ok by (auto simp: swrr_ok_def distinct_map)
  have sum: "sum_list (map (scoreOf r p) cs) = 0" using inv by (simp add: swrr_inv_def)
  have raised: "sum_list (map (\<lambda>c. scoreOf r p c + effectiveWeight c) cs) = weightSum cs"
    using sum by (simp add: sum_list_addf weightSum_def)
  have Wpos: "0 < weightSum cs"
    using weight_le_sum [OF pos, of "hd cs"] pos ne by (metis hd_in_set order_less_le_trans)
  have "0 < scoreOf r p b + effectiveWeight b"
  proof (rule ccontr)
    assume "\<not> 0 < scoreOf r p b + effectiveWeight b"
    then have "\<forall>x \<in> set cs. scoreOf r p x + effectiveWeight x \<le> 0" using pick(3) by fastforce
    then have "sum_list (map (\<lambda>c. scoreOf r p c + effectiveWeight c) cs) \<le> 0" by (intro sum_list_nonpos) auto
    then show False using raised Wpos by simp
  qed
  then have "- weightSum cs < scoreOf r' p c" if "c \<in> set cs" for c
  proof -
    have "- weightSum cs < scoreOf r p c" "0 < effectiveWeight c"
      using inv pos that by (auto simp: swrr_inv_def)
    then show ?thesis
      using pick(2) [OF that] \<open>0 < scoreOf r p b + effectiveWeight b\<close> by (auto split: if_splits)
  qed
  moreover have "map (scoreOf r' p) cs =
      map (\<lambda>c. (scoreOf r p c + effectiveWeight c) - (if c = b then weightSum cs else 0)) cs"
    using pick(2) by simp
  then have "sum_list (map (scoreOf r' p) cs) = weightSum cs - weightSum cs"
    by (simp only: sum_list_subtractf raised sum_list_if_eq [OF dist pick(1)])
  ultimately show ?thesis by (simp add: swrr_inv_def)
qed

text \<open>The scores count how far each candidate is from its share.\<close>

fun weightedPicks :: "MemoryRegistry \<Rightarrow> string \<Rightarrow> Backend list \<Rightarrow> nat \<Rightarrow> MemoryRegistry \<times> Backend list" where
  "weightedPicks r p cs 0 = (r, [])"
| "weightedPicks r p cs (Suc n) =
     (let (r1, b) = weightedBackendLocked r p cs; (r2, bs) = weightedPicks r1 p cs n in (r2, b # bs))"

lemma weightedPicks_score:
  assumes "swrr_ok cs" and "swrr_inv r p cs" and "weightedPicks r p cs n = (r', bs)"
  shows "swrr_inv r' p cs \<and> length bs = n \<and> set bs \<subseteq> set cs \<and>
    (\<forall>c \<in> set cs. scoreOf r' p c =
       scoreOf r p c + int n * effectiveWeight c - weightSum cs * int (count_list bs c))"
  using assms(2,3)
proof (induction n arbitrary: r bs)
  case (Suc n)
  obtain r1 b where wb: "weightedBackendLocked r p cs = (r1, b)" by fastforce
  obtain bs' where wp: "weightedPicks r1 p cs n = (r', bs')" "bs = b # bs'"
    using Suc.prems(2) wb by (auto split: prod.splits)
  note pick = swrr_pick [OF assms(1) Suc.prems(1) wb]
  note IH = Suc.IH [OF swrr_inv_step [OF assms(1) Suc.prems(1) wb] wp(1)]
  show ?case using IH pick wp(2) by (auto simp: algebra_simps)
qed simp

lemma swrr_inv_zero:
  assumes "swrr_ok cs" and "\<forall>c \<in> set cs. scoreOf r p c = 0"
  shows "swrr_inv r p cs"
proof -
  have pos: "\<forall>c \<in> set cs. 0 < effectiveWeight c" and ne: "cs \<noteq> []" using assms(1) by (auto simp: swrr_ok_def)
  have "0 < weightSum cs" using weight_le_sum [OF pos, of "hd cs"] pos ne by (metis hd_in_set order_less_le_trans)
  moreover have "map (scoreOf r p) cs = map (\<lambda>_. 0) cs" using assms(2) by simp
  then have "sum_list (map (scoreOf r p) cs) = 0" by (simp only: sum_list_0)
  ultimately show ?thesis using assms(2) by (simp add: swrr_inv_def)
qed

lemma weightedPicks_exact:
  assumes ok: "swrr_ok cs" and zero: "\<forall>c \<in> set cs. scoreOf r p c = 0"
    and wp: "weightedPicks r p cs (m * nat (weightSum cs)) = (r', bs)" and c: "c \<in> set cs"
  shows "int (count_list bs c) = int m * effectiveWeight c"
proof -
  let ?W = "weightSum cs"
  have pos: "\<forall>c \<in> set cs. 0 < effectiveWeight c" using ok by (simp add: swrr_ok_def)
  have Wpos: "0 < ?W" using weight_le_sum [OF pos c] pos c by (meson order_less_le_trans)
  have inv: "swrr_inv r p cs" using swrr_inv_zero [OF ok zero] .
  define d where "d = (\<lambda>c. int m * effectiveWeight c - int (count_list bs c))"
  have score: "scoreOf r' p x = ?W * d x" if "x \<in> set cs" for x
    using weightedPicks_score [OF ok inv wp] that zero Wpos by (simp add: d_def algebra_simps)
  have inv': "swrr_inv r' p cs" using weightedPicks_score [OF ok inv wp] by simp
  have "0 \<le> d x" if "x \<in> set cs" for x
  proof -
    have "- ?W < ?W * d x" using inv' that score by (auto simp: swrr_inv_def)
    then have "?W * (- 1) < ?W * d x" by simp
    then show ?thesis using Wpos by (simp only: mult_less_cancel_left_pos)
  qed
  moreover have "sum_list (map d cs) = 0"
  proof -
    have "map (scoreOf r' p) cs = map (\<lambda>x. ?W * d x) cs" using score by simp
    moreover have "sum_list (map (scoreOf r' p) cs) = 0" using inv' by (simp add: swrr_inv_def)
    ultimately have "?W * sum_list (map d cs) = 0" by (simp only: sum_list_const_mult)
    then show ?thesis using Wpos by simp
  qed
  ultimately have "d c = 0" using c sum_list_nonneg_eq_0_iff [of "map d cs"] by auto
  then show ?thesis by (simp add: d_def)
qed

lemma weightedPicks_bound:
  assumes ok: "swrr_ok cs" and zero: "\<forall>c \<in> set cs. scoreOf r p c = 0"
    and wp: "weightedPicks r p cs n = (r', bs)" and c: "c \<in> set cs"
  shows "weightSum cs * int (count_list bs c) < int n * effectiveWeight c + weightSum cs"
proof -
  have inv: "swrr_inv r p cs" using swrr_inv_zero [OF ok zero] .
  have "- weightSum cs < scoreOf r' p c"
    using weightedPicks_score [OF ok inv wp] c by (auto simp: swrr_inv_def)
  then show ?thesis using weightedPicks_score [OF ok inv wp] c zero by simp
qed

section \<open>Publishing\<close>

abbreviation addBackend :: "(string \<times> Backend list) list \<Rightarrow> Backend \<Rightarrow> (string \<times> Backend list) list" where
  "addBackend grouped n \<equiv> AList.update (bRoutePrefix n) (routesAt grouped (bRoutePrefix n) @ [n]) grouped"

lemma groupBackends_Cons:
  "groupBackends grouped seen (b # bs) =
     (case normalizeBackend b of
        Inl e \<Rightarrow> (fst (groupBackends grouped seen bs), e # snd (groupBackends grouped seen bs))
      | Inr n \<Rightarrow>
          if (bRoutePrefix n, identity n) \<in> set seen
            then (fst (groupBackends grouped seen bs),
                  DuplicateBackend (bRoutePrefix n) (bNamespace n) (bName n) # snd (groupBackends grouped seen bs))
          else groupBackends (addBackend grouped n) ((bRoutePrefix n, identity n) # seen) bs)"
  by (simp add: Let_def case_prod_beta split: sum.splits)

declare groupBackends.simps(2) [simp del]

lemma groupBackends_mono: "set (routesAt grouped p) \<subseteq> set (routesAt (fst (groupBackends grouped seen bs)) p)"
proof (induction bs arbitrary: grouped seen)
  case (Cons b bs)
  have "set (routesAt grouped p) \<subseteq> set (routesAt (addBackend grouped n) p)" for n
    by (auto simp: routesAt_update)
  then show ?case
    using Cons.IH by (auto simp: groupBackends_Cons split: sum.splits) blast
qed simp

lemma groupBackends_sound:
  "b \<in> set (routesAt (fst (groupBackends grouped seen bs)) p) \<Longrightarrow>
   b \<in> set (routesAt grouped p) \<or> (\<exists>x \<in> set bs. normalizeBackend x = Inr b \<and> bRoutePrefix b = p)"
proof (induction bs arbitrary: grouped seen)
  case (Cons x bs)
  show ?case
  proof (cases "normalizeBackend x")
    case (Inl e)
    then show ?thesis using Cons by (auto simp: groupBackends_Cons)
  next
    case (Inr n)
    show ?thesis
    proof (cases "(bRoutePrefix n, identity n) \<in> set seen")
      case True
      then show ?thesis using Cons Inr by (auto simp: groupBackends_Cons)
    next
      case False
      then have "b \<in> set (routesAt (addBackend grouped n) p) \<or>
          (\<exists>x \<in> set bs. normalizeBackend x = Inr b \<and> bRoutePrefix b = p)"
        using Cons Inr by (simp add: groupBackends_Cons)
      then show ?thesis using Inr by (auto simp: routesAt_update split: if_splits)
    qed
  qed
qed simp

definition seen_covered :: "(string \<times> Backend list) list \<Rightarrow> (string \<times> backendKey) list \<Rightarrow> bool" where
  "seen_covered grouped seen \<longleftrightarrow> (\<forall>p k. (p, k) \<in> set seen \<longrightarrow> (\<exists>b \<in> set (routesAt grouped p). identity b = k))"

lemma seen_covered_add:
  "seen_covered grouped seen \<Longrightarrow> seen_covered (addBackend grouped n) ((bRoutePrefix n, identity n) # seen)"
  unfolding seen_covered_def by (auto simp: routesAt_update)

lemma groupBackends_complete:
  "seen_covered grouped seen \<Longrightarrow> x \<in> set bs \<Longrightarrow> normalizeBackend x = Inr n \<Longrightarrow>
   \<exists>b \<in> set (routesAt (fst (groupBackends grouped seen bs)) (bRoutePrefix n)). identity b = identity n"
proof (induction bs arbitrary: grouped seen)
  case (Cons y bs)
  show ?case
  proof (cases "x = y")
    case False
    then have x: "x \<in> set bs" using Cons.prems by simp
    show ?thesis
      using Cons.IH [OF Cons.prems(1) x Cons.prems(3)] Cons.IH [OF seen_covered_add [OF Cons.prems(1)] x Cons.prems(3)]
      by (auto simp: groupBackends_Cons split: sum.splits)
  next
    case True
    show ?thesis
    proof (cases "(bRoutePrefix n, identity n) \<in> set seen")
      case seen: True
      then obtain b where "b \<in> set (routesAt grouped (bRoutePrefix n))" "identity b = identity n"
        using Cons.prems(1) unfolding seen_covered_def by blast
      then show ?thesis
        using groupBackends_mono True Cons.prems(3) seen by (auto simp: groupBackends_Cons) blast
    next
      case False
      have "n \<in> set (routesAt (addBackend grouped n) (bRoutePrefix n))" by (simp add: routesAt_update)
      then have "n \<in> set (routesAt (fst (groupBackends (addBackend grouped n)
          ((bRoutePrefix n, identity n) # seen) bs)) (bRoutePrefix n))" using groupBackends_mono by blast
      then show ?thesis using True False Cons.prems(3) by (auto simp: groupBackends_Cons)
    qed
  qed
qed simp

lemma groupBackends_no_errors:
  "snd (groupBackends grouped seen bs) = [] \<Longrightarrow> x \<in> set bs \<Longrightarrow>
   \<exists>n. normalizeBackend x = Inr n \<and> n \<in> set (routesAt (fst (groupBackends grouped seen bs)) (bRoutePrefix n))"
proof (induction bs arbitrary: grouped seen)
  case (Cons y bs)
  obtain m where m: "normalizeBackend y = Inr m" "(bRoutePrefix m, identity m) \<notin> set seen"
    using Cons.prems(1) by (auto simp: groupBackends_Cons split: sum.splits if_splits)
  let ?s = "(bRoutePrefix m, identity m) # seen"
  have eq: "groupBackends grouped seen (y # bs) = groupBackends (addBackend grouped m) ?s bs"
    using m by (simp add: groupBackends_Cons)
  have "m \<in> set (routesAt (addBackend grouped m) (bRoutePrefix m))" by (simp add: routesAt_update)
  then have "m \<in> set (routesAt (fst (groupBackends (addBackend grouped m) ?s bs)) (bRoutePrefix m))"
    using groupBackends_mono by blast
  then show ?case
    using Cons.IH [of "addBackend grouped m" ?s] Cons.prems m(1) unfolding eq by (cases "x = y") auto
qed simp

lemma Backends_iff:
  assumes "reg_ok r"
  shows "b \<in> set (Backends r) \<longleftrightarrow> (\<exists>p. b \<in> set (routesAt (mrRoutes r) p))"
proof -
  have "p \<in> set (mrPrefixes r)" if "b \<in> set (routesAt (mrRoutes r) p)" for p
    using assms that by (force simp: reg_ok_def routesAt_def split: option.splits dest: map_of_SomeD)
  then show ?thesis by (auto simp: Backends_def)
qed

lemma routesAt_map_values:
  assumes "f [] = []"
  shows "routesAt (map (\<lambda>(p, cs). (p, f cs)) al) p = f (routesAt al p)"
  using assms by (induction al) (auto simp: routesAt_def)

lemma Replace_routes:
  "routesAt (mrRoutes (fst (Replace r bs))) p = sortBackends (routesAt (fst (groupBackends [] [] bs)) p)"
  using routesAt_map_values [of sortBackends]
  by (simp add: Replace_def Let_def case_prod_beta rebuildPrefixes_def pruneRoundRobinLocked_def)

lemma Replace_Backends:
  "b \<in> set (Backends (fst (Replace r bs))) \<longleftrightarrow> (\<exists>p. b \<in> set (routesAt (fst (groupBackends [] [] bs)) p))"
  by (simp add: Backends_iff [OF Replace_ok] Replace_routes)

lemma grouped_ok_Nil: "grouped_ok [] []"
  by (simp add: grouped_ok_def routesAt_def)

section \<open>Failing closed\<close>

lemma routesAt_Mark:
  "\<exists>m. routesAt (mrRoutes (MarkReadyUnavailable r message)) p = map (markUnavailable m) (routesAt (mrRoutes r) p)"
  using routesAt_map_values [of "map (markUnavailable m)" for m]
  by (simp add: MarkReadyUnavailable_def Let_def) blast

lemma readyCandidates_Mark: "readyCandidates (routesAt (mrRoutes (MarkReadyUnavailable r message)) p) = []"
proof -
  obtain m where "routesAt (mrRoutes (MarkReadyUnavailable r message)) p = map (markUnavailable m) (routesAt (mrRoutes r) p)"
    using routesAt_Mark by blast
  then show ?thesis by (simp add: readyCandidates_def filter_map comp_def)
qed

lemma prefixes_Mark [simp]:
  "map fst (mrRoutes (MarkReadyUnavailable r message)) = map fst (mrRoutes r)"
  by (simp add: MarkReadyUnavailable_def Let_def case_prod_beta comp_def)

section \<open>Routes of selected backends\<close>

lemma selectBackendLocked_prefix:
  assumes "reg_ok r" and "decidingPrefix r path p"
  shows "bRoutePrefix (snd (selectBackendLocked r p load)) = p"
proof -
  let ?cs = "routesAt (mrRoutes r) p"
  have ne: "?cs \<noteq> []" using decidingPrefix_candidates(1) [OF assms] .
  have all: "\<forall>b \<in> set ?cs. bRoutePrefix b = p"
    using routesAt_ok [of "mrRoutes r" p] reg_okD [OF assms(1)] by (auto simp: backend_ok_def)
  show ?thesis
  proof (cases "readyCandidates ?cs = []")
    case True
    then show ?thesis
      using ne all by (auto simp: selectBackendLocked_def Let_def noPositiveWeightBackend_def
          split: option.splits dest: find_eq_Some_memD)
  next
    case False
    then show ?thesis using selectBackendLocked_ready [OF False] all by (auto simp: readyCandidates_def)
  qed
qed

section \<open>Repeated selection\<close>

fun SelectMany ::
  "MemoryRegistry \<Rightarrow> string \<Rightarrow> (Backend \<Rightarrow> int) option \<Rightarrow> nat \<Rightarrow> MemoryRegistry \<times> Backend list" where
  "SelectMany r path load 0 = (r, [])"
| "SelectMany r path load (Suc n) =
     (let (r1, result) = Select r path load; (r2, bs) = SelectMany r1 path load n
      in (r2, (case result of Some (b, _) \<Rightarrow> [b] | None \<Rightarrow> []) @ bs))"

lemma Select_deciding:
  assumes "reg_ok r" and "decidingPrefix r path p"
  shows "fst (Select r path load) = fst (selectBackendLocked r p load)"
    and "\<exists>up. snd (Select r path load) = Some (snd (selectBackendLocked r p load), up)"
proof -
  have "List.find (routeMatches path) (mrPrefixes r) \<noteq> None"
    using assms by (auto simp: decidingPrefix_def reg_ok_def)
  then obtain q where q: "List.find (routeMatches path) (mrPrefixes r) = Some q" by (meson not_None_eq)
  then have "q = p" using find_decidingPrefix [OF assms(1)] assms(2) decidingPrefix_unique by blast
  then show "fst (Select r path load) = fst (selectBackendLocked r p load)"
    "\<exists>up. snd (Select r path load) = Some (snd (selectBackendLocked r p load), up)"
    using q by (auto simp: Select_def Let_def case_prod_beta)
qed

lemma decidingPrefix_Select [simp]: "decidingPrefix (fst (Select r path load)) = decidingPrefix r"
  by (simp add: fun_eq_iff decidingPrefix_def)

lemma selectBackendLocked_weighted:
  assumes "2 \<le> length (readyCandidates (routesAt (mrRoutes r) p))"
    and "load = None \<or> routeStrategy (readyCandidates (routesAt (mrRoutes r) p)) = RoutingStrategyWeighted"
  shows "selectBackendLocked r p load = weightedBackendLocked r p (readyCandidates (routesAt (mrRoutes r) p))"
proof -
  have "routesAt (mrRoutes r) p \<noteq> []" "readyCandidates (routesAt (mrRoutes r) p) \<noteq> []"
    using assms(1) by (auto simp: readyCandidates_def)
  then show ?thesis using assms by (auto simp: selectBackendLocked_def Let_def split: option.splits)
qed

lemma SelectMany_weighted:
  assumes "reg_ok r" and "decidingPrefix r path p"
    and "readyCandidates (routesAt (mrRoutes r) p) = cs" and "2 \<le> length cs"
    and "load = None \<or> routeStrategy cs = RoutingStrategyWeighted"
  shows "SelectMany r path load n = weightedPicks r p cs n"
  using assms(1-3)
proof (induction n arbitrary: r)
  case (Suc n)
  let ?r1 = "fst (Select r path load)"
  have sel: "Select r path load = (fst (weightedBackendLocked r p cs), snd (Select r path load))"
    "\<exists>up. snd (Select r path load) = Some (snd (weightedBackendLocked r p cs), up)"
    using Select_deciding [OF Suc.prems(1,2), of load] selectBackendLocked_weighted [of r p load] assms(4,5) Suc.prems(3)
    by (metis prod.collapse)+
  have "SelectMany ?r1 path load n = weightedPicks ?r1 p cs n"
    using Suc.prems by (intro Suc.IH) (simp_all add: Select_ok)
  then show ?case using sel by (auto simp: Let_def case_prod_beta)
qed simp

lemma count_list_replicate_same: "count_list (replicate n x) x = n"
  by (induction n) auto

lemma SelectMany_single:
  assumes "reg_ok r" and "decidingPrefix r path p" and "readyCandidates (routesAt (mrRoutes r) p) = [c]"
  shows "snd (SelectMany r path load n) = replicate n c"
  using assms
proof (induction n arbitrary: r)
  case (Suc n)
  have "snd (selectBackendLocked r p load) = c"
    using selectBackendLocked_ready [of r p load] Suc.prems(3) by simp
  then show ?case
    using Suc.IH [of "fst (Select r path load)"] Suc.prems Select_deciding(2) [OF Suc.prems(1,2), of load]
    by (auto simp: Let_def case_prod_beta Select_ok)
qed simp

text \<open>A registry with a stable and a canary backend behind one weighted route.\<close>

definition sampleBackend :: "string \<Rightarrow> string \<Rightarrow> int \<Rightarrow> Backend" where
  "sampleBackend name prefix weight =
     \<lparr>bName = name, bNamespace = ''default'', bRoutePrefix = prefix,
      bEndpoint = Some \<lparr>uScheme = ''http'', uHost = name @ ''-runtime.default.svc:80'', uPath = [], uRawPath = []\<rparr>,
      bState = StateReady, bMessage = [],
      bPolicy = \<lparr>tpRoutingStrategy = RoutingStrategyWeighted, tpWeight = Some weight, tpRateLimit = None,
        tpRequestLogging = None\<rparr>\<rparr>"

definition sampleRegistry :: MemoryRegistry where
  "sampleRegistry = fst (Replace NewMemoryRegistry
     [sampleBackend ''canary'' ''/models/llama'' 1, sampleBackend ''stable'' ''/models/llama'' 3])"

lemma sampleRegistry_ok: "reg_ok sampleRegistry"
  by (simp add: sampleRegistry_def Replace_ok)

lemma sample_routes:
  "mrRoutes sampleRegistry = [(''/models/llama'',
     [sampleBackend ''canary'' ''/models/llama'' 1, sampleBackend ''stable'' ''/models/llama'' 3])]"
  by code_simp

section \<open>Properties\<close>

text \<open>
  C14. Every operation of the registry preserves its invariant, so every registry reachable from an
  empty one has distinct canonical prefixes in matching order, no empty route, distinct backend
  identities per route, and an absolute http or https endpoint for each ready backend.
\<close>

theorem registry_invariant:
  assumes "reg_step\<^sup>*\<^sup>* NewMemoryRegistry r"
  shows "reg_ok r"
  using assms by (induction rule: rtranclp_induct) (auto simp: NewMemoryRegistry_ok reg_step_ok)

theorem registry_invariant_witness: "reg_ok (MarkReadyUnavailable sampleRegistry ''stale'')"
proof (rule registry_invariant)
  have "reg_step NewMemoryRegistry sampleRegistry" unfolding sampleRegistry_def by (rule reg_step.replace)
  then show "reg_step\<^sup>*\<^sup>* NewMemoryRegistry (MarkReadyUnavailable sampleRegistry ''stale'')"
    by (meson reg_step.mark rtranclp.rtrancl_into_rtrancl rtranclp.rtrancl_refl)
qed

text \<open>
  C15. A request is resolved by the longest registered prefix that matches on a segment boundary:
  it is not found exactly when no prefix matches; otherwise the backend belongs to the one longest
  matching prefix and the upstream path is the rest of the request path (a slash when nothing is left).
\<close>

theorem Select_longest_prefix:
  assumes "reg_ok r"
  shows "case snd (Select r path load) of
      None \<Rightarrow> \<forall>q \<in> set (map fst (mrRoutes r)). path \<noteq> q \<and> \<not> has_prefix path (q @ ''/'')
    | Some (b, upstream) \<Rightarrow>
        \<exists>p \<in> set (map fst (mrRoutes r)).
          bRoutePrefix b = p \<and> (path = p \<or> has_prefix path (p @ ''/'')) \<and>
          (\<forall>q \<in> set (map fst (mrRoutes r)). path = q \<or> has_prefix path (q @ ''/'') \<longrightarrow> length q \<le> length p) \<and>
          (if path = p then upstream = ''/'' else path = p @ upstream)"
  using Select_cases [OF assms, of path load]
proof (elim disjE exE conjE)
  fix p
  assume d: "decidingPrefix r path p" and s: "snd (Select r path load) =
      Some (snd (selectBackendLocked r p load), if path = p then ''/'' else drop (length p) path)"
  have "bRoutePrefix (snd (selectBackendLocked r p load)) = p"
    using selectBackendLocked_prefix [OF assms d] .
  moreover have "path = p @ drop (length p) path"
    using d routeMatches_take [of path p] by (metis append_take_drop_id decidingPrefix_def)
  ultimately show ?thesis using d s by (auto simp: decidingPrefix_def routeMatches_def)
qed (auto simp: routeMatches_def)

theorem Select_longest_prefix_witness:
  "map_option snd (snd (Select sampleRegistry ''/models/llama/v1/chat'' None)) = Some ''/v1/chat'' \<and>
   (case snd (Select sampleRegistry ''/models/llama/v1/chat'' None) of
      None \<Rightarrow> False | Some (b, upstream) \<Rightarrow> ''/models/llama/v1/chat'' = bRoutePrefix b @ upstream)"
proof -
  have e: "map_option snd (snd (Select sampleRegistry ''/models/llama/v1/chat'' None)) = Some ''/v1/chat''"
    by code_simp
  have "map fst (mrRoutes sampleRegistry) = [''/models/llama'']" by (simp add: sample_routes)
  then show ?thesis
    using Select_longest_prefix [OF sampleRegistry_ok, of "''/models/llama/v1/chat''" None] e
    by (auto split: option.splits prod.splits)
qed

text \<open>
  Selection offers only usable backends: a backend that is returned as ready is a registered
  candidate of the deciding prefix, has a positive weight and an http or https endpoint; and as
  long as one such candidate exists the selection returns one. Without a weighted policy the
  returned backend has the least load among them.
\<close>

theorem Select_ready_backend:
  assumes "reg_ok r" and "decidingPrefix r path p"
    and "snd (Select r path load) = Some (b, upstream)"
  shows "(bState b = StateReady \<longleftrightarrow> readyCandidates (routesAt (mrRoutes r) p) \<noteq> []) \<and>
    (bState b = StateReady \<longrightarrow>
       b \<in> set (routesAt (mrRoutes r) p) \<and> effectiveWeight b > 0 \<and>
       (\<exists>u. bEndpoint b = Some u \<and> uScheme u \<in> {''http'', ''https''} \<and> uHost u \<noteq> []) \<and>
       (case load of
          None \<Rightarrow> True
        | Some l \<Rightarrow> routeStrategy (readyCandidates (routesAt (mrRoutes r) p)) = RoutingStrategyWeighted \<or>
                    (\<forall>c \<in> set (readyCandidates (routesAt (mrRoutes r) p)). l b \<le> l c)))"
proof -
  let ?ready = "readyCandidates (routesAt (mrRoutes r) p)"
  have b: "b = snd (selectBackendLocked r p load)"
    using Select_deciding(2) [OF assms(1,2), of load] assms(3) by auto
  show ?thesis
  proof (cases "?ready = []")
    case True
    then show ?thesis using selectBackendLocked_not_ready b by auto
  next
    case False
    have mem: "b \<in> set ?ready" using selectBackendLocked_ready [OF False] b by simp
    have "backend_ok p b"
      using mem routesAt_ok [of "mrRoutes r" p] reg_okD [OF assms(1)] by (auto simp: readyCandidates_def)
    then have "\<exists>u. bEndpoint b = Some u \<and> uScheme u \<in> {''http'', ''https''} \<and> uHost u \<noteq> []"
      using mem by (auto simp: backend_ok_def endpointError_def readyCandidates_def split: option.splits if_splits)
    moreover have "\<forall>c \<in> set ?ready. l b \<le> l c" if "load = Some l" "routeStrategy ?ready \<noteq> RoutingStrategyWeighted" for l
      using selectBackendLocked_least [OF False that(2)] b that(1) by simp
    ultimately show ?thesis using mem False by (auto simp: readyCandidates_def split: option.splits)
  qed
qed

theorem Select_ready_backend_witness:
  "\<exists>b. snd (Select sampleRegistry ''/models/llama/v1'' None) = Some (b, ''/v1'') \<and> effectiveWeight b > 0"
proof -
  have e: "map_option snd (snd (Select sampleRegistry ''/models/llama/v1'' None)) = Some ''/v1''" by code_simp
  then obtain b where b: "snd (Select sampleRegistry ''/models/llama/v1'' None) = Some (b, ''/v1'')" by force
  have d: "decidingPrefix sampleRegistry ''/models/llama/v1'' ''/models/llama''"
    by (simp add: decidingPrefix_def sample_routes routeMatches_def has_prefix_def)
  have "readyCandidates (routesAt (mrRoutes sampleRegistry) ''/models/llama'') \<noteq> []"
    by (simp add: sample_routes routesAt_def readyCandidates_def sampleBackend_def effectiveWeight_def)
  then show ?thesis using Select_ready_backend [OF sampleRegistry_ok d b] b by blast
qed

text \<open>
  Failing closed: after \<open>MarkReadyUnavailable\<close> no request resolves to a ready backend, whatever the
  load, while every route stays known: a request is found exactly when it was found before.
\<close>

theorem MarkReadyUnavailable_fails_closed:
  assumes "reg_ok r"
  shows "(snd (Select (MarkReadyUnavailable r message) path load) = None) = (snd (Select r path load) = None) \<and>
    (\<forall>b upstream. snd (Select (MarkReadyUnavailable r message) path load) = Some (b, upstream) \<longrightarrow>
       bState b \<noteq> StateReady) \<and>
    (\<forall>b \<in> set (Backends (MarkReadyUnavailable r message)). bState b \<noteq> StateReady)"
proof (intro conjI)
  let ?m = "MarkReadyUnavailable r message"
  have ok: "reg_ok ?m" using assms by (rule MarkReadyUnavailable_ok)
  have prefixes: "mrPrefixes ?m = mrPrefixes r" by (simp add: MarkReadyUnavailable_def Let_def)
  then show "(snd (Select ?m path load) = None) = (snd (Select r path load) = None)"
    by (simp add: Select_def Let_def case_prod_beta del: find_eq_None_iff split: option.splits)
  show "\<forall>b upstream. snd (Select ?m path load) = Some (b, upstream) \<longrightarrow> bState b \<noteq> StateReady"
    using Select_cases [OF ok, of path load] selectBackendLocked_not_ready [OF readyCandidates_Mark] by auto
  show "\<forall>b \<in> set (Backends ?m). bState b \<noteq> StateReady"
    using routesAt_Mark [of r message] by (auto simp: Backends_iff [OF ok])
      (metis (no_types, lifting) imageE list.set_map markUnavailable_fields(4))
qed

theorem MarkReadyUnavailable_fails_closed_witness:
  "snd (Select (MarkReadyUnavailable sampleRegistry ''stale'') ''/models/llama'' None) \<noteq> None"
proof -
  have "snd (Select sampleRegistry ''/models/llama'' None) \<noteq> None" by code_simp
  then show ?thesis using MarkReadyUnavailable_fails_closed [OF sampleRegistry_ok, of "''stale''" "''/models/llama''" None] by simp
qed

text \<open>
  \<open>Replace\<close> publishes exactly the valid backends of a snapshot: everything published is the normal
  form of an input, every valid input is represented by a backend of its identity on its route even when other inputs
  are rejected, and when no error is returned every input is valid and its normal form is published.
\<close>

theorem Replace_publishes:
  "(\<forall>b \<in> set (Backends (fst (Replace r bs))). \<exists>x \<in> set bs. normalizeBackend x = Inr b) \<and>
   (\<forall>x \<in> set bs. \<forall>n. normalizeBackend x = Inr n \<longrightarrow>
      (\<exists>b \<in> set (Backends (fst (Replace r bs))). bRoutePrefix b = bRoutePrefix n \<and> identity b = identity n)) \<and>
   (snd (Replace r bs) = [] \<longrightarrow>
      (\<forall>x \<in> set bs. \<exists>n \<in> set (Backends (fst (Replace r bs))). normalizeBackend x = Inr n))"
proof (intro conjI ballI allI impI)
  show "\<exists>x \<in> set bs. normalizeBackend x = Inr b" if "b \<in> set (Backends (fst (Replace r bs)))" for b
    using that groupBackends_sound [of b "[]" "[]" bs] by (auto simp: Replace_Backends routesAt_def)
  show "\<exists>b \<in> set (Backends (fst (Replace r bs))). bRoutePrefix b = bRoutePrefix n \<and> identity b = identity n"
    if "x \<in> set bs" "normalizeBackend x = Inr n" for x n
  proof -
    have "seen_covered [] []" by (simp add: seen_covered_def)
    from groupBackends_complete [OF this that]
    obtain b where b: "b \<in> set (routesAt (fst (groupBackends [] [] bs)) (bRoutePrefix n))" "identity b = identity n" by blast
    then have "bRoutePrefix b = bRoutePrefix n"
      using groupBackends_sound [of b "[]" "[]" bs "bRoutePrefix n"] by (auto simp: routesAt_def)
    moreover have "b \<in> set (Backends (fst (Replace r bs)))" using b(1) Replace_Backends by blast
    ultimately show ?thesis using b(2) by blast
  qed
  show "\<exists>n \<in> set (Backends (fst (Replace r bs))). normalizeBackend x = Inr n"
    if "snd (Replace r bs) = []" "x \<in> set bs" for x
  proof -
    have "snd (groupBackends [] [] bs) = []" using that(1) by (simp add: Replace_def Let_def case_prod_beta)
    from groupBackends_no_errors [OF this that(2)] show ?thesis by (auto simp: Replace_Backends)
  qed
qed

theorem Replace_publishes_witness:
  "\<exists>n \<in> set (Backends (fst (Replace NewMemoryRegistry [sampleBackend ''a'' [] 1]))).
     normalizeBackend (sampleBackend ''a'' [] 1) = Inr n"
proof -
  have "snd (Replace NewMemoryRegistry [sampleBackend ''a'' [] 1]) = []" by code_simp
  then show ?thesis using Replace_publishes [of NewMemoryRegistry "[sampleBackend ''a'' [] 1]"] by auto
qed

text \<open>
  C8. The round robin is fair. Take a route whose ready candidates \<open>cs\<close> are chosen by weight, with
  scores at zero and weights small enough for \<open>int64\<close>. Then after any number \<open>n\<close> of requests
  no candidate is a full request ahead of its share \<open>n * w / W\<close>, and after every
  \<open>W\<close> requests (\<open>W\<close> the sum of the weights) each candidate has received exactly its weight per round.
\<close>

theorem weighted_round_robin_fair:
  assumes "reg_ok r" and "decidingPrefix r path p" and "readyCandidates (routesAt (mrRoutes r) p) = cs"
    and "load = None \<or> routeStrategy cs = RoutingStrategyWeighted"
    and "\<forall>b \<in> set cs. scoreAt (mrRR r) p (identity b) = 0"
    and "(int (length cs) + 1) * weightSum cs \<le> maxInt64"
    and "c \<in> set cs"
  shows "weightSum cs * int (count_list (snd (SelectMany r path load n)) c) < int n * effectiveWeight c + weightSum cs \<and>
    int (count_list (snd (SelectMany r path load (m * nat (weightSum cs)))) c) = int m * effectiveWeight c"
proof (cases "length cs = 1")
  case True
  then have cs: "cs = [c]" using assms(7) by (auto simp: length_Suc_conv)
  have "effectiveWeight c > 0" using assms(3,7) by (auto simp: readyCandidates_def)
  moreover have "snd (SelectMany r path load k) = replicate k c" for k
    using SelectMany_single assms(1-3) cs by blast
  ultimately show ?thesis by (simp add: cs weightSum_def count_list_replicate_same)
next
  case False
  have pos: "\<forall>c \<in> set cs. 0 < effectiveWeight c" using assms(3) by (auto simp: readyCandidates_def)
  have "distinct (map identity cs)"
    using routesAt_ok [of "mrRoutes r" p] reg_okD [OF assms(1)] assms(3)
    by (auto simp: readyCandidates_def distinct_map intro: inj_on_subset)
  moreover have len: "2 \<le> length cs" using False assms(7) by (cases cs; cases "tl cs") auto
  ultimately have ok: "swrr_ok cs" using pos assms(6) by (simp add: swrr_ok_def)
  have picks: "SelectMany r path load k = weightedPicks r p cs k" for k
    using SelectMany_weighted assms(1-4) len by blast
  show ?thesis
    using weightedPicks_exact [OF ok assms(5) _ assms(7)] weightedPicks_bound [OF ok assms(5) _ assms(7)]
    by (metis picks prod.collapse)
qed

theorem weighted_round_robin_fair_witness:
  "count_list (snd (SelectMany sampleRegistry ''/models/llama/v1'' None 8))
     (sampleBackend ''stable'' ''/models/llama'' 3) = 6"
proof -
  let ?c = "sampleBackend ''canary'' ''/models/llama'' 1" and ?s = "sampleBackend ''stable'' ''/models/llama'' 3"
  have d: "decidingPrefix sampleRegistry ''/models/llama/v1'' ''/models/llama''"
    by (simp add: decidingPrefix_def sample_routes routeMatches_def has_prefix_def)
  have cs: "readyCandidates (routesAt (mrRoutes sampleRegistry) ''/models/llama'') = [?c, ?s]"
    by (simp add: sample_routes routesAt_def readyCandidates_def sampleBackend_def effectiveWeight_def)
  have z: "\<forall>b \<in> set [?c, ?s]. scoreAt (mrRR sampleRegistry) ''/models/llama'' (identity b) = 0" by code_simp
  have w: "weightSum [?c, ?s] = 4" "effectiveWeight ?s = 3"
    by (simp_all add: weightSum_def sampleBackend_def effectiveWeight_def)
  have "int (count_list (snd (SelectMany sampleRegistry ''/models/llama/v1'' None (2 * nat (weightSum [?c, ?s])))) ?s)
      = int 2 * effectiveWeight ?s"
    using weighted_round_robin_fair [OF sampleRegistry_ok d cs _ z, of None ?s 0 2] w by (simp add: maxInt64_def)
  moreover have "2 * nat (weightSum [?c, ?s]) = 8" by (simp add: w(1))
  ultimately have "int (count_list (snd (SelectMany sampleRegistry ''/models/llama/v1'' None 8)) ?s) = 6"
    by (simp only: w(2))
  then show ?thesis by linarith
qed

end
