(* ===== verification/Go_Float.thy ===== *)
theory Go_Float
  imports Prelude
begin

text \<open>
  Go's \<open>float64\<close> arithmetic: a finite value is the rational number it denotes, and an operation is
  the exact operation followed by \<open>fl64\<close>, rounding to the nearest value with a 53-bit significand, ties to even
  (IEEE 754 binary64 with gradual underflow; overflow to infinity is outside the range of the values the sources
  compute). What the gateway's arithmetic relies on is the locale \<open>rounding\<close>: rounding is monotone, commutes with
  negation and leaves small integers alone; it is interpreted on \<open>fl64\<close> below.
\<close>

section \<open>Rounding\<close>

definition round_even :: "rat \<Rightarrow> int" where
  "round_even x =
     (let f = floor x; d = x - of_int f
      in if d < 1 / 2 then f else if d > 1 / 2 then f + 1 else if even f then f else f + 1)"

fun bit_length :: "nat \<Rightarrow> nat" where
  "bit_length n = (if n = 0 then 0 else Suc (bit_length (n div 2)))"

declare bit_length.simps [simp del]

text \<open>The binary exponent of a positive rational number.\<close>

definition exponent :: "rat \<Rightarrow> int" where
  "exponent x =
     (let (a, b) = quotient_of x;
          e = int (bit_length (nat a)) - int (bit_length (nat b))
      in if 2 powi e \<le> x then e else e - 1)"

definition ulp64 :: "rat \<Rightarrow> rat" where
  "ulp64 x = 2 powi (max (exponent x) (- 1022) - 52)"

definition fl64 :: "rat \<Rightarrow> rat" where
  "fl64 x =
     (if x = 0 then 0
      else if x > 0 then of_int (round_even (x / ulp64 x)) * ulp64 x
      else - (of_int (round_even (- x / ulp64 (- x))) * ulp64 (- x)))"

section \<open>The contract of rounding\<close>

locale rounding =
  fixes fl :: "rat \<Rightarrow> rat"
  assumes mono: "x \<le> y \<Longrightarrow> fl x \<le> fl y"
    and small_int: "\<bar>n\<bar> < 2 ^ 53 \<Longrightarrow> fl (of_int n) = of_int n"
    and minus: "fl (- x) = - fl x"
begin

lemma zero [simp]: "fl 0 = 0"
  using small_int [of 0] by simp

lemma one [simp]: "fl 1 = 1"
  using small_int [of 1] by simp

lemma nonneg: "0 \<le> x \<Longrightarrow> 0 \<le> fl x"
  using mono [of 0 x] by simp

lemma le_int: "x \<le> of_int n \<Longrightarrow> \<bar>n\<bar> < 2 ^ 53 \<Longrightarrow> fl x \<le> of_int n"
  using mono [of x "of_int n"] small_int by simp

lemma int_le: "of_int n \<le> x \<Longrightarrow> \<bar>n\<bar> < 2 ^ 53 \<Longrightarrow> of_int n \<le> fl x"
  using mono [of "of_int n" x] small_int by simp

end

section \<open>Lemmas\<close>

lemma round_even_mono:
  assumes "x \<le> y"
  shows "round_even x \<le> round_even y"
proof -
  have fl: "floor x \<le> floor y" using assms by (rule floor_mono)
  have up: "round_even z \<le> floor z + 1" "floor z \<le> round_even z" for z by (simp_all add: round_even_def Let_def)
  show ?thesis
  proof (cases "floor x = floor y")
    case True
    then show ?thesis using assms by (auto simp: round_even_def Let_def)
  next
    case False
    then show ?thesis using fl up(1) [of x] up(2) [of y] by linarith
  qed
qed

lemma round_even_of_int [simp]: "round_even (of_int n) = n"
  by (simp add: round_even_def)

lemma bit_length_bounds: "0 < n \<Longrightarrow> 2 ^ bit_length n \<le> 2 * n \<and> n < 2 ^ bit_length n"
proof (induction n rule: bit_length.induct)
  case (1 n)
  show ?case
  proof (cases "n div 2 = 0")
    case True
    then have "n = 1" using "1.prems" by simp
    then show ?thesis by (simp add: bit_length.simps)
  next
    case False
    then have "2 ^ bit_length (n div 2) \<le> 2 * (n div 2)" "n div 2 < 2 ^ bit_length (n div 2)"
      using "1.IH" "1.prems" by auto
    then show ?thesis using "1.prems" by (subst (1 2) bit_length.simps) auto
  qed
qed

lemma bit_length_rat_bounds:
  assumes "0 < a"
  shows "(2 :: rat) ^ bit_length (nat a) \<le> 2 * of_int a" and "of_int a < (2 :: rat) ^ bit_length (nat a)"
proof -
  have "2 ^ bit_length (nat a) \<le> 2 * nat a" "nat a < 2 ^ bit_length (nat a)"
    using bit_length_bounds [of "nat a"] assms by auto
  then have "(of_nat (2 ^ bit_length (nat a)) :: rat) \<le> of_nat (2 * nat a)"
    "(of_nat (nat a) :: rat) < of_nat (2 ^ bit_length (nat a))" by (simp_all only: of_nat_le_iff of_nat_less_iff)
  then show "(2 :: rat) ^ bit_length (nat a) \<le> 2 * of_int a" "of_int a < (2 :: rat) ^ bit_length (nat a)"
    using assms by simp_all
qed

lemma exponent_bounds:
  assumes "x > 0"
  shows "2 powi exponent x \<le> x" and "x < 2 powi (exponent x + 1)"
proof -
  obtain a b where ab: "quotient_of x = (a, b)" by fastforce
  then have b: "b > 0" and x: "x = of_int a / of_int b"
    using quotient_of_denom_pos quotient_of_div by blast+
  then have a: "a > 0" using assms by (simp add: zero_less_divide_iff)
  define la lb where "la = bit_length (nat a)" and "lb = bit_length (nat b)"
  have la: "(2 :: rat) ^ la \<le> 2 * of_int a" "of_int a < (2 :: rat) ^ la"
    using bit_length_rat_bounds [OF a] by (simp_all add: la_def)
  have lb: "(2 :: rat) ^ lb \<le> 2 * of_int b" "of_int b < (2 :: rat) ^ lb"
    using bit_length_rat_bounds [OF b] by (simp_all add: lb_def)
  define e where "e = int la - int lb"
  have pe: "2 powi e = (2 :: rat) ^ la / 2 ^ lb" by (simp add: e_def power_int_diff)
  have bpos: "(0 :: rat) < of_int b" using b by simp
  have upper: "x < 2 powi (e + 1)"
  proof -
    have "of_int a * 2 ^ lb < (2 :: rat) ^ la * (2 * of_int b)"
      using la(2) lb(1) bpos a by (intro mult_less_le_imp_less) auto
    then have "of_int a / of_int b < 2 * ((2 :: rat) ^ la / 2 ^ lb)" using bpos by (simp add: field_simps)
    then show ?thesis using x pe by (simp add: power_int_add mult.commute)
  qed
  have lower: "2 powi (e - 1) \<le> x"
  proof -
    have "(2 :: rat) ^ la * of_int b \<le> 2 * of_int a * 2 ^ lb"
      using la(1) lb(2) bpos a by (intro mult_mono) auto
    then have "(2 :: rat) ^ la / 2 ^ lb / 2 \<le> of_int a / of_int b" using bpos by (simp add: field_simps)
    then show ?thesis using x pe by (simp add: power_int_diff)
  qed
  have exp: "exponent x = (if 2 powi e \<le> x then e else e - 1)"
    by (simp add: exponent_def ab Let_def e_def la_def lb_def)
  show "2 powi exponent x \<le> x" using exp lower by simp
  show "x < 2 powi (exponent x + 1)" using exp upper by auto
qed

lemma exponent_mono:
  assumes "0 < x" and "x \<le> y"
  shows "exponent x \<le> exponent y"
proof (rule ccontr)
  assume "\<not> exponent x \<le> exponent y"
  then have "(2 :: rat) powi (exponent y + 1) \<le> 2 powi exponent x" by (intro power_int_increasing) auto
  then show False using exponent_bounds(1) [of x] exponent_bounds(2) [of y] assms by simp
qed

lemma ulp64_pos: "0 < ulp64 x"
  by (simp add: ulp64_def)

text \<open>On one binade rounding is monotone; from one to the next the values are separated by a power of two.\<close>

lemma fl64_le_power:
  assumes "0 < x" and "x \<le> 2 powi k" and "max (exponent x) (- 1022) - 52 \<le> k"
  shows "fl64 x \<le> 2 powi k"
proof -
  let ?i = "max (exponent x) (- 1022) - 52"
  have "(2 :: rat) powi k / ulp64 x = 2 powi (k - ?i)" by (simp add: ulp64_def power_int_diff)
  also have "\<dots> = of_int (2 ^ nat (k - ?i))" using assms(3) by (simp add: power_int_def)
  finally have q: "(2 :: rat) powi k / ulp64 x = of_int (2 ^ nat (k - ?i))" .
  have "x / ulp64 x \<le> of_int (2 ^ nat (k - ?i))"
    using assms(2) ulp64_pos [of x] unfolding q [symmetric] by (intro divide_right_mono) auto
  then have "round_even (x / ulp64 x) \<le> 2 ^ nat (k - ?i)" using round_even_mono [of _ "of_int _"] by (metis round_even_of_int)
  then have "of_int (round_even (x / ulp64 x)) \<le> (2 :: rat) powi k / ulp64 x" unfolding q by (simp only: of_int_le_iff)
  then show ?thesis using assms(1) ulp64_pos [of x] by (simp add: fl64_def pos_le_divide_eq)
qed

lemma power_le_fl64:
  assumes "2 powi k \<le> x" and "max (exponent x) (- 1022) - 52 \<le> k"
  shows "2 powi k \<le> fl64 x"
proof -
  let ?i = "max (exponent x) (- 1022) - 52"
  have x: "0 < x" using assms(1) by (meson order_less_le_trans zero_less_power_int zero_less_numeral)
  have "(2 :: rat) powi k / ulp64 x = 2 powi (k - ?i)" by (simp add: ulp64_def power_int_diff)
  also have "\<dots> = of_int (2 ^ nat (k - ?i))" using assms(2) by (simp add: power_int_def)
  finally have q: "(2 :: rat) powi k / ulp64 x = of_int (2 ^ nat (k - ?i))" .
  have "of_int (2 ^ nat (k - ?i)) \<le> x / ulp64 x"
    using assms(1) ulp64_pos [of x] unfolding q [symmetric] by (intro divide_right_mono) auto
  then have "2 ^ nat (k - ?i) \<le> round_even (x / ulp64 x)" using round_even_mono [of "of_int _"] by (metis round_even_of_int)
  then have "(2 :: rat) powi k / ulp64 x \<le> of_int (round_even (x / ulp64 x))" unfolding q by (simp only: of_int_le_iff)
  then show ?thesis using x ulp64_pos [of x] by (simp add: fl64_def pos_divide_le_eq)
qed

lemma fl64_mono_pos:
  assumes "0 < x" and "x \<le> y"
  shows "fl64 x \<le> fl64 y"
proof -
  have y: "0 < y" using assms by simp
  let ?ex = "max (exponent x) (- 1022)" and ?ey = "max (exponent y) (- 1022)"
  have ee: "?ex \<le> ?ey" using exponent_mono [OF assms] by simp
  show ?thesis
  proof (cases "?ex = ?ey")
    case True
    then have u: "ulp64 x = ulp64 y" by (simp add: ulp64_def)
    have "round_even (x / ulp64 y) \<le> round_even (y / ulp64 y)"
      using assms(2) ulp64_pos [of y] by (intro round_even_mono divide_right_mono) auto
    then show ?thesis using assms(1) y u ulp64_pos [of y] by (simp add: fl64_def mult_right_mono)
  next
    case False
    then have lt: "?ex < ?ey" "?ey = exponent y" using ee by auto
    have "x \<le> 2 powi (?ex + 1)"
    proof -
      have "x < 2 powi (exponent x + 1)" using exponent_bounds(2) assms(1) .
      also have "(2 :: rat) powi (exponent x + 1) \<le> 2 powi (?ex + 1)" by (intro power_int_increasing) auto
      finally show ?thesis by simp
    qed
    then have 1: "fl64 x \<le> 2 powi (?ex + 1)" using assms(1) by (intro fl64_le_power) auto
    have 2: "(2 :: rat) powi (?ex + 1) \<le> 2 powi ?ey" using lt by (intro power_int_increasing) auto
    have "2 powi exponent y \<le> fl64 y" using exponent_bounds(1) [OF y] lt(2) by (intro power_le_fl64) auto
    then show ?thesis using 1 2 lt(2) by simp
  qed
qed

lemma fl64_minus: "fl64 (- x) = - fl64 x"
  by (auto simp: fl64_def)

lemma fl64_nonneg: "0 \<le> x \<Longrightarrow> 0 \<le> fl64 x"
proof (cases "x = 0")
  case False
  assume "0 \<le> x"
  then have x: "0 < x" using False by simp
  have "round_even 0 \<le> round_even (x / ulp64 x)" using x ulp64_pos [of x] by (intro round_even_mono) auto
  moreover have "round_even 0 = 0" by (simp add: round_even_def)
  ultimately show ?thesis using x ulp64_pos [of x] by (simp add: fl64_def)
qed (simp add: fl64_def)

lemma fl64_mono: "x \<le> y \<Longrightarrow> fl64 x \<le> fl64 y"
proof -
  assume le: "x \<le> y"
  consider "0 < x" | "x \<le> 0" "0 \<le> y" | "y < 0" by linarith
  then show ?thesis
  proof cases
    case 1
    then show ?thesis using fl64_mono_pos le by simp
  next
    case 2
    then have "0 \<le> fl64 (- x)" "0 \<le> fl64 y" by (simp_all add: fl64_nonneg)
    then show ?thesis by (simp add: fl64_minus)
  next
    case 3
    then have "fl64 (- y) \<le> fl64 (- x)" using le by (intro fl64_mono_pos) auto
    then show ?thesis by (simp add: fl64_minus)
  qed
qed

lemma fl64_small_nat:
  assumes "0 < n" and "n < 2 ^ 53"
  shows "fl64 (of_int n) = of_int n"
proof -
  let ?x = "of_int n :: rat" and ?i = "max (exponent (of_int n)) (- 1022) - 52"
  have "(2 :: rat) powi exponent ?x \<le> ?x" using assms exponent_bounds(1) [of ?x] by simp
  also have "?x < 2 ^ 53" using assms(2) by (metis of_int_less_iff of_int_numeral of_int_power)
  finally have lt: "(2 :: rat) powi exponent ?x < 2 powi 53" by simp
  have "?i \<le> 0"
  proof (rule ccontr)
    assume "\<not> ?i \<le> 0"
    then have "(2 :: rat) powi 53 \<le> 2 powi exponent ?x" by (intro power_int_increasing) auto
    then show False using lt by simp
  qed
  then have "?x / ulp64 ?x = of_int (n * 2 ^ nat (- ?i))"
    by (simp add: ulp64_def power_int_def field_simps)
  then have "round_even (?x / ulp64 ?x) = n * 2 ^ nat (- ?i)" by (simp only: round_even_of_int)
  then have "of_int (round_even (?x / ulp64 ?x)) = ?x / ulp64 ?x"
    using \<open>?x / ulp64 ?x = _\<close> by simp
  then show ?thesis using assms(1) ulp64_pos [of ?x] by (simp add: fl64_def)
qed

interpretation float64: rounding fl64
proof
  show "fl64 (of_int n) = of_int n" if "\<bar>n\<bar> < 2 ^ 53" for n
  proof -
    consider "n = 0" | "0 < n" | "n < 0" by linarith
    then show ?thesis
    proof cases
      case 3
      then have "fl64 (of_int (- n)) = of_int (- n)" using that by (intro fl64_small_nat) auto
      then show ?thesis by (simp add: fl64_minus)
    qed (use that fl64_small_nat in \<open>auto simp: fl64_def [of 0]\<close>)
  qed
qed (auto simp: fl64_mono fl64_minus)

end
