(* ===== verification/Gateway_Proxy.thy ===== *)
theory Gateway_Proxy
  imports Registry_Selection Go_Float
begin

text \<open>
  \<open>gateway/internal/proxy/proxy.go\<close>: the gateway's reverse proxy with its per-backend request counter
  (\<open>requestTracker\<close>), its token buckets (\<open>rateLimiter\<close>), the handler \<open>ServeHTTP\<close>, the rewriting and
  completion of a forwarded request, the drain report and the access log writer.

  A handler is a function of the proxy state, the clock and the request, and returns the state after and what
  it did: an error reply, or a request forwarded to a backend. A forwarded request stays in flight until
  the upstream answers or fails, which is the separate step \<open>finishForward\<close>; so interleavings of requests are
  sequences of these steps. The transport and the copying of bodies are Go's \<open>httputil.ReverseProxy\<close>;
  of it only the hooks that the sources supply are modelled. JSON bodies are kept as data.
\<close>

section \<open>Requests and replies\<close>

record http_request =
  rqMethod :: string
  rqURL :: "URL option"
  rqQuery :: "(string \<times> string list) list"
  rqHeaders :: "(string \<times> string list) list"

record errorBody =
  ebMessage :: string
  ebType :: string
  ebCode :: string

record drainBackendStatus =
  dbNamespace :: string
  dbModel :: string
  dbRoutePrefix :: string
  dbState :: string
  dbActiveRequests :: int
  dbDraining :: bool
  dbDrainComplete :: bool
  dbMessage :: string

datatype reply_body =
    ErrorEnvelope errorBody
  | DrainReport "drainBackendStatus list"

record http_reply =
  hrStatus :: int
  hrHeaders :: string_map
  hrBody :: reply_body

definition writeError :: "string_map \<Rightarrow> int \<Rightarrow> string \<Rightarrow> string \<Rightarrow> string \<Rightarrow> http_reply" where
  "writeError headers status code errorType message =
     \<lparr>hrStatus = status, hrHeaders = AList.update ''Content-Type'' ''application/json'' headers,
      hrBody = ErrorEnvelope \<lparr>ebMessage = message, ebType = errorType, ebCode = code\<rparr>\<rparr>"

definition queryGet :: "http_request \<Rightarrow> string \<Rightarrow> string" where
  "queryGet request key =
     (case map_of (rqQuery request) key of Some (v # _) \<Rightarrow> v | _ \<Rightarrow> [])"

section \<open>Request tracker\<close>

type_synonym requestTracker = "backendKey \<Rightarrow> int option"

definition newRequestTracker :: requestTracker where
  "newRequestTracker = (\<lambda>_. None)"

definition keyForBackend :: "Backend \<Rightarrow> backendKey" where
  "keyForBackend backend = \<lparr>bkNamespace = bNamespace backend, bkName = bName backend\<rparr>"

definition activeAt :: "requestTracker \<Rightarrow> backendKey \<Rightarrow> int" where
  "activeAt t key = (case t key of None \<Rightarrow> 0 | Some n \<Rightarrow> n)"

definition trackerBegin :: "requestTracker \<Rightarrow> Backend \<Rightarrow> requestTracker" where
  "trackerBegin t backend =
     (let key = keyForBackend backend in t(key := Some (wrap64 (activeAt t key + 1))))"

text \<open>The function \<open>begin\<close> returns.\<close>

definition trackerDone :: "requestTracker \<Rightarrow> Backend \<Rightarrow> requestTracker" where
  "trackerDone t backend =
     (let key = keyForBackend backend
      in if activeAt t key \<le> 1 then t(key := None) else t(key := Some (wrap64 (activeAt t key - 1))))"

definition activeCount :: "requestTracker \<Rightarrow> Backend \<Rightarrow> int" where
  "activeCount t backend = activeAt t (keyForBackend backend)"

section \<open>Rate limiter\<close>

record tokenBucket =
  tbRequestsPerMinute :: int
  tbCapacity :: rat
  tbTokens :: rat
  tbLast :: time

type_synonym rateLimiter = "backendKey \<Rightarrow> tokenBucket option"

definition newRateLimiter :: rateLimiter where
  "newRateLimiter = (\<lambda>_. None)"

text \<open>\<open>time.Time.Sub\<close> saturates; \<open>Duration.Seconds\<close> adds the whole and the fractional seconds.\<close>

definition timeSub :: "time \<Rightarrow> time \<Rightarrow> duration" where
  "timeSub t u = max (- (2 ^ 63)) (min maxInt64 (t - u))"

definition durationSeconds :: "duration \<Rightarrow> rat" where
  "durationSeconds d =
     (let sec = sgn d * (\<bar>d\<bar> div 1000000000); nsec = sgn d * (\<bar>d\<bar> mod 1000000000)
      in fl64 (fl64 (of_int sec) + fl64 (fl64 (of_int nsec) / 1000000000)))"

definition effectiveBurst :: "RateLimitPolicy \<Rightarrow> int" where
  "effectiveBurst policy = (if lmBurst policy \<le> 0 then lmRequestsPerMinute policy else lmBurst policy)"

definition bucketFor :: "time \<Rightarrow> tokenBucket option \<Rightarrow> RateLimitPolicy \<Rightarrow> tokenBucket" where
  "bucketFor now existing policy =
     (let capacity = fl64 (of_int (effectiveBurst policy));
          fresh = \<lparr>tbRequestsPerMinute = lmRequestsPerMinute policy, tbCapacity = capacity,
                   tbTokens = capacity, tbLast = now\<rparr>
      in case existing of
           None \<Rightarrow> fresh
         | Some bucket \<Rightarrow>
             if tbRequestsPerMinute bucket \<noteq> lmRequestsPerMinute policy \<or> tbCapacity bucket \<noteq> capacity
               then fresh else bucket)"

definition limiterAllow ::
  "time \<Rightarrow> rateLimiter \<Rightarrow> backendKey \<Rightarrow> RateLimitPolicy \<Rightarrow> rateLimiter \<times> bool \<times> int" where
  "limiterAllow now l key policy =
     (if lmRequestsPerMinute policy \<le> 0 then (l, True, 0)
      else
        let bucket = bucketFor now (l key) policy;
            ratePerSecond = fl64 (fl64 (of_int (lmRequestsPerMinute policy)) / 60);
            elapsed = durationSeconds (timeSub now (tbLast bucket));
            tokens = min (tbCapacity bucket) (fl64 (tbTokens bucket + fl64 (elapsed * ratePerSecond)))
        in if tokens \<ge> 1
             then (l(key := Some (bucket\<lparr>tbLast := now, tbTokens := fl64 (tokens - 1)\<rparr>)), True, 0)
           else
             let retry = ceiling (fl64 (fl64 (1 - tokens) / ratePerSecond))
             in (l(key := Some (bucket\<lparr>tbLast := now, tbTokens := tokens\<rparr>)), False,
                 if retry < 1 then 1 else retry))"

section \<open>The proxy\<close>

record Options =
  opDefaultRateLimit :: "RateLimitPolicy option"
  opRequestLoggingEnabled :: "bool option"

record Proxy =
  pxRegistry :: MemoryRegistry
  pxTracker :: requestTracker
  pxLimiter :: rateLimiter
  pxOptions :: Options

datatype proxy_error =
    RegistryRequired
  | DefaultRateNegative
  | DefaultBurstNegative

definition NewWithMetricsAndOptions :: "MemoryRegistry option \<Rightarrow> Options \<Rightarrow> (proxy_error, Proxy) result" where
  "NewWithMetricsAndOptions registry options =
     (case registry of
        None \<Rightarrow> Inl RegistryRequired
      | Some r \<Rightarrow>
          let proxy = \<lparr>pxRegistry = r, pxTracker = newRequestTracker, pxLimiter = newRateLimiter,
                       pxOptions = options\<rparr>
          in (case opDefaultRateLimit options of
                None \<Rightarrow> Inr proxy
              | Some rateLimit \<Rightarrow>
                  if lmRequestsPerMinute rateLimit < 0 then Inl DefaultRateNegative
                  else if lmBurst rateLimit < 0 then Inl DefaultBurstNegative
                  else Inr proxy))"

definition canonicalRequestPath :: "URL option \<Rightarrow> bool" where
  "canonicalRequestPath requestURL =
     (case requestURL of
        None \<Rightarrow> False
      | Some u \<Rightarrow>
          if uPath u = [] \<or> uRawPath u \<noteq> [] \<or> contains_char (uPath u) CHR 0x5C then False
          else
            let trimmed = trim_suffix (uPath u) ''/'';
                withoutTrailingSlash = (if trimmed = [] then ''/'' else trimmed)
            in path_clean (uPath u) = withoutTrailingSlash)"

definition proxyLookup :: "Proxy \<Rightarrow> string \<Rightarrow> MemoryRegistry \<times> (Backend \<times> string) option" where
  "proxyLookup p requestPath =
     Select (pxRegistry p) requestPath (Some (\<lambda>backend. activeCount (pxTracker p) backend))"

definition rateLimitPolicy :: "Proxy \<Rightarrow> Backend \<Rightarrow> RateLimitPolicy option" where
  "rateLimitPolicy p backend =
     (case tpRateLimit (bPolicy backend) of
        Some policy \<Rightarrow> Some policy
      | None \<Rightarrow> opDefaultRateLimit (pxOptions p))"

definition rateLimitAllowed :: "time \<Rightarrow> Proxy \<Rightarrow> Backend \<Rightarrow> Proxy \<times> bool \<times> int" where
  "rateLimitAllowed now p backend =
     (case rateLimitPolicy p backend of
        None \<Rightarrow> (p, True, 0)
      | Some policy \<Rightarrow>
          if lmRequestsPerMinute policy \<le> 0 then (p, True, 0)
          else
            let (l, allowed, retry) = limiterAllow now (pxLimiter p) (keyForBackend backend) policy
            in (p\<lparr>pxLimiter := l\<rparr>, allowed, retry))"

definition requestLoggingEnabled :: "Proxy \<Rightarrow> Backend \<Rightarrow> bool" where
  "requestLoggingEnabled p backend =
     (case tpRequestLogging (bPolicy backend) of
        None \<Rightarrow> opRequestLoggingEnabled (pxOptions p) = Some True
      | Some policy \<Rightarrow>
          (case lpEnabled policy of
             Some enabled \<Rightarrow> enabled
           | None \<Rightarrow> opRequestLoggingEnabled (pxOptions p) = Some True))"

definition stateMessage :: "Backend \<Rightarrow> string \<Rightarrow> string" where
  "stateMessage backend fallback = (if trim_space (bMessage backend) \<noteq> [] then bMessage backend else fallback)"

definition joinURLPath :: "URL \<Rightarrow> string \<Rightarrow> string" where
  "joinURLPath endpoint requestPath =
     (let base = trim_suffix (uPath endpoint) ''/''
      in if requestPath = [] \<or> requestPath = ''/'' then (if base = [] then ''/'' else base @ ''/'')
         else base @ ''/'' @ trim_prefix requestPath ''/'')"

text \<open>The outgoing URL that the \<open>Rewrite\<close> hook of \<open>forward\<close> leaves.\<close>

definition rewriteURL :: "URL \<Rightarrow> string \<Rightarrow> URL" where
  "rewriteURL endpoint upstreamPath =
     \<lparr>uScheme = uScheme endpoint, uHost = uHost endpoint, uPath = joinURLPath endpoint upstreamPath, uRawPath = []\<rparr>"

datatype serve_outcome =
    Replied http_reply
  | Forwarded Backend URL
  | ForwardPanics

definition retryAfterSeconds :: int where
  "retryAfterSeconds = 5"

definition beginForward :: "Proxy \<Rightarrow> Backend \<Rightarrow> string \<Rightarrow> Proxy \<times> serve_outcome" where
  "beginForward p backend upstreamPath =
     (case bEndpoint backend of
        None \<Rightarrow> (p, ForwardPanics)
      | Some endpoint \<Rightarrow>
          (p\<lparr>pxTracker := trackerBegin (pxTracker p) backend\<rparr>, Forwarded backend (rewriteURL endpoint upstreamPath)))"

definition retryReply :: "Backend \<Rightarrow> string \<Rightarrow> string \<Rightarrow> string \<Rightarrow> serve_outcome" where
  "retryReply backend code errorType fallback =
     Replied (writeError [(''Retry-After'', itoa retryAfterSeconds)] 503 code errorType (stateMessage backend fallback))"

definition serveBackend :: "time \<Rightarrow> Proxy \<Rightarrow> Backend \<Rightarrow> string \<Rightarrow> Proxy \<times> serve_outcome" where
  "serveBackend now p backend upstreamPath =
     (case bState backend of
        StateReady \<Rightarrow>
          if upstreamPath \<noteq> ''/v1'' \<and> \<not> has_prefix upstreamPath ''/v1/''
            then (p, Replied (writeError [] 404 ''invalid_path'' ''invalid_request_error''
                               ''model routes accept only /v1 endpoints''))
          else
            let (p', allowed, retryAfter) = rateLimitAllowed now p backend
            in if \<not> allowed
                 then (p', Replied (writeError [(''Retry-After'', itoa retryAfter)] 429 ''rate_limit_exceeded''
                                     ''rate_limit_error'' ''model route rate limit exceeded''))
               else beginForward p' backend upstreamPath
      | StateInactive \<Rightarrow>
          (p, Replied (writeError [] 409 ''model_inactive'' ''inactive_model''
                        (stateMessage backend ''model is inactive'')))
      | StateActivating \<Rightarrow> (p, retryReply backend ''model_activating'' ''activating_model'' ''model is activating'')
      | StateDraining \<Rightarrow> (p, retryReply backend ''model_draining'' ''unavailable_model'' ''model is draining'')
      | _ \<Rightarrow> (p, retryReply backend ''model_unavailable'' ''unavailable_model'' ''model is unavailable''))"

definition ServeHTTP :: "time \<Rightarrow> Proxy \<Rightarrow> http_request \<Rightarrow> Proxy \<times> serve_outcome" where
  "ServeHTTP now p request =
     (case rqURL request of
        None \<Rightarrow> (p, Replied (writeError [] 400 ''invalid_path'' ''invalid_request_error''
                  ''request path must not contain escapes, backslashes, or traversal segments''))
      | Some u \<Rightarrow>
          if \<not> canonicalRequestPath (Some u)
            then (p, Replied (writeError [] 400 ''invalid_path'' ''invalid_request_error''
                   ''request path must not contain escapes, backslashes, or traversal segments''))
          else (case proxyLookup p (uPath u) of
                  (registry, None) \<Rightarrow>
                    (p\<lparr>pxRegistry := registry\<rparr>,
                     Replied (writeError [] 404 ''model_not_found'' ''unknown_model'' ''model route was not found''))
                | (registry, Some (backend, upstreamPath)) \<Rightarrow>
                    serveBackend now (p\<lparr>pxRegistry := registry\<rparr>) backend upstreamPath))"

text \<open>
  The end of a forwarded request: the \<open>ModifyResponse\<close> and \<open>ErrorHandler\<close> hooks, what they report to the metrics
  recorder, and the deferred \<open>done\<close>.
\<close>

datatype upstream_result =
    UpstreamResponse int string_map
  | UpstreamFailed bool

datatype client_result =
    ClientResponse int string_map
  | ClientError http_reply
  | ClientGone

definition finishForward ::
  "Proxy \<Rightarrow> Backend \<Rightarrow> upstream_result \<Rightarrow> Proxy \<times> client_result \<times> string list" where
  "finishForward p backend result =
     (let p' = p\<lparr>pxTracker := trackerDone (pxTracker p) backend\<rparr>
      in case result of
           UpstreamResponse status headers \<Rightarrow>
             (p', ClientResponse status (AList.update ''X-Accel-Buffering'' ''no'' headers),
              if status \<ge> 500 then [''response_5xx''] else [])
         | UpstreamFailed requestCanceled \<Rightarrow>
             if requestCanceled then (p', ClientGone, [])
             else (p', ClientError (writeError [] 502 ''upstream_error'' ''api_error'' ''model runtime request failed''),
                   [''transport'']))"

section \<open>Drain status\<close>

definition stateString :: "State \<Rightarrow> string" where
  "stateString s =
     (case s of
        StateInactive \<Rightarrow> ''inactive''
      | StateActivating \<Rightarrow> ''activating''
      | StateReady \<Rightarrow> ''ready''
      | StateUnavailable \<Rightarrow> ''unavailable''
      | StateDraining \<Rightarrow> ''draining''
      | StateOther other \<Rightarrow> other)"

definition drainStatusOf :: "Proxy \<Rightarrow> Backend \<Rightarrow> drainBackendStatus" where
  "drainStatusOf p backend =
     (let active = activeCount (pxTracker p) backend
      in \<lparr>dbNamespace = bNamespace backend, dbModel = bName backend, dbRoutePrefix = bRoutePrefix backend,
          dbState = stateString (bState backend), dbActiveRequests = active,
          dbDraining = (bState backend = StateDraining),
          dbDrainComplete = (bState backend = StateDraining \<and> active = 0),
          dbMessage = bMessage backend\<rparr>)"

definition ServeDrainStatus :: "Proxy \<Rightarrow> http_request \<Rightarrow> http_reply" where
  "ServeDrainStatus p request =
     (if rqMethod request \<noteq> ''GET''
        then writeError [(''Allow'', ''GET'')] 405 ''method_not_allowed'' ''invalid_request_error'' ''method not allowed''
      else
        let namespaceFilter = trim_space (queryGet request ''namespace'');
            modelFilter = trim_space (queryGet request ''model'');
            selected = filter (\<lambda>backend. (namespaceFilter = [] \<or> bNamespace backend = namespaceFilter) \<and>
                                          (modelFilter = [] \<or> bName backend = modelFilter))
                         (Backends (pxRegistry p))
        in \<lparr>hrStatus = 200, hrHeaders = [(''Content-Type'', ''application/json'')],
            hrBody = DrainReport (map (drainStatusOf p) selected)\<rparr>)"

section \<open>Access log\<close>

text \<open>
  The wrapper around the response writer records the first status; the wrapped writer sees
  a sequence of calls.
\<close>

datatype writer_call =
    CallWriteHeader int
  | CallWrite string
  | CallFlush

record accessLogWriter =
  alStatus :: int
  alCalls :: "writer_call list"

definition logWriteHeader :: "accessLogWriter \<Rightarrow> int \<Rightarrow> accessLogWriter" where
  "logWriteHeader w status =
     (if alStatus w \<noteq> 0 then w else w\<lparr>alStatus := status, alCalls := alCalls w @ [CallWriteHeader status]\<rparr>)"

definition ensureHeader :: "accessLogWriter \<Rightarrow> accessLogWriter" where
  "ensureHeader w = (if alStatus w = 0 then logWriteHeader w 200 else w)"

definition logWrite :: "accessLogWriter \<Rightarrow> string \<Rightarrow> accessLogWriter" where
  "logWrite w content = (let w' = ensureHeader w in w'\<lparr>alCalls := alCalls w' @ [CallWrite content]\<rparr>)"

definition logFlush :: "accessLogWriter \<Rightarrow> accessLogWriter" where
  "logFlush w = (let w' = ensureHeader w in w'\<lparr>alCalls := alCalls w' @ [CallFlush]\<rparr>)"

text \<open>\<open>io.Copy\<close> writes the chunks the reader yields to the wrapped writer.\<close>

definition logReadFrom :: "accessLogWriter \<Rightarrow> string list \<Rightarrow> accessLogWriter" where
  "logReadFrom w chunks = (let w' = ensureHeader w in w'\<lparr>alCalls := alCalls w' @ map CallWrite chunks\<rparr>)"

text \<open>The status that \<open>logRequest\<close> prints.\<close>

definition loggedStatus :: "accessLogWriter \<Rightarrow> bool \<Rightarrow> int" where
  "loggedStatus w requestCanceled =
     (if alStatus w = 0 then (if requestCanceled then 499 else 200) else alStatus w)"

section \<open>The contract of the request counter\<close>

text \<open>
  What load balancing and draining rely on: the counter of a backend moves by one with each begun and each
  finished request and ignores the other backends.
\<close>

locale request_counter =
  fixes fresh :: 's
    and begin_req :: "'s \<Rightarrow> Backend \<Rightarrow> 's"
    and done_req :: "'s \<Rightarrow> Backend \<Rightarrow> 's"
    and active :: "'s \<Rightarrow> Backend \<Rightarrow> int"
  assumes active_fresh: "active fresh b = 0"
    and active_begin: "0 \<le> active s b \<Longrightarrow> active s b < maxInt64 \<Longrightarrow>
      active (begin_req s b) c = (if keyForBackend c = keyForBackend b then active s b + 1 else active s c)"
    and active_done: "1 \<le> active s b \<Longrightarrow> active s b \<le> maxInt64 \<Longrightarrow>
      active (done_req s b) c = (if keyForBackend c = keyForBackend b then active s b - 1 else active s c)"
begin

definition counts :: "'s \<Rightarrow> backendKey multiset \<Rightarrow> bool" where
  "counts s M \<longleftrightarrow> (\<forall>b. active s b = int (count M (keyForBackend b)))"

lemma counts_fresh: "counts fresh {#}"
  by (simp add: counts_def active_fresh)

lemma counts_begin:
  assumes "counts s M" and "int (size M) < maxInt64"
  shows "counts (begin_req s b) (add_mset (keyForBackend b) M)"
proof -
  have "int (count M (keyForBackend b)) < maxInt64"
    using assms(2) count_le_size [of M "keyForBackend b"] by linarith
  then show ?thesis using assms(1) by (simp add: counts_def active_begin)
qed

lemma counts_done:
  assumes "counts s M" and "keyForBackend b \<in># M" and "int (size M) \<le> maxInt64"
  shows "counts (done_req s b) (M - {#keyForBackend b#})"
proof -
  have "1 \<le> int (count M (keyForBackend b))" using assms(2) by (simp add: Suc_le_eq)
  moreover have "int (count M (keyForBackend b)) \<le> maxInt64"
    using assms(3) count_le_size [of M "keyForBackend b"] by linarith
  ultimately show ?thesis using assms(1) by (auto simp: counts_def active_done)
qed

end

lemma keyForBackend_eq_identity: "keyForBackend = identity"
  by (simp add: fun_eq_iff keyForBackend_def identity_def)

interpretation tracker: request_counter newRequestTracker trackerBegin trackerDone activeCount
proof
  show "activeCount newRequestTracker b = 0" for b
    by (simp add: activeCount_def activeAt_def newRequestTracker_def)
  show "activeCount (trackerBegin s b) c =
      (if keyForBackend c = keyForBackend b then activeCount s b + 1 else activeCount s c)"
    if "0 \<le> activeCount s b" "activeCount s b < maxInt64" for s b c
    using that wrap64_nonneg [of "activeCount s b + 1"]
    by (simp add: activeCount_def activeAt_def trackerBegin_def Let_def)
  show "activeCount (trackerDone s b) c =
      (if keyForBackend c = keyForBackend b then activeCount s b - 1 else activeCount s c)"
    if "1 \<le> activeCount s b" "activeCount s b \<le> maxInt64" for s b c
    using that wrap64_nonneg [of "activeCount s b - 1"]
    by (auto simp: activeCount_def activeAt_def trackerDone_def Let_def)
qed

section \<open>Runs of the gateway\<close>

text \<open>
  The gateway's process: requests are served and finish in any order, and discovery or tests change the registry between
  them. The multiset holds the keys of the requests that were forwarded and have not finished.
\<close>

inductive gateway_run :: "Proxy \<Rightarrow> backendKey multiset \<Rightarrow> bool" where
  start: "reg_ok r \<Longrightarrow> NewWithMetricsAndOptions (Some r) options = Inr p \<Longrightarrow> gateway_run p {#}"
| reply: "gateway_run p M \<Longrightarrow> ServeHTTP now p request = (p', Replied rep) \<Longrightarrow> gateway_run p' M"
| forward: "gateway_run p M \<Longrightarrow> ServeHTTP now p request = (p', Forwarded b u) \<Longrightarrow> int (size M) < maxInt64 \<Longrightarrow>
    gateway_run p' (add_mset (keyForBackend b) M)"
| finish: "gateway_run p M \<Longrightarrow> keyForBackend b \<in># M \<Longrightarrow> finishForward p b result = (p', client, errors) \<Longrightarrow>
    gateway_run p' (M - {#keyForBackend b#})"
| registry: "gateway_run p M \<Longrightarrow> reg_step (pxRegistry p) r' \<Longrightarrow> gateway_run (p\<lparr>pxRegistry := r'\<rparr>) M"

section \<open>Lemmas on serving\<close>

lemma rateLimitAllowed_frame:
  "rateLimitAllowed now p b = (p', allowed, retry) \<Longrightarrow>
   pxRegistry p' = pxRegistry p \<and> pxTracker p' = pxTracker p \<and> pxOptions p' = pxOptions p"
  by (auto simp: rateLimitAllowed_def Let_def split: option.splits if_splits prod.splits)

lemma serveBackend_Forwarded:
  assumes "serveBackend now p b up = (p', Forwarded c u)"
  shows "c = b \<and> bState b = StateReady \<and> (up = ''/v1'' \<or> has_prefix up ''/v1/'') \<and>
    (\<exists>endpoint. bEndpoint b = Some endpoint \<and> u = rewriteURL endpoint up) \<and>
    (\<exists>p1 retry. rateLimitAllowed now p b = (p1, True, retry)) \<and>
    pxTracker p' = trackerBegin (pxTracker p) b \<and> pxRegistry p' = pxRegistry p"
  using assms
  by (auto simp: serveBackend_def beginForward_def retryReply_def Let_def
      split: State.splits if_splits prod.splits option.splits dest: rateLimitAllowed_frame)

lemma serveBackend_frame:
  assumes "serveBackend now p b up = (p', Replied rep)"
  shows "pxTracker p' = pxTracker p \<and> pxRegistry p' = pxRegistry p"
  using assms
  by (auto simp: serveBackend_def beginForward_def retryReply_def Let_def
      split: State.splits if_splits prod.splits option.splits dest: rateLimitAllowed_frame)

lemma ServeHTTP_cases:
  assumes "ServeHTTP now p request = (p', out)"
  shows "(pxTracker p' = pxTracker p \<and> pxRegistry p' = pxRegistry p \<and> (\<exists>rep. out = Replied rep)) \<or>
    (\<exists>url. rqURL request = Some url \<and> canonicalRequestPath (Some url) \<and>
      (let sel = proxyLookup p (uPath url); p1 = p\<lparr>pxRegistry := fst sel\<rparr>
       in case snd sel of
            None \<Rightarrow> p' = p1 \<and> (\<exists>rep. out = Replied rep)
          | Some (b, up) \<Rightarrow> serveBackend now p1 b up = (p', out)))"
  using assms by (auto simp: ServeHTTP_def Let_def split: option.splits if_splits prod.splits)

lemma ServeHTTP_Forwarded:
  assumes "ServeHTTP now p request = (p', Forwarded b u)"
  obtains url up where "rqURL request = Some url" "canonicalRequestPath (Some url)"
    "snd (Select (pxRegistry p) (uPath url) (Some (activeCount (pxTracker p)))) = Some (b, up)"
    "bState b = StateReady" "up = ''/v1'' \<or> has_prefix up ''/v1/''"
    "\<exists>endpoint. bEndpoint b = Some endpoint \<and> u = rewriteURL endpoint up"
    "pxTracker p' = trackerBegin (pxTracker p) b"
    "pxRegistry p' = fst (Select (pxRegistry p) (uPath url) (Some (activeCount (pxTracker p))))"
proof -
  obtain url where url: "rqURL request = Some url" "canonicalRequestPath (Some url)" and
    sel: "let sel = proxyLookup p (uPath url); p1 = p\<lparr>pxRegistry := fst sel\<rparr>
       in case snd sel of
            None \<Rightarrow> p' = p1 \<and> (\<exists>rep. Forwarded b u = Replied rep)
          | Some (b', up) \<Rightarrow> serveBackend now p1 b' up = (p', Forwarded b u)"
    using ServeHTTP_cases [OF assms] by auto
  then obtain b' up where s: "snd (proxyLookup p (uPath url)) = Some (b', up)"
    "serveBackend now (p\<lparr>pxRegistry := fst (proxyLookup p (uPath url))\<rparr>) b' up = (p', Forwarded b u)"
    by (auto simp: Let_def split: option.splits)
  show ?thesis
    using that [OF url] s(1) serveBackend_Forwarded [OF s(2)] by (auto simp: proxyLookup_def)
qed

lemma ServeHTTP_registry:
  assumes "ServeHTTP now p request = (p', out)" and "reg_ok (pxRegistry p)" and "out \<noteq> ForwardPanics"
  shows "reg_ok (pxRegistry p')"
proof -
  have sel: "reg_ok (fst (proxyLookup p path))" for path
    using assms(2) by (simp add: proxyLookup_def Select_ok)
  show ?thesis
  proof (cases out)
    case (Replied rep)
    then show ?thesis
      using ServeHTTP_cases [OF assms(1)] assms(2) sel
      by (auto simp: Let_def split: option.splits dest!: serveBackend_frame)
  next
    case (Forwarded b u)
    then show ?thesis
      using ServeHTTP_cases [OF assms(1)] assms(2) sel
      by (auto simp: Let_def split: option.splits dest!: serveBackend_Forwarded)
  qed (use assms(3) in simp)
qed

lemma ServeHTTP_Replied_tracker:
  assumes "ServeHTTP now p request = (p', Replied rep)"
  shows "pxTracker p' = pxTracker p"
  using ServeHTTP_cases [OF assms] by (auto simp: Let_def split: option.splits dest!: serveBackend_frame)

lemma gateway_run_invariant:
  "gateway_run p M \<Longrightarrow> reg_ok (pxRegistry p) \<and> tracker.counts (pxTracker p) M \<and> int (size M) \<le> maxInt64"
proof (induction rule: gateway_run.induct)
  case (start r options p)
  then have "pxRegistry p = r" "pxTracker p = newRequestTracker"
    by (auto simp: NewWithMetricsAndOptions_def Let_def split: option.splits if_splits)
  then show ?case using start tracker.counts_fresh by (simp add: maxInt64_def)
next
  case (reply p M now request p' rep)
  then show ?case using ServeHTTP_registry [OF reply.hyps(2)] ServeHTTP_Replied_tracker [OF reply.hyps(2)] by simp
next
  case (forward p M now request p' b u)
  have "pxTracker p' = trackerBegin (pxTracker p) b"
    using forward.hyps(2) by (rule ServeHTTP_Forwarded)
  then show ?case
    using forward tracker.counts_begin ServeHTTP_registry [OF forward.hyps(2)] by simp
next
  case (finish p M b result p' client errors)
  then have "p' = p\<lparr>pxTracker := trackerDone (pxTracker p) b\<rparr>"
    by (auto simp: finishForward_def Let_def split: upstream_result.splits if_splits)
  then show ?case
    using finish tracker.counts_done by (auto simp: size_Diff_singleton)
next
  case (registry p M r')
  then show ?case using reg_step_ok by simp
qed

end
