(* ===== verification/Gateway_Serving.thy ===== *)
theory Gateway_Serving
  imports Gateway_Proxy
begin

text \<open>
  Theorems on the proxy of \<open>gateway/internal/proxy/proxy.go\<close>: in-flight requests are counted exactly in every
  interleaving, only admissible requests are forwarded and only with paths free of traversal, token buckets stay within
  their capacity and cut bursts exactly, and the access log wrapper sends one status.
\<close>

section \<open>Lemmas on forwarded paths\<close>

lemma split_on_append: "split_on c (s @ c # t) = split_on c s @ split_on c t"
  by (induction s) (auto split: list.splits)

lemma canonical_segments:
  assumes "canonicalRequestPath (Some url)" and "has_prefix (uPath url) ''/''"
    and "s \<in> set (split_on CHR ''/'' (uPath url))"
  shows "s = [] \<or> plain_segment s"
proof -
  obtain t where t: "uPath url = CHR ''/'' # t" using assms(2) by (auto simp: has_prefix_iff)
  let ?segs = "clean_segs True [] (split_on CHR ''/'' t)"
  have plain: "list_all plain_segment ?segs" by (rule plain_segments_of_clean)
  let ?w = "trim_suffix (uPath url) ''/''"
  have clean: "CHR ''/'' # join ''/'' ?segs = (if ?w = [] then ''/'' else ?w)"
    using assms(1) t path_clean_rooted [of t] by (simp add: canonicalRequestPath_def Let_def split: if_splits)
  have "uPath url = ?w \<or> uPath url = ?w @ ''/''" by (rule trim_suffix_slash_cases)
  then have "uPath url = CHR ''/'' # join ''/'' ?segs \<or> uPath url = (CHR ''/'' # join ''/'' ?segs) @ ''/'' \<or> uPath url = ''/''"
    using clean t by (cases "?w = []") auto
  moreover have "set (split_on CHR ''/'' (join ''/'' ?segs)) \<subseteq> insert [] (set ?segs)"
    using split_on_join_plain [OF plain] by (cases "?segs = []") auto
  ultimately have "s \<in> insert [] (set ?segs)"
    using assms(3) by (auto simp: split_on_append)
  then show ?thesis using plain by (auto simp: list_all_iff)
qed

lemma joinURLPath_empty_base:
  assumes "uPath endpoint = []" and "has_prefix up ''/v1''"
  shows "joinURLPath endpoint up = up"
proof -
  obtain t where "up = ''/v1'' @ t" using assms(2) by (auto simp: has_prefix_iff)
  then show ?thesis
    using assms(1) by (simp add: joinURLPath_def Let_def trim_suffix_def has_suffix_def has_prefix_def trim_prefix_def)
qed

lemma upstream_segments:
  assumes "canonicalRequestPath (Some url)" and "uPath url = p @ up" and "has_prefix p ''/''" and "has_prefix up ''/''"
    and "s \<in> set (split_on CHR ''/'' up)"
  shows "s = [] \<or> plain_segment s"
proof -
  obtain t where t: "up = CHR ''/'' # t" using assms(4) by (auto simp: has_prefix_iff)
  have "set (split_on CHR ''/'' (uPath url)) = set (split_on CHR ''/'' p) \<union> set (split_on CHR ''/'' t)"
    using assms(2) t by (simp add: split_on_append)
  moreover have "s = [] \<or> s \<in> set (split_on CHR ''/'' t)" using assms(5) t by simp
  moreover have "has_prefix (uPath url) ''/''" using assms(2,3) by (auto simp: has_prefix_iff)
  ultimately show ?thesis using canonical_segments [OF assms(1)] by blast
qed

section \<open>Lemmas on the rate limiter\<close>

definition bucket_ok :: "time \<Rightarrow> tokenBucket \<Rightarrow> bool" where
  "bucket_ok now bucket \<longleftrightarrow>
     tbLast bucket \<le> now \<and> 0 \<le> tbTokens bucket \<and> tbTokens bucket \<le> tbCapacity bucket \<and>
     (\<exists>c :: int. 1 \<le> c \<and> c < 2 ^ 53 \<and> tbCapacity bucket = of_int c)"

definition limiter_ok :: "time \<Rightarrow> rateLimiter \<Rightarrow> bool" where
  "limiter_ok now l \<longleftrightarrow> (\<forall>key bucket. l key = Some bucket \<longrightarrow> bucket_ok now bucket)"

lemma limiter_ok_later: "limiter_ok t l \<Longrightarrow> t \<le> now \<Longrightarrow> limiter_ok now l"
  by (fastforce simp: limiter_ok_def bucket_ok_def)

lemma capacity_fl64: "1 \<le> c \<Longrightarrow> c < 2 ^ 53 \<Longrightarrow> fl64 (of_int c) = of_int c"
  by (rule float64.small_int) simp

lemma bucketFor_ok:
  assumes "limiter_ok now l" and "1 \<le> effectiveBurst policy" and "effectiveBurst policy < 2 ^ 53"
  shows "bucket_ok now (bucketFor now (l key) policy)"
proof -
  have "fl64 (of_int (effectiveBurst policy)) = of_int (effectiveBurst policy)"
    using assms(2,3) by (rule capacity_fl64)
  then have "bucket_ok now \<lparr>tbRequestsPerMinute = lmRequestsPerMinute policy,
      tbCapacity = fl64 (of_int (effectiveBurst policy)), tbTokens = fl64 (of_int (effectiveBurst policy)), tbLast = now\<rparr>"
    using assms(2,3) by (auto simp: bucket_ok_def)
  then show ?thesis
    using assms(1) by (simp add: bucketFor_def Let_def limiter_ok_def split: option.splits)
qed

lemma durationSeconds_nonneg: "0 \<le> d \<Longrightarrow> 0 \<le> durationSeconds d"
proof -
  assume d: "0 \<le> d"
  have "0 \<le> sgn d * (\<bar>d\<bar> div 1000000000)" "0 \<le> sgn d * (\<bar>d\<bar> mod 1000000000)"
    using d by (auto simp: sgn_if)
  then have "(0 :: rat) \<le> of_int (sgn d * (\<bar>d\<bar> div 1000000000))" "(0 :: rat) \<le> of_int (sgn d * (\<bar>d\<bar> mod 1000000000))"
    by (simp_all only: of_int_0_le_iff)
  then show ?thesis
    unfolding durationSeconds_def Let_def
    by (intro float64.nonneg add_nonneg_nonneg divide_nonneg_nonneg) simp_all
qed

lemma durationSeconds_0 [simp]: "durationSeconds 0 = 0"
  by (simp add: durationSeconds_def)

lemma limiterAllow_ok:
  assumes ok: "limiter_ok now l" and burst: "1 \<le> effectiveBurst policy" "effectiveBurst policy < 2 ^ 53"
  shows "limiter_ok now (fst (limiterAllow now l key policy))"
proof (cases "lmRequestsPerMinute policy \<le> 0")
  case True
  then show ?thesis using ok by (simp add: limiterAllow_def)
next
  case False
  define b where "b = bucketFor now (l key) policy"
  define rate where "rate = fl64 (fl64 (of_int (lmRequestsPerMinute policy)) / 60)"
  define tokens where "tokens = min (tbCapacity b) (fl64 (tbTokens b + fl64 (durationSeconds (timeSub now (tbLast b)) * rate)))"
  have b: "bucket_ok now b" unfolding b_def using bucketFor_ok [OF ok burst] .
  then obtain c :: int where c: "1 \<le> c" "c < 2 ^ 53" "tbCapacity b = of_int c" by (auto simp: bucket_ok_def)
  have "0 \<le> rate" using False by (auto simp: rate_def intro!: float64.nonneg divide_nonneg_nonneg)
  moreover have "0 \<le> timeSub now (tbLast b)" using b by (auto simp: bucket_ok_def timeSub_def maxInt64_def)
  ultimately have "0 \<le> fl64 (durationSeconds (timeSub now (tbLast b)) * rate)"
    by (intro float64.nonneg mult_nonneg_nonneg durationSeconds_nonneg)
  then have t: "0 \<le> tokens" "tokens \<le> of_int c"
    using b c by (auto simp: tokens_def bucket_ok_def min_le_iff_disj intro!: float64.nonneg)
  have "fl64 (tokens - 1) \<le> of_int c" using t(2) c(1,2) by (intro float64.le_int) auto
  moreover have "1 \<le> tokens \<Longrightarrow> 0 \<le> fl64 (tokens - 1)" by (intro float64.nonneg) simp
  ultimately have new: "bucket_ok now (b\<lparr>tbLast := now, tbTokens := if tokens \<ge> 1 then fl64 (tokens - 1) else tokens\<rparr>)"
    using t c by (auto simp: bucket_ok_def)
  have "fst (limiterAllow now l key policy) =
      l(key := Some (b\<lparr>tbLast := now, tbTokens := if tokens \<ge> 1 then fl64 (tokens - 1) else tokens\<rparr>))"
    using False unfolding limiterAllow_def Let_def b_def [symmetric] rate_def [symmetric] tokens_def [symmetric]
    by simp
  then show ?thesis using ok new unfolding limiter_ok_def by (metis fun_upd_apply option.inject)
qed

text \<open>A burst: repeated calls at one instant.\<close>

fun allowMany :: "time \<Rightarrow> rateLimiter \<Rightarrow> backendKey \<Rightarrow> RateLimitPolicy \<Rightarrow> nat \<Rightarrow> bool list" where
  "allowMany now l key policy 0 = []"
| "allowMany now l key policy (Suc n) =
     (let (l', allowed, retry) = limiterAllow now l key policy in allowed # allowMany now l' key policy n)"

definition fullBucket :: "time \<Rightarrow> RateLimitPolicy \<Rightarrow> int \<Rightarrow> tokenBucket" where
  "fullBucket now policy t =
     \<lparr>tbRequestsPerMinute = lmRequestsPerMinute policy, tbCapacity = fl64 (of_int (effectiveBurst policy)),
      tbTokens = of_int t, tbLast = now\<rparr>"

lemma limiterAllow_instant:
  assumes rpm: "lmRequestsPerMinute policy > 0" and burst: "effectiveBurst policy < 2 ^ 53"
    and t: "0 \<le> t" "t \<le> effectiveBurst policy" and b: "bucketFor now (l key) policy = fullBucket now policy t"
  shows "fst (limiterAllow now l key policy) = l(key := Some (fullBucket now policy (if 1 \<le> t then t - 1 else t)))"
    and "fst (snd (limiterAllow now l key policy)) = (1 \<le> t)"
proof -
  have pos: "1 \<le> effectiveBurst policy" using rpm by (auto simp: effectiveBurst_def)
  have fb: "fl64 (of_int (effectiveBurst policy)) = of_int (effectiveBurst policy)"
    using pos burst by (rule capacity_fl64)
  have ft: "fl64 (of_int t) = of_int t" "1 \<le> t \<Longrightarrow> fl64 (of_int t - 1) = of_int (t - 1)"
    using t burst float64.small_int [of t] float64.small_int [of "t - 1"] by auto
  show "fst (limiterAllow now l key policy) = l(key := Some (fullBucket now policy (if 1 \<le> t then t - 1 else t)))"
    "fst (snd (limiterAllow now l key policy)) = (1 \<le> t)"
    using rpm t b fb ft
    by (simp_all add: limiterAllow_def Let_def fullBucket_def timeSub_def maxInt64_def min_def)
qed

lemma allowMany_full:
  assumes rpm: "lmRequestsPerMinute policy > 0" and burst: "effectiveBurst policy < 2 ^ 53"
    and "0 \<le> t" "t \<le> effectiveBurst policy" and "bucketFor now (l key) policy = fullBucket now policy t"
  shows "allowMany now l key policy n = replicate (min n (nat t)) True @ replicate (n - nat t) False"
  using assms(3-5)
proof (induction n arbitrary: l t)
  case (Suc n)
  have keep: "bucketFor now (Some (fullBucket now policy s)) policy = fullBucket now policy s" for s
    by (simp add: bucketFor_def fullBucket_def Let_def)
  note step = limiterAllow_instant [of policy t now l key, OF rpm burst Suc.prems]
  show ?case
  proof (cases "1 \<le> t")
    case True
    have "allowMany now l key policy (Suc n) =
        True # allowMany now (l(key := Some (fullBucket now policy (t - 1)))) key policy n"
      using step True by (simp add: case_prod_beta)
    also have "allowMany now (l(key := Some (fullBucket now policy (t - 1)))) key policy n =
        replicate (min n (nat (t - 1))) True @ replicate (n - nat (t - 1)) False"
      using True Suc.prems keep by (intro Suc.IH) auto
    finally show ?thesis using True by (cases "nat t") (auto simp: nat_diff_distrib' Suc_diff_le)
  next
    case False
    then have t: "t = 0" using Suc.prems by simp
    have "allowMany now l key policy (Suc n) =
        False # allowMany now (l(key := Some (fullBucket now policy 0))) key policy n"
      using step t by (simp add: case_prod_beta)
    also have "allowMany now (l(key := Some (fullBucket now policy 0))) key policy n =
        replicate (min n (nat 0)) True @ replicate (n - nat 0) False"
      using Suc.prems keep t by (intro Suc.IH) auto
    finally show ?thesis by (simp add: t)
  qed
qed simp

section \<open>Lemmas on the access log\<close>

datatype log_op =
    OpWriteHeader int
  | OpWrite string
  | OpFlush
  | OpReadFrom "string list"

fun applyLogOp :: "accessLogWriter \<Rightarrow> log_op \<Rightarrow> accessLogWriter" where
  "applyLogOp w (OpWriteHeader status) = logWriteHeader w status"
| "applyLogOp w (OpWrite content) = logWrite w content"
| "applyLogOp w OpFlush = logFlush w"
| "applyLogOp w (OpReadFrom chunks) = logReadFrom w chunks"

definition is_header_call :: "writer_call \<Rightarrow> bool" where
  "is_header_call c \<longleftrightarrow> (\<exists>status. c = CallWriteHeader status)"

lemma is_header_call_simps [simp]:
  "is_header_call (CallWriteHeader status)" "\<not> is_header_call (CallWrite content)" "\<not> is_header_call CallFlush"
  by (simp_all add: is_header_call_def)

text \<open>Nothing was called yet, or the recorded status was sent first and never again.\<close>

definition log_ok :: "accessLogWriter \<Rightarrow> bool" where
  "log_ok w \<longleftrightarrow>
     (if alStatus w = 0 then alCalls w = []
      else \<exists>rest. alCalls w = CallWriteHeader (alStatus w) # rest \<and> (\<forall>c \<in> set rest. \<not> is_header_call c))"

lemma applyLogOp_ok: "log_ok w \<Longrightarrow> op \<noteq> OpWriteHeader 0 \<Longrightarrow> log_ok (applyLogOp w op)"
  by (cases op)
    (auto simp: log_ok_def logWriteHeader_def logWrite_def logFlush_def logReadFrom_def ensureHeader_def Let_def
      split: if_splits)

lemma ServeHTTP_ForwardedE:
  assumes "reg_ok (pxRegistry p)" and "ServeHTTP now p request = (p', Forwarded b u)"
  obtains url endpoint up where "rqURL request = Some url" "canonicalRequestPath (Some url)" "bState b = StateReady"
    "backend_ok (bRoutePrefix b) b" "effectiveWeight b > 0" "b \<in> set (Backends (pxRegistry p))"
    "bEndpoint b = Some endpoint" "u = rewriteURL endpoint up" "uPath url = bRoutePrefix b @ up"
    "up = ''/v1'' \<or> has_prefix up ''/v1/''" "has_prefix (bRoutePrefix b) ''/''"
proof -
  let ?load = "Some (activeCount (pxTracker p))"
  obtain url up where u: "rqURL request = Some url" "canonicalRequestPath (Some url)"
    "snd (Select (pxRegistry p) (uPath url) ?load) = Some (b, up)" "bState b = StateReady"
    "up = ''/v1'' \<or> has_prefix up ''/v1/''" "\<exists>endpoint. bEndpoint b = Some endpoint \<and> u = rewriteURL endpoint up"
    using assms(2) by (rule ServeHTTP_Forwarded)
  then obtain endpoint where e: "bEndpoint b = Some endpoint" "u = rewriteURL endpoint up" by blast
  obtain pre where d: "decidingPrefix (pxRegistry p) (uPath url) pre"
    and b: "b = snd (selectBackendLocked (pxRegistry p) pre ?load)"
    and up: "up = (if uPath url = pre then ''/'' else drop (length pre) (uPath url))"
    using Select_cases [OF assms(1), of "uPath url" ?load] u(3) by auto
  have "readyCandidates (routesAt (mrRoutes (pxRegistry p)) pre) \<noteq> []"
    using u(4) b selectBackendLocked_not_ready by blast
  then have mem: "b \<in> set (routesAt (mrRoutes (pxRegistry p)) pre)" "effectiveWeight b > 0"
    using b selectBackendLocked_ready by (auto simp: readyCandidates_def)
  have okb: "backend_ok pre b" using routesAt_ok [of "mrRoutes (pxRegistry p)" pre] reg_okD [OF assms(1)] mem(1) by blast
  have ne: "uPath url \<noteq> pre" using up u(5) by (auto simp: has_prefix_def)
  have pre: "bRoutePrefix b = pre" using okb by (simp add: backend_ok_def)
  have path: "uPath url = pre @ up"
    using d up ne routeMatches_take [of "uPath url" pre] by (metis append_take_drop_id decidingPrefix_def)
  have "Normalize pre = Inr pre"
    using decidingPrefix_candidates(2) [OF assms(1) d] reg_okD [OF assms(1)] by (auto simp: route_ok_def)
  then have rooted: "has_prefix pre ''/''" by (simp add: Normalize_Inr_iff)
  have "b \<in> set (Backends (pxRegistry p))" using Backends_iff [OF assms(1)] mem(1) by blast
  then show ?thesis using that u(1,2,4,5) e pre path okb mem(2) rooted by blast
qed

section \<open>Properties\<close>

text \<open>
  C10. The active-request counter is exact in every interleaving: in every run of the gateway (requests served and finished
  in any order, the registry changing in between) the counter of a backend is the number of requests that were
  forwarded to it and have not finished; hence the drain report calls a backend drained only when it is draining
  and none of its requests is in flight.
\<close>

theorem active_requests_exact:
  assumes "gateway_run p M"
  shows "activeCount (pxTracker p) b = int (count M (keyForBackend b)) \<and>
         (dbDrainComplete (drainStatusOf p b) = (bState b = StateDraining \<and> keyForBackend b \<notin># M))"
  using gateway_run_invariant [OF assms]
  by (auto simp: tracker.counts_def drainStatusOf_def Let_def not_in_iff)

definition sampleProxy :: Proxy where
  "sampleProxy = \<lparr>pxRegistry = sampleRegistry, pxTracker = newRequestTracker, pxLimiter = newRateLimiter,
     pxOptions = \<lparr>opDefaultRateLimit = None, opRequestLoggingEnabled = None\<rparr>\<rparr>"

definition sampleRequestTo :: "string \<Rightarrow> http_request" where
  "sampleRequestTo path =
     \<lparr>rqMethod = ''POST'', rqURL = Some \<lparr>uScheme = [], uHost = [], uPath = path, uRawPath = []\<rparr>,
      rqQuery = [], rqHeaders = []\<rparr>"

definition sampleServed :: "Proxy \<times> serve_outcome" where
  "sampleServed = ServeHTTP 0 sampleProxy (sampleRequestTo ''/models/llama/v1/chat'')"

definition sampleStable :: Backend where
  "sampleStable = sampleBackend ''stable'' ''/models/llama'' 3"

definition sampleUpstream :: URL where
  "sampleUpstream =
     \<lparr>uScheme = ''http'', uHost = ''stable-runtime.default.svc:80'', uPath = ''/v1/chat'', uRawPath = []\<rparr>"

lemma sampleServed_out: "snd sampleServed = Forwarded sampleStable sampleUpstream"
  by code_simp

lemma sample_gateway_start: "gateway_run sampleProxy {#}"
proof (rule gateway_run.start [OF sampleRegistry_ok])
  show "NewWithMetricsAndOptions (Some sampleRegistry) \<lparr>opDefaultRateLimit = None, opRequestLoggingEnabled = None\<rparr> =
      Inr sampleProxy"
    by (simp add: NewWithMetricsAndOptions_def sampleProxy_def Let_def)
qed

theorem active_requests_exact_witness: "activeCount (pxTracker (fst sampleServed)) sampleStable = 1"
proof -
  have "ServeHTTP 0 sampleProxy (sampleRequestTo ''/models/llama/v1/chat'') =
      (fst sampleServed, Forwarded sampleStable sampleUpstream)"
    using sampleServed_out by (simp add: sampleServed_def prod_eq_iff)
  from gateway_run.forward [OF sample_gateway_start this]
  have "gateway_run (fst sampleServed) {#keyForBackend sampleStable#}" by (simp add: maxInt64_def)
  from active_requests_exact [OF this, of sampleStable] show ?thesis by simp
qed

text \<open>
  C11. Only admissible requests reach a runtime: a forwarded request had a canonical path without escapes,
  was resolved to a registered backend in the ready state with a positive weight, asks for \<open>/v1\<close> or a path below it, goes to
  the scheme and host of that backend's endpoint, and (for the endpoints discovery publishes, which have no path) the
  upstream path is exactly the part of the request path after the route prefix, with no dot or dot-dot segment.
\<close>

theorem ServeHTTP_forwards_safely:
  assumes "reg_ok (pxRegistry p)" and "ServeHTTP now p request = (p', Forwarded b u)"
  shows "\<exists>url endpoint up. rqURL request = Some url \<and> canonicalRequestPath (Some url) \<and>
      bState b = StateReady \<and> b \<in> set (Backends (pxRegistry p)) \<and> effectiveWeight b > 0 \<and>
      uPath url = bRoutePrefix b @ up \<and> (up = ''/v1'' \<or> has_prefix up ''/v1/'') \<and>
      bEndpoint b = Some endpoint \<and> uScheme u = uScheme endpoint \<and> uHost u = uHost endpoint \<and>
      uScheme u \<in> {''http'', ''https''} \<and> uRawPath u = [] \<and>
      (uPath endpoint = [] \<longrightarrow> uPath u = up \<and> (\<forall>s \<in> set (split_on CHR ''/'' (uPath u)). s = [] \<or> plain_segment s))"
proof -
  obtain url endpoint up where f: "rqURL request = Some url" "canonicalRequestPath (Some url)" "bState b = StateReady"
    "backend_ok (bRoutePrefix b) b" "effectiveWeight b > 0" "b \<in> set (Backends (pxRegistry p))"
    "bEndpoint b = Some endpoint" "u = rewriteURL endpoint up" "uPath url = bRoutePrefix b @ up"
    "up = ''/v1'' \<or> has_prefix up ''/v1/''" "has_prefix (bRoutePrefix b) ''/''"
    using assms by (rule ServeHTTP_ForwardedE)
  have v1: "has_prefix up ''/v1''" using f(10) by (auto simp: has_prefix_iff)
  then have "has_prefix up ''/''" by (auto simp: has_prefix_iff)
  then have segs: "\<forall>s \<in> set (split_on CHR ''/'' up). s = [] \<or> plain_segment s"
    using upstream_segments [OF f(2,9,11)] by blast
  have scheme: "uScheme endpoint \<in> {''http'', ''https''}"
    using f(3,4,7) by (auto simp: backend_ok_def endpointError_def split: if_splits)
  show ?thesis
    using f scheme segs joinURLPath_empty_base [OF _ v1]
    by (intro exI [of _ url] exI [of _ endpoint] exI [of _ up]) (auto simp: rewriteURL_def)
qed

theorem ServeHTTP_forwards_safely_witness:
  "sampleStable \<in> set (Backends sampleRegistry) \<and> uScheme sampleUpstream \<in> {''http'', ''https''}"
proof -
  have "ServeHTTP 0 sampleProxy (sampleRequestTo ''/models/llama/v1/chat'') =
      (fst sampleServed, Forwarded sampleStable sampleUpstream)"
    using sampleServed_out by (simp add: sampleServed_def prod_eq_iff)
  moreover have "pxRegistry sampleProxy = sampleRegistry" by (simp add: sampleProxy_def)
  ultimately show ?thesis using ServeHTTP_forwards_safely [of sampleProxy] sampleRegistry_ok by fastforce
qed



text \<open>
  A burst is cut exactly at the configured size: of any number of requests that arrive at one instant at a backend
  without a bucket, the first \<open>burst\<close> are admitted (the rate per minute when no burst is configured) and all later ones refused.
\<close>

theorem limiter_burst_exact:
  assumes "l key = None" and "lmRequestsPerMinute policy > 0" and "effectiveBurst policy < 2 ^ 53"
  shows "allowMany now l key policy n =
    replicate (min n (nat (effectiveBurst policy))) True @ replicate (n - nat (effectiveBurst policy)) False"
proof (rule allowMany_full [OF assms(2,3)])
  have pos: "1 \<le> effectiveBurst policy" using assms(2) by (auto simp: effectiveBurst_def)
  then show "0 \<le> effectiveBurst policy" by simp
  show "bucketFor now (l key) policy = fullBucket now policy (effectiveBurst policy)"
    using assms(1) capacity_fl64 [OF pos assms(3)] by (simp add: bucketFor_def fullBucket_def Let_def)
qed simp

theorem limiter_burst_exact_witness:
  "allowMany 7 newRateLimiter (keyForBackend sampleStable) \<lparr>lmRequestsPerMinute = 60, lmBurst = 2\<rparr> 3 = [True, True, False]"
  using limiter_burst_exact [of newRateLimiter "keyForBackend sampleStable" "\<lparr>lmRequestsPerMinute = 60, lmBurst = 2\<rparr>" 7 3]
  by (simp add: newRateLimiter_def effectiveBurst_def numeral_eq_Suc)

text \<open>
  The access log wrapper keeps the response protocol: whatever sequence of writes, flushes and copies a handler
  performs (with statuses other than zero), the wrapped writer gets exactly one status line, before any body, and it is the status
  that the log prints.
\<close>

theorem access_log_single_status:
  assumes "\<forall>op \<in> set ops. op \<noteq> OpWriteHeader 0"
  shows "let w = foldl applyLogOp \<lparr>alStatus = 0, alCalls = []\<rparr> ops
    in alCalls w = [] \<or>
       (\<exists>rest. alCalls w = CallWriteHeader (loggedStatus w canceled) # rest \<and> (\<forall>c \<in> set rest. \<not> is_header_call c))"
proof -
  have "log_ok w \<Longrightarrow> \<forall>op \<in> set ops. op \<noteq> OpWriteHeader 0 \<Longrightarrow> log_ok (foldl applyLogOp w ops)" for w
    by (induction ops arbitrary: w) (auto simp: applyLogOp_ok)
  from this [of "\<lparr>alStatus = 0, alCalls = []\<rparr>"] assms
  have "log_ok (foldl applyLogOp \<lparr>alStatus = 0, alCalls = []\<rparr> ops)" by (simp add: log_ok_def)
  then show ?thesis by (auto simp: log_ok_def loggedStatus_def Let_def split: if_splits)
qed

theorem access_log_single_status_witness:
  "let w = foldl applyLogOp \<lparr>alStatus = 0, alCalls = []\<rparr> [OpWrite ''a'', OpWriteHeader 500]
    in alCalls w = [] \<or>
       (\<exists>rest. alCalls w = CallWriteHeader (loggedStatus w False) # rest \<and> (\<forall>c \<in> set rest. \<not> is_header_call c))"
  by (rule access_log_single_status) simp

end
