(* ===== verification/Kube_Model.thy ===== *)
theory Kube_Model
  imports Api_Types Go_Strings
begin

text \<open>
  The parts of the Kubernetes API objects that the sources read, as plain data: nodes with their
  taints, conditions and allocatable resources, Services and EndpointSlices. The objects'
  behaviour is outside the repository and is not defined here. In particular the arithmetic
  of \<open>resource.Quantity\<close> is a parameter: a record of the operations the sources call, over an
  abstract type \<open>'q\<close> of quantities, and the name checks of \<open>util/validation\<close> are functions
  that return a list of messages (empty when the name is valid).
\<close>

section \<open>Quantities\<close>

record 'q quantity_ops =
  qParse :: "string \<Rightarrow> 'q option"
  qSign :: "'q \<Rightarrow> int"
  qValue :: "'q \<Rightarrow> int"
  qCmp :: "'q \<Rightarrow> 'q \<Rightarrow> int"
  qMul :: "'q \<Rightarrow> int \<Rightarrow> 'q \<times> bool"
  qZero :: 'q
  qNew :: "int \<Rightarrow> 'q"
  qString :: "'q \<Rightarrow> string"

text \<open>
  The documented behaviour that theorems on capacities rely on: \<open>Value\<close> is an \<open>int64\<close>, rounded
  away from zero, so its sign is the sign of the quantity.
\<close>

definition quantity_value_ok :: "'q quantity_ops \<Rightarrow> bool" where
  "quantity_value_ok Q \<longleftrightarrow> (\<forall>q. is_int64 (qValue Q q) \<and> (qSign Q q > 0 \<longleftrightarrow> qValue Q q > 0))"

text \<open>A concrete instance for evaluation: whole numbers written in decimal.\<close>

fun parse_nat_acc :: "string \<Rightarrow> int \<Rightarrow> int option" where
  "parse_nat_acc [] acc = Some acc"
| "parse_nat_acc (c # cs) acc =
     (let d = int (of_char c) - 48
      in if 0 \<le> d \<and> d \<le> 9 then parse_nat_acc cs (10 * acc + d) else None)"

definition whole_quantity :: "int quantity_ops" where
  "whole_quantity =
     \<lparr>qParse = (\<lambda>s. if s = [] then None else
        (case parse_nat_acc s 0 of Some n \<Rightarrow> if n < 2 ^ 63 then Some n else None | None \<Rightarrow> None)),
      qSign = sgn, qValue = (\<lambda>q. max (- (2 ^ 63)) (min maxInt64 q)), qCmp = (\<lambda>a b. sgn (a - b)),
      qMul = (\<lambda>a n. if is_int64 (a * n) then (a * n, True) else (a, False)),
      qZero = 0, qNew = (\<lambda>n. n), qString = itoa\<rparr>"

lemma whole_quantity_value_ok: "quantity_value_ok whole_quantity"
  by (auto simp: quantity_value_ok_def whole_quantity_def is_int64_def maxInt64_def sgn_if)

section \<open>Nodes\<close>

record Taint =
  taKey :: string
  taValue :: string
  taEffect :: string

record NodeCondition =
  ncType :: string
  ncStatus :: ConditionStatus

record 'q Node =
  ndName :: string
  ndUID :: string
  ndLabels :: string_map
  ndAnnotations :: string_map
  ndUnschedulable :: bool
  ndTaints :: "Taint list"
  ndConditions :: "NodeCondition list"
  ndAllocatable :: "(string \<times> 'q) list"

definition NodeReady :: string where
  [const_defs]: "NodeReady = ''Ready''"

definition TaintEffectNoSchedule :: string where
  [const_defs]: "TaintEffectNoSchedule = ''NoSchedule''"

definition TaintEffectNoExecute :: string where
  [const_defs]: "TaintEffectNoExecute = ''NoExecute''"

definition TolerationOpExists :: string where
  [const_defs]: "TolerationOpExists = ''Exists''"

definition TolerationOpEqual :: string where
  [const_defs]: "TolerationOpEqual = ''Equal''"

definition ResourceCPU :: string where
  [const_defs]: "ResourceCPU = ''cpu''"

definition ResourceMemory :: string where
  [const_defs]: "ResourceMemory = ''memory''"

section \<open>Services and EndpointSlices\<close>

datatype IntOrString =
    IntVal int
  | StrVal string

record ServicePort =
  spName :: string
  spProtocol :: string
  spPort :: int
  spTargetPort :: IntOrString

record Service =
  svMeta :: ObjectMeta
  svType :: string
  svClusterIP :: string
  svSelector :: string_map
  svPorts :: "ServicePort list"

record EndpointPort =
  ptName :: "string option"
  ptPort :: "int option"
  ptProtocol :: "string option"

record Endpoint =
  epAddresses :: "string list"
  epReady :: "bool option"
  epTerminating :: "bool option"

record EndpointSlice =
  esMeta :: ObjectMeta
  esPorts :: "EndpointPort list"
  esEndpoints :: "Endpoint list"

definition ProtocolTCP :: string where
  [const_defs]: "ProtocolTCP = ''TCP''"

definition ServiceTypeClusterIP :: string where
  [const_defs]: "ServiceTypeClusterIP = ''ClusterIP''"

definition ClusterIPNone :: string where
  [const_defs]: "ClusterIPNone = ''None''"

definition LabelServiceName :: string where
  [const_defs]: "LabelServiceName = ''kubernetes.io/service-name''"

end
