(* ===== verification/Samples.thy ===== *)
theory Samples
  imports Kube_Model
begin

text \<open>
  Concrete objects at which the theorems of the development are applied: nodes, a cache and a
  deployment with every field given, so that the definitions can be evaluated on them.
\<close>

definition sampleMeta :: "string \<Rightarrow> ObjectMeta" where
  "sampleMeta name =
     \<lparr>omName = name, omNamespace = ''default'', omUID = ''uid-'' @ name, omResourceVersion = ''1'',
      omGeneration = 1, omCreationTimestamp = 10, omDeletionTimestamp = None, omLabels = [],
      omAnnotations = [], omFinalizers = [], omOwnerReferences = []\<rparr>"

definition sampleNode :: "string \<Rightarrow> int \<Rightarrow> int Node" where
  "sampleNode name gpus =
     \<lparr>ndName = name, ndUID = ''uid-'' @ name, ndLabels = [(''zone'', ''a'')],
      ndAnnotations = [(''inferops.dev/cache-capacity'', ''100'')], ndUnschedulable = False, ndTaints = [],
      ndConditions = [\<lparr>ncType = ''Ready'', ncStatus = ConditionTrue\<rparr>],
      ndAllocatable = [(''nvidia.com/gpu'', gpus), (''cpu'', 8), (''memory'', 64)]\<rparr>"

definition sampleNodes :: "int Node list" where
  "sampleNodes = [sampleNode ''a'' 4, sampleNode ''b'' 2]"

text \<open>A cache of 60 units of capacity; the arguments are its name, phase, node and path.\<close>

definition sampleCache :: "string \<Rightarrow> ModelCachePhase \<Rightarrow> string \<Rightarrow> string \<Rightarrow> ModelCache" where
  "sampleCache name phase node path =
     \<lparr>mcMeta = sampleMeta name,
      mcSpec = \<lparr>cpModelRepo = ''org/model'', cpRevision = [],
        cpStorage = \<lparr>cgType = ''nodeLocal'', cgSize = ''60'', cgNodeName = [], cgNodeSelector = [],
          cgTolerations = [], cgPath = path\<rparr>, cpSecretRef = []\<rparr>,
      mcStatus = \<lparr>ctObservedGeneration = 1, ctPhase = phase, ctRevision = [], ctChecksum = [],
        ctNodeName = node, ctNodeUID = [], ctPath = (if node = [] then [] else path), ctSize = [],
        ctReservedSize = ''60'', ctInputHash = [], ctLastUsedTime = 0, ctConditions = []\<rparr>\<rparr>"

definition sampleDeployment :: "string \<Rightarrow> ModelDeployment" where
  "sampleDeployment name =
     \<lparr>mdMeta = sampleMeta name,
      mdSpec = \<lparr>dsModel = \<lparr>msName = [], msSource = ''huggingface'', msRepo = ''org/model'', msRevision = []\<rparr>,
        dsRuntime = \<lparr>rsRef = ''vllm'', rsImage = [], rsDType = [], rsMaxModelLen = 0,
          rsTensorParallelSize = 0, rsGPUMemoryUtilization = 0\<rparr>,
        dsResources = \<lparr>rrCPU = ''4'', rrMemory = ''16'',
          rrGPU = Some \<lparr>grCount = 1, grVendor = ''nvidia'', grType = []\<rparr>\<rparr>,
        dsActivation = \<lparr>asDesiredState = ActivationDesiredStateActive, asWhenFull = ActivationWhenFullQueue,
          asPriority = 0, asDrainTimeout = []\<rparr>,
        dsScaling = \<lparr>scMinReplicas = 1, scMaxReplicas = 1, scTargetPendingRequests = 0, scIdleTimeout = []\<rparr>,
        dsRouting = \<lparr>roEnabled = True, roPath = [], roOpenAICompatible = True,
          roPolicy = \<lparr>rpRoutingStrategy = RoutingStrategyUnset, rpWeight = None, rpRateLimit = None,
            rpRequestLogging = \<lparr>lpEnabled = None\<rparr>\<rparr>\<rparr>,
        dsCache = \<lparr>csEnabled = True, csType = ''nodeLocal'', csSize = ''60'', csPath = ''/cache/model''\<rparr>,
        dsSecrets = \<lparr>srHuggingFaceTokenSecretName = []\<rparr>,
        dsScheduling = \<lparr>ssNodeSelector = [(''zone'', ''a'')], ssTolerations = [],
          ssTopologySpreadConstraints = []\<rparr>,
        dsAvailability = \<lparr>avPodDisruptionBudget = \<lparr>pbEnabled = None, pbMinAvailable = None\<rparr>\<rparr>,
        dsRollout = \<lparr>roStrategy = RolloutStrategyUnset,
          roWhenCapacityUnavailable = RolloutWhenCapacityUnavailableUnset, roCanaryWeightPercent = None\<rparr>\<rparr>,
      mdStatus = \<lparr>dtObservedGeneration = 1, dtPhase = ModelDeploymentPhaseActive, dtEndpoint = [],
        dtServiceName = [], dtAssignedNode = ''a'', dtAssignedGPUs = [], dtDrainStartedAt = None,
        dtReplacement = None, dtCache = \<lparr>cuState = [], cuNodeName = [], cuPath = []\<rparr>,
        dtReplicas = \<lparr>rcDesired = 1, rcReady = 1\<rparr>,
        dtScaling = \<lparr>stDesiredReplicas = 1, stPendingRequests = 0, stRunningRequests = 0,
          stLastActivityTime = None, stCapacityLimited = False, stReason = [], stMessage = []\<rparr>,
        dtModel = \<lparr>moLoaded = True, moRepo = ''org/model''\<rparr>, dtConditions = []\<rparr>\<rparr>"

end
