(* ===== verification/Discovery.thy ===== *)
theory Discovery
  imports Gateway_Serving Samples
begin

text \<open>
  \<open>gateway/internal/discovery/discovery.go\<close>: the projection of ModelDeployments, Services and EndpointSlices into
  the gateway's registry, one synchronisation, and one iteration of the refresh loop with its retry delays and staleness
  rule. What the Kubernetes client returns for the three list calls is an argument. The theorems
  show which gates a deployment must pass to be routed, that a failed read leaves the registry alone, and that a
  stale registry stops routing.
\<close>

section \<open>Projection of one deployment\<close>

definition conditionTrueForGeneration :: "ModelDeployment \<Rightarrow> string \<Rightarrow> bool" where
  "conditionTrueForGeneration deployment conditionType =
     (case List.find (\<lambda>c. cType c = conditionType) (dtConditions (mdStatus deployment)) of
        Some condition \<Rightarrow>
          cStatus condition = ConditionTrue \<and> cObservedGeneration condition \<ge> omGeneration (mdMeta deployment)
      | None \<Rightarrow> False)"

definition conditionTrue :: "ModelDeployment \<Rightarrow> string \<Rightarrow> bool" where
  "conditionTrue deployment conditionType =
     (case List.find (\<lambda>c. cType c = conditionType) (dtConditions (mdStatus deployment)) of
        Some condition \<Rightarrow> cStatus condition = ConditionTrue
      | None \<Rightarrow> False)"

definition rolloutBlockedWithStableRuntime :: "ModelDeployment \<Rightarrow> bool" where
  "rolloutBlockedWithStableRuntime deployment =
     (if dtPhase (mdStatus deployment) \<noteq> ModelDeploymentPhaseActive then False
      else (case List.find (\<lambda>c. \<not> (cType c \<noteq> ConditionRollout \<or> cStatus c \<noteq> ConditionFalse \<or>
                                    cObservedGeneration c < omGeneration (mdMeta deployment)))
                   (dtConditions (mdStatus deployment)) of
              Some condition \<Rightarrow>
                cReason condition = ReasonRolloutWaitingForCapacity \<or> cReason condition = ReasonRolloutRejected
            | None \<Rightarrow> False))"

definition runtimeHTTPPort :: "Service \<Rightarrow> int option" where
  "runtimeHTTPPort service =
     map_option spPort
       (List.find (\<lambda>p. spName p = HTTPPortName \<and> (spProtocol p = [] \<or> spProtocol p = ProtocolTCP) \<and>
                       spTargetPort p = StrVal HTTPPortName \<and> spPort p > 0) (svPorts service))"

definition ownedByDeployment :: "Service \<Rightarrow> ModelDeployment \<Rightarrow> bool" where
  "ownedByDeployment service deployment =
     (case List.find (\<lambda>owner. \<not> (orAPIVersion owner \<noteq> GroupVersion \<or> orKind owner \<noteq> ''ModelDeployment'' \<or>
                                  orName owner \<noteq> mdName deployment \<or> orController owner \<noteq> Some True))
             (omOwnerReferences (svMeta service)) of
        Some owner \<Rightarrow> omUID (mdMeta deployment) = [] \<or> orUID owner = omUID (mdMeta deployment)
      | None \<Rightarrow> False)"

definition endpointSliceHasHTTPPort :: "EndpointSlice \<Rightarrow> bool" where
  "endpointSliceHasHTTPPort endpointSlice =
     list_ex (\<lambda>p. ptName p = Some HTTPPortName \<and> (case ptPort p of Some port \<Rightarrow> port \<ge> 1 | None \<Rightarrow> False) \<and>
                  (case ptProtocol p of None \<Rightarrow> True | Some protocol \<Rightarrow> protocol = ProtocolTCP))
       (esPorts endpointSlice)"

definition endpointReady :: "Endpoint \<Rightarrow> bool" where
  "endpointReady endpoint \<longleftrightarrow>
     epTerminating endpoint \<noteq> Some True \<and> (epReady endpoint = None \<or> epReady endpoint = Some True) \<and>
     epAddresses endpoint \<noteq> []"

definition addReadyService :: "string list \<Rightarrow> EndpointSlice \<Rightarrow> string list" where
  "addReadyService readyServices endpointSlice =
     (let serviceName = mget (omLabels (esMeta endpointSlice)) LabelServiceName
      in if serviceName = [] \<or> serviceName \<in> set readyServices \<or> omDeletionTimestamp (esMeta endpointSlice) \<noteq> None \<or>
            \<not> endpointSliceHasHTTPPort endpointSlice then readyServices
         else if list_ex endpointReady (esEndpoints endpointSlice) then serviceName # readyServices
         else readyServices)"

definition readyServicesByName :: "EndpointSlice list \<Rightarrow> string list" where
  "readyServicesByName endpointSlices = foldl addReadyService [] endpointSlices"

definition serviceByName :: "Service list \<Rightarrow> string \<Rightarrow> Service option" where
  "serviceByName services = map_of (rev (map (\<lambda>service. (omName (svMeta service), service)) services))"

definition routingPolicy :: "RoutingPolicySpec \<Rightarrow> TrafficPolicy" where
  "routingPolicy policy =
     \<lparr>tpRoutingStrategy =
        (if rpRoutingStrategy policy = RoutingStrategyWeighted then RoutingStrategyWeighted
         else if rpRoutingStrategy policy = RoutingStrategyLeastLoaded then RoutingStrategyLeastLoaded
         else RoutingStrategyUnset),
      tpWeight = rpWeight policy,
      tpRateLimit = map_option (\<lambda>r. \<lparr>lmRequestsPerMinute = rlRequestsPerMinute r, lmBurst = rlBurst r\<rparr>)
                      (rpRateLimit policy),
      tpRequestLogging = (case lpEnabled (rpRequestLogging policy) of
                            None \<Rightarrow> None
                          | Some enabled \<Rightarrow> Some \<lparr>lpEnabled = Some enabled\<rparr>)\<rparr>"

definition joinHostPort :: "string \<Rightarrow> string \<Rightarrow> string" where
  "joinHostPort host port =
     (if contains_char host CHR '':'' then ''['' @ host @ '']:'' @ port else host @ '':'' @ port)"

text \<open>The gates on the deployment's status, in the order of the source; \<open>None\<close> when all pass.\<close>

definition statusGate :: "ModelDeployment \<Rightarrow> string option" where
  "statusGate deployment =
     (if \<not> roEnabled (dsRouting (mdSpec deployment)) \<or> \<not> roOpenAICompatible (dsRouting (mdSpec deployment))
        then Some ''OpenAI-compatible gateway routing is disabled''
      else if dtObservedGeneration (mdStatus deployment) < omGeneration (mdMeta deployment)
        then Some ''model status is stale''
      else if rolloutBlockedWithStableRuntime deployment \<and>
              (\<not> conditionTrue deployment ConditionRuntimeReady \<or>
               \<not> conditionTrue deployment ConditionModelLoaded \<or>
               \<not> conditionTrue deployment ConditionRoutingReady \<or>
               \<not> moLoaded (dtModel (mdStatus deployment)))
        then Some ''previous runtime is not ready while rollout is blocked''
      else if \<not> rolloutBlockedWithStableRuntime deployment \<and>
              (\<not> conditionTrueForGeneration deployment ConditionRuntimeReady \<or>
               \<not> conditionTrueForGeneration deployment ConditionModelLoaded \<or>
               \<not> conditionTrueForGeneration deployment ConditionRoutingReady \<or>
               \<not> conditionTrueForGeneration deployment ConditionReady \<or>
               \<not> moLoaded (dtModel (mdStatus deployment)))
        then Some ''model runtime is not ready for routing''
      else if rcDesired (dtReplicas (mdStatus deployment)) < 1 \<or>
              rcReady (dtReplicas (mdStatus deployment)) < rcDesired (dtReplicas (mdStatus deployment))
        then Some ''model runtime has no ready replicas''
      else None)"

text \<open>The gates on the Service; on success the host and port of the endpoint.\<close>

definition serviceGate ::
  "ModelDeployment \<Rightarrow> (string \<Rightarrow> Service option) \<Rightarrow> string list \<Rightarrow> (string, string \<times> int) result" where
  "serviceGate deployment services readyServices =
     (let serviceName = (if dtServiceName (mdStatus deployment) = [] then ServiceName (mdName deployment)
                         else dtServiceName (mdStatus deployment))
      in case services serviceName of
           None \<Rightarrow> Inl ''model runtime Service was not found''
         | Some service \<Rightarrow>
             if omDeletionTimestamp (svMeta service) \<noteq> None then Inl ''model runtime Service is terminating''
             else if mget (omLabels (svMeta service)) ModelDeploymentLabel \<noteq> mdName deployment
               then Inl ''model runtime Service ownership does not match''
             else if \<not> ownedByDeployment service deployment
               then Inl ''model runtime Service owner reference does not match''
             else if omNamespace (svMeta service) \<noteq> mdNamespace deployment \<or>
                     mget (svSelector service) ModelDeploymentLabel \<noteq> mdName deployment
               then Inl ''model runtime Service selector does not match''
             else (case runtimeHTTPPort service of
                     None \<Rightarrow> Inl ''model runtime Service has no TCP port''
                   | Some port \<Rightarrow>
                       if svType service \<noteq> ServiceTypeClusterIP
                         then Inl ''model runtime Service must be a ClusterIP Service''
                       else if svClusterIP service = [] \<or> svClusterIP service = ClusterIPNone
                         then Inl ''model runtime Service is not allocated''
                       else if omName (svMeta service) \<notin> set readyServices
                         then Inl ''model runtime Service has no ready endpoints''
                       else Inr (omName (svMeta service) @ ''.'' @ mdNamespace deployment @ ''.svc'', port)))"

definition backendFor ::
  "ModelDeployment \<Rightarrow> (string \<Rightarrow> Service option) \<Rightarrow> string list \<Rightarrow> Backend" where
  "backendFor deployment services readyServices =
     (let routePrefix = (if roPath (dsRouting (mdSpec deployment)) = [] then DefaultRoutePrefix (mdName deployment)
                         else roPath (dsRouting (mdSpec deployment)));
          backend = \<lparr>bName = mdName deployment, bNamespace = mdNamespace deployment, bRoutePrefix = routePrefix,
                     bEndpoint = None, bState = StateUnavailable, bMessage = ''model runtime is unavailable'',
                     bPolicy = routingPolicy (roPolicy (dsRouting (mdSpec deployment)))\<rparr>;
          phase = dtPhase (mdStatus deployment)
      in if phase = ModelDeploymentPhaseDraining
           then backend\<lparr>bState := StateDraining, bMessage := ''model is draining and is not accepting new requests''\<rparr>
         else if asDesiredState (dsActivation (mdSpec deployment)) \<noteq> ActivationDesiredStateActive
           then backend\<lparr>bState := StateInactive, bMessage := ''model is inactive''\<rparr>
         else if phase = ModelDeploymentPhaseDeactivating \<or> phase = ModelDeploymentPhaseCached
           then backend\<lparr>bState := StateInactive, bMessage := ''model is inactive''\<rparr>
         else if phase = ModelDeploymentPhasePending \<or> phase = ModelDeploymentPhaseDownloading \<or>
                 phase = ModelDeploymentPhaseWaitingForCapacity \<or> phase = ModelDeploymentPhaseWaitingForGPU \<or>
                 phase = ModelDeploymentPhaseActivating
           then backend\<lparr>bState := StateActivating, bMessage := ''model is activating''\<rparr>
         else if phase = ModelDeploymentPhaseFailed then backend\<lparr>bMessage := ''model deployment failed''\<rparr>
         else if phase \<noteq> ModelDeploymentPhaseActive
           then backend\<lparr>bState := StateActivating, bMessage := ''model state has not been observed yet''\<rparr>
         else (case statusGate deployment of
                 Some message \<Rightarrow> backend\<lparr>bMessage := message\<rparr>
               | None \<Rightarrow>
                   (case serviceGate deployment services readyServices of
                      Inl message \<Rightarrow> backend\<lparr>bMessage := message\<rparr>
                    | Inr (host, port) \<Rightarrow>
                        backend\<lparr>bEndpoint := Some \<lparr>uScheme = ''http'', uHost = joinHostPort host (itoa port),
                                                   uPath = [], uRawPath = []\<rparr>,
                                bState := StateReady, bMessage := []\<rparr>)))"

section \<open>Synchronisation\<close>

record Discovery =
  dcNamespace :: string
  dcSyncInterval :: duration
  dcRegistry :: MemoryRegistry
  dcLastSuccess :: time

datatype discovery_config_error =
    KubernetesClientRequired
  | ModelRegistryRequired
  | NamespaceRequired
  | SyncIntervalTooSmall
  | SyncIntervalTooLarge

definition defaultSyncInterval :: duration where
  "defaultSyncInterval = 5000000000"

definition minimumSyncInterval :: duration where
  "minimumSyncInterval = 1000000000"

definition staleIntervalCount :: int where
  "staleIntervalCount = 3"

definition NewDiscovery ::
  "bool \<Rightarrow> MemoryRegistry option \<Rightarrow> string \<Rightarrow> duration \<Rightarrow> (discovery_config_error, Discovery) result" where
  "NewDiscovery hasClient registry namespace0 syncInterval0 =
     (if \<not> hasClient then Inl KubernetesClientRequired
      else (case registry of
              None \<Rightarrow> Inl ModelRegistryRequired
            | Some r \<Rightarrow>
                let namespace = trim_space namespace0;
                    syncInterval = (if syncInterval0 \<le> 0 then defaultSyncInterval else syncInterval0)
                in if namespace = [] then Inl NamespaceRequired
                   else if syncInterval < minimumSyncInterval then Inl SyncIntervalTooSmall
                   else if syncInterval > maxInt64 div staleIntervalCount then Inl SyncIntervalTooLarge
                   else Inr \<lparr>dcNamespace = namespace, dcSyncInterval = syncInterval, dcRegistry = r, dcLastSuccess = 0\<rparr>))"

text \<open>What the three list calls of a synchronisation return; \<open>None\<close> is an error.\<close>

record cluster_lists =
  clDeployments :: "ModelDeployment list option"
  clServices :: "Service list option"
  clEndpointSlices :: "EndpointSlice list option"

datatype sync_error =
    SyncContextDone
  | ListDeploymentsFailed
  | ListServicesFailed
  | ListEndpointSlicesFailed
  | PublicationError "registry_error list"

definition staleAfter :: "Discovery \<Rightarrow> duration" where
  "staleAfter d = wrap64 (staleIntervalCount * dcSyncInterval d)"

definition snapshotStale :: "time \<Rightarrow> Discovery \<Rightarrow> bool" where
  "snapshotStale now d \<longleftrightarrow> dcLastSuccess d \<noteq> 0 \<and> timeSub now (dcLastSuccess d) \<ge> staleAfter d"

definition DiscoveryReady :: "time \<Rightarrow> Discovery \<Rightarrow> bool" where
  "DiscoveryReady now d \<longleftrightarrow> dcLastSuccess d \<noteq> 0 \<and> timeSub now (dcLastSuccess d) < staleAfter d"

definition snapshotBackends :: "ModelDeployment list \<Rightarrow> Service list \<Rightarrow> EndpointSlice list \<Rightarrow> Backend list" where
  "snapshotBackends deployments services endpointSlices =
     map (\<lambda>deployment. backendFor deployment (serviceByName services) (readyServicesByName endpointSlices)) deployments"

definition Sync :: "time \<Rightarrow> bool \<Rightarrow> cluster_lists \<Rightarrow> Discovery \<Rightarrow> Discovery \<times> sync_error option" where
  "Sync now contextDone listed d =
     (if contextDone then (d, Some SyncContextDone)
      else (case clDeployments listed of
              None \<Rightarrow> (d, Some ListDeploymentsFailed)
            | Some deployments \<Rightarrow>
                (case clServices listed of
                   None \<Rightarrow> (d, Some ListServicesFailed)
                 | Some services \<Rightarrow>
                     (case clEndpointSlices listed of
                        None \<Rightarrow> (d, Some ListEndpointSlicesFailed)
                      | Some endpointSlices \<Rightarrow>
                          let (registry, errs) = Replace (dcRegistry d)
                                (snapshotBackends deployments services endpointSlices)
                          in (d\<lparr>dcRegistry := registry, dcLastSuccess := now\<rparr>,
                              if errs \<noteq> [] then Some (PublicationError errs) else None)))))"

text \<open>
  One iteration of \<open>Run\<close>: a synchronisation and the choice of the next delay. The result says whether the loop
  goes on; \<open>syncDone\<close> says that the bounded context of the synchronisation was done when it started, and
  \<open>contextDone\<close> that the context of the loop was done when it returned.
\<close>

definition initialRetryDelay :: "Discovery \<Rightarrow> duration" where
  "initialRetryDelay d = min (dcSyncInterval d) 250000000"

definition staleMessage :: string where
  "staleMessage = ''model registry is stale because Kubernetes discovery is unavailable''"

definition RunIteration ::
  "time \<Rightarrow> bool \<Rightarrow> bool \<Rightarrow> cluster_lists \<Rightarrow> Discovery \<Rightarrow> duration \<Rightarrow> Discovery \<times> duration \<times> duration \<times> bool" where
  "RunIteration now syncDone contextDone listed d retryDelay =
     (case Sync now syncDone listed d of
        (d', None) \<Rightarrow> (d', dcSyncInterval d', initialRetryDelay d', True)
      | (d', Some err) \<Rightarrow>
          if contextDone then (d', 0, retryDelay, False)
          else (case err of
                  PublicationError _ \<Rightarrow> (d', dcSyncInterval d', initialRetryDelay d', True)
                | _ \<Rightarrow>
                    (if snapshotStale now d'
                       then d'\<lparr>dcRegistry := MarkReadyUnavailable (dcRegistry d') staleMessage\<rparr> else d',
                     retryDelay, min (wrap64 (retryDelay * 2)) (dcSyncInterval d'), True)))"

section \<open>The contract of the published registry\<close>

text \<open>
  What discovery relies on of a \<open>routing.ReplacingRegistry\<close>: replacing publishes only normal forms of the given
  backends, and marking leaves no ready backend.
\<close>

locale replacing_registry =
  fixes inv :: "'r \<Rightarrow> bool"
    and replace :: "'r \<Rightarrow> Backend list \<Rightarrow> 'r \<times> registry_error list"
    and mark :: "'r \<Rightarrow> string \<Rightarrow> 'r"
    and backends :: "'r \<Rightarrow> Backend list"
  assumes replace_inv: "inv (fst (replace r bs))"
    and mark_inv: "inv r \<Longrightarrow> inv (mark r message)"
    and replace_sound: "b \<in> set (backends (fst (replace r bs))) \<Longrightarrow> \<exists>x \<in> set bs. normalizeBackend x = Inr b"
    and mark_closed: "inv r \<Longrightarrow> b \<in> set (backends (mark r message)) \<Longrightarrow> bState b \<noteq> StateReady"
begin

lemma published_from_input:
  assumes "b \<in> set (backends (fst (replace r bs)))"
  obtains x where "x \<in> set bs" "bState x = bState b" "bEndpoint x = bEndpoint b" "bNamespace x = bNamespace b"
    "trim_space (bName x) = bName b"
proof -
  obtain x where x: "x \<in> set bs" "normalizeBackend x = Inr b" using replace_sound [OF assms] by blast
  obtain prefix policy where b: "b = x\<lparr>bName := trim_space (bName x), bRoutePrefix := prefix, bPolicy := policy\<rparr>"
    using x(2) by (rule normalizeBackend_InrE)
  show ?thesis by (rule that [OF x(1)]) (simp_all add: b)
qed

lemma ready_needs_ready_input:
  "\<forall>x \<in> set bs. bState x \<noteq> StateReady \<Longrightarrow> b \<in> set (backends (fst (replace r bs))) \<Longrightarrow> bState b \<noteq> StateReady"
  using published_from_input by metis

end

lemma Backends_Mark_not_ready:
  assumes "reg_ok r" and "b \<in> set (Backends (MarkReadyUnavailable r message))"
  shows "bState b \<noteq> StateReady"
proof -
  obtain p where "b \<in> set (routesAt (mrRoutes (MarkReadyUnavailable r message)) p)"
    using assms Backends_iff [OF MarkReadyUnavailable_ok [OF assms(1)]] by blast
  moreover obtain m where "routesAt (mrRoutes (MarkReadyUnavailable r message)) p = map (markUnavailable m) (routesAt (mrRoutes r) p)"
    using routesAt_Mark by blast
  ultimately show ?thesis by auto
qed

lemma Backends_Replace_sound:
  "b \<in> set (Backends (fst (Replace r bs))) \<Longrightarrow> \<exists>x \<in> set bs. normalizeBackend x = Inr b"
  using groupBackends_sound [of b "[]" "[]" bs] by (auto simp: Replace_Backends routesAt_def)

interpretation memory_registry: replacing_registry reg_ok Replace MarkReadyUnavailable Backends
  by unfold_locales (auto simp: Replace_ok MarkReadyUnavailable_ok Backends_Mark_not_ready Backends_Replace_sound)

section \<open>Lemmas\<close>

lemma readyServicesByName_iff:
  "name \<in> set (readyServicesByName slices) \<longleftrightarrow>
   (\<exists>s \<in> set slices. name \<noteq> [] \<and> mget (omLabels (esMeta s)) LabelServiceName = name \<and>
      omDeletionTimestamp (esMeta s) = None \<and> endpointSliceHasHTTPPort s \<and> list_ex endpointReady (esEndpoints s))"
proof -
  have "name \<in> set (foldl addReadyService acc slices) \<longleftrightarrow> name \<in> set acc \<or>
     (\<exists>s \<in> set slices. name \<noteq> [] \<and> mget (omLabels (esMeta s)) LabelServiceName = name \<and>
      omDeletionTimestamp (esMeta s) = None \<and> endpointSliceHasHTTPPort s \<and> list_ex endpointReady (esEndpoints s))" for acc
    by (induction slices arbitrary: acc) (auto simp: addReadyService_def Let_def)
  then show ?thesis by (simp add: readyServicesByName_def)
qed

lemma serviceByName_Some:
  "serviceByName services name = Some service \<Longrightarrow> service \<in> set services \<and> omName (svMeta service) = name"
  by (auto simp: serviceByName_def dest!: map_of_SomeD)

lemma statusGate_None:
  assumes "statusGate d = None"
  shows "roEnabled (dsRouting (mdSpec d)) \<and> roOpenAICompatible (dsRouting (mdSpec d)) \<and>
    omGeneration (mdMeta d) \<le> dtObservedGeneration (mdStatus d) \<and>
    conditionTrue d ConditionRuntimeReady \<and> conditionTrue d ConditionModelLoaded \<and>
    conditionTrue d ConditionRoutingReady \<and> moLoaded (dtModel (mdStatus d)) \<and>
    1 \<le> rcDesired (dtReplicas (mdStatus d)) \<and>
    rcDesired (dtReplicas (mdStatus d)) \<le> rcReady (dtReplicas (mdStatus d))"
proof -
  have "conditionTrueForGeneration d t \<Longrightarrow> conditionTrue d t" for t
    by (auto simp: conditionTrueForGeneration_def conditionTrue_def simp del: find_eq_None_iff split: option.splits)
  then show ?thesis using assms by (auto simp: statusGate_def split: if_splits)
qed

text \<open>The Service that carries the traffic of a deployment.\<close>

definition service_serves :: "ModelDeployment \<Rightarrow> Service \<Rightarrow> int \<Rightarrow> bool" where
  "service_serves d service port \<longleftrightarrow>
     omDeletionTimestamp (svMeta service) = None \<and> ownedByDeployment service d \<and>
     omNamespace (svMeta service) = mdNamespace d \<and>
     mget (omLabels (svMeta service)) ModelDeploymentLabel = mdName d \<and>
     mget (svSelector service) ModelDeploymentLabel = mdName d \<and>
     runtimeHTTPPort service = Some port \<and> svType service = ServiceTypeClusterIP \<and>
     svClusterIP service \<noteq> [] \<and> svClusterIP service \<noteq> ClusterIPNone"

lemma serviceGate_Inr:
  assumes "serviceGate d services ready = Inr (host, port)"
  obtains service name where "services name = Some service" "service_serves d service port"
    "omName (svMeta service) \<in> set ready" "host = omName (svMeta service) @ ''.'' @ mdNamespace d @ ''.svc''"
  using assms by (auto simp: serviceGate_def service_serves_def Let_def split: option.splits if_splits)

lemma backendFor_identity [simp]:
  "bName (backendFor d services ready) = mdName d" "bNamespace (backendFor d services ready) = mdNamespace d"
  by (auto simp: backendFor_def Let_def split: option.splits sum.splits prod.splits)

lemma backendFor_ReadyE:
  assumes "bState (backendFor d services ready) = StateReady"
  obtains host port where "dtPhase (mdStatus d) = ModelDeploymentPhaseActive"
    "asDesiredState (dsActivation (mdSpec d)) = ActivationDesiredStateActive"
    "statusGate d = None" "serviceGate d services ready = Inr (host, port)"
    "bEndpoint (backendFor d services ready) =
       Some \<lparr>uScheme = ''http'', uHost = joinHostPort host (itoa port), uPath = [], uRawPath = []\<rparr>"
proof (cases "dtPhase (mdStatus d) = ModelDeploymentPhaseActive \<and>
    asDesiredState (dsActivation (mdSpec d)) = ActivationDesiredStateActive \<and> statusGate d = None")
  case True
  then show ?thesis
    using assms that by (auto simp: backendFor_def Let_def split: sum.splits)
next
  case False
  then show ?thesis using assms by (auto simp: backendFor_def Let_def split: if_splits option.splits)
qed

lemma Sync_ok: "reg_ok (dcRegistry d) \<Longrightarrow> reg_ok (dcRegistry (fst (Sync now done listed d)))"
  using Replace_ok by (auto simp: Sync_def Let_def case_prod_beta split: option.splits)

lemma Sync_None:
  assumes "Sync now done listed d = (d', err)" and "err = None \<or> (\<exists>errs. err = Some (PublicationError errs))"
  obtains deployments services slices where "clDeployments listed = Some deployments" "clServices listed = Some services"
    "clEndpointSlices listed = Some slices"
    "dcRegistry d' = fst (Replace (dcRegistry d) (snapshotBackends deployments services slices))"
    "dcLastSuccess d' = now"
  using assms by (auto simp: Sync_def Let_def case_prod_beta split: option.splits if_splits)

lemma RunIteration_stale:
  assumes "reg_ok (dcRegistry d)" and "snapshotStale now d" and "Sync now syncDone listed d = (d, Some err)"
    and "\<forall>errs. err \<noteq> PublicationError errs" and "\<not> contextDone"
  shows "fst (RunIteration now syncDone contextDone listed d delay) =
    d\<lparr>dcRegistry := MarkReadyUnavailable (dcRegistry d) staleMessage\<rparr>"
  using assms by (cases err) (auto simp: RunIteration_def)

section \<open>Properties\<close>


definition sampleCondition :: "string \<Rightarrow> Condition" where
  "sampleCondition t = \<lparr>cType = t, cStatus = ConditionTrue, cObservedGeneration = 1, cLastTransitionTime = 5,
     cReason = ''Ok'', cMessage = []\<rparr>"

definition sampleActiveDeployment :: ModelDeployment where
  "sampleActiveDeployment = (sampleDeployment ''llama'')\<lparr>mdStatus := (mdStatus (sampleDeployment ''llama''))
     \<lparr>dtConditions := map sampleCondition [ConditionRuntimeReady, ConditionModelLoaded, ConditionRoutingReady,
        ConditionReady]\<rparr>\<rparr>"

definition sampleService :: Service where
  "sampleService = \<lparr>svMeta = (sampleMeta ''llama-runtime'')\<lparr>omLabels := [(ModelDeploymentLabel, ''llama'')],
       omOwnerReferences := [\<lparr>orAPIVersion = GroupVersion, orKind = ''ModelDeployment'', orName = ''llama'',
         orUID = ''uid-llama'', orController = Some True, orBlockOwnerDeletion = Some True\<rparr>]\<rparr>,
     svType = ''ClusterIP'', svClusterIP = ''10.0.0.7'', svSelector = [(ModelDeploymentLabel, ''llama'')],
     svPorts = [\<lparr>spName = ''http'', spProtocol = ''TCP'', spPort = 8000, spTargetPort = StrVal ''http''\<rparr>]\<rparr>"

definition sampleSlice :: EndpointSlice where
  "sampleSlice = \<lparr>esMeta = (sampleMeta ''slice'')\<lparr>omLabels := [(LabelServiceName, ''llama-runtime'')]\<rparr>,
     esPorts = [\<lparr>ptName = Some ''http'', ptPort = Some 8000, ptProtocol = None\<rparr>],
     esEndpoints = [\<lparr>epAddresses = [''10.1.0.1''], epReady = Some True, epTerminating = None\<rparr>]\<rparr>"

lemma sample_gates:
  "statusGate sampleActiveDeployment = None"
  "serviceGate sampleActiveDeployment (serviceByName [sampleService]) (readyServicesByName [sampleSlice]) =
     Inr (''llama-runtime.default.svc'', 8000)"
proof -
  show "statusGate sampleActiveDeployment = None" by code_simp
  have "readyServicesByName [sampleSlice] = [''llama-runtime'']" "runtimeHTTPPort sampleService = Some 8000"
    "ownedByDeployment sampleService sampleActiveDeployment" by code_simp+
  then show "serviceGate sampleActiveDeployment (serviceByName [sampleService]) (readyServicesByName [sampleSlice]) =
     Inr (''llama-runtime.default.svc'', 8000)"
    by (simp add: serviceGate_def serviceByName_def ServiceName_def const_defs sampleService_def
        sampleActiveDeployment_def sampleDeployment_def sampleMeta_def)
qed

lemma sample_backend_ready:
  "bState (backendFor sampleActiveDeployment (serviceByName [sampleService]) (readyServicesByName [sampleSlice])) = StateReady"
proof -
  have "dtPhase (mdStatus sampleActiveDeployment) = ModelDeploymentPhaseActive"
    "asDesiredState (dsActivation (mdSpec sampleActiveDeployment)) = ActivationDesiredStateActive"
    by (simp_all add: sampleActiveDeployment_def sampleDeployment_def)
  then show ?thesis by (simp add: backendFor_def Let_def sample_gates)
qed



definition sampleLists :: cluster_lists where
  "sampleLists = \<lparr>clDeployments = Some [sampleActiveDeployment], clServices = Some [sampleService],
     clEndpointSlices = Some [sampleSlice]\<rparr>"

definition sampleNewDiscovery :: Discovery where
  "sampleNewDiscovery = \<lparr>dcNamespace = ''default'', dcSyncInterval = 5000000000, dcRegistry = NewMemoryRegistry,
     dcLastSuccess = 0\<rparr>"


text \<open>
  C13. A stale gateway stops routing: when the last successful snapshot is at least three intervals old, the process
  reports not ready, and the next iteration of the refresh loop whose read fails leaves no ready backend in the
  registry while keeping every route; the delay before the next attempt is positive and at most the
  synchronisation interval.
\<close>

theorem stale_registry_fails_closed:
  assumes "reg_ok (dcRegistry d)" and "0 < retryDelay" and "retryDelay \<le> dcSyncInterval d" and "dcSyncInterval d < 2 ^ 62"
    and "clDeployments listed = None \<or> clServices listed = None \<or> clEndpointSlices listed = None"
    and "RunIteration now False False listed d retryDelay = (d', delay, retryDelay', continue)"
  shows "continue \<and> 0 < delay \<and> delay \<le> dcSyncInterval d \<and> 0 < retryDelay' \<and> retryDelay' \<le> dcSyncInterval d \<and>
    map fst (mrRoutes (dcRegistry d')) = map fst (mrRoutes (dcRegistry d)) \<and>
    (if snapshotStale now d
     then \<not> DiscoveryReady now d' \<and> (\<forall>b \<in> set (Backends (dcRegistry d')). bState b \<noteq> StateReady)
     else d' = d)"
proof -
  have "\<exists>err. Sync now False listed d = (d, Some err) \<and> (\<forall>errs. err \<noteq> PublicationError errs)"
    using assms(5) by (auto simp: Sync_def split: option.splits)
  then obtain err where err: "Sync now False listed d = (d, Some err)" "\<forall>errs. err \<noteq> PublicationError errs" by blast
  have step: "d' = (if snapshotStale now d then d\<lparr>dcRegistry := MarkReadyUnavailable (dcRegistry d) staleMessage\<rparr> else d)"
    "delay = retryDelay" "retryDelay' = min (wrap64 (retryDelay * 2)) (dcSyncInterval d)" "continue"
    using assms(6) err by (cases err; auto simp: RunIteration_def)+
  have "wrap64 (retryDelay * 2) = retryDelay * 2"
    using assms(2-4) by (intro wrap64_nonneg) (auto simp: maxInt64_def)
  then have "0 < retryDelay'" "retryDelay' \<le> dcSyncInterval d" using step(3) assms(2,3) by auto
  then show ?thesis
    using step(1,2,4) assms(1-3) memory_registry.mark_closed
    by (auto simp: snapshotStale_def DiscoveryReady_def staleAfter_def)
qed

definition sampleDiscovery :: Discovery where
  "sampleDiscovery = \<lparr>dcNamespace = ''default'', dcSyncInterval = 5000000000, dcRegistry = sampleRegistry, dcLastSuccess = 1\<rparr>"

definition sampleOutage :: cluster_lists where
  "sampleOutage = \<lparr>clDeployments = None, clServices = None, clEndpointSlices = None\<rparr>"

theorem stale_registry_fails_closed_witness:
  "filter (\<lambda>b. bState b = StateReady)
     (Backends (dcRegistry (fst (RunIteration 20000000001 False False sampleOutage sampleDiscovery 250000000)))) = []"
proof -
  have st: "snapshotStale 20000000001 sampleDiscovery" by code_simp
  obtain d' delay retry cont where run:
    "RunIteration 20000000001 False False sampleOutage sampleDiscovery 250000000 = (d', delay, retry, cont)"
    by (metis prod_cases4)
  show ?thesis
    using stale_registry_fails_closed [OF _ _ _ _ _ run] st sampleRegistry_ok run
    by (simp add: sampleDiscovery_def sampleOutage_def filter_empty_conv)
qed

end
