(* ===== verification/Kube_Workloads.thy ===== *)
theory Kube_Workloads
  imports Kube_Model
begin

text \<open>
  The workload objects that the operator renders and reads back: Deployments with their pod templates,
  PodDisruptionBudgets, ConfigMaps and Jobs, as plain data with the fields the sources set, compare or read. Quantities are
  of the type \<open>'q\<close> of \<open>Kube_Model\<close>. Maps and slices that are nil or empty are not distinguished. The name checks of
  \<open>k8s.io/apimachinery/pkg/util/validation\<close> are a parameter, the record \<open>name_checks\<close> of functions that return messages.
\<close>

section \<open>Name checks\<close>

record name_checks =
  vIsDNS1035Label :: "string \<Rightarrow> string list"
  vIsDNS1123Label :: "string \<Rightarrow> string list"
  vIsDNS1123Subdomain :: "string \<Rightarrow> string list"
  vIsValidLabelValue :: "string \<Rightarrow> string list"
  vIsQualifiedName :: "string \<Rightarrow> string list"
  vIsEnvVarName :: "string \<Rightarrow> string list"

text \<open>A concrete instance for evaluation: every check accepts exactly the non-empty strings.\<close>

definition lax_checks :: name_checks where
  "lax_checks =
     (let check = (\<lambda>s. if s = [] then [''must not be empty''] else [])
      in \<lparr>vIsDNS1035Label = check, vIsDNS1123Label = check, vIsDNS1123Subdomain = check, vIsValidLabelValue = check,
          vIsQualifiedName = check, vIsEnvVarName = check\<rparr>)"

section \<open>Errors of the API server\<close>

datatype api_error =
    NotFound
  | AlreadyExists
  | Conflict
  | ServerError string

section \<open>Containers\<close>

record EnvVar =
  evName :: string
  evValue :: string
  evSecretKeyRef :: "(string \<times> string) option"

record ContainerPort =
  cnName :: string
  cnContainerPort :: int
  cnProtocol :: string

record Probe =
  peHTTPGetPath :: string
  peHTTPGetPort :: IntOrString
  peHTTPGetScheme :: string
  pePeriodSeconds :: int
  peTimeoutSeconds :: int
  peFailureThreshold :: int
  peSuccessThreshold :: int

record SecurityContext =
  xcAllowPrivilegeEscalation :: "bool option"
  xcReadOnlyRootFilesystem :: "bool option"
  xcRunAsNonRoot :: "bool option"
  xcRunAsUser :: "int option"
  xcRunAsGroup :: "int option"
  xcCapabilitiesDrop :: "string list"
  xcSeccompProfile :: string

record VolumeMount =
  vmName :: string
  vmMountPath :: string
  vmReadOnly :: bool

record 'q Container =
  ckName :: string
  ckImage :: string
  ckImagePullPolicy :: string
  ckCommand :: "string list"
  ckArgs :: "string list"
  ckPorts :: "ContainerPort list"
  ckEnv :: "EnvVar list"
  ckRequests :: "(string \<times> 'q) list"
  ckLimits :: "(string \<times> 'q) list"
  ckSecurityContext :: "SecurityContext option"
  ckReadinessProbe :: "Probe option"
  ckLivenessProbe :: "Probe option"
  ckStartupProbe :: "Probe option"
  ckTerminationMessagePath :: string
  ckTerminationMessagePolicy :: string
  ckVolumeMounts :: "VolumeMount list"

section \<open>Pods\<close>

datatype VolumeSource =
    HostPath string string
  | EmptyDir

record Volume =
  vlName :: string
  vlSource :: VolumeSource

record NodeSelectorRequirement =
  nrKey :: string
  nrOperator :: string
  nrValues :: "string list"

text \<open>The required node selector terms; \<open>None\<close> when the node affinity or its required part is nil.\<close>

record Affinity =
  afRequired :: "NodeSelectorRequirement list list option"

record PodTopologySpreadConstraint =
  ktMaxSkew :: int
  ktTopologyKey :: string
  ktWhenUnsatisfiable :: string
  ktMatchLabels :: string_map

record 'q PodSpec =
  poAutomountServiceAccountToken :: "bool option"
  poEnableServiceLinks :: "bool option"
  poTerminationGracePeriodSeconds :: "int option"
  poRestartPolicy :: string
  poDNSPolicy :: string
  poSchedulerName :: string
  poNodeSelector :: string_map
  poAffinity :: "Affinity option"
  poTolerations :: "Toleration list"
  poTopologySpreadConstraints :: "PodTopologySpreadConstraint list"
  poVolumes :: "Volume list"
  poContainers :: "'q Container list"

record 'q PodTemplateSpec =
  plLabels :: string_map
  plAnnotations :: string_map
  plSpec :: "'q PodSpec"

section \<open>Deployments\<close>

record DeploymentStrategy =
  dgType :: string
  dgRollingUpdate :: "(IntOrString \<times> IntOrString) option"

record 'q DeploymentSpec =
  dpReplicas :: "int option"
  dpRevisionHistoryLimit :: "int option"
  dpProgressDeadlineSeconds :: "int option"
  dpMinReadySeconds :: int
  dpStrategy :: DeploymentStrategy
  dpSelector :: string_map
  dpTemplate :: "'q PodTemplateSpec"

record DeploymentCondition =
  dnType :: string
  dnStatus :: ConditionStatus
  dnReason :: string
  dnMessage :: string

record DeploymentStatus =
  dvObservedGeneration :: int
  dvReadyReplicas :: int
  dvAvailableReplicas :: int
  dvConditions :: "DeploymentCondition list"

record 'q Deployment =
  rdMeta :: ObjectMeta
  rdSpec :: "'q DeploymentSpec"
  rdStatus :: DeploymentStatus

section \<open>Other objects\<close>

record PodDisruptionBudget =
  bgMeta :: ObjectMeta
  bgMinAvailable :: "IntOrString option"
  bgSelector :: string_map
  bgUnhealthyPodEvictionPolicy :: "string option"

record ConfigMap =
  cmMeta :: ObjectMeta
  cmData :: string_map

record JobCondition =
  jcType :: string
  jcStatus :: ConditionStatus
  jcReason :: string
  jcMessage :: string

record 'q Job =
  jbMeta :: ObjectMeta
  jbBackoffLimit :: "int option"
  jbTTLSecondsAfterFinished :: "int option"
  jbActiveDeadlineSeconds :: "int option"
  jbTemplate :: "'q PodTemplateSpec"
  jbActive :: int
  jbSucceeded :: int
  jbFailed :: int
  jbConditions :: "JobCondition list"

section \<open>Constants\<close>

definition LabelHostname :: string where
  [const_defs]: "LabelHostname = ''kubernetes.io/hostname''"

definition NodeSelectorOpIn :: string where
  [const_defs]: "NodeSelectorOpIn = ''In''"

definition PullAlways :: string where
  [const_defs]: "PullAlways = ''Always''"

definition PullIfNotPresent :: string where
  [const_defs]: "PullIfNotPresent = ''IfNotPresent''"

definition HostPathDirectory :: string where
  [const_defs]: "HostPathDirectory = ''Directory''"

definition SeccompProfileTypeRuntimeDefault :: string where
  [const_defs]: "SeccompProfileTypeRuntimeDefault = ''RuntimeDefault''"

definition RecreateDeploymentStrategyType :: string where
  [const_defs]: "RecreateDeploymentStrategyType = ''Recreate''"

definition RollingUpdateDeploymentStrategyType :: string where
  [const_defs]: "RollingUpdateDeploymentStrategyType = ''RollingUpdate''"

definition TaintEffectPreferNoSchedule :: string where
  [const_defs]: "TaintEffectPreferNoSchedule = ''PreferNoSchedule''"

text \<open>The metadata of an object that the operator renders: the server fills in the rest.\<close>

definition renderedMeta :: "string \<Rightarrow> string \<Rightarrow> string_map \<Rightarrow> string_map \<Rightarrow> OwnerReference list \<Rightarrow> ObjectMeta" where
  "renderedMeta name namespace labels annotations owners =
     \<lparr>omName = name, omNamespace = namespace, omUID = [], omResourceVersion = [], omGeneration = 0,
      omCreationTimestamp = 0, omDeletionTimestamp = None, omLabels = labels, omAnnotations = annotations,
      omFinalizers = [], omOwnerReferences = owners\<rparr>"

end
