(* ===== verification/Go_Duration.thy ===== *)
theory Go_Duration
  imports Go_Float Go_Strings
begin

text \<open>
  \<open>time.ParseDuration\<close> of the Go standard library, which the validators, the builder and the lifecycle controller apply
  to the drain and idle timeouts. The loop consumes a number and a unit per round; the unsigned 64-bit
  accumulator is bounded by \<open>2 ^ 63\<close> after every step, so no step wraps around.
\<close>

section \<open>Definitions\<close>

datatype duration_error =
    InvalidDuration
  | MissingDurationUnit
  | UnknownDurationUnit string

definition digit_value :: "char \<Rightarrow> int" where
  "digit_value c = of_char c - 48"

definition is_digit :: "char \<Rightarrow> bool" where
  "is_digit c \<longleftrightarrow> 0 \<le> digit_value c \<and> digit_value c \<le> 9"

fun leadingInt :: "int \<Rightarrow> string \<Rightarrow> (int \<times> string) option" where
  "leadingInt x [] = Some (x, [])"
| "leadingInt x (c # s) =
     (if \<not> is_digit c then Some (x, c # s)
      else if x > 2 ^ 63 div 10 then None
      else let y = x * 10 + digit_value c in if y > 2 ^ 63 then None else leadingInt y s)"

fun leadingFraction :: "int \<Rightarrow> rat \<Rightarrow> bool \<Rightarrow> string \<Rightarrow> int \<times> rat \<times> string" where
  "leadingFraction x scale overflow [] = (x, scale, [])"
| "leadingFraction x scale overflow (c # s) =
     (if \<not> is_digit c then (x, scale, c # s)
      else if overflow \<or> x > (2 ^ 63 - 1) div 10 then leadingFraction x scale True s
      else
        let y = x * 10 + digit_value c
        in if y > 2 ^ 63 then leadingFraction x scale True s else leadingFraction y (fl64 (scale * 10)) False s)"

text \<open>The micro sign and the Greek mu are two bytes of UTF-8.\<close>

definition unitMap :: "(string \<times> int) list" where
  "unitMap =
     [(''ns'', 1), (''us'', 1000), ([CHR 0xC2, CHR 0xB5, CHR ''s''], 1000),
      ([CHR 0xCE, CHR 0xBC, CHR ''s''], 1000), (''ms'', 1000000), (''s'', 1000000000),
      (''m'', 60000000000), (''h'', 3600000000000)]"

definition unit_char :: "char \<Rightarrow> bool" where
  "unit_char c \<longleftrightarrow> \<not> (c = CHR ''.'' \<or> is_digit c)"

text \<open>One round of the loop: the nanoseconds of the next number with its unit, and the rest of the string.\<close>

definition durationTerm :: "string \<Rightarrow> (duration_error, int \<times> string) result" where
  "durationTerm s =
     (if \<not> (hd s = CHR ''.'' \<or> is_digit (hd s)) then Inl InvalidDuration
      else (case leadingInt 0 s of
              None \<Rightarrow> Inl InvalidDuration
            | Some (v, s1) \<Rightarrow>
                let pre = length s1 \<noteq> length s;
                    point = s1 \<noteq> [] \<and> hd s1 = CHR ''.'';
                    (f, scale, s2) = (if point then leadingFraction 0 1 False (tl s1) else (0, 1, s1));
                    post = point \<and> length s2 \<noteq> length (tl s1);
                    u = takeWhile unit_char s2
                in if \<not> pre \<and> \<not> post then Inl InvalidDuration
                   else if u = [] then Inl MissingDurationUnit
                   else (case map_of unitMap u of
                           None \<Rightarrow> Inl (UnknownDurationUnit u)
                         | Some unit \<Rightarrow>
                             if v > 2 ^ 63 div unit then Inl InvalidDuration
                             else
                               let whole = v * unit;
                                   total = (if f > 0 then whole + \<lfloor>fl64 (fl64 (of_int f) * fl64 (of_int unit / scale))\<rfloor> else whole)
                               in if f > 0 \<and> total > 2 ^ 63 then Inl InvalidDuration
                                  else Inr (total, dropWhile unit_char s2))))"

lemma leadingInt_length: "leadingInt x s = Some (v, t) \<Longrightarrow> length t \<le> length s"
  by (induction x s rule: leadingInt.induct) (auto simp: Let_def split: if_splits)

lemma leadingFraction_length: "leadingFraction x scale overflow s = (f, scale', t) \<Longrightarrow> length t \<le> length s"
  by (induction x scale overflow s rule: leadingFraction.induct) (auto simp: Let_def split: if_splits)

lemma dropWhile_shorter: "takeWhile p xs \<noteq> [] \<Longrightarrow> length (dropWhile p xs) < length xs"
  by (metis length_append length_greater_0_conv less_add_same_cancel2 takeWhile_dropWhile_id)

lemma durationTerm_shorter:
  assumes "durationTerm s = Inr (v, t)"
  shows "length t < length s"
proof -
  obtain v0 s1 where l: "leadingInt 0 s = Some (v0, s1)"
    using assms by (auto simp: durationTerm_def split: if_splits option.splits)
  define r where "r = (if s1 \<noteq> [] \<and> hd s1 = CHR ''.'' then leadingFraction 0 1 False (tl s1) else (0, 1, s1))"
  obtain f scale s2 where r: "r = (f, scale, s2)" by (cases r)
  have "length s2 \<le> length s1"
    using r leadingFraction_length [of 0 1 False "tl s1" f scale s2] by (auto simp: r_def split: if_splits)
  moreover have "takeWhile unit_char s2 \<noteq> [] \<and> t = dropWhile unit_char s2"
    using assms l r by (auto simp: durationTerm_def Let_def r_def split: if_splits option.splits prod.splits)
  ultimately show ?thesis
    using leadingInt_length [OF l] dropWhile_shorter [of unit_char s2] by simp
qed

function durationLoop :: "int \<Rightarrow> string \<Rightarrow> (duration_error, int) result" where
  "durationLoop d s =
     (if s = [] then Inr d
      else (case durationTerm s of
              Inl err \<Rightarrow> Inl err
            | Inr (v, t) \<Rightarrow> if d + v > 2 ^ 63 then Inl InvalidDuration else durationLoop (d + v) t))"
  by pat_completeness auto
termination
  by (relation "measure (\<lambda>(d, s). length s)") (auto dest: durationTerm_shorter)

declare durationLoop.simps [simp del]

definition ParseDuration :: "string \<Rightarrow> (duration_error, int) result" where
  "ParseDuration orig =
     (let neg = orig \<noteq> [] \<and> hd orig = CHR ''-'';
          s = (if orig \<noteq> [] \<and> (hd orig = CHR ''-'' \<or> hd orig = CHR ''+'') then tl orig else orig)
      in if s = ''0'' then Inr 0
         else if s = [] then Inl InvalidDuration
         else (case durationLoop 0 s of
                 Inl err \<Rightarrow> Inl err
               | Inr d \<Rightarrow> if neg then Inr (- d) else if d > 2 ^ 63 - 1 then Inl InvalidDuration else Inr d))"

section \<open>Lemmas\<close>

abbreviation dec_value :: "int \<Rightarrow> string \<Rightarrow> int" where
  "dec_value \<equiv> foldl (\<lambda>x c. x * 10 + digit_value c)"

lemma dec_value_ge: "list_all is_digit ds \<Longrightarrow> 0 \<le> x \<Longrightarrow> x \<le> dec_value x ds"
proof (induction ds arbitrary: x)
  case (Cons c ds)
  then have "x * 10 + digit_value c \<le> dec_value (x * 10 + digit_value c) ds" by (auto simp: is_digit_def)
  then show ?case using Cons.prems by (auto simp: is_digit_def)
qed simp

lemma leadingInt_digits:
  assumes "list_all is_digit ds" and "0 \<le> x" and "dec_value x ds \<le> 2 ^ 63" and "rest = [] \<or> \<not> is_digit (hd rest)"
  shows "leadingInt x (ds @ rest) = Some (dec_value x ds, rest)"
  using assms
proof (induction ds arbitrary: x)
  case Nil
  then show ?case by (cases rest) auto
next
  case (Cons c ds)
  have c: "is_digit c" "0 \<le> digit_value c" "0 \<le> x * 10 + digit_value c" using Cons.prems by (auto simp: is_digit_def)
  moreover have "x * 10 + digit_value c \<le> dec_value (x * 10 + digit_value c) ds"
    using Cons.prems c by (intro dec_value_ge) auto
  ultimately have "x * 10 + digit_value c \<le> 2 ^ 63" "\<not> 2 ^ 63 div 10 < x" using Cons.prems by auto
  moreover note c(1,3)
  ultimately show ?case using Cons by (simp add: Let_def)
qed

lemma digit_value_char: "0 \<le> n \<Longrightarrow> n \<le> 9 \<Longrightarrow> digit_value (digit_char n) = n"
proof -
  assume "0 \<le> n" "n \<le> 9"
  then have "n = 0 \<or> n = 1 \<or> n = 2 \<or> n = 3 \<or> n = 4 \<or> n = 5 \<or> n = 6 \<or> n = 7 \<or> n = 8 \<or> n = 9" by presburger
  then show ?thesis by (elim disjE) (simp_all add: digit_value_def digit_char_def)
qed

lemma decimal_digits_value:
  "0 \<le> n \<Longrightarrow> list_all is_digit (decimal_digits n) \<and> dec_value 0 (decimal_digits n) = n \<and> decimal_digits n \<noteq> []"
proof (induction n rule: decimal_digits.induct)
  case (1 n)
  show ?case
  proof (cases "n < 10")
    case True
    then show ?thesis using 1(2) by (simp add: decimal_digits.simps [of n] is_digit_def digit_value_char)
  next
    case False
    then have "0 \<le> n div 10" by simp
    then show ?thesis
      using 1(1) [OF False] False by (simp add: decimal_digits.simps [of n] is_digit_def digit_value_char)
  qed
qed

lemma leadingInt_itoa:
  "0 \<le> n \<Longrightarrow> n \<le> 2 ^ 63 \<Longrightarrow> rest = [] \<or> \<not> is_digit (hd rest) \<Longrightarrow>
   leadingInt 0 (itoa n @ rest) = Some (n, rest)"
  using decimal_digits_value [of n] leadingInt_digits [of "decimal_digits n" 0 rest] by (simp add: itoa_def)

lemma unitMap_chars: "map_of unitMap u = Some unit \<Longrightarrow> u \<noteq> [] \<and> list_all unit_char u \<and> 0 < unit"
proof -
  assume "map_of unitMap u = Some unit"
  then have "(u, unit) \<in> set unitMap" by (rule map_of_SomeD)
  moreover have "list_all (\<lambda>(u, unit). u \<noteq> [] \<and> list_all unit_char u \<and> 0 < unit) unitMap" by code_simp
  ultimately show ?thesis by (auto simp: list_all_iff)
qed

lemma leadingInt_nonneg: "leadingInt x s = Some (v, t) \<Longrightarrow> 0 \<le> x \<Longrightarrow> 0 \<le> v"
  by (induction x s rule: leadingInt.induct) (auto simp: Let_def is_digit_def split: if_splits)

lemma leadingFraction_scale: "leadingFraction x scale overflow s = (f, scale', t) \<Longrightarrow> 0 \<le> scale \<Longrightarrow> 0 \<le> scale'"
proof (induction x scale overflow s rule: leadingFraction.induct)
  case (2 x scale overflow c s)
  have "0 \<le> fl64 (scale * 10)" using "2.prems"(2) float64.nonneg by simp
  then show ?case using 2 by (auto simp: Let_def split: if_splits)
qed auto

lemma durationTerm_range:
  assumes "durationTerm s = Inr (v, t)"
  shows "0 \<le> v"
proof -
  obtain v0 s1 where l: "leadingInt 0 s = Some (v0, s1)"
    using assms by (auto simp: durationTerm_def split: if_splits option.splits)
  define r where "r = (if s1 \<noteq> [] \<and> hd s1 = CHR ''.'' then leadingFraction 0 1 False (tl s1) else (0, 1, s1))"
  obtain f scale s2 where r: "r = (f, scale, s2)" by (cases r)
  have v0: "0 \<le> v0" using leadingInt_nonneg [OF l] by simp
  have scale: "0 \<le> scale"
    using r leadingFraction_scale [of 0 1 False "tl s1" f scale s2] by (auto simp: r_def split: if_splits)
  obtain unit where u: "map_of unitMap (takeWhile unit_char s2) = Some unit"
    and v: "v = (if f > 0 then v0 * unit + \<lfloor>fl64 (fl64 (of_int f) * fl64 (of_int unit / scale))\<rfloor> else v0 * unit)"
    using assms l r by (auto simp: durationTerm_def Let_def r_def split: if_splits option.splits prod.splits)
  have unit: "0 < unit" using unitMap_chars [OF u] by simp
  have "0 \<le> fl64 (fl64 (of_int f) * fl64 (of_int unit / scale))" if "f > 0"
    using that scale unit by (intro float64.nonneg mult_nonneg_nonneg) auto
  then show ?thesis using v v0 unit by auto
qed

lemma durationLoop_range: "durationLoop d s = Inr v \<Longrightarrow> 0 \<le> d \<Longrightarrow> d \<le> 2 ^ 63 \<Longrightarrow> 0 \<le> v \<and> v \<le> 2 ^ 63"
proof (induction d s rule: durationLoop.induct)
  case (1 d s)
  show ?case
  proof (cases "s = []")
    case True
    then show ?thesis using 1(2-4) by (simp add: durationLoop.simps [of d "[]"])
  next
    case False
    then obtain w t where t: "durationTerm s = Inr (w, t)" "\<not> d + w > 2 ^ 63" "durationLoop (d + w) t = Inr v"
      using 1(2) by (auto simp: durationLoop.simps [of d s] split: sum.splits prod.splits if_splits)
    then show ?thesis using 1(1) [OF False t(1) refl] durationTerm_range [OF t(1)] 1(3) by simp
  qed
qed

lemma itoa_digits: "0 \<le> n \<Longrightarrow> itoa n = decimal_digits n \<and> itoa n \<noteq> [] \<and> is_digit (hd (itoa n))"
  using decimal_digits_value [of n] by (auto simp: itoa_def list_all_iff)

lemma durationTerm_itoa:
  assumes "map_of unitMap u = Some unit" and "0 \<le> n" and "n * unit \<le> 2 ^ 63"
  shows "durationTerm (itoa n @ u) = Inr (n * unit, [])"
proof -
  have u: "u \<noteq> []" "list_all unit_char u" "0 < unit" using unitMap_chars [OF assms(1)] by auto
  then have hd: "unit_char (hd u)" by (cases u) auto
  have n: "n \<le> 2 ^ 63 div unit" using assms(3) u(3) by (simp add: zdiv_mono1 [of "n * unit" "2 ^ 63" unit, simplified])
  have "n \<le> n * unit" using assms(2) u(3) by (simp add: mult_le_cancel_left1)
  then have l: "leadingInt 0 (itoa n @ u) = Some (n, u)"
    using leadingInt_itoa [of n u] assms(2,3) hd by (auto simp: unit_char_def)
  have tw: "takeWhile unit_char u = u" "dropWhile unit_char u = []" using u(2) by (auto simp: list_all_iff)
  have dig: "itoa n \<noteq> []" "is_digit (hd (itoa n))" using itoa_digits [OF assms(2)] by auto
  show ?thesis
    using dig u(1) hd n assms(1) unfolding durationTerm_def l by (simp add: Let_def tw) (auto simp: unit_char_def)
qed

text \<open>Parsing inverts printing, and every duration that is read is an \<open>int64\<close>.\<close>

lemma ParseDuration_itoa:
  assumes "map_of unitMap u = Some unit" and "0 \<le> n" and "n * unit \<le> maxInt64"
  shows "ParseDuration (itoa n @ u) = Inr (n * unit)"
proof -
  have d: "itoa n \<noteq> []" "is_digit (hd (itoa n))" "u \<noteq> []"
    using itoa_digits [OF assms(2)] unitMap_chars [OF assms(1)] by auto
  have "hd (itoa n) \<noteq> CHR ''-''" "hd (itoa n) \<noteq> CHR ''+''" using d(2) by (auto simp: is_digit_def digit_value_def)
  moreover have "length (itoa n @ u) \<ge> 2" using d(1,3) by (cases "itoa n"; cases u) auto
  then have "itoa n @ u \<noteq> ''0''" by (auto dest: arg_cong [where f = length])
  moreover have "durationLoop 0 (itoa n @ u) = Inr (n * unit)"
    using durationTerm_itoa [OF assms(1,2)] assms(3) d(1)
    by (simp add: durationLoop.simps [of 0 "itoa n @ u"] durationLoop.simps [of "n * unit" "[]"] maxInt64_def)
  ultimately show "ParseDuration (itoa n @ u) = Inr (n * unit)"
    using d(1) assms(3) by (simp add: ParseDuration_def maxInt64_def Let_def)
qed

lemma ParseDuration_range: "ParseDuration s = Inr v \<Longrightarrow> is_int64 v"
  using durationLoop_range [of 0]
  by (fastforce simp: ParseDuration_def Let_def is_int64_def split: if_splits sum.splits)

end
