(* ===== verification/Resources.thy ===== *)
theory Resources
  imports Kube_Workloads Route_Paths Go_Duration Samples
begin

text \<open>
  \<open>operator/internal/resources\<close> without the cache Jobs: labels and owner references, the builder's configuration, the
  checks on image references, and the Service, ConfigMap, Deployment and PodDisruptionBudget of a runtime. Quantities and
  name checks are the parameters \<open>Q\<close> and \<open>N\<close>.
\<close>

section \<open>templates.go: shared constants\<close>

definition RuntimeContainerName :: string where
  [const_defs]: "RuntimeContainerName = ''runtime''"

definition RuntimeHTTPPort :: int where
  [const_defs]: "RuntimeHTTPPort = 8000"

definition RuntimeHealthPath :: string where
  [const_defs]: "RuntimeHealthPath = ''/health''"

definition RuntimeMetricsPath :: string where
  [const_defs]: "RuntimeMetricsPath = ''/metrics''"

definition EnvModelRepo :: string where
  [const_defs]: "EnvModelRepo = ''MODEL_REPO''"

definition EnvModelPath :: string where
  [const_defs]: "EnvModelPath = ''MODEL_PATH''"

definition EnvMaxModelLen :: string where
  [const_defs]: "EnvMaxModelLen = ''MAX_MODEL_LEN''"

definition EnvTensorParallelSize :: string where
  [const_defs]: "EnvTensorParallelSize = ''TENSOR_PARALLEL_SIZE''"

definition EnvGPUMemoryUtilization :: string where
  [const_defs]: "EnvGPUMemoryUtilization = ''GPU_MEMORY_UTILIZATION''"

definition EnvModelDType :: string where
  [const_defs]: "EnvModelDType = ''MODEL_DTYPE''"

definition EnvPort :: string where
  [const_defs]: "EnvPort = ''PORT''"

definition CacheVolumeName :: string where
  [const_defs]: "CacheVolumeName = ''model-cache''"

definition RuntimeModelMountPath :: string where
  [const_defs]: "RuntimeModelMountPath = ''/models/model''"

definition DefaultGPUVendor :: string where
  [const_defs]: "DefaultGPUVendor = ''nvidia''"

definition CacheDownloaderContainerName :: string where
  [const_defs]: "CacheDownloaderContainerName = ''downloader''"

definition CacheDownloaderJobSuffix :: string where
  [const_defs]: "CacheDownloaderJobSuffix = ''-download''"

definition ProbePeriodSeconds :: int where
  [const_defs]: "ProbePeriodSeconds = 10"

definition ProbeTimeoutSeconds :: int where
  [const_defs]: "ProbeTimeoutSeconds = 5"

definition ProbeFailureThreshold :: int where
  [const_defs]: "ProbeFailureThreshold = 3"

definition StartupProbeFailureThreshold :: int where
  [const_defs]: "StartupProbeFailureThreshold = 90"

section \<open>labels.go\<close>

definition LabelPartOf :: string where
  [const_defs]: "LabelPartOf = ''app.kubernetes.io/part-of''"

definition LabelName :: string where
  [const_defs]: "LabelName = ''app.kubernetes.io/name''"

definition LabelManagedBy :: string where
  [const_defs]: "LabelManagedBy = ''app.kubernetes.io/managed-by''"

definition LabelComponent :: string where
  [const_defs]: "LabelComponent = ''app.kubernetes.io/component''"

definition LabelModelDeployment :: string where
  [const_defs]: "LabelModelDeployment = ModelDeploymentLabel"

definition LabelModelCache :: string where
  [const_defs]: "LabelModelCache = ''inferops.dev/modelcache''"

definition ValuePartOf :: string where
  [const_defs]: "ValuePartOf = ''inferops''"

definition ValueManagedBy :: string where
  [const_defs]: "ValueManagedBy = ''inferops-operator''"

definition ValueComponent :: string where
  [const_defs]: "ValueComponent = ''model-runtime''"

definition BaseLabels :: "string \<Rightarrow> string_map" where
  "BaseLabels modelDeploymentName =
     [(LabelPartOf, ValuePartOf), (LabelName, RuntimeServiceName modelDeploymentName), (LabelManagedBy, ValueManagedBy),
      (LabelComponent, ValueComponent), (LabelModelDeployment, modelDeploymentName)]"

definition SelectorLabels :: "string \<Rightarrow> string_map" where
  "SelectorLabels modelDeploymentName =
     [(LabelName, RuntimeServiceName modelDeploymentName), (LabelModelDeployment, modelDeploymentName)]"

text \<open>\<open>metav1.NewControllerRef\<close> sets both flags.\<close>

definition OwnerReferenceForModelDeployment :: "ModelDeployment \<Rightarrow> OwnerReference" where
  "OwnerReferenceForModelDeployment md =
     \<lparr>orAPIVersion = GroupVersion, orKind = ''ModelDeployment'', orName = mdName md, orUID = omUID (mdMeta md),
      orController = Some True, orBlockOwnerDeletion = Some True\<rparr>"

definition CacheLabels :: "string \<Rightarrow> string_map" where
  "CacheLabels modelCacheName =
     [(LabelPartOf, ValuePartOf), (LabelName, modelCacheName), (LabelManagedBy, ValueManagedBy),
      (LabelComponent, ''model-cache''), (LabelModelCache, modelCacheName)]"

definition OwnerReferenceForModelCache :: "ModelCache \<Rightarrow> OwnerReference" where
  "OwnerReferenceForModelCache cache =
     \<lparr>orAPIVersion = GroupVersion, orKind = ''ModelCache'', orName = mcName cache, orUID = mcUID cache,
      orController = Some True, orBlockOwnerDeletion = Some True\<rparr>"

section \<open>builder.go\<close>

datatype image_error =
    ImageRequired
  | ImageWhitespace string
  | ImageInvalidDigest string
  | ImageNameRequired string
  | ImageDigestNotSHA256 string
  | ImageDigestNonCanonical string
  | ImageUnpinned string
  | ImageLatest string
  | ImageInvalidTag string

definition validImageTag :: "string \<Rightarrow> bool" where
  "validImageTag tag \<longleftrightarrow>
     tag \<noteq> [] \<and> length tag \<le> 128 \<and>
     (\<forall>i < length tag.
        let r = tag ! i
        in CHR ''a'' \<le> r \<and> r \<le> CHR ''z'' \<or> CHR ''A'' \<le> r \<and> r \<le> CHR ''Z'' \<or>
           CHR ''0'' \<le> r \<and> r \<le> CHR ''9'' \<or> r = CHR ''_'' \<or>
           i > 0 \<and> (r = CHR ''.'' \<or> r = CHR ''-''))"

definition is_lower_hex :: "char \<Rightarrow> bool" where
  "is_lower_hex c \<longleftrightarrow> CHR ''0'' \<le> c \<and> c \<le> CHR ''9'' \<or> CHR ''a'' \<le> c \<and> c \<le> CHR ''f''"

definition ValidatePinnedImage :: "string \<Rightarrow> image_error option" where
  "ValidatePinnedImage img =
     (if img = [] then Some ImageRequired
      else if trim_space img \<noteq> img \<or> contains_any img [CHR '' '', CHR 0x09, CHR 0x0D, CHR 0x0A]
        then Some (ImageWhitespace img)
      else
        let lastSlash = last_index img CHR ''/''; lastAt = last_index img CHR ''@''
        in if lastAt > lastSlash then
             (if count_list (drop (nat (lastSlash + 1)) img) CHR ''@'' \<noteq> 1 \<or> lastAt = int (length img) - 1
                then Some (ImageInvalidDigest img)
              else if take (nat lastAt) img = [] then Some (ImageNameRequired img)
              else
                let digest = drop (nat (lastAt + 1)) img
                in if \<not> has_prefix digest ''sha256:'' then Some (ImageDigestNotSHA256 img)
                   else
                     let encoded = trim_prefix digest ''sha256:''
                     in if length encoded \<noteq> 64 then Some (ImageInvalidDigest img)
                        else if encoded \<noteq> map ascii_lower encoded then Some (ImageDigestNonCanonical img)
                        else if \<not> list_all is_lower_hex encoded then Some (ImageInvalidDigest img)
                        else None)
           else
             let lastColon = last_index img CHR '':''
             in if \<not> (lastColon > lastSlash \<and> lastColon < int (length img) - 1) then Some (ImageUnpinned img)
                else if lastColon = 0 then Some (ImageNameRequired img)
                else
                  let tag = drop (nat (lastColon + 1)) img
                  in if equal_fold tag ''latest'' then Some (ImageLatest img)
                     else if \<not> validImageTag tag then Some (ImageInvalidTag img)
                     else None)"

datatype resource_error =
    CacheRootInvalid path_error
  | CacheRootIsFilesystemRoot
  | DownloaderImageInvalid image_error
  | DownloaderResourceMissing string
  | DownloaderResourceNotPositive string
  | DownloaderResourceExceedsLimit string
  | RuntimeModelPathInvalid path_error
  | RuntimeModelPathIsFilesystemRoot
  | DeploymentRequired
  | RuntimeRequired
  | DeploymentNameRequired
  | RuntimeNameInvalid "string list"
  | DeploymentLabelInvalid "string list"
  | CacheNameRequired
  | CacheJobNameInvalid "string list"
  | CacheLabelInvalid "string list"
  | RuntimePortOutOfRange int
  | RuntimeProtocolRequired
  | RuntimeProtocolUnsupported string
  | CachePlacementIncomplete
  | ActiveWithoutCache
  | MinReplicasNegative
  | MaxBelowMinReplicas
  | ActiveWithoutReplicas
  | CacheHostPathInvalid path_error
  | RuntimeImageRequired
  | RuntimePathNotRooted string
  | GPUCountTooSmall
  | GPUResourceNameInvalid "string list"
  | ResourceQuantityInvalid string string
  | ResourceQuantityNotPositive string string
  | EnvironmentManaged string
  | EnvironmentNameInvalid string
  | DrainTimeoutInvalid duration_error
  | DrainTimeoutNotPositive
  | DrainTimeoutTooLarge
  | NodeSelectorConflictsWithCache string string
  | PDBMinAvailableNegative
  | PDBMinAvailableTooLarge int int

record 'q Builder =
  blCacheRoot :: string
  blCacheDownloaderImage :: string
  blDownloaderRequests :: "(string \<times> 'q) list"
  blDownloaderLimits :: "(string \<times> 'q) list"
  blRuntimeModelPath :: string

record 'q BuilderOptions =
  boCacheRoot :: string
  boCacheDownloaderImage :: string
  boRequests :: "(string \<times> 'q) list"
  boLimits :: "(string \<times> 'q) list"
  boRuntimeModelPath :: string

definition checkDownloaderResource ::
  "'q quantity_ops \<Rightarrow> (string \<times> 'q) list \<Rightarrow> (string \<times> 'q) list \<Rightarrow> string \<Rightarrow> resource_error option" where
  "checkDownloaderResource Q requests limits name =
     (case (map_of requests name, map_of limits name) of
        (Some request, Some limit) \<Rightarrow>
          if qSign Q request \<le> 0 \<or> qSign Q limit \<le> 0 then Some (DownloaderResourceNotPositive name)
          else if qCmp Q request limit > 0 then Some (DownloaderResourceExceedsLimit name)
          else None
      | _ \<Rightarrow> Some (DownloaderResourceMissing name))"

text \<open>\<open>resource.MustParse\<close> of the four default amounts, which panics when a default does not parse.\<close>

definition mustParse :: "'q quantity_ops \<Rightarrow> string \<Rightarrow> 'q" where
  "mustParse Q s = the (qParse Q s)"

definition validatedCacheDownloaderResources ::
  "'q quantity_ops \<Rightarrow> (string \<times> 'q) list \<Rightarrow> (string \<times> 'q) list \<Rightarrow>
   (resource_error, (string \<times> 'q) list \<times> (string \<times> 'q) list) result" where
  "validatedCacheDownloaderResources Q requests limits =
     (if requests = [] \<and> limits = [] then
        Inr ([(ResourceCPU, mustParse Q ''100m''), (ResourceMemory, mustParse Q ''256Mi'')],
             [(ResourceCPU, mustParse Q ''1''), (ResourceMemory, mustParse Q ''1Gi'')])
      else (case checkDownloaderResource Q requests limits ResourceCPU of
              Some err \<Rightarrow> Inl err
            | None \<Rightarrow>
                (case checkDownloaderResource Q requests limits ResourceMemory of
                   Some err \<Rightarrow> Inl err
                 | None \<Rightarrow> Inr (requests, limits))))"

definition NewBuilder :: "'q quantity_ops \<Rightarrow> 'q BuilderOptions \<Rightarrow> (resource_error, 'q Builder) result" where
  "NewBuilder Q options =
     (case CleanAbsolutePath (boCacheRoot options) ''cache root'' of
        Inl err \<Rightarrow> Inl (CacheRootInvalid err)
      | Inr cacheRoot \<Rightarrow>
          if cacheRoot = ''/'' then Inl CacheRootIsFilesystemRoot
          else (case ValidatePinnedImage (boCacheDownloaderImage options) of
                  Some err \<Rightarrow> Inl (DownloaderImageInvalid err)
                | None \<Rightarrow>
                    bind_result (validatedCacheDownloaderResources Q (boRequests options) (boLimits options))
                      (\<lambda>(requests, limits).
                         let modelPath = (if boRuntimeModelPath options = [] then RuntimeModelMountPath
                                          else boRuntimeModelPath options)
                         in case CleanAbsolutePath modelPath ''runtime model path'' of
                              Inl err \<Rightarrow> Inl (RuntimeModelPathInvalid err)
                            | Inr runtimeModelPath \<Rightarrow>
                                if runtimeModelPath = ''/'' then Inl RuntimeModelPathIsFilesystemRoot
                                else Inr \<lparr>blCacheRoot = cacheRoot,
                                          blCacheDownloaderImage = boCacheDownloaderImage options,
                                          blDownloaderRequests = requests, blDownloaderLimits = limits,
                                          blRuntimeModelPath = runtimeModelPath\<rparr>)))"

definition builderValidateCachePath :: "'q Builder \<Rightarrow> string \<Rightarrow> path_error option" where
  "builderValidateCachePath b cachePath =
     (case CleanAbsolutePath cachePath ''cache path'' of
        Inl err \<Rightarrow> Some err
      | Inr cleanPath \<Rightarrow> UnderRoot cleanPath (blCacheRoot b) ''cache path'')"

definition validateModelDeploymentName :: "name_checks \<Rightarrow> string \<Rightarrow> resource_error option" where
  "validateModelDeploymentName N name =
     (if name = [] then Some DeploymentNameRequired
      else if vIsDNS1035Label N (RuntimeServiceName name) \<noteq> []
        then Some (RuntimeNameInvalid (vIsDNS1035Label N (RuntimeServiceName name)))
      else if vIsValidLabelValue N name \<noteq> [] then Some (DeploymentLabelInvalid (vIsValidLabelValue N name))
      else None)"

definition validateModelCacheName :: "name_checks \<Rightarrow> string \<Rightarrow> resource_error option" where
  "validateModelCacheName N name =
     (let jobName = name @ CacheDownloaderJobSuffix
      in if name = [] then Some CacheNameRequired
         else if vIsDNS1123Subdomain N jobName \<noteq> [] then Some (CacheJobNameInvalid (vIsDNS1123Subdomain N jobName))
         else if vIsValidLabelValue N name \<noteq> [] then Some (CacheLabelInvalid (vIsValidLabelValue N name))
         else None)"

section \<open>service.go and configmap.go\<close>

definition effectivePort :: "ModelRuntime \<Rightarrow> int" where
  "effectivePort runtime = (if rePort (mrSpec runtime) = 0 then RuntimeHTTPPort else rePort (mrSpec runtime))"

definition BuildRuntimeService ::
  "name_checks \<Rightarrow> ModelDeployment \<Rightarrow> ModelRuntime \<Rightarrow> (resource_error, Service) result" where
  "BuildRuntimeService N md runtime =
     (case validateModelDeploymentName N (mdName md) of
        Some err \<Rightarrow> Inl err
      | None \<Rightarrow>
          let port = effectivePort runtime
          in if port < 1 \<or> port > 65535 then Inl (RuntimePortOutOfRange port)
             else Inr \<lparr>svMeta = renderedMeta (RuntimeServiceName (mdName md)) (mdNamespace md) (BaseLabels (mdName md)) []
                                  [OwnerReferenceForModelDeployment md],
                       svType = ServiceTypeClusterIP, svClusterIP = [], svSelector = SelectorLabels (mdName md),
                       svPorts = [\<lparr>spName = HTTPPortName, spProtocol = ProtocolTCP, spPort = port,
                                   spTargetPort = StrVal HTTPPortName\<rparr>]\<rparr>)"

definition BuildRuntimeConfigMap ::
  "name_checks \<Rightarrow> ModelDeployment \<Rightarrow> ModelRuntime \<Rightarrow> (resource_error, ConfigMap) result" where
  "BuildRuntimeConfigMap N md runtime =
     (case validateModelDeploymentName N (mdName md) of
        Some err \<Rightarrow> Inl err
      | None \<Rightarrow>
          let spec = mdSpec md;
              labels = AList.update LabelComponent ''runtime-config'' (BaseLabels (mdName md));
              routePath = (if roPath (dsRouting spec) = [] then GatewayModelPath (mdName md) else roPath (dsRouting spec));
              data = [(''model.repo'', msRepo (dsModel spec)), (''model.revision'', msRevision (dsModel spec)),
                      (''runtime.ref'', rsRef (dsRuntime spec)), (''runtime.engine'', reEngine (mrSpec runtime)),
                      (''runtime.protocol'', reProtocol (mrSpec runtime)),
                      (''service.name'', RuntimeServiceName (mdName md)), (''route.path'', routePath)];
              data1 = (if msName (dsModel spec) \<noteq> [] then AList.update ''model.name'' (msName (dsModel spec)) data else data);
              data2 = (if csPath (dsCache spec) \<noteq> [] then AList.update ''cache.path'' (csPath (dsCache spec)) data1 else data1)
          in Inr \<lparr>cmMeta = renderedMeta (mdName md @ ''-runtime-config'') (mdNamespace md) labels []
                             [OwnerReferenceForModelDeployment md],
                   cmData = data2\<rparr>)"

section \<open>deployment.go\<close>

definition defaultDrainTimeout :: duration where
  [const_defs]: "defaultDrainTimeout = 300000000000"

definition shutdownGraceBuffer :: duration where
  [const_defs]: "shutdownGraceBuffer = 30000000000"

definition runtimeProgressDeadlineSeconds :: int where
  [const_defs]: "runtimeProgressDeadlineSeconds = 600"

definition effectiveRolloutStrategy :: "ModelDeployment \<Rightarrow> RolloutStrategy" where
  "effectiveRolloutStrategy md =
     (if roStrategy (dsRollout (mdSpec md)) = RolloutStrategyUnset then RolloutStrategyRecreate
      else roStrategy (dsRollout (mdSpec md)))"

definition rolloutStrategyString :: "RolloutStrategy \<Rightarrow> string" where
  "rolloutStrategyString s =
     (case s of
        RolloutStrategyUnset \<Rightarrow> []
      | RolloutStrategyRecreate \<Rightarrow> ''Recreate''
      | RolloutStrategyRolling \<Rightarrow> ''Rolling''
      | RolloutStrategyBlueGreen \<Rightarrow> ''BlueGreen''
      | RolloutStrategyCanary \<Rightarrow> ''Canary''
      | RolloutStrategyOther other \<Rightarrow> other)"

definition runtimeDeploymentStrategy :: "ModelDeployment \<Rightarrow> DeploymentStrategy" where
  "runtimeDeploymentStrategy md =
     (let strategy = effectiveRolloutStrategy md
      in if strategy = RolloutStrategyRecreate then \<lparr>dgType = RecreateDeploymentStrategyType, dgRollingUpdate = None\<rparr>
         else \<lparr>dgType = RollingUpdateDeploymentStrategyType,
               dgRollingUpdate = Some (IntVal 0, if strategy = RolloutStrategyBlueGreen then StrVal ''100%'' else IntVal 1)\<rparr>)"

definition podDisruptionBudgetEnabled :: "ModelDeployment \<Rightarrow> bool" where
  "podDisruptionBudgetEnabled md \<longleftrightarrow> pbEnabled (avPodDisruptionBudget (dsAvailability (mdSpec md))) \<noteq> Some False"

definition runtimeReplicas :: "ModelDeployment \<Rightarrow> int" where
  "runtimeReplicas md =
     (let wanted = (if stDesiredReplicas (dtScaling (mdStatus md)) > 0 then stDesiredReplicas (dtScaling (mdStatus md))
                    else scMinReplicas (dsScaling (mdSpec md)));
          replicas = (if wanted < 1 then 1 else wanted);
          maxReplicas = (if scMaxReplicas (dsScaling (mdSpec md)) < 1 then 1 else scMaxReplicas (dsScaling (mdSpec md)))
      in if replicas > maxReplicas then maxReplicas else replicas)"

definition BuildRuntimePodDisruptionBudget ::
  "name_checks \<Rightarrow> ModelDeployment \<Rightarrow> (resource_error, PodDisruptionBudget option) result" where
  "BuildRuntimePodDisruptionBudget N md =
     (case validateModelDeploymentName N (mdName md) of
        Some err \<Rightarrow> Inl err
      | None \<Rightarrow>
          if \<not> podDisruptionBudgetEnabled md then Inr None
          else
            let replicas = runtimeReplicas md;
                budget = (\<lambda>minAvailable.
                  Inr (Some \<lparr>bgMeta = renderedMeta (RuntimeServiceName (mdName md)) (mdNamespace md)
                                        (BaseLabels (mdName md)) [] [OwnerReferenceForModelDeployment md],
                             bgMinAvailable = Some (IntVal minAvailable), bgSelector = SelectorLabels (mdName md),
                             bgUnhealthyPodEvictionPolicy = Some ''AlwaysAllow''\<rparr>))
            in (case pbMinAvailable (avPodDisruptionBudget (dsAvailability (mdSpec md))) of
                  Some configured \<Rightarrow>
                    if configured < 0 then Inl PDBMinAvailableNegative
                    else if configured > replicas then Inl (PDBMinAvailableTooLarge configured replicas)
                    else budget configured
                | None \<Rightarrow> budget (if wrap32 (replicas - 1) < 1 then 1 else wrap32 (replicas - 1))))"

definition buildTolerations :: "Toleration list \<Rightarrow> Toleration list" where
  "buildTolerations input =
     map (\<lambda>t. if toOperator t = [] then t\<lparr>toOperator := TolerationOpEqual\<rparr> else t) input"

definition buildTopologySpreadConstraints :: "ModelDeployment \<Rightarrow> PodTopologySpreadConstraint list" where
  "buildTopologySpreadConstraints md =
     map (\<lambda>c. \<lparr>ktMaxSkew = tsMaxSkew c, ktTopologyKey = tsTopologyKey c, ktWhenUnsatisfiable = tsWhenUnsatisfiable c,
               ktMatchLabels = SelectorLabels (mdName md)\<rparr>)
       (ssTopologySpreadConstraints (dsScheduling (mdSpec md)))"

definition imagePullPolicy :: "string \<Rightarrow> string" where
  "imagePullPolicy img =
     (let imageName = (if last_index img CHR ''/'' \<ge> 0 then drop (nat (last_index img CHR ''/'' + 1)) img else img)
      in if \<not> contains_char imageName CHR ''@'' \<and>
            (\<not> contains_char imageName CHR '':'' \<or> has_suffix imageName '':latest'')
           then PullAlways else PullIfNotPresent)"

text \<open>The amount of one named resource, checked; empty when it is not given.\<close>

definition checkedQuantity ::
  "'q quantity_ops \<Rightarrow> string \<Rightarrow> string \<Rightarrow> (resource_error, (string \<times> 'q) list) result" where
  "checkedQuantity Q name value =
     (if value = [] then Inr []
      else (case qParse Q value of
              None \<Rightarrow> Inl (ResourceQuantityInvalid name value)
            | Some quantity \<Rightarrow>
                if qSign Q quantity \<le> 0 then Inl (ResourceQuantityNotPositive name value)
                else Inr [(name, quantity)]))"

definition gpuQuantity ::
  "name_checks \<Rightarrow> 'q quantity_ops \<Rightarrow> GPUResourceRequest option \<Rightarrow> (resource_error, (string \<times> 'q) list) result" where
  "gpuQuantity N Q gpu =
     (case gpu of
        None \<Rightarrow> Inr []
      | Some g \<Rightarrow>
          if grCount g < 1 then Inl GPUCountTooSmall
          else
            let vendor = (if grVendor g = [] then DefaultGPUVendor else grVendor g);
                name = vendor @ ''.com/gpu''
            in if vIsQualifiedName N name \<noteq> [] then Inl (GPUResourceNameInvalid (vIsQualifiedName N name))
               else Inr [(name, qNew Q (grCount g))])"

text \<open>Requests and limits are equal, and the three names differ.\<close>

definition buildRuntimeResources ::
  "name_checks \<Rightarrow> 'q quantity_ops \<Rightarrow> ResourceRequirements \<Rightarrow> (resource_error, (string \<times> 'q) list) result" where
  "buildRuntimeResources N Q input =
     bind_result (gpuQuantity N Q (rrGPU input)) (\<lambda>gpu.
     bind_result (checkedQuantity Q ResourceCPU (rrCPU input)) (\<lambda>cpu.
     bind_result (checkedQuantity Q ResourceMemory (rrMemory input)) (\<lambda>memory.
       Inr (gpu @ cpu @ memory))))"

text \<open>
  \<open>strconv.FormatFloat (x, 'f', -1, 64)\<close> for a positive value below \<open>2 ^ 53\<close>: the fewest decimal places that read back as the value.
\<close>

function decimal_places :: "rat \<Rightarrow> nat \<Rightarrow> nat" where
  "decimal_places x p =
     (if p \<ge> 1100 \<or> fl64 (of_int (round_even (x * 10 ^ p)) / 10 ^ p) = x then p else decimal_places x (Suc p))"
  by auto
termination by (relation "measure (\<lambda>(x, p). 1100 - p)") auto

declare decimal_places.simps [simp del]

definition format_float :: "rat \<Rightarrow> string" where
  "format_float x =
     (let p = decimal_places x 0; n = round_even (x * 10 ^ p);
          fraction = itoa (n mod 10 ^ p)
      in if p = 0 then itoa n
         else itoa (n div 10 ^ p) @ ''.'' @ replicate (p - length fraction) CHR ''0'' @ fraction)"

definition envVar :: "string \<Rightarrow> string \<Rightarrow> EnvVar" where
  "envVar name value = \<lparr>evName = name, evValue = value, evSecretKeyRef = None\<rparr>"

definition managedEnvironment :: "string list" where
  "managedEnvironment = [EnvModelRepo, EnvModelPath, EnvMaxModelLen, EnvTensorParallelSize, EnvGPUMemoryUtilization,
     EnvModelDType, EnvPort]"

definition isManagedRuntimeEnvironment :: "string \<Rightarrow> bool" where
  "isManagedRuntimeEnvironment name \<longleftrightarrow> name \<in> set managedEnvironment"

text \<open>The first name the loop over the runtime's environment rejects.\<close>

definition environmentError :: "name_checks \<Rightarrow> string list \<Rightarrow> resource_error option" where
  "environmentError N names =
     (case List.find (\<lambda>name. isManagedRuntimeEnvironment name \<or> vIsEnvVarName N name \<noteq> []) names of
        None \<Rightarrow> None
      | Some name \<Rightarrow>
          Some (if isManagedRuntimeEnvironment name then EnvironmentManaged name else EnvironmentNameInvalid name))"

text \<open>The variables the operator manages: fixed, then those set when the field they carry is.\<close>

definition managedVariables :: "ModelDeployment \<Rightarrow> int \<Rightarrow> string \<Rightarrow> bool \<Rightarrow> EnvVar list" where
  "managedVariables md port modelPath hasCache =
     (let rs = dsRuntime (mdSpec md)
      in [envVar EnvModelRepo (msRepo (dsModel (mdSpec md))), envVar EnvPort (itoa port)] @
         (if hasCache then [envVar EnvModelPath modelPath] else []) @
         (if rsMaxModelLen rs > 0 then [envVar EnvMaxModelLen (itoa (rsMaxModelLen rs))] else []) @
         (if rsTensorParallelSize rs > 0 then [envVar EnvTensorParallelSize (itoa (rsTensorParallelSize rs))] else []) @
         (if rsGPUMemoryUtilization rs > 0
            then [envVar EnvGPUMemoryUtilization (format_float (rsGPUMemoryUtilization rs))] else []) @
         (if rsDType rs \<noteq> [] then [envVar EnvModelDType (rsDType rs)] else []))"

definition buildRuntimeEnvironment ::
  "name_checks \<Rightarrow> ModelDeployment \<Rightarrow> ModelRuntime \<Rightarrow> int \<Rightarrow> string \<Rightarrow> bool \<Rightarrow> (resource_error, EnvVar list) result" where
  "buildRuntimeEnvironment N md runtime port modelPath hasCache =
     (let names = map fst (reEnv (mrSpec runtime))
      in case environmentError N names of
           Some err \<Rightarrow> Inl err
         | None \<Rightarrow>
             Inr (managedVariables md port modelPath hasCache @
                  map (\<lambda>name. envVar name (mget (reEnv (mrSpec runtime)) name)) (sort_by (<) names)))"

text \<open>Division of durations truncates, and both are positive here.\<close>

definition terminationGracePeriod :: "string \<Rightarrow> (resource_error, int) result" where
  "terminationGracePeriod drainTimeout =
     (case (if drainTimeout = [] then Inr defaultDrainTimeout else ParseDuration drainTimeout) of
        Inl err \<Rightarrow> Inl (DrainTimeoutInvalid err)
      | Inr timeout \<Rightarrow>
          if timeout \<le> 0 then Inl DrainTimeoutNotPositive
          else if timeout > maxInt64 - shutdownGraceBuffer then Inl DrainTimeoutTooLarge
          else
            let gracePeriod = wrap64 (timeout + shutdownGraceBuffer);
                seconds = gracePeriod div 1000000000
            in Inr (if gracePeriod mod 1000000000 \<noteq> 0 then seconds + 1 else seconds))"

definition httpProbe :: "string \<Rightarrow> int \<Rightarrow> Probe" where
  "httpProbe path failureThreshold =
     \<lparr>peHTTPGetPath = path, peHTTPGetPort = StrVal HTTPPortName, peHTTPGetScheme = [],
      pePeriodSeconds = ProbePeriodSeconds, peTimeoutSeconds = ProbeTimeoutSeconds,
      peFailureThreshold = failureThreshold, peSuccessThreshold = 0\<rparr>"

definition cacheVolumeAndMount :: "'q Builder \<Rightarrow> string \<Rightarrow> bool \<Rightarrow> Volume \<times> VolumeMount" where
  "cacheVolumeAndMount b cacheHostPath readOnly =
     (\<lparr>vlName = CacheVolumeName, vlSource = HostPath cacheHostPath HostPathDirectory\<rparr>,
      \<lparr>vmName = CacheVolumeName, vmMountPath = blRuntimeModelPath b, vmReadOnly = readOnly\<rparr>)"

definition NodeAffinityForCacheNode :: "string \<Rightarrow> Affinity" where
  "NodeAffinityForCacheNode cacheNode =
     \<lparr>afRequired = (if cacheNode = [] then None
        else Some [[\<lparr>nrKey = LabelHostname, nrOperator = NodeSelectorOpIn, nrValues = [cacheNode]\<rparr>]])\<rparr>"

text \<open>The paths of the probes and of the metrics with their defaults.\<close>

definition effectiveHealthPath :: "ModelRuntime \<Rightarrow> string" where
  "effectiveHealthPath runtime =
     (if reHealthPath (mrSpec runtime) = [] then RuntimeHealthPath else reHealthPath (mrSpec runtime))"

definition effectiveReadinessPath :: "ModelRuntime \<Rightarrow> string" where
  "effectiveReadinessPath runtime =
     (if reReadinessPath (mrSpec runtime) = [] then effectiveHealthPath runtime else reReadinessPath (mrSpec runtime))"

definition effectiveMetricsPath :: "ModelRuntime \<Rightarrow> string" where
  "effectiveMetricsPath runtime =
     (if reMetricsPath (mrSpec runtime) = [] then RuntimeMetricsPath else reMetricsPath (mrSpec runtime))"

definition effectiveImage :: "ModelDeployment \<Rightarrow> ModelRuntime \<Rightarrow> string" where
  "effectiveImage md runtime =
     (if rsImage (dsRuntime (mdSpec md)) = [] then reDefaultImage (mrSpec runtime) else rsImage (dsRuntime (mdSpec md)))"

text \<open>The checks of \<open>BuildRuntimeDeployment\<close> up to the resources, in their order.\<close>

definition runtimeInputError ::
  "name_checks \<Rightarrow> 'q Builder \<Rightarrow> ModelDeployment \<Rightarrow> ModelRuntime \<Rightarrow> string \<Rightarrow> string \<Rightarrow> resource_error option" where
  "runtimeInputError N b md runtime cacheNode cacheHostPath =
     (let protocol = trim_space (reProtocol (mrSpec runtime));
          active = (asDesiredState (dsActivation (mdSpec md)) = ActivationDesiredStateActive);
          scaling = dsScaling (mdSpec md); port = effectivePort runtime
      in if protocol = [] then Some RuntimeProtocolRequired
         else if protocol \<noteq> ModelRuntimeProtocolOpenAI then Some (RuntimeProtocolUnsupported protocol)
         else (case validateModelDeploymentName N (mdName md) of
           Some err \<Rightarrow> Some err
         | None \<Rightarrow>
             if (cacheNode = []) \<noteq> (cacheHostPath = []) then Some CachePlacementIncomplete
             else if active \<and> cacheNode = [] then Some ActiveWithoutCache
             else if scMinReplicas scaling < 0 then Some MinReplicasNegative
             else if scMaxReplicas scaling < scMinReplicas scaling then Some MaxBelowMinReplicas
             else if active \<and> scMaxReplicas scaling < 1 then Some ActiveWithoutReplicas
             else (case (if cacheHostPath = [] then None else builderValidateCachePath b cacheHostPath) of
               Some err \<Rightarrow> Some (CacheHostPathInvalid err)
             | None \<Rightarrow>
                 if effectiveImage md runtime = [] then Some RuntimeImageRequired
                 else if port < 1 \<or> port > 65535 then Some (RuntimePortOutOfRange port)
                 else if \<not> has_prefix (effectiveReadinessPath runtime) ''/''
                   then Some (RuntimePathNotRooted (effectiveReadinessPath runtime))
                 else if \<not> has_prefix (effectiveHealthPath runtime) ''/''
                   then Some (RuntimePathNotRooted (effectiveHealthPath runtime))
                 else if \<not> has_prefix (effectiveMetricsPath runtime) ''/''
                   then Some (RuntimePathNotRooted (effectiveMetricsPath runtime))
                 else None)))"

definition runtimeContainer ::
  "'q Builder \<Rightarrow> ModelDeployment \<Rightarrow> ModelRuntime \<Rightarrow> string \<Rightarrow> (string \<times> 'q) list \<Rightarrow> EnvVar list \<Rightarrow> 'q Container" where
  "runtimeContainer b md runtime cacheHostPath amounts environment =
     \<lparr>ckName = RuntimeContainerName, ckImage = effectiveImage md runtime,
      ckImagePullPolicy = imagePullPolicy (effectiveImage md runtime),
      ckCommand = reCommand (mrSpec runtime), ckArgs = reArgs (mrSpec runtime),
      ckPorts = [\<lparr>cnName = HTTPPortName, cnContainerPort = effectivePort runtime, cnProtocol = ProtocolTCP\<rparr>],
      ckEnv = environment, ckRequests = amounts, ckLimits = amounts,
      ckSecurityContext = Some \<lparr>xcAllowPrivilegeEscalation = Some False, xcReadOnlyRootFilesystem = None,
        xcRunAsNonRoot = None, xcRunAsUser = None, xcRunAsGroup = None, xcCapabilitiesDrop = [''ALL''],
        xcSeccompProfile = SeccompProfileTypeRuntimeDefault\<rparr>,
      ckReadinessProbe = Some (httpProbe (effectiveReadinessPath runtime) ProbeFailureThreshold),
      ckLivenessProbe = Some (httpProbe (effectiveHealthPath runtime) ProbeFailureThreshold),
      ckStartupProbe = Some (httpProbe (effectiveReadinessPath runtime) StartupProbeFailureThreshold),
      ckTerminationMessagePath = [], ckTerminationMessagePolicy = [],
      ckVolumeMounts = (if cacheHostPath = [] then [] else [snd (cacheVolumeAndMount b cacheHostPath True)])\<rparr>"

definition rolloutAnnotations :: "ModelDeployment \<Rightarrow> string_map" where
  "rolloutAnnotations md =
     (let strategy = effectiveRolloutStrategy md
      in if strategy = RolloutStrategyRecreate then []
         else (''inferops.dev/rollout-strategy'', rolloutStrategyString strategy) #
              (case roCanaryWeightPercent (dsRollout (mdSpec md)) of
                 Some weight \<Rightarrow>
                   if strategy = RolloutStrategyCanary then [(''inferops.dev/canary-weight-percent'', itoa weight)] else []
               | None \<Rightarrow> []))"

definition runtimePodSpec ::
  "'q Builder \<Rightarrow> ModelDeployment \<Rightarrow> string \<Rightarrow> string \<Rightarrow> int \<Rightarrow> 'q Container \<Rightarrow> 'q PodSpec" where
  "runtimePodSpec b md cacheNode cacheHostPath grace container =
     \<lparr>poAutomountServiceAccountToken = Some False, poEnableServiceLinks = Some False,
      poTerminationGracePeriodSeconds = Some grace, poRestartPolicy = [], poDNSPolicy = [], poSchedulerName = [],
      poNodeSelector = ssNodeSelector (dsScheduling (mdSpec md)),
      poAffinity = (if cacheNode = [] then None else Some (NodeAffinityForCacheNode cacheNode)),
      poTolerations = buildTolerations (ssTolerations (dsScheduling (mdSpec md))),
      poTopologySpreadConstraints = buildTopologySpreadConstraints md,
      poVolumes = (if cacheHostPath = [] then [] else [fst (cacheVolumeAndMount b cacheHostPath True)]),
      poContainers = [container]\<rparr>"

definition hostnameConflict :: "ModelDeployment \<Rightarrow> string \<Rightarrow> resource_error option" where
  "hostnameConflict md cacheNode =
     (case map_of (ssNodeSelector (dsScheduling (mdSpec md))) LabelHostname of
        Some hostname \<Rightarrow>
          if cacheNode \<noteq> [] \<and> hostname \<noteq> cacheNode then Some (NodeSelectorConflictsWithCache hostname cacheNode) else None
      | None \<Rightarrow> None)"

definition BuildRuntimeDeployment ::
  "name_checks \<Rightarrow> 'q quantity_ops \<Rightarrow> 'q Builder \<Rightarrow> ModelDeployment \<Rightarrow> ModelRuntime \<Rightarrow> string \<Rightarrow> string \<Rightarrow>
   (resource_error, 'q Deployment) result" where
  "BuildRuntimeDeployment N Q b md runtime cacheNode cacheHostPath =
     (case runtimeInputError N b md runtime cacheNode cacheHostPath of
        Some err \<Rightarrow> Inl err
      | None \<Rightarrow>
          bind_result (buildRuntimeResources N Q (dsResources (mdSpec md))) (\<lambda>amounts.
          bind_result (buildRuntimeEnvironment N md runtime (effectivePort runtime) (blRuntimeModelPath b)
                         (cacheHostPath \<noteq> [])) (\<lambda>environment.
          bind_result (terminationGracePeriod (asDrainTimeout (dsActivation (mdSpec md)))) (\<lambda>grace.
            case hostnameConflict md cacheNode of
              Some err \<Rightarrow> Inl err
            | None \<Rightarrow>
                Inr \<lparr>rdMeta = renderedMeta (RuntimeServiceName (mdName md)) (mdNamespace md) (BaseLabels (mdName md)) []
                                [OwnerReferenceForModelDeployment md],
                     rdSpec =
                       \<lparr>dpReplicas = Some (if asDesiredState (dsActivation (mdSpec md)) = ActivationDesiredStateActive
                                          then runtimeReplicas md else 0),
                        dpRevisionHistoryLimit = None, dpProgressDeadlineSeconds = Some runtimeProgressDeadlineSeconds,
                        dpMinReadySeconds = 0, dpStrategy = runtimeDeploymentStrategy md,
                        dpSelector = SelectorLabels (mdName md),
                        dpTemplate =
                          \<lparr>plLabels = BaseLabels (mdName md),
                           plAnnotations =
                             [(''inferops.dev/runtime-protocol'', trim_space (reProtocol (mrSpec runtime))),
                              (''prometheus.io/scrape'', ''true''), (''prometheus.io/path'', effectiveMetricsPath runtime),
                              (''prometheus.io/port'', itoa (effectivePort runtime))] @ rolloutAnnotations md,
                           plSpec = runtimePodSpec b md cacheNode cacheHostPath grace
                                      (runtimeContainer b md runtime cacheHostPath amounts environment)\<rparr>\<rparr>,
                     rdStatus = \<lparr>dvObservedGeneration = 0, dvReadyReplicas = 0, dvAvailableReplicas = 0,
                                 dvConditions = []\<rparr>\<rparr>))))"

section \<open>Facts about the rendered objects\<close>

text \<open>A label selector selects a set of labels.\<close>

definition labels_selected :: "string_map \<Rightarrow> string_map \<Rightarrow> bool" where
  "labels_selected selector labels \<longleftrightarrow> list_all (\<lambda>(k, v). map_of labels k = Some v) selector"

lemma base_labels_selected: "labels_selected (SelectorLabels name) (BaseLabels name)"
  by (simp add: labels_selected_def SelectorLabels_def BaseLabels_def const_defs)

lemma runtimeReplicas_bounds:
  "1 \<le> runtimeReplicas md"
  "1 \<le> scMaxReplicas (dsScaling (mdSpec md)) \<Longrightarrow> runtimeReplicas md \<le> scMaxReplicas (dsScaling (mdSpec md))"
  by (auto simp: runtimeReplicas_def Let_def)

lemma terminationGracePeriod_Inr:
  assumes "terminationGracePeriod s = Inr g"
  obtains t where "(if s = [] then Inr defaultDrainTimeout else ParseDuration s) = Inr t" "0 < t"
    "t \<le> maxInt64 - shutdownGraceBuffer"
    "t + shutdownGraceBuffer \<le> g * 1000000000" "g * 1000000000 < t + shutdownGraceBuffer + 1000000000"
proof -
  obtain t where t: "(if s = [] then Inr defaultDrainTimeout else ParseDuration s) = Inr t" "0 < t"
      "t \<le> maxInt64 - shutdownGraceBuffer"
    using assms by (auto simp: terminationGracePeriod_def split: sum.splits if_splits)
  have w: "wrap64 (t + shutdownGraceBuffer) = t + shutdownGraceBuffer"
    using t by (intro wrap64_nonneg) (auto simp: shutdownGraceBuffer_def)
  define x where "x = t + shutdownGraceBuffer"
  have g: "g = (if x mod 1000000000 \<noteq> 0 then x div 1000000000 + 1 else x div 1000000000)"
    using assms t unfolding terminationGracePeriod_def by (auto simp: w x_def Let_def)
  define M where "M = (1000000000 :: int)"
  obtain q r where qr: "x div M = q" "x mod M = r" by blast
  have "x = q * M + r" using div_mult_mod_eq [of x M] qr by simp
  moreover have "0 \<le> r" "r < M" unfolding qr(2) [symmetric] by (simp_all add: M_def)
  moreover have "g = (if r \<noteq> 0 then q + 1 else q)" using g qr by (simp add: M_def)
  ultimately have "x \<le> g * M" "g * M < x + M" by (auto simp: distrib_right)
  then show ?thesis using that t by (simp add: x_def M_def)
qed

lemma managedVariables_names:
  "distinct (map evName (managedVariables md port modelPath hasCache))"
  "set (map evName (managedVariables md port modelPath hasCache)) \<subseteq> set managedEnvironment"
proof -
  show "distinct (map evName (managedVariables md port modelPath hasCache))"
    by (simp add: managedVariables_def Let_def envVar_def const_defs)
  show "set (map evName (managedVariables md port modelPath hasCache)) \<subseteq> set managedEnvironment"
    by (auto simp: managedVariables_def Let_def envVar_def managedEnvironment_def)
qed

lemma environment_names_distinct:
  assumes "buildRuntimeEnvironment N md runtime port modelPath hasCache = Inr env"
    and "distinct (map fst (reEnv (mrSpec runtime)))"
  shows "distinct (map evName env)"
proof -
  define names where "names = map fst (reEnv (mrSpec runtime))"
  have env: "map evName env = map evName (managedVariables md port modelPath hasCache) @ sort_by (<) names"
    and ok: "environmentError N names = None"
    using assms(1)
    by (auto simp: buildRuntimeEnvironment_def Let_def names_def comp_def envVar_def split: option.splits)
  have "\<forall>name \<in> set names. name \<notin> set managedEnvironment"
    using ok by (auto simp: environmentError_def isManagedRuntimeEnvironment_def split: option.splits)
  moreover have "distinct (sort_by (<) names)"
    using assms(2) mset_eq_imp_distinct_iff [of "sort_by (<) names" names] by (simp add: names_def)
  ultimately show ?thesis
    using managedVariables_names [of md port modelPath hasCache] unfolding env by (auto simp del: set_map map_map)
qed

lemma BuildRuntimeDeployment_InrE:
  assumes "BuildRuntimeDeployment N Q b md runtime cacheNode cacheHostPath = Inr d"
  obtains amounts env grace where "runtimeInputError N b md runtime cacheNode cacheHostPath = None"
    "buildRuntimeResources N Q (dsResources (mdSpec md)) = Inr amounts"
    "buildRuntimeEnvironment N md runtime (effectivePort runtime) (blRuntimeModelPath b) (cacheHostPath \<noteq> []) = Inr env"
    "terminationGracePeriod (asDrainTimeout (dsActivation (mdSpec md))) = Inr grace" "hostnameConflict md cacheNode = None"
    "dpReplicas (rdSpec d) = Some (if asDesiredState (dsActivation (mdSpec md)) = ActivationDesiredStateActive
                                    then runtimeReplicas md else 0)"
    "dpSelector (rdSpec d) = SelectorLabels (mdName md)" "plLabels (dpTemplate (rdSpec d)) = BaseLabels (mdName md)"
    "plSpec (dpTemplate (rdSpec d)) =
       runtimePodSpec b md cacheNode cacheHostPath grace (runtimeContainer b md runtime cacheHostPath amounts env)"
    "rdMeta d = renderedMeta (RuntimeServiceName (mdName md)) (mdNamespace md) (BaseLabels (mdName md)) []
                  [OwnerReferenceForModelDeployment md]"
  using assms unfolding BuildRuntimeDeployment_def bind_result_Inr_iff
  by (fastforce split: option.splits simp: bind_result_Inr_iff)

lemma runtimeInputError_None:
  assumes "runtimeInputError N b md runtime cacheNode cacheHostPath = None"
  shows "validateModelDeploymentName N (mdName md) = None" "(cacheNode = []) = (cacheHostPath = [])"
    "asDesiredState (dsActivation (mdSpec md)) = ActivationDesiredStateActive \<Longrightarrow>
       cacheNode \<noteq> [] \<and> 1 \<le> scMaxReplicas (dsScaling (mdSpec md))"
    "cacheHostPath \<noteq> [] \<Longrightarrow> builderValidateCachePath b cacheHostPath = None"
    "1 \<le> effectivePort runtime \<and> effectivePort runtime \<le> 65535"
    "effectiveImage md runtime \<noteq> []"
  using assms unfolding runtimeInputError_def Let_def by (auto split: if_splits option.splits)


lemma accepted_image_pull_policy:
  assumes "ValidatePinnedImage img = None"
  shows "imagePullPolicy img = PullIfNotPresent"
proof -
  define slash where "slash = last_index img CHR ''/''"
  define name where "name = drop (nat (slash + 1)) img"
  have ge: "- 1 \<le> slash" by (simp add: slash_def last_index_ge)
  have name: "imagePullPolicy img = (if \<not> contains_char name CHR ''@'' \<and>
      (\<not> contains_char name CHR '':'' \<or> has_suffix name '':latest'') then PullAlways else PullIfNotPresent)"
    using ge by (auto simp: imagePullPolicy_def name_def slash_def Let_def)
  show ?thesis
  proof (cases "last_index img CHR ''@'' > slash")
    case True
    then show ?thesis using name drop_last_index_mem ge by (simp add: name_def contains_char_def)
  next
    case False
    then have colon: "last_index img CHR '':'' > slash"
      and tag: "\<not> equal_fold (drop (nat (last_index img CHR '':'' + 1)) img) ''latest''"
      using assms by (auto simp: ValidatePinnedImage_def Let_def slash_def simp del: equal_fold.simps split: if_splits)
    have "\<not> has_suffix name '':latest''"
    proof
      assume "has_suffix name '':latest''"
      then obtain t where "name = t @ '':latest''" by (auto simp: has_suffix_iff)
      then have img: "img = (take (nat (slash + 1)) img @ t) @ CHR '':'' # ''latest''"
        unfolding name_def by (metis append_assoc append_Cons append_Nil append_take_drop_id)
      have "last_index img CHR '':'' = int (length (take (nat (slash + 1)) img @ t))"
        by (subst img, rule last_index_split) simp
      then have "drop (nat (last_index img CHR '':'' + 1)) img = ''latest''"
        by (subst img) (simp add: nat_add_distrib)
      moreover have "equal_fold ''latest'' ''latest''" by code_simp
      ultimately show False using tag by simp
    qed
    moreover have "contains_char name CHR '':''"
      using drop_last_index_mem [OF colon ge] by (simp add: name_def contains_char_def)
    ultimately show ?thesis using name by simp
  qed
qed

section \<open>Properties\<close>

text \<open>
  C30. The Deployment that is rendered for an active model selects the pods of its own template, runs between one and the
  maximal number of replicas, keeps its pods on the node that holds
  the cache (a hostname in the node selector names the same node), mounts that cache read-only from a directory that
  passed the check against the cache root, has distinct environment variables and equal requests and limits, and gives
  the pods at least thirty seconds more than the drain timeout to stop.
\<close>

theorem rendered_workload_safe:
  assumes built: "BuildRuntimeDeployment N Q b md runtime cacheNode cacheHostPath = Inr d"
    and active: "asDesiredState (dsActivation (mdSpec md)) = ActivationDesiredStateActive"
    and env: "distinct (map fst (reEnv (mrSpec runtime)))"
  shows "labels_selected (dpSelector (rdSpec d)) (plLabels (dpTemplate (rdSpec d))) \<and>
    (\<exists>n. dpReplicas (rdSpec d) = Some n \<and> 1 \<le> n \<and> n \<le> scMaxReplicas (dsScaling (mdSpec md))) \<and>
    (\<exists>container grace drain.
       poContainers (plSpec (dpTemplate (rdSpec d))) = [container] \<and>
       distinct (map evName (ckEnv container)) \<and> ckRequests container = ckLimits container \<and>
       list_all vmReadOnly (ckVolumeMounts container) \<and>
       poVolumes (plSpec (dpTemplate (rdSpec d))) =
         [\<lparr>vlName = CacheVolumeName, vlSource = HostPath cacheHostPath HostPathDirectory\<rparr>] \<and>
       builderValidateCachePath b cacheHostPath = None \<and>
       poAffinity (plSpec (dpTemplate (rdSpec d))) =
         Some \<lparr>afRequired = Some [[\<lparr>nrKey = LabelHostname, nrOperator = NodeSelectorOpIn, nrValues = [cacheNode]\<rparr>]]\<rparr> \<and>
       map_of (poNodeSelector (plSpec (dpTemplate (rdSpec d)))) LabelHostname \<in> {None, Some cacheNode} \<and>
       poTerminationGracePeriodSeconds (plSpec (dpTemplate (rdSpec d))) = Some grace \<and>
       (if asDrainTimeout (dsActivation (mdSpec md)) = [] then Inr defaultDrainTimeout
        else ParseDuration (asDrainTimeout (dsActivation (mdSpec md)))) = Inr drain \<and>
       drain + 30 * 1000000000 \<le> grace * 1000000000)"
proof -
  from built obtain amounts env' grace where ok: "runtimeInputError N b md runtime cacheNode cacheHostPath = None"
    and e: "buildRuntimeEnvironment N md runtime (effectivePort runtime) (blRuntimeModelPath b) (cacheHostPath \<noteq> []) = Inr env'"
    and g: "terminationGracePeriod (asDrainTimeout (dsActivation (mdSpec md))) = Inr grace"
    and h: "hostnameConflict md cacheNode = None"
    and r: "dpReplicas (rdSpec d) = Some (runtimeReplicas md)"
    and sel: "dpSelector (rdSpec d) = SelectorLabels (mdName md)" "plLabels (dpTemplate (rdSpec d)) = BaseLabels (mdName md)"
    and spec: "plSpec (dpTemplate (rdSpec d)) =
       runtimePodSpec b md cacheNode cacheHostPath grace (runtimeContainer b md runtime cacheHostPath amounts env')"
    by (rule BuildRuntimeDeployment_InrE) (simp add: active)
  note in_ok = runtimeInputError_None [OF ok]
  from g obtain drain where drain: "(if asDrainTimeout (dsActivation (mdSpec md)) = [] then Inr defaultDrainTimeout
        else ParseDuration (asDrainTimeout (dsActivation (mdSpec md)))) = Inr drain"
      "drain + shutdownGraceBuffer \<le> grace * 1000000000"
    by (rule terminationGracePeriod_Inr)
  have node: "cacheNode \<noteq> []" "cacheHostPath \<noteq> []" "1 \<le> scMaxReplicas (dsScaling (mdSpec md))"
    using in_ok(2,3) active by auto
  have host: "map_of (ssNodeSelector (dsScheduling (mdSpec md))) LabelHostname \<in> {None, Some cacheNode}"
    using h node by (auto simp: hostnameConflict_def split: option.splits if_splits)
  show ?thesis
    using environment_names_distinct [OF e env] in_ok(4) [OF node(2)] runtimeReplicas_bounds [of md] drain host node
    by (simp add: sel base_labels_selected r spec runtimePodSpec_def runtimeContainer_def cacheVolumeAndMount_def
        NodeAffinityForCacheNode_def shutdownGraceBuffer_def)
qed

definition sampleRuntime :: ModelRuntime where
  "sampleRuntime =
     \<lparr>mrMeta = sampleMeta ''vllm'',
      mrSpec = \<lparr>reEngine = ''vllm'', reProtocol = ''openai'', reDefaultImage = ''vllm/vllm-openai:v0.6.0'', rePort = 8000,
        reHealthPath = ''/health'', reReadinessPath = [], reMetricsPath = [], reCommand = [], reArgs = [''--seed'', ''1''],
        reEnv = [(''HF_HOME'', ''/tmp''), (''DEBUG'', ''1'')]\<rparr>,
      mrStatus = \<lparr>ruObservedGeneration = 1, ruPhase = ModelRuntimePhaseReady, ruConditions = []\<rparr>\<rparr>"

definition sampleBuilder :: "int Builder" where
  "sampleBuilder =
     \<lparr>blCacheRoot = ''/cache'', blCacheDownloaderImage = ''inferops/downloader:v1'',
      blDownloaderRequests = [(ResourceCPU, 1), (ResourceMemory, 1)],
      blDownloaderLimits = [(ResourceCPU, 2), (ResourceMemory, 2)], blRuntimeModelPath = ''/models/model''\<rparr>"

lemma sample_build_steps:
  "runtimeInputError lax_checks sampleBuilder (sampleDeployment ''m'') sampleRuntime ''a'' ''/cache/model'' = None"
  "buildRuntimeResources lax_checks whole_quantity (dsResources (mdSpec (sampleDeployment ''m''))) =
     Inr [(''nvidia.com/gpu'', 1), (''cpu'', 4), (''memory'', 16)]"
  "environmentError lax_checks (map fst (reEnv (mrSpec sampleRuntime))) = None"
  "terminationGracePeriod (asDrainTimeout (dsActivation (mdSpec (sampleDeployment ''m'')))) = Inr 330"
  "hostnameConflict (sampleDeployment ''m'') ''a'' = None"
  "asDesiredState (dsActivation (mdSpec (sampleDeployment ''m''))) = ActivationDesiredStateActive"
  "distinct (map fst (reEnv (mrSpec sampleRuntime)))"
  by code_simp+

lemma sample_build:
  obtains d where
    "BuildRuntimeDeployment lax_checks whole_quantity sampleBuilder (sampleDeployment ''m'') sampleRuntime ''a'' ''/cache/model'' =
       Inr d"
  using sample_build_steps by (simp add: BuildRuntimeDeployment_def buildRuntimeEnvironment_def)

theorem rendered_workload_safe_witness:
  "\<exists>d. BuildRuntimeDeployment lax_checks whole_quantity sampleBuilder (sampleDeployment ''m'') sampleRuntime ''a'' ''/cache/model'' =
         Inr d \<and> labels_selected (dpSelector (rdSpec d)) (plLabels (dpTemplate (rdSpec d)))"
  by (rule sample_build) (use rendered_workload_safe sample_build_steps(6,7) in blast)

end
