(* ===== verification/Validation.thy ===== *)
theory Validation
  imports Resources
begin

text \<open>
  \<open>operator/internal/validation\<close> and \<open>operator/internal/admission\<close>: the static checks on the three custom resources, the
  checks that need the operator's configuration, and the admission handler around them. A Go map is iterated in an
  unspecified order, so which of several errors is reported is the choice of the list that stands for the map; whether an
  object is accepted does not depend on it. The name checks \<open>N\<close>, quantities \<open>Q\<close> and the decoder are parameters.
\<close>

section \<open>Errors\<close>

text \<open>The messages of the sources, by their form; the first argument is the field they name.\<close>

datatype validation_error =
    FieldRequired string
  | FieldBadName string "string list"
  | FieldUnsupported string string
  | FieldInvalid string string
  | FieldImage string image_error
  | FieldDuration string duration_error
  | FieldPath string path_error
  | FieldRoute string route_error
  | FieldNotPositive string
  | FieldNegative string
  | FieldTooSmall string int
  | FieldExceeds string int int
  | FieldNotRooted string
  | FieldNotEmpty string
  | FieldRepeated string string
  | FieldRequires string string
  | MaxBelowMin

text \<open>The first error of a sequence of checks.\<close>

fun first_error :: "'e option list \<Rightarrow> 'e option" where
  "first_error [] = None"
| "first_error (None # checks) = first_error checks"
| "first_error (Some e # checks) = Some e"

lemma first_error_None [simp]: "first_error checks = None \<longleftrightarrow> (\<forall>c \<in> set checks. c = None)"
  by (induction checks rule: first_error.induct) auto

definition require :: "bool \<Rightarrow> 'e \<Rightarrow> 'e option" where
  [go_defs]: "require ok e = (if ok then None else Some e)"

lemma require_None [simp]: "require ok e = None \<longleftrightarrow> ok"
  by (simp add: require_def)

text \<open>A check of \<open>util/validation\<close>: no messages is a pass.\<close>

definition noMessages :: "string list \<Rightarrow> (string list \<Rightarrow> 'e) \<Rightarrow> 'e option" where
  [go_defs]: "noMessages messages e = (if messages = [] then None else Some (e messages))"

lemma noMessages_None [simp]: "noMessages messages e = None \<longleftrightarrow> messages = []"
  by (simp add: noMessages_def)

section \<open>Parts\<close>

definition validatePositiveQuantity :: "'q quantity_ops \<Rightarrow> string \<Rightarrow> string \<Rightarrow> validation_error option" where
  "validatePositiveQuantity Q value field =
     (if value = [] then None
      else (case qParse Q value of
              None \<Rightarrow> Some (FieldInvalid field value)
            | Some quantity \<Rightarrow> if qSign Q quantity \<le> 0 then Some (FieldNotPositive field) else None))"

definition validateDuration :: "string \<Rightarrow> string \<Rightarrow> validation_error option" where
  "validateDuration value field =
     (if value = [] then None
      else (case ParseDuration value of
              Inl err \<Rightarrow> Some (FieldDuration field err)
            | Inr d \<Rightarrow> if d \<le> 0 then Some (FieldNotPositive field) else None))"

definition validateRollout :: "RolloutSpec \<Rightarrow> validation_error option" where
  "validateRollout rollout =
     first_error
       [case roStrategy rollout of
          RolloutStrategyOther other \<Rightarrow> Some (FieldInvalid ''spec.rollout.strategy'' other) | _ \<Rightarrow> None,
        case roWhenCapacityUnavailable rollout of
          RolloutWhenCapacityUnavailableOther other \<Rightarrow>
            Some (FieldInvalid ''spec.rollout.whenCapacityUnavailable'' other)
        | _ \<Rightarrow> None,
        case roCanaryWeightPercent rollout of
          None \<Rightarrow> None
        | Some weight \<Rightarrow>
            if weight < 1 \<or> weight > 99 then Some (FieldInvalid ''spec.rollout.canaryWeightPercent'' (itoa weight))
            else require (roStrategy rollout = RolloutStrategyCanary)
                   (FieldRequires ''spec.rollout.canaryWeightPercent'' ''Canary'')]"

text \<open>One entry of the selector map.\<close>

definition selectorEntryError :: "name_checks \<Rightarrow> string \<Rightarrow> string \<times> string \<Rightarrow> validation_error option" where
  "selectorEntryError N fieldPrefix entry =
     (case entry of (key, value) \<Rightarrow>
        first_error [noMessages (vIsQualifiedName N key) (FieldBadName (fieldPrefix @ ''.nodeSelector key'')),
                     noMessages (vIsValidLabelValue N value) (FieldBadName (fieldPrefix @ ''.nodeSelector value''))])"

definition tolerationError :: "name_checks \<Rightarrow> string \<Rightarrow> nat \<Rightarrow> Toleration \<Rightarrow> validation_error option" where
  "tolerationError N fieldPrefix i t =
     (let operator = (if toOperator t = [] then TolerationOpEqual else toOperator t);
          field = (\<lambda>part. fieldPrefix @ ''.tolerations['' @ itoa (int i) @ '']'' @ part)
      in first_error
           [if toKey t = [] then None else noMessages (vIsQualifiedName N (toKey t)) (FieldBadName (field ''.key'')),
            if operator = TolerationOpEqual then require (toKey t \<noteq> []) (FieldRequired (field ''.key''))
            else if operator = TolerationOpExists then require (toValue t = []) (FieldNotEmpty (field ''.value''))
            else Some (FieldInvalid (field ''.operator'') (toOperator t)),
            if toValue t = [] then None
            else noMessages (vIsValidLabelValue N (toValue t)) (FieldBadName (field ''.value'')),
            require (toEffect t \<in> {[], TaintEffectNoSchedule, TaintEffectPreferNoSchedule, TaintEffectNoExecute})
              (FieldInvalid (field ''.effect'') (toEffect t)),
            case toTolerationSeconds t of
              None \<Rightarrow> None
            | Some seconds \<Rightarrow>
                if seconds < 0 then Some (FieldNegative (field ''.tolerationSeconds''))
                else require (toEffect t = TaintEffectNoExecute) (FieldRequires (field ''.tolerationSeconds'') TaintEffectNoExecute)])"

definition validateNodeScheduling ::
  "name_checks \<Rightarrow> string_map \<Rightarrow> Toleration list \<Rightarrow> string \<Rightarrow> validation_error option" where
  "validateNodeScheduling N nodeSelector tolerations fieldPrefix =
     first_error (map (selectorEntryError N fieldPrefix) nodeSelector @
                  map (\<lambda>(i, t). tolerationError N fieldPrefix i t) (enumerate 0 tolerations))"

definition spreadField :: "nat \<Rightarrow> string \<Rightarrow> string" where
  "spreadField i part = ''spec.scheduling.topologySpreadConstraints['' @ itoa (int i) @ '']'' @ part"

text \<open>The loop over the spread constraints, with the topology keys seen so far.\<close>

fun spreadConstraintsError ::
  "name_checks \<Rightarrow> nat \<Rightarrow> string list \<Rightarrow> TopologySpreadConstraint list \<Rightarrow> validation_error option" where
  "spreadConstraintsError N i seen [] = None"
| "spreadConstraintsError N i seen (c # cs) =
     (if tsMaxSkew c < 1 then Some (FieldTooSmall (spreadField i ''.maxSkew'') 1)
      else if vIsQualifiedName N (tsTopologyKey c) \<noteq> []
        then Some (FieldBadName (spreadField i ''.topologyKey'') (vIsQualifiedName N (tsTopologyKey c)))
      else if tsTopologyKey c \<in> set seen then Some (FieldRepeated (spreadField i ''.topologyKey'') (tsTopologyKey c))
      else if tsWhenUnsatisfiable c \<notin> {''DoNotSchedule'', ''ScheduleAnyway''}
        then Some (FieldInvalid (spreadField i ''.whenUnsatisfiable'') (tsWhenUnsatisfiable c))
      else spreadConstraintsError N (Suc i) (tsTopologyKey c # seen) cs)"

definition validateScheduling :: "name_checks \<Rightarrow> SchedulingSpec \<Rightarrow> validation_error option" where
  "validateScheduling N scheduling =
     (case validateNodeScheduling N (ssNodeSelector scheduling) (ssTolerations scheduling) ''spec.scheduling'' of
        Some err \<Rightarrow> Some err
      | None \<Rightarrow> spreadConstraintsError N 0 [] (ssTopologySpreadConstraints scheduling))"

definition validateAvailability :: "ModelDeployment \<Rightarrow> validation_error option" where
  "validateAvailability deployment =
     (case pbMinAvailable (avPodDisruptionBudget (dsAvailability (mdSpec deployment))) of
        None \<Rightarrow> None
      | Some minAvailable \<Rightarrow>
          let min' = scMinReplicas (dsScaling (mdSpec deployment)); replicas = (if min' < 1 then 1 else min')
          in if minAvailable < 0 then Some (FieldNegative ''spec.availability.podDisruptionBudget.minAvailable'')
             else if minAvailable > replicas then Some (FieldExceeds ''spec.availability.podDisruptionBudget.minAvailable'' minAvailable replicas)
             else None)"

section \<open>The three resources\<close>

text \<open>Compute and GPU: a model without a GPU needs both amounts and no GPU setting.\<close>

definition gpuError :: "name_checks \<Rightarrow> ModelDeploymentSpec \<Rightarrow> validation_error option" where
  "gpuError N spec =
     (case rrGPU (dsResources spec) of
        None \<Rightarrow>
          first_error [require (rrCPU (dsResources spec) \<noteq> []) (FieldRequired ''spec.resources.cpu''),
                       require (rrMemory (dsResources spec) \<noteq> []) (FieldRequired ''spec.resources.memory''),
                       require (rsTensorParallelSize (dsRuntime spec) = 0) (FieldRequires ''spec.runtime.tensorParallelSize'' ''spec.resources.gpu''),
                       require (rsGPUMemoryUtilization (dsRuntime spec) = 0) (FieldRequires ''spec.runtime.gpuMemoryUtilization'' ''spec.resources.gpu'')]
      | Some gpu \<Rightarrow>
          let vendor = (if grVendor gpu = [] then DefaultGPUVendor else grVendor gpu)
          in first_error [require (grCount gpu \<ge> 1) (FieldTooSmall ''spec.resources.gpu.count'' 1),
                          noMessages (vIsQualifiedName N (vendor @ ''.com/gpu'')) (FieldBadName ''spec.resources.gpu.vendor''),
                          require (rsTensorParallelSize (dsRuntime spec) \<le> grCount gpu)
                            (FieldExceeds ''spec.runtime.tensorParallelSize'' (rsTensorParallelSize (dsRuntime spec)) (grCount gpu))])"

definition ValidateModelDeployment ::
  "name_checks \<Rightarrow> 'q quantity_ops \<Rightarrow> ModelDeployment \<Rightarrow> validation_error option" where
  "ValidateModelDeployment N Q deployment =
     (let spec = mdSpec deployment; name = mdName deployment
      in first_error
           [require (name \<noteq> []) (FieldRequired ''metadata.name''),
            noMessages (vIsDNS1035Label N (RuntimeServiceName name)) (FieldBadName ''runtime resource name''),
            noMessages (vIsValidLabelValue N name) (FieldBadName ''metadata.name''),
            require (msRepo (dsModel spec) \<noteq> []) (FieldRequired ''spec.model.repo''),
            require (msSource (dsModel spec) \<in> {[], ''huggingface''}) (FieldUnsupported ''spec.model.source'' (msSource (dsModel spec))),
            require (rsRef (dsRuntime spec) \<noteq> []) (FieldRequired ''spec.runtime.ref''),
            noMessages (vIsDNS1123Subdomain N (rsRef (dsRuntime spec))) (FieldBadName ''spec.runtime.ref''),
            if rsImage (dsRuntime spec) = [] then None
            else map_option (FieldImage ''spec.runtime.image'') (ValidatePinnedImage (rsImage (dsRuntime spec))),
            validatePositiveQuantity Q (rrCPU (dsResources spec)) ''spec.resources.cpu'',
            validatePositiveQuantity Q (rrMemory (dsResources spec)) ''spec.resources.memory'',
            gpuError N spec,
            case asDesiredState (dsActivation spec) of
              ActivationDesiredStateOther other \<Rightarrow> Some (FieldInvalid ''spec.activation.desiredState'' other) | _ \<Rightarrow> None,
            case asWhenFull (dsActivation spec) of
              ActivationWhenFullOther other \<Rightarrow> Some (FieldInvalid ''spec.activation.whenFull'' other) | _ \<Rightarrow> None,
            validateDuration (asDrainTimeout (dsActivation spec)) ''spec.activation.drainTimeout'',
            require (scMinReplicas (dsScaling spec) \<ge> 0) (FieldNegative ''spec.scaling.minReplicas''),
            require (scMaxReplicas (dsScaling spec) \<ge> scMinReplicas (dsScaling spec)) MaxBelowMin,
            require (scTargetPendingRequests (dsScaling spec) \<ge> 0) (FieldNegative ''spec.scaling.targetPendingRequests''),
            validateDuration (scIdleTimeout (dsScaling spec)) ''spec.scaling.idleTimeout'',
            require (\<not> (asDesiredState (dsActivation spec) = ActivationDesiredStateActive \<and>
                        scMaxReplicas (dsScaling spec) < 1)) (FieldTooSmall ''spec.scaling.maxReplicas'' 1),
            require (csType (dsCache spec) \<in> {[], ''nodeLocal''}) (FieldUnsupported ''spec.cache.type'' (csType (dsCache spec))),
            validatePositiveQuantity Q (csSize (dsCache spec)) ''spec.cache.size'',
            if roPath (dsRouting spec) = [] then None
            else (case Normalize (roPath (dsRouting spec)) of Inl err \<Rightarrow> Some (FieldRoute ''spec.routing.path'' err) | Inr _ \<Rightarrow> None),
            validateScheduling N (dsScheduling spec),
            validateAvailability deployment,
            validateRollout (dsRollout spec)])"

definition ValidateModelRuntime :: "name_checks \<Rightarrow> ModelRuntime \<Rightarrow> validation_error option" where
  "ValidateModelRuntime N runtime =
     (let spec = mrSpec runtime
      in first_error
           ([require (omName (mrMeta runtime) \<noteq> []) (FieldRequired ''metadata.name''),
             require (reEngine spec \<noteq> []) (FieldRequired ''spec.engine''),
             require (reProtocol spec \<noteq> []) (FieldRequired ''spec.protocol''),
             require (reProtocol spec = ModelRuntimeProtocolOpenAI) (FieldUnsupported ''spec.protocol'' (reProtocol spec)),
             require (reDefaultImage spec \<noteq> []) (FieldRequired ''spec.defaultImage''),
             map_option (FieldImage ''spec.defaultImage'') (ValidatePinnedImage (reDefaultImage spec)),
             require (\<not> (rePort spec < 1 \<or> rePort spec > 65535)) (FieldInvalid ''spec.port'' (itoa (rePort spec))),
             require (reHealthPath spec \<noteq> []) (FieldRequired ''spec.healthPath'')] @
            map (\<lambda>(field, path). require (path = [] \<or> has_prefix path ''/'') (FieldNotRooted field))
              [(''spec.healthPath'', reHealthPath spec), (''spec.readinessPath'', reReadinessPath spec),
               (''spec.metricsPath'', reMetricsPath spec)] @
            map (\<lambda>(name, _). noMessages (vIsEnvVarName N name) (FieldBadName ''spec.env'')) (reEnv spec)))"

definition ValidateModelCache :: "name_checks \<Rightarrow> 'q quantity_ops \<Rightarrow> ModelCache \<Rightarrow> validation_error option" where
  "ValidateModelCache N Q cache =
     (let spec = mcSpec cache; storage = cpStorage spec
      in first_error
           [require (mcName cache \<noteq> []) (FieldRequired ''metadata.name''),
            require (cpModelRepo spec \<noteq> []) (FieldRequired ''spec.modelRepo''),
            require (cgType storage = ''nodeLocal'') (FieldUnsupported ''spec.storage.type'' (cgType storage)),
            require (cgSize storage \<noteq> []) (FieldRequired ''spec.storage.size''),
            validatePositiveQuantity Q (cgSize storage) ''spec.storage.size'',
            require (cgPath storage \<noteq> []) (FieldRequired ''spec.storage.path''),
            (case CleanAbsolutePath (cgPath storage) ''spec.storage.path'' of
               Inl err \<Rightarrow> Some (FieldPath ''spec.storage.path'' err) | Inr _ \<Rightarrow> None),
            validateNodeScheduling N (cgNodeSelector storage) (cgTolerations storage) ''spec.storage'',
            if cpSecretRef spec = [] then None
            else noMessages (vIsDNS1123Subdomain N (cpSecretRef spec)) (FieldBadName ''spec.secretRef'')])"

section \<open>Checks that need the configuration\<close>

datatype reconcile_detail =
    DrainTimeoutUnparsable string duration_error
  | DrainTimeoutNonPositive
  | CachePathRejected path_error
  | SecretNameRejected string "string list"

record ValidationError =
  veReason :: string
  veMessage :: reconcile_detail

record ReconciliationValidator =
  rvCacheRoot :: string

definition NewReconciliationValidator :: "string \<Rightarrow> (resource_error, ReconciliationValidator) result" where
  "NewReconciliationValidator cacheRoot =
     (case CleanAbsolutePath cacheRoot ''cache root'' of
        Inl err \<Rightarrow> Inl (CacheRootInvalid err)
      | Inr cleanRoot \<Rightarrow>
          if cleanRoot = ''/'' then Inl CacheRootIsFilesystemRoot else Inr \<lparr>rvCacheRoot = cleanRoot\<rparr>)"

definition validateDrainTimeout :: "string \<Rightarrow> ValidationError option" where
  "validateDrainTimeout drainTimeout =
     (if drainTimeout = [] then None
      else (case ParseDuration drainTimeout of
              Inl err \<Rightarrow> Some \<lparr>veReason = ReasonInvalidDrainTimeout, veMessage = DrainTimeoutUnparsable drainTimeout err\<rparr>
            | Inr parsed \<Rightarrow>
                if parsed \<le> 0 then Some \<lparr>veReason = ReasonInvalidDrainTimeout, veMessage = DrainTimeoutNonPositive\<rparr>
                else None))"

definition validateCachePath :: "ReconciliationValidator \<Rightarrow> string \<Rightarrow> ValidationError option" where
  "validateCachePath v cachePath =
     (if cachePath = [] then None
      else (case CleanAbsolutePath cachePath ''spec.cache.path'' of
              Inl err \<Rightarrow> Some \<lparr>veReason = ReasonInvalidCachePath, veMessage = CachePathRejected err\<rparr>
            | Inr cleanPath \<Rightarrow>
                (case UnderRoot cleanPath (rvCacheRoot v) ''spec.cache.path'' of
                   Some err \<Rightarrow> Some \<lparr>veReason = ReasonInvalidCachePath, veMessage = CachePathRejected err\<rparr>
                 | None \<Rightarrow> None)))"

definition validateSecrets :: "name_checks \<Rightarrow> ModelDeployment \<Rightarrow> ValidationError option" where
  "validateSecrets N deployment =
     (let secretName = srHuggingFaceTokenSecretName (dsSecrets (mdSpec deployment))
      in if msSource (dsModel (mdSpec deployment)) \<noteq> ''huggingface'' then None
         else if secretName = [] then None
         else if vIsDNS1123Subdomain N secretName \<noteq> []
           then Some \<lparr>veReason = ReasonSecretRequired,
                      veMessage = SecretNameRejected secretName (vIsDNS1123Subdomain N secretName)\<rparr>
         else None)"

definition ValidateForReconciliation ::
  "name_checks \<Rightarrow> ReconciliationValidator \<Rightarrow> ModelDeployment \<Rightarrow> ValidationError option" where
  "ValidateForReconciliation N v deployment =
     first_error [validateDrainTimeout (asDrainTimeout (dsActivation (mdSpec deployment))),
                  validateCachePath v (csPath (dsCache (mdSpec deployment))), validateSecrets N deployment]"

section \<open>Admission\<close>

datatype Operation =
    Create
  | Update
  | Delete
  | OtherOperation string

datatype ('d, 'e) Response =
    Allowed string
  | DeniedOperation string
  | Denied 'e
  | ErroredNotConfigured
  | ErroredDecode 'd

text \<open>
  A handler with its decoder, which is outside the repository, and its validator; \<open>None\<close> is a handler with a missing
  part. The decoder yields an object of the handler's own type.
\<close>

type_synonym ('r, 'd, 'o, 'e) validationHandler = "(('r \<Rightarrow> 'd + 'o) \<times> ('o \<Rightarrow> 'e option)) option"

definition Handle :: "('r, 'd, 'o, 'e) validationHandler \<Rightarrow> Operation \<Rightarrow> 'r \<Rightarrow> ('d, 'e) Response" where
  "Handle h operation request =
     (case operation of
        Delete \<Rightarrow> Allowed ''deletion does not require spec validation''
      | OtherOperation other \<Rightarrow> DeniedOperation other
      | _ \<Rightarrow>
          (case h of
             None \<Rightarrow> ErroredNotConfigured
           | Some (decode, validate) \<Rightarrow>
               (case decode request of
                  Inl err \<Rightarrow> ErroredDecode err
                | Inr obj \<Rightarrow>
                    (case validate obj of
                       Some err \<Rightarrow> Denied err
                     | None \<Rightarrow> Allowed ''InferOps resource passed admission validation''))))"

definition newModelDeploymentHandler ::
  "name_checks \<Rightarrow> 'q quantity_ops \<Rightarrow> ('r \<Rightarrow> 'd + ModelDeployment) \<Rightarrow> ('r, 'd, ModelDeployment, validation_error) validationHandler" where
  "newModelDeploymentHandler N Q decoder = Some (decoder, ValidateModelDeployment N Q)"

definition newModelRuntimeHandler ::
  "name_checks \<Rightarrow> ('r \<Rightarrow> 'd + ModelRuntime) \<Rightarrow> ('r, 'd, ModelRuntime, validation_error) validationHandler" where
  "newModelRuntimeHandler N decoder = Some (decoder, ValidateModelRuntime N)"

definition newModelCacheHandler ::
  "name_checks \<Rightarrow> 'q quantity_ops \<Rightarrow> ('r \<Rightarrow> 'd + ModelCache) \<Rightarrow> ('r, 'd, ModelCache, validation_error) validationHandler" where
  "newModelCacheHandler N Q decoder = Some (decoder, ValidateModelCache N Q)"

section \<open>What accepted objects satisfy\<close>

lemma Handle_Allowed:
  assumes "Handle (Some (decode, validate)) operation request = Allowed m" and "operation \<noteq> Delete"
  obtains obj where "decode request = Inr obj" "validate obj = None"
  using assms by (auto simp: Handle_def split: Operation.splits sum.splits option.splits)

lemma validatePositiveQuantity_None:
  "validatePositiveQuantity Q value field = None \<Longrightarrow> \<exists>amounts. checkedQuantity Q name value = Inr amounts"
  by (auto simp: validatePositiveQuantity_def checkedQuantity_def split: option.splits if_splits)

lemma accepted_deployment:
  assumes "ValidateModelDeployment N Q md = None"
  shows "validateModelDeploymentName N (mdName md) = None"
    "rsImage (dsRuntime (mdSpec md)) = [] \<or> ValidatePinnedImage (rsImage (dsRuntime (mdSpec md))) = None"
    "validatePositiveQuantity Q (rrCPU (dsResources (mdSpec md))) ''spec.resources.cpu'' = None"
    "validatePositiveQuantity Q (rrMemory (dsResources (mdSpec md))) ''spec.resources.memory'' = None"
    "gpuError N (mdSpec md) = None"
    "validateDuration (asDrainTimeout (dsActivation (mdSpec md))) ''spec.activation.drainTimeout'' = None"
    "0 \<le> scMinReplicas (dsScaling (mdSpec md))"
    "scMinReplicas (dsScaling (mdSpec md)) \<le> scMaxReplicas (dsScaling (mdSpec md))"
    "asDesiredState (dsActivation (mdSpec md)) = ActivationDesiredStateActive \<Longrightarrow> 1 \<le> scMaxReplicas (dsScaling (mdSpec md))"
    "validateAvailability md = None"
  using assms by (auto simp: ValidateModelDeployment_def Let_def validateModelDeploymentName_def split: if_splits)

lemma accepted_runtime:
  assumes "ValidateModelRuntime N runtime = None"
  shows "trim_space (reProtocol (mrSpec runtime)) = ModelRuntimeProtocolOpenAI"
    "ValidatePinnedImage (reDefaultImage (mrSpec runtime)) = None" "reDefaultImage (mrSpec runtime) \<noteq> []"
    "1 \<le> rePort (mrSpec runtime)" "rePort (mrSpec runtime) \<le> 65535"
    "has_prefix (effectiveHealthPath runtime) ''/''" "has_prefix (effectiveReadinessPath runtime) ''/''"
    "has_prefix (effectiveMetricsPath runtime) ''/''"
    "\<forall>name \<in> set (map fst (reEnv (mrSpec runtime))). vIsEnvVarName N name = []"
proof -
  have "trim_space ModelRuntimeProtocolOpenAI = ModelRuntimeProtocolOpenAI" by code_simp
  then show "trim_space (reProtocol (mrSpec runtime)) = ModelRuntimeProtocolOpenAI"
    using assms by (auto simp: ValidateModelRuntime_def Let_def)
  have "has_prefix RuntimeHealthPath ''/''" "has_prefix RuntimeMetricsPath ''/''" by code_simp+
  then show "has_prefix (effectiveHealthPath runtime) ''/''" "has_prefix (effectiveReadinessPath runtime) ''/''"
    "has_prefix (effectiveMetricsPath runtime) ''/''"
    using assms
    by (auto simp: ValidateModelRuntime_def Let_def effectiveHealthPath_def effectiveReadinessPath_def effectiveMetricsPath_def)
qed (use assms in \<open>auto simp: ValidateModelRuntime_def Let_def\<close>)

lemma accepted_resources:
  assumes "ValidateModelDeployment N Q md = None"
  obtains amounts where "buildRuntimeResources N Q (dsResources (mdSpec md)) = Inr amounts"
proof -
  note ok = accepted_deployment [OF assms]
  have "\<exists>gpu. gpuQuantity N Q (rrGPU (dsResources (mdSpec md))) = Inr gpu"
    using ok(5) by (auto simp: gpuError_def gpuQuantity_def Let_def split: option.splits)
  with that validatePositiveQuantity_None [OF ok(3)] validatePositiveQuantity_None [OF ok(4)] show ?thesis
    unfolding buildRuntimeResources_def by (metis bind_result_simps(2))
qed

text \<open>The two defects that the static checks let through.\<close>

definition drain_timeout_fits :: "string \<Rightarrow> bool" where
  "drain_timeout_fits s \<longleftrightarrow> (case ParseDuration s of Inl _ \<Rightarrow> True | Inr t \<Rightarrow> t \<le> maxInt64 - shutdownGraceBuffer)"

definition no_managed_variable :: "ModelRuntime \<Rightarrow> bool" where
  "no_managed_variable runtime \<longleftrightarrow> list_all (\<lambda>name. \<not> isManagedRuntimeEnvironment name) (map fst (reEnv (mrSpec runtime)))"

lemma accepted_grace_period:
  assumes "validateDuration s field = None"
  shows "(\<exists>grace. terminationGracePeriod s = Inr grace) \<longleftrightarrow> drain_timeout_fits s"
proof (cases "s = []")
  case True
  have "drain_timeout_fits []" by (simp add: drain_timeout_fits_def ParseDuration_def)
  then show ?thesis using True by (simp add: terminationGracePeriod_def const_defs maxInt64_def Let_def)
next
  case False
  with assms obtain t where "ParseDuration s = Inr t" "0 < t"
    by (auto simp: validateDuration_def split: sum.splits if_splits)
  then show ?thesis using False by (simp add: terminationGracePeriod_def drain_timeout_fits_def Let_def)
qed

lemma accepted_environment:
  assumes "ValidateModelRuntime N runtime = None"
  shows "(\<exists>env. buildRuntimeEnvironment N md runtime port modelPath hasCache = Inr env) \<longleftrightarrow> no_managed_variable runtime"
proof -
  have "environmentError N (map fst (reEnv (mrSpec runtime))) = None \<longleftrightarrow> no_managed_variable runtime"
    using accepted_runtime(9) [OF assms]
    by (auto simp: environmentError_def no_managed_variable_def list_all_iff simp del: set_map split: option.splits
        dest: find_eq_Some_memD)
  then show ?thesis by (auto simp: buildRuntimeEnvironment_def Let_def split: option.splits)
qed

lemma accepted_inputs:
  assumes md: "ValidateModelDeployment N Q md = None" and rt: "ValidateModelRuntime N runtime = None"
    and cache: "cacheNode \<noteq> []" "cacheHostPath \<noteq> []" "builderValidateCachePath b cacheHostPath = None"
  shows "runtimeInputError N b md runtime cacheNode cacheHostPath = None"
  using accepted_deployment(1,7,8,9) [OF md] accepted_runtime [OF rt] cache
  by (auto simp: runtimeInputError_def Let_def effectivePort_def effectiveImage_def const_defs)

lemma accepted_pull_policy:
  assumes md: "ValidateModelDeployment N Q md = None" and rt: "ValidateModelRuntime N runtime = None"
  shows "imagePullPolicy (effectiveImage md runtime) = PullIfNotPresent"
  using accepted_deployment(2) [OF md] accepted_runtime(2) [OF rt] accepted_image_pull_policy
  by (auto simp: effectiveImage_def)


section \<open>Properties\<close>

text \<open>
  C31. For a deployment and a runtime that the admission webhooks admit, and a cache directory that passes the builder's
  check, rendering the runtime's Deployment succeeds exactly when the runtime sets no variable that the operator manages, the
  drain timeout leaves room for the shutdown buffer, and no hostname in the node selector contradicts the cache's node;
  the Service and the ConfigMap always render, and a rendered container never pulls its image again. The first two
  conditions are not checked at admission.
\<close>

theorem admitted_objects_render:
  assumes "Handle (newModelDeploymentHandler N Q decodeDeployment) op1 request1 = Allowed m1" "op1 \<noteq> Delete"
    and "Handle (newModelRuntimeHandler N decodeRuntime) op2 request2 = Allowed m2" "op2 \<noteq> Delete"
    and "decodeDeployment request1 = Inr md" "decodeRuntime request2 = Inr runtime"
    and "cacheNode \<noteq> []" "cacheHostPath \<noteq> []" "builderValidateCachePath b cacheHostPath = None"
  shows "(\<exists>d. BuildRuntimeDeployment N Q b md runtime cacheNode cacheHostPath = Inr d) =
      (no_managed_variable runtime \<and> drain_timeout_fits (asDrainTimeout (dsActivation (mdSpec md))) \<and>
       hostnameConflict md cacheNode = None) \<and>
    (\<exists>s. BuildRuntimeService N md runtime = Inr s) \<and> (\<exists>c. BuildRuntimeConfigMap N md runtime = Inr c) \<and>
    imagePullPolicy (effectiveImage md runtime) = PullIfNotPresent"
proof -
  have md: "ValidateModelDeployment N Q md = None"
    using assms(1,2,5) unfolding newModelDeploymentHandler_def by (auto elim: Handle_Allowed)
  have rt: "ValidateModelRuntime N runtime = None"
    using assms(3,4,6) unfolding newModelRuntimeHandler_def by (auto elim: Handle_Allowed)
  obtain amounts where amounts: "buildRuntimeResources N Q (dsResources (mdSpec md)) = Inr amounts"
    using md by (rule accepted_resources)
  have "(\<exists>d. BuildRuntimeDeployment N Q b md runtime cacheNode cacheHostPath = Inr d) \<longleftrightarrow>
      (\<exists>env. buildRuntimeEnvironment N md runtime (effectivePort runtime) (blRuntimeModelPath b) (cacheHostPath \<noteq> []) = Inr env) \<and>
      (\<exists>grace. terminationGracePeriod (asDrainTimeout (dsActivation (mdSpec md))) = Inr grace) \<and>
      hostnameConflict md cacheNode = None"
    using accepted_inputs [OF md rt assms(7-9)] amounts
    by (auto simp: BuildRuntimeDeployment_def bind_result_Inr_iff split: option.splits)
  then show ?thesis
    using accepted_environment [OF rt] accepted_grace_period [OF accepted_deployment(6) [OF md]]
      accepted_deployment(1) [OF md] accepted_runtime(4,5) [OF rt] accepted_pull_policy [OF md rt]
    by (simp add: BuildRuntimeService_def BuildRuntimeConfigMap_def Let_def effectivePort_def)
qed

lemma sample_admitted:
  "Handle (newModelDeploymentHandler lax_checks whole_quantity (Inr :: _ \<Rightarrow> string + _)) Create (sampleDeployment ''m'') =
     Allowed ''InferOps resource passed admission validation''"
  "Handle (newModelRuntimeHandler lax_checks (Inr :: _ \<Rightarrow> string + _)) Create sampleRuntime =
     Allowed ''InferOps resource passed admission validation''"
  "builderValidateCachePath sampleBuilder ''/cache/model'' = None"
  "no_managed_variable sampleRuntime" "drain_timeout_fits (asDrainTimeout (dsActivation (mdSpec (sampleDeployment ''m''))))"
  "hostnameConflict (sampleDeployment ''m'') ''a'' = None"
  by code_simp+

theorem admitted_objects_render_witness:
  "\<exists>d. BuildRuntimeDeployment lax_checks whole_quantity sampleBuilder (sampleDeployment ''m'') sampleRuntime ''a'' ''/cache/model'' = Inr d"
  using admitted_objects_render [OF sample_admitted(1) _ sample_admitted(2) _ _ _ _ _ sample_admitted(3)] sample_admitted
  by simp

end
