(* ===== verification/Runtime_Resolver.thy ===== *)
theory Runtime_Resolver
  imports Validation
begin

text \<open>
  \<open>operator/internal/runtime\<close>: the effective runtime of a deployment, with the defaults of the referenced ModelRuntime
  applied. What the getter returns is an argument.
\<close>

section \<open>Resolved runtimes\<close>

record ResolvedSpec =
  vsEngine :: string
  vsProtocol :: string
  vsImage :: string
  vsPort :: int
  vsHealthPath :: string
  vsReadinessPath :: string
  vsMetricsPath :: string
  vsCommand :: "string list"
  vsArgs :: "string list"
  vsEnv :: string_map

record ResolvedRuntime =
  rzSpec :: ResolvedSpec

definition resolvedImage :: "ResolvedRuntime \<Rightarrow> string" where
  "resolvedImage r = vsImage (rzSpec r)"

definition resolvedPort :: "ResolvedRuntime \<Rightarrow> int" where
  "resolvedPort r = (if vsPort (rzSpec r) \<noteq> 0 then vsPort (rzSpec r) else RuntimeHTTPPort)"

definition resolvedHealthPath :: "ResolvedRuntime \<Rightarrow> string" where
  "resolvedHealthPath r = (if vsHealthPath (rzSpec r) \<noteq> [] then vsHealthPath (rzSpec r) else RuntimeHealthPath)"

definition resolvedReadinessPath :: "ResolvedRuntime \<Rightarrow> string" where
  "resolvedReadinessPath r =
     (if vsReadinessPath (rzSpec r) \<noteq> [] then vsReadinessPath (rzSpec r) else resolvedHealthPath r)"

definition resolvedMetricsPath :: "ResolvedRuntime \<Rightarrow> string" where
  "resolvedMetricsPath r = (if vsMetricsPath (rzSpec r) \<noteq> [] then vsMetricsPath (rzSpec r) else RuntimeMetricsPath)"

section \<open>Resolution\<close>

datatype runtime_config_error =
    RuntimeEngineRequired
  | ConfigProtocolRequired
  | ConfigProtocolUnsupported string
  | ConfigImageRequired
  | ConfigImageInvalid image_error
  | ConfigPortOutOfRange int
  | ConfigPathNotRooted string
  | TensorParallelRequiresGPU
  | MemoryUtilizationRequiresGPU
  | TensorParallelExceedsGPUs int int

definition gpuSettingsError :: "ModelDeployment \<Rightarrow> runtime_config_error option" where
  "gpuSettingsError deployment =
     (let rs = dsRuntime (mdSpec deployment);
          withoutGPU = (if rsTensorParallelSize rs \<noteq> 0 then Some TensorParallelRequiresGPU
                        else if rsGPUMemoryUtilization rs \<noteq> 0 then Some MemoryUtilizationRequiresGPU
                        else None)
      in case rrGPU (dsResources (mdSpec deployment)) of
           None \<Rightarrow> withoutGPU
         | Some gpu \<Rightarrow>
             if grCount gpu = 0 then withoutGPU
             else if rsTensorParallelSize rs > grCount gpu
               then Some (TensorParallelExceedsGPUs (rsTensorParallelSize rs) (grCount gpu))
             else None)"

definition resolveAgainstRuntime ::
  "ModelDeployment \<Rightarrow> ModelRuntime \<Rightarrow> (runtime_config_error, ResolvedRuntime) result" where
  "resolveAgainstRuntime deployment runtime =
     (let spec = mrSpec runtime; img = effectiveImage deployment runtime; port = effectivePort runtime;
          healthPath = effectiveHealthPath runtime; readinessPath = effectiveReadinessPath runtime;
          metricsPath = effectiveMetricsPath runtime
      in if reEngine spec = [] then Inl RuntimeEngineRequired
         else if reProtocol spec = [] then Inl ConfigProtocolRequired
         else if reProtocol spec \<noteq> ModelRuntimeProtocolOpenAI then Inl (ConfigProtocolUnsupported (reProtocol spec))
         else if img = [] then Inl ConfigImageRequired
         else (case ValidatePinnedImage img of
           Some err \<Rightarrow> Inl (ConfigImageInvalid err)
         | None \<Rightarrow>
             if port < 1 \<or> port > 65535 then Inl (ConfigPortOutOfRange port)
             else if \<not> has_prefix healthPath ''/'' then Inl (ConfigPathNotRooted healthPath)
             else if \<not> has_prefix readinessPath ''/'' then Inl (ConfigPathNotRooted readinessPath)
             else if \<not> has_prefix metricsPath ''/'' then Inl (ConfigPathNotRooted metricsPath)
             else (case gpuSettingsError deployment of
               Some err \<Rightarrow> Inl err
             | None \<Rightarrow>
                 Inr \<lparr>rzSpec = \<lparr>vsEngine = reEngine spec, vsProtocol = reProtocol spec, vsImage = img, vsPort = port,
                   vsHealthPath = healthPath, vsReadinessPath = readinessPath, vsMetricsPath = metricsPath,
                   vsCommand = reCommand spec, vsArgs = reArgs spec, vsEnv = reEnv spec\<rparr>\<rparr>)))"

datatype resolve_error =
    ContextDone
  | ResolveRefRequired
  | ErrRuntimeNotFound string
  | RuntimeGetFailed string api_error
  | ErrInvalidRuntimeConfiguration string runtime_config_error

text \<open>
  \<open>cancelled\<close> is whether the context is done. The getter is asked for the deployment's namespace and reference; it may
  return a nil runtime without an error.
\<close>

definition Resolve ::
  "bool \<Rightarrow> (string \<Rightarrow> string \<Rightarrow> (api_error, ModelRuntime option) result) \<Rightarrow> ModelDeployment \<Rightarrow>
   (resolve_error, ResolvedRuntime) result" where
  "Resolve cancelled getRuntime deployment =
     (let ref = rsRef (dsRuntime (mdSpec deployment))
      in if cancelled then Inl ContextDone
         else if ref = [] then Inl ResolveRefRequired
         else (case getRuntime (mdNamespace deployment) ref of
           Inl err \<Rightarrow> if err = NotFound then Inl (ErrRuntimeNotFound ref) else Inl (RuntimeGetFailed ref err)
         | Inr None \<Rightarrow> Inl (ErrRuntimeNotFound ref)
         | Inr (Some runtime) \<Rightarrow>
             (case resolveAgainstRuntime deployment runtime of
                Inl err \<Rightarrow> Inl (ErrInvalidRuntimeConfiguration (omName (mrMeta runtime)) err)
              | Inr resolved \<Rightarrow> Inr resolved)))"

text \<open>
  The runtime object that the lifecycle controller hands to the builders. Its status is never read and is the zero value.
\<close>

definition modelRuntimeFromResolved :: "ModelDeployment \<Rightarrow> ResolvedRuntime \<Rightarrow> ModelRuntime" where
  "modelRuntimeFromResolved deployment resolved =
     (let spec = rzSpec resolved
      in \<lparr>mrMeta = renderedMeta (rsRef (dsRuntime (mdSpec deployment))) (mdNamespace deployment) [] [] [],
          mrSpec = \<lparr>reEngine = vsEngine spec, reProtocol = vsProtocol spec, reDefaultImage = vsImage spec,
            rePort = vsPort spec, reHealthPath = vsHealthPath spec, reReadinessPath = vsReadinessPath spec,
            reMetricsPath = vsMetricsPath spec, reCommand = vsCommand spec, reArgs = vsArgs spec, reEnv = vsEnv spec\<rparr>,
          mrStatus = \<lparr>ruObservedGeneration = 0, ruPhase = ModelRuntimePhaseUnset, ruConditions = []\<rparr>\<rparr>)"

section \<open>Facts\<close>

lemma resolveAgainstRuntime_Inr:
  assumes "resolveAgainstRuntime deployment runtime = Inr resolved"
  shows "rzSpec resolved = \<lparr>vsEngine = reEngine (mrSpec runtime), vsProtocol = reProtocol (mrSpec runtime),
      vsImage = effectiveImage deployment runtime, vsPort = effectivePort runtime, vsHealthPath = effectiveHealthPath runtime,
      vsReadinessPath = effectiveReadinessPath runtime, vsMetricsPath = effectiveMetricsPath runtime,
      vsCommand = reCommand (mrSpec runtime), vsArgs = reArgs (mrSpec runtime), vsEnv = reEnv (mrSpec runtime)\<rparr>"
    "effectiveImage deployment runtime \<noteq> []" "1 \<le> effectivePort runtime" "effectivePort runtime \<le> 65535"
    "has_prefix (effectiveHealthPath runtime) ''/''" "has_prefix (effectiveReadinessPath runtime) ''/''"
    "has_prefix (effectiveMetricsPath runtime) ''/''" "ValidatePinnedImage (effectiveImage deployment runtime) = None"
    "reProtocol (mrSpec runtime) = ModelRuntimeProtocolOpenAI" "gpuSettingsError deployment = None"
  using assms by (auto simp: resolveAgainstRuntime_def Let_def split: if_splits option.splits)

lemma prefix_slash_nonempty: "has_prefix s ''/'' \<Longrightarrow> s \<noteq> []"
  by (auto simp: has_prefix_iff)

lemma resolved_effective:
  assumes "resolveAgainstRuntime deployment runtime = Inr resolved"
  shows "effectiveImage deployment (modelRuntimeFromResolved deployment resolved) = effectiveImage deployment runtime"
    "effectivePort (modelRuntimeFromResolved deployment resolved) = effectivePort runtime"
    "effectiveHealthPath (modelRuntimeFromResolved deployment resolved) = effectiveHealthPath runtime"
    "effectiveReadinessPath (modelRuntimeFromResolved deployment resolved) = effectiveReadinessPath runtime"
    "effectiveMetricsPath (modelRuntimeFromResolved deployment resolved) = effectiveMetricsPath runtime"
proof -
  note r = resolveAgainstRuntime_Inr [OF assms]
  note ne = r(5-7) [THEN prefix_slash_nonempty]
  define rt where "rt = modelRuntimeFromResolved deployment resolved"
  have spec: "reDefaultImage (mrSpec rt) = effectiveImage deployment runtime" "rePort (mrSpec rt) = effectivePort runtime"
    "reHealthPath (mrSpec rt) = effectiveHealthPath runtime" "reReadinessPath (mrSpec rt) = effectiveReadinessPath runtime"
    "reMetricsPath (mrSpec rt) = effectiveMetricsPath runtime"
    by (simp_all add: rt_def modelRuntimeFromResolved_def r(1) Let_def)
  show "effectiveImage deployment (modelRuntimeFromResolved deployment resolved) = effectiveImage deployment runtime"
    unfolding rt_def [symmetric] by (simp add: effectiveImage_def [of deployment rt] spec) (simp add: effectiveImage_def)
  show "effectivePort (modelRuntimeFromResolved deployment resolved) = effectivePort runtime"
    unfolding rt_def [symmetric] by (simp add: effectivePort_def [of rt] spec) (use r(3) in simp)
  show "effectiveHealthPath (modelRuntimeFromResolved deployment resolved) = effectiveHealthPath runtime"
    "effectiveReadinessPath (modelRuntimeFromResolved deployment resolved) = effectiveReadinessPath runtime"
    "effectiveMetricsPath (modelRuntimeFromResolved deployment resolved) = effectiveMetricsPath runtime"
    unfolding rt_def [symmetric]
    by (simp_all add: effectiveHealthPath_def [of rt] effectiveReadinessPath_def [of rt] effectiveMetricsPath_def [of rt] spec ne)
qed

lemma modelRuntimeFromResolved_same:
  assumes "resolveAgainstRuntime deployment runtime = Inr resolved"
  shows "reEngine (mrSpec (modelRuntimeFromResolved deployment resolved)) = reEngine (mrSpec runtime)"
    "reProtocol (mrSpec (modelRuntimeFromResolved deployment resolved)) = reProtocol (mrSpec runtime)"
    "reCommand (mrSpec (modelRuntimeFromResolved deployment resolved)) = reCommand (mrSpec runtime)"
    "reArgs (mrSpec (modelRuntimeFromResolved deployment resolved)) = reArgs (mrSpec runtime)"
    "reEnv (mrSpec (modelRuntimeFromResolved deployment resolved)) = reEnv (mrSpec runtime)"
  by (simp_all add: modelRuntimeFromResolved_def resolveAgainstRuntime_Inr(1) [OF assms] Let_def)

section \<open>Properties\<close>

text \<open>
  C32. Resolving applies the defaults once and for all: the runtime that the controller derives from a successful resolution
  renders the same Deployment, Service and ConfigMap as the referenced ModelRuntime itself, and its image is pinned and its
  port is valid.
\<close>

theorem resolved_runtime_renders_same:
  assumes "Resolve cancelled getRuntime deployment = Inr resolved"
    and "getRuntime (mdNamespace deployment) (rsRef (dsRuntime (mdSpec deployment))) = Inr (Some runtime)"
  shows "BuildRuntimeDeployment N Q b deployment (modelRuntimeFromResolved deployment resolved) node path =
           BuildRuntimeDeployment N Q b deployment runtime node path \<and>
         BuildRuntimeService N deployment (modelRuntimeFromResolved deployment resolved) =
           BuildRuntimeService N deployment runtime \<and>
         BuildRuntimeConfigMap N deployment (modelRuntimeFromResolved deployment resolved) =
           BuildRuntimeConfigMap N deployment runtime \<and>
         ValidatePinnedImage (resolvedImage resolved) = None \<and>
         1 \<le> resolvedPort resolved \<and> resolvedPort resolved \<le> 65535"
proof -
  have res: "resolveAgainstRuntime deployment runtime = Inr resolved"
    using assms by (auto simp: Resolve_def Let_def split: if_splits sum.splits)
  note same = resolved_effective [OF res] modelRuntimeFromResolved_same [OF res]
  have "BuildRuntimeDeployment N Q b deployment (modelRuntimeFromResolved deployment resolved) node path =
      BuildRuntimeDeployment N Q b deployment runtime node path"
    by (simp only: BuildRuntimeDeployment_def runtimeInputError_def buildRuntimeEnvironment_def runtimeContainer_def same)
  moreover have "BuildRuntimeService N deployment (modelRuntimeFromResolved deployment resolved) =
      BuildRuntimeService N deployment runtime"
    by (simp only: BuildRuntimeService_def same)
  moreover have "BuildRuntimeConfigMap N deployment (modelRuntimeFromResolved deployment resolved) =
      BuildRuntimeConfigMap N deployment runtime"
    by (simp only: BuildRuntimeConfigMap_def same)
  ultimately show ?thesis
    using resolveAgainstRuntime_Inr [OF res] by (simp add: resolvedImage_def resolvedPort_def)
qed

theorem resolved_runtime_renders_same_witness:
  "\<exists>resolved. Resolve False (\<lambda>namespace name. Inr (Some sampleRuntime)) (sampleDeployment ''m'') = Inr resolved \<and>
     resolvedPort resolved \<le> 65535"
proof -
  have "resolveAgainstRuntime (sampleDeployment ''m'') sampleRuntime \<noteq> Inl e" for e
    by (cases e) code_simp+
  then obtain resolved where "resolveAgainstRuntime (sampleDeployment ''m'') sampleRuntime = Inr resolved"
    by (cases "resolveAgainstRuntime (sampleDeployment ''m'') sampleRuntime") auto
  then have "Resolve False (\<lambda>namespace name. Inr (Some sampleRuntime)) (sampleDeployment ''m'') = Inr resolved"
    by (simp add: Resolve_def sampleDeployment_def)
  then show ?thesis using resolved_runtime_renders_same by blast
qed

end
