(* ===== verification/Conditions.thy ===== *)
theory Conditions
  imports Api_Types
begin

text \<open>
  \<open>operator/internal/status/conditions.go\<close>: the list of status conditions that every controller
  writes through \<open>SetCondition\<close>. The list is shown to be a map from condition types to conditions
  (the locale \<open>condition_store\<close>, interpreted below on the three operations), and the transition
  time is shown to move only when the status of the condition does.

  Every caller passes the address of a status field, so the nil pointer checks of the sources
  are not reachable; the clock that \<open>metav1.Now\<close> reads is the argument \<open>now\<close>.
\<close>

section \<open>Operations\<close>

definition conditionsEqual :: "Condition \<Rightarrow> Condition \<Rightarrow> bool" where
  "conditionsEqual a b \<longleftrightarrow>
     cType a = cType b \<and>
     cStatus a = cStatus b \<and>
     cObservedGeneration a = cObservedGeneration b \<and>
     cLastTransitionTime a = cLastTransitionTime b \<and>
     cReason a = cReason b \<and>
     cMessage a = cMessage b"

text \<open>The transition time of the condition that replaces \<open>existing\<close>.\<close>

definition stampTransition :: "time \<Rightarrow> Condition \<Rightarrow> Condition \<Rightarrow> Condition" where
  "stampTransition now existing condition =
     (if cStatus existing = cStatus condition
        then condition\<lparr>cLastTransitionTime := cLastTransitionTime existing\<rparr>
      else if cLastTransitionTime condition = 0
        then condition\<lparr>cLastTransitionTime := now\<rparr>
      else condition)"

fun setConditionLoop :: "time \<Rightarrow> Condition \<Rightarrow> Condition list \<Rightarrow> Condition list \<times> bool" where
  "setConditionLoop now condition [] =
     ([if cLastTransitionTime condition = 0 then condition\<lparr>cLastTransitionTime := now\<rparr> else condition],
      True)"
| "setConditionLoop now condition (existing # rest) =
     (if cType existing = cType condition then
        let stamped = stampTransition now existing condition
        in if conditionsEqual existing stamped then (existing # rest, False)
           else (stamped # rest, True)
      else
        let (rest', changed) = setConditionLoop now condition rest
        in (existing # rest', changed))"

definition SetCondition :: "time \<Rightarrow> Condition list \<Rightarrow> int \<Rightarrow> Condition \<Rightarrow> Condition list \<times> bool" where
  "SetCondition now conditions observedGeneration condition =
     setConditionLoop now (condition\<lparr>cObservedGeneration := observedGeneration\<rparr>) conditions"

fun FindCondition :: "Condition list \<Rightarrow> string \<Rightarrow> Condition option" where
  "FindCondition [] conditionType = None"
| "FindCondition (c # cs) conditionType =
     (if cType c = conditionType then Some c else FindCondition cs conditionType)"

definition RemoveCondition :: "Condition list \<Rightarrow> string \<Rightarrow> Condition list" where
  "RemoveCondition conditions conditionType = filter (\<lambda>c. cType c \<noteq> conditionType) conditions"

section \<open>The contract of a condition list\<close>

text \<open>
  What the controllers rely on: a condition that was set is found under its type, the other
  types are not disturbed, and removal makes exactly one type disappear.
\<close>

locale condition_store =
  fixes find_c :: "'s \<Rightarrow> string \<Rightarrow> Condition option"
    and set_c :: "'s \<Rightarrow> Condition \<Rightarrow> 's"
    and remove_c :: "'s \<Rightarrow> string \<Rightarrow> 's"
  assumes find_set_same:
      "\<exists>c'. find_c (set_c s c) (cType c) = Some c' \<and> cType c' = cType c \<and> cStatus c' = cStatus c
         \<and> cReason c' = cReason c \<and> cMessage c' = cMessage c"
    and find_set_other: "t \<noteq> cType c \<Longrightarrow> find_c (set_c s c) t = find_c s t"
    and find_remove: "find_c (remove_c s t') t = (if t = t' then None else find_c s t)"
begin

lemma find_set_status: "map_option cStatus (find_c (set_c s c) t) =
    (if t = cType c then Some (cStatus c) else map_option cStatus (find_c s t))"
  using find_set_same [of s c] find_set_other [of t c s] by auto

lemma find_fold_other:
  "(\<forall>c \<in> set cs. cType c \<noteq> t) \<Longrightarrow> find_c (foldl set_c s cs) t = find_c s t"
  by (induction cs arbitrary: s) (auto simp: find_set_other)

text \<open>After a batch of writes the last write to a type decides its status.\<close>

lemma find_fold_last:
  "(\<forall>c \<in> set cs. cType c \<noteq> t) \<Longrightarrow> cType c0 = t \<Longrightarrow>
   map_option cStatus (find_c (foldl set_c s (bs @ c0 # cs)) t) = Some (cStatus c0)"
  by (simp add: find_fold_other find_set_status)

end

section \<open>Lemmas\<close>

lemma conditionsEqual_iff: "conditionsEqual a b \<longleftrightarrow> a = b"
  by (auto simp: conditionsEqual_def)

lemma stampTransition_fields [simp]:
  "cType (stampTransition now e c) = cType c" "cStatus (stampTransition now e c) = cStatus c"
  "cObservedGeneration (stampTransition now e c) = cObservedGeneration c"
  "cReason (stampTransition now e c) = cReason c" "cMessage (stampTransition now e c) = cMessage c"
  by (simp_all add: stampTransition_def)

lemma stampTransition_idem [simp]:
  "stampTransition now' (stampTransition now e c) c = stampTransition now e c"
  by (simp add: stampTransition_def)

lemma FindCondition_eq_find: "FindCondition cs t = List.find (\<lambda>c. cType c = t) cs"
  by (induction cs) simp_all

lemma FindCondition_SomeD: "FindCondition cs t = Some c \<Longrightarrow> c \<in> set cs \<and> cType c = t"
  by (auto simp: FindCondition_eq_find dest: find_eq_Some_memD)

lemma FindCondition_setConditionLoop:
  "FindCondition (fst (setConditionLoop now c cs)) t =
   (if t = cType c then
      Some (case FindCondition cs t of
              Some e \<Rightarrow> stampTransition now e c
            | None \<Rightarrow> if cLastTransitionTime c = 0 then c\<lparr>cLastTransitionTime := now\<rparr> else c)
    else FindCondition cs t)"
  by (induction cs) (auto simp: Let_def conditionsEqual_iff split: prod.splits)

lemma types_setConditionLoop:
  "map cType (fst (setConditionLoop now c cs)) =
   (if cType c \<in> set (map cType cs) then map cType cs else map cType cs @ [cType c])"
  by (induction cs) (auto simp: Let_def split: prod.splits)

lemma changed_setConditionLoop: "\<not> snd (setConditionLoop now c cs) \<longleftrightarrow> fst (setConditionLoop now c cs) = cs"
  by (induction cs) (auto simp: Let_def conditionsEqual_iff split: prod.splits)

lemma setConditionLoop_idem:
  "snd (setConditionLoop now' c (fst (setConditionLoop now c cs))) = False"
  by (induction cs) (auto simp: Let_def conditionsEqual_iff stampTransition_def split: prod.splits)

lemma distinct_SetCondition:
  "distinct (map cType cs) \<Longrightarrow> distinct (map cType (fst (SetCondition now cs g c)))"
  by (auto simp: SetCondition_def types_setConditionLoop)

lemma FindCondition_RemoveCondition:
  "FindCondition (RemoveCondition cs t') t = (if t = t' then None else FindCondition cs t)"
  by (induction cs) (auto simp: RemoveCondition_def)

interpretation condition_list: condition_store FindCondition
  "\<lambda>cs c. fst (SetCondition now cs g c)" RemoveCondition for now g
proof
  show "\<exists>c'. FindCondition (fst (SetCondition now s g c)) (cType c) = Some c' \<and> cType c' = cType c \<and>
      cStatus c' = cStatus c \<and> cReason c' = cReason c \<and> cMessage c' = cMessage c" for s c
    by (simp add: SetCondition_def FindCondition_setConditionLoop split: option.splits)
  show "FindCondition (fst (SetCondition now s g c)) t = FindCondition s t" if "t \<noteq> cType c" for s t c
    using that by (simp add: SetCondition_def FindCondition_setConditionLoop)
qed (rule FindCondition_RemoveCondition)

section \<open>Properties\<close>

text \<open>
  C28. \<open>SetCondition\<close> behaves as a map update: the written type is found afterwards with the new
  status, reason, message and generation, every other type is found as before, types stay
  unique, the transition time is kept exactly when the status did not change,
  and the returned flag says whether the list changed; writing the same condition again reports
  no change.
\<close>

theorem SetCondition_correct:
  "(\<exists>c'. FindCondition (fst (SetCondition now cs g c)) (cType c) = Some c' \<and>
       cStatus c' = cStatus c \<and> cReason c' = cReason c \<and> cMessage c' = cMessage c \<and>
       cObservedGeneration c' = g \<and>
       cLastTransitionTime c' =
         (case FindCondition cs (cType c) of
            Some e \<Rightarrow> if cStatus e = cStatus c then cLastTransitionTime e
                      else if cLastTransitionTime c = 0 then now else cLastTransitionTime c
          | None \<Rightarrow> if cLastTransitionTime c = 0 then now else cLastTransitionTime c)) \<and>
   (\<forall>t. t = cType c \<or> FindCondition (fst (SetCondition now cs g c)) t = FindCondition cs t) \<and>
   distinct (map cType (fst (SetCondition now cs g c))) = distinct (map cType cs) \<and>
   snd (SetCondition now cs g c) = (fst (SetCondition now cs g c) \<noteq> cs) \<and>
   snd (SetCondition now' (fst (SetCondition now cs g c)) g c) = False"
proof (intro conjI)
  show "\<forall>t. t = cType c \<or> FindCondition (fst (SetCondition now cs g c)) t = FindCondition cs t"
    using condition_list.find_set_other by blast
  show "distinct (map cType (fst (SetCondition now cs g c))) = distinct (map cType cs)"
    by (auto simp: SetCondition_def types_setConditionLoop)
  show "snd (SetCondition now cs g c) = (fst (SetCondition now cs g c) \<noteq> cs)"
    unfolding SetCondition_def using changed_setConditionLoop by blast
  show "snd (SetCondition now' (fst (SetCondition now cs g c)) g c) = False"
    by (simp add: SetCondition_def setConditionLoop_idem)
qed (auto simp: SetCondition_def FindCondition_setConditionLoop stampTransition_def split: option.splits)

end
