(* ===== verification/Deployment_Validation.thy ===== *)
theory Deployment_Validation
  imports Runtime_Resolver Conditions
begin

text \<open>
  \<open>operator/controllers/modeldeployment_controller.go\<close>: the part of a reconciliation that validates a deployment, resolves its
  runtime and writes the outcome into the status. The clock is read once per reconciliation and is the argument \<open>now\<close>; events are
  returned in the order they are recorded; the texts of errors are the parameter \<open>X\<close>.
\<close>

section \<open>Texts and events\<close>

record error_texts =
  txValidation :: "validation_error \<Rightarrow> string"
  txResolve :: "resolve_error \<Rightarrow> string"
  txReconcile :: "ValidationError \<Rightarrow> string"

text \<open>\<open>strconv.Quote\<close> on ASCII text: the two delimiters and control characters are escaped, other bytes are kept.\<close>

definition hex_digit :: "nat \<Rightarrow> char" where
  "hex_digit n = ''0123456789abcdef'' ! (n mod 16)"

definition quote_char :: "char \<Rightarrow> string" where
  "quote_char c =
     (let n = of_char c :: nat; backslash = char_of (92 :: nat)
      in if n = 34 \<or> n = 92 then [backslash, c]
         else (case map_of [(7, CHR ''a''), (8, CHR ''b''), (12, CHR ''f''), (10, CHR ''n''), (13, CHR ''r''), (9, CHR ''t''),
                            (11, CHR ''v'')] n of
                 Some letter \<Rightarrow> [backslash, letter]
               | None \<Rightarrow>
                   if n < 32 \<or> n = 127 then [backslash, CHR ''x'', hex_digit (n div 16), hex_digit n] else [c]))"

definition quoted :: "string \<Rightarrow> string" where
  "quoted s = [CHR 0x22] @ concat (map quote_char s) @ [CHR 0x22]"

record Event =
  evType :: string
  evReason :: string
  evMessage :: string

definition warning :: "string \<Rightarrow> string \<Rightarrow> Event" where
  "warning reason message = \<lparr>evType = ''Warning'', evReason = reason, evMessage = message\<rparr>"

definition normal :: "string \<Rightarrow> string \<Rightarrow> Event" where
  "normal reason message = \<lparr>evType = ''Normal'', evReason = reason, evMessage = message\<rparr>"

text \<open>An event that is recorded only when a condition changed.\<close>

definition onChange :: "bool \<Rightarrow> Event \<Rightarrow> Event list" where
  "onChange changed event = (if changed then [event] else [])"

section \<open>Conditions of the status\<close>

definition newCondition :: "string \<Rightarrow> ConditionStatus \<Rightarrow> string \<Rightarrow> string \<Rightarrow> Condition" where
  "newCondition type status reason message =
     \<lparr>cType = type, cStatus = status, cObservedGeneration = 0, cLastTransitionTime = 0, cReason = reason, cMessage = message\<rparr>"

definition setStatusCondition ::
  "time \<Rightarrow> string \<Rightarrow> ConditionStatus \<Rightarrow> string \<Rightarrow> string \<Rightarrow> ModelDeploymentStatus \<Rightarrow> ModelDeploymentStatus \<times> bool" where
  "setStatusCondition now type status reason message s =
     (case SetCondition now (dtConditions s) (dtObservedGeneration s) (newCondition type status reason message) of
        (conditions, changed) \<Rightarrow> (s\<lparr>dtConditions := conditions\<rparr>, changed))"

definition validationBlocked :: "ModelDeploymentStatus \<Rightarrow> bool" where
  "validationBlocked s \<longleftrightarrow>
     dtPhase s = ModelDeploymentPhaseFailed \<and>
     list_ex (\<lambda>type. case FindCondition (dtConditions s) type of
                       Some c \<Rightarrow> cStatus c \<noteq> ConditionTrue | None \<Rightarrow> False)
       [ConditionSpecValid, ConditionRuntimeResolved, ConditionSecretsReady]"

definition setValidationFailedWithReason ::
  "time \<Rightarrow> string \<Rightarrow> string \<Rightarrow> ModelDeploymentStatus \<Rightarrow> ModelDeploymentStatus \<times> bool" where
  "setValidationFailedWithReason now reason message s =
     setStatusCondition now ConditionSpecValid ConditionFalse reason message (s\<lparr>dtPhase := ModelDeploymentPhaseFailed\<rparr>)"

definition setValidationFailed :: "time \<Rightarrow> string \<Rightarrow> ModelDeploymentStatus \<Rightarrow> ModelDeploymentStatus \<times> bool" where
  "setValidationFailed now message s = setValidationFailedWithReason now ReasonSpecInvalid message s"

definition setValidationUnknown :: "time \<Rightarrow> string \<Rightarrow> string \<Rightarrow> ModelDeploymentStatus \<Rightarrow> ModelDeploymentStatus \<times> bool" where
  "setValidationUnknown now reason message s = setStatusCondition now ConditionSpecValid ConditionUnknown reason message s"

definition setValidationPassed :: "time \<Rightarrow> ModelDeploymentStatus \<Rightarrow> ModelDeploymentStatus \<times> bool" where
  "setValidationPassed now s =
     setStatusCondition now ConditionSpecValid ConditionTrue ReasonSpecValidated ''ModelDeployment spec is valid'' s"

definition setRuntimeResolved :: "time \<Rightarrow> string \<Rightarrow> ModelDeploymentStatus \<Rightarrow> ModelDeploymentStatus \<times> bool" where
  "setRuntimeResolved now img s =
     setStatusCondition now ConditionRuntimeResolved ConditionTrue ReasonRuntimeResolved
       (''Runtime resolved with image '' @ quoted img) s"

definition setRuntimeUnresolved :: "time \<Rightarrow> string \<Rightarrow> string \<Rightarrow> ModelDeploymentStatus \<Rightarrow> ModelDeploymentStatus \<times> bool" where
  "setRuntimeUnresolved now reason message s =
     setStatusCondition now ConditionRuntimeResolved ConditionFalse reason message s"

definition setRuntimeUnknown :: "time \<Rightarrow> string \<Rightarrow> string \<Rightarrow> ModelDeploymentStatus \<Rightarrow> ModelDeploymentStatus \<times> bool" where
  "setRuntimeUnknown now reason message s =
     setStatusCondition now ConditionRuntimeResolved ConditionUnknown reason message s"

definition setSecretsReady :: "time \<Rightarrow> ModelDeploymentStatus \<Rightarrow> ModelDeploymentStatus \<times> bool" where
  "setSecretsReady now s =
     setStatusCondition now ConditionSecretsReady ConditionTrue ReasonSecretsAvailable ''Credential references are valid'' s"

definition setSecretsNotReady :: "time \<Rightarrow> string \<Rightarrow> string \<Rightarrow> ModelDeploymentStatus \<Rightarrow> ModelDeploymentStatus \<times> bool" where
  "setSecretsNotReady now reason message s = setStatusCondition now ConditionSecretsReady ConditionFalse reason message s"

definition setSecretsUnknown :: "time \<Rightarrow> string \<Rightarrow> string \<Rightarrow> ModelDeploymentStatus \<Rightarrow> ModelDeploymentStatus \<times> bool" where
  "setSecretsUnknown now reason message s = setStatusCondition now ConditionSecretsReady ConditionUnknown reason message s"

definition setReadyFalse :: "time \<Rightarrow> string \<Rightarrow> string \<Rightarrow> ModelDeploymentStatus \<Rightarrow> ModelDeploymentStatus \<times> bool" where
  "setReadyFalse now reason message s = setStatusCondition now ConditionReady ConditionFalse reason message s"

section \<open>Reconciliation\<close>

record ReconcileResult =
  rqStatus :: ModelDeploymentStatus
  rqRuntime :: ResolvedRuntime

definition zeroRuntime :: ResolvedRuntime where
  "zeroRuntime = \<lparr>rzSpec = \<lparr>vsEngine = [], vsProtocol = [], vsImage = [], vsPort = 0, vsHealthPath = [], vsReadinessPath = [],
     vsMetricsPath = [], vsCommand = [], vsArgs = [], vsEnv = []\<rparr>\<rparr>"

text \<open>The outcomes that block a deployment: a bad spec, a missing runtime, an unusable runtime, a failed check against the configuration.\<close>

definition rejectSpec :: "time \<Rightarrow> string \<Rightarrow> ModelDeploymentStatus \<Rightarrow> ReconcileResult \<times> Event list" where
  "rejectSpec now message observed =
     (let (s1, changed) = setValidationFailed now message observed;
          s2 = fst (setRuntimeUnknown now ReasonSpecInvalid ''Static validation failed before runtime resolution'' s1);
          s3 = fst (setSecretsUnknown now ReasonSpecInvalid ''Static validation failed before secret checks'' s2);
          s4 = fst (setReadyFalse now ReasonSpecInvalid message s3)
      in (\<lparr>rqStatus = s4, rqRuntime = zeroRuntime\<rparr>,
          onChange changed (warning ReasonSpecInvalid (''ModelDeployment spec is invalid: '' @ message))))"

definition rejectMissingRuntime :: "time \<Rightarrow> string \<Rightarrow> string \<Rightarrow> ModelDeploymentStatus \<Rightarrow> ReconcileResult \<times> Event list" where
  "rejectMissingRuntime now ref message observed =
     (let (s1, changed) = setRuntimeUnresolved now ReasonRuntimeNotFound message observed;
          s2 = fst (setValidationUnknown now ReasonRuntimeNotFound
                      ''Referenced runtime must exist before validation can complete'' s1);
          s3 = fst (setSecretsUnknown now ReasonRuntimeNotFound ''Runtime resolution failed before secret checks'' s2);
          s4 = fst (setReadyFalse now ReasonRuntimeNotFound message s3)
      in (\<lparr>rqStatus = s4\<lparr>dtPhase := ModelDeploymentPhaseFailed\<rparr>, rqRuntime = zeroRuntime\<rparr>,
          onChange changed (warning ReasonRuntimeNotFound
            (''Could not resolve runtime '' @ quoted ref @ '': '' @ message))))"

definition rejectRuntime :: "time \<Rightarrow> string \<Rightarrow> string \<Rightarrow> ModelDeploymentStatus \<Rightarrow> ReconcileResult \<times> Event list" where
  "rejectRuntime now ref message observed =
     (let (s1, changed) = setRuntimeUnresolved now ReasonSpecInvalid message observed;
          s2 = fst (setValidationFailed now message s1);
          s3 = fst (setSecretsUnknown now ReasonSpecInvalid ''Runtime validation failed before secret checks'' s2);
          s4 = fst (setReadyFalse now ReasonSpecInvalid message s3)
      in (\<lparr>rqStatus = s4\<lparr>dtPhase := ModelDeploymentPhaseFailed\<rparr>, rqRuntime = zeroRuntime\<rparr>,
          onChange changed (warning ReasonSpecInvalid
            (''Runtime '' @ quoted ref @ '' is incompatible with ModelDeployment: '' @ message))))"

definition rejectConfiguration ::
  "time \<Rightarrow> string \<Rightarrow> string \<Rightarrow> ModelDeploymentStatus \<Rightarrow> ReconcileResult \<times> Event list" where
  "rejectConfiguration now reason message resolvedStatus =
     (let (s1, changed) = setValidationFailedWithReason now reason message resolvedStatus;
          s2 = fst (if reason = ReasonSecretRequired then setSecretsNotReady now reason message s1 else setSecretsReady now s1);
          s3 = fst (setReadyFalse now reason message s2)
      in (\<lparr>rqStatus = s3, rqRuntime = zeroRuntime\<rparr>,
          onChange changed (warning reason (''ModelDeployment failed reconciliation validation: '' @ message))))"

text \<open>The outcome of a deployment that passes: the phase is left alone unless it is fresh or was blocked before.\<close>

definition acceptDeployment ::
  "time \<Rightarrow> ModelDeployment \<Rightarrow> bool \<Rightarrow> ResolvedRuntime \<Rightarrow> ModelDeploymentStatus \<Rightarrow> ReconcileResult \<times> Event list" where
  "acceptDeployment now deployment restart resolved resolvedStatus =
     (let (s1, passed) = setValidationPassed now resolvedStatus;
          (s2, secrets) = setSecretsReady now s1;
          secretName = srHuggingFaceTokenSecretName (dsSecrets (mdSpec deployment));
          s3 = (if dtPhase s2 = ModelDeploymentPhaseUnset \<or> restart
                then fst (setReadyFalse now ReasonSpecValidated ''Spec and runtime are valid; awaiting cache and activation''
                            (s2\<lparr>dtPhase := ModelDeploymentPhasePending\<rparr>))
                else s2)
      in (\<lparr>rqStatus = s3, rqRuntime = resolved\<rparr>,
          onChange passed (normal ReasonSpecValidated ''ModelDeployment spec is valid'') @
          onChange (secrets \<and> msSource (dsModel (mdSpec deployment)) = ''huggingface'' \<and> secretName \<noteq> [])
            (normal ReasonSecretsAvailable (''HuggingFace token secret '' @ quoted secretName @ '' is referenced''))))"

definition ReconcileDeployment ::
  "name_checks \<Rightarrow> 'q quantity_ops \<Rightarrow> error_texts \<Rightarrow> time \<Rightarrow> bool \<Rightarrow>
   (string \<Rightarrow> string \<Rightarrow> (api_error, ModelRuntime option) result) \<Rightarrow> ReconciliationValidator \<Rightarrow> ModelDeployment \<Rightarrow>
   (resolve_error, ReconcileResult \<times> Event list) result" where
  "ReconcileDeployment N Q X now cancelled getRuntime v deployment =
     (if cancelled then Inl ContextDone
      else
        let specChangedAfterFailure =
              (dtPhase (mdStatus deployment) = ModelDeploymentPhaseFailed \<and>
               omGeneration (mdMeta deployment) > dtObservedGeneration (mdStatus deployment));
            observed = (mdStatus deployment)\<lparr>dtObservedGeneration := omGeneration (mdMeta deployment)\<rparr>;
            wasValidationBlocked = validationBlocked observed;
            ref = rsRef (dsRuntime (mdSpec deployment))
        in case ValidateModelDeployment N Q deployment of
             Some err \<Rightarrow> Inr (rejectSpec now (txValidation X err) observed)
           | None \<Rightarrow>
               (case Resolve cancelled getRuntime deployment of
                  Inl (ErrRuntimeNotFound r) \<Rightarrow>
                    Inr (rejectMissingRuntime now ref (txResolve X (ErrRuntimeNotFound r)) observed)
                | Inl (ErrInvalidRuntimeConfiguration r err) \<Rightarrow>
                    Inr (rejectRuntime now ref (txResolve X (ErrInvalidRuntimeConfiguration r err)) observed)
                | Inl err \<Rightarrow> Inl err
                | Inr resolved \<Rightarrow>
                    (case setRuntimeResolved now (resolvedImage resolved) observed of
                       (resolvedStatus, changed) \<Rightarrow>
                         let resolvedEvent = onChange changed (normal ReasonRuntimeResolved
                               (''Resolved runtime '' @ quoted ref @ '' with image '' @ quoted (resolvedImage resolved)))
                         in (case ValidateForReconciliation N v deployment of
                               Some err \<Rightarrow>
                                 (case rejectConfiguration now (veReason err) (txReconcile X err) resolvedStatus of
                                    (result, events) \<Rightarrow> Inr (result, resolvedEvent @ events))
                             | None \<Rightarrow>
                                 (case acceptDeployment now deployment (wasValidationBlocked \<or> specChangedAfterFailure)
                                         resolved resolvedStatus of
                                    (result, events) \<Rightarrow> Inr (result, resolvedEvent @ events))))))"

section \<open>Facts\<close>

text \<open>The status of a condition of a deployment, if it has one.\<close>

definition conditionStatus :: "ModelDeploymentStatus \<Rightarrow> string \<Rightarrow> ConditionStatus option" where
  "conditionStatus s type = map_option cStatus (FindCondition (dtConditions s) type)"

lemma setStatusCondition_status [simp]:
  "conditionStatus (fst (setStatusCondition now type status reason message s)) t =
   (if t = type then Some status else conditionStatus s t)"
  using condition_list.find_set_status [of now "dtConditions s" "dtObservedGeneration s" "newCondition type status reason message" t]
  by (cases "t = type") (simp_all add: conditionStatus_def setStatusCondition_def newCondition_def case_prod_beta)

lemma setStatusCondition_fields [simp]:
  "dtPhase (fst (setStatusCondition now type status reason message s)) = dtPhase s"
  "dtObservedGeneration (fst (setStatusCondition now type status reason message s)) = dtObservedGeneration s"
  by (simp_all add: setStatusCondition_def split: prod.splits)

lemma conditionStatus_update [simp]:
  "conditionStatus (s\<lparr>dtPhase := phase\<rparr>) t = conditionStatus s t"
  "conditionStatus (s\<lparr>dtObservedGeneration := g\<rparr>) t = conditionStatus s t"
  by (simp_all add: conditionStatus_def)

lemmas setter_defs = setValidationFailed_def setValidationFailedWithReason_def setValidationUnknown_def setValidationPassed_def
  setRuntimeResolved_def setRuntimeUnresolved_def setRuntimeUnknown_def setSecretsReady_def setSecretsNotReady_def
  setSecretsUnknown_def setReadyFalse_def

lemma validationBlocked_iff:
  "validationBlocked s \<longleftrightarrow> dtPhase s = ModelDeploymentPhaseFailed \<and>
     (\<exists>type \<in> {ConditionSpecValid, ConditionRuntimeResolved, ConditionSecretsReady}.
        conditionStatus s type \<notin> {None, Some ConditionTrue})"
  by (auto simp: validationBlocked_def conditionStatus_def split: option.splits)

text \<open>What a status says about validation.\<close>

definition validated :: "ModelDeploymentStatus \<Rightarrow> bool" where
  "validated s \<longleftrightarrow> list_all (\<lambda>type. conditionStatus s type = Some ConditionTrue)
     [ConditionSpecValid, ConditionRuntimeResolved, ConditionSecretsReady]"

definition blocked :: "ModelDeploymentStatus \<Rightarrow> bool" where
  "blocked s \<longleftrightarrow> validationBlocked s \<and> \<not> validated s \<and> conditionStatus s ConditionReady = Some ConditionFalse"

lemma blockedI:
  assumes "dtPhase s = ModelDeploymentPhaseFailed" "conditionStatus s ConditionReady = Some ConditionFalse"
    and "conditionStatus s ConditionSpecValid \<notin> {None, Some ConditionTrue}"
  shows "blocked s"
  using assms by (auto simp: blocked_def validationBlocked_iff validated_def)

lemma reject_blocked:
  "blocked (rqStatus (fst (rejectSpec now message s)))" "blocked (rqStatus (fst (rejectMissingRuntime now ref message s)))"
  "blocked (rqStatus (fst (rejectRuntime now ref message s)))" "blocked (rqStatus (fst (rejectConfiguration now reason message s)))"
  by (rule blockedI;
      simp add: rejectSpec_def rejectMissingRuntime_def rejectRuntime_def rejectConfiguration_def setter_defs Let_def case_prod_beta
        const_defs)+

lemma reject_generation:
  "dtObservedGeneration (rqStatus (fst (rejectSpec now message s))) = dtObservedGeneration s"
  "dtObservedGeneration (rqStatus (fst (rejectMissingRuntime now ref message s))) = dtObservedGeneration s"
  "dtObservedGeneration (rqStatus (fst (rejectRuntime now ref message s))) = dtObservedGeneration s"
  "dtObservedGeneration (rqStatus (fst (rejectConfiguration now reason message s))) = dtObservedGeneration s"
  by (simp_all add: rejectSpec_def rejectMissingRuntime_def rejectRuntime_def rejectConfiguration_def setter_defs Let_def
      case_prod_beta)

lemma acceptDeployment_status:
  assumes "conditionStatus s ConditionRuntimeResolved = Some ConditionTrue"
  shows "validated (rqStatus (fst (acceptDeployment now d restart resolved s)))"
    "dtPhase (rqStatus (fst (acceptDeployment now d restart resolved s))) =
       (if dtPhase s = ModelDeploymentPhaseUnset \<or> restart then ModelDeploymentPhasePending else dtPhase s)"
    "dtObservedGeneration (rqStatus (fst (acceptDeployment now d restart resolved s))) = dtObservedGeneration s"
    "rqRuntime (fst (acceptDeployment now d restart resolved s)) = resolved"
  using assms
  by (simp_all add: validated_def acceptDeployment_def setter_defs Let_def case_prod_beta const_defs)

section \<open>Properties\<close>

text \<open>
  C34. The verdict of validation is exact. For a reconciliation that returns a status: the observed generation is the current
  one; if the spec is valid, the runtime resolves and the configuration admits the deployment, then all three validation
  conditions are true, the runtime is the resolved one and the phase changes only, to Pending, when it was unset, was blocked
  by validation or had failed for an older generation; otherwise the phase is Failed, the deployment counts as
  blocked and is not ready.
\<close>

theorem validation_verdict:
  assumes "ReconcileDeployment N Q X now cancelled getRuntime v d = Inr (result, events)"
  shows "dtObservedGeneration (rqStatus result) = omGeneration (mdMeta d) \<and>
    (if ValidateModelDeployment N Q d = None \<and> \<not> isl (Resolve cancelled getRuntime d) \<and>
        ValidateForReconciliation N v d = None
     then Resolve cancelled getRuntime d = Inr (rqRuntime result) \<and> validated (rqStatus result) \<and>
       dtPhase (rqStatus result) =
         (if dtPhase (mdStatus d) = ModelDeploymentPhaseUnset \<or> validationBlocked (mdStatus d) \<or>
             (dtPhase (mdStatus d) = ModelDeploymentPhaseFailed \<and>
              dtObservedGeneration (mdStatus d) < omGeneration (mdMeta d))
          then ModelDeploymentPhasePending else dtPhase (mdStatus d))
     else blocked (rqStatus result))"
proof -
  define s where "s = (mdStatus d)\<lparr>dtObservedGeneration := omGeneration (mdMeta d)\<rparr>"
  have same: "validationBlocked s = validationBlocked (mdStatus d)" "dtPhase s = dtPhase (mdStatus d)"
    "dtObservedGeneration s = omGeneration (mdMeta d)"
    by (simp_all add: s_def validationBlocked_def)
  have live: "\<not> cancelled" using assms by (auto simp: ReconcileDeployment_def)
  note rec = assms [unfolded ReconcileDeployment_def Let_def, folded s_def]
  show ?thesis
  proof (cases "ValidateModelDeployment N Q d")
    case (Some err)
    then show ?thesis using rec live reject_blocked(1) reject_generation(1) same(3) by (metis fst_conv option.distinct(1) option.simps(5) sum.sel(2))
  next
    case valid: None
    show ?thesis
    proof (cases "Resolve cancelled getRuntime d")
      case (Inl err)
      then show ?thesis
        using rec live valid reject_blocked(2,3) reject_generation(2,3) same(3)
        by (cases err) (auto, metis fst_conv, metis fst_conv, metis fst_conv, metis fst_conv)
    next
      case (Inr resolved)
      obtain s' changed where s': "setRuntimeResolved now (resolvedImage resolved) s = (s', changed)" by fastforce
      have sfacts: "conditionStatus s' ConditionRuntimeResolved = Some ConditionTrue" "dtPhase s' = dtPhase s"
        "dtObservedGeneration s' = dtObservedGeneration s"
        using setStatusCondition_status [of now ConditionRuntimeResolved ConditionTrue ReasonRuntimeResolved _ s ConditionRuntimeResolved]
          setStatusCondition_fields [of now ConditionRuntimeResolved ConditionTrue ReasonRuntimeResolved _ s] s'
        unfolding setRuntimeResolved_def by (metis fst_conv)+
      show ?thesis
      proof (cases "ValidateForReconciliation N v d")
        case (Some err)
        then show ?thesis
          using rec live valid Inr s' reject_blocked(4) reject_generation(4) sfacts(3) same(3)
          by (auto split: prod.splits) (metis fst_conv)+
      next
        case None
        then show ?thesis
          using rec live valid Inr s' acceptDeployment_status [OF sfacts(1)] sfacts same
          by (auto split: prod.splits) (metis fst_conv)+
      qed
    qed
  qed
qed


definition plainTexts :: error_texts where
  "plainTexts = \<lparr>txValidation = (\<lambda>_. ''invalid''), txResolve = (\<lambda>_. ''unresolved''), txReconcile = (\<lambda>_. ''rejected'')\<rparr>"

theorem validation_verdict_witness:
  "\<exists>result events. ReconcileDeployment lax_checks whole_quantity plainTexts 5 False (\<lambda>_ _. Inl NotFound) \<lparr>rvCacheRoot = ''/cache''\<rparr>
     (sampleDeployment ''m'') = Inr (result, events) \<and> blocked (rqStatus result)"
proof -
  have "ValidateModelDeployment lax_checks whole_quantity (sampleDeployment ''m'') = None" by code_simp
  moreover have missing: "Resolve False (\<lambda>_ _. Inl NotFound) (sampleDeployment ''m'') = Inl (ErrRuntimeNotFound ''vllm'')"
    by code_simp
  ultimately obtain result events where "ReconcileDeployment lax_checks whole_quantity plainTexts 5 False (\<lambda>_ _. Inl NotFound)
      \<lparr>rvCacheRoot = ''/cache''\<rparr> (sampleDeployment ''m'') = Inr (result, events)"
    by (simp add: ReconcileDeployment_def Let_def) (metis surj_pair)
  then show ?thesis using validation_verdict missing by fastforce
qed

end
