(* ===== verification/Sha256.thy ===== *)
theory Sha256
  imports Go_Strings "HOL-Library.Word"
begin

text \<open>
  \<open>crypto/sha256\<close> and \<open>encoding/hex\<close> as the sources use them: the digest of a byte string, written in lower-case
  hexadecimal. The digest is the one of FIPS 180-4: padding to whole blocks of sixteen 32-bit words, the message schedule and
  64 rounds of compression per block.
\<close>

unbundle bit_operations_syntax

type_synonym w32 = "32 word"

section \<open>Words\<close>

definition sha_rotr :: "nat \<Rightarrow> w32 \<Rightarrow> w32" where
  "sha_rotr n x = drop_bit n x OR push_bit (32 - n) x"

definition sha_ch :: "w32 \<Rightarrow> w32 \<Rightarrow> w32 \<Rightarrow> w32" where
  "sha_ch x y z = (x AND y) XOR (NOT x AND z)"

definition sha_maj :: "w32 \<Rightarrow> w32 \<Rightarrow> w32 \<Rightarrow> w32" where
  "sha_maj x y z = (x AND y) XOR (x AND z) XOR (y AND z)"

definition big0 :: "w32 \<Rightarrow> w32" where
  "big0 x = sha_rotr 2 x XOR sha_rotr 13 x XOR sha_rotr 22 x"

definition big1 :: "w32 \<Rightarrow> w32" where
  "big1 x = sha_rotr 6 x XOR sha_rotr 11 x XOR sha_rotr 25 x"

definition small0 :: "w32 \<Rightarrow> w32" where
  "small0 x = sha_rotr 7 x XOR sha_rotr 18 x XOR drop_bit 3 x"

definition small1 :: "w32 \<Rightarrow> w32" where
  "small1 x = sha_rotr 17 x XOR sha_rotr 19 x XOR drop_bit 10 x"

section \<open>Constants\<close>

definition initialHash :: "w32 list" where
  "initialHash = [1779033703, 3144134277, 1013904242, 2773480762, 1359893119, 2600822924, 528734635, 1541459225]"

definition roundConstants :: "w32 list" where
  "roundConstants =
     [1116352408, 1899447441, 3049323471, 3921009573, 961987163, 1508970993, 2453635748, 2870763221,
      3624381080, 310598401, 607225278, 1426881987, 1925078388, 2162078206, 2614888103, 3248222580,
      3835390401, 4022224774, 264347078, 604807628, 770255983, 1249150122, 1555081692, 1996064986,
      2554220882, 2821834349, 2952996808, 3210313671, 3336571891, 3584528711, 113926993, 338241895,
      666307205, 773529912, 1294757372, 1396182291, 1695183700, 1986661051, 2177026350, 2456956037,
      2730485921, 2820302411, 3259730800, 3345764771, 3516065817, 3600352804, 4094571909, 275423344,
      430227734, 506948616, 659060556, 883997877, 958139571, 1322822218, 1537002063, 1747873779,
      1955562222, 2024104815, 2227730452, 2361852424, 2428436474, 2756734187, 3204031479, 3329325298]"

section \<open>Padding\<close>

definition lengthBytes :: "nat \<Rightarrow> nat list" where
  "lengthBytes bits = map (\<lambda>i. (bits div 256 ^ (7 - i)) mod 256) [0..<8]"

definition sha_padded :: "string \<Rightarrow> nat list" where
  "sha_padded s =
     (let n = length s; zeros = (119 - n mod 64) mod 64
      in map of_char s @ [128] @ replicate zeros 0 @ lengthBytes (8 * n))"

fun be_words :: "nat list \<Rightarrow> w32 list" where
  "be_words (a # b # c # d # rest) = of_nat (((a * 256 + b) * 256 + c) * 256 + d) # be_words rest"
| "be_words _ = []"

section \<open>Compression\<close>

text \<open>The schedule is kept newest first: \<open>W t = small1 (W (t-2)) + W (t-7) + small0 (W (t-15)) + W (t-16)\<close>.\<close>

fun extendSchedule :: "nat \<Rightarrow> w32 list \<Rightarrow> w32 list" where
  "extendSchedule 0 ws = ws"
| "extendSchedule (Suc k) ws =
     extendSchedule k ((small1 (ws ! 1) + ws ! 6 + small0 (ws ! 14) + ws ! 15) # ws)"

definition sha_schedule :: "w32 list \<Rightarrow> w32 list" where
  "sha_schedule block = rev (extendSchedule 48 (rev block))"

fun roundStep :: "w32 list \<Rightarrow> w32 \<times> w32 \<Rightarrow> w32 list" where
  "roundStep [a, b, c, d, e, f, g, h] (k, w) =
     (let t1 = h + big1 e + sha_ch e f g + k + w; t2 = big0 a + sha_maj a b c
      in [t1 + t2, a, b, c, d + t1, e, f, g])"
| "roundStep state _ = state"

definition sha_compress :: "w32 list \<Rightarrow> w32 list \<Rightarrow> w32 list" where
  "sha_compress state block = map2 (+) state (foldl roundStep state (zip roundConstants (sha_schedule block)))"

function sha_blocks :: "w32 list \<Rightarrow> w32 list list" where
  "sha_blocks ws = (if length ws < 16 then [] else take 16 ws # sha_blocks (drop 16 ws))"
  by auto
termination by (relation "measure length") auto

declare sha_blocks.simps [simp del]

definition Sum256 :: "string \<Rightarrow> w32 list" where
  "Sum256 s = foldl sha_compress initialHash (sha_blocks (be_words (sha_padded s)))"

section \<open>Hexadecimal\<close>

definition hexDigit :: "nat \<Rightarrow> char" where
  "hexDigit n = ''0123456789abcdef'' ! (n mod 16)"

definition hexWord :: "w32 \<Rightarrow> string" where
  "hexWord x = map (\<lambda>i. hexDigit (unat x div 16 ^ (7 - i))) [0..<8]"

definition sha256_hex :: "string \<Rightarrow> string" where
  "sha256_hex s = concat (map hexWord (Sum256 s))"

section \<open>Shape of the digest\<close>

lemma length_roundStep: "length state = 8 \<Longrightarrow> length (roundStep state kw) = 8"
  by (cases "(state, kw)" rule: roundStep.cases) (auto simp: Let_def)

lemma length_rounds: "length state = 8 \<Longrightarrow> length (foldl roundStep state kws) = 8"
  by (induction kws arbitrary: state) (simp_all add: length_roundStep)

lemma length_compress: "length state = 8 \<Longrightarrow> length (sha_compress state block) = 8"
  by (simp add: sha_compress_def length_rounds)

lemma length_Sum256: "length (Sum256 s) = 8"
proof -
  have "length state = 8 \<Longrightarrow> length (foldl sha_compress state bs) = 8" for state bs
    by (induction bs arbitrary: state) (simp_all add: length_compress)
  then show ?thesis by (simp add: Sum256_def initialHash_def)
qed

lemma length_sha256_hex [simp]: "length (sha256_hex s) = 64"
proof -
  have "sum_list (map (\<lambda>x. length (hexWord x)) ws) = 8 * length ws" for ws
    by (induction ws) (simp_all add: hexWord_def)
  then show ?thesis by (simp add: sha256_hex_def length_concat comp_def length_Sum256)
qed

lemma sha256_hex_digits: "list_all (\<lambda>c. c \<in> set ''0123456789abcdef'') (sha256_hex s)"
proof -
  have "hexDigit n \<in> set ''0123456789abcdef''" for n
    unfolding hexDigit_def by (rule nth_mem) simp
  then have "list_all (\<lambda>c. c \<in> set ''0123456789abcdef'') (hexWord x)" for x
    unfolding hexWord_def list_all_iff by auto
  then show ?thesis unfolding sha256_hex_def list_all_iff set_concat set_map by blast
qed

end
