(* ===== verification/Cache_Contract.thy ===== *)
theory Cache_Contract
  imports Kube_Workloads Route_Paths Sha256 Samples
begin

text \<open>
  \<open>operator/internal/cachecontract\<close>: the identity, name and directory of the cache that belongs to a deployment, and the view of a
  cache that runtime reconciliation may consume. The name check is the parameter \<open>N\<close>.
\<close>

section \<open>Definitions\<close>

definition defaultRevision :: string where
  [const_defs]: "defaultRevision = ''main''"

definition nameHashLength :: nat where
  [const_defs]: "nameHashLength = 12"

definition maxLabelLength :: nat where
  [const_defs]: "maxLabelLength = 63"

datatype cache_contract_error =
    ContractNameRequired
  | ContractRepoRequired
  | ContractNameInvalid string "string list"
  | ContractPathInvalid path_error
  | ContractRootIsFilesystemRoot

definition newline :: char where
  "newline = CHR 0x0A"

definition cacheIdentity :: "ModelDeployment \<Rightarrow> (cache_contract_error, string) result" where
  "cacheIdentity deployment =
     (let model = dsModel (mdSpec deployment);
          revision = (if msRevision model = [] then defaultRevision else msRevision model)
      in if mdNamespace deployment = [] \<or> mdName deployment = [] then Inl ContractNameRequired
         else if msRepo model = [] then Inl ContractRepoRequired
         else Inr (join [newline] [mdNamespace deployment, mdName deployment, msRepo model, revision]))"

definition trim_right :: "string \<Rightarrow> string \<Rightarrow> string" where
  "trim_right s cutset = rev (dropWhile (\<lambda>c. c \<in> set cutset) (rev s))"

definition cacheNameOf :: "string \<Rightarrow> string \<Rightarrow> string" where
  "cacheNameOf name identity =
     (let suffix = ''-'' @ take nameHashLength (sha256_hex identity) @ ''-cache'';
          prefixLength = maxLabelLength - length suffix;
          start = (if length name > prefixLength then trim_right (take prefixLength name) ''-.'' else name)
      in (if start = [] then ''model'' else start) @ suffix)"

definition cacheName :: "name_checks \<Rightarrow> ModelDeployment \<Rightarrow> (cache_contract_error, string) result" where
  "cacheName N deployment =
     bind_result (cacheIdentity deployment) (\<lambda>identity.
       let name = cacheNameOf (mdName deployment) identity
       in if vIsDNS1123Label N name \<noteq> [] then Inl (ContractNameInvalid name (vIsDNS1123Label N name)) else Inr name)"

definition cachePathOf :: "name_checks \<Rightarrow> ModelDeployment \<Rightarrow> string \<Rightarrow> (cache_contract_error, string) result" where
  "cachePathOf N deployment configuredRoot =
     bind_result (cacheName N deployment) (\<lambda>name.
       let rootDir = (if csPath (dsCache (mdSpec deployment)) = [] then configuredRoot
                      else csPath (dsCache (mdSpec deployment)))
       in case CleanAbsolutePath rootDir ''deployment cache root'' of
            Inl err \<Rightarrow> Inl (ContractPathInvalid err)
          | Inr cleanRoot \<Rightarrow>
              if cleanRoot = ''/'' then Inl ContractRootIsFilesystemRoot
              else
                let path = path_join [cleanRoot, mdNamespace deployment, name]
                in case UnderRoot path cleanRoot ''deployment cache path'' of
                     Some err \<Rightarrow> Inl (ContractPathInvalid err)
                   | None \<Rightarrow> Inr path)"

record CacheResult =
  clReady :: bool
  clNodeName :: string
  clPath :: string
  clRevision :: string

definition noCacheResult :: CacheResult where
  "noCacheResult = \<lparr>clReady = False, clNodeName = [], clPath = [], clRevision = []\<rparr>"

definition cacheLookup :: "ModelCache \<Rightarrow> CacheResult" where
  "cacheLookup cache =
     (let st = mcStatus cache
      in if ctPhase st \<noteq> ModelCachePhaseReady then noCacheResult
         else if ctNodeName st = [] \<or> ctPath st = [] \<or> ctRevision st = [] then noCacheResult
         else if list_ex (\<lambda>c. cType c = CacheConditionReady \<and> cStatus c = ConditionTrue) (ctConditions st)
           then \<lparr>clReady = True, clNodeName = ctNodeName st, clPath = ctPath st, clRevision = ctRevision st\<rparr>
         else noCacheResult)"

section \<open>Facts\<close>

lemma length_trim_right: "length (trim_right s cutset) \<le> length s"
  by (metis length_dropWhile_le length_rev trim_right_def)

lemma set_trim_right: "set (trim_right s cutset) \<subseteq> set s"
  by (auto simp: trim_right_def dest: set_dropWhileD)

lemma cacheNameOf_length: "length (cacheNameOf name identity) \<le> 63"
proof -
  have "length (trim_right (take 44 name) ''-.'') \<le> 44"
    using length_trim_right [of "take 44 name"] by (simp add: le_trans)
  then show ?thesis by (auto simp: cacheNameOf_def Let_def nameHashLength_def maxLabelLength_def)
qed

lemma cacheNameOf_plain:
  assumes "CHR ''/'' \<notin> set name"
  shows "plain_segment (cacheNameOf name identity)"
proof -
  have "CHR ''/'' \<notin> set ''0123456789abcdef''" by code_simp
  then have hash: "CHR ''/'' \<notin> set (take nameHashLength (sha256_hex identity))"
    using sha256_hex_digits [of identity] unfolding list_all_iff by (metis in_set_takeD)
  have start: "CHR ''/'' \<notin> set (trim_right (take k name) ''-.'')" for k
    using assms set_trim_right [of "take k name"] set_take_subset [of k name] by blast
  have "CHR ''/'' \<notin> set (cacheNameOf name identity)"
    using assms start unfolding cacheNameOf_def Let_def set_append Un_iff using hash by simp
  moreover have "2 < length (cacheNameOf name identity)" by (simp add: cacheNameOf_def Let_def)
  ultimately show ?thesis by (auto simp: plain_segment_def)
qed

lemma cacheName_Inr:
  assumes "cacheName N d = Inr name"
  obtains identity where "cacheIdentity d = Inr identity" "name = cacheNameOf (mdName d) identity"
  using assms by (auto simp: cacheName_def bind_result_Inr_iff Let_def split: if_splits)

lemma path_join_below_root:
  assumes "list_all plain_segment (rs @ ss)" and "rs \<noteq> []" and "ss \<noteq> []"
  shows "path_join ((CHR ''/'' # join ''/'' rs) # ss) = CHR ''/'' # join ''/'' (rs @ ss)"
proof -
  have "filter (\<lambda>x. x \<noteq> []) ss = ss"
    using assms(1) by (auto simp: filter_id_conv list_all_iff plain_segment_def)
  moreover have "join ''/'' ((CHR ''/'' # join ''/'' rs) # ss) = CHR ''/'' # join ''/'' (rs @ ss)"
    using assms(2,3) by (cases ss) (simp_all add: join_append)
  ultimately show ?thesis using assms(1) by (simp add: path_join_def path_clean_plain)
qed

lemma cachePathOf_segments:
  assumes "cachePathOf N d base = Inr p" and "csPath (dsCache (mdSpec d)) = []"
    and "plain_segment (mdNamespace d)" and "CHR ''/'' \<notin> set (mdName d)"
  obtains rs name where "cacheName N d = Inr name" "list_all plain_segment rs" "plain_segment name"
    "base = CHR ''/'' # join ''/'' rs" "rs \<noteq> []" "p = CHR ''/'' # join ''/'' (rs @ [mdNamespace d, name])"
    "UnderRoot p base ''deployment cache path'' = None"
proof -
  obtain name where name: "cacheName N d = Inr name"
    using assms(1) by (auto simp: cachePathOf_def bind_result_Inr_iff)
  obtain clean where clean: "CleanAbsolutePath base ''deployment cache root'' = Inr clean"
    using assms(1,2) name by (cases "CleanAbsolutePath base ''deployment cache root''") (simp_all add: cachePathOf_def Let_def)
  have root: "clean \<noteq> ''/''" and p: "p = path_join [clean, mdNamespace d, name]"
    and under: "UnderRoot p clean ''deployment cache path'' = None"
    using assms(1,2) name clean by (simp_all add: cachePathOf_def Let_def split: if_splits option.splits)
  have base: "clean = base" using clean by (simp add: CleanAbsolutePath_Inr_iff)
  obtain rs where rs: "list_all plain_segment rs" "base = CHR ''/'' # join ''/'' rs"
    using clean by (auto simp: CleanAbsolutePath_Inr_iff)
  have ne: "rs \<noteq> []" using root base rs(2) by auto
  have plain: "plain_segment name"
    using name assms(4) by (auto elim!: cacheName_Inr intro: cacheNameOf_plain)
  have "p = CHR ''/'' # join ''/'' (rs @ [mdNamespace d, name])"
    unfolding p base rs(2) using rs(1) ne plain assms(3) by (intro path_join_below_root) auto
  with that name rs ne plain under base show ?thesis by blast
qed

lemma UnderRoot_extend:
  assumes "list_all plain_segment rs" and "rs \<noteq> []" and "ss \<noteq> []"
  shows "UnderRoot (CHR ''/'' # join ''/'' (rs @ ss)) (CHR ''/'' # join ''/'' rs) field = None"
  using assms by (simp add: UnderRoot_def trim_suffix_clean_root join_append has_prefix_iff)

text \<open>The directory exists for every deployment with usable names below a usable root.\<close>

lemma cachePathOf_defined:
  assumes "cacheName N d = Inr name" and "csPath (dsCache (mdSpec d)) = []"
    and "list_all plain_segment rs" "rs \<noteq> []" "plain_segment (mdNamespace d)" "CHR ''/'' \<notin> set (mdName d)"
  shows "cachePathOf N d (CHR ''/'' # join ''/'' rs) = Inr (CHR ''/'' # join ''/'' (rs @ [mdNamespace d, name]))"
proof -
  have plain: "plain_segment name"
    using assms(1,6) by (auto elim!: cacheName_Inr intro: cacheNameOf_plain)
  have "CleanAbsolutePath (CHR ''/'' # join ''/'' rs) ''deployment cache root'' = Inr (CHR ''/'' # join ''/'' rs)"
    using assms(3) by (auto simp: CleanAbsolutePath_Inr_iff)
  moreover have "join ''/'' rs \<noteq> []" using assms(3,4) by (simp add: join_eq_Nil_plain)
  moreover have "path_join [CHR ''/'' # join ''/'' rs, mdNamespace d, name] = CHR ''/'' # join ''/'' (rs @ [mdNamespace d, name])"
    using assms plain by (intro path_join_below_root) auto
  moreover have "UnderRoot (CHR ''/'' # join ''/'' (rs @ [mdNamespace d, name])) (CHR ''/'' # join ''/'' rs)
      ''deployment cache path'' = None"
    using assms(3,4) by (intro UnderRoot_extend) auto
  ultimately show ?thesis using assms(1,2) by (simp add: cachePathOf_def)
qed

section \<open>Properties\<close>


definition sampleTenant :: "string \<Rightarrow> ModelDeployment" where
  "sampleTenant namespace =
     (let d = sampleDeployment ''m''
      in d\<lparr>mdMeta := (mdMeta d)\<lparr>omNamespace := namespace\<rparr>,
           mdSpec := (mdSpec d)\<lparr>dsCache := (dsCache (mdSpec d))\<lparr>csPath := []\<rparr>\<rparr>\<rparr>)"

lemma sampleTenant_fields [simp]:
  "mdNamespace (sampleTenant ns) = ns" "mdName (sampleTenant ns) = ''m''" "csPath (dsCache (mdSpec (sampleTenant ns))) = []"
  "dsModel (mdSpec (sampleTenant ns)) = \<lparr>msName = [], msSource = ''huggingface'', msRepo = ''org/model'', msRevision = []\<rparr>"
  by (simp_all add: sampleTenant_def Let_def sampleDeployment_def sampleMeta_def)

lemma sampleTenant_name:
  "ns \<noteq> [] \<Longrightarrow> \<exists>name. cacheName lax_checks (sampleTenant ns) = Inr name"
  by (simp add: cacheName_def cacheIdentity_def lax_checks_def Let_def cacheNameOf_def)


end
