(* ===== verification/Gpu_Planner.thy ===== *)
theory Gpu_Planner
  imports Samples
begin

text \<open>
  The node predicates of \<open>operator/internal/scheduler\<close> and its whole-GPU planner (\<open>gpu.go\<close>). The
  theorems show that a planned placement never oversubscribes a node, however many placements
  are committed one after the other, that the planner finds a placement whenever there
  is one, that it returns the best one in the documented order, and that neither the order of the nodes
  nor the sorting algorithm matters.

  Error values carry the data the sources format into their messages; a loop over a Go map
  visits the entries in list order, which can only influence which of several errors is reported.
\<close>

section \<open>Node predicates shared by the planners\<close>

definition IsNodeEligibleForCache :: "'q Node \<Rightarrow> bool" where
  "IsNodeEligibleForCache node =
     (if ndUnschedulable node then False
      else (case List.find (\<lambda>c. ncType c = NodeReady) (ndConditions node) of
              Some condition \<Rightarrow> ncStatus condition = ConditionTrue
            | None \<Rightarrow> False))"

definition nodeMatchesSelector :: "'q Node \<Rightarrow> string_map \<Rightarrow> bool" where
  "nodeMatchesSelector node selector = list_all (\<lambda>(key, value). mget (ndLabels node) key = value) selector"

definition tolerates :: "Taint \<Rightarrow> Toleration \<Rightarrow> bool" where
  "tolerates taint toleration =
     (if toEffect toleration \<noteq> [] \<and> toEffect toleration \<noteq> taEffect taint then False
      else
        let operator = (if toOperator toleration = [] then TolerationOpEqual else toOperator toleration)
        in if operator = TolerationOpExists then toKey toleration = [] \<or> toKey toleration = taKey taint
           else if operator = TolerationOpEqual
             then toKey toleration = taKey taint \<and> toValue toleration = taValue taint
           else False)"

definition isTaintTolerated :: "Taint \<Rightarrow> Toleration list \<Rightarrow> bool" where
  "isTaintTolerated taint tolerations = list_ex (tolerates taint) tolerations"

definition hasUntoleratedSchedulingTaint :: "'q Node \<Rightarrow> Toleration list \<Rightarrow> bool" where
  "hasUntoleratedSchedulingTaint node tolerations =
     list_ex (\<lambda>taint. (taEffect taint = TaintEffectNoSchedule \<or> taEffect taint = TaintEffectNoExecute)
                        \<and> \<not> isTaintTolerated taint tolerations) (ndTaints node)"

definition nodeHasRequiredResources :: "'q quantity_ops \<Rightarrow> 'q Node \<Rightarrow> string list \<Rightarrow> bool" where
  "nodeHasRequiredResources Q node required =
     list_all (\<lambda>name. case map_of (ndAllocatable node) name of
                        None \<Rightarrow> False
                      | Some quantity \<Rightarrow> qSign Q quantity > 0) required"

section \<open>GPU planner\<close>

record GPURequest =
  gqResourceName :: string
  gqCount :: int
  gqType :: string
  gqPreferredNode :: string

record GPUAllocation =
  gaNodeName :: string
  gaResourceName :: string
  gaCount :: int

record GPUPlacement =
  gpNodeName :: string
  gpTotal :: int
  gpOccupied :: int
  gpAvailable :: int

record GPUPlannerConfig =
  gcNodeSelector :: string_map
  gcGPUTypeLabel :: string

record GPUPlanner =
  plNodeSelector :: string_map
  plGPUTypeLabel :: string

datatype gpu_error =
    GPUTypeLabelInvalid string "string list"
  | GPUSelectorKeyInvalid string "string list"
  | GPUSelectorValueInvalid string "string list"
  | GPUPlannerRequired
  | GPUResourceNameRequired
  | GPUCountNotPositive
  | ErrInsufficientGPUCapacity int string
  | ErrNoCompatibleGPUNode string

definition DefaultGPUTypeLabel :: string where
  [const_defs]: "DefaultGPUTypeLabel = ''inferops.dev/gpu-type''"

fun checkSelector ::
  "(string \<Rightarrow> string list) \<Rightarrow> (string \<Rightarrow> string list) \<Rightarrow> (string \<Rightarrow> string list \<Rightarrow> 'e) \<Rightarrow>
   (string \<Rightarrow> string list \<Rightarrow> 'e) \<Rightarrow> string_map \<Rightarrow> 'e option" where
  "checkSelector isQualifiedName isValidLabelValue keyError valueError [] = None"
| "checkSelector isQualifiedName isValidLabelValue keyError valueError ((key, value) # rest) =
     (if isQualifiedName key \<noteq> [] then Some (keyError key (isQualifiedName key))
      else if isValidLabelValue value \<noteq> [] then Some (valueError value (isValidLabelValue value))
      else checkSelector isQualifiedName isValidLabelValue keyError valueError rest)"

definition NewGPUPlanner ::
  "(string \<Rightarrow> string list) \<Rightarrow> (string \<Rightarrow> string list) \<Rightarrow> GPUPlannerConfig \<Rightarrow> (gpu_error, GPUPlanner) result" where
  "NewGPUPlanner isQualifiedName isValidLabelValue config =
     (let label = (if gcGPUTypeLabel config = [] then DefaultGPUTypeLabel else gcGPUTypeLabel config)
      in if isQualifiedName label \<noteq> [] then Inl (GPUTypeLabelInvalid label (isQualifiedName label))
         else (case checkSelector isQualifiedName isValidLabelValue
                      GPUSelectorKeyInvalid GPUSelectorValueInvalid (gcNodeSelector config) of
                 Some err \<Rightarrow> Inl err
               | None \<Rightarrow> Inr \<lparr>plNodeSelector = gcNodeSelector config, plGPUTypeLabel = label\<rparr>))"

text \<open>The map \<open>occupied\<close> of \<open>Plan\<close>: an \<open>int64\<close> per node name, 0 when absent.\<close>

definition addAllocation :: "string \<Rightarrow> (string \<Rightarrow> int) \<Rightarrow> GPUAllocation \<Rightarrow> (string \<Rightarrow> int)" where
  "addAllocation resourceName occupied allocation =
     (if gaResourceName allocation = resourceName \<and> gaCount allocation > 0
        then occupied(gaNodeName allocation := wrap64 (occupied (gaNodeName allocation) + gaCount allocation))
      else occupied)"

definition occupiedByNode :: "string \<Rightarrow> GPUAllocation list \<Rightarrow> (string \<Rightarrow> int)" where
  "occupiedByNode resourceName allocations = foldl (addAllocation resourceName) (\<lambda>_. 0) allocations"

record gpu_candidate =
  caPlacement :: GPUPlacement
  caPreferred :: bool

text \<open>The guards of the loop of \<open>Plan\<close>: the quantity of a node that is compatible.\<close>

definition compatibleQuantity ::
  "'q quantity_ops \<Rightarrow> GPUPlanner \<Rightarrow> GPURequest \<Rightarrow> 'q Node \<Rightarrow> 'q option" where
  "compatibleQuantity Q p request node =
     (if \<not> IsNodeEligibleForCache node \<or> \<not> nodeMatchesSelector node (plNodeSelector p) then None
      else if gqType request \<noteq> [] \<and> mget (ndLabels node) (plGPUTypeLabel p) \<noteq> gqType request then None
      else (case map_of (ndAllocatable node) (gqResourceName request) of
              None \<Rightarrow> None
            | Some quantity \<Rightarrow> if qSign Q quantity \<le> 0 then None else Some quantity))"

fun gpuCandidates ::
  "'q quantity_ops \<Rightarrow> GPUPlanner \<Rightarrow> GPURequest \<Rightarrow> (string \<Rightarrow> int) \<Rightarrow> 'q Node list \<Rightarrow>
   bool \<times> gpu_candidate list" where
  "gpuCandidates Q p request occupied [] = (False, [])"
| "gpuCandidates Q p request occupied (node # nodes) =
     (let (compatible, candidates) = gpuCandidates Q p request occupied nodes
      in case compatibleQuantity Q p request node of
           None \<Rightarrow> (compatible, candidates)
         | Some quantity \<Rightarrow>
             let total = qValue Q quantity;
                 used = occupied (ndName node);
                 available = wrap64 (total - used)
             in if available < gqCount request then (True, candidates)
                else (True,
                      \<lparr>caPlacement = \<lparr>gpNodeName = ndName node, gpTotal = total,
                                       gpOccupied = used, gpAvailable = available\<rparr>,
                       caPreferred = (ndName node = gqPreferredNode request)\<rparr> # candidates))"

definition candidateLess :: "gpu_candidate \<Rightarrow> gpu_candidate \<Rightarrow> bool" where
  "candidateLess a b =
     (if caPreferred a \<noteq> caPreferred b then caPreferred a
      else if gpAvailable (caPlacement a) \<noteq> gpAvailable (caPlacement b)
        then gpAvailable (caPlacement a) > gpAvailable (caPlacement b)
      else gpNodeName (caPlacement a) < gpNodeName (caPlacement b))"

definition GPUPlan ::
  "'q quantity_ops \<Rightarrow> GPUPlanner option \<Rightarrow> GPURequest \<Rightarrow> 'q Node list \<Rightarrow> GPUAllocation list \<Rightarrow>
   (gpu_error, GPUPlacement) result" where
  "GPUPlan Q planner request nodes allocations =
     (case planner of
        None \<Rightarrow> Inl GPUPlannerRequired
      | Some p \<Rightarrow>
          if gqResourceName request = [] then Inl GPUResourceNameRequired
          else if gqCount request \<le> 0 then Inl GPUCountNotPositive
          else
            let occupied = occupiedByNode (gqResourceName request) allocations;
                (compatible, candidates) = gpuCandidates Q p request occupied nodes
            in if candidates = [] then
                 (if compatible then Inl (ErrInsufficientGPUCapacity (gqCount request) (gqResourceName request))
                  else Inl (ErrNoCompatibleGPUNode (gqResourceName request)))
               else Inr (caPlacement (hd (sort_by candidateLess candidates))))"

definition Snapshot ::
  "'q quantity_ops \<Rightarrow> string \<Rightarrow> 'q Node list \<Rightarrow> GPUAllocation list \<Rightarrow> int \<times> int \<times> int" where
  "Snapshot Q resourceName nodes allocations =
     (let total = foldl (\<lambda>total node. wrap64 (total + qValue Q
                     (case map_of (ndAllocatable node) resourceName of Some q \<Rightarrow> q | None \<Rightarrow> qZero Q))) 0 nodes;
          occupied = foldl (\<lambda>occupied allocation.
                       if gaResourceName allocation = resourceName \<and> gaCount allocation > 0
                         then wrap64 (occupied + gaCount allocation) else occupied) 0 allocations;
          available = wrap64 (total - occupied)
      in (total, occupied, if available < 0 then 0 else available))"

section \<open>Lemmas on the GPU planner\<close>

text \<open>What is reserved of a resource on a node, without wrap-around.\<close>

definition gpu_used :: "string \<Rightarrow> string \<Rightarrow> GPUAllocation list \<Rightarrow> int" where
  "gpu_used resourceName nodeName allocations =
     sum_list (map gaCount (filter (\<lambda>a. gaResourceName a = resourceName \<and> gaNodeName a = nodeName \<and>
                                         gaCount a > 0) allocations))"

lemma gpu_used_Nil [simp]: "gpu_used r n [] = 0"
  by (simp add: gpu_used_def)

lemma gpu_used_Cons: "gpu_used r n (a # as) =
    (if gaResourceName a = r \<and> gaNodeName a = n \<and> gaCount a > 0 then gaCount a else 0) + gpu_used r n as"
  by (simp add: gpu_used_def)

lemma gpu_used_append: "gpu_used r n (as @ bs) = gpu_used r n as + gpu_used r n bs"
  by (simp add: gpu_used_def)

lemma gpu_used_nonneg: "0 \<le> gpu_used r n as"
  by (induction as) (simp_all add: gpu_used_Cons)

lemma gpu_used_remove1: "gpu_used r n (remove1 a as) \<le> gpu_used r n as"
  by (induction as) (auto simp: gpu_used_Cons)

lemma foldl_addAllocation:
  "0 \<le> occ n \<Longrightarrow> occ n + gpu_used r n as \<le> maxInt64 \<Longrightarrow>
   foldl (addAllocation r) occ as n = occ n + gpu_used r n as"
proof (induction as arbitrary: occ)
  case (Cons a as)
  have nn: "0 \<le> gpu_used r n as" by (rule gpu_used_nonneg)
  let ?occ = "addAllocation r occ a"
  have step: "?occ n = occ n + (if gaResourceName a = r \<and> gaNodeName a = n \<and> gaCount a > 0 then gaCount a else 0)"
    using Cons.prems nn by (auto simp: addAllocation_def gpu_used_Cons intro!: wrap64_nonneg)
  have "foldl (addAllocation r) ?occ as n = ?occ n + gpu_used r n as"
    using Cons.prems step by (intro Cons.IH) (auto simp: gpu_used_Cons)
  then show ?case using step by (simp add: gpu_used_Cons)
qed simp

lemma occupiedByNode_eq: "gpu_used r n as \<le> maxInt64 \<Longrightarrow> occupiedByNode r as n = gpu_used r n as"
  using foldl_addAllocation [of "\<lambda>_. 0"] by (simp add: occupiedByNode_def)

definition candidateOf ::
  "'q quantity_ops \<Rightarrow> GPURequest \<Rightarrow> (string \<Rightarrow> int) \<Rightarrow> 'q Node \<Rightarrow> 'q \<Rightarrow> gpu_candidate" where
  "candidateOf Q request occupied node q =
     \<lparr>caPlacement = \<lparr>gpNodeName = ndName node, gpTotal = qValue Q q, gpOccupied = occupied (ndName node),
                      gpAvailable = wrap64 (qValue Q q - occupied (ndName node))\<rparr>,
      caPreferred = (ndName node = gqPreferredNode request)\<rparr>"

lemma fst_gpuCandidates:
  "fst (gpuCandidates Q p request occ nodes) \<longleftrightarrow> (\<exists>node \<in> set nodes. compatibleQuantity Q p request node \<noteq> None)"
  by (induction nodes) (auto simp: Let_def split: prod.splits option.splits)

lemma set_gpuCandidates:
  "set (snd (gpuCandidates Q p request occ nodes)) =
   {candidateOf Q request occ node q | node q. node \<in> set nodes \<and>
      compatibleQuantity Q p request node = Some q \<and>
      gqCount request \<le> wrap64 (qValue Q q - occ (ndName node))}"
proof (induction nodes)
  case (Cons node nodes)
  have "set (snd (gpuCandidates Q p request occ (node # nodes))) =
    (case compatibleQuantity Q p request node of
       Some q \<Rightarrow> if gqCount request \<le> wrap64 (qValue Q q - occ (ndName node))
                 then {candidateOf Q request occ node q} else {}
     | None \<Rightarrow> {}) \<union> set (snd (gpuCandidates Q p request occ nodes))"
    by (auto simp: Let_def candidateOf_def not_le split: prod.splits option.splits)
  also have "\<dots> = {candidateOf Q request occ n q | n q. n \<in> set (node # nodes) \<and>
      compatibleQuantity Q p request n = Some q \<and> gqCount request \<le> wrap64 (qValue Q q - occ (ndName n))}"
    unfolding Cons.IH by (auto split: option.splits)
  finally show ?case .
qed simp

lemma candidateLess_keys:
  "candidateLess = less_then (\<lambda>c. \<not> caPreferred c) (less_then (\<lambda>c. - gpAvailable (caPlacement c))
                     (less_on (\<lambda>c. gpNodeName (caPlacement c))))"
  by (auto simp: fun_eq_iff candidateLess_def less_then_def less_on_def)

interpretation gpu_rank: go_order candidateLess
  unfolding candidateLess_keys by (intro go_order_less_then go_order_less_on)

lemma GPUPlan_InrE:
  assumes "GPUPlan Q (Some p) request nodes allocations = Inr pl"
  obtains node q where "node \<in> set nodes" "compatibleQuantity Q p request node = Some q"
    "let occ = occupiedByNode (gqResourceName request) allocations
     in pl = caPlacement (candidateOf Q request occ node q) \<and>
        gqCount request \<le> wrap64 (qValue Q q - occ (ndName node)) \<and>
        candidateOf Q request occ node q = hd (sort_by candidateLess (snd (gpuCandidates Q p request occ nodes)))"
    "gqResourceName request \<noteq> []" "gqCount request > 0"
proof -
  let ?occ = "occupiedByNode (gqResourceName request) allocations"
  let ?cs = "snd (gpuCandidates Q p request ?occ nodes)"
  from assms have *: "?cs \<noteq> []" "pl = caPlacement (hd (sort_by candidateLess ?cs))"
    "gqResourceName request \<noteq> []" "gqCount request > 0"
    by (auto simp: GPUPlan_def Let_def split: prod.splits if_splits)
  then have "hd (sort_by candidateLess ?cs) \<in> set ?cs"
    by (metis hd_in_set set_sort_by sort_by_eq_Nil)
  then show ?thesis using that * unfolding set_gpuCandidates Let_def by auto
qed

lemma compatibleQuantity_SomeD:
  assumes "compatibleQuantity Q p request node = Some q"
  shows "IsNodeEligibleForCache node" "nodeMatchesSelector node (plNodeSelector p)"
    "gqType request = [] \<or> mget (ndLabels node) (plGPUTypeLabel p) = gqType request"
    "map_of (ndAllocatable node) (gqResourceName request) = Some q" "qSign Q q > 0"
  using assms by (auto simp: compatibleQuantity_def split: if_splits option.splits)

text \<open>
  The allocations fit: on every node, the reservations of each advertised resource stay
  within the allocatable quantity.
\<close>

definition gpu_fits :: "'q quantity_ops \<Rightarrow> 'q Node list \<Rightarrow> GPUAllocation list \<Rightarrow> bool" where
  "gpu_fits Q nodes allocations \<longleftrightarrow>
     (\<forall>node \<in> set nodes. \<forall>r q. map_of (ndAllocatable node) r = Some q \<longrightarrow> qSign Q q > 0 \<longrightarrow>
        gpu_used r (ndName node) allocations \<le> qValue Q q)"

lemma freeSlots_eq:
  assumes "quantity_value_ok Q" and "gpu_fits Q nodes allocations"
    and "node \<in> set nodes" and "compatibleQuantity Q p request node = Some q"
  shows "occupiedByNode (gqResourceName request) allocations (ndName node) =
           gpu_used (gqResourceName request) (ndName node) allocations"
    and "wrap64 (qValue Q q - gpu_used (gqResourceName request) (ndName node) allocations) =
           qValue Q q - gpu_used (gqResourceName request) (ndName node) allocations"
proof -
  let ?u = "gpu_used (gqResourceName request) (ndName node) allocations"
  have "?u \<le> qValue Q q" "is_int64 (qValue Q q)"
    using assms compatibleQuantity_SomeD [OF assms(4)] by (auto simp: gpu_fits_def quantity_value_ok_def)
  moreover have "0 \<le> ?u" by (rule gpu_used_nonneg)
  ultimately show "occupiedByNode (gqResourceName request) allocations (ndName node) = ?u"
    "wrap64 (qValue Q q - ?u) = qValue Q q - ?u"
    using is_int64_le_max [of "qValue Q q"] by (auto intro!: occupiedByNode_eq wrap64_nonneg)
qed

lemma GPUPlan_fits:
  assumes Q: "quantity_value_ok Q" and fits: "gpu_fits Q nodes allocations"
    and plan: "GPUPlan Q (Some p) request nodes allocations = Inr pl"
  obtains node q where "node \<in> set nodes" "compatibleQuantity Q p request node = Some q"
    "pl = \<lparr>gpNodeName = ndName node, gpTotal = qValue Q q,
            gpOccupied = gpu_used (gqResourceName request) (ndName node) allocations,
            gpAvailable = qValue Q q - gpu_used (gqResourceName request) (ndName node) allocations\<rparr>"
    "gpu_used (gqResourceName request) (ndName node) allocations + gqCount request \<le> qValue Q q"
proof -
  let ?r = "gqResourceName request"
  obtain node q where n: "node \<in> set nodes" "compatibleQuantity Q p request node = Some q"
    "pl = caPlacement (candidateOf Q request (occupiedByNode ?r allocations) node q)"
    "gqCount request \<le> wrap64 (qValue Q q - occupiedByNode ?r allocations (ndName node))"
    using plan by (rule GPUPlan_InrE) (auto simp: Let_def)
  then show ?thesis using that freeSlots_eq [OF Q fits n(1,2)] by (simp add: candidateOf_def)
qed

inductive gpu_step :: "'q quantity_ops \<Rightarrow> GPUPlanner \<Rightarrow> 'q Node list \<Rightarrow> GPUAllocation list \<Rightarrow> GPUAllocation list \<Rightarrow> bool"
  for Q p nodes where
  reserve: "GPUPlan Q (Some p) request nodes allocations = Inr pl \<Longrightarrow>
    gpu_step Q p nodes allocations
      (allocations @ [\<lparr>gaNodeName = gpNodeName pl, gaResourceName = gqResourceName request, gaCount = gqCount request\<rparr>])"
| release: "gpu_step Q p nodes allocations (remove1 a allocations)"

lemma gpu_step_fits:
  assumes "gpu_step Q p nodes as bs" and "quantity_value_ok Q" and "distinct (map ndName nodes)"
    and "gpu_fits Q nodes as"
  shows "gpu_fits Q nodes bs"
  using assms
proof (induction rule: gpu_step.induct)
  case (reserve request allocations pl)
  obtain node q where n: "node \<in> set nodes" "compatibleQuantity Q p request node = Some q"
    "gpNodeName pl = ndName node"
    "gpu_used (gqResourceName request) (ndName node) allocations + gqCount request \<le> qValue Q q"
    using GPUPlan_fits [OF reserve.prems(1,3) reserve.hyps] by (metis GPUPlacement.select_convs(1))
  show ?case
    unfolding gpu_fits_def
  proof (intro ballI allI impI)
    fix node' r q'
    assume a: "node' \<in> set nodes" "map_of (ndAllocatable node') r = Some q'" "qSign Q q' > 0"
    then have old: "gpu_used r (ndName node') allocations \<le> qValue Q q'"
      using reserve.prems(3) by (simp add: gpu_fits_def)
    let ?new = "\<lparr>gaNodeName = gpNodeName pl, gaResourceName = gqResourceName request, gaCount = gqCount request\<rparr>"
    show "gpu_used r (ndName node') (allocations @ [?new]) \<le> qValue Q q'"
    proof (cases "r = gqResourceName request \<and> ndName node' = ndName node")
      case True
      then have "node' = node"
        using a(1) n(1) reserve.prems(2) by (meson distinct_map inj_onD)
      then have "q' = q" using True a(2) compatibleQuantity_SomeD(4) [OF n(2)] by simp
      then show ?thesis using True n(3,4) old by (simp add: gpu_used_append gpu_used_Cons)
    next
      case False
      then show ?thesis using old n(3) by (auto simp: gpu_used_append gpu_used_Cons)
    qed
  qed
next
  case (release allocations a)
  then have fits: "gpu_fits Q nodes allocations" by simp
  show ?case
    unfolding gpu_fits_def
  proof (intro ballI allI impI)
    fix node r q
    assume "node \<in> set nodes" "map_of (ndAllocatable node) r = Some q" "qSign Q q > 0"
    then have "gpu_used r (ndName node) allocations \<le> qValue Q q" using fits by (simp add: gpu_fits_def)
    then show "gpu_used r (ndName node) (remove1 a allocations) \<le> qValue Q q"
      using gpu_used_remove1 by (rule order_trans [rotated])
  qed
qed


section \<open>Properties of the GPU planner\<close>

text \<open>
  C3. No sequence of reservations and releases oversubscribes a GPU: whenever the nodes have
  distinct names and the allocations fit the allocatable quantities, every allocation list
  reached by committing placements that \<open>Plan\<close> returned (and by releasing allocations, in any
  order) fits as well. The hypothesis on quantities is that \<open>Value\<close> is an \<open>int64\<close> that
  is positive exactly when \<open>Sign\<close> is.
\<close>

theorem gpu_never_oversubscribed:
  assumes "quantity_value_ok Q" and "distinct (map ndName nodes)" and "gpu_fits Q nodes allocations"
    and "(gpu_step Q p nodes)\<^sup>*\<^sup>* allocations allocations'"
  shows "gpu_fits Q nodes allocations'"
  using assms(4,3) by (induction rule: rtranclp_induct) (auto intro: gpu_step_fits assms(1,2))

definition samplePlanner :: GPUPlanner where
  "samplePlanner = \<lparr>plNodeSelector = [(''zone'', ''a'')], plGPUTypeLabel = ''inferops.dev/gpu-type''\<rparr>"

definition sampleRequest :: "int \<Rightarrow> GPURequest" where
  "sampleRequest n =
     \<lparr>gqResourceName = ''nvidia.com/gpu'', gqCount = n, gqType = [], gqPreferredNode = ''b''\<rparr>"

definition sampleAllocation :: GPUAllocation where
  "sampleAllocation = \<lparr>gaNodeName = ''b'', gaResourceName = ''nvidia.com/gpu'', gaCount = 2\<rparr>"

lemma sample_plan:
  "GPUPlan whole_quantity (Some samplePlanner) (sampleRequest 2) sampleNodes [] =
   Inr \<lparr>gpNodeName = ''b'', gpTotal = 2, gpOccupied = 0, gpAvailable = 2\<rparr>"
  by code_simp

lemma sample_fits: "gpu_fits whole_quantity sampleNodes []"
  by (auto simp: gpu_fits_def whole_quantity_def maxInt64_def sgn_if split: if_splits)

theorem gpu_never_oversubscribed_witness: "gpu_fits whole_quantity sampleNodes [sampleAllocation]"
proof (rule gpu_never_oversubscribed [of _ _ "[]" samplePlanner])
  show "distinct (map ndName sampleNodes)" by code_simp
  have "gpu_step whole_quantity samplePlanner sampleNodes [] [sampleAllocation]"
    using gpu_step.reserve [OF sample_plan] by (simp add: sampleAllocation_def sampleRequest_def)
  then show "(gpu_step whole_quantity samplePlanner sampleNodes)\<^sup>*\<^sup>* [] [sampleAllocation]" ..
qed (fact whole_quantity_value_ok sample_fits)+

text \<open>A compatible node with enough free devices for the request.\<close>

definition gpu_fitting :: "'q quantity_ops \<Rightarrow> GPUPlanner \<Rightarrow> GPURequest \<Rightarrow> GPUAllocation list \<Rightarrow> 'q Node \<Rightarrow> bool" where
  "gpu_fitting Q p request allocations node \<longleftrightarrow>
     (\<exists>q. compatibleQuantity Q p request node = Some q \<and>
          gpu_used (gqResourceName request) (ndName node) allocations + gqCount request \<le> qValue Q q)"

lemma GPUPlan_cases:
  assumes "gqResourceName request \<noteq> []" and "gqCount request > 0"
    and "occ = occupiedByNode (gqResourceName request) allocations"
  shows "GPUPlan Q (Some p) request nodes allocations =
     (if \<exists>node \<in> set nodes. \<exists>q. compatibleQuantity Q p request node = Some q \<and>
           gqCount request \<le> wrap64 (qValue Q q - occ (ndName node))
        then Inr (caPlacement (hd (sort_by candidateLess (snd (gpuCandidates Q p request occ nodes)))))
      else if \<exists>node \<in> set nodes. compatibleQuantity Q p request node \<noteq> None
        then Inl (ErrInsufficientGPUCapacity (gqCount request) (gqResourceName request))
      else Inl (ErrNoCompatibleGPUNode (gqResourceName request)))"
proof -
  have "snd (gpuCandidates Q p request occ nodes) = [] \<longleftrightarrow>
    set (snd (gpuCandidates Q p request occ nodes)) = {}" by simp
  also have "\<dots> \<longleftrightarrow> \<not> (\<exists>node \<in> set nodes. \<exists>q. compatibleQuantity Q p request node = Some q \<and>
           gqCount request \<le> wrap64 (qValue Q q - occ (ndName node)))"
    unfolding set_gpuCandidates by auto
  finally show ?thesis
    using assms fst_gpuCandidates [of Q p request occ nodes]
    by (simp add: GPUPlan_def Let_def case_prod_beta)
qed

lemma candidateLess_tie_name:
  "\<not> candidateLess b a \<Longrightarrow> \<not> candidateLess a b \<Longrightarrow> gpNodeName (caPlacement a) = gpNodeName (caPlacement b)"
  by (auto simp: candidateLess_def split: if_splits)

lemma hd_candidate_unique:
  assumes "set nodes = set nodes'" and "distinct (map ndName nodes)"
    and "snd (gpuCandidates Q p request occ nodes) \<noteq> []"
  shows "hd (sort_by candidateLess (snd (gpuCandidates Q p request occ nodes))) =
         hd (sort_by candidateLess (snd (gpuCandidates Q p request occ nodes')))"
proof -
  let ?cs = "snd (gpuCandidates Q p request occ nodes)" and ?ds = "snd (gpuCandidates Q p request occ nodes')"
  let ?c = "hd (sort_by candidateLess ?cs)" and ?d = "hd (sort_by candidateLess ?ds)"
  have eq: "set ?ds = set ?cs" unfolding set_gpuCandidates using assms(1) by simp
  then have "?ds \<noteq> []" using assms(3) by auto
  then have mem: "?c \<in> set ?cs" "?d \<in> set ?cs"
    using assms(3) eq by (metis hd_in_set set_sort_by sort_by_eq_Nil)+
  have "\<not> candidateLess ?d ?c" "\<not> candidateLess ?c ?d"
    using gpu_rank.sort_by_hd_least mem eq by blast+
  then have name: "gpNodeName (caPlacement ?c) = gpNodeName (caPlacement ?d)"
    by (rule candidateLess_tie_name)
  obtain n q where n: "n \<in> set nodes" "compatibleQuantity Q p request n = Some q"
      "?c = candidateOf Q request occ n q"
    using mem(1) unfolding set_gpuCandidates by blast
  obtain n' q' where n': "n' \<in> set nodes" "compatibleQuantity Q p request n' = Some q'"
      "?d = candidateOf Q request occ n' q'"
    using mem(2) unfolding set_gpuCandidates by blast
  have "ndName n = ndName n'" using name unfolding n(3) n'(3) by (simp add: candidateOf_def)
  then have "n = n'" using assms(2) n(1) n'(1) by (meson distinct_map inj_onD)
  then show ?thesis using n(2) n'(2) unfolding n(3) n'(3) by simp
qed

text \<open>
  C25. The outcome of \<open>Plan\<close> is a function of the set of nodes: the order in which the API server
  lists them, and the sorting algorithm behind \<open>sort.Slice\<close>, cannot change the placement or the error.
\<close>

theorem GPUPlan_order_independent:
  assumes "set nodes = set nodes'" and "distinct (map ndName nodes)"
  shows "GPUPlan Q planner request nodes allocations = GPUPlan Q planner request nodes' allocations"
proof (cases planner)
  case (Some p)
  let ?occ = "occupiedByNode (gqResourceName request) allocations"
  have "fst (gpuCandidates Q p request ?occ nodes) = fst (gpuCandidates Q p request ?occ nodes')"
    unfolding fst_gpuCandidates using assms(1) by simp
  moreover have "set (snd (gpuCandidates Q p request ?occ nodes)) = set (snd (gpuCandidates Q p request ?occ nodes'))"
    unfolding set_gpuCandidates using assms(1) by simp
  then have "snd (gpuCandidates Q p request ?occ nodes) = [] \<longleftrightarrow> snd (gpuCandidates Q p request ?occ nodes') = []"
    by (metis set_empty)
  ultimately show ?thesis
    using Some hd_candidate_unique [OF assms] by (simp add: GPUPlan_def Let_def case_prod_beta)
qed (simp add: GPUPlan_def)

theorem GPUPlan_order_independent_witness:
  "GPUPlan whole_quantity (Some samplePlanner) (sampleRequest 1) [sampleNode ''a'' 4, sampleNode ''b'' 2] [] =
   GPUPlan whole_quantity (Some samplePlanner) (sampleRequest 1) [sampleNode ''b'' 2, sampleNode ''a'' 4] []"
proof (rule GPUPlan_order_independent)
  show "set [sampleNode ''a'' 4, sampleNode ''b'' 2] = set [sampleNode ''b'' 2, sampleNode ''a'' 4]" by auto
  show "distinct (map ndName [sampleNode ''a'' 4, sampleNode ''b'' 2])" by (simp add: sampleNode_def)
qed

text \<open>
  C24. \<open>Plan\<close> is complete and its error says why it failed: for a well-formed request and fitting
  allocations it returns a placement exactly when some compatible node has enough free devices;
  it reports insufficient capacity exactly when compatible nodes exist and all are too full, and
  no compatible node exactly when none is Ready, schedulable, selected and advertising the resource.
\<close>

theorem GPUPlan_complete:
  assumes "quantity_value_ok Q" and "gpu_fits Q nodes allocations"
    and "gqResourceName request \<noteq> []" and "gqCount request > 0"
  shows "(\<exists>pl. GPUPlan Q (Some p) request nodes allocations = Inr pl) = (\<exists>node \<in> set nodes. gpu_fitting Q p request allocations node) \<and>
         (GPUPlan Q (Some p) request nodes allocations =
            Inl (ErrInsufficientGPUCapacity (gqCount request) (gqResourceName request))) =
         ((\<exists>node \<in> set nodes. compatibleQuantity Q p request node \<noteq> None) \<and> \<not> (\<exists>node \<in> set nodes. gpu_fitting Q p request allocations node)) \<and>
         (GPUPlan Q (Some p) request nodes allocations = Inl (ErrNoCompatibleGPUNode (gqResourceName request))) =
         (\<not> (\<exists>node \<in> set nodes. compatibleQuantity Q p request node \<noteq> None))"
proof -
  let ?r = "gqResourceName request"
  have free: "gqCount request \<le> wrap64 (qValue Q q - occupiedByNode ?r allocations (ndName node)) \<longleftrightarrow>
      gpu_used ?r (ndName node) allocations + gqCount request \<le> qValue Q q"
    if "node \<in> set nodes" "compatibleQuantity Q p request node = Some q" for node q
    using freeSlots_eq [OF assms(1,2) that] by auto
  have "(\<exists>node \<in> set nodes. \<exists>q. compatibleQuantity Q p request node = Some q \<and>
      gqCount request \<le> wrap64 (qValue Q q - occupiedByNode ?r allocations (ndName node))) =
    (\<exists>node \<in> set nodes. gpu_fitting Q p request allocations node)"
    unfolding gpu_fitting_def using free by blast
  then show ?thesis
    unfolding GPUPlan_cases [OF assms(3,4) refl] by (auto simp: gpu_fitting_def)
qed

theorem GPUPlan_complete_witness:
  "(GPUPlan whole_quantity (Some samplePlanner) (sampleRequest 8) sampleNodes [] =
      Inl (ErrInsufficientGPUCapacity 8 ''nvidia.com/gpu'')) =
   ((\<exists>node \<in> set sampleNodes. compatibleQuantity whole_quantity samplePlanner (sampleRequest 8) node \<noteq> None) \<and>
    \<not> (\<exists>node \<in> set sampleNodes. \<exists>q.
         compatibleQuantity whole_quantity samplePlanner (sampleRequest 8) node = Some q \<and> 8 \<le> qValue whole_quantity q))"
  using GPUPlan_complete [OF whole_quantity_value_ok sample_fits, of "sampleRequest 8" samplePlanner]
  by (simp add: sampleRequest_def gpu_fitting_def)

text \<open>
  The placement is the best one in the documented order: the preferred node wins whenever it
  fits; otherwise no gpu_fitting Q p request allocations node has more free devices, and among those with as many
  free devices the chosen one has the least name.
\<close>

theorem GPUPlan_best:
  assumes "quantity_value_ok Q" and "gpu_fits Q nodes allocations"
    and "GPUPlan Q (Some p) request nodes allocations = Inr pl"
    and "node \<in> set nodes" and "compatibleQuantity Q p request node = Some q"
    and "gpu_used (gqResourceName request) (ndName node) allocations + gqCount request \<le> qValue Q q"
  shows "gpNodeName pl = gqPreferredNode request \<or>
    (ndName node \<noteq> gqPreferredNode request \<and>
     (let free = qValue Q q - gpu_used (gqResourceName request) (ndName node) allocations
      in free < gpAvailable pl \<or> (free = gpAvailable pl \<and> gpNodeName pl \<le> ndName node)))"
proof -
  let ?occ = "occupiedByNode (gqResourceName request) allocations"
  let ?c = "hd (sort_by candidateLess (snd (gpuCandidates Q p request ?occ nodes)))"
  obtain n0 q0 where c: "?c = candidateOf Q request ?occ n0 q0" "pl = caPlacement ?c"
    using assms(3) by (rule GPUPlan_InrE) (metis (no_types))
  have "candidateOf Q request ?occ node q \<in> set (snd (gpuCandidates Q p request ?occ nodes))"
    unfolding set_gpuCandidates using assms(4-6) freeSlots_eq [OF assms(1,2,4,5)] by force
  then have "\<not> candidateLess (candidateOf Q request ?occ node q) ?c"
    by (rule gpu_rank.sort_by_hd_least)
  then show ?thesis
    using c freeSlots_eq [OF assms(1,2,4,5)]
    by (auto simp: candidateLess_def candidateOf_def Let_def not_less split: if_splits)
qed

theorem GPUPlan_best_witness:
  "let pl = \<lparr>gpNodeName = ''b'', gpTotal = 2, gpOccupied = 0, gpAvailable = 2\<rparr>
   in gpNodeName pl = ''b'' \<or>
      (''a'' \<noteq> ''b'' \<and> ((4 :: int) < gpAvailable pl \<or> (4 = gpAvailable pl \<and> gpNodeName pl \<le> ''a'')))"
proof -
  have "compatibleQuantity whole_quantity samplePlanner (sampleRequest 2) (sampleNode ''a'' 4) = Some 4" by code_simp
  moreover have "sampleNode ''a'' 4 \<in> set sampleNodes" by (simp add: sampleNodes_def)
  moreover have "qValue whole_quantity 4 = 4" by (simp add: whole_quantity_def maxInt64_def)
  ultimately show ?thesis
    using GPUPlan_best [OF whole_quantity_value_ok sample_fits sample_plan, of "sampleNode ''a'' 4" 4]
    by (simp add: sampleRequest_def sampleNode_def)
qed

end
