(* ===== verification/Kube_Client.thy ===== *)
theory Kube_Client
  imports Deployment_Validation Cache_Contract Preflight
begin

text \<open>
  The interface between the lifecycle controller and what it runs against: the Kubernetes API through controller-runtime's
  client, the gateway's drain endpoint, the runtimes' metrics endpoint, and the recorders of events and metrics. None of it is code
  of the repository, so it is a parameter: the record \<open>client\<close> of the calls that the controller makes, over an abstract state
  \<open>'c\<close> of the world. A call returns an error or a value together with the state it leaves. A patch is given the object before and
  after the change, as \<open>client.MergeFrom\<close> is; it returns the object that the server answers with. The one field that the
  controller itself changes, \<open>queueMetricDirty\<close>, is kept in the same state and is reached by a getter and a setter.

  A fallible step of the controller is a function from the state of the world to a result and a state.
\<close>

section \<open>Effects\<close>

datatype observation =
    EventRecorded string string Event
  | SetGPUSlots string int int int
  | SetActivationQueueDepth int
  | ObserveActivationDuration duration
  | IncFailure string string

record RuntimeMetrics =
  rmPendingRequests :: int
  rmRunningRequests :: int

section \<open>Calls\<close>

type_synonym ('c, 'a) call = "'c \<Rightarrow> (api_error, 'a) result \<times> 'c"

record ('c, 'q) client =
  kGetModelDeployment :: "string \<Rightarrow> string \<Rightarrow> ('c, ModelDeployment) call"
  kListModelDeployments :: "('c, ModelDeployment list) call"
  kPatchModelDeploymentStatus :: "ModelDeployment \<Rightarrow> ModelDeployment \<Rightarrow> ('c, ModelDeployment) call"
  kGetModelRuntime :: "string \<Rightarrow> string \<Rightarrow> ('c, ModelRuntime) call"
  kGetModelCache :: "string \<Rightarrow> string \<Rightarrow> ('c, ModelCache) call"
  kCreateModelCache :: "ModelCache \<Rightarrow> ('c, ModelCache) call"
  kPatchModelCache :: "ModelCache \<Rightarrow> ModelCache \<Rightarrow> ('c, ModelCache) call"
  kPatchModelCacheStatus :: "ModelCache \<Rightarrow> ModelCache \<Rightarrow> ('c, ModelCache) call"
  kGetService :: "string \<Rightarrow> string \<Rightarrow> ('c, Service) call"
  kCreateService :: "Service \<Rightarrow> ('c, Service) call"
  kPatchService :: "Service \<Rightarrow> Service \<Rightarrow> ('c, Service) call"
  kGetConfigMap :: "string \<Rightarrow> string \<Rightarrow> ('c, ConfigMap) call"
  kCreateConfigMap :: "ConfigMap \<Rightarrow> ('c, ConfigMap) call"
  kPatchConfigMap :: "ConfigMap \<Rightarrow> ConfigMap \<Rightarrow> ('c, ConfigMap) call"
  kGetWorkload :: "string \<Rightarrow> string \<Rightarrow> ('c, 'q Deployment) call"
  kListWorkloads :: "string_map \<Rightarrow> ('c, 'q Deployment list) call"
  kCreateWorkload :: "'q Deployment \<Rightarrow> ('c, 'q Deployment) call"
  kPatchWorkload :: "'q Deployment \<Rightarrow> 'q Deployment \<Rightarrow> ('c, 'q Deployment) call"
  kDeleteWorkload :: "'q Deployment \<Rightarrow> ('c, unit) call"
  kGetBudget :: "string \<Rightarrow> string \<Rightarrow> ('c, PodDisruptionBudget) call"
  kCreateBudget :: "PodDisruptionBudget \<Rightarrow> ('c, PodDisruptionBudget) call"
  kPatchBudget :: "PodDisruptionBudget \<Rightarrow> PodDisruptionBudget \<Rightarrow> ('c, PodDisruptionBudget) call"
  kDeleteBudget :: "PodDisruptionBudget \<Rightarrow> ('c, unit) call"
  kGetNode :: "string \<Rightarrow> ('c, 'q Node) call"
  kListNodes :: "('c, 'q Node list) call"
  kDrainComplete :: "(string \<Rightarrow> string \<Rightarrow> 'c \<Rightarrow> (string, bool) result \<times> 'c) option"
  kScrapeRuntimeMetrics :: "(string \<Rightarrow> string \<Rightarrow> int \<Rightarrow> string \<Rightarrow> 'c \<Rightarrow> (string, RuntimeMetrics) result \<times> 'c) option"
  kObserve :: "observation \<Rightarrow> 'c \<Rightarrow> 'c"
  kQueueMetricDirty :: "'c \<Rightarrow> bool"
  kSetQueueMetricDirty :: "bool \<Rightarrow> 'c \<Rightarrow> 'c"

section \<open>Steps of the controller\<close>

datatype permanent_error =
    PermanentResource string resource_error
  | PermanentContract string cache_contract_error
  | PermanentOwner string string
  | PermanentCacheImmutable string

datatype lifecycle_error =
    ApiFailure string api_error
  | PermanentLifecycle permanent_error
  | NotControlledBy string string
  | ValidationFailure resolve_error
  | DrainTimeoutUnparsed duration_error
  | DrainTimeoutZero
  | DrainCheckFailure string
  | PlacementFailure gpu_error
  | PreflightFailure preflight_error
  | UnsupportedActivationPolicy
  | TargetOutsideNamespace string string string
  | TargetParticipating string string
  | TargetReleaseFailure string string lifecycle_error
  | ParticipantRequired

definition is_permanent :: "lifecycle_error \<Rightarrow> bool" where
  "is_permanent e = (case e of PermanentLifecycle _ \<Rightarrow> True | _ \<Rightarrow> False)"

type_synonym ('e, 'c, 'a) fallible = "'c \<Rightarrow> ('e, 'a) result \<times> 'c"

type_synonym ('c, 'a) act = "(lifecycle_error, 'c, 'a) fallible"

definition ok :: "'a \<Rightarrow> ('e, 'c, 'a) fallible" where
  [go_defs]: "ok x = (\<lambda>c. (Inr x, c))"

definition throw :: "'e \<Rightarrow> ('e, 'c, 'a) fallible" where
  [go_defs]: "throw e = (\<lambda>c. (Inl e, c))"

text \<open>Run a step and continue with its value; an error is returned at once.\<close>

definition andThen :: "('e, 'c, 'a) fallible \<Rightarrow> ('a \<Rightarrow> ('e, 'c, 'b) fallible) \<Rightarrow> ('e, 'c, 'b) fallible" where
  "andThen m f = (\<lambda>c. case m c of (Inl e, c') \<Rightarrow> (Inl e, c') | (Inr x, c') \<Rightarrow> f x c')"

text \<open>Run a step and continue with its outcome, whatever it is.\<close>

definition onOutcome :: "('e, 'c, 'a) fallible \<Rightarrow> (('e, 'a) result \<Rightarrow> ('f, 'c, 'b) fallible) \<Rightarrow> ('f, 'c, 'b) fallible" where
  "onOutcome m f = (\<lambda>c. case m c of (r, c') \<Rightarrow> f r c')"

text \<open>An API call whose error is wrapped with a text.\<close>

definition api :: "string \<Rightarrow> ('c, 'a) call \<Rightarrow> ('c, 'a) act" where
  "api what m = (\<lambda>c. case m c of (Inl e, c') \<Rightarrow> (Inl (ApiFailure what e), c') | (Inr x, c') \<Rightarrow> (Inr x, c'))"

text \<open>A read that treats a missing object as no object.\<close>

definition apiOptional :: "string \<Rightarrow> ('c, 'a) call \<Rightarrow> ('c, 'a option) act" where
  "apiOptional what m = (\<lambda>c. case m c of
     (Inl e, c') \<Rightarrow> (if e = NotFound then Inr None else Inl (ApiFailure what e), c')
   | (Inr x, c') \<Rightarrow> (Inr (Some x), c'))"

text \<open>A deletion that tolerates a missing object.\<close>

definition apiDelete :: "string \<Rightarrow> ('c, unit) call \<Rightarrow> ('c, unit) act" where
  "apiDelete what m = (\<lambda>c. case m c of
     (Inl e, c') \<Rightarrow> (if e = NotFound then Inr () else Inl (ApiFailure what e), c')
   | (Inr x, c') \<Rightarrow> (Inr (), c'))"

definition observe :: "('c, 'q) client \<Rightarrow> observation \<Rightarrow> ('c, unit) act" where
  [go_defs]: "observe K e = (\<lambda>c. (Inr (), kObserve K e c))"

definition recordEvent :: "('c, 'q) client \<Rightarrow> ModelDeployment \<Rightarrow> Event \<Rightarrow> ('c, unit) act" where
  [go_defs]: "recordEvent K d event = observe K (EventRecorded (mdNamespace d) (mdName d) event)"

section \<open>Rules for steps\<close>

lemma andThen_Inr:
  "andThen m f c = (Inr y, c'') \<longleftrightarrow> (\<exists>x c'. m c = (Inr x, c') \<and> f x c' = (Inr y, c''))"
  by (auto simp: andThen_def split: prod.splits sum.splits)

lemma andThen_ok [simp]: "andThen (ok x) f = f x"
  by (simp add: andThen_def ok_def)

lemma andThen_throw [simp]: "andThen (throw e) f = throw e"
  by (simp add: andThen_def throw_def)

lemma ok_Inr [simp]: "ok x c = (Inr y, c') \<longleftrightarrow> x = y \<and> c = c'"
  by (auto simp: ok_def)

lemma throw_Inr [simp]: "throw e c \<noteq> (Inr y, c')"
  by (simp add: throw_def)

lemma api_Inr: "api what m c = (Inr x, c') \<longleftrightarrow> m c = (Inr x, c')"
  by (auto simp: api_def split: prod.splits sum.splits)

lemma apiOptional_None: "apiOptional what m c = (Inr None, c') \<longleftrightarrow> m c = (Inl NotFound, c')"
  by (auto simp: apiOptional_def split: prod.splits sum.splits if_splits)

lemma apiOptional_Some: "apiOptional what m c = (Inr (Some x), c') \<longleftrightarrow> m c = (Inr x, c')"
  by (auto simp: apiOptional_def split: prod.splits sum.splits if_splits)

lemma apiDelete_Inr:
  "apiDelete what m c = (Inr u, c') \<longleftrightarrow> m c = (Inr (), c') \<or> m c = (Inl NotFound, c')"
  by (auto simp: apiDelete_def split: prod.splits sum.splits if_splits)

lemma onOutcome_eq: "onOutcome m f c = f (fst (m c)) (snd (m c))"
  by (simp add: onOutcome_def case_prod_beta)

lemma observe_Inr [simp]: "observe K e c = (Inr u, c') \<longleftrightarrow> c' = kObserve K e c"
  by (auto simp: observe_def)

text \<open>Case distinctions on steps that are already run.\<close>

lemma case_throw_Inr:
  "(case x of Inl e \<Rightarrow> throw (g e) | Inr y \<Rightarrow> f y) c = (Inr z, c') \<longleftrightarrow> (\<exists>y. x = Inr y \<and> f y c = (Inr z, c'))"
  by (cases x) simp_all

lemma case_option_act:
  "(case x of None \<Rightarrow> m | Some y \<Rightarrow> f y) c = r \<longleftrightarrow> x = None \<and> m c = r \<or> (\<exists>y. x = Some y \<and> f y c = r)"
  by (cases x) simp_all

lemma if_act: "(if b then m else n) c = r \<longleftrightarrow> b \<and> m c = r \<or> \<not> b \<and> n c = r"
  by simp

lemmas act_rules = andThen_Inr api_Inr case_throw_Inr case_option_act if_act apiOptional_None apiOptional_Some

section \<open>Postconditions\<close>

text \<open>
  \<open>yields P m\<close>: every value with which the step \<open>m\<close> returns satisfies \<open>P\<close>, whatever the world does. The rules follow the
  structure of a step; they are collected in \<open>yield_rules\<close>.
\<close>

named_theorems yield_rules

definition yields :: "('a \<Rightarrow> bool) \<Rightarrow> ('c \<Rightarrow> ('e, 'a) result \<times> 'c) \<Rightarrow> bool" where
  "yields P m \<longleftrightarrow> (\<forall>c x c'. m c = (Inr x, c') \<longrightarrow> P x)"

lemma yieldsD: "yields P m \<Longrightarrow> m c = (Inr x, c') \<Longrightarrow> P x"
  by (auto simp: yields_def)

lemma yields_mono: "yields P m \<Longrightarrow> (\<And>x. P x \<Longrightarrow> P' x) \<Longrightarrow> yields P' m"
  by (auto simp: yields_def)

lemma yields_ok: "P x \<Longrightarrow> yields P (ok x)"
  by (simp add: yields_def)

lemma yields_throw [yield_rules]: "yields P (throw e)"
  by (simp add: yields_def)

lemma yields_andThen [yield_rules]: "(\<And>x. yields P (f x)) \<Longrightarrow> yields P (andThen m f)"
  by (fastforce simp: yields_def andThen_Inr)

lemma yields_andThen_post: "yields R m \<Longrightarrow> (\<And>x. R x \<Longrightarrow> yields P (f x)) \<Longrightarrow> yields P (andThen m f)"
  by (fastforce simp: yields_def andThen_Inr)

lemma yields_onOutcome [yield_rules]: "(\<And>r. yields P (f r)) \<Longrightarrow> yields P (onOutcome m f)"
  by (simp add: yields_def onOutcome_eq)

lemma yields_onOutcome_post:
  "(\<And>x c c'. m c = (Inr x, c') \<Longrightarrow> yields P (f (Inr x))) \<Longrightarrow> (\<And>e. yields P (f (Inl e))) \<Longrightarrow> yields P (onOutcome m f)"
  unfolding yields_def onOutcome_eq by (metis prod.collapse sum.exhaust)

lemma yields_if [yield_rules]: "(b \<Longrightarrow> yields P m) \<Longrightarrow> (\<not> b \<Longrightarrow> yields P n) \<Longrightarrow> yields P (if b then m else n)"
  by simp

lemma yields_case_option [yield_rules]:
  "(x = None \<Longrightarrow> yields P m) \<Longrightarrow> (\<And>y. x = Some y \<Longrightarrow> yields P (f y)) \<Longrightarrow> yields P (case x of None \<Rightarrow> m | Some y \<Rightarrow> f y)"
  by (cases x) simp_all

lemma yields_case_sum [yield_rules]:
  "(\<And>e. x = Inl e \<Longrightarrow> yields P (g e)) \<Longrightarrow> (\<And>y. x = Inr y \<Longrightarrow> yields P (f y)) \<Longrightarrow> yields P (case x of Inl e \<Rightarrow> g e | Inr y \<Rightarrow> f y)"
  by (cases x) simp_all

lemma yields_case_prod [yield_rules]: "(\<And>a b. x = (a, b) \<Longrightarrow> yields P (f a b)) \<Longrightarrow> yields P (case x of (a, b) \<Rightarrow> f a b)"
  by (cases x) simp_all

end
