(* ===== verification/Lifecycle_Base.thy ===== *)
theory Lifecycle_Base
  imports Kube_Client
begin

text \<open>
  The helpers of \<open>operator/controllers/modeldeployment_lifecycle_controller.go\<close> that only compute: effective settings, replica and
  GPU counts, the comparison of a stored Deployment with the rendered one, readiness, ownership, labels, and the groups of
  conditions that the transitions write.
\<close>

section \<open>Effective settings\<close>

definition deploymentRequeueAfter :: duration where
  [const_defs]: "deploymentRequeueAfter = 10 * 1000000000"

definition waitingRequeueAfter :: duration where
  [const_defs]: "waitingRequeueAfter = 30 * 1000000000"

definition effectiveDesiredState :: "ModelDeployment \<Rightarrow> ActivationDesiredState" where
  "effectiveDesiredState d =
     (if asDesiredState (dsActivation (mdSpec d)) = ActivationDesiredStateUnset then ActivationDesiredStateInactive
      else asDesiredState (dsActivation (mdSpec d)))"

definition effectiveWhenFull :: "ModelDeployment \<Rightarrow> ActivationWhenFull" where
  "effectiveWhenFull d =
     (if asWhenFull (dsActivation (mdSpec d)) = ActivationWhenFullUnset then ActivationWhenFullQueue
      else asWhenFull (dsActivation (mdSpec d)))"

definition effectiveMaxReplicas :: "ModelDeployment \<Rightarrow> int" where
  "effectiveMaxReplicas d =
     (if scMaxReplicas (dsScaling (mdSpec d)) < 1 then 1 else scMaxReplicas (dsScaling (mdSpec d)))"

definition baseRuntimeReplicas :: "ModelDeployment \<Rightarrow> int" where
  "baseRuntimeReplicas d =
     (let wanted = scMinReplicas (dsScaling (mdSpec d)); replicas = (if wanted < 1 then 1 else wanted)
      in if replicas > effectiveMaxReplicas d then effectiveMaxReplicas d else replicas)"

definition effectiveRuntimeReplicas :: "ModelDeployment \<Rightarrow> int" where
  "effectiveRuntimeReplicas d =
     (let wanted = stDesiredReplicas (dtScaling (mdStatus d))
      in if wanted > 0 then (if wanted \<le> effectiveMaxReplicas d then wanted else effectiveMaxReplicas d)
         else baseRuntimeReplicas d)"

definition autoscalingEnabled :: "ModelDeployment \<Rightarrow> bool" where
  "autoscalingEnabled d \<longleftrightarrow>
     scTargetPendingRequests (dsScaling (mdSpec d)) > 0 \<or> scIdleTimeout (dsScaling (mdSpec d)) \<noteq> []"

definition shouldHoldIdleScaleToZero :: "ModelDeployment \<Rightarrow> bool" where
  "shouldHoldIdleScaleToZero d =
     (if scMinReplicas (dsScaling (mdSpec d)) \<noteq> 0 \<or> scIdleTimeout (dsScaling (mdSpec d)) = [] \<or>
         dtObservedGeneration (mdStatus d) < omGeneration (mdMeta d) then False
      else (case FindCondition (dtConditions (mdStatus d)) ConditionReady of
              Some ready \<Rightarrow> cReason ready = ReasonIdleScaledToZero | None \<Rightarrow> False))"

definition effectiveIdleTimeout :: "ModelDeployment \<Rightarrow> duration option" where
  "effectiveIdleTimeout d =
     (if scIdleTimeout (dsScaling (mdSpec d)) = [] then None
      else (case ParseDuration (scIdleTimeout (dsScaling (mdSpec d))) of
              Inl _ \<Rightarrow> None
            | Inr timeout \<Rightarrow> if timeout \<le> 0 then None else Some timeout))"

definition scalingRequeueAfter :: "ModelDeployment \<Rightarrow> duration" where
  "scalingRequeueAfter d =
     (if \<not> autoscalingEnabled d then 0
      else (case effectiveIdleTimeout d of
              Some timeout \<Rightarrow> if timeout < waitingRequeueAfter then timeout else waitingRequeueAfter
            | None \<Rightarrow> waitingRequeueAfter))"

definition rolloutRequiresSpareCapacity :: "ModelDeployment \<Rightarrow> bool" where
  "rolloutRequiresSpareCapacity d \<longleftrightarrow>
     effectiveRolloutStrategy d \<in> {RolloutStrategyRolling, RolloutStrategyBlueGreen, RolloutStrategyCanary}"

definition effectiveRolloutWhenCapacityUnavailable :: "ModelDeployment \<Rightarrow> RolloutWhenCapacityUnavailable" where
  "effectiveRolloutWhenCapacityUnavailable d =
     (if roWhenCapacityUnavailable (dsRollout (mdSpec d)) = RolloutWhenCapacityUnavailableUnset
      then RolloutWhenCapacityUnavailableQueue else roWhenCapacityUnavailable (dsRollout (mdSpec d)))"

section \<open>GPU counts\<close>

definition gpuResourceName :: "ModelDeployment \<Rightarrow> string" where
  "gpuResourceName d =
     (case rrGPU (dsResources (mdSpec d)) of
        Some gpu \<Rightarrow> (if grVendor gpu \<noteq> [] then grVendor gpu else DefaultGPUVendor)
      | None \<Rightarrow> DefaultGPUVendor) @ ''.com/gpu''"

text \<open>Products of two \<open>int32\<close> values do not leave \<open>int64\<close>; the later sums and products may.\<close>

definition effectiveGPUReservation :: "ModelDeployment \<Rightarrow> int" where
  "effectiveGPUReservation d =
     (case rrGPU (dsResources (mdSpec d)) of
        None \<Rightarrow> 0
      | Some gpu \<Rightarrow> wrap64 (grCount gpu * effectiveRuntimeReplicas d))"

definition gpusPerReplica :: "ModelDeployment \<Rightarrow> int" where
  "gpusPerReplica d =
     (case rrGPU (dsResources (mdSpec d)) of
        Some gpu \<Rightarrow> if grCount gpu < 1 then 1 else grCount gpu
      | None \<Rightarrow> 1)"

definition deploymentReplicas :: "'q Deployment \<Rightarrow> int" where
  "deploymentReplicas w = (case dpReplicas (rdSpec w) of None \<Rightarrow> 1 | Some replicas \<Rightarrow> replicas)"

text \<open>The loop over the containers: the amounts of one resource, added up.\<close>

definition addPerPod :: "'q quantity_ops \<Rightarrow> string \<Rightarrow> int \<Rightarrow> 'q Container \<Rightarrow> int" where
  "addPerPod Q resourceName perPod container =
     (case map_of (ckRequests container) resourceName of
        Some quantity \<Rightarrow> if qSign Q quantity > 0 then wrap64 (perPod + qValue Q quantity) else perPod
      | None \<Rightarrow> perPod)"

definition runtimeDeploymentGPUReservation :: "'q quantity_ops \<Rightarrow> 'q Deployment \<Rightarrow> string \<Rightarrow> int" where
  "runtimeDeploymentGPUReservation Q w resourceName =
     (if deploymentReplicas w \<le> 0 then 0
      else wrap64 (foldl (addPerPod Q resourceName) 0 (poContainers (plSpec (dpTemplate (rdSpec w)))) * deploymentReplicas w))"

definition rolloutRequiredGPUSlots :: "'q quantity_ops \<Rightarrow> ModelDeployment \<Rightarrow> 'q Deployment \<Rightarrow> int" where
  "rolloutRequiredGPUSlots Q d existing =
     (let oldSlots = runtimeDeploymentGPUReservation Q existing (gpuResourceName d)
      in if oldSlots \<le> 0 then effectiveGPUReservation d
         else if effectiveRolloutStrategy d = RolloutStrategyBlueGreen then wrap64 (oldSlots + effectiveGPUReservation d)
         else if effectiveRolloutStrategy d \<in> {RolloutStrategyRolling, RolloutStrategyCanary}
           then wrap64 (oldSlots + gpusPerReplica d)
         else effectiveGPUReservation d)"

definition rolloutSurgeReservationActive :: "ModelDeployment \<Rightarrow> bool" where
  "rolloutSurgeReservationActive d =
     (if \<not> rolloutRequiresSpareCapacity d then False
      else (case FindCondition (dtConditions (mdStatus d)) ConditionRollout of
              Some c \<Rightarrow> cStatus c = ConditionTrue \<and> cObservedGeneration c \<ge> omGeneration (mdMeta d) \<and>
                        cReason c = ReasonRolloutCapacityReserved
            | None \<Rightarrow> False))"

definition rolloutSurgeGPUReservation :: "ModelDeployment \<Rightarrow> int" where
  "rolloutSurgeGPUReservation d =
     (let steady = effectiveGPUReservation d
      in if steady \<le> 0 \<or> rrGPU (dsResources (mdSpec d)) = None then steady
         else if effectiveRolloutStrategy d = RolloutStrategyBlueGreen then wrap64 (steady * 2)
         else if effectiveRolloutStrategy d \<in> {RolloutStrategyRolling, RolloutStrategyCanary}
           then wrap64 (steady + gpusPerReplica d)
         else steady)"

section \<open>Comparison with the stored Deployment\<close>

text \<open>
  \<open>reflect.DeepEqual\<close> on maps compares them as maps. \<open>containsLabels\<close> and \<open>containsStringMap\<close> read a missing key as the empty string.
\<close>

definition maps_equal :: "('k \<times> 'v) list \<Rightarrow> ('k \<times> 'v) list \<Rightarrow> bool" where
  "maps_equal a b \<longleftrightarrow> list_all (\<lambda>k. map_of a k = map_of b k) (map fst a @ map fst b)"

definition containsLabels :: "string_map \<Rightarrow> string_map \<Rightarrow> bool" where
  "containsLabels existing desired \<longleftrightarrow> list_all (\<lambda>(key, value). mget existing key = value) desired"

definition mergeLabels :: "string_map \<Rightarrow> string_map \<Rightarrow> string_map" where
  "mergeLabels existing desired = foldl (\<lambda>m (key, value). AList.update key value m) existing desired"

definition normalizeProbeDefaults :: "Probe \<Rightarrow> Probe" where
  "normalizeProbeDefaults probe = (if peSuccessThreshold probe = 0 then probe\<lparr>peSuccessThreshold := 1\<rparr> else probe)"

definition normalizeContainerDefaults :: "'q Container \<Rightarrow> 'q Container" where
  "normalizeContainerDefaults c =
     c\<lparr>ckTerminationMessagePath :=
         (if ckTerminationMessagePath c = [] then ''/dev/termination-log'' else ckTerminationMessagePath c),
       ckTerminationMessagePolicy := (if ckTerminationMessagePolicy c = [] then ''File'' else ckTerminationMessagePolicy c),
       ckStartupProbe := map_option normalizeProbeDefaults (ckStartupProbe c),
       ckReadinessProbe := map_option normalizeProbeDefaults (ckReadinessProbe c),
       ckLivenessProbe := map_option normalizeProbeDefaults (ckLivenessProbe c)\<rparr>"

definition normalizeRuntimeDeploymentSpecDefaults :: "'q DeploymentSpec \<Rightarrow> 'q DeploymentSpec" where
  "normalizeRuntimeDeploymentSpecDefaults spec =
     (let template = dpTemplate spec; pod = plSpec template
      in spec\<lparr>dpRevisionHistoryLimit :=
                (case dpRevisionHistoryLimit spec of None \<Rightarrow> Some 10 | Some limit \<Rightarrow> Some limit),
              dpTemplate := template\<lparr>plSpec :=
                pod\<lparr>poRestartPolicy := (if poRestartPolicy pod = [] then ''Always'' else poRestartPolicy pod),
                    poDNSPolicy := (if poDNSPolicy pod = [] then ''ClusterFirst'' else poDNSPolicy pod),
                    poSchedulerName := (if poSchedulerName pod = [] then ''default-scheduler'' else poSchedulerName pod),
                    poContainers := map normalizeContainerDefaults (poContainers pod)\<rparr>\<rparr>\<rparr>)"

definition runtimeProbeEqual :: "Probe option \<Rightarrow> Probe option \<Rightarrow> bool" where
  "runtimeProbeEqual existing desired \<longleftrightarrow>
     map_option normalizeProbeDefaults existing = map_option normalizeProbeDefaults desired"

text \<open>\<open>Semantic.DeepEqual\<close> on resource lists compares quantities by value.\<close>

definition amounts_equal :: "'q quantity_ops \<Rightarrow> (string \<times> 'q) list \<Rightarrow> (string \<times> 'q) list \<Rightarrow> bool" where
  "amounts_equal Q a b \<longleftrightarrow>
     list_all (\<lambda>k. case (map_of a k, map_of b k) of
                     (Some x, Some y) \<Rightarrow> qCmp Q x y = 0
                   | (None, None) \<Rightarrow> True
                   | _ \<Rightarrow> False) (map fst a @ map fst b)"

definition runtimeContainerEqual :: "'q quantity_ops \<Rightarrow> 'q Container \<Rightarrow> 'q Container \<Rightarrow> bool" where
  "runtimeContainerEqual Q existing desired \<longleftrightarrow>
     ckName existing = ckName desired \<and> ckImage existing = ckImage desired \<and>
     ckImagePullPolicy existing = ckImagePullPolicy desired \<and> ckCommand existing = ckCommand desired \<and>
     ckArgs existing = ckArgs desired \<and> ckPorts existing = ckPorts desired \<and> ckEnv existing = ckEnv desired \<and>
     amounts_equal Q (ckRequests existing) (ckRequests desired) \<and> amounts_equal Q (ckLimits existing) (ckLimits desired) \<and>
     ckSecurityContext existing = ckSecurityContext desired \<and>
     ckTerminationMessagePath existing = ckTerminationMessagePath desired \<and>
     ckTerminationMessagePolicy existing = ckTerminationMessagePolicy desired \<and>
     runtimeProbeEqual (ckStartupProbe existing) (ckStartupProbe desired) \<and>
     runtimeProbeEqual (ckReadinessProbe existing) (ckReadinessProbe desired) \<and>
     runtimeProbeEqual (ckLivenessProbe existing) (ckLivenessProbe desired) \<and>
     ckVolumeMounts existing = ckVolumeMounts desired"

definition spreadConstraintEqual :: "PodTopologySpreadConstraint \<Rightarrow> PodTopologySpreadConstraint \<Rightarrow> bool" where
  "spreadConstraintEqual a b \<longleftrightarrow>
     ktMaxSkew a = ktMaxSkew b \<and> ktTopologyKey a = ktTopologyKey b \<and> ktWhenUnsatisfiable a = ktWhenUnsatisfiable b \<and>
     maps_equal (ktMatchLabels a) (ktMatchLabels b)"

definition boolPointerValue :: "bool option \<Rightarrow> bool" where
  "boolPointerValue value \<longleftrightarrow> value = Some True"

definition intPointerValue :: "int option \<Rightarrow> int" where
  "intPointerValue value = (case value of None \<Rightarrow> 0 | Some n \<Rightarrow> n)"

definition runtimePodSpecEqual :: "'q quantity_ops \<Rightarrow> 'q PodSpec \<Rightarrow> 'q PodSpec \<Rightarrow> bool" where
  "runtimePodSpecEqual Q existing desired \<longleftrightarrow>
     boolPointerValue (poAutomountServiceAccountToken existing) = boolPointerValue (poAutomountServiceAccountToken desired) \<and>
     boolPointerValue (poEnableServiceLinks existing) = boolPointerValue (poEnableServiceLinks desired) \<and>
     intPointerValue (poTerminationGracePeriodSeconds existing) = intPointerValue (poTerminationGracePeriodSeconds desired) \<and>
     poRestartPolicy existing = poRestartPolicy desired \<and> poDNSPolicy existing = poDNSPolicy desired \<and>
     poSchedulerName existing = poSchedulerName desired \<and> maps_equal (poNodeSelector existing) (poNodeSelector desired) \<and>
     poAffinity existing = poAffinity desired \<and> poTolerations existing = poTolerations desired \<and>
     list_all2 spreadConstraintEqual (poTopologySpreadConstraints existing) (poTopologySpreadConstraints desired) \<and>
     poVolumes existing = poVolumes desired \<and>
     list_all2 (runtimeContainerEqual Q) (poContainers existing) (poContainers desired)"

definition runtimePodTemplateEqual :: "'q quantity_ops \<Rightarrow> 'q PodTemplateSpec \<Rightarrow> 'q PodTemplateSpec \<Rightarrow> bool" where
  "runtimePodTemplateEqual Q existing desired \<longleftrightarrow>
     containsLabels (plLabels existing) (plLabels desired) \<and>
     containsLabels (plAnnotations existing) (plAnnotations desired) \<and>
     runtimePodSpecEqual Q (plSpec existing) (plSpec desired)"

definition runtimeDeploymentSpecEqual :: "'q quantity_ops \<Rightarrow> 'q DeploymentSpec \<Rightarrow> 'q DeploymentSpec \<Rightarrow> bool" where
  "runtimeDeploymentSpecEqual Q existing0 desired0 =
     (let existing = normalizeRuntimeDeploymentSpecDefaults existing0;
          desired = normalizeRuntimeDeploymentSpecDefaults desired0
      in intPointerValue (dpReplicas existing) = intPointerValue (dpReplicas desired) \<and>
         intPointerValue (dpRevisionHistoryLimit existing) = intPointerValue (dpRevisionHistoryLimit desired) \<and>
         intPointerValue (dpProgressDeadlineSeconds existing) = intPointerValue (dpProgressDeadlineSeconds desired) \<and>
         dpMinReadySeconds existing = dpMinReadySeconds desired \<and> dpStrategy existing = dpStrategy desired \<and>
         maps_equal (dpSelector existing) (dpSelector desired) \<and>
         runtimePodTemplateEqual Q (dpTemplate existing) (dpTemplate desired))"

section \<open>Readiness, failure and ownership\<close>

definition runtimeDeploymentReady :: "'q Deployment \<Rightarrow> bool" where
  "runtimeDeploymentReady w =
     (let desired = intPointerValue (dpReplicas (rdSpec w))
      in desired > 0 \<and> dvObservedGeneration (rdStatus w) \<ge> omGeneration (rdMeta w) \<and>
         dvReadyReplicas (rdStatus w) \<ge> desired \<and> dvAvailableReplicas (rdStatus w) \<ge> desired)"

text \<open>The message of the first condition that reports a failure.\<close>

definition runtimeActivationFailure :: "'q Deployment \<Rightarrow> string option" where
  "runtimeActivationFailure w =
     (if dvObservedGeneration (rdStatus w) < omGeneration (rdMeta w) then None
      else map_option dnMessage
             (List.find (\<lambda>c. dnType c = ''Progressing'' \<and> dnStatus c = ConditionFalse \<and>
                              dnReason c = ''ProgressDeadlineExceeded'' \<or>
                              dnType c = ''ReplicaFailure'' \<and> dnStatus c = ConditionTrue)
               (dvConditions (rdStatus w))))"

text \<open>\<open>metav1.GetControllerOf\<close>: the first owner reference that is marked as the controller.\<close>

definition controllerOf :: "ObjectMeta \<Rightarrow> OwnerReference option" where
  "controllerOf meta = List.find (\<lambda>r. orController r = Some True) (omOwnerReferences meta)"

definition controlledBy :: "ObjectMeta \<Rightarrow> ModelDeployment \<Rightarrow> bool" where
  "controlledBy meta d =
     (case controllerOf meta of
        None \<Rightarrow> False
      | Some controller \<Rightarrow>
          orAPIVersion controller = GroupVersion \<and> orKind controller = ''ModelDeployment'' \<and>
          orName controller = mdName d \<and>
          (omUID (mdMeta d) = [] \<or> orUID controller = omUID (mdMeta d)))"

definition assertControlledBy :: "ObjectMeta \<Rightarrow> ModelDeployment \<Rightarrow> ('c, unit) act" where
  "assertControlledBy meta d = (if controlledBy meta d then ok () else throw (NotControlledBy (omName meta) (mdName d)))"

text \<open>The same check where the error is permanent.\<close>

definition requireOwned :: "ObjectMeta \<Rightarrow> ModelDeployment \<Rightarrow> ('c, unit) act" where
  "requireOwned meta d =
     (if controlledBy meta d then ok () else throw (PermanentLifecycle (PermanentOwner (omName meta) (mdName d))))"

definition requiredHostname :: "Affinity option \<Rightarrow> string" where
  "requiredHostname affinity =
     (case affinity of
        None \<Rightarrow> []
      | Some a \<Rightarrow>
          (case afRequired a of
             None \<Rightarrow> []
           | Some terms \<Rightarrow>
               (case List.find (\<lambda>e. nrKey e = LabelHostname \<and> nrOperator e = NodeSelectorOpIn \<and> length (nrValues e) = 1)
                       (concat terms) of
                  Some e \<Rightarrow> hd (nrValues e)
                | None \<Rightarrow> [])))"

text \<open>\<open>reflect.DeepEqual\<close> on cache specs and on object metadata: their maps are compared as maps.\<close>

definition cacheSpecsEqual :: "ModelCacheSpec \<Rightarrow> ModelCacheSpec \<Rightarrow> bool" where
  "cacheSpecsEqual a b \<longleftrightarrow>
     maps_equal (cgNodeSelector (cpStorage a)) (cgNodeSelector (cpStorage b)) \<and>
     a\<lparr>cpStorage := (cpStorage a)\<lparr>cgNodeSelector := []\<rparr>\<rparr> = b\<lparr>cpStorage := (cpStorage b)\<lparr>cgNodeSelector := []\<rparr>\<rparr>"

definition metasEqual :: "ObjectMeta \<Rightarrow> ObjectMeta \<Rightarrow> bool" where
  "metasEqual a b \<longleftrightarrow> maps_equal (omLabels a) (omLabels b) \<and> a\<lparr>omLabels := []\<rparr> = b\<lparr>omLabels := []\<rparr>"

definition readyCacheSpecsCompatible :: "ModelCacheSpec \<Rightarrow> ModelCacheSpec \<Rightarrow> bool" where
  "readyCacheSpecsCompatible existing desired \<longleftrightarrow> cacheSpecsEqual (existing\<lparr>cpSecretRef := []\<rparr>) (desired\<lparr>cpSecretRef := []\<rparr>)"

definition runtimeServiceShouldDetach :: "ModelDeployment \<Rightarrow> bool" where
  "runtimeServiceShouldDetach d =
     (if effectiveDesiredState d \<noteq> ActivationDesiredStateActive then True
      else if dtPhase (mdStatus d) \<in> {ModelDeploymentPhaseDraining, ModelDeploymentPhaseDeactivating, ModelDeploymentPhaseFailed}
        then True
      else (case dtReplacement (mdStatus d) of
              None \<Rightarrow> False
            | Some r \<Rightarrow> rtRequestedBy r \<noteq> None \<and> rtPhase r \<noteq> ReplacementPhaseRollingBack))"

definition retryableOperationalFailure :: "ModelDeploymentStatus \<Rightarrow> bool" where
  "retryableOperationalFailure s =
     (case FindCondition (dtConditions s) ConditionReady of Some ready \<Rightarrow> cReason ready = ReasonCacheFailed | None \<Rightarrow> False)"

section \<open>Conditions of a deployment\<close>

text \<open>Updates of the status of a deployment.\<close>

definition onStatus :: "(ModelDeploymentStatus \<Rightarrow> ModelDeploymentStatus) \<Rightarrow> ModelDeployment \<Rightarrow> ModelDeployment" where
  "onStatus f d = d\<lparr>mdStatus := f (mdStatus d)\<rparr>"

definition setDeploymentCondition ::
  "time \<Rightarrow> string \<Rightarrow> ConditionStatus \<Rightarrow> string \<Rightarrow> string \<Rightarrow> ModelDeployment \<Rightarrow> ModelDeployment" where
  "setDeploymentCondition now type status reason message d =
     onStatus (\<lambda>s. s\<lparr>dtConditions := fst (SetCondition now (dtConditions s) (omGeneration (mdMeta d))
                                          (newCondition type status reason message))\<rparr>) d"

definition removeDeploymentCondition :: "string \<Rightarrow> ModelDeployment \<Rightarrow> ModelDeployment" where
  "removeDeploymentCondition type = onStatus (\<lambda>s. s\<lparr>dtConditions := RemoveCondition (dtConditions s) type\<rparr>)"

definition setDeploymentReadyFalse :: "time \<Rightarrow> string \<Rightarrow> string \<Rightarrow> ModelDeployment \<Rightarrow> ModelDeployment" where
  "setDeploymentReadyFalse now reason message = onStatus (\<lambda>s. fst (setReadyFalse now reason message s))"

definition setGPUCondition :: "time \<Rightarrow> string \<Rightarrow> string \<Rightarrow> ModelDeployment \<Rightarrow> ModelDeployment" where
  "setGPUCondition now reason message d =
     (if rrGPU (dsResources (mdSpec d)) \<noteq> None
      then setDeploymentCondition now ConditionGPUAssigned ConditionFalse reason message d
      else removeDeploymentCondition ConditionGPUAssigned d)"

definition setRuntimeWaitingConditions :: "time \<Rightarrow> string \<Rightarrow> string \<Rightarrow> ModelDeployment \<Rightarrow> ModelDeployment" where
  "setRuntimeWaitingConditions now reason message d =
     setDeploymentReadyFalse now reason message
       (setDeploymentCondition now ConditionRoutingReady ConditionFalse ReasonRouteDisabled message
         (setDeploymentCondition now ConditionModelLoaded ConditionFalse reason message
           (setDeploymentCondition now ConditionRuntimeReady ConditionFalse reason message
             (setGPUCondition now reason message d))))"

definition setRolloutBlockedConditions :: "time \<Rightarrow> string \<Rightarrow> string \<Rightarrow> ModelDeployment \<Rightarrow> ModelDeployment" where
  "setRolloutBlockedConditions now reason message d =
     setDeploymentCondition now ConditionReady ConditionFalse reason
       (message @ ''; existing ready runtime remains unchanged'')
       (setDeploymentCondition now ConditionRollout ConditionFalse reason message d)"

definition setDrainingConditions :: "time \<Rightarrow> ModelDeployment \<Rightarrow> ModelDeployment" where
  "setDrainingConditions now d =
     (let message = ''Gateway routing is disabled while in-flight requests receive their drain grace period''
      in setDeploymentCondition now ConditionReady ConditionFalse ReasonDrainStarted message
           (setDeploymentCondition now ConditionRoutingReady ConditionFalse ReasonDrainStarted message d))"

definition setStableIdentity :: "ModelDeployment \<Rightarrow> ModelDeployment" where
  "setStableIdentity d =
     (let routing = dsRouting (mdSpec d);
          defaultEndpoint = (if roOpenAICompatible routing then GatewayOpenAIBasePath (mdName d) else GatewayModelPath (mdName d));
          endpoint = (if roPath routing = [] then defaultEndpoint
                      else trim_suffix (roPath routing) ''/'' @ (if roOpenAICompatible routing then OpenAIPathPrefix else []))
      in onStatus (\<lambda>s. s\<lparr>dtServiceName := RuntimeServiceName (mdName d), dtEndpoint := endpoint,
                         dtModel := (dtModel s)\<lparr>moRepo := msRepo (dsModel (mdSpec d))\<rparr>\<rparr>) d)"

definition modelCachePhaseString :: "ModelCachePhase \<Rightarrow> string" where
  "modelCachePhaseString phase =
     (case phase of
        ModelCachePhaseUnset \<Rightarrow> []
      | ModelCachePhasePending \<Rightarrow> ''Pending''
      | ModelCachePhaseDownloading \<Rightarrow> ''Downloading''
      | ModelCachePhaseReady \<Rightarrow> ''Ready''
      | ModelCachePhaseFailed \<Rightarrow> ''Failed''
      | ModelCachePhaseOther other \<Rightarrow> other)"

definition projectReadyCache :: "time \<Rightarrow> CacheResult \<Rightarrow> ModelDeployment \<Rightarrow> ModelDeployment" where
  "projectReadyCache now result d =
     setDeploymentCondition now ConditionCacheReady ConditionTrue ReasonCacheVerified
       (''Verified revision '' @ quoted (clRevision result) @ '' is ready on node '' @ clNodeName result)
       (onStatus (\<lambda>s. s\<lparr>dtCache := \<lparr>cuState = modelCachePhaseString ModelCachePhaseReady, cuNodeName = clNodeName result,
                                   cuPath = clPath result\<rparr>\<rparr>) d)"

definition cacheSummary :: "ModelCache \<Rightarrow> ModelCacheSummary" where
  "cacheSummary cache =
     \<lparr>cuState = modelCachePhaseString (ctPhase (mcStatus cache)), cuNodeName = ctNodeName (mcStatus cache),
      cuPath = ctPath (mcStatus cache)\<rparr>"

definition projectCachePending :: "time \<Rightarrow> ModelCache \<Rightarrow> ModelDeployment \<Rightarrow> ModelDeployment" where
  "projectCachePending now cache d =
     setRuntimeWaitingConditions now ReasonCachePending ''Runtime is waiting for the model cache''
       (setDeploymentCondition now ConditionCacheReady ConditionFalse ReasonCachePending ''Waiting for the ModelCache controller''
         (onStatus (\<lambda>s. s\<lparr>dtPhase := ModelDeploymentPhasePending, dtCache := cacheSummary cache\<rparr>) d))"

text \<open>The fields that every path that gives up the runtime resets.\<close>

definition noReplicas :: ReplicaStatus where
  "noReplicas = \<lparr>rcDesired = 0, rcReady = 0\<rparr>"

definition noScaling :: ScalingStatus where
  "noScaling = \<lparr>stDesiredReplicas = 0, stPendingRequests = 0, stRunningRequests = 0, stLastActivityTime = None,
     stCapacityLimited = False, stReason = [], stMessage = []\<rparr>"

definition releaseAssignment :: "ReplicaStatus \<Rightarrow> ModelDeployment \<Rightarrow> ModelDeployment" where
  "releaseAssignment replicas =
     onStatus (\<lambda>s. s\<lparr>dtAssignedNode := [], dtAssignedGPUs := [], dtReplicas := replicas,
                     dtModel := (dtModel s)\<lparr>moLoaded := False\<rparr>\<rparr>)"

section \<open>Requeueing and events\<close>

record Result =
  reRequeue :: bool
  reRequeueAfter :: duration

definition noResult :: Result where
  "noResult = \<lparr>reRequeue = False, reRequeueAfter = 0\<rparr>"

definition requeueAfter :: "duration \<Rightarrow> Result" where
  "requeueAfter d = \<lparr>reRequeue = False, reRequeueAfter = d\<rparr>"

definition deploymentRequeueResult :: "ModelDeploymentPhase \<Rightarrow> Result" where
  "deploymentRequeueResult phase =
     (if phase \<in> {ModelDeploymentPhasePending, ModelDeploymentPhaseWaitingForCapacity, ModelDeploymentPhaseWaitingForGPU}
        then requeueAfter waitingRequeueAfter
      else if phase \<in> {ModelDeploymentPhaseDownloading, ModelDeploymentPhaseActivating, ModelDeploymentPhaseDraining,
                       ModelDeploymentPhaseDeactivating}
        then requeueAfter deploymentRequeueAfter
      else noResult)"

definition lifecycleTransitioned :: "ModelDeploymentStatus \<Rightarrow> ModelDeploymentStatus \<Rightarrow> string \<Rightarrow> bool" where
  "lifecycleTransitioned old new reason =
     (if dtPhase old \<noteq> dtPhase new then True
      else (case (FindCondition (dtConditions old) ConditionReady, FindCondition (dtConditions new) ConditionReady) of
              (Some o', Some n) \<Rightarrow> cStatus o' \<noteq> cStatus n \<or> cReason o' \<noteq> reason
            | (None, None) \<Rightarrow> False
            | _ \<Rightarrow> True))"

section \<open>Facts\<close>

lemma effectiveMaxReplicas_pos: "1 \<le> effectiveMaxReplicas d"
  by (simp add: effectiveMaxReplicas_def)

lemma baseRuntimeReplicas_bounds: "1 \<le> baseRuntimeReplicas d" "baseRuntimeReplicas d \<le> effectiveMaxReplicas d"
  using effectiveMaxReplicas_pos [of d] by (auto simp: baseRuntimeReplicas_def Let_def)

lemma effectiveRuntimeReplicas_bounds:
  "1 \<le> effectiveRuntimeReplicas d" "effectiveRuntimeReplicas d \<le> effectiveMaxReplicas d"
  using baseRuntimeReplicas_bounds [of d] effectiveMaxReplicas_pos [of d]
  by (auto simp: effectiveRuntimeReplicas_def Let_def)

text \<open>The builder and the controller agree on the number of replicas.\<close>

lemma runtimeReplicas_eq: "runtimeReplicas d = effectiveRuntimeReplicas d"
  by (auto simp: runtimeReplicas_def effectiveRuntimeReplicas_def baseRuntimeReplicas_def effectiveMaxReplicas_def Let_def)

lemma maps_equal_iff: "maps_equal a b \<longleftrightarrow> map_of a = map_of b"
proof
  assume eq: "maps_equal a b"
  have "map_of a k = map_of b k" for k
  proof (cases "k \<in> set (map fst a @ map fst b)")
    case True
    then show ?thesis using eq unfolding maps_equal_def list_all_iff by blast
  next
    case False
    then show ?thesis by (simp add: map_of_eq_None_iff [symmetric])
  qed
  then show "map_of a = map_of b" ..
qed (simp add: maps_equal_def list_all_iff)

lemma onStatus_simps [simp]:
  "mdStatus (onStatus f d) = f (mdStatus d)" "mdMeta (onStatus f d) = mdMeta d" "mdSpec (onStatus f d) = mdSpec d"
  by (simp_all add: onStatus_def)

text \<open>The writers of conditions leave everything but the conditions alone.\<close>

lemma setDeploymentCondition_fields [simp]:
  "mdMeta (setDeploymentCondition now t st r m d) = mdMeta d" "mdSpec (setDeploymentCondition now t st r m d) = mdSpec d"
  "dtPhase (mdStatus (setDeploymentCondition now t st r m d)) = dtPhase (mdStatus d)"
  "dtObservedGeneration (mdStatus (setDeploymentCondition now t st r m d)) = dtObservedGeneration (mdStatus d)"
  "dtReplicas (mdStatus (setDeploymentCondition now t st r m d)) = dtReplicas (mdStatus d)"
  "dtModel (mdStatus (setDeploymentCondition now t st r m d)) = dtModel (mdStatus d)"
  "dtDrainStartedAt (mdStatus (setDeploymentCondition now t st r m d)) = dtDrainStartedAt (mdStatus d)"
  "dtAssignedNode (mdStatus (setDeploymentCondition now t st r m d)) = dtAssignedNode (mdStatus d)"
  "dtReplacement (mdStatus (setDeploymentCondition now t st r m d)) = dtReplacement (mdStatus d)"
  "dtScaling (mdStatus (setDeploymentCondition now t st r m d)) = dtScaling (mdStatus d)"
  by (simp_all add: setDeploymentCondition_def)

lemma setDeploymentReadyFalse_fields [simp]:
  "mdMeta (setDeploymentReadyFalse now r m d) = mdMeta d" "mdSpec (setDeploymentReadyFalse now r m d) = mdSpec d"
  "dtPhase (mdStatus (setDeploymentReadyFalse now r m d)) = dtPhase (mdStatus d)"
  "dtObservedGeneration (mdStatus (setDeploymentReadyFalse now r m d)) = dtObservedGeneration (mdStatus d)"
  "dtReplicas (mdStatus (setDeploymentReadyFalse now r m d)) = dtReplicas (mdStatus d)"
  "dtModel (mdStatus (setDeploymentReadyFalse now r m d)) = dtModel (mdStatus d)"
  "dtDrainStartedAt (mdStatus (setDeploymentReadyFalse now r m d)) = dtDrainStartedAt (mdStatus d)"
  "dtAssignedNode (mdStatus (setDeploymentReadyFalse now r m d)) = dtAssignedNode (mdStatus d)"
  "dtReplacement (mdStatus (setDeploymentReadyFalse now r m d)) = dtReplacement (mdStatus d)"
  "dtScaling (mdStatus (setDeploymentReadyFalse now r m d)) = dtScaling (mdStatus d)"
  by (simp_all add: setDeploymentReadyFalse_def setReadyFalse_def setStatusCondition_def case_prod_beta)

lemma removeDeploymentCondition_fields [simp]:
  "mdMeta (removeDeploymentCondition t d) = mdMeta d" "mdSpec (removeDeploymentCondition t d) = mdSpec d"
  "dtPhase (mdStatus (removeDeploymentCondition t d)) = dtPhase (mdStatus d)"
  "dtObservedGeneration (mdStatus (removeDeploymentCondition t d)) = dtObservedGeneration (mdStatus d)"
  "dtReplicas (mdStatus (removeDeploymentCondition t d)) = dtReplicas (mdStatus d)"
  "dtModel (mdStatus (removeDeploymentCondition t d)) = dtModel (mdStatus d)"
  "dtDrainStartedAt (mdStatus (removeDeploymentCondition t d)) = dtDrainStartedAt (mdStatus d)"
  "dtAssignedNode (mdStatus (removeDeploymentCondition t d)) = dtAssignedNode (mdStatus d)"
  "dtReplacement (mdStatus (removeDeploymentCondition t d)) = dtReplacement (mdStatus d)"
  "dtScaling (mdStatus (removeDeploymentCondition t d)) = dtScaling (mdStatus d)"
  by (simp_all add: removeDeploymentCondition_def)

text \<open>
  The API server stores the scheme \<open>HTTP\<close> in a probe without one, which the comparison does not normalise: a stored probe never
  equals the rendered one.
\<close>

lemma defaulted_probe_differs:
  assumes "peHTTPGetScheme stored = ''HTTP''"
  shows "\<not> runtimeProbeEqual (Some stored) (Some (httpProbe path failureThreshold))"
proof -
  have "peHTTPGetScheme (normalizeProbeDefaults probe) = peHTTPGetScheme probe" for probe by (simp add: normalizeProbeDefaults_def)
  then have "peHTTPGetScheme (normalizeProbeDefaults stored) \<noteq> peHTTPGetScheme (normalizeProbeDefaults (httpProbe path failureThreshold))"
    using assms by (simp add: httpProbe_def)
  then show ?thesis by (auto simp: runtimeProbeEqual_def)
qed

end
