(* ===== verification/Lifecycle_Workloads.thy ===== *)
theory Lifecycle_Workloads
  imports Lifecycle_Base
begin

text \<open>
  The operations of the lifecycle controller on the objects it owns: the cache declaration, the Service, the ConfigMap, the
  runtime Deployment and its disruption budget. Each reads the stored object, refuses to touch an object that another owner
  controls, and creates, patches or deletes it. Reading an object twice is assumed to give equal lists for equal maps where a whole
  Deployment is compared.
\<close>

section \<open>Cache declaration\<close>

definition desiredCacheSpec :: "ModelDeployment \<Rightarrow> string \<Rightarrow> string \<Rightarrow> ModelCacheSpec" where
  "desiredCacheSpec d cacheSize cachePath =
     \<lparr>cpModelRepo = msRepo (dsModel (mdSpec d)), cpRevision = msRevision (dsModel (mdSpec d)),
      cpStorage = \<lparr>cgType = ''nodeLocal'', cgSize = cacheSize, cgNodeName = [],
        cgNodeSelector = ssNodeSelector (dsScheduling (mdSpec d)), cgTolerations = ssTolerations (dsScheduling (mdSpec d)),
        cgPath = cachePath\<rparr>,
      cpSecretRef = srHuggingFaceTokenSecretName (dsSecrets (mdSpec d))\<rparr>"

definition emptyCacheStatus :: ModelCacheStatus where
  "emptyCacheStatus = \<lparr>ctObservedGeneration = 0, ctPhase = ModelCachePhaseUnset, ctRevision = [], ctChecksum = [], ctNodeName = [],
     ctNodeUID = [], ctPath = [], ctSize = [], ctReservedSize = [], ctInputHash = [], ctLastUsedTime = 0, ctConditions = []\<rparr>"

definition newModelCache :: "ModelDeployment \<Rightarrow> string \<Rightarrow> ModelCacheSpec \<Rightarrow> ModelCache" where
  "newModelCache d name spec =
     \<lparr>mcMeta = renderedMeta name (mdNamespace d)
        [(LabelPartOf, ValuePartOf), (LabelManagedBy, ValueManagedBy), (LabelModelDeployment, mdName d)] [] [],
      mcSpec = spec, mcStatus = emptyCacheStatus\<rparr>"

definition setCacheLabel :: "string \<Rightarrow> string \<Rightarrow> ModelCache \<Rightarrow> ModelCache" where
  "setCacheLabel key value cache = cache\<lparr>mcMeta := (mcMeta cache)\<lparr>omLabels := AList.update key value (omLabels (mcMeta cache))\<rparr>\<rparr>"

text \<open>An existing declaration is brought up to date unless it is ready under another contract.\<close>

definition updateModelCache ::
  "('c, 'q) client \<Rightarrow> ModelDeployment \<Rightarrow> ModelCacheSpec \<Rightarrow> ModelCache \<Rightarrow> ('c, ModelCache) act" where
  "updateModelCache K d desired cache =
     (if \<not> cacheSpecsEqual (mcSpec cache) desired then
        (if ctPhase (mcStatus cache) = ModelCachePhaseReady \<and> \<not> readyCacheSpecsCompatible (mcSpec cache) desired
           then throw (PermanentLifecycle (PermanentCacheImmutable (mcName cache)))
         else api ''patch ModelCache'' (kPatchModelCache K cache
                (setCacheLabel LabelManagedBy ValueManagedBy
                  (setCacheLabel LabelModelDeployment (mdName d) (cache\<lparr>mcSpec := desired\<rparr>)))))
      else if mget (omLabels (mcMeta cache)) LabelModelDeployment \<noteq> mdName d then
        api ''label ModelCache'' (kPatchModelCache K cache (setCacheLabel LabelModelDeployment (mdName d) cache))
      else ok cache)"

text \<open>The declaration and whether it was created now.\<close>

definition ensureModelCache ::
  "name_checks \<Rightarrow> ('c, 'q) client \<Rightarrow> string \<Rightarrow> string \<Rightarrow> ModelDeployment \<Rightarrow> ('c, ModelCache \<times> bool) act" where
  "ensureModelCache N K cacheRoot defaultCacheSize d =
     (case cacheName N d of
        Inl err \<Rightarrow> throw (PermanentLifecycle (PermanentContract [] err))
      | Inr name \<Rightarrow>
          (case cachePathOf N d cacheRoot of
             Inl err \<Rightarrow> throw (PermanentLifecycle (PermanentContract [] err))
           | Inr cachePath \<Rightarrow>
               let cacheSize = (if csSize (dsCache (mdSpec d)) = [] then defaultCacheSize else csSize (dsCache (mdSpec d)));
                   desired = desiredCacheSpec d cacheSize cachePath
               in andThen (apiOptional ''get ModelCache'' (kGetModelCache K (mdNamespace d) name)) (\<lambda>found.
                    case found of
                      None \<Rightarrow>
                        andThen (api ''create ModelCache'' (kCreateModelCache K (newModelCache d name desired))) (\<lambda>cache.
                        andThen (recordEvent K d (normal ReasonCachePending (''Created ModelCache '' @ quoted name))) (\<lambda>_.
                          ok (cache, True)))
                    | Some cache \<Rightarrow> andThen (updateModelCache K d desired cache) (\<lambda>cache'. ok (cache', False)))))"

definition touchCacheLastUsed :: "('c, 'q) client \<Rightarrow> time \<Rightarrow> ModelCache \<Rightarrow> ('c, unit) act" where
  "touchCacheLastUsed K now cache =
     andThen (api ''update ModelCache lastUsedTime''
                (kPatchModelCacheStatus K cache (cache\<lparr>mcStatus := (mcStatus cache)\<lparr>ctLastUsedTime := now\<rparr>\<rparr>)))
       (\<lambda>_. ok ())"

section \<open>Service and ConfigMap\<close>

definition servicesEqual :: "Service \<Rightarrow> Service \<Rightarrow> bool" where
  "servicesEqual a b \<longleftrightarrow> metasEqual (svMeta a) (svMeta b) \<and> svType a = svType b \<and> svClusterIP a = svClusterIP b \<and>
     maps_equal (svSelector a) (svSelector b) \<and> svPorts a = svPorts b"

definition configMapsEqual :: "ConfigMap \<Rightarrow> ConfigMap \<Rightarrow> bool" where
  "configMapsEqual a b \<longleftrightarrow> metasEqual (cmMeta a) (cmMeta b) \<and> maps_equal (cmData a) (cmData b)"

text \<open>The labels and the owner of a rendered object, written over a stored one.\<close>

definition mergeMeta :: "ObjectMeta \<Rightarrow> ObjectMeta \<Rightarrow> ObjectMeta" where
  "mergeMeta existing desired =
     existing\<lparr>omLabels := mergeLabels (omLabels existing) (omLabels desired), omOwnerReferences := omOwnerReferences desired\<rparr>"

definition mergeService :: "Service \<Rightarrow> Service \<Rightarrow> Service" where
  "mergeService existing desired =
     existing\<lparr>svMeta := mergeMeta (svMeta existing) (svMeta desired), svType := svType desired,
              svSelector := svSelector desired, svPorts := svPorts desired\<rparr>"

definition ensureService ::
  "name_checks \<Rightarrow> ('c, 'q) client \<Rightarrow> ModelDeployment \<Rightarrow> ModelRuntime \<Rightarrow> ('c, Service) act" where
  "ensureService N K d runtime =
     (case BuildRuntimeService N d runtime of
        Inl err \<Rightarrow> throw (PermanentLifecycle (PermanentResource ''build runtime Service'' err))
      | Inr built \<Rightarrow>
          let desired = (if runtimeServiceShouldDetach d then built\<lparr>svSelector := []\<rparr> else built)
          in andThen (apiOptional ''get runtime Service''
                        (kGetService K (omNamespace (svMeta desired)) (omName (svMeta desired)))) (\<lambda>found.
               case found of
                 None \<Rightarrow> api ''create runtime Service'' (kCreateService K desired)
               | Some existing \<Rightarrow>
                   andThen (requireOwned (svMeta existing) d) (\<lambda>_.
                     let merged = mergeService existing desired
                     in if servicesEqual existing merged then ok merged
                        else api ''patch runtime Service'' (kPatchService K existing merged))))"

definition detachRuntimeService :: "('c, 'q) client \<Rightarrow> ModelDeployment \<Rightarrow> ('c, unit) act" where
  "detachRuntimeService K d =
     andThen (apiOptional ''get runtime Service for endpoint withdrawal''
                (kGetService K (mdNamespace d) (RuntimeServiceName (mdName d)))) (\<lambda>found.
       case found of
         None \<Rightarrow> ok ()
       | Some service \<Rightarrow>
           if \<not> controlledBy (svMeta service) d then ok ()
           else if svSelector service = [] then ok ()
           else andThen (api ''withdraw runtime Service endpoints'' (kPatchService K service (service\<lparr>svSelector := []\<rparr>)))
                  (\<lambda>_. ok ()))"

definition ensureConfigMap ::
  "name_checks \<Rightarrow> ('c, 'q) client \<Rightarrow> string \<Rightarrow> ModelDeployment \<Rightarrow> ModelRuntime \<Rightarrow> ('c, ConfigMap) act" where
  "ensureConfigMap N K cacheRoot d runtime =
     (case BuildRuntimeConfigMap N d runtime of
        Inl err \<Rightarrow> throw (PermanentLifecycle (PermanentResource ''build runtime ConfigMap'' err))
      | Inr built \<Rightarrow>
          (case cachePathOf N d cacheRoot of
             Inl err \<Rightarrow> throw (PermanentLifecycle (PermanentContract ''resolve runtime ConfigMap cache path'' err))
           | Inr cachePath \<Rightarrow>
               let desired = built\<lparr>cmData := AList.update ''cache.path'' cachePath (cmData built)\<rparr>
               in andThen (apiOptional ''get runtime ConfigMap''
                             (kGetConfigMap K (omNamespace (cmMeta desired)) (omName (cmMeta desired)))) (\<lambda>found.
                    case found of
                      None \<Rightarrow> api ''create runtime ConfigMap'' (kCreateConfigMap K desired)
                    | Some existing \<Rightarrow>
                        andThen (requireOwned (cmMeta existing) d) (\<lambda>_.
                          let merged = existing\<lparr>cmMeta := mergeMeta (cmMeta existing) (cmMeta desired), cmData := cmData desired\<rparr>
                          in if configMapsEqual existing merged then ok merged
                             else api ''patch runtime ConfigMap'' (kPatchConfigMap K existing merged)))))"

section \<open>Runtime Deployment\<close>

definition workloadChanged :: "'q quantity_ops \<Rightarrow> 'q Deployment \<Rightarrow> 'q Deployment \<Rightarrow> bool" where
  "workloadChanged Q existing desired \<longleftrightarrow>
     \<not> runtimeDeploymentSpecEqual Q (rdSpec existing) (rdSpec desired) \<or>
     omOwnerReferences (rdMeta existing) \<noteq> omOwnerReferences (rdMeta desired) \<or>
     \<not> containsLabels (omLabels (rdMeta existing)) (omLabels (rdMeta desired))"

text \<open>
  After a patch the object is read again; a generation that lags behind although the spec changed is advanced, so
  that the old status is not taken for the new spec's.
\<close>

definition advanceGeneration :: "bool \<Rightarrow> 'q Deployment \<Rightarrow> 'q Deployment \<Rightarrow> 'q Deployment" where
  "advanceGeneration specChanged before refreshed =
     (if specChanged \<and> omGeneration (rdMeta refreshed) \<le> omGeneration (rdMeta before) \<and> rdSpec before \<noteq> rdSpec refreshed
      then refreshed\<lparr>rdMeta := (rdMeta refreshed)\<lparr>omGeneration := omGeneration (rdMeta before) + 1\<rparr>\<rparr> else refreshed)"

definition updateWorkload ::
  "'q quantity_ops \<Rightarrow> ('c, 'q) client \<Rightarrow> 'q Deployment \<Rightarrow> 'q Deployment \<Rightarrow> ('c, 'q Deployment) act" where
  "updateWorkload Q K existing desired =
     (let merged = existing\<lparr>rdMeta := mergeMeta (rdMeta existing) (rdMeta desired), rdSpec := rdSpec desired\<rparr>
      in if \<not> workloadChanged Q existing desired then ok existing
         else if merged = existing then ok merged
         else andThen (api ''patch runtime Deployment'' (kPatchWorkload K existing merged)) (\<lambda>_.
              andThen (api ''get patched runtime Deployment''
                         (kGetWorkload K (omNamespace (rdMeta desired)) (omName (rdMeta desired)))) (\<lambda>refreshed.
                ok (advanceGeneration (\<not> runtimeDeploymentSpecEqual Q (rdSpec existing) (rdSpec desired)) existing refreshed))))"

definition ensureRuntimeDeployment ::
  "name_checks \<Rightarrow> 'q quantity_ops \<Rightarrow> 'q Builder \<Rightarrow> ('c, 'q) client \<Rightarrow> ModelDeployment \<Rightarrow> ModelRuntime \<Rightarrow> string \<Rightarrow> string \<Rightarrow>
   ('c, 'q Deployment \<times> bool) act" where
  "ensureRuntimeDeployment N Q b K d runtime nodeName cachePath =
     (case BuildRuntimeDeployment N Q b d runtime nodeName cachePath of
        Inl err \<Rightarrow> throw (PermanentLifecycle (PermanentResource ''build runtime Deployment'' err))
      | Inr desired \<Rightarrow>
          andThen (apiOptional ''get runtime Deployment''
                     (kGetWorkload K (omNamespace (rdMeta desired)) (omName (rdMeta desired)))) (\<lambda>found.
            case found of
              None \<Rightarrow>
                andThen (api ''create runtime Deployment'' (kCreateWorkload K desired)) (\<lambda>w.
                andThen (recordEvent K d (normal ReasonRuntimeCreating
                           (''Created runtime Deployment '' @ quoted (omName (rdMeta desired)) @ '' on node '' @ quoted nodeName)))
                  (\<lambda>_. ok (w, True)))
            | Some existing \<Rightarrow>
                andThen (requireOwned (rdMeta existing) d) (\<lambda>_.
                andThen (updateWorkload Q K existing desired) (\<lambda>w. ok (w, False)))))"

definition runtimeWorkloadExists :: "('c, 'q) client \<Rightarrow> ModelDeployment \<Rightarrow> ('c, bool) act" where
  "runtimeWorkloadExists K d =
     andThen (apiOptional ''get runtime Deployment during lifecycle transition''
                (kGetWorkload K (mdNamespace d) (RuntimeServiceName (mdName d)))) (\<lambda>found.
       case found of
         None \<Rightarrow> ok False
       | Some w \<Rightarrow> andThen (assertControlledBy (rdMeta w) d) (\<lambda>_. ok True))"

section \<open>Disruption budget\<close>

definition budgetsEqual :: "PodDisruptionBudget \<Rightarrow> PodDisruptionBudget \<Rightarrow> bool" where
  "budgetsEqual a b \<longleftrightarrow> metasEqual (bgMeta a) (bgMeta b) \<and> bgMinAvailable a = bgMinAvailable b \<and>
     maps_equal (bgSelector a) (bgSelector b) \<and> bgUnhealthyPodEvictionPolicy a = bgUnhealthyPodEvictionPolicy b"

definition mergeBudget :: "PodDisruptionBudget \<Rightarrow> PodDisruptionBudget \<Rightarrow> PodDisruptionBudget" where
  "mergeBudget existing desired = desired\<lparr>bgMeta := mergeMeta (bgMeta existing) (bgMeta desired)\<rparr>"

definition ensurePodDisruptionBudget ::
  "name_checks \<Rightarrow> ('c, 'q) client \<Rightarrow> ModelDeployment \<Rightarrow> ('c, PodDisruptionBudget option) act" where
  "ensurePodDisruptionBudget N K d =
     (case BuildRuntimePodDisruptionBudget N d of
        Inl err \<Rightarrow> throw (PermanentLifecycle (PermanentResource ''build runtime PodDisruptionBudget'' err))
      | Inr built \<Rightarrow>
          andThen (apiOptional ''get runtime PodDisruptionBudget'' (kGetBudget K (mdNamespace d) (RuntimeServiceName (mdName d))))
            (\<lambda>found.
            case (found, built) of
              (None, None) \<Rightarrow> ok None
            | (None, Some desired) \<Rightarrow>
                andThen (api ''create runtime PodDisruptionBudget'' (kCreateBudget K desired)) (\<lambda>created. ok (Some created))
            | (Some existing, _) \<Rightarrow>
                andThen (requireOwned (bgMeta existing) d) (\<lambda>_.
                  case built of
                    None \<Rightarrow>
                      andThen (apiDelete ''delete disabled runtime PodDisruptionBudget'' (kDeleteBudget K existing)) (\<lambda>_. ok None)
                  | Some desired \<Rightarrow>
                      let merged = mergeBudget existing desired
                      in if budgetsEqual existing merged then ok (Some merged)
                         else andThen (api ''patch runtime PodDisruptionBudget'' (kPatchBudget K existing merged))
                                (\<lambda>patched. ok (Some patched)))))"

definition deleteRuntimePodDisruptionBudget :: "('c, 'q) client \<Rightarrow> ModelDeployment \<Rightarrow> ('c, bool) act" where
  "deleteRuntimePodDisruptionBudget K d =
     andThen (apiOptional ''get runtime PodDisruptionBudget for deletion''
                (kGetBudget K (mdNamespace d) (RuntimeServiceName (mdName d)))) (\<lambda>found.
       case found of
         None \<Rightarrow> ok False
       | Some budget \<Rightarrow>
           andThen (assertControlledBy (bgMeta budget) d) (\<lambda>_.
           andThen (apiDelete ''delete runtime PodDisruptionBudget'' (kDeleteBudget K budget)) (\<lambda>_. ok True)))"

section \<open>Withdrawal of a runtime\<close>

definition deleteRuntimeWorkload :: "('c, 'q) client \<Rightarrow> ModelDeployment \<Rightarrow> ('c, bool) act" where
  "deleteRuntimeWorkload K d =
     andThen (deleteRuntimePodDisruptionBudget K d) (\<lambda>deleted.
     andThen (apiOptional ''get runtime Deployment for deletion''
                (kGetWorkload K (mdNamespace d) (RuntimeServiceName (mdName d)))) (\<lambda>found.
       case found of
         None \<Rightarrow> ok deleted
       | Some w \<Rightarrow>
           andThen (assertControlledBy (rdMeta w) d) (\<lambda>_.
           andThen (detachRuntimeService K d) (\<lambda>_.
           andThen (apiDelete ''delete runtime Deployment'' (kDeleteWorkload K w)) (\<lambda>_. ok True)))))"

end
