(* ===== verification/Kube_Memory.thy ===== *)
theory Kube_Memory
  imports Kube_Client
begin

text \<open>
  An API server in memory: a concrete \<open>client\<close> over explicit lists of objects, at which the theorems with hypotheses on the client
  are applied. A patch stores the object as it was sent. A missing
  object is answered with \<open>NotFound\<close>. Observations are kept, newest first.
\<close>

record 'q world =
  wDeployments :: "ModelDeployment list"
  wRuntimes :: "ModelRuntime list"
  wCaches :: "ModelCache list"
  wServices :: "Service list"
  wConfigMaps :: "ConfigMap list"
  wWorkloads :: "'q Deployment list"
  wBudgets :: "PodDisruptionBudget list"
  wNodes :: "'q Node list"
  wObservations :: "observation list"
  wQueueMetricDirty :: bool

section \<open>Lists of objects\<close>

definition isNamed :: "string \<Rightarrow> string \<Rightarrow> ObjectMeta \<Rightarrow> bool" where
  "isNamed namespace name meta \<longleftrightarrow> omNamespace meta = namespace \<and> omName meta = name"

definition lookupNamed :: "('a \<Rightarrow> ObjectMeta) \<Rightarrow> 'a list \<Rightarrow> string \<Rightarrow> string \<Rightarrow> (api_error, 'a) result" where
  "lookupNamed meta objects namespace name =
     (case List.find (\<lambda>x. isNamed namespace name (meta x)) objects of None \<Rightarrow> Inl NotFound | Some x \<Rightarrow> Inr x)"

definition replaceNamed :: "('a \<Rightarrow> ObjectMeta) \<Rightarrow> 'a \<Rightarrow> 'a list \<Rightarrow> 'a list" where
  "replaceNamed meta x objects =
     map (\<lambda>y. if isNamed (omNamespace (meta x)) (omName (meta x)) (meta y) then x else y) objects"

definition removeNamed :: "('a \<Rightarrow> ObjectMeta) \<Rightarrow> 'a \<Rightarrow> 'a list \<Rightarrow> 'a list" where
  "removeNamed meta x objects =
     filter (\<lambda>y. \<not> isNamed (omNamespace (meta x)) (omName (meta x)) (meta y)) objects"

definition patchNamed ::
  "('a \<Rightarrow> ObjectMeta) \<Rightarrow> ('w \<Rightarrow> 'a list) \<Rightarrow> ('a list \<Rightarrow> 'w \<Rightarrow> 'w) \<Rightarrow> 'a \<Rightarrow> 'w \<Rightarrow> (api_error, 'a) result \<times> 'w" where
  "patchNamed meta get put x w =
     (case lookupNamed meta (get w) (omNamespace (meta x)) (omName (meta x)) of
        Inl err \<Rightarrow> (Inl err, w)
      | Inr _ \<Rightarrow> (Inr x, put (replaceNamed meta x (get w)) w))"

definition createNamed ::
  "('a \<Rightarrow> ObjectMeta) \<Rightarrow> ('w \<Rightarrow> 'a list) \<Rightarrow> ('a list \<Rightarrow> 'w \<Rightarrow> 'w) \<Rightarrow> 'a \<Rightarrow> 'w \<Rightarrow> (api_error, 'a) result \<times> 'w" where
  "createNamed meta get put x w =
     (case lookupNamed meta (get w) (omNamespace (meta x)) (omName (meta x)) of
        Inr _ \<Rightarrow> (Inl AlreadyExists, w)
      | Inl _ \<Rightarrow> (Inr x, put (get w @ [x]) w))"

definition deleteNamed ::
  "('a \<Rightarrow> ObjectMeta) \<Rightarrow> ('w \<Rightarrow> 'a list) \<Rightarrow> ('a list \<Rightarrow> 'w \<Rightarrow> 'w) \<Rightarrow> 'a \<Rightarrow> 'w \<Rightarrow> (api_error, unit) result \<times> 'w" where
  "deleteNamed meta get put x w =
     (case lookupNamed meta (get w) (omNamespace (meta x)) (omName (meta x)) of
        Inl err \<Rightarrow> (Inl err, w)
      | Inr _ \<Rightarrow> (Inr (), put (removeNamed meta x (get w)) w))"

section \<open>The client\<close>

definition memoryClient :: "('q world, 'q) client" where
  "memoryClient =
     \<lparr>kGetModelDeployment = (\<lambda>ns name w. (lookupNamed mdMeta (wDeployments w) ns name, w)),
      kListModelDeployments = (\<lambda>w. (Inr (wDeployments w), w)),
      kPatchModelDeploymentStatus = (\<lambda>_. patchNamed mdMeta wDeployments (\<lambda>xs w. w\<lparr>wDeployments := xs\<rparr>)),
      kGetModelRuntime = (\<lambda>ns name w. (lookupNamed mrMeta (wRuntimes w) ns name, w)),
      kGetModelCache = (\<lambda>ns name w. (lookupNamed mcMeta (wCaches w) ns name, w)),
      kCreateModelCache = createNamed mcMeta wCaches (\<lambda>xs w. w\<lparr>wCaches := xs\<rparr>),
      kPatchModelCache = (\<lambda>_. patchNamed mcMeta wCaches (\<lambda>xs w. w\<lparr>wCaches := xs\<rparr>)),
      kPatchModelCacheStatus = (\<lambda>_. patchNamed mcMeta wCaches (\<lambda>xs w. w\<lparr>wCaches := xs\<rparr>)),
      kGetService = (\<lambda>ns name w. (lookupNamed svMeta (wServices w) ns name, w)),
      kCreateService = createNamed svMeta wServices (\<lambda>xs w. w\<lparr>wServices := xs\<rparr>),
      kPatchService = (\<lambda>_. patchNamed svMeta wServices (\<lambda>xs w. w\<lparr>wServices := xs\<rparr>)),
      kGetConfigMap = (\<lambda>ns name w. (lookupNamed cmMeta (wConfigMaps w) ns name, w)),
      kCreateConfigMap = createNamed cmMeta wConfigMaps (\<lambda>xs w. w\<lparr>wConfigMaps := xs\<rparr>),
      kPatchConfigMap = (\<lambda>_. patchNamed cmMeta wConfigMaps (\<lambda>xs w. w\<lparr>wConfigMaps := xs\<rparr>)),
      kGetWorkload = (\<lambda>ns name w. (lookupNamed rdMeta (wWorkloads w) ns name, w)),
      kListWorkloads = (\<lambda>selector w.
        (Inr (filter (\<lambda>x. list_all (\<lambda>(k, v). map_of (omLabels (rdMeta x)) k = Some v) selector) (wWorkloads w)), w)),
      kCreateWorkload = createNamed rdMeta wWorkloads (\<lambda>xs w. w\<lparr>wWorkloads := xs\<rparr>),
      kPatchWorkload = (\<lambda>_. patchNamed rdMeta wWorkloads (\<lambda>xs w. w\<lparr>wWorkloads := xs\<rparr>)),
      kDeleteWorkload = deleteNamed rdMeta wWorkloads (\<lambda>xs w. w\<lparr>wWorkloads := xs\<rparr>),
      kGetBudget = (\<lambda>ns name w. (lookupNamed bgMeta (wBudgets w) ns name, w)),
      kCreateBudget = createNamed bgMeta wBudgets (\<lambda>xs w. w\<lparr>wBudgets := xs\<rparr>),
      kPatchBudget = (\<lambda>_. patchNamed bgMeta wBudgets (\<lambda>xs w. w\<lparr>wBudgets := xs\<rparr>)),
      kDeleteBudget = deleteNamed bgMeta wBudgets (\<lambda>xs w. w\<lparr>wBudgets := xs\<rparr>),
      kGetNode = (\<lambda>name w. (case List.find (\<lambda>n. ndName n = name) (wNodes w) of
                              None \<Rightarrow> Inl NotFound | Some n \<Rightarrow> Inr n, w)),
      kListNodes = (\<lambda>w. (Inr (wNodes w), w)),
      kDrainComplete = None,
      kScrapeRuntimeMetrics = None,
      kObserve = (\<lambda>e w. w\<lparr>wObservations := e # wObservations w\<rparr>),
      kQueueMetricDirty = wQueueMetricDirty,
      kSetQueueMetricDirty = (\<lambda>b w. w\<lparr>wQueueMetricDirty := b\<rparr>)\<rparr>"

definition emptyWorld :: "'q world" where
  "emptyWorld = \<lparr>wDeployments = [], wRuntimes = [], wCaches = [], wServices = [], wConfigMaps = [], wWorkloads = [],
     wBudgets = [], wNodes = [], wObservations = [], wQueueMetricDirty = False\<rparr>"

end
