(* ===== verification/Lifecycle_Capacity.thy ===== *)
theory Lifecycle_Capacity
  imports Lifecycle_Workloads Kube_Memory
begin

text \<open>
  Capacity decisions of the lifecycle controller: which GPUs count as taken (status reservations, replacement handoffs, runtime
  Deployments that are still stored), the reservation for one deployment, and the number of replicas.
\<close>

section \<open>Allocations\<close>

type_synonym key = "string \<times> string"

definition keyOf :: "ModelDeployment \<Rightarrow> key" where
  "keyOf d = (mdNamespace d, mdName d)"

definition replacementReservesGPUHandoff :: "ReplacementStatus option \<Rightarrow> bool" where
  "replacementReservesGPUHandoff replacement =
     (case replacement of
        None \<Rightarrow> False
      | Some r \<Rightarrow> rtTarget r \<noteq> None \<and>
                  rtPhase r \<in> {ReplacementPhaseDraining, ReplacementPhaseActivating, ReplacementPhaseRollingBack})"

text \<open>The first loop: whose devices are being handed over, by key, with the UID that is meant. Later entries replace earlier ones.\<close>

definition addHandoffTarget :: "(key \<times> string) list \<Rightarrow> ModelDeployment \<Rightarrow> (key \<times> string) list" where
  "addHandoffTarget targets d =
     (case dtReplacement (mdStatus d) of
        None \<Rightarrow> targets
      | Some r \<Rightarrow>
          (case rtTarget r of
             None \<Rightarrow> targets
           | Some t \<Rightarrow>
               if rfUID t = [] \<or> dtAssignedNode (mdStatus d) = [] \<or> rrGPU (dsResources (mdSpec d)) = None \<or>
                  \<not> replacementReservesGPUHandoff (Some r) then targets
               else AList.update (rfNamespace t, rfName t) (rfUID t) targets))"

definition handoffTargets :: "ModelDeployment list \<Rightarrow> (key \<times> string) list" where
  "handoffTargets deployments = foldl addHandoffTarget [] deployments"

text \<open>A requester that rolls back to \<open>self\<close>: its reservation is the one that \<open>self\<close> takes over.\<close>

definition rollsBackTo :: "ModelDeployment \<Rightarrow> ModelDeployment \<Rightarrow> bool" where
  "rollsBackTo self d =
     (case dtReplacement (mdStatus d) of
        None \<Rightarrow> False
      | Some r \<Rightarrow>
          (case rtTarget r of
             None \<Rightarrow> False
           | Some t \<Rightarrow> rtPhase r = ReplacementPhaseRollingBack \<and> rfNamespace t = mdNamespace self \<and>
                       rfName t = mdName self \<and> rfUID t = omUID (mdMeta self)))"

definition holdsGPU :: "ModelDeployment \<Rightarrow> bool" where
  "holdsGPU d \<longleftrightarrow>
     rrGPU (dsResources (mdSpec d)) \<noteq> None \<and> dtAssignedNode (mdStatus d) \<noteq> [] \<and>
     (dtPhase (mdStatus d) \<in> {ModelDeploymentPhaseActivating, ModelDeploymentPhaseActive} \<or>
      replacementReservesGPUHandoff (dtReplacement (mdStatus d)))"

definition reservedCount :: "ModelDeployment \<Rightarrow> int" where
  "reservedCount d =
     (if rolloutSurgeReservationActive d then rolloutSurgeGPUReservation d else effectiveGPUReservation d)"

definition statusAllocation :: "ModelDeployment \<Rightarrow> GPUAllocation" where
  "statusAllocation d =
     \<lparr>gaNodeName = dtAssignedNode (mdStatus d), gaResourceName = gpuResourceName d, gaCount = reservedCount d\<rparr>"

text \<open>The second loop: the allocations and the keys that are accounted for.\<close>

definition addStatusAllocation ::
  "ModelDeployment \<Rightarrow> (key \<times> string) list \<Rightarrow> GPUAllocation list \<times> key list \<Rightarrow> ModelDeployment \<Rightarrow>
   GPUAllocation list \<times> key list" where
  "addStatusAllocation self handoffs acc d =
     (case acc of (allocations, reserved) \<Rightarrow>
        if map_of handoffs (keyOf d) = Some (omUID (mdMeta d)) then (allocations, keyOf d # reserved)
        else if keyOf d = keyOf self then acc
        else if rollsBackTo self d then acc
        else if \<not> holdsGPU d then acc
        else (allocations @ [statusAllocation d], keyOf d # reserved))"

text \<open>The third loop: stored runtime Deployments that no status accounts for.\<close>

definition workloadRequests :: "'q quantity_ops \<Rightarrow> string \<Rightarrow> int \<Rightarrow> 'q Deployment \<Rightarrow> GPUAllocation list" where
  "workloadRequests Q nodeName replicas w =
     concat (map (\<lambda>container.
       map (\<lambda>(resourceName, quantity).
              \<lparr>gaNodeName = nodeName, gaResourceName = resourceName, gaCount = wrap64 (qValue Q quantity * replicas)\<rparr>)
           (filter (\<lambda>(resourceName, quantity). has_suffix resourceName ''.com/gpu'' \<and> qSign Q quantity > 0)
              (ckRequests container)))
       (poContainers (plSpec (dpTemplate (rdSpec w)))))"

definition addWorkloadAllocation ::
  "'q quantity_ops \<Rightarrow> ModelDeployment \<Rightarrow> (key \<times> string) list \<Rightarrow> GPUAllocation list \<times> key list \<Rightarrow> 'q Deployment \<Rightarrow>
   GPUAllocation list \<times> key list" where
  "addWorkloadAllocation Q self handoffs acc w =
     (case acc of (allocations, reserved) \<Rightarrow>
        let modelName = mget (omLabels (rdMeta w)) LabelModelDeployment;
            key = (omNamespace (rdMeta w), modelName);
            replicas = intPointerValue (dpReplicas (rdSpec w));
            nodeName = requiredHostname (poAffinity (plSpec (dpTemplate (rdSpec w))))
        in if modelName = [] \<or> key = keyOf self then acc
           else if (case (map_of handoffs key, controllerOf (rdMeta w)) of
                      (Some targetUID, Some controller) \<Rightarrow> orUID controller = targetUID
                    | _ \<Rightarrow> False) then (allocations, key # reserved)
           else if key \<in> set reserved then acc
           else if replicas \<le> 0 then acc
           else if nodeName = [] then acc
           else (allocations @ workloadRequests Q nodeName replicas w, reserved))"

text \<open>What the loops compute from the two lists that were read.\<close>

definition allocationsOf ::
  "'q quantity_ops \<Rightarrow> ModelDeployment \<Rightarrow> ModelDeployment list \<Rightarrow> 'q Deployment list \<Rightarrow> GPUAllocation list" where
  "allocationsOf Q self deployments workloads =
     (let handoffs = handoffTargets deployments
      in fst (foldl (addWorkloadAllocation Q self handoffs)
                (foldl (addStatusAllocation self handoffs) ([], []) deployments) workloads))"

definition gpuAllocations ::
  "'q quantity_ops \<Rightarrow> ('c, 'q) client \<Rightarrow> ModelDeployment \<Rightarrow> ('c, GPUAllocation list) act" where
  "gpuAllocations Q K self =
     andThen (api ''list ModelDeployments for GPU reservations'' (kListModelDeployments K)) (\<lambda>deployments.
     andThen (api ''list runtime Deployments for GPU reservations'' (kListWorkloads K [(LabelManagedBy, ValueManagedBy)]))
       (\<lambda>workloads. ok (allocationsOf Q self deployments workloads)))"

section \<open>Reservation\<close>

definition nodesNamed :: "'q Node list \<Rightarrow> string \<Rightarrow> 'q Node list" where
  "nodesNamed nodes name = filter (\<lambda>n. ndName n = name) nodes"

definition gpuRequestFor :: "ModelDeployment \<Rightarrow> string \<Rightarrow> int \<Rightarrow> GPURequest" where
  "gpuRequestFor d nodeName slots =
     \<lparr>gqResourceName = gpuResourceName d, gqCount = slots,
      gqType = (case rrGPU (dsResources (mdSpec d)) of Some gpu \<Rightarrow> grType gpu | None \<Rightarrow> []), gqPreferredNode = nodeName\<rparr>"

definition planGPU ::
  "'q quantity_ops \<Rightarrow> GPUPlanner \<Rightarrow> ModelDeployment \<Rightarrow> string \<Rightarrow> int \<Rightarrow> 'q Node list \<Rightarrow> GPUAllocation list \<Rightarrow>
   (gpu_error, GPUPlacement) result" where
  "planGPU Q p d nodeName slots nodes allocations =
     GPUPlan Q (Some p) (gpuRequestFor d nodeName slots) (if nodeName = [] then nodes else nodesNamed nodes nodeName) allocations"

definition reserveGPU ::
  "'q quantity_ops \<Rightarrow> GPUPlanner \<Rightarrow> ('c, 'q) client \<Rightarrow> ModelDeployment \<Rightarrow> string \<Rightarrow> ('c, GPUPlacement) act" where
  "reserveGPU Q p K d cacheNode =
     andThen (api ''list Nodes'' (kListNodes K)) (\<lambda>nodes.
     andThen (gpuAllocations Q K d) (\<lambda>allocations.
       let (total, occupied, available) = Snapshot Q (gpuResourceName d) nodes allocations
       in andThen (observe K (SetGPUSlots (gpuResourceName d) total occupied available)) (\<lambda>_.
            case planGPU Q p d cacheNode (effectiveGPUReservation d) nodes allocations of
              Inl err \<Rightarrow> throw (PlacementFailure err)
            | Inr placement \<Rightarrow> ok placement)))"

definition validateGPUCapacity ::
  "'q quantity_ops \<Rightarrow> GPUPlanner \<Rightarrow> ('c, 'q) client \<Rightarrow> ModelDeployment \<Rightarrow> string \<Rightarrow> int \<Rightarrow> ('c, unit) act" where
  "validateGPUCapacity Q p K d nodeName slots =
     andThen (api ''list Nodes for rollout capacity'' (kListNodes K)) (\<lambda>nodes.
     andThen (gpuAllocations Q K d) (\<lambda>allocations.
       case planGPU Q p d nodeName slots nodes allocations of
         Inl err \<Rightarrow> throw (PlacementFailure err)
       | Inr placement \<Rightarrow> ok ()))"

section \<open>Replicas\<close>

text \<open>Division of \<open>int64\<close> values by a positive divisor, truncated.\<close>

definition go_quot :: "int \<Rightarrow> int \<Rightarrow> int" where
  "go_quot x y = (if x < 0 then - ((- x) div y) else x div y)"

definition capReplicasByGPUCapacity ::
  "'q quantity_ops \<Rightarrow> GPUPlanner \<Rightarrow> ('c, 'q) client \<Rightarrow> ModelDeployment \<Rightarrow> string \<Rightarrow> int \<Rightarrow> ('c, int \<times> bool) act" where
  "capReplicasByGPUCapacity Q p K d cacheNode desired =
     (if rrGPU (dsResources (mdSpec d)) = None \<or> desired \<le> 0 then ok (desired, False)
      else andThen (api ''list Nodes for replica capacity'' (kListNodes K)) (\<lambda>nodes.
           andThen (gpuAllocations Q K d) (\<lambda>allocations.
             case planGPU Q p d cacheNode (gpusPerReplica d) nodes allocations of
               Inl err \<Rightarrow> ok (desired, False)
             | Inr placement \<Rightarrow>
                 let maxByCapacity = wrap32 (go_quot (gpAvailable placement) (gpusPerReplica d))
                 in if maxByCapacity < desired then
                      (if maxByCapacity < baseRuntimeReplicas d then ok (desired, False) else ok (maxByCapacity, True))
                    else ok (desired, False))))"

text \<open>What the scraped numbers ask for, between the floor and the maximum, or zero after the idle timeout.\<close>

definition replicasForLoad ::
  "time \<Rightarrow> ModelDeployment \<Rightarrow> ModelDeployment \<Rightarrow> int \<Rightarrow> RuntimeMetrics \<Rightarrow> int" where
  "replicasForLoad now d original base observed =
     (let target = scTargetPendingRequests (dsScaling (mdSpec d)); pending = rmPendingRequests observed;
          current = max base (rcDesired (dtReplicas (mdStatus original)));
          scaleUp = wrap32 (go_quot (wrap64 (pending + target - 1)) target);
          wanted = (if target > 0 \<and> pending > 0 then wrap32 (current + scaleUp) else base);
          limited = (if wanted > effectiveMaxReplicas d then effectiveMaxReplicas d else wanted);
          desired = (if limited < base then base else limited)
      in case (effectiveIdleTimeout d, stLastActivityTime (dtScaling (mdStatus original))) of
           (Some timeout, Some lastActivity) \<Rightarrow>
             if scMinReplicas (dsScaling (mdSpec d)) = 0 \<and> pending = 0 \<and> rmRunningRequests observed = 0 \<and>
                now - lastActivity \<ge> timeout then 0 else desired
         | _ \<Rightarrow> desired)"

definition zeroMetrics :: RuntimeMetrics where
  "zeroMetrics = \<lparr>rmPendingRequests = 0, rmRunningRequests = 0\<rparr>"

definition desiredReplicasFromRuntimeMetrics ::
  "('c, 'q) client \<Rightarrow> time \<Rightarrow> ModelDeployment \<Rightarrow> ModelDeployment \<Rightarrow> ModelRuntime \<Rightarrow> int \<Rightarrow> 'c \<Rightarrow>
   (string, int \<times> RuntimeMetrics) result \<times> 'c" where
  "desiredReplicasFromRuntimeMetrics K now d original runtime base c =
     (case kScrapeRuntimeMetrics K of
        None \<Rightarrow> (Inl ''runtime metrics scraper is not configured'', c)
      | Some scrape \<Rightarrow>
          if shouldHoldIdleScaleToZero original then (Inr (0, zeroMetrics), c)
          else (case scrape (mdNamespace d) (RuntimeServiceName (mdName d)) (effectivePort runtime)
                       (effectiveMetricsPath runtime) c of
                  (Inl err, c') \<Rightarrow> (Inl err, c')
                | (Inr observed, c') \<Rightarrow> (Inr (replicasForLoad now d original base observed, observed), c')))"

text \<open>The scaling status before the cap by capacity.\<close>

definition scalingPlan ::
  "time \<Rightarrow> ModelDeployment \<Rightarrow> int \<Rightarrow> (string, int \<times> RuntimeMetrics) result \<Rightarrow> ScalingStatus" where
  "scalingPlan now original base outcome =
     (let latest = stLastActivityTime (dtScaling (mdStatus original));
          initial = noScaling\<lparr>stDesiredReplicas := base, stLastActivityTime := latest\<rparr>
      in case outcome of
           Inl err \<Rightarrow> initial\<lparr>stReason := ReasonScalingMetricsUnavailable, stMessage := err\<rparr>
         | Inr (desired, observed) \<Rightarrow>
             let withCounts = initial\<lparr>stDesiredReplicas := desired, stPendingRequests := rmPendingRequests observed,
                                     stRunningRequests := rmRunningRequests observed\<rparr>;
                 withReason = (if desired = 0
                   then withCounts\<lparr>stReason := ReasonIdleScaledToZero,
                          stMessage := ''Runtime is held at zero replicas after the configured idle timeout''\<rparr>
                   else withCounts)
             in if rmPendingRequests observed > 0 \<or> rmRunningRequests observed > 0 \<or> latest = None
                then withReason\<lparr>stLastActivityTime := Some now\<rparr> else withReason)"

text \<open>The plan, capped by the free devices, becomes the scaling status.\<close>

definition applyScaling ::
  "'q quantity_ops \<Rightarrow> GPUPlanner \<Rightarrow> ('c, 'q) client \<Rightarrow> ModelDeployment \<Rightarrow> string \<Rightarrow> ScalingStatus \<Rightarrow> ('c, ModelDeployment) act" where
  "applyScaling Q p K d cacheNode scaling =
     (if rrGPU (dsResources (mdSpec d)) \<noteq> None \<and> stDesiredReplicas scaling > 0 then
        andThen (capReplicasByGPUCapacity Q p K d cacheNode (stDesiredReplicas scaling)) (\<lambda>(capped, limited).
          let s = scaling\<lparr>stDesiredReplicas := capped, stCapacityLimited := limited\<rparr>;
              s' = (if limited then s\<lparr>stReason := ReasonScalingCapacityCapped,
                      stMessage := ''Desired replicas capped at '' @ itoa capped @ '' by compatible GPU capacity''\<rparr> else s)
          in ok (onStatus (\<lambda>st. st\<lparr>dtScaling := s'\<rparr>) d))
      else ok (onStatus (\<lambda>st. st\<lparr>dtScaling := scaling\<rparr>) d))"

definition planRuntimeReplicas ::
  "'q quantity_ops \<Rightarrow> GPUPlanner \<Rightarrow> ('c, 'q) client \<Rightarrow> time \<Rightarrow> ModelDeployment \<Rightarrow> ModelDeployment \<Rightarrow> ModelRuntime \<Rightarrow> string \<Rightarrow>
   ('c, ModelDeployment) act" where
  "planRuntimeReplicas Q p K now d original runtime cacheNode =
     (let base = baseRuntimeReplicas d
      in if autoscalingEnabled d
         then onOutcome (desiredReplicasFromRuntimeMetrics K now d original runtime base)
                (\<lambda>outcome. applyScaling Q p K d cacheNode (scalingPlan now original base outcome))
         else applyScaling Q p K d cacheNode (noScaling\<lparr>stDesiredReplicas := base,
                stLastActivityTime := stLastActivityTime (dtScaling (mdStatus original))\<rparr>))"

section \<open>Facts on allocations\<close>

text \<open>A deployment whose devices count against a reservation for \<open>self\<close>.\<close>

definition otherHolder :: "ModelDeployment \<Rightarrow> (key \<times> string) list \<Rightarrow> ModelDeployment \<Rightarrow> bool" where
  "otherHolder self handoffs h \<longleftrightarrow>
     keyOf h \<noteq> keyOf self \<and> map_of handoffs (keyOf h) \<noteq> Some (omUID (mdMeta h)) \<and> \<not> rollsBackTo self h \<and> holdsGPU h"

definition accounted :: "ModelDeployment \<Rightarrow> (key \<times> string) list \<Rightarrow> ModelDeployment \<Rightarrow> bool" where
  "accounted self handoffs h \<longleftrightarrow> map_of handoffs (keyOf h) = Some (omUID (mdMeta h)) \<or> otherHolder self handoffs h"

lemma foldl_addStatusAllocation:
  "foldl (addStatusAllocation self hs) (as, ks) ds =
   (as @ map statusAllocation (filter (otherHolder self hs) ds), rev (map keyOf (filter (accounted self hs) ds)) @ ks)"
proof (induction ds arbitrary: as ks)
  case (Cons d ds)
  have "addStatusAllocation self hs (as, ks) d =
    (as @ (if otherHolder self hs d then [statusAllocation d] else []), (if accounted self hs d then [keyOf d] else []) @ ks)"
    by (auto simp: addStatusAllocation_def otherHolder_def accounted_def)
  then show ?case by (simp add: Cons.IH)
qed simp

text \<open>A stored runtime Deployment of a model that no status accounts for and that is not being handed over.\<close>

definition workloadKey :: "'q Deployment \<Rightarrow> key" where
  "workloadKey w = (omNamespace (rdMeta w), mget (omLabels (rdMeta w)) LabelModelDeployment)"

definition untracked ::
  "ModelDeployment \<Rightarrow> (key \<times> string) list \<Rightarrow> key set \<Rightarrow> 'q Deployment \<Rightarrow> bool" where
  "untracked self handoffs accountedKeys w \<longleftrightarrow>
     snd (workloadKey w) \<noteq> [] \<and> workloadKey w \<noteq> keyOf self \<and> map_of handoffs (workloadKey w) = None \<and>
     workloadKey w \<notin> accountedKeys \<and> intPointerValue (dpReplicas (rdSpec w)) > 0 \<and>
     requiredHostname (poAffinity (plSpec (dpTemplate (rdSpec w)))) \<noteq> []"

definition workloadAllocations :: "'q quantity_ops \<Rightarrow> 'q Deployment \<Rightarrow> GPUAllocation list" where
  "workloadAllocations Q w =
     workloadRequests Q (requiredHostname (poAffinity (plSpec (dpTemplate (rdSpec w))))) (intPointerValue (dpReplicas (rdSpec w))) w"

lemma addWorkloadAllocation_cases:
  assumes "set ks \<subseteq> S \<union> dom (map_of hs)"
  obtains extra ks' where "addWorkloadAllocation Q self hs (as, ks) w = (as @ extra, ks')"
    "set ks' \<subseteq> S \<union> dom (map_of hs)" "untracked self hs S w \<Longrightarrow> extra = workloadAllocations Q w"
proof (cases "untracked self hs S w")
  case True
  then have "workloadKey w \<notin> set ks" using assms by (auto simp: untracked_def)
  with True have "addWorkloadAllocation Q self hs (as, ks) w = (as @ workloadAllocations Q w, ks)"
    by (auto simp: addWorkloadAllocation_def untracked_def workloadKey_def workloadAllocations_def Let_def)
  then show thesis using assms that by blast
next
  case False
  let ?r = "addWorkloadAllocation Q self hs (as, ks) w"
  have "(\<exists>extra. fst ?r = as @ extra) \<and> set (snd ?r) \<subseteq> set ks \<union> dom (map_of hs)"
    by (auto simp: addWorkloadAllocation_def Let_def split: option.splits if_splits)
  then obtain extra where "fst ?r = as @ extra" "set (snd ?r) \<subseteq> set ks \<union> dom (map_of hs)" by blast
  then show thesis using that [of extra "snd ?r"] assms False by (cases ?r) auto
qed

lemma gpu_used_workloads:
  assumes "set ks \<subseteq> S \<union> dom (map_of hs)"
  shows "gpu_used r n as + gpu_used r n (concat (map (workloadAllocations Q) (filter (untracked self hs S) ws)))
         \<le> gpu_used r n (fst (foldl (addWorkloadAllocation Q self hs) (as, ks) ws))"
  using assms
proof (induction ws arbitrary: as ks)
  case (Cons w ws)
  obtain extra ks' where step: "addWorkloadAllocation Q self hs (as, ks) w = (as @ extra, ks')"
    and keys: "set ks' \<subseteq> S \<union> dom (map_of hs)"
    and extra: "untracked self hs S w \<Longrightarrow> extra = workloadAllocations Q w"
    by (rule addWorkloadAllocation_cases [where Q = Q and self = self and as = as and w = w, OF Cons.prems]) blast
  have "gpu_used r n (if untracked self hs S w then workloadAllocations Q w else []) \<le> gpu_used r n extra"
    using extra gpu_used_nonneg [of r n extra] by simp
  then show ?case using Cons.IH [of ks' "as @ extra"] keys step by (simp add: gpu_used_append split: if_splits)
qed simp

text \<open>What counts against a reservation for \<open>self\<close>: the other holders and the untracked runtime Deployments.\<close>

definition competing ::
  "'q quantity_ops \<Rightarrow> ModelDeployment \<Rightarrow> ModelDeployment list \<Rightarrow> 'q Deployment list \<Rightarrow> GPUAllocation list" where
  "competing Q self ds ws =
     map statusAllocation (filter (otherHolder self (handoffTargets ds)) ds) @
     concat (map (workloadAllocations Q)
       (filter (untracked self (handoffTargets ds) (keyOf ` set (filter (accounted self (handoffTargets ds)) ds))) ws))"

lemma gpu_used_competing: "gpu_used r n (competing Q self ds ws) \<le> gpu_used r n (allocationsOf Q self ds ws)"
  unfolding competing_def allocationsOf_def Let_def gpu_used_append foldl_addStatusAllocation
  by (rule order_trans [OF _ gpu_used_workloads]) auto

lemma planGPU_InrE:
  assumes Q: "quantity_value_ok Q" and plan: "planGPU Q p d nodeName slots nodes as = Inr pl"
    and small: "gpu_used (gpuResourceName d) (gpNodeName pl) as \<le> maxInt64"
  obtains node q where "node \<in> set nodes" "ndName node = gpNodeName pl" "nodeName \<noteq> [] \<Longrightarrow> gpNodeName pl = nodeName"
    "IsNodeEligibleForCache node" "map_of (ndAllocatable node) (gpuResourceName d) = Some q"
    "gpu_used (gpuResourceName d) (gpNodeName pl) as + slots \<le> qValue Q q" "gpAvailable pl = qValue Q q - gpu_used (gpuResourceName d) (gpNodeName pl) as"
proof -
  let ?r = "gpuRequestFor d nodeName slots" and ?nodes = "if nodeName = [] then nodes else nodesNamed nodes nodeName"
  obtain node q where node: "node \<in> set ?nodes" and compatible: "compatibleQuantity Q p ?r node = Some q"
    and best: "let occ = occupiedByNode (gqResourceName ?r) as in pl = caPlacement (candidateOf Q ?r occ node q) \<and>
        gqCount ?r \<le> wrap64 (qValue Q q - occ (ndName node)) \<and>
        candidateOf Q ?r occ node q = hd (sort_by candidateLess (snd (gpuCandidates Q p ?r occ ?nodes)))"
    using plan unfolding planGPU_def by (rule GPUPlan_InrE)
  have names: "gqResourceName ?r = gpuResourceName d" "gqCount ?r = slots" by (simp_all add: gpuRequestFor_def)
  have pl: "gpNodeName pl = ndName node" using best by (simp add: Let_def candidateOf_def)
  have occ: "occupiedByNode (gpuResourceName d) as (ndName node) = gpu_used (gpuResourceName d) (ndName node) as"
    using small pl by (simp add: occupiedByNode_eq)
  note q = compatibleQuantity_SomeD [OF compatible]
  have "0 \<le> qValue Q q" "qValue Q q \<le> maxInt64" using Q q(5) by (auto simp: quantity_value_ok_def intro: is_int64_le_max)
  then have "wrap64 (qValue Q q - gpu_used (gpuResourceName d) (ndName node) as) =
             qValue Q q - gpu_used (gpuResourceName d) (ndName node) as"
    using gpu_used_nonneg [of "gpuResourceName d" "ndName node" as] small pl
    by (intro wrap64_id) (simp add: is_int64_def maxInt64_def)
  then have "slots \<le> qValue Q q - gpu_used (gpuResourceName d) (ndName node) as"
    and "gpAvailable pl = qValue Q q - gpu_used (gpuResourceName d) (ndName node) as"
    using best occ by (auto simp: Let_def names candidateOf_def)
  then show thesis using that [of node q] node q(1,4) pl
    by (auto simp: names nodesNamed_def split: if_splits)
qed


text \<open>
  C18. GPUs are never promised twice: when the controller reserves devices for a deployment, the chosen node is one that was
  listed, is eligible, is the node of the cache if there is one, and its allocatable devices cover the request together with
  everything else that counts on that node: the reservations of all other deployments that hold devices (their surge during a
  rollout included) and the requests of stored runtime Deployments that no status accounts for. Left out are only devices that are
  being handed over to this deployment's transaction. The one hypothesis on sizes is that the devices counted on the node do not exceed
  the largest \<open>int64\<close>.
\<close>

theorem reserved_gpus_fit:
  assumes "quantity_value_ok Q"
    and "kListNodes K c = (Inr nodes, c1)" and "kListModelDeployments K c1 = (Inr ds, c2)"
    and "kListWorkloads K [(LabelManagedBy, ValueManagedBy)] c2 = (Inr ws, c3)"
    and "reserveGPU Q p K d cacheNode c = (Inr pl, c')"
    and "gpu_used (gpuResourceName d) (gpNodeName pl) (allocationsOf Q d ds ws) \<le> maxInt64"
  shows "\<exists>node q. node \<in> set nodes \<and> ndName node = gpNodeName pl \<and> (cacheNode = [] \<or> gpNodeName pl = cacheNode) \<and>
    IsNodeEligibleForCache node \<and> map_of (ndAllocatable node) (gpuResourceName d) = Some q \<and>
    gpu_used (gpuResourceName d) (gpNodeName pl) (competing Q d ds ws) + effectiveGPUReservation d \<le> qValue Q q"
proof -
  have "planGPU Q p d cacheNode (effectiveGPUReservation d) nodes (allocationsOf Q d ds ws) = Inr pl"
    using assms(2-5)
    by (auto simp: reserveGPU_def gpuAllocations_def andThen_Inr api_Inr case_prod_beta Let_def split: sum.splits)
  then obtain node q where node: "node \<in> set nodes" "ndName node = gpNodeName pl" "cacheNode = [] \<or> gpNodeName pl = cacheNode"
    "IsNodeEligibleForCache node" "map_of (ndAllocatable node) (gpuResourceName d) = Some q"
    and room: "gpu_used (gpuResourceName d) (gpNodeName pl) (allocationsOf Q d ds ws) + effectiveGPUReservation d \<le> qValue Q q"
    using planGPU_InrE [OF assms(1) _ assms(6)] by metis
  show ?thesis using node room gpu_used_competing [of "gpuResourceName d" "gpNodeName pl" Q d ds ws]
    by (intro exI [of _ node] exI [of _ q]) simp
qed

definition sampleHolder :: ModelDeployment where
  "sampleHolder = sampleDeployment ''held''"

definition sampleWorld :: "int world" where
  "sampleWorld = emptyWorld\<lparr>wDeployments := [sampleHolder, sampleDeployment ''m''], wNodes := sampleNodes\<rparr>"

theorem reserved_gpus_fit_witness:
  "\<exists>node q. node \<in> set sampleNodes \<and> ndName node = ''a'' \<and> (''a'' = [] \<or> ''a'' = ''a'') \<and>
    IsNodeEligibleForCache node \<and> map_of (ndAllocatable node) (gpuResourceName (sampleDeployment ''m'')) = Some q \<and>
    gpu_used (gpuResourceName (sampleDeployment ''m'')) ''a''
      (competing whole_quantity (sampleDeployment ''m'') [sampleHolder, sampleDeployment ''m''] []) +
    effectiveGPUReservation (sampleDeployment ''m'') \<le> qValue whole_quantity q"
proof -
  let ?pl = "\<lparr>gpNodeName = ''a'', gpTotal = 4, gpOccupied = 1, gpAvailable = 3\<rparr>"
  let ?p = "\<lparr>plNodeSelector = [], plGPUTypeLabel = ''inferops.dev/gpu-type''\<rparr>"
  have "fst (reserveGPU whole_quantity ?p memoryClient (sampleDeployment ''m'') ''a'' sampleWorld) = Inr ?pl" by code_simp
  then obtain c' where plan: "reserveGPU whole_quantity ?p memoryClient (sampleDeployment ''m'') ''a'' sampleWorld = (Inr ?pl, c')"
    by (metis prod.collapse)
  have "gpu_used (gpuResourceName (sampleDeployment ''m'')) ''a''
      (allocationsOf whole_quantity (sampleDeployment ''m'') [sampleHolder, sampleDeployment ''m''] []) = 1" by code_simp
  then show ?thesis
    using reserved_gpus_fit [OF whole_quantity_value_ok _ _ _ plan, of sampleNodes sampleWorld "[sampleHolder, sampleDeployment ''m'']" sampleWorld "[]" sampleWorld]
    by (simp add: memoryClient_def sampleWorld_def emptyWorld_def maxInt64_def)
qed

section \<open>Facts on replicas\<close>

lemma replicasForLoad_bounds:
  assumes "b = baseRuntimeReplicas d"
  shows "replicasForLoad now d original b observed = 0 \<and> scMinReplicas (dsScaling (mdSpec d)) = 0 \<and>
      scIdleTimeout (dsScaling (mdSpec d)) \<noteq> [] \<and> rmPendingRequests observed = 0 \<and> rmRunningRequests observed = 0 \<or>
    b \<le> replicasForLoad now d original b observed \<and> replicasForLoad now d original b observed \<le> effectiveMaxReplicas d"
  using baseRuntimeReplicas_bounds [of d] assms
  by (auto simp: replicasForLoad_def Let_def effectiveIdleTimeout_def split: option.splits if_splits)

lemma capReplicas_bounds:
  assumes "capReplicasByGPUCapacity Q p K d cacheNode desired c = (Inr (capped, limited), c')"
    and "baseRuntimeReplicas d \<le> desired"
  shows "baseRuntimeReplicas d \<le> capped" "capped \<le> desired"
proof -
  have "capped = desired \<or> baseRuntimeReplicas d \<le> capped \<and> capped \<le> desired"
  proof (cases "rrGPU (dsResources (mdSpec d)) = None \<or> desired \<le> 0")
    case False
    with assms(1) obtain nodes allocations c1 where
      "(case planGPU Q p d cacheNode (gpusPerReplica d) nodes allocations of
          Inl err \<Rightarrow> ok (desired, False)
        | Inr placement \<Rightarrow>
            let maxByCapacity = wrap32 (go_quot (gpAvailable placement) (gpusPerReplica d))
            in if maxByCapacity < desired then
                 (if maxByCapacity < baseRuntimeReplicas d then ok (desired, False) else ok (maxByCapacity, True))
               else ok (desired, False)) c1 = (Inr (capped, limited) :: (lifecycle_error, int \<times> bool) result, c')"
      unfolding capReplicasByGPUCapacity_def andThen_Inr by (simp only: if_False andThen_Inr) blast
    then show ?thesis by (cases "planGPU Q p d cacheNode (gpusPerReplica d) nodes allocations") (auto simp: Let_def split: if_splits)
  qed (use assms(1) in \<open>auto simp: capReplicasByGPUCapacity_def\<close>)
  then show "baseRuntimeReplicas d \<le> capped" "capped \<le> desired" using assms(2) by auto
qed

text \<open>Whether a deployment may have no replica: the autoscaler is allowed to stop it after an idle timeout.\<close>

definition mayScaleToZero :: "ModelDeployment \<Rightarrow> bool" where
  "mayScaleToZero d \<longleftrightarrow> scMinReplicas (dsScaling (mdSpec d)) = 0 \<and> scIdleTimeout (dsScaling (mdSpec d)) \<noteq> []"

definition plannedWithin :: "ModelDeployment \<Rightarrow> int \<Rightarrow> bool" where
  "plannedWithin d n \<longleftrightarrow> baseRuntimeReplicas d \<le> n \<and> n \<le> effectiveMaxReplicas d \<or> n = 0 \<and> mayScaleToZero d"

lemma scalingPlan_within:
  assumes "desiredReplicasFromRuntimeMetrics K now d original runtime (baseRuntimeReplicas d) c = (outcome, c')"
    and "mdSpec original = mdSpec d"
  shows "plannedWithin d (stDesiredReplicas (scalingPlan now original (baseRuntimeReplicas d) outcome))"
proof (cases outcome)
  case (Inl err)
  then show ?thesis using baseRuntimeReplicas_bounds [of d] by (simp add: plannedWithin_def scalingPlan_def Let_def)
next
  case (Inr r)
  obtain desired observed where r: "r = (desired, observed)" by force
  have "desired = 0 \<and> shouldHoldIdleScaleToZero original \<or>
        desired = replicasForLoad now d original (baseRuntimeReplicas d) observed"
    using assms(1) Inr r by (auto simp: desiredReplicasFromRuntimeMetrics_def split: option.splits if_splits sum.splits prod.splits)
  then have "plannedWithin d desired"
    using replicasForLoad_bounds [of _ d now original observed, OF refl] assms(2)
    by (auto simp: plannedWithin_def mayScaleToZero_def shouldHoldIdleScaleToZero_def split: if_splits)
  then show ?thesis using Inr r by (cases "desired = 0") (simp_all add: scalingPlan_def Let_def)
qed

text \<open>
  C19. The replica planner stays within the limits of the spec: if it returns, it has changed nothing but the scaling status, the
  number of replicas lies between the base number and the effective maximum, or is zero for a deployment with a zero minimum and
  an idle timeout, and a positive number is the number that the builder will render.
\<close>

theorem planned_replicas_bounded:
  assumes "planRuntimeReplicas Q p K now d original runtime cacheNode c = (Inr d', c')" and "mdSpec original = mdSpec d"
  shows "\<exists>s. d' = onStatus (\<lambda>st. st\<lparr>dtScaling := s\<rparr>) d \<and> plannedWithin d (stDesiredReplicas s) \<and>
    (stDesiredReplicas s = 0 \<or> runtimeReplicas d' = stDesiredReplicas s)"
proof -
  have step: "\<exists>s. d' = onStatus (\<lambda>st. st\<lparr>dtScaling := s\<rparr>) d \<and> plannedWithin d (stDesiredReplicas s)"
    if run: "applyScaling Q p K d cacheNode scaling c1 = (Inr d', c')" and within: "plannedWithin d (stDesiredReplicas scaling)" for scaling c1
  proof (cases "rrGPU (dsResources (mdSpec d)) \<noteq> None \<and> stDesiredReplicas scaling > 0")
    case True
    then obtain capped limited c2 s where cap: "capReplicasByGPUCapacity Q p K d cacheNode (stDesiredReplicas scaling) c1 = (Inr (capped, limited), c2)"
      and d': "d' = onStatus (\<lambda>st. st\<lparr>dtScaling := s\<rparr>) d" and s: "stDesiredReplicas s = capped"
      using run by (auto simp: applyScaling_def andThen_Inr Let_def)
    have "baseRuntimeReplicas d \<le> stDesiredReplicas scaling \<and> stDesiredReplicas scaling \<le> effectiveMaxReplicas d"
      using within True by (auto simp: plannedWithin_def)
    then have "plannedWithin d capped" using capReplicas_bounds [OF cap] by (simp add: plannedWithin_def)
    then show ?thesis using d' s by blast
  next
    case False
    then show ?thesis using run within by (auto simp: applyScaling_def)
  qed
  have "\<exists>scaling c1. applyScaling Q p K d cacheNode scaling c1 = (Inr d', c') \<and> plannedWithin d (stDesiredReplicas scaling)"
  proof (cases "autoscalingEnabled d")
    case True
    then show ?thesis
      using assms(1) scalingPlan_within [where K = K and now = now and runtime = runtime and c = c, OF surjective_pairing assms(2)]
      by (auto simp: planRuntimeReplicas_def Let_def onOutcome_eq)
  next
    case False
    then have "applyScaling Q p K d cacheNode (noScaling\<lparr>stDesiredReplicas := baseRuntimeReplicas d,
        stLastActivityTime := stLastActivityTime (dtScaling (mdStatus original))\<rparr>) c = (Inr d', c')"
      using assms(1) by (simp add: planRuntimeReplicas_def Let_def)
    then show ?thesis using baseRuntimeReplicas_bounds [of d] by (fastforce simp: plannedWithin_def)
  qed
  then obtain s where s: "d' = onStatus (\<lambda>st. st\<lparr>dtScaling := s\<rparr>) d" "plannedWithin d (stDesiredReplicas s)" using step by blast
  have "stDesiredReplicas s = 0 \<or> runtimeReplicas d' = stDesiredReplicas s"
    using s baseRuntimeReplicas_bounds [of d]
    by (auto simp: runtimeReplicas_eq effectiveRuntimeReplicas_def plannedWithin_def effectiveMaxReplicas_def Let_def)
  then show ?thesis using s by blast
qed

definition sampleElastic :: ModelDeployment where
  "sampleElastic =
     (let d = sampleDeployment ''m''
      in d\<lparr>mdSpec := (mdSpec d)\<lparr>dsScaling := \<lparr>scMinReplicas = 2, scMaxReplicas = 3, scTargetPendingRequests = 0, scIdleTimeout = []\<rparr>\<rparr>\<rparr>)"

theorem planned_replicas_bounded_witness:
  "plannedWithin sampleElastic 2"
proof -
  let ?run = "planRuntimeReplicas whole_quantity samplePlanner memoryClient 100 sampleElastic sampleElastic sampleRuntime ''a'' sampleWorld"
  have "case_sum (\<lambda>_. False) (\<lambda>d. stDesiredReplicas (dtScaling (mdStatus d)) = 2) (fst ?run)" by code_simp
  then obtain d' c' where run: "?run = (Inr d', c')" and two: "stDesiredReplicas (dtScaling (mdStatus d')) = 2"
    by (cases ?run) (auto split: sum.splits)
  from planned_replicas_bounded [OF run refl] two show ?thesis by auto
qed

end
