(* ===== verification/Lifecycle_Status.thy ===== *)
theory Lifecycle_Status
  imports Lifecycle_Capacity
begin

text \<open>
  How the lifecycle controller writes the status of a deployment: the common patch with its events, metrics and requeueing, and
  the failure path. The deployment that a Go method changes through its pointer is an argument and part of the result.
\<close>

section \<open>The controller\<close>

text \<open>
  The fields of the controller that do not change. The client, the checks, the arithmetic of quantities and the texts of errors
  are parameters. \<open>lcNow\<close> is the clock, read once per reconciliation.
\<close>

record ('c, 'q) ModelDeploymentController =
  lcClient :: "('c, 'q) client"
  lcChecks :: name_checks
  lcQuantities :: "'q quantity_ops"
  lcTexts :: error_texts
  lcErrorText :: "lifecycle_error \<Rightarrow> string"
  lcValidator :: ReconciliationValidator
  lcGPUPlanner :: GPUPlanner
  lcBuilder :: "'q Builder"
  lcCacheRoot :: string
  lcDefaultCacheSize :: string
  lcNow :: time

type_synonym ('c) handled = "'c \<Rightarrow> (lifecycle_error, Result \<times> ModelDeployment) result \<times> 'c"

section \<open>Writing the status\<close>

definition setQueueMetricDirty :: "('c, 'q) client \<Rightarrow> bool \<Rightarrow> ('c, unit) act" where
  [go_defs]: "setQueueMetricDirty K dirty = (\<lambda>c. (Inr (), kSetQueueMetricDirty K dirty c))"

definition queueDepth :: "ModelDeployment list \<Rightarrow> int" where
  "queueDepth deployments =
     int (length (filter (\<lambda>d. dtPhase (mdStatus d) = ModelDeploymentPhaseWaitingForGPU) deployments))"

definition refreshQueueDepth :: "('c, 'q) client \<Rightarrow> ('c, unit) act" where
  "refreshQueueDepth K =
     andThen (api ''list ModelDeployments for activation queue metric'' (kListModelDeployments K)) (\<lambda>deployments.
     andThen (observe K (SetActivationQueueDepth (queueDepth deployments))) (\<lambda>_. setQueueMetricDirty K False))"

definition markAndRefreshQueue :: "('c, 'q) client \<Rightarrow> ('c, unit) act" where
  "markAndRefreshQueue K = andThen (setQueueMetricDirty K True) (\<lambda>_. refreshQueueDepth K)"

definition modelDeploymentPhaseString :: "ModelDeploymentPhase \<Rightarrow> string" where
  "modelDeploymentPhaseString phase =
     (case phase of
        ModelDeploymentPhaseUnset \<Rightarrow> []
      | ModelDeploymentPhasePending \<Rightarrow> ''Pending''
      | ModelDeploymentPhaseDownloading \<Rightarrow> ''Downloading''
      | ModelDeploymentPhaseCached \<Rightarrow> ''Cached''
      | ModelDeploymentPhaseWaitingForCapacity \<Rightarrow> ''WaitingForCapacity''
      | ModelDeploymentPhaseWaitingForGPU \<Rightarrow> ''WaitingForGPU''
      | ModelDeploymentPhaseActivating \<Rightarrow> ''Activating''
      | ModelDeploymentPhaseActive \<Rightarrow> ''Active''
      | ModelDeploymentPhaseDraining \<Rightarrow> ''Draining''
      | ModelDeploymentPhaseDeactivating \<Rightarrow> ''Deactivating''
      | ModelDeploymentPhaseFailed \<Rightarrow> ''Failed''
      | ModelDeploymentPhaseOther other \<Rightarrow> other)"

text \<open>The event and the failure counter that go with a transition.\<close>

definition warningReasons :: "string list" where
  "warningReasons = [ReasonReplacementActivationFailed, ReasonReplacementRollbackFailed, ReasonRolloutRejected]"

definition announce :: "('c, 'q) client \<Rightarrow> ModelDeployment \<Rightarrow> string \<Rightarrow> ('c, unit) act" where
  "announce K d eventReason =
     (let message = (case FindCondition (dtConditions (mdStatus d)) ConditionReady of
                       Some ready \<Rightarrow> cMessage ready | None \<Rightarrow> modelDeploymentPhaseString (dtPhase (mdStatus d)));
          failure = (dtPhase (mdStatus d) = ModelDeploymentPhaseFailed \<or> eventReason \<in> set warningReasons);
          event = (if failure \<or> eventReason = ReasonRolloutWaitingForCapacity then warning eventReason message
                   else normal eventReason message)
      in andThen (if failure then observe K (IncFailure ''modeldeployment'' eventReason) else ok ()) (\<lambda>_. recordEvent K d event))"

text \<open>A conflict on the patch is not an error: the reconciliation is repeated. The deployment is then the one in memory.\<close>

definition patchDeploymentStatus ::
  "('c, 'q) client \<Rightarrow> ModelDeployment \<Rightarrow> string \<Rightarrow> ModelDeployment \<Rightarrow> 'c handled" where
  "patchDeploymentStatus K original eventReason d0 =
     (let d = onStatus (\<lambda>s. s\<lparr>dtObservedGeneration := omGeneration (mdMeta d0)\<rparr>) d0;
          waiting = (\<lambda>x. dtPhase (mdStatus x) = ModelDeploymentPhaseWaitingForGPU)
      in if mdStatus original = mdStatus d then
           andThen (if waiting d then markAndRefreshQueue K else ok ())
             (\<lambda>_. ok (deploymentRequeueResult (dtPhase (mdStatus d)), d))
         else onOutcome (kPatchModelDeploymentStatus K original d) (\<lambda>outcome.
           case outcome of
             Inl err \<Rightarrow>
               if err = Conflict then ok (\<lparr>reRequeue = True, reRequeueAfter = 0\<rparr>, d)
               else throw (ApiFailure ''patch ModelDeployment status'' err)
           | Inr stored \<Rightarrow>
               andThen (if eventReason \<noteq> [] \<and> lifecycleTransitioned (mdStatus original) (mdStatus stored) eventReason
                        then announce K stored eventReason else ok ()) (\<lambda>_.
               andThen (if waiting original \<or> waiting stored then markAndRefreshQueue K else ok ())
                 (\<lambda>_. ok (deploymentRequeueResult (dtPhase (mdStatus stored)), stored)))))"

text \<open>The callers replace the delay of a result when the write succeeded.\<close>

definition withRequeueAfter :: "duration \<Rightarrow> 'c handled \<Rightarrow> 'c handled" where
  "withRequeueAfter delay m = andThen m (\<lambda>(result, d). ok (result\<lparr>reRequeueAfter := delay\<rparr>, d))"

text \<open>The status of a deployment whose runtime is withdrawn with a reason.\<close>

definition failedStatus :: "time \<Rightarrow> string \<Rightarrow> string \<Rightarrow> ModelDeployment \<Rightarrow> ModelDeployment" where
  "failedStatus now reason message d =
     setDeploymentCondition now ConditionRoutingReady ConditionFalse ReasonRouteDisabled message
       (setDeploymentCondition now ConditionModelLoaded ConditionFalse reason message
         (setDeploymentCondition now ConditionRuntimeReady ConditionFalse reason message
           (setDeploymentCondition now ConditionReady ConditionFalse reason message
             (onStatus (\<lambda>s. s\<lparr>dtPhase := ModelDeploymentPhaseFailed, dtModel := (dtModel s)\<lparr>moLoaded := False\<rparr>\<rparr>) d))))"

definition failDeployment ::
  "('c, 'q) client \<Rightarrow> time \<Rightarrow> ModelDeployment \<Rightarrow> string \<Rightarrow> string \<Rightarrow> ModelDeployment \<Rightarrow> 'c handled" where
  "failDeployment K now original reason message d =
     andThen (detachRuntimeService K d) (\<lambda>_. patchDeploymentStatus K original reason (failedStatus now reason message d))"

section \<open>Facts\<close>

text \<open>
  What the server is relied on to do with a status patch: it answers with the status, the spec and the identity that were
  sent. The lifecycle controller runs one reconciliation at a time and is the only writer of this status.
\<close>

definition patches_apply :: "('c, 'q) client \<Rightarrow> bool" where
  "patches_apply K \<longleftrightarrow>
     (\<forall>before after c stored c'. kPatchModelDeploymentStatus K before after c = (Inr stored, c') \<longrightarrow>
        mdStatus stored = mdStatus after \<and> mdSpec stored = mdSpec after \<and>
        omGeneration (mdMeta stored) = omGeneration (mdMeta after) \<and> mdName stored = mdName after \<and>
        mdNamespace stored = mdNamespace after)"

lemma patches_apply_memoryClient: "patches_apply memoryClient"
  by (auto simp: patches_apply_def memoryClient_def patchNamed_def split: sum.splits)

lemma setQueueMetricDirty_Inr [simp]: "setQueueMetricDirty K b c = (Inr u, c') \<longleftrightarrow> c' = kSetQueueMetricDirty K b c"
  by (auto simp: setQueueMetricDirty_def)

text \<open>What a write leaves: the status that was sent, with the generation that was observed.\<close>

lemma patchDeploymentStatus_written:
  assumes "patches_apply K" and "patchDeploymentStatus K original reason d c = (Inr (result, d'), c')"
  shows "mdStatus d' = (mdStatus d)\<lparr>dtObservedGeneration := omGeneration (mdMeta d)\<rparr>" "mdSpec d' = mdSpec d"
    "omGeneration (mdMeta d') = omGeneration (mdMeta d)" "mdName d' = mdName d" "mdNamespace d' = mdNamespace d"
proof -
  let ?d = "onStatus (\<lambda>s. s\<lparr>dtObservedGeneration := omGeneration (mdMeta d)\<rparr>) d"
  have "mdStatus d' = mdStatus ?d \<and> mdSpec d' = mdSpec ?d \<and> omGeneration (mdMeta d') = omGeneration (mdMeta ?d) \<and>
    mdName d' = mdName ?d \<and> mdNamespace d' = mdNamespace ?d"
  proof (cases "mdStatus original = mdStatus ?d")
    case True
    then show ?thesis using assms(2) by (auto simp: patchDeploymentStatus_def Let_def andThen_Inr)
  next
    case False
    obtain outcome c1 where patch: "kPatchModelDeploymentStatus K original ?d c = (outcome, c1)" by force
    from False assms(2) patch show ?thesis
    proof (cases outcome)
      case (Inr stored)
      with False assms(2) patch have "d' = stored" by (auto simp: patchDeploymentStatus_def Let_def andThen_Inr onOutcome_eq)
      then show ?thesis using assms(1) patch Inr unfolding patches_apply_def by blast
    qed (auto simp: patchDeploymentStatus_def Let_def onOutcome_eq split: if_splits)
  qed
  then show "mdStatus d' = (mdStatus d)\<lparr>dtObservedGeneration := omGeneration (mdMeta d)\<rparr>" "mdSpec d' = mdSpec d"
    "omGeneration (mdMeta d') = omGeneration (mdMeta d)" "mdName d' = mdName d" "mdNamespace d' = mdNamespace d"
    by simp_all
qed

lemma withRequeueAfter_Inr:
  "withRequeueAfter delay m c = (Inr (result, d), c') \<longleftrightarrow>
   (\<exists>r. m c = (Inr (r, d), c') \<and> result = r\<lparr>reRequeueAfter := delay\<rparr>)"
  by (auto simp: withRequeueAfter_def andThen_Inr)

lemma failDeployment_written:
  assumes "patches_apply K" and "failDeployment K now original reason message d c = (Inr (result, d'), c')"
  shows "dtPhase (mdStatus d') = ModelDeploymentPhaseFailed" "moLoaded (dtModel (mdStatus d')) = False"
    "mdSpec d' = mdSpec d"
  using patchDeploymentStatus_written [OF assms(1)] assms(2)
  by (fastforce simp: failDeployment_def andThen_Inr failedStatus_def)+

section \<open>Conditions after a write\<close>

lemma conditionStatus_fields [simp]:
  "conditionStatus (s\<lparr>dtAssignedNode := node\<rparr>) t = conditionStatus s t"
  "conditionStatus (s\<lparr>dtAssignedGPUs := gpus\<rparr>) t = conditionStatus s t"
  "conditionStatus (s\<lparr>dtDrainStartedAt := started\<rparr>) t = conditionStatus s t"
  "conditionStatus (s\<lparr>dtReplacement := replacement\<rparr>) t = conditionStatus s t"
  "conditionStatus (s\<lparr>dtReplicas := replicas\<rparr>) t = conditionStatus s t"
  "conditionStatus (s\<lparr>dtScaling := scaling\<rparr>) t = conditionStatus s t"
  "conditionStatus (s\<lparr>dtModel := model\<rparr>) t = conditionStatus s t"
  by (simp_all add: conditionStatus_def)

lemma setDeploymentCondition_status [simp]:
  "conditionStatus (mdStatus (setDeploymentCondition now type st r m d)) t =
   (if t = type then Some st else conditionStatus (mdStatus d) t)"
  using condition_list.find_set_status [of now "dtConditions (mdStatus d)" "omGeneration (mdMeta d)" "newCondition type st r m" t]
  by (simp add: conditionStatus_def setDeploymentCondition_def newCondition_def)

lemma removeDeploymentCondition_status [simp]:
  "conditionStatus (mdStatus (removeDeploymentCondition type d)) t =
   (if t = type then None else conditionStatus (mdStatus d) t)"
  by (simp add: conditionStatus_def removeDeploymentCondition_def FindCondition_RemoveCondition)

lemma setDeploymentReadyFalse_status [simp]:
  "conditionStatus (mdStatus (setDeploymentReadyFalse now r m d)) t =
   (if t = ConditionReady then Some ConditionFalse else conditionStatus (mdStatus d) t)"
  by (simp add: setDeploymentReadyFalse_def setReadyFalse_def)

text \<open>The groups of conditions that a withdrawal of the runtime writes.\<close>

lemmas withdrawal_defs = setGPUCondition_def setRuntimeWaitingConditions_def setDrainingConditions_def failedStatus_def

lemma setRuntimeWaitingConditions_fields [simp]:
  "mdMeta (setRuntimeWaitingConditions now r m d) = mdMeta d" "mdSpec (setRuntimeWaitingConditions now r m d) = mdSpec d"
  "dtPhase (mdStatus (setRuntimeWaitingConditions now r m d)) = dtPhase (mdStatus d)"
  "dtReplicas (mdStatus (setRuntimeWaitingConditions now r m d)) = dtReplicas (mdStatus d)"
  "dtModel (mdStatus (setRuntimeWaitingConditions now r m d)) = dtModel (mdStatus d)"
  "dtDrainStartedAt (mdStatus (setRuntimeWaitingConditions now r m d)) = dtDrainStartedAt (mdStatus d)"
  "dtAssignedNode (mdStatus (setRuntimeWaitingConditions now r m d)) = dtAssignedNode (mdStatus d)"
  "dtReplacement (mdStatus (setRuntimeWaitingConditions now r m d)) = dtReplacement (mdStatus d)"
  "dtScaling (mdStatus (setRuntimeWaitingConditions now r m d)) = dtScaling (mdStatus d)"
  by (simp_all add: withdrawal_defs)

text \<open>No gateway routes to a deployment with these conditions.\<close>

definition unroutable :: "ModelDeploymentStatus \<Rightarrow> bool" where
  "unroutable s \<longleftrightarrow>
     conditionStatus s ConditionReady = Some ConditionFalse \<and> conditionStatus s ConditionRoutingReady = Some ConditionFalse"

lemma withdrawn_unroutable [simp]:
  "unroutable (mdStatus (setRuntimeWaitingConditions now r m d))" "unroutable (mdStatus (setDrainingConditions now d))"
  "unroutable (mdStatus (failedStatus now r m d))"
  by (simp_all add: unroutable_def withdrawal_defs const_defs Let_def)

end
