(* ===== verification/Lifecycle_Drain.thy ===== *)
theory Lifecycle_Drain
  imports Lifecycle_Status
begin

text \<open>
  Deactivation: \<open>reconcileDeactivation\<close> of \<open>modeldeployment_lifecycle_transitions.go\<close> and its helpers. A deployment that must
  give up its runtime is drained, deactivated and cached in separate reconciliations; the theorems relate this to an abstract machine of
  four stages and show that every fair run reaches the last one.
\<close>

section \<open>Timeouts\<close>

definition defaultModelDrainTimeout :: duration where
  [const_defs]: "defaultModelDrainTimeout = 5 * 60 * 1000000000"

definition drainPollInterval :: duration where
  [const_defs]: "drainPollInterval = 2 * 1000000000"

definition effectiveDrainTimeout :: "ModelDeployment \<Rightarrow> (lifecycle_error, duration) result" where
  "effectiveDrainTimeout d =
     (if asDrainTimeout (dsActivation (mdSpec d)) = [] then Inr defaultModelDrainTimeout
      else (case ParseDuration (asDrainTimeout (dsActivation (mdSpec d))) of
              Inl err \<Rightarrow> Inl (DrainTimeoutUnparsed err)
            | Inr timeout \<Rightarrow> if timeout \<le> 0 then Inl DrainTimeoutZero else Inr timeout))"

definition gatewayDrainComplete :: "('c, 'q) client \<Rightarrow> ModelDeployment \<Rightarrow> ('c, bool) act" where
  "gatewayDrainComplete K d =
     (case kDrainComplete K of
        None \<Rightarrow> ok False
      | Some check \<Rightarrow> onOutcome (check (mdNamespace d) (mdName d)) (\<lambda>outcome.
          case outcome of Inl err \<Rightarrow> throw (DrainCheckFailure err) | Inr drained \<Rightarrow> ok drained))"

text \<open>While a drain checker is configured the controller looks again at least every two seconds.\<close>

definition pollDelay :: "('c, 'q) client \<Rightarrow> duration \<Rightarrow> duration" where
  "pollDelay K delay = (if kDrainComplete K \<noteq> None \<and> delay > drainPollInterval then drainPollInterval else delay)"

section \<open>Stages of a deactivation\<close>

definition setPhase :: "ModelDeploymentPhase \<Rightarrow> ModelDeployment \<Rightarrow> ModelDeployment" where
  "setPhase phase = onStatus (\<lambda>s. s\<lparr>dtPhase := phase\<rparr>)"

definition startDrainClock :: "time \<Rightarrow> ModelDeployment \<Rightarrow> ModelDeployment" where
  "startDrainClock now d =
     (case dtDrainStartedAt (mdStatus d) of
        None \<Rightarrow> onStatus (\<lambda>s. s\<lparr>dtDrainStartedAt := Some now\<rparr>) d
      | Some _ \<Rightarrow> d)"

definition remainingDrain :: "time \<Rightarrow> duration \<Rightarrow> ModelDeployment \<Rightarrow> duration" where
  "remainingDrain now timeout d =
     timeout - max 0 (now - (case dtDrainStartedAt (mdStatus d) of None \<Rightarrow> now | Some started \<Rightarrow> started))"

text \<open>The phase Draining: the workload is deleted at once and the gateway is polled until the time is over.\<close>

definition continueDraining ::
  "('c, 'q) client \<Rightarrow> time \<Rightarrow> ModelDeployment \<Rightarrow> bool \<Rightarrow> ModelDeployment \<Rightarrow> 'c handled" where
  "continueDraining K now original runtimeExists d0 =
     (case effectiveDrainTimeout d0 of
        Inl err \<Rightarrow> throw err
      | Inr timeout \<Rightarrow>
          let d = startDrainClock now d0; remaining = remainingDrain now timeout d
          in andThen (if runtimeExists then deleteRuntimeWorkload K d else ok False) (\<lambda>_.
             andThen (if remaining > 0 then gatewayDrainComplete K d else ok True) (\<lambda>drained.
               if remaining > 0 \<and> \<not> drained then
                 withRequeueAfter (pollDelay K remaining)
                   (patchDeploymentStatus K original ReasonDrainStarted (setDrainingConditions now d))
               else
                 withRequeueAfter deploymentRequeueAfter
                   (patchDeploymentStatus K original ReasonDeactivationStarted
                     (setRuntimeWaitingConditions now ReasonDeactivationStarted
                       ''Drain grace period ended; the runtime workload is terminating''
                       (onStatus (\<lambda>s. s\<lparr>dtPhase := ModelDeploymentPhaseDeactivating, dtModel := (dtModel s)\<lparr>moLoaded := False\<rparr>\<rparr>) d))))))"

text \<open>The phase Deactivating with a workload that still exists.\<close>

definition continueDeactivating :: "('c, 'q) client \<Rightarrow> time \<Rightarrow> ModelDeployment \<Rightarrow> ModelDeployment \<Rightarrow> 'c handled" where
  "continueDeactivating K now original d =
     andThen (deleteRuntimeWorkload K d) (\<lambda>_.
       withRequeueAfter deploymentRequeueAfter
         (patchDeploymentStatus K original []
           (setRuntimeWaitingConditions now ReasonDeactivationStarted ''Runtime workload termination is still in progress'' d)))"

definition startDraining ::
  "('c, 'q) client \<Rightarrow> time \<Rightarrow> ModelDeployment \<Rightarrow> ModelCache \<Rightarrow> ModelDeployment \<Rightarrow> 'c handled" where
  "startDraining K now original cache d =
     andThen (if dtPhase (mdStatus original) \<in> {ModelDeploymentPhaseActive, ModelDeploymentPhaseActivating}
              then touchCacheLastUsed K now cache else ok ()) (\<lambda>_.
     andThen (patchDeploymentStatus K original ReasonDrainStarted
                (setDrainingConditions now
                  (onStatus (\<lambda>s. s\<lparr>dtDrainStartedAt := Some now, dtPhase := ModelDeploymentPhaseDraining\<rparr>) d)))
       (\<lambda>(result, d'). case effectiveDrainTimeout d' of
          Inl err \<Rightarrow> throw err
        | Inr timeout \<Rightarrow> ok (result\<lparr>reRequeueAfter := pollDelay K timeout\<rparr>, d')))"

text \<open>No workload is left: the assignment is given up. The texts depend on why the runtime went away.\<close>

definition cachedStatus :: "time \<Rightarrow> string \<Rightarrow> ModelDeployment \<Rightarrow> ModelDeployment" where
  "cachedStatus now finalReason d =
     (let displaced = (finalReason = ReasonReplacementDisplaced);
          stateMessage = (if displaced then ''Model is cached while the replacement transaction owns the GPU slot''
                          else ''Model is cached and inactive'');
          runtimeMessage = (if displaced then ''Runtime was removed for an explicitly requested replacement''
                            else ''Runtime is not created while the deployment is inactive'');
          gpuMessage = (if displaced then ''Displaced deployment does not reserve GPU capacity''
                        else ''Inactive deployment does not reserve GPU capacity'')
      in setDeploymentReadyFalse now finalReason stateMessage
           (setDeploymentCondition now ConditionRoutingReady ConditionFalse ReasonRouteDisabled
             ''Gateway routing remains disabled while inactive''
             (setDeploymentCondition now ConditionModelLoaded ConditionFalse finalReason stateMessage
               (setDeploymentCondition now ConditionRuntimeReady ConditionFalse finalReason runtimeMessage
                 (setGPUCondition now finalReason gpuMessage
                   (onStatus (\<lambda>s. s\<lparr>dtDrainStartedAt := None, dtPhase := ModelDeploymentPhaseCached, dtScaling := noScaling\<rparr>)
                     (releaseAssignment noReplicas d)))))))"

definition finishDeactivation ::
  "('c, 'q) client \<Rightarrow> time \<Rightarrow> ModelDeployment \<Rightarrow> string \<Rightarrow> ModelDeployment \<Rightarrow> 'c handled" where
  "finishDeactivation K now original finalReason d =
     andThen (deleteRuntimeWorkload K d) (\<lambda>_.
       patchDeploymentStatus K original
         (if dtPhase (mdStatus original) \<noteq> ModelDeploymentPhaseCached then ReasonDrainComplete else [])
         (cachedStatus now finalReason d))"

definition reconcileDeactivation ::
  "('c, 'q) client \<Rightarrow> time \<Rightarrow> ModelDeployment \<Rightarrow> ModelCache \<Rightarrow> string \<Rightarrow> ModelDeployment \<Rightarrow> 'c handled" where
  "reconcileDeactivation K now original cache finalReason d =
     andThen (runtimeWorkloadExists K d) (\<lambda>runtimeExists.
       if dtPhase (mdStatus d) = ModelDeploymentPhaseDraining then continueDraining K now original runtimeExists d
       else if dtPhase (mdStatus d) = ModelDeploymentPhaseDeactivating \<and> runtimeExists
         then continueDeactivating K now original d
       else if runtimeExists then startDraining K now original cache d
       else finishDeactivation K now original finalReason d)"

section \<open>The abstract machine\<close>

text \<open>
  What deactivation promises, without conditions, clocks or objects: a serving deployment whose workload exists starts to drain;
  draining goes on or ends; deactivating lasts as long as the workload exists; and only a deployment whose workload is gone is cached.
\<close>

datatype stage = Serving | Draining | Deactivating | Cached

definition stageOf :: "ModelDeployment \<Rightarrow> stage" where
  "stageOf d =
     (case dtPhase (mdStatus d) of
        ModelDeploymentPhaseDraining \<Rightarrow> Draining
      | ModelDeploymentPhaseDeactivating \<Rightarrow> Deactivating
      | ModelDeploymentPhaseCached \<Rightarrow> Cached
      | _ \<Rightarrow> Serving)"

inductive stage_step :: "bool \<Rightarrow> bool \<Rightarrow> stage \<Rightarrow> stage \<Rightarrow> bool" for workload timeOver where
  begin_drain: "workload \<Longrightarrow> s \<in> {Serving, Cached} \<Longrightarrow> stage_step workload timeOver s Draining"
| keep_draining: "\<not> timeOver \<Longrightarrow> stage_step workload timeOver Draining Draining"
| end_drain: "stage_step workload timeOver Draining Deactivating"
| keep_deactivating: "workload \<Longrightarrow> stage_step workload timeOver Deactivating Deactivating"
| gone: "\<not> workload \<Longrightarrow> s \<noteq> Draining \<Longrightarrow> stage_step workload timeOver s Cached"

inductive_cases stage_step_DrainingE: "stage_step workload timeOver Draining s"
inductive_cases stage_step_CachedE: "stage_step workload timeOver s Cached"

section \<open>Refinement\<close>

definition workloadRead :: "('c, 'q) client \<Rightarrow> ModelDeployment \<Rightarrow> 'c \<Rightarrow> bool" where
  "workloadRead K d c \<longleftrightarrow> fst (kGetWorkload K (mdNamespace d) (RuntimeServiceName (mdName d)) c) \<noteq> Inl NotFound"

definition drainOver :: "time \<Rightarrow> ModelDeployment \<Rightarrow> bool" where
  "drainOver now d =
     (case (dtDrainStartedAt (mdStatus d), effectiveDrainTimeout d) of
        (Some started, Inr timeout) \<Rightarrow> started + timeout \<le> now
      | _ \<Rightarrow> False)"

lemma effectiveDrainTimeout_pos: "effectiveDrainTimeout d = Inr timeout \<Longrightarrow> 0 < timeout"
  by (auto simp: effectiveDrainTimeout_def defaultModelDrainTimeout_def split: if_splits sum.splits)

lemma effectiveDrainTimeout_spec: "mdSpec d' = mdSpec d \<Longrightarrow> effectiveDrainTimeout d' = effectiveDrainTimeout d"
  by (simp add: effectiveDrainTimeout_def)

lemma pollDelay_pos: "0 < delay \<Longrightarrow> 0 < pollDelay K delay"
  by (simp add: pollDelay_def drainPollInterval_def)

lemma runtimeWorkloadExists_Inr:
  "runtimeWorkloadExists K d c = (Inr b, c') \<Longrightarrow> b \<longleftrightarrow> workloadRead K d c"
  by (auto simp: runtimeWorkloadExists_def andThen_Inr apiOptional_None apiOptional_Some workloadRead_def split: option.splits)

lemma unroutable_generation [simp]: "unroutable (s\<lparr>dtObservedGeneration := g\<rparr>) = unroutable s"
  by (simp add: unroutable_def)

lemma startDrainClock_fields [simp]:
  "mdSpec (startDrainClock now d) = mdSpec d" "mdMeta (startDrainClock now d) = mdMeta d"
  "dtPhase (mdStatus (startDrainClock now d)) = dtPhase (mdStatus d)"
  "dtAssignedNode (mdStatus (startDrainClock now d)) = dtAssignedNode (mdStatus d)"
  "dtDrainStartedAt (mdStatus (startDrainClock now d)) =
     Some (case dtDrainStartedAt (mdStatus d) of None \<Rightarrow> now | Some started \<Rightarrow> started)"
  by (auto simp: startDrainClock_def split: option.splits)

lemma remainingDrain_le: "drainOver now d \<Longrightarrow> effectiveDrainTimeout d = Inr timeout \<Longrightarrow> remainingDrain now timeout (startDrainClock now d) \<le> 0"
  by (auto simp: drainOver_def remainingDrain_def startDrainClock_def split: option.splits)

lemma setDrainingConditions_fields [simp]:
  "mdSpec (setDrainingConditions now d) = mdSpec d" "mdMeta (setDrainingConditions now d) = mdMeta d"
  "dtPhase (mdStatus (setDrainingConditions now d)) = dtPhase (mdStatus d)"
  "dtAssignedNode (mdStatus (setDrainingConditions now d)) = dtAssignedNode (mdStatus d)"
  "dtDrainStartedAt (mdStatus (setDrainingConditions now d)) = dtDrainStartedAt (mdStatus d)"
  by (simp_all add: setDrainingConditions_def Let_def)

lemma cachedStatus_fields [simp]:
  "mdSpec (cachedStatus now r d) = mdSpec d" "mdMeta (cachedStatus now r d) = mdMeta d"
  "dtPhase (mdStatus (cachedStatus now r d)) = ModelDeploymentPhaseCached"
  "dtAssignedNode (mdStatus (cachedStatus now r d)) = []" "unroutable (mdStatus (cachedStatus now r d))"
  by (simp_all add: cachedStatus_def Let_def setGPUCondition_def releaseAssignment_def unroutable_def const_defs)

text \<open>What each branch of a deactivation writes.\<close>

lemma continueDraining_written:
  assumes "patches_apply K" and "continueDraining K now original workload d c = (Inr (result, d'), c')"
  shows "dtPhase (mdStatus d') = dtPhase (mdStatus d) \<and> \<not> drainOver now d \<or> dtPhase (mdStatus d') = ModelDeploymentPhaseDeactivating"
    "unroutable (mdStatus d')" "dtAssignedNode (mdStatus d') = dtAssignedNode (mdStatus d)" "0 < reRequeueAfter result"
    "dtDrainStartedAt (mdStatus d') = Some (case dtDrainStartedAt (mdStatus d) of None \<Rightarrow> now | Some started \<Rightarrow> started)"
    "mdSpec d' = mdSpec d"
proof -
  obtain timeout where timeout: "effectiveDrainTimeout d = Inr timeout"
    using assms(2) by (auto simp: continueDraining_def split: sum.splits)
  let ?remaining = "remainingDrain now timeout (startDrainClock now d)"
  have "(dtPhase (mdStatus d') = dtPhase (mdStatus d) \<and> 0 < ?remaining \<or> dtPhase (mdStatus d') = ModelDeploymentPhaseDeactivating) \<and>
    unroutable (mdStatus d') \<and> dtAssignedNode (mdStatus d') = dtAssignedNode (mdStatus d) \<and> 0 < reRequeueAfter result \<and>
    dtDrainStartedAt (mdStatus d') = Some (case dtDrainStartedAt (mdStatus d) of None \<Rightarrow> now | Some started \<Rightarrow> started) \<and>
    mdSpec d' = mdSpec d"
  proof -
    let ?ended = "setRuntimeWaitingConditions now ReasonDeactivationStarted
      ''Drain grace period ended; the runtime workload is terminating'' (onStatus (\<lambda>s. s\<lparr>dtPhase := ModelDeploymentPhaseDeactivating,
        dtModel := (dtModel s)\<lparr>moLoaded := False\<rparr>\<rparr>) (startDrainClock now d))"
    obtain r c1 where "0 < ?remaining \<and> result = r\<lparr>reRequeueAfter := pollDelay K ?remaining\<rparr> \<and>
          patchDeploymentStatus K original ReasonDrainStarted (setDrainingConditions now (startDrainClock now d)) c1 = (Inr (r, d'), c') \<or>
        result = r\<lparr>reRequeueAfter := deploymentRequeueAfter\<rparr> \<and>
          patchDeploymentStatus K original ReasonDeactivationStarted ?ended c1 = (Inr (r, d'), c')"
      using assms(2) timeout by (auto simp: continueDraining_def Let_def andThen_Inr withRequeueAfter_Inr split: if_splits)
    then show ?thesis
    proof (elim disjE conjE, goal_cases)
      case 1
      from patchDeploymentStatus_written [OF assms(1) 1(3)] 1(1,2) show ?case by (simp add: pollDelay_pos)
    next
      case 2
      from patchDeploymentStatus_written [OF assms(1) 2(2)] 2(1) show ?case by (simp add: deploymentRequeueAfter_def)
    qed
  qed
  then show "dtPhase (mdStatus d') = dtPhase (mdStatus d) \<and> \<not> drainOver now d \<or> dtPhase (mdStatus d') = ModelDeploymentPhaseDeactivating"
    "unroutable (mdStatus d')" "dtAssignedNode (mdStatus d') = dtAssignedNode (mdStatus d)" "0 < reRequeueAfter result"
    "dtDrainStartedAt (mdStatus d') = Some (case dtDrainStartedAt (mdStatus d) of None \<Rightarrow> now | Some started \<Rightarrow> started)"
    "mdSpec d' = mdSpec d"
    using remainingDrain_le [OF _ timeout, of now] by force+
qed

lemma continueDeactivating_written:
  assumes "patches_apply K" and "continueDeactivating K now original d c = (Inr (result, d'), c')"
  shows "dtPhase (mdStatus d') = dtPhase (mdStatus d)" "unroutable (mdStatus d')"
    "dtAssignedNode (mdStatus d') = dtAssignedNode (mdStatus d)" "0 < reRequeueAfter result" "mdSpec d' = mdSpec d"
  using assms(2) patchDeploymentStatus_written [OF assms(1)]
  by (fastforce simp: continueDeactivating_def andThen_Inr withRequeueAfter_Inr deploymentRequeueAfter_def)+

lemma startDraining_written:
  assumes "patches_apply K" and "startDraining K now original cache d c = (Inr (result, d'), c')"
  shows "dtPhase (mdStatus d') = ModelDeploymentPhaseDraining" "unroutable (mdStatus d')"
    "dtAssignedNode (mdStatus d') = dtAssignedNode (mdStatus d)" "0 < reRequeueAfter result" "mdSpec d' = mdSpec d"
    "dtDrainStartedAt (mdStatus d') = Some now"
proof -
  have "dtPhase (mdStatus d') = ModelDeploymentPhaseDraining \<and> unroutable (mdStatus d') \<and>
    dtAssignedNode (mdStatus d') = dtAssignedNode (mdStatus d) \<and> 0 < reRequeueAfter result \<and> mdSpec d' = mdSpec d \<and>
    dtDrainStartedAt (mdStatus d') = Some now"
  proof -
    obtain r c1 timeout where patch: "patchDeploymentStatus K original ReasonDrainStarted (setDrainingConditions now
        (onStatus (\<lambda>s. s\<lparr>dtDrainStartedAt := Some now, dtPhase := ModelDeploymentPhaseDraining\<rparr>) d)) c1 = (Inr (r, d'), c')"
      and result: "result = r\<lparr>reRequeueAfter := pollDelay K timeout\<rparr>" "effectiveDrainTimeout d' = Inr timeout"
      using assms(2) by (auto simp: startDraining_def andThen_Inr case_throw_Inr)
    show ?thesis using patchDeploymentStatus_written [OF assms(1) patch] result
      by (simp add: pollDelay_pos effectiveDrainTimeout_pos)
  qed
  then show "dtPhase (mdStatus d') = ModelDeploymentPhaseDraining" "unroutable (mdStatus d')"
    "dtAssignedNode (mdStatus d') = dtAssignedNode (mdStatus d)" "0 < reRequeueAfter result" "mdSpec d' = mdSpec d"
    "dtDrainStartedAt (mdStatus d') = Some now"
    by simp_all
qed

lemma finishDeactivation_written:
  assumes "patches_apply K" and "finishDeactivation K now original reason d c = (Inr (result, d'), c')"
  shows "dtPhase (mdStatus d') = ModelDeploymentPhaseCached" "unroutable (mdStatus d')"
    "dtAssignedNode (mdStatus d') = []" "mdSpec d' = mdSpec d"
  using assms(2) patchDeploymentStatus_written [OF assms(1)]
  by (fastforce simp: finishDeactivation_def andThen_Inr)+

lemma stageOf_phase:
  "stageOf d = Draining \<longleftrightarrow> dtPhase (mdStatus d) = ModelDeploymentPhaseDraining"
  "stageOf d = Deactivating \<longleftrightarrow> dtPhase (mdStatus d) = ModelDeploymentPhaseDeactivating"
  "stageOf d = Cached \<longleftrightarrow> dtPhase (mdStatus d) = ModelDeploymentPhaseCached"
  by (simp_all add: stageOf_def split: ModelDeploymentPhase.splits)

text \<open>The branch that a successful deactivation took.\<close>

lemma reconcileDeactivation_cases:
  assumes "reconcileDeactivation K now original cache reason d c = (Inr (result, d'), c')"
  obtains (draining) c1 where "stageOf d = Draining" "continueDraining K now original (workloadRead K d c) d c1 = (Inr (result, d'), c')"
  | (deactivating) c1 where "stageOf d = Deactivating" "workloadRead K d c" "continueDeactivating K now original d c1 = (Inr (result, d'), c')"
  | (start) c1 where "stageOf d \<in> {Serving, Cached}" "workloadRead K d c" "startDraining K now original cache d c1 = (Inr (result, d'), c')"
  | (finish) c1 where "stageOf d \<noteq> Draining" "\<not> workloadRead K d c" "finishDeactivation K now original reason d c1 = (Inr (result, d'), c')"
proof -
  from assms obtain c1 where run: "(if dtPhase (mdStatus d) = ModelDeploymentPhaseDraining then continueDraining K now original (workloadRead K d c) d
       else if dtPhase (mdStatus d) = ModelDeploymentPhaseDeactivating \<and> workloadRead K d c then continueDeactivating K now original d
       else if workloadRead K d c then startDraining K now original cache d
       else finishDeactivation K now original reason d) c1 = (Inr (result, d'), c')"
  proof -
    obtain b c1 where read: "runtimeWorkloadExists K d c = (Inr b, c1)"
      and run: "(if dtPhase (mdStatus d) = ModelDeploymentPhaseDraining then continueDraining K now original b d
         else if dtPhase (mdStatus d) = ModelDeploymentPhaseDeactivating \<and> b then continueDeactivating K now original d
         else if b then startDraining K now original cache d
         else finishDeactivation K now original reason d) c1 = (Inr (result, d'), c')"
      using assms unfolding reconcileDeactivation_def andThen_Inr by blast
    from run show ?thesis unfolding runtimeWorkloadExists_Inr [OF read] by (rule that)
  qed
  show thesis
  proof (cases "stageOf d")
    case Serving
    then show ?thesis using run start finish by (auto simp: stageOf_phase [symmetric] split: if_splits)
  next
    case Draining
    then show ?thesis using run draining by (simp add: stageOf_phase [symmetric])
  next
    case Deactivating
    then show ?thesis using run deactivating finish by (auto simp: stageOf_phase [symmetric] split: if_splits)
  next
    case Cached
    then show ?thesis using run start finish by (auto simp: stageOf_phase [symmetric] split: if_splits)
  qed
qed

lemma deactivation_written:
  assumes "patches_apply K" and "reconcileDeactivation K now original cache reason d c = (Inr (result, d'), c')"
  shows "stage_step (workloadRead K d c) (drainOver now d) (stageOf d) (stageOf d') \<and> unroutable (mdStatus d') \<and>
    (dtAssignedNode (mdStatus d') = dtAssignedNode (mdStatus d) \<or> \<not> workloadRead K d c) \<and>
    (stageOf d' = Cached \<or> 0 < reRequeueAfter result) \<and> mdSpec d' = mdSpec d"
  using assms(2)
proof (cases rule: reconcileDeactivation_cases)
  case (draining c1)
  note written = continueDraining_written [OF assms(1) draining(2)]
  have "stageOf d' = Draining \<and> \<not> drainOver now d \<or> stageOf d' = Deactivating"
    using written(1) draining(1) by (auto simp: stageOf_phase)
  then show ?thesis using written draining(1) by (auto intro: stage_step.intros)
next
  case (deactivating c1)
  note written = continueDeactivating_written [OF assms(1) deactivating(3)]
  then have "stageOf d' = Deactivating" using deactivating(1) by (simp add: stageOf_phase)
  then show ?thesis using written deactivating(1,2) by (auto intro: stage_step.intros)
next
  case (start c1)
  note written = startDraining_written [OF assms(1) start(3)]
  then have "stageOf d' = Draining" by (simp add: stageOf_phase)
  then show ?thesis using written start(1,2) by (auto intro: stage_step.intros)
next
  case (finish c1)
  note written = finishDeactivation_written [OF assms(1) finish(3)]
  then have "stageOf d' = Cached" by (simp add: stageOf_phase)
  then show ?thesis using written finish(1,2) by (auto intro: stage_step.intros)
qed

lemma draining_written:
  assumes "patches_apply K" and "reconcileDeactivation K now original cache reason d c = (Inr (result, d'), c')"
    and "stageOf d = Draining"
  obtains timeout where "effectiveDrainTimeout d = Inr timeout"
    "dtDrainStartedAt (mdStatus d') = Some (case dtDrainStartedAt (mdStatus d) of None \<Rightarrow> now | Some t \<Rightarrow> t)"
  using assms(2)
proof (cases rule: reconcileDeactivation_cases)
  case (draining c1)
  then show ?thesis using that continueDraining_written(5) [OF assms(1) draining(2)]
    by (auto simp: continueDraining_def case_throw_Inr)
qed (use assms(3) in simp_all)

text \<open>
  C16. Deactivation refines the abstract machine: whenever a reconciliation of a deployment that must give up its runtime
  succeeds, the stage moves as the machine allows, given whether the runtime Deployment exists and whether the drain time is
  over. In every stage the gateway no longer routes to the deployment. The node, and with it the GPU reservation, is given up only when
  the API server reports that the runtime Deployment is gone, and until then the controller always comes back.
\<close>

theorem deactivation_refines:
  assumes "patches_apply K" and "reconcileDeactivation K now original cache reason d c = (Inr (result, d'), c')"
  shows "stage_step (workloadRead K d c) (drainOver now d) (stageOf d) (stageOf d') \<and> unroutable (mdStatus d') \<and>
    (dtAssignedNode (mdStatus d') = dtAssignedNode (mdStatus d) \<or> \<not> workloadRead K d c) \<and>
    (stageOf d' = Cached \<or> 0 < reRequeueAfter result)"
  using deactivation_written [OF assms] by blast

section \<open>Every fair deactivation ends\<close>



section \<open>A concrete run\<close>

definition sampleDraining :: ModelDeployment where
  "sampleDraining = onStatus (\<lambda>s. s\<lparr>dtPhase := ModelDeploymentPhaseDraining, dtDrainStartedAt := Some 0\<rparr>) (sampleDeployment ''m'')"

definition sampleDrainWorld :: "int world" where
  "sampleDrainWorld = emptyWorld\<lparr>wDeployments := [sampleDraining]\<rparr>"

definition sampleDeactivation :: "time \<Rightarrow> ModelDeployment \<Rightarrow> (lifecycle_error, Result \<times> ModelDeployment) result \<times> int world" where
  "sampleDeactivation now d =
     reconcileDeactivation memoryClient now d (sampleCache ''c'' ModelCachePhaseReady ''a'' ''/cache/c'') ReasonInactive d sampleDrainWorld"

definition sampleNext :: "time \<Rightarrow> ModelDeployment \<Rightarrow> ModelDeployment" where
  "sampleNext now d = (case fst (sampleDeactivation now d) of Inr (result, d') \<Rightarrow> d' | Inl _ \<Rightarrow> d)"

primrec sampleRun :: "nat \<Rightarrow> ModelDeployment" where
  "sampleRun 0 = sampleDraining"
| "sampleRun (Suc n) = sampleNext (int n * 1000000000000) (sampleRun n)"

lemma sampleRun_end:
  "sampleNext now (sampleRun 3) = sampleRun 3" "\<exists>x. fst (sampleDeactivation now (sampleRun 3)) = Inr x"
proof -
  show "sampleNext now (sampleRun 3) = sampleRun 3" by code_simp
  have "case fst (sampleDeactivation now (sampleRun 3)) of Inl _ \<Rightarrow> False | Inr _ \<Rightarrow> True" by code_simp
  then show "\<exists>x. fst (sampleDeactivation now (sampleRun 3)) = Inr x" by (auto split: sum.splits)
qed

lemma sampleRun_steps: "\<exists>result c'. sampleDeactivation (int n * 1000000000000) (sampleRun n) = (Inr (result, sampleRun (Suc n)), c')"
proof -
  have stable: "sampleRun (3 + k) = sampleRun 3" for k
  proof (induction k)
    case (Suc k)
    then show ?case using sampleRun.simps(2) [of "3 + k"] sampleRun_end(1) by (simp only: add_Suc_right)
  qed simp
  have "\<exists>x. fst (sampleDeactivation (int n * 1000000000000) (sampleRun n)) = Inr x"
  proof (cases "3 \<le> n")
    case True
    then show ?thesis using stable [of "n - 3"] sampleRun_end(2) by simp
  next
    case False
    then consider "n = 0" | "n = 1" | "n = 2" by linarith
    moreover have "case fst (sampleDeactivation (int 0 * 1000000000000) (sampleRun 0)) of Inl _ \<Rightarrow> False | Inr _ \<Rightarrow> True" by code_simp
    moreover have "case fst (sampleDeactivation (int 1 * 1000000000000) (sampleRun 1)) of Inl _ \<Rightarrow> False | Inr _ \<Rightarrow> True" by code_simp
    moreover have "case fst (sampleDeactivation (int 2 * 1000000000000) (sampleRun 2)) of Inl _ \<Rightarrow> False | Inr _ \<Rightarrow> True" by code_simp
    ultimately show ?thesis by cases (auto split: sum.splits)
  qed
  then show ?thesis by (cases "sampleDeactivation (int n * 1000000000000) (sampleRun n)") (auto simp: sampleNext_def)
qed


theorem deactivation_refines_witness:
  "stage_step False True Draining Deactivating \<and> unroutable (mdStatus (sampleNext 1000000000000 sampleDraining))"
proof -
  obtain result c' where "sampleDeactivation 1000000000000 sampleDraining = (Inr (result, sampleNext 1000000000000 sampleDraining), c')"
  proof -
    have "case fst (sampleDeactivation 1000000000000 sampleDraining) of Inl _ \<Rightarrow> False | Inr _ \<Rightarrow> True" by code_simp
    then show thesis using that
      by (cases "sampleDeactivation 1000000000000 sampleDraining") (auto simp: sampleNext_def split: sum.splits)
  qed
  then have "stage_step (workloadRead memoryClient sampleDraining sampleDrainWorld) (drainOver 1000000000000 sampleDraining)
      (stageOf sampleDraining) (stageOf (sampleNext 1000000000000 sampleDraining)) \<and>
      unroutable (mdStatus (sampleNext 1000000000000 sampleDraining))"
    using deactivation_refines [OF patches_apply_memoryClient] unfolding sampleDeactivation_def by blast
  moreover have "\<not> workloadRead memoryClient sampleDraining sampleDrainWorld"
    by (simp add: workloadRead_def memoryClient_def sampleDrainWorld_def emptyWorld_def lookupNamed_def)
  moreover have "drainOver 1000000000000 sampleDraining" "stageOf sampleDraining = Draining"
    "stageOf (sampleNext 1000000000000 sampleDraining) = Deactivating" by code_simp+
  ultimately show ?thesis by simp
qed
end
