(* ===== verification/Lifecycle_Replacement.thy ===== *)
theory Lifecycle_Replacement
  imports Lifecycle_Drain
begin

text \<open>
  Replacement of a running deployment on a full node: the rest of \<open>modeldeployment_lifecycle_transitions.go\<close>. A requester marks a
  target, waits until the target has given up its devices, activates, and on failure restores the target. The requester's side and the
  target's side are separate reconciliations that only see each other's stored status. The texts of errors are the parameter \<open>T\<close>.
\<close>

section \<open>References\<close>

definition referenceFor :: "ModelDeployment \<Rightarrow> ReplacementReference" where
  "referenceFor d = \<lparr>rfNamespace = mdNamespace d, rfName = mdName d, rfUID = omUID (mdMeta d)\<rparr>"

definition referencesEqual :: "ReplacementReference option \<Rightarrow> ReplacementReference option \<Rightarrow> bool" where
  "referencesEqual left right =
     (case (left, right) of
        (Some l, Some r) \<Rightarrow> rfNamespace l = rfNamespace r \<and> rfName l = rfName r \<and> rfUID l = rfUID r
      | (None, None) \<Rightarrow> True
      | _ \<Rightarrow> False)"

definition refText :: "ReplacementReference \<Rightarrow> string" where
  "refText ref = rfNamespace ref @ ''/'' @ rfName ref"

definition deploymentText :: "ModelDeployment \<Rightarrow> string" where
  "deploymentText d = mdNamespace d @ ''/'' @ mdName d"

definition isNotFound :: "lifecycle_error \<Rightarrow> bool" where
  "isNotFound e = (case e of ApiFailure _ err \<Rightarrow> err = NotFound | _ \<Rightarrow> False)"

text \<open>A deployment with another UID is a different deployment of the same name.\<close>

definition getReplacementParticipant ::
  "('c, 'q) client \<Rightarrow> ReplacementReference option \<Rightarrow> ('c, ModelDeployment) act" where
  "getReplacementParticipant K reference =
     (case reference of
        None \<Rightarrow> throw ParticipantRequired
      | Some ref \<Rightarrow>
          andThen (api [] (kGetModelDeployment K (rfNamespace ref) (rfName ref))) (\<lambda>d.
            if rfUID ref \<noteq> [] \<and> omUID (mdMeta d) \<noteq> rfUID ref then throw (ApiFailure [] NotFound) else ok d))"

section \<open>Status of a transaction\<close>

definition setReplacement :: "ReplacementStatus option \<Rightarrow> ModelDeployment \<Rightarrow> ModelDeployment" where
  "setReplacement replacement = onStatus (\<lambda>s. s\<lparr>dtReplacement := replacement\<rparr>)"

definition clearReplacement :: "ModelDeployment \<Rightarrow> ModelDeployment" where
  "clearReplacement d = removeDeploymentCondition ConditionReplacement (setReplacement None d)"

definition releaseNode :: "ModelDeployment \<Rightarrow> ModelDeployment" where
  "releaseNode = onStatus (\<lambda>s. s\<lparr>dtAssignedNode := [], dtAssignedGPUs := []\<rparr>)"

definition isReplacementPolicy :: "ActivationWhenFull \<Rightarrow> bool" where
  "isReplacementPolicy policy \<longleftrightarrow> policy \<in> {ActivationWhenFullReplaceOldest, ActivationWhenFullReplaceLowestPriority}"

definition replacementCandidateAvailable :: "ReplacementStatus option \<Rightarrow> bool" where
  "replacementCandidateAvailable replacement =
     (case replacement of
        None \<Rightarrow> True
      | Some r \<Rightarrow> rtRequestedBy r = None \<and> rtTarget r \<noteq> None \<and> rtPhase r = ReplacementPhaseSucceeded)"

text \<open>The transaction ends badly for the requester: it gives up its claim on the node and fails.\<close>

definition failReplacement ::
  "('c, 'q) client \<Rightarrow> time \<Rightarrow> ModelDeployment \<Rightarrow> ReplacementPhase \<Rightarrow> string \<Rightarrow> string \<Rightarrow> ReplacementStatus \<Rightarrow> ModelDeployment \<Rightarrow>
   'c handled" where
  "failReplacement K now original phase reason message replacement d =
     failDeployment K now original reason message
       (setDeploymentCondition now ConditionReplacement ConditionFalse reason message
         (releaseNode (setReplacement (Some (replacement\<lparr>rtPhase := phase, rtMessage := message\<rparr>)) d)))"

section \<open>Choice of a target\<close>

definition activeSince :: "ModelDeployment \<Rightarrow> time" where
  "activeSince d =
     (case FindCondition (dtConditions (mdStatus d)) ConditionReady of
        Some ready \<Rightarrow>
          if cStatus ready = ConditionTrue \<and> cObservedGeneration ready \<ge> omGeneration (mdMeta d) \<and> cLastTransitionTime ready \<noteq> 0
          then cLastTransitionTime ready else omCreationTimestamp (mdMeta d)
      | None \<Rightarrow> omCreationTimestamp (mdMeta d))"

definition replacementCandidate :: "ModelDeployment \<Rightarrow> ModelDeployment \<Rightarrow> bool" where
  "replacementCandidate requester candidate \<longleftrightarrow>
     mdNamespace candidate = mdNamespace requester \<and> mdName candidate \<noteq> mdName requester \<and>
     omDeletionTimestamp (mdMeta candidate) = None \<and>
     effectiveDesiredState candidate = ActivationDesiredStateActive \<and>
     dtObservedGeneration (mdStatus candidate) \<ge> omGeneration (mdMeta candidate) \<and>
     dtPhase (mdStatus candidate) = ModelDeploymentPhaseActive \<and>
     dtAssignedNode (mdStatus candidate) \<noteq> [] \<and>
     dtAssignedNode (mdStatus candidate) = cuNodeName (dtCache (mdStatus requester)) \<and>
     rrGPU (dsResources (mdSpec candidate)) \<noteq> None \<and>
     gpuResourceName candidate = gpuResourceName requester \<and>
     effectiveGPUReservation candidate = 1 \<and>
     replacementCandidateAvailable (dtReplacement (mdStatus candidate)) \<and>
     (effectiveWhenFull requester = ActivationWhenFullReplaceLowestPriority \<longrightarrow>
        asPriority (dsActivation (mdSpec candidate)) < asPriority (dsActivation (mdSpec requester)))"

definition candidateBefore :: "ModelDeployment \<Rightarrow> ModelDeployment \<Rightarrow> ModelDeployment \<Rightarrow> bool" where
  "candidateBefore requester left right =
     (if effectiveWhenFull requester = ActivationWhenFullReplaceLowestPriority \<and>
         asPriority (dsActivation (mdSpec left)) \<noteq> asPriority (dsActivation (mdSpec right))
        then asPriority (dsActivation (mdSpec left)) < asPriority (dsActivation (mdSpec right))
      else if activeSince left \<noteq> activeSince right then activeSince left < activeSince right
      else if mdNamespace left \<noteq> mdNamespace right then mdNamespace left < mdNamespace right
      else mdName left < mdName right)"

definition chooseTarget :: "ModelDeployment \<Rightarrow> ModelDeployment list \<Rightarrow> ModelDeployment option" where
  "chooseTarget requester deployments =
     (case sort_by (candidateBefore requester) (filter (replacementCandidate requester) deployments) of
        [] \<Rightarrow> None
      | target # _ \<Rightarrow> Some target)"

definition selectReplacementTarget :: "('c, 'q) client \<Rightarrow> ModelDeployment \<Rightarrow> ('c, ModelDeployment option) act" where
  "selectReplacementTarget K requester =
     andThen (api ''list ModelDeployments for replacement'' (kListModelDeployments K))
       (\<lambda>deployments. ok (chooseTarget requester deployments))"

section \<open>Marking and releasing a target\<close>

definition releasedTarget :: "ModelDeployment \<Rightarrow> ModelDeployment" where
  "releasedTarget target =
     removeDeploymentCondition ConditionReplacement
       (onStatus (\<lambda>s. s\<lparr>dtReplacement := None,
          dtDrainStartedAt := (if effectiveDesiredState target = ActivationDesiredStateActive then None else dtDrainStartedAt s)\<rparr>) target)"

definition releaseReplacementTarget ::
  "('c, 'q) client \<Rightarrow> ReplacementReference option \<Rightarrow> ModelDeployment \<Rightarrow> ('c, unit) act" where
  "releaseReplacementTarget K targetRef requester =
     (case targetRef of
        None \<Rightarrow> ok ()
      | Some ref \<Rightarrow>
          if rfNamespace ref \<noteq> mdNamespace requester then ok ()
          else onOutcome (getReplacementParticipant K targetRef) (\<lambda>outcome.
            case outcome of
              Inl err \<Rightarrow> if isNotFound err then ok () else throw err
            | Inr target \<Rightarrow>
                (case dtReplacement (mdStatus target) of
                   None \<Rightarrow> ok ()
                 | Some r \<Rightarrow>
                     if \<not> referencesEqual (rtRequestedBy r) (Some (referenceFor requester)) then ok ()
                     else andThen (api ''release replacement target''
                                     (kPatchModelDeploymentStatus K target (releasedTarget target))) (\<lambda>_. ok ()))))"

definition markedTarget :: "time \<Rightarrow> ReplacementReference \<Rightarrow> ModelDeployment \<Rightarrow> ModelDeployment" where
  "markedTarget now requester target =
     (let message = ''Replacement requested by '' @ refText requester
      in setDeploymentCondition now ConditionReplacement ConditionUnknown ReasonReplacementDraining message
           (setReplacement (Some \<lparr>rtPhase = ReplacementPhaseDraining, rtRequestGeneration = 0, rtTarget = None,
              rtRequestedBy = Some requester, rtStartedAt = Some now, rtMessage = message\<rparr>) target))"

text \<open>The error of the nested release is wrapped; the other errors are its own.\<close>

definition releasePreviousTarget :: "('c, 'q) client \<Rightarrow> ReplacementStatus \<Rightarrow> ModelDeployment \<Rightarrow> ('c, unit) act" where
  "releasePreviousTarget K replacement target =
     onOutcome (releaseReplacementTarget K (rtTarget replacement) target) (\<lambda>outcome.
       case outcome of
         Inl err \<Rightarrow> throw (TargetReleaseFailure (mdNamespace target) (mdName target) err)
       | Inr _ \<Rightarrow> ok ())"

definition markReplacementTarget ::
  "('c, 'q) client \<Rightarrow> time \<Rightarrow> ReplacementReference \<Rightarrow> ModelDeployment \<Rightarrow> ('c, ModelDeployment) act" where
  "markReplacementTarget K now requester target =
     (let patch =
            andThen (api ''mark replacement target'' (kPatchModelDeploymentStatus K target (markedTarget now requester target)))
              (\<lambda>stored. andThen (recordEvent K stored
                 (normal ReasonReplacementDraining (''Replacement requested by '' @ refText requester))) (\<lambda>_. ok stored))
      in if mdNamespace target \<noteq> rfNamespace requester
         then throw (TargetOutsideNamespace (mdNamespace target) (mdName target) (rfNamespace requester))
         else (case dtReplacement (mdStatus target) of
                 None \<Rightarrow> patch
               | Some r \<Rightarrow>
                   if referencesEqual (rtRequestedBy r) (Some requester) then ok target
                   else if \<not> replacementCandidateAvailable (Some r)
                     then throw (TargetParticipating (mdNamespace target) (mdName target))
                   else andThen (releasePreviousTarget K r target) (\<lambda>_. patch)))"

section \<open>Starting a replacement\<close>

definition startedReplacement :: "time \<Rightarrow> ModelDeployment \<Rightarrow> ModelDeployment \<Rightarrow> ModelDeployment" where
  "startedReplacement now target d =
     (let message = ''Draining '' @ deploymentText target @ '' before activating the replacement''
      in setDeploymentCondition now ConditionReplacement ConditionUnknown ReasonReplacementStarted message
           (setDeploymentCondition now ConditionGPUAssigned ConditionUnknown ReasonReplacementDraining
             (''GPU slot handoff from '' @ deploymentText target @ '' is reserved but not yet available'')
             (setRuntimeWaitingConditions now ReasonReplacementDraining message
               (onStatus (\<lambda>s. s\<lparr>dtReplacement := Some \<lparr>rtPhase = ReplacementPhaseDraining,
                    rtRequestGeneration = omGeneration (mdMeta d), rtTarget = Some (referenceFor target), rtRequestedBy = None,
                    rtStartedAt = Some now, rtMessage = message\<rparr>,
                  dtPhase := ModelDeploymentPhaseWaitingForGPU, dtAssignedNode := dtAssignedNode (mdStatus target),
                  dtAssignedGPUs := [], dtReplicas := \<lparr>rcDesired = effectiveRuntimeReplicas d, rcReady = 0\<rparr>,
                  dtModel := (dtModel s)\<lparr>moLoaded := False\<rparr>\<rparr>) d))))"

definition rejectReplacement ::
  "('c, 'q) client \<Rightarrow> time \<Rightarrow> ModelDeployment \<Rightarrow> string \<Rightarrow> string \<Rightarrow> ModelDeployment \<Rightarrow> 'c handled" where
  "rejectReplacement K now original reason message d =
     failDeployment K now original reason message
       (setDeploymentCondition now ConditionReplacement ConditionFalse reason message d)"

definition startReplacement ::
  "(lifecycle_error \<Rightarrow> string) \<Rightarrow> ('c, 'q) client \<Rightarrow> time \<Rightarrow> ModelDeployment \<Rightarrow> lifecycle_error \<Rightarrow> ModelDeployment \<Rightarrow> 'c handled" where
  "startReplacement T K now original placementErr d =
     (if effectiveGPUReservation d \<noteq> 1 \<or> effectiveRuntimeReplicas d \<noteq> 1
      then rejectReplacement K now original ReasonReplacementUnsupported
             ''single-GPU replacement requires exactly one replica requesting one GPU'' d
      else andThen (selectReplacementTarget K d) (\<lambda>selected.
        case selected of
          None \<Rightarrow> rejectReplacement K now original ReasonReplacementNoCandidate
                    (''no eligible active single-GPU deployment can be replaced: '' @ T placementErr) d
        | Some target \<Rightarrow>
            andThen (patchDeploymentStatus K original ReasonReplacementStarted (startedReplacement now target d)) (\<lambda>(result, d').
              if reRequeue result then ok (result, d')
              else andThen (markReplacementTarget K now (referenceFor d) target)
                     (\<lambda>_. ok (result\<lparr>reRequeueAfter := deploymentRequeueAfter\<rparr>, d')))))"

section \<open>Cancelling and rolling back\<close>

text \<open>A step that either answers the reconciliation or lets it go on with the deployment it returns.\<close>

type_synonym 'c partly = "'c \<Rightarrow> (lifecycle_error, Result option \<times> ModelDeployment) result \<times> 'c"

definition answer :: "'c handled \<Rightarrow> 'c partly" where
  "answer m = andThen m (\<lambda>(result, d). ok (Some result, d))"

definition proceed :: "ModelDeployment \<Rightarrow> 'c partly" where
  [go_defs]: "proceed d = ok (None, d)"

definition cancelPendingReplacement ::
  "('c, 'q) client \<Rightarrow> time \<Rightarrow> ModelDeployment \<Rightarrow> string \<Rightarrow> ReplacementStatus \<Rightarrow> ModelDeployment \<Rightarrow> 'c handled" where
  "cancelPendingReplacement K now original message replacement d =
     andThen (releaseReplacementTarget K (rtTarget replacement) d) (\<lambda>_.
     andThen (patchDeploymentStatus K original ReasonReplacementCanceled
                (setRuntimeWaitingConditions now ReasonWaitingForGPU message
                  (setPhase ModelDeploymentPhaseWaitingForGPU (clearReplacement (releaseNode d)))))
       (\<lambda>(_, d'). ok (\<lparr>reRequeue = True, reRequeueAfter = 0\<rparr>, d')))"

definition rollingBackStatus :: "time \<Rightarrow> string \<Rightarrow> ReplacementStatus \<Rightarrow> ModelDeployment \<Rightarrow> ModelDeployment" where
  "rollingBackStatus now message replacement d =
     (let conditionMessage = ''Replacement activation failed; rollback is starting: '' @ message
      in setDeploymentCondition now ConditionReplacement ConditionFalse ReasonReplacementActivationFailed conditionMessage
           (setDeploymentCondition now ConditionGPUAssigned ConditionUnknown ReasonReplacementRollbackStarted
             ''GPU slot is reserved for restoration of the displaced runtime''
             (setRuntimeWaitingConditions now ReasonReplacementActivationFailed conditionMessage
               (onStatus (\<lambda>s. s\<lparr>dtReplacement := Some (replacement\<lparr>rtPhase := ReplacementPhaseRollingBack, rtMessage := message\<rparr>),
                  dtPhase := ModelDeploymentPhaseDeactivating, dtAssignedGPUs := [], dtReplicas := noReplicas,
                  dtModel := (dtModel s)\<lparr>moLoaded := False\<rparr>\<rparr>) d))))"

definition beginReplacementRollback ::
  "('c, 'q) client \<Rightarrow> time \<Rightarrow> ModelDeployment \<Rightarrow> string \<Rightarrow> ReplacementStatus \<Rightarrow> ModelDeployment \<Rightarrow> 'c handled" where
  "beginReplacementRollback K now original message replacement d =
     andThen (deleteRuntimeWorkload K d) (\<lambda>_.
       withRequeueAfter deploymentRequeueAfter
         (patchDeploymentStatus K original ReasonReplacementActivationFailed (rollingBackStatus now message replacement d)))"

text \<open>The request to the target: it may have lost its mark, which is then set again.\<close>

definition restoringTarget :: "ModelDeployment \<Rightarrow> ModelDeployment \<Rightarrow> ModelDeployment" where
  "restoringTarget d target =
     (let replacement = (case dtReplacement (mdStatus target) of
            None \<Rightarrow> \<lparr>rtPhase = ReplacementPhaseUnset, rtRequestGeneration = 0, rtTarget = None,
                      rtRequestedBy = Some (referenceFor d), rtStartedAt = None, rtMessage = []\<rparr>
          | Some r \<Rightarrow> r)
      in setReplacement (Some (replacement\<lparr>rtPhase := ReplacementPhaseRollingBack,
           rtMessage := ''Restoring runtime after '' @ deploymentText d @ '' failed''\<rparr>)) target)"

definition requestRestore :: "('c, 'q) client \<Rightarrow> ModelDeployment \<Rightarrow> ModelDeployment \<Rightarrow> ('c, ModelDeployment) act" where
  "requestRestore K d target =
     (if (case dtReplacement (mdStatus target) of None \<Rightarrow> True | Some r \<Rightarrow> rtPhase r \<noteq> ReplacementPhaseRollingBack)
      then api ''request replacement rollback'' (kPatchModelDeploymentStatus K target (restoringTarget d target))
      else ok target)"

text \<open>The requester's own runtime is gone: wait for the target, or finish.\<close>

definition awaitRestore ::
  "('c, 'q) client \<Rightarrow> time \<Rightarrow> ModelDeployment \<Rightarrow> ReplacementStatus \<Rightarrow> ModelDeployment \<Rightarrow> ModelDeployment \<Rightarrow> 'c handled" where
  "awaitRestore K now original replacement target d =
     (if dtPhase (mdStatus target) = ModelDeploymentPhaseActive then
        andThen (releaseReplacementTarget K (rtTarget replacement) d) (\<lambda>_.
          failReplacement K now original ReplacementPhaseRolledBack ReasonReplacementRolledBack
            (''Replacement failed; restored '' @ deploymentText target) replacement d)
      else if dtPhase (mdStatus target) = ModelDeploymentPhaseFailed then
        andThen (releaseReplacementTarget K (rtTarget replacement) d) (\<lambda>_.
          failReplacement K now original ReplacementPhaseRollbackFailed ReasonReplacementRollbackFailed
            (''Replacement failed and '' @ deploymentText target @ '' could not be restored'') replacement d)
      else
        withRequeueAfter deploymentRequeueAfter
          (patchDeploymentStatus K original ReasonReplacementRollbackStarted
            (setDeploymentCondition now ConditionGPUAssigned ConditionUnknown ReasonReplacementRollbackStarted
              (''GPU slot is reserved for rollback to '' @ deploymentText target)
              (setRuntimeWaitingConditions now ReasonReplacementRollbackStarted
                (''Waiting for '' @ deploymentText target @ '' to become ready during rollback'')
                (setPhase ModelDeploymentPhaseDeactivating d)))))"

definition reconcileReplacementRollback ::
  "(lifecycle_error \<Rightarrow> string) \<Rightarrow> ('c, 'q) client \<Rightarrow> time \<Rightarrow> ModelDeployment \<Rightarrow> ReplacementStatus \<Rightarrow> ModelDeployment \<Rightarrow> 'c handled" where
  "reconcileReplacementRollback T K now original replacement d =
     onOutcome (getReplacementParticipant K (rtTarget replacement)) (\<lambda>outcome.
       case outcome of
         Inl err \<Rightarrow>
           failReplacement K now original ReplacementPhaseRollbackFailed ReasonReplacementRollbackFailed
             (''replacement rollback target is unavailable: '' @ T err) replacement d
       | Inr target \<Rightarrow>
           if effectiveDesiredState target \<noteq> ActivationDesiredStateActive then
             andThen (releaseReplacementTarget K (rtTarget replacement) d) (\<lambda>_.
               failReplacement K now original ReplacementPhaseRollbackFailed ReasonReplacementRollbackFailed
                 (''replacement failed and '' @ deploymentText target @ '' no longer requests an active runtime'') replacement d)
           else andThen (runtimeWorkloadExists K d) (\<lambda>runtimeExists.
             if runtimeExists then
               andThen (deleteRuntimeWorkload K d) (\<lambda>_.
                 withRequeueAfter deploymentRequeueAfter
                   (patchDeploymentStatus K original ReasonReplacementRollbackStarted
                     (onStatus (\<lambda>s. s\<lparr>dtAssignedGPUs := [], dtReplicas := noReplicas,
                        dtModel := (dtModel s)\<lparr>moLoaded := False\<rparr>\<rparr>) d)))
             else if (case dtReplacement (mdStatus target) of
                        None \<Rightarrow> False
                      | Some r \<Rightarrow> \<not> referencesEqual (rtRequestedBy r) (Some (referenceFor d))) then
               failReplacement K now original ReplacementPhaseRollbackFailed ReasonReplacementRollbackFailed
                 (''cannot restore '' @ deploymentText target @ '' because another replacement transaction owns it'') replacement d
             else andThen (requestRestore K d target) (\<lambda>target'. awaitRestore K now original replacement target' d)))"

section \<open>The requester's side\<close>

text \<open>The target is gone, taken by another transaction, failed, still draining, or has released its devices.\<close>

definition awaitTarget ::
  "('c, 'q) client \<Rightarrow> time \<Rightarrow> ModelDeployment \<Rightarrow> ReplacementStatus \<Rightarrow> ModelDeployment \<Rightarrow> ModelDeployment \<Rightarrow> 'c partly" where
  "awaitTarget K now original replacement target d =
     andThen (runtimeWorkloadExists K target) (\<lambda>runtimeExists.
       if dtPhase (mdStatus target) = ModelDeploymentPhaseFailed then
         andThen (releaseReplacementTarget K (rtTarget replacement) d) (\<lambda>_.
           answer (failReplacement K now original ReplacementPhaseRollbackFailed ReasonReplacementRollbackFailed
             (''replacement target '' @ deploymentText target @ '' failed while releasing its GPU slot'') replacement d))
       else if runtimeExists \<or> dtAssignedNode (mdStatus target) \<noteq> [] \<or>
               dtPhase (mdStatus target) \<notin> {ModelDeploymentPhaseCached, ModelDeploymentPhaseWaitingForGPU} then
         answer (withRequeueAfter deploymentRequeueAfter
           (patchDeploymentStatus K original ReasonReplacementDraining
             (setDeploymentCondition now ConditionGPUAssigned ConditionUnknown ReasonReplacementDraining
               (''GPU slot handoff from '' @ deploymentText target @ '' is reserved but not yet available'')
               (setRuntimeWaitingConditions now ReasonReplacementDraining
                 (''Waiting for '' @ deploymentText target @ '' to finish draining'')
                 (setPhase ModelDeploymentPhaseWaitingForGPU d)))))
       else
         let message = ''GPU slot from '' @ deploymentText target @ '' was released; replacement runtime is activating''
         in proceed (setDeploymentCondition now ConditionReplacement ConditionUnknown ReasonReplacementActivating message
              (setReplacement (Some (replacement\<lparr>rtPhase := ReplacementPhaseActivating, rtMessage := message\<rparr>)) d)))"

definition drainTarget ::
  "('c, 'q) client \<Rightarrow> time \<Rightarrow> ModelDeployment \<Rightarrow> ReplacementStatus \<Rightarrow> ModelDeployment \<Rightarrow> 'c partly" where
  "drainTarget K now original replacement d =
     onOutcome (getReplacementParticipant K (rtTarget replacement)) (\<lambda>outcome.
       case outcome of
         Inl err \<Rightarrow>
           if isNotFound err then
             answer (failReplacement K now original ReplacementPhaseRollbackFailed ReasonReplacementRollbackFailed
               ''replacement target disappeared before its GPU slot was released'' replacement d)
           else throw err
       | Inr target \<Rightarrow>
           if replacementCandidateAvailable (dtReplacement (mdStatus target)) \<and>
              effectiveDesiredState target = ActivationDesiredStateActive \<and>
              dtPhase (mdStatus target) = ModelDeploymentPhaseActive then
             andThen (markReplacementTarget K now (referenceFor d) target) (\<lambda>marked. awaitTarget K now original replacement marked d)
           else if (case dtReplacement (mdStatus target) of
                      None \<Rightarrow> False
                    | Some r \<Rightarrow> \<not> referencesEqual (rtRequestedBy r) (Some (referenceFor d))) then
             answer (failReplacement K now original ReplacementPhaseRollbackFailed ReasonReplacementNoCandidate
               (''replacement target '' @ deploymentText target @ '' is owned by another replacement transaction'') replacement d)
           else awaitTarget K now original replacement target d)"

text \<open>A withdrawn request is cancelled while the target drains and rolled back once the runtime is being activated.\<close>

definition withdrawRequest ::
  "('c, 'q) client \<Rightarrow> time \<Rightarrow> ModelDeployment \<Rightarrow> string \<Rightarrow> string \<Rightarrow> ReplacementStatus \<Rightarrow> ModelDeployment \<Rightarrow> 'c handled option" where
  "withdrawRequest K now original cancelMessage rollbackMessage replacement d =
     (if rtPhase replacement = ReplacementPhaseDraining then Some (cancelPendingReplacement K now original cancelMessage replacement d)
      else if rtPhase replacement = ReplacementPhaseActivating
        then Some (beginReplacementRollback K now original rollbackMessage replacement d)
      else None)"

definition continueRequest ::
  "(lifecycle_error \<Rightarrow> string) \<Rightarrow> ('c, 'q) client \<Rightarrow> time \<Rightarrow> ModelDeployment \<Rightarrow> ReplacementStatus \<Rightarrow> ModelDeployment \<Rightarrow> 'c partly" where
  "continueRequest T K now original replacement d =
     (let specChanged = (rtRequestGeneration replacement > 0 \<and> rtRequestGeneration replacement \<noteq> omGeneration (mdMeta d));
          onSpec = withdrawRequest K now original ''Deployment spec changed; replacement selection will be reevaluated''
                     ''deployment spec changed before replacement activation completed'' replacement d;
          onPolicy = withdrawRequest K now original ''Replacement policy was withdrawn; GPU capacity will be reevaluated''
                       ''explicit replacement policy was withdrawn before activation completed'' replacement d
      in case (if specChanged then onSpec else None) of
           Some withdraw \<Rightarrow> answer withdraw
         | None \<Rightarrow>
             (case (if isReplacementPolicy (effectiveWhenFull d) then None else onPolicy) of
                Some withdraw \<Rightarrow> answer withdraw
              | None \<Rightarrow>
                  if rtPhase replacement = ReplacementPhaseRollingBack
                    then answer (reconcileReplacementRollback T K now original replacement d)
                  else if rtPhase replacement \<noteq> ReplacementPhaseDraining then proceed d
                  else drainTarget K now original replacement d))"

definition reconcileReplacementRequester ::
  "(lifecycle_error \<Rightarrow> string) \<Rightarrow> ('c, 'q) client \<Rightarrow> time \<Rightarrow> ModelDeployment \<Rightarrow> ModelDeployment \<Rightarrow> 'c partly" where
  "reconcileReplacementRequester T K now original d =
     (case dtReplacement (mdStatus d) of
        None \<Rightarrow> proceed d
      | Some replacement \<Rightarrow>
          (case rtTarget replacement of
             None \<Rightarrow> proceed d
           | Some target \<Rightarrow>
               if rfNamespace target \<noteq> mdNamespace d then
                 let message = ''replacement target '' @ refText target @ '' is outside requester namespace '' @ mdNamespace d;
                     cleared = clearReplacement (releaseNode d)
                 in if effectiveDesiredState d = ActivationDesiredStateInactive then proceed cleared
                    else answer (rejectReplacement K now original ReasonReplacementNoCandidate message cleared)
               else if effectiveDesiredState d = ActivationDesiredStateInactive then
                 andThen (releaseReplacementTarget K (Some target) d) (\<lambda>_. proceed (clearReplacement d))
               else continueRequest T K now original replacement d))"

section \<open>The target's side\<close>

definition displacedStatus :: "time \<Rightarrow> ModelDeployment \<Rightarrow> ReplacementStatus \<Rightarrow> ModelDeployment \<Rightarrow> ModelDeployment" where
  "displacedStatus now requester replacement d =
     setDeploymentCondition now ConditionReplacement ConditionFalse ReasonReplacementDisplaced
       (''Runtime was replaced by '' @ deploymentText requester)
       (setRuntimeWaitingConditions now ReasonReplacementDisplaced
         (''GPU slot is held by replacement '' @ deploymentText requester)
         (onStatus (\<lambda>s. s\<lparr>dtReplacement := Some (replacement\<lparr>rtPhase := ReplacementPhaseDisplaced\<rparr>),
            dtPhase := ModelDeploymentPhaseWaitingForGPU, dtAssignedNode := [], dtAssignedGPUs := [],
            dtReplicas := \<lparr>rcDesired = effectiveRuntimeReplicas d, rcReady = 0\<rparr>\<rparr>) d))"

text \<open>What the target does in each phase of the requester's transaction.\<close>

definition followRequester ::
  "('c, 'q) client \<Rightarrow> time \<Rightarrow> ModelDeployment \<Rightarrow> ModelCache \<Rightarrow> ModelDeployment \<Rightarrow> ReplacementPhase \<Rightarrow> ReplacementStatus \<Rightarrow>
   ModelDeployment \<Rightarrow> 'c partly" where
  "followRequester K now original cache requester phase replacement d =
     (if phase = ReplacementPhaseDraining then
        answer (reconcileDeactivation K now original cache ReasonReplacementDisplaced
          (setReplacement (Some (replacement\<lparr>rtPhase := ReplacementPhaseDraining\<rparr>)) d))
      else if phase = ReplacementPhaseActivating then
        andThen (runtimeWorkloadExists K d) (\<lambda>runtimeExists.
          if runtimeExists \<or> dtAssignedNode (mdStatus d) \<noteq> []
          then answer (reconcileDeactivation K now original cache ReasonReplacementDisplaced d)
          else answer (withRequeueAfter deploymentRequeueAfter
            (patchDeploymentStatus K original []
              (setDeploymentCondition now ConditionReplacement ConditionUnknown ReasonReplacementActivating
                (''Waiting for replacement '' @ deploymentText requester @ '' to become ready'')
                (setPhase ModelDeploymentPhaseCached
                  (setReplacement (Some (replacement\<lparr>rtPhase := ReplacementPhaseDisplaced\<rparr>)) d))))))
      else if phase = ReplacementPhaseSucceeded then
        (if dtPhase (mdStatus requester) \<noteq> ModelDeploymentPhaseActive then proceed (clearReplacement d)
         else answer (withRequeueAfter waitingRequeueAfter
           (patchDeploymentStatus K original ReasonReplacementDisplaced (displacedStatus now requester replacement d))))
      else if phase = ReplacementPhaseRollingBack then
        proceed (setDeploymentCondition now ConditionReplacement ConditionUnknown ReasonReplacementRollbackStarted
          (''Restoring runtime after '' @ deploymentText requester @ '' failed to activate'')
          (onStatus (\<lambda>s. s\<lparr>dtReplacement := Some (replacement\<lparr>rtPhase := ReplacementPhaseRollingBack\<rparr>), dtDrainStartedAt := None\<rparr>) d))
      else proceed (clearReplacement d))"

definition reconcileReplacementParticipant ::
  "('c, 'q) client \<Rightarrow> time \<Rightarrow> ModelDeployment \<Rightarrow> ModelCache \<Rightarrow> ModelDeployment \<Rightarrow> 'c partly" where
  "reconcileReplacementParticipant K now original cache d =
     (case dtReplacement (mdStatus d) of
        None \<Rightarrow> proceed d
      | Some replacement \<Rightarrow>
          (case rtRequestedBy replacement of
             None \<Rightarrow> proceed d
           | Some requestedBy \<Rightarrow>
               if rfNamespace requestedBy \<noteq> mdNamespace d then proceed (clearReplacement d)
               else onOutcome (getReplacementParticipant K (Some requestedBy)) (\<lambda>outcome.
                 case outcome of
                   Inl err \<Rightarrow> if isNotFound err then proceed (clearReplacement d) else throw err
                 | Inr requester \<Rightarrow>
                     (case dtReplacement (mdStatus requester) of
                        None \<Rightarrow> proceed (clearReplacement d)
                      | Some theirs \<Rightarrow>
                          if \<not> referencesEqual (rtTarget theirs) (Some (referenceFor d)) then proceed (clearReplacement d)
                          else if effectiveDesiredState d = ActivationDesiredStateInactive then proceed (clearReplacement d)
                          else followRequester K now original cache requester (rtPhase theirs) replacement d))))"

end
