(* ===== verification/Lifecycle_Reconcile.thy ===== *)
theory Lifecycle_Reconcile
  imports Lifecycle_Replacement
begin

text \<open>
  The top of the lifecycle controller: the projection of a runtime Deployment into the status, the reactions to missing capacity,
  the reconciliation of one ModelDeployment from end to end, and the watches that trigger it.
\<close>

section \<open>Projection of the runtime\<close>

definition replacementActivating :: "ModelDeployment \<Rightarrow> ReplacementStatus option" where
  "replacementActivating d =
     (case dtReplacement (mdStatus d) of
        Some r \<Rightarrow> if rtTarget r \<noteq> None \<and> rtPhase r = ReplacementPhaseActivating then Some r else None
      | None \<Rightarrow> None)"

definition withReplicas :: "'q Deployment \<Rightarrow> ModelDeployment \<Rightarrow> ModelDeployment" where
  "withReplicas w = onStatus (\<lambda>s. s\<lparr>dtReplicas :=
     \<lparr>rcDesired = intPointerValue (dpReplicas (rdSpec w)), rcReady = dvReadyReplicas (rdStatus w)\<rparr>\<rparr>)"

definition completeReplacement :: "time \<Rightarrow> ModelDeployment \<Rightarrow> ModelDeployment" where
  "completeReplacement now d =
     (case replacementActivating d of
        None \<Rightarrow> d
      | Some r \<Rightarrow>
          let message = ''Replacement runtime is ready and receiving traffic''
          in setDeploymentCondition now ConditionReplacement ConditionTrue ReasonReplacementSucceeded message
               (setReplacement (Some (r\<lparr>rtPhase := ReplacementPhaseSucceeded, rtMessage := message\<rparr>)) d))"

definition activeStatus :: "time \<Rightarrow> ModelDeployment \<Rightarrow> ModelDeployment" where
  "activeStatus now d =
     (let ready = setDeploymentCondition now ConditionReady ConditionTrue ReasonRuntimeReady ''Runtime is accepting traffic''
            (setDeploymentCondition now ConditionRoutingReady ConditionTrue ReasonRouteEnabled
              ''Stable runtime Service is ready for gateway routing''
              (setDeploymentCondition now ConditionModelLoaded ConditionTrue ReasonRuntimeReady ''Model runtime is accepting traffic''
                (setDeploymentCondition now ConditionRuntimeReady ConditionTrue ReasonRuntimeReady
                  ''Runtime has the desired ready replicas''
                  (onStatus (\<lambda>s. s\<lparr>dtPhase := ModelDeploymentPhaseActive, dtModel := (dtModel s)\<lparr>moLoaded := True\<rparr>\<rparr>) d))));
          replaced = completeReplacement now ready
      in if rolloutRequiresSpareCapacity replaced
         then setDeploymentCondition now ConditionRollout ConditionTrue ReasonRolloutComplete
                ''Runtime rollout has the desired ready replicas'' replaced
         else replaced)"

definition activatingStatus :: "time \<Rightarrow> 'q Deployment \<Rightarrow> ModelDeployment \<Rightarrow> ModelDeployment" where
  "activatingStatus now w d =
     (let message = ''Runtime has '' @ itoa (dvReadyReplicas (rdStatus w)) @ ''/'' @ itoa (intPointerValue (dpReplicas (rdSpec w))) @
            '' ready replicas, '' @ itoa (dvAvailableReplicas (rdStatus w)) @ '' available replicas, observed generation '' @
            itoa (dvObservedGeneration (rdStatus w)) @ ''/'' @ itoa (omGeneration (rdMeta w))
      in setDeploymentReadyFalse now ReasonRuntimeCreating message
           (setDeploymentCondition now ConditionRoutingReady ConditionFalse ReasonRouteDisabled
             ''Gateway routing waits for runtime readiness''
             (setDeploymentCondition now ConditionModelLoaded ConditionFalse ReasonRuntimeCreating ''Model is loading''
               (setDeploymentCondition now ConditionRuntimeReady ConditionFalse ReasonRuntimeCreating message
                 (onStatus (\<lambda>s. s\<lparr>dtPhase := ModelDeploymentPhaseActivating, dtModel := (dtModel s)\<lparr>moLoaded := False\<rparr>\<rparr>) d)))))"

text \<open>An autoscaled deployment is looked at again even when it is active.\<close>

definition withScalingRequeue :: "'c handled \<Rightarrow> 'c handled" where
  "withScalingRequeue m =
     andThen m (\<lambda>(result, d). ok (if scalingRequeueAfter d > 0 then result\<lparr>reRequeueAfter := scalingRequeueAfter d\<rparr> else result, d))"

definition observeActivation ::
  "('c, 'q) client \<Rightarrow> time \<Rightarrow> ModelDeployment \<Rightarrow> 'q Deployment \<Rightarrow> Result \<Rightarrow> ('c, unit) act" where
  "observeActivation K now original w result =
     (if \<not> reRequeue result \<and> dtPhase (mdStatus original) \<noteq> ModelDeploymentPhaseActive \<and>
         omCreationTimestamp (rdMeta w) \<noteq> 0 \<and> now - omCreationTimestamp (rdMeta w) \<ge> 0
      then observe K (ObserveActivationDuration (now - omCreationTimestamp (rdMeta w))) else ok ())"

definition projectRuntimeDeployment ::
  "('c, 'q) client \<Rightarrow> time \<Rightarrow> ModelDeployment \<Rightarrow> 'q Deployment \<Rightarrow> bool \<Rightarrow> ModelDeployment \<Rightarrow> 'c handled" where
  "projectRuntimeDeployment K now original w created d0 =
     (let d = withReplicas w d0
      in if intPointerValue (dpReplicas (rdSpec w)) > 0 \<and> runtimeDeploymentReady w then
           withScalingRequeue
             (andThen (patchDeploymentStatus K original
                        (if replacementActivating d \<noteq> None then ReasonReplacementSucceeded else ReasonRuntimeReady)
                        (activeStatus now d))
               (\<lambda>(result, d'). andThen (observeActivation K now original w result) (\<lambda>_. ok (result, d'))))
         else (case runtimeActivationFailure w of
                 Some text \<Rightarrow>
                   let message = (if text = [] then ''Kubernetes reported that the runtime Deployment could not make progress''
                                  else text)
                   in (case replacementActivating d of
                         Some r \<Rightarrow> beginReplacementRollback K now original message r d
                       | None \<Rightarrow> failDeployment K now original ReasonRuntimeUnavailable message d)
               | None \<Rightarrow>
                   withScalingRequeue
                     (patchDeploymentStatus K original
                       (if created \<or> dtPhase (mdStatus original) \<noteq> ModelDeploymentPhaseActivating then ReasonRuntimeCreating else [])
                       (activatingStatus now w d))))"

section \<open>Missing capacity\<close>

definition isGPUCapacityError :: "lifecycle_error \<Rightarrow> bool" where
  "isGPUCapacityError e =
     (case e of
        PlacementFailure err \<Rightarrow>
          (case err of ErrNoCompatibleGPUNode _ \<Rightarrow> True | ErrInsufficientGPUCapacity _ _ \<Rightarrow> True | _ \<Rightarrow> False)
      | _ \<Rightarrow> False)"

definition waitingReplicas :: "ModelDeployment \<Rightarrow> ReplicaStatus" where
  "waitingReplicas d = \<lparr>rcDesired = effectiveRuntimeReplicas d, rcReady = 0\<rparr>"

definition handleGPUCapacityError ::
  "(lifecycle_error \<Rightarrow> string) \<Rightarrow> ('c, 'q) client \<Rightarrow> time \<Rightarrow> ModelDeployment \<Rightarrow> lifecycle_error \<Rightarrow> ModelDeployment \<Rightarrow> 'c handled" where
  "handleGPUCapacityError T K now original placementErr d =
     (if \<not> isGPUCapacityError placementErr then throw placementErr
      else (case replacementActivating d of
              Some r \<Rightarrow> beginReplacementRollback K now original
                         (''reserved replacement GPU handoff became unavailable: '' @ T placementErr) r d
            | None \<Rightarrow>
                andThen (deleteRuntimeWorkload K d) (\<lambda>_.
                  let released = releaseAssignment (waitingReplicas d) d
                  in case effectiveWhenFull released of
                       ActivationWhenFullQueue \<Rightarrow>
                         patchDeploymentStatus K original ReasonWaitingForGPU
                           (setDeploymentCondition now ConditionGPUAssigned ConditionFalse ReasonWaitingForGPU (T placementErr)
                             (setRuntimeWaitingConditions now ReasonWaitingForGPU ''Runtime is queued for compatible GPU capacity''
                               (setPhase ModelDeploymentPhaseWaitingForGPU released)))
                     | ActivationWhenFullReject \<Rightarrow>
                         failDeployment K now original ReasonInsufficientGPU (T placementErr)
                           (setDeploymentCondition now ConditionGPUAssigned ConditionFalse ReasonInsufficientGPU (T placementErr) released)
                     | ActivationWhenFullReplaceOldest \<Rightarrow> startReplacement T K now original placementErr released
                     | ActivationWhenFullReplaceLowestPriority \<Rightarrow> startReplacement T K now original placementErr released
                     | _ \<Rightarrow> throw UnsupportedActivationPolicy)))"

definition isSchedulingError :: "preflight_error \<Rightarrow> bool" where
  "isSchedulingError e = (case e of ErrSchedulingLabel _ _ _ _ \<Rightarrow> True | ErrSchedulingTaint _ _ \<Rightarrow> True | _ \<Rightarrow> False)"

definition isComputeError :: "preflight_error \<Rightarrow> bool" where
  "isComputeError e = (case e of ErrInsufficientComputeCapacity _ _ _ \<Rightarrow> True | _ \<Rightarrow> False)"

definition handleRuntimePreflightError ::
  "(lifecycle_error \<Rightarrow> string) \<Rightarrow> ('c, 'q) client \<Rightarrow> time \<Rightarrow> ModelDeployment \<Rightarrow> preflight_error \<Rightarrow> ModelDeployment \<Rightarrow> 'c handled" where
  "handleRuntimePreflightError T K now original preflightErr d =
     andThen (deleteRuntimeWorkload K d) (\<lambda>_.
       let released = releaseAssignment (waitingReplicas d) d; message = T (PreflightFailure preflightErr)
       in if isSchedulingError preflightErr then
            failDeployment K now original ReasonSchedulingBlocked message
              (setRuntimeWaitingConditions now ReasonSchedulingBlocked message released)
          else if \<not> isComputeError preflightErr then throw (PreflightFailure preflightErr)
          else
            let waiting = setRuntimeWaitingConditions now ReasonInsufficientCompute message released
            in if effectiveWhenFull waiting = ActivationWhenFullQueue
               then patchDeploymentStatus K original ReasonInsufficientCompute (setPhase ModelDeploymentPhaseWaitingForCapacity waiting)
               else failDeployment K now original ReasonInsufficientCompute message waiting)"

text \<open>A rollout that runs old and new replicas side by side needs devices for both, or it is refused or queued.\<close>

definition rolloutProgressStatus :: "time \<Rightarrow> 'q Deployment \<Rightarrow> ModelDeployment \<Rightarrow> ModelDeployment" where
  "rolloutProgressStatus now existing d =
     (if deploymentReplicas existing = 0 \<or> runtimeDeploymentReady existing
      then setDeploymentCondition now ConditionRollout ConditionTrue ReasonRolloutComplete
             ''Runtime rollout does not need additional GPU capacity'' d
      else setDeploymentCondition now ConditionRollout ConditionTrue ReasonRolloutCapacityReserved
             ''Runtime rollout is still progressing with spare GPU capacity reserved'' d)"

definition blockRollout ::
  "(lifecycle_error \<Rightarrow> string) \<Rightarrow> ('c, 'q) client \<Rightarrow> time \<Rightarrow> ModelDeployment \<Rightarrow> int \<Rightarrow> lifecycle_error \<Rightarrow> ModelDeployment \<Rightarrow> 'c handled" where
  "blockRollout T K now original requiredSlots err d =
     (let strategy = rolloutStrategyString (effectiveRolloutStrategy d)
      in if effectiveRolloutWhenCapacityUnavailable d = RolloutWhenCapacityUnavailableReject then
           patchDeploymentStatus K original ReasonRolloutRejected
             (setRolloutBlockedConditions now ReasonRolloutRejected
               (strategy @ '' rollout rejected because '' @ itoa requiredSlots @ '' compatible GPU slot(s) are required: '' @ T err) d)
         else
           withRequeueAfter waitingRequeueAfter
             (patchDeploymentStatus K original ReasonRolloutWaitingForCapacity
               (setRolloutBlockedConditions now ReasonRolloutWaitingForCapacity
                 (strategy @ '' rollout is queued until '' @ itoa requiredSlots @ '' compatible GPU slot(s) are available: '' @ T err) d)))"

definition reconcileRolloutSpareCapacity ::
  "('c, 'q) ModelDeploymentController \<Rightarrow> ModelDeployment \<Rightarrow> ModelRuntime \<Rightarrow> string \<Rightarrow> string \<Rightarrow> ModelDeployment \<Rightarrow> 'c partly" where
  "reconcileRolloutSpareCapacity C original runtime nodeName cachePath d =
     (let K = lcClient C; Q = lcQuantities C; now = lcNow C
      in if rrGPU (dsResources (mdSpec d)) = None \<or> \<not> rolloutRequiresSpareCapacity d \<or> effectiveRuntimeReplicas d < 1 then proceed d
         else (case BuildRuntimeDeployment (lcChecks C) Q (lcBuilder C) d runtime nodeName cachePath of
                 Inl err \<Rightarrow> throw (PermanentLifecycle (PermanentResource ''build rollout capacity target'' err))
               | Inr desired \<Rightarrow>
                   andThen (apiOptional ''get runtime Deployment for rollout capacity check''
                              (kGetWorkload K (omNamespace (rdMeta desired)) (omName (rdMeta desired)))) (\<lambda>found.
                     case found of
                       None \<Rightarrow> proceed d
                     | Some existing \<Rightarrow>
                         andThen (requireOwned (rdMeta existing) d) (\<lambda>_.
                           let requiredSlots = rolloutRequiredGPUSlots Q d existing
                           in if runtimeDeploymentSpecEqual Q (rdSpec existing) (rdSpec desired) \<or> deploymentReplicas existing = 0
                                then proceed (rolloutProgressStatus now existing d)
                              else if requiredSlots \<le> effectiveGPUReservation d then proceed d
                              else onOutcome (validateGPUCapacity Q (lcGPUPlanner C) K d nodeName requiredSlots) (\<lambda>outcome.
                                case outcome of
                                  Inr _ \<Rightarrow>
                                    proceed (setDeploymentCondition now ConditionRollout ConditionTrue ReasonRolloutCapacityReserved
                                      (''Reserved capacity for '' @ rolloutStrategyString (effectiveRolloutStrategy d) @
                                       '' rollout requiring '' @ itoa requiredSlots @ '' GPU slot(s)'') d)
                                | Inl err \<Rightarrow>
                                    if \<not> isGPUCapacityError err then throw err
                                    else answer (blockRollout (lcErrorText C) K now original requiredSlots err d))))))"

section \<open>Reconciliation of one deployment\<close>

text \<open>The validation step reads the referenced runtime only when the static checks pass. Its events are dropped.\<close>

definition validateDeployment :: "('c, 'q) ModelDeploymentController \<Rightarrow> ModelDeployment \<Rightarrow> ('c, ReconcileResult) act" where
  "validateDeployment C d = (\<lambda>c.
     let getRuntime = kGetModelRuntime (lcClient C); ref = rsRef (dsRuntime (mdSpec d));
         c' = (if ValidateModelDeployment (lcChecks C) (lcQuantities C) d = None \<and> ref \<noteq> []
               then snd (getRuntime (mdNamespace d) ref c) else c)
     in case ReconcileDeployment (lcChecks C) (lcQuantities C) (lcTexts C) (lcNow C) False
               (\<lambda>namespace name. map_sum id Some (fst (getRuntime namespace name c))) (lcValidator C) d of
          Inl err \<Rightarrow> (Inl (ValidationFailure err), c')
        | Inr (verdict, _) \<Rightarrow> (Inr verdict, c'))"

text \<open>A permanent error of a step withdraws the runtime and fails the deployment; other errors are retried.\<close>

definition orFail ::
  "('c, 'q) ModelDeploymentController \<Rightarrow> ModelDeployment \<Rightarrow> string \<Rightarrow> ModelDeployment \<Rightarrow> ('c, 'a) act \<Rightarrow> ('a \<Rightarrow> 'c handled) \<Rightarrow> 'c handled" where
  "orFail C original reason d step continue =
     onOutcome step (\<lambda>outcome.
       case outcome of
         Inl err \<Rightarrow>
           if is_permanent err then
             andThen (deleteRuntimeWorkload (lcClient C) d) (\<lambda>_.
               failDeployment (lcClient C) (lcNow C) original reason (lcErrorText C err) d)
           else throw err
       | Inr x \<Rightarrow> continue x)"

text \<open>Continue after a step that may already have answered.\<close>

definition unlessAnswered :: "'c partly \<Rightarrow> (ModelDeployment \<Rightarrow> 'c handled) \<Rightarrow> 'c handled" where
  "unlessAnswered step continue =
     andThen step (\<lambda>(outcome, d). case outcome of Some result \<Rightarrow> ok (result, d) | None \<Rightarrow> continue d)"

text \<open>A failed deployment: the transaction it started is given up if the spec is what fails, and the runtime goes away.\<close>

definition terminalStatus :: "time \<Rightarrow> bool \<Rightarrow> ModelDeployment \<Rightarrow> string \<times> ModelDeployment" where
  "terminalStatus now invalid d =
     (let (reason, text) = (case FindCondition (dtConditions (mdStatus d)) ConditionReady of
            Some ready \<Rightarrow> (if cReason ready \<noteq> [] then cReason ready else ReasonRuntimeUnavailable,
                           if cMessage ready \<noteq> [] then cMessage ready else ''Deployment is in a terminal failure state'')
          | None \<Rightarrow> (ReasonRuntimeUnavailable, ''Deployment is in a terminal failure state''));
          released = onStatus (\<lambda>s. s\<lparr>dtScaling := noScaling\<rparr>) (releaseAssignment noReplicas d);
          cached = (if invalid then setDeploymentCondition now ConditionCacheReady ConditionUnknown reason
                      ''Cache lifecycle is blocked by deployment validation'' released else released);
          message = (if invalid then ''Runtime lifecycle is blocked by deployment validation'' else text)
      in (reason, setPhase ModelDeploymentPhaseFailed (setRuntimeWaitingConditions now reason message cached)))"

definition reconcileFailed :: "('c, 'q) ModelDeploymentController \<Rightarrow> ModelDeployment \<Rightarrow> ModelDeployment \<Rightarrow> 'c handled" where
  "reconcileFailed C original d =
     (let K = lcClient C; invalid = validationBlocked (mdStatus d);
          target = (case dtReplacement (mdStatus d) of Some r \<Rightarrow> rtTarget r | None \<Rightarrow> None);
          release = invalid \<and> target \<noteq> None;
          d' = (if release then clearReplacement d else d)
      in andThen (if release then releaseReplacementTarget K target d else ok ()) (\<lambda>_.
         andThen (detachRuntimeService K d') (\<lambda>_.
         andThen (deleteRuntimeWorkload K d') (\<lambda>_.
           case terminalStatus (lcNow C) invalid d' of
             (reason, failed) \<Rightarrow> patchDeploymentStatus K original reason failed))))"

text \<open>The cache is not ready: no runtime may use it.\<close>

definition cacheMessage :: "ModelCache \<Rightarrow> string" where
  "cacheMessage cache =
     (case FindCondition (ctConditions (mcStatus cache)) CacheConditionReady of
        Some condition \<Rightarrow> if cMessage condition \<noteq> [] then cMessage condition else ''ModelCache '' @ quoted (mcName cache) @ '' failed''
      | None \<Rightarrow> ''ModelCache '' @ quoted (mcName cache) @ '' failed'')"

definition reconcileCacheNotReady ::
  "('c, 'q) ModelDeploymentController \<Rightarrow> ModelDeployment \<Rightarrow> ModelCache \<Rightarrow> ModelDeployment \<Rightarrow> 'c handled" where
  "reconcileCacheNotReady C original cache d =
     (let K = lcClient C; now = lcNow C;
          target = (case dtReplacement (mdStatus d) of Some r \<Rightarrow> rtTarget r | None \<Rightarrow> None);
          d1 = (if target \<noteq> None then clearReplacement d else d)
      in andThen (if target \<noteq> None then releaseReplacementTarget K target d else ok ()) (\<lambda>_.
         andThen (deleteRuntimeWorkload K d1) (\<lambda>_.
           let d2 = onStatus (\<lambda>s. s\<lparr>dtScaling := noScaling, dtCache := cacheSummary cache\<rparr>) (releaseAssignment noReplicas d1)
           in if ctPhase (mcStatus cache) = ModelCachePhaseFailed then
                failDeployment K now original ReasonCacheFailed (cacheMessage cache)
                  (setRuntimeWaitingConditions now ReasonCacheFailed ''Runtime is blocked by the failed model cache''
                    (setDeploymentCondition now ConditionCacheReady ConditionFalse ReasonCacheFailed (cacheMessage cache) d2))
              else if ctPhase (mcStatus cache) = ModelCachePhaseDownloading then
                patchDeploymentStatus K original []
                  (setRuntimeWaitingConditions now ReasonCacheDownloading ''Runtime is waiting for the model cache''
                    (setDeploymentCondition now ConditionCacheReady ConditionFalse ReasonCacheDownloading
                      (''ModelCache '' @ quoted (mcName cache) @ '' is downloading'')
                      (setPhase ModelDeploymentPhaseDownloading d2)))
              else patchDeploymentStatus K original [] (projectCachePending now cache d2))))"

text \<open>The autoscaler asks for no replica.\<close>

definition zeroStatus :: "time \<Rightarrow> ModelDeployment \<Rightarrow> ModelDeployment" where
  "zeroStatus now d =
     setDeploymentReadyFalse now ReasonIdleScaledToZero ''Model is cached and scaled to zero''
       (setDeploymentCondition now ConditionRoutingReady ConditionFalse ReasonRouteDisabled
         ''Gateway routing waits for a ready runtime replica''
         (setDeploymentCondition now ConditionModelLoaded ConditionFalse ReasonIdleScaledToZero
           ''Model is cached but no runtime replica is running''
           (setDeploymentCondition now ConditionRuntimeReady ConditionFalse ReasonIdleScaledToZero
             ''Runtime is scaled to zero after the configured idle timeout''
             (onStatus (\<lambda>s. s\<lparr>dtPhase := ModelDeploymentPhaseCached, dtReplicas := noReplicas,
                dtModel := (dtModel s)\<lparr>moLoaded := False\<rparr>\<rparr>) d))))"

definition scaleToZero ::
  "('c, 'q) ModelDeploymentController \<Rightarrow> ModelDeployment \<Rightarrow> ModelRuntime \<Rightarrow> string \<Rightarrow> string \<Rightarrow> ModelDeployment \<Rightarrow> 'c handled" where
  "scaleToZero C original runtime assignedNode cachePath d =
     (let K = lcClient C; spec = mdSpec d;
          inactive = d\<lparr>mdSpec := spec\<lparr>dsActivation := (dsActivation spec)\<lparr>asDesiredState := ActivationDesiredStateInactive\<rparr>\<rparr>\<rparr>
      in andThen (deleteRuntimePodDisruptionBudget K d) (\<lambda>_.
         orFail C original ReasonRuntimeUnavailable d
           (ensureRuntimeDeployment (lcChecks C) (lcQuantities C) (lcBuilder C) K inactive runtime assignedNode cachePath) (\<lambda>_.
           andThen (patchDeploymentStatus K original ReasonIdleScaledToZero (zeroStatus (lcNow C) d))
             (\<lambda>(result, d'). ok (result\<lparr>reRequeueAfter := scalingRequeueAfter d'\<rparr>, d')))))"

text \<open>The node: with GPUs the one where devices are reserved, otherwise the cache node if it is usable.\<close>

definition placeOnGPU ::
  "('c, 'q) ModelDeploymentController \<Rightarrow> ModelDeployment \<Rightarrow> string \<Rightarrow> ModelDeployment \<Rightarrow>
   ('q Node \<Rightarrow> ModelDeployment \<Rightarrow> 'c handled) \<Rightarrow> 'c handled" where
  "placeOnGPU C original cacheNode d continue =
     (let K = lcClient C
      in onOutcome (reserveGPU (lcQuantities C) (lcGPUPlanner C) K d cacheNode) (\<lambda>outcome.
           case outcome of
             Inl err \<Rightarrow> handleGPUCapacityError (lcErrorText C) K (lcNow C) original err d
           | Inr placement \<Rightarrow>
               andThen (api ''get selected GPU node for preflight'' (kGetNode K (gpNodeName placement))) (\<lambda>node.
                 continue node
                   (setDeploymentCondition (lcNow C) ConditionGPUAssigned ConditionTrue ReasonGPUCapacityReserved
                     (''Reserved '' @ itoa (effectiveGPUReservation d) @ '' '' @ gpuResourceName d @ '' slot(s) on node '' @
                      gpNodeName placement @ ''; Kubernetes assigns physical devices'')
                     (onStatus (\<lambda>s. s\<lparr>dtAssignedNode := gpNodeName placement, dtAssignedGPUs := []\<rparr>) d)))))"

definition placeOnCPU ::
  "('c, 'q) ModelDeploymentController \<Rightarrow> ModelDeployment \<Rightarrow> string \<Rightarrow> ModelDeployment \<Rightarrow>
   ('q Node \<Rightarrow> ModelDeployment \<Rightarrow> 'c handled) \<Rightarrow> 'c handled" where
  "placeOnCPU C original cacheNode d continue =
     (let K = lcClient C; now = lcNow C;
          unusable =
            andThen (deleteRuntimeWorkload K d) (\<lambda>_.
              patchDeploymentStatus K original ReasonWaitingForCapacity
                (setRuntimeWaitingConditions now ReasonWaitingForCapacity
                  (''Cache node '' @ quoted cacheNode @ '' is not Ready and schedulable'')
                  (onStatus (\<lambda>s. s\<lparr>dtPhase := ModelDeploymentPhaseWaitingForCapacity, dtAssignedNode := [],
                     dtReplicas := waitingReplicas d\<rparr>) d)))
      in andThen (apiOptional ''get cache node for CPU activation'' (kGetNode K cacheNode)) (\<lambda>found.
           case found of
             None \<Rightarrow> unusable
           | Some node \<Rightarrow>
               if ndName node = [] \<or> \<not> IsNodeEligibleForCache node then unusable
               else continue node (removeDeploymentCondition ConditionGPUAssigned
                      (onStatus (\<lambda>s. s\<lparr>dtAssignedNode := cacheNode, dtAssignedGPUs := []\<rparr>) d))))"

definition cacheTouchDue :: "ModelDeployment \<Rightarrow> ModelCache \<Rightarrow> 'q Deployment \<Rightarrow> bool \<Rightarrow> bool" where
  "cacheTouchDue original cache w created \<longleftrightarrow>
     (created \<or> dtPhase (mdStatus original) \<notin> {ModelDeploymentPhaseActivating, ModelDeploymentPhaseActive}) \<and>
     (ctLastUsedTime (mcStatus cache) = 0 \<or>
      omCreationTimestamp (rdMeta w) \<noteq> 0 \<and> ctLastUsedTime (mcStatus cache) < omCreationTimestamp (rdMeta w))"

text \<open>The node is known: preflight, rollout capacity, budget, runtime Deployment, projection.\<close>

definition activateOn ::
  "('c, 'q) ModelDeploymentController \<Rightarrow> ModelDeployment \<Rightarrow> ModelRuntime \<Rightarrow> ModelCache \<Rightarrow> string \<Rightarrow> 'q Node \<Rightarrow> ModelDeployment \<Rightarrow>
   'c handled" where
  "activateOn C original runtime cache cachePath node d =
     (let K = lcClient C; nodeName = dtAssignedNode (mdStatus d)
      in case ValidateRuntimeNode (lcQuantities C) (Some d) (Some node) of
           Some err \<Rightarrow> handleRuntimePreflightError (lcErrorText C) K (lcNow C) original err d
         | None \<Rightarrow>
             unlessAnswered (reconcileRolloutSpareCapacity C original runtime nodeName cachePath d) (\<lambda>d1.
               orFail C original ReasonRuntimeUnavailable d1 (ensurePodDisruptionBudget (lcChecks C) K d1) (\<lambda>_.
               orFail C original ReasonRuntimeUnavailable d1
                 (ensureRuntimeDeployment (lcChecks C) (lcQuantities C) (lcBuilder C) K d1 runtime nodeName cachePath)
                 (\<lambda>(w, created).
                   andThen (if cacheTouchDue original cache w created then touchCacheLastUsed K (lcNow C) cache else ok ())
                     (\<lambda>_. projectRuntimeDeployment K (lcNow C) original w created d1)))))"

definition activate ::
  "('c, 'q) ModelDeploymentController \<Rightarrow> ModelDeployment \<Rightarrow> ModelRuntime \<Rightarrow> ModelCache \<Rightarrow> CacheResult \<Rightarrow> ModelDeployment \<Rightarrow> 'c handled" where
  "activate C original runtime cache cacheResult d0 =
     (let K = lcClient C; cacheNode = clNodeName cacheResult; cachePath = clPath cacheResult;
          d1 = onStatus (\<lambda>s. s\<lparr>dtDrainStartedAt := None\<rparr>) d0
      in andThen (planRuntimeReplicas (lcQuantities C) (lcGPUPlanner C) K (lcNow C) d1 original runtime cacheNode) (\<lambda>d.
           if stDesiredReplicas (dtScaling (mdStatus d)) = 0 then scaleToZero C original runtime cacheNode cachePath d
           else if rrGPU (dsResources (mdSpec d)) \<noteq> None
             then placeOnGPU C original cacheNode d (activateOn C original runtime cache cachePath)
           else placeOnCPU C original cacheNode d (activateOn C original runtime cache cachePath)))"

text \<open>The cache exists; the runtime objects are in place.\<close>

definition reconcileWithCache ::
  "('c, 'q) ModelDeploymentController \<Rightarrow> ModelDeployment \<Rightarrow> ModelRuntime \<Rightarrow> ModelCache \<Rightarrow> ModelDeployment \<Rightarrow> 'c handled" where
  "reconcileWithCache C original runtime cache d =
     (let K = lcClient C; now = lcNow C; cacheResult = cacheLookup cache
      in if \<not> clReady cacheResult then reconcileCacheNotReady C original cache d
         else
           unlessAnswered (reconcileReplacementParticipant K now original cache (projectReadyCache now cacheResult d)) (\<lambda>d1.
           unlessAnswered (reconcileReplacementRequester (lcErrorText C) K now original d1) (\<lambda>d2.
             if effectiveDesiredState d2 = ActivationDesiredStateInactive
             then reconcileDeactivation K now original cache ReasonInactive d2
             else activate C original runtime cache cacheResult d2)))"

definition reconcileValidated ::
  "('c, 'q) ModelDeploymentController \<Rightarrow> ModelDeployment \<Rightarrow> ModelRuntime \<Rightarrow> ModelDeployment \<Rightarrow> 'c handled" where
  "reconcileValidated C original runtime d =
     (let K = lcClient C; N = lcChecks C; now = lcNow C
      in orFail C original ReasonRuntimeUnavailable d (ensureService N K d runtime) (\<lambda>_.
         orFail C original ReasonRuntimeUnavailable d (ensureConfigMap N K (lcCacheRoot C) d runtime) (\<lambda>_.
           let identified = setStableIdentity d
           in orFail C original ReasonCacheFailed identified
                (ensureModelCache N K (lcCacheRoot C) (lcDefaultCacheSize C) identified) (\<lambda>(cache, created).
                if created then patchDeploymentStatus K original ReasonCachePending (projectCachePending now cache identified)
                else reconcileWithCache C original runtime cache identified))))"

definition reconcile :: "('c, 'q) ModelDeploymentController \<Rightarrow> ModelDeployment \<Rightarrow> 'c handled" where
  "reconcile C original =
     andThen (validateDeployment C original) (\<lambda>verdict.
       let checked = original\<lparr>mdStatus := rqStatus verdict\<rparr>;
           restarted = (dtPhase (mdStatus original) = ModelDeploymentPhaseFailed \<and>
             dtPhase (mdStatus checked) = ModelDeploymentPhasePending \<and>
             omGeneration (mdMeta original) > dtObservedGeneration (mdStatus original));
           d = (if restarted then clearReplacement checked else checked)
       in if dtPhase (mdStatus d) = ModelDeploymentPhaseFailed \<and> \<not> retryableOperationalFailure (mdStatus d)
          then reconcileFailed C original d
          else reconcileValidated C original (modelRuntimeFromResolved d (rqRuntime verdict)) d)"

text \<open>The entry point: a deployment that is gone or being deleted needs nothing.\<close>

definition ReconcileRequest :: "('c, 'q) ModelDeploymentController \<Rightarrow> string \<Rightarrow> string \<Rightarrow> ('c, Result) act" where
  "ReconcileRequest C namespace name =
     (let K = lcClient C
      in andThen (\<lambda>c. (if kQueueMetricDirty K c then refreshQueueDepth K else ok ()) c) (\<lambda>_.
         andThen (apiOptional ''get ModelDeployment'' (kGetModelDeployment K namespace name)) (\<lambda>found.
           case found of
             None \<Rightarrow> andThen (markAndRefreshQueue K) (\<lambda>_. ok noResult)
           | Some deployment \<Rightarrow>
               if omDeletionTimestamp (mdMeta deployment) \<noteq> None then ok noResult
               else andThen (reconcile C deployment) (\<lambda>(result, _). ok result))))"

end
