(* ===== verification/Lifecycle_Invariant.thy ===== *)
theory Lifecycle_Invariant
  imports Lifecycle_Reconcile
begin

text \<open>
  Invariants of the lifecycle controller. What a reconciliation may do to the phase, the assigned node and the condition Ready is
  stated once, as a contract in a locale; the lemmas inside it follow every path of \<open>reconcile\<close>. Two interpretations give the
  theorems: Ready is reported only by an active deployment with a node, and a deployment becomes active only for a ready runtime.
\<close>

section \<open>What is followed\<close>

definition viewed :: "(ModelDeploymentPhase \<Rightarrow> string \<Rightarrow> ConditionStatus option \<Rightarrow> bool) \<Rightarrow> ModelDeployment \<Rightarrow> bool" where
  "viewed R d \<longleftrightarrow> R (dtPhase (mdStatus d)) (dtAssignedNode (mdStatus d)) (conditionStatus (mdStatus d) ConditionReady)"

abbreviation leaves where
  "leaves R m \<equiv> yields (\<lambda>x. viewed R (snd x)) m"

text \<open>A step that lets the reconciliation go on may give up the node of a deployment that is to be inactive.\<close>

definition goesOn :: "(ModelDeploymentPhase \<Rightarrow> string \<Rightarrow> ConditionStatus option \<Rightarrow> bool) \<Rightarrow> Result option \<times> ModelDeployment \<Rightarrow> bool" where
  "goesOn R x \<longleftrightarrow> viewed R (snd x) \<or> fst x = None \<and> effectiveDesiredState (snd x) = ActivationDesiredStateInactive"

lemma ready_distinct [simp]:
  "ConditionReady \<noteq> ConditionReplacement" "ConditionReady \<noteq> ConditionGPUAssigned" "ConditionReady \<noteq> ConditionRuntimeReady"
  "ConditionReady \<noteq> ConditionModelLoaded" "ConditionReady \<noteq> ConditionRoutingReady" "ConditionReady \<noteq> ConditionCacheReady"
  "ConditionReady \<noteq> ConditionRollout"
  by (simp_all add: const_defs)

lemmas status_writers = setGPUCondition_def setDrainingConditions_def setReplacement_def clearReplacement_def releaseNode_def
  setPhase_def releaseAssignment_def setRolloutBlockedConditions_def projectCachePending_def projectReadyCache_def setStableIdentity_def
  failedStatus_def displacedStatus_def rollingBackStatus_def startedReplacement_def zeroStatus_def rolloutProgressStatus_def
  activatingStatus_def withReplicas_def

lemma waiting_ready [simp]: "conditionStatus (mdStatus (setRuntimeWaitingConditions now r m d)) ConditionReady = Some ConditionFalse"
  by (simp add: setRuntimeWaitingConditions_def)

lemma conditionStatus_identity [simp]:
  "conditionStatus (s\<lparr>dtCache := cache\<rparr>) t = conditionStatus s t" "conditionStatus (s\<lparr>dtServiceName := name\<rparr>) t = conditionStatus s t"
  "conditionStatus (s\<lparr>dtEndpoint := endpoint\<rparr>) t = conditionStatus s t"
  by (simp_all add: conditionStatus_def)

lemma conditionStatus_none: "dtConditions s = [] \<Longrightarrow> conditionStatus s t = None"
  by (simp add: conditionStatus_def)

section \<open>The contract\<close>

locale status_contract =
  fixes R :: "ModelDeploymentPhase \<Rightarrow> string \<Rightarrow> ConditionStatus option \<Rightarrow> bool"
  assumes withdrawn: "p \<noteq> ModelDeploymentPhaseActive \<Longrightarrow> r \<noteq> Some ConditionTrue \<Longrightarrow> R p n r"
    and rephase: "R p [] r \<Longrightarrow> p' \<noteq> ModelDeploymentPhaseActive \<Longrightarrow> R p' [] r"
    and place: "R p n r \<Longrightarrow> n' \<noteq> [] \<Longrightarrow> R p n' r"
    and unready: "R p n r \<Longrightarrow> r' \<noteq> Some ConditionTrue \<Longrightarrow> R p n r'"
begin

declare withdrawn [simp]

lemma leaves_patch: "patches_apply K \<Longrightarrow> viewed R d \<Longrightarrow> leaves R (patchDeploymentStatus K original reason d)"
  by (auto simp: yields_def viewed_def dest: patchDeploymentStatus_written(1))

lemma leaves_requeue: "leaves R m \<Longrightarrow> leaves R (withRequeueAfter delay m)"
  unfolding withRequeueAfter_def by (erule yields_andThen_post) (auto intro: yield_rules yields_ok)

lemma leaves_answer: "leaves R m \<Longrightarrow> leaves R (answer m)"
  unfolding answer_def by (erule yields_andThen_post) (auto intro: yield_rules yields_ok)

lemma leaves_proceed: "viewed R d \<Longrightarrow> leaves R (proceed d)"
  unfolding proceed_def by (intro yields_ok) simp

lemma leaves_scaling: "leaves R m \<Longrightarrow> leaves R (withScalingRequeue m)"
  unfolding withScalingRequeue_def by (erule yields_andThen_post) (auto intro: yield_rules yields_ok)

lemma leaves_fail: "patches_apply K \<Longrightarrow> leaves R (failDeployment K now original reason message d)"
  unfolding failDeployment_def
  by (intro yield_rules leaves_patch) (simp_all add: viewed_def failedStatus_def)

lemma leaves_deactivation: "patches_apply K \<Longrightarrow> leaves R (reconcileDeactivation K now original cache reason d)"
proof (unfold yields_def, intro allI impI)
  fix c x c' assume K: "patches_apply K" and run: "reconcileDeactivation K now original cache reason d c = (Inr x, c')"
  obtain result d' where x: "x = (result, d')" by force
  note written = deactivation_written [OF K run [unfolded x]]
  then have "stageOf d' \<noteq> Serving" by (auto elim: stage_step.cases)
  then have "dtPhase (mdStatus d') \<noteq> ModelDeploymentPhaseActive" by (auto simp: stageOf_def)
  then show "viewed R (snd x)" using written x by (simp add: viewed_def unroutable_def)
qed

lemmas leaves_rules = leaves_patch leaves_requeue leaves_answer leaves_proceed leaves_scaling leaves_fail leaves_deactivation

section \<open>Replacement\<close>

lemma leaves_failReplacement: "patches_apply K \<Longrightarrow> leaves R (failReplacement K now original phase reason message r d)"
  unfolding failReplacement_def by (rule leaves_fail)

lemma leaves_rejectReplacement: "patches_apply K \<Longrightarrow> leaves R (rejectReplacement K now original reason message d)"
  unfolding rejectReplacement_def by (rule leaves_fail)

lemma leaves_startReplacement: "patches_apply K \<Longrightarrow> leaves R (startReplacement T K now original err d)"
  unfolding startReplacement_def
proof (intro yields_if leaves_rejectReplacement)
  assume K: "patches_apply K"
  have started: "leaves R (patchDeploymentStatus K original ReasonReplacementStarted (startedReplacement now target d))" for target
    using K by (intro leaves_patch) (simp_all add: viewed_def startedReplacement_def Let_def)
  show "leaves R (andThen (selectReplacementTarget K d) (\<lambda>selected. case selected of
      None \<Rightarrow> rejectReplacement K now original ReasonReplacementNoCandidate
                (''no eligible active single-GPU deployment can be replaced: '' @ T err) d
    | Some target \<Rightarrow>
        andThen (patchDeploymentStatus K original ReasonReplacementStarted (startedReplacement now target d)) (\<lambda>(result, d').
          if reRequeue result then ok (result, d')
          else andThen (markReplacementTarget K now (referenceFor d) target)
                 (\<lambda>_. ok (result\<lparr>reRequeueAfter := deploymentRequeueAfter\<rparr>, d')))))"
    by (rule yields_andThen, rule yields_case_option, rule leaves_rejectReplacement [OF K],
        rule yields_andThen_post [OF started]) (auto intro!: yield_rules yields_ok)
qed

lemma leaves_cancel: "patches_apply K \<Longrightarrow> leaves R (cancelPendingReplacement K now original message r d)"
  unfolding cancelPendingReplacement_def
  by (rule yields_andThen, rule yields_andThen_post [OF leaves_patch])
    (auto simp: viewed_def setPhase_def intro!: yield_rules yields_ok)

lemma leaves_beginRollback: "patches_apply K \<Longrightarrow> leaves R (beginReplacementRollback K now original message r d)"
  unfolding beginReplacementRollback_def
  by (intro yield_rules leaves_requeue leaves_patch) (simp_all add: viewed_def rollingBackStatus_def Let_def)

lemma leaves_awaitRestore: "patches_apply K \<Longrightarrow> leaves R (awaitRestore K now original r target d)"
  unfolding awaitRestore_def
  by (intro yield_rules leaves_failReplacement leaves_requeue leaves_patch) (simp_all add: viewed_def setPhase_def)

lemma leaves_rollback:
  "patches_apply K \<Longrightarrow> viewed R d \<Longrightarrow> leaves R (reconcileReplacementRollback T K now original r d)"
  unfolding reconcileReplacementRollback_def
  by (intro yield_rules leaves_failReplacement leaves_awaitRestore leaves_requeue leaves_patch) (simp_all add: viewed_def)

lemma leaves_awaitTarget: "patches_apply K \<Longrightarrow> viewed R d \<Longrightarrow> leaves R (awaitTarget K now original r target d)"
  unfolding awaitTarget_def Let_def
  by (intro yield_rules leaves_failReplacement leaves_rules)
    (simp_all add: setPhase_def viewed_def setReplacement_def)

lemma leaves_drainTarget: "patches_apply K \<Longrightarrow> viewed R d \<Longrightarrow> leaves R (drainTarget K now original r d)"
  unfolding drainTarget_def by (intro yield_rules leaves_failReplacement leaves_answer leaves_awaitTarget)

lemma leaves_continueRequest: "patches_apply K \<Longrightarrow> viewed R d \<Longrightarrow> leaves R (continueRequest T K now original r d)"
  unfolding continueRequest_def withdrawRequest_def Let_def
  by (auto intro!: yield_rules leaves_answer leaves_cancel leaves_beginRollback leaves_rollback leaves_proceed leaves_drainTarget
      split: if_splits)

lemma leaves_followRequester:
  "patches_apply K \<Longrightarrow> viewed R d \<Longrightarrow> leaves R (followRequester K now original cache requester phase r d)"
  unfolding followRequester_def
  by (intro yield_rules leaves_rules)
    (auto simp: viewed_def displacedStatus_def setPhase_def setReplacement_def clearReplacement_def rephase)

lemma leaves_participant:
  "patches_apply K \<Longrightarrow> viewed R d \<Longrightarrow> leaves R (reconcileReplacementParticipant K now original cache d)"
  unfolding reconcileReplacementParticipant_def
  by (intro yield_rules leaves_proceed leaves_followRequester) (simp_all add: viewed_def setReplacement_def clearReplacement_def)

lemma requester_goesOn:
  "patches_apply K \<Longrightarrow> viewed R d \<Longrightarrow> yields (goesOn R) (reconcileReplacementRequester T K now original d)"
proof -
  assume K: "patches_apply K" and d: "viewed R d"
  have leaves: "yields (goesOn R) m" if "leaves R m" for m :: "'a partly"
    using that by (rule yields_mono) (simp add: goesOn_def)
  have proceeds: "yields (goesOn R) (proceed x)"
    if "viewed R x \<or> effectiveDesiredState x = ActivationDesiredStateInactive" for x :: ModelDeployment
    using that unfolding proceed_def by (intro yields_ok) (simp add: goesOn_def)
  have same: "effectiveDesiredState (clearReplacement x) = effectiveDesiredState x"
    "effectiveDesiredState (releaseNode x) = effectiveDesiredState x" for x
    by (simp_all add: clearReplacement_def setReplacement_def releaseNode_def effectiveDesiredState_def)
  show ?thesis
    unfolding reconcileReplacementRequester_def Let_def
    by (intro yield_rules proceeds leaves [OF leaves_continueRequest [OF K d]] leaves [OF leaves_answer [OF leaves_rejectReplacement [OF K]]])
      (simp_all add: d same)
qed

section \<open>Capacity\<close>

lemma viewed_waiting:
  "viewed R (setDeploymentCondition now ConditionGPUAssigned st reason message
     (setRuntimeWaitingConditions now reason' message' (setPhase ModelDeploymentPhaseWaitingForGPU d)))"
  by (simp add: viewed_def setPhase_def)

lemma leaves_capacity: "patches_apply K \<Longrightarrow> leaves R (handleGPUCapacityError T K now original err d)"
  unfolding handleGPUCapacityError_def Let_def
  by (intro yield_rules leaves_beginRollback)
    (auto split: ActivationWhenFull.split intro!: yields_throw leaves_patch leaves_fail leaves_startReplacement viewed_waiting)

lemma leaves_preflight: "patches_apply K \<Longrightarrow> leaves R (handleRuntimePreflightError T K now original err d)"
  unfolding handleRuntimePreflightError_def Let_def
  by (intro yield_rules leaves_fail leaves_patch) (simp_all add: viewed_def setPhase_def)

lemma viewed_rolloutProgress: "viewed R d \<Longrightarrow> viewed R (rolloutProgressStatus now existing d)"
  by (simp add: viewed_def rolloutProgressStatus_def)

lemma leaves_blockRollout: "patches_apply K \<Longrightarrow> viewed R d \<Longrightarrow> leaves R (blockRollout T K now original slots err d)"
  unfolding blockRollout_def Let_def
  by (intro yield_rules leaves_requeue leaves_patch) (auto simp: viewed_def setRolloutBlockedConditions_def intro: unready)

lemma leaves_rollout:
  "patches_apply (lcClient C) \<Longrightarrow> viewed R d \<Longrightarrow> leaves R (reconcileRolloutSpareCapacity C original runtime nodeName cachePath d)"
  unfolding reconcileRolloutSpareCapacity_def Let_def
  by (intro yield_rules leaves_proceed leaves_answer leaves_blockRollout viewed_rolloutProgress)
    (simp_all add: viewed_def)

lemma leaves_cacheNotReady:
  "patches_apply (lcClient C) \<Longrightarrow> leaves R (reconcileCacheNotReady C original cache d)"
  unfolding reconcileCacheNotReady_def Let_def
  by (intro yield_rules leaves_fail leaves_patch) (simp_all add: viewed_def setPhase_def projectCachePending_def)

lemma leaves_failed: "patches_apply (lcClient C) \<Longrightarrow> leaves R (reconcileFailed C original d)"
  unfolding reconcileFailed_def Let_def
  by (intro yield_rules leaves_patch) (auto simp: viewed_def setPhase_def terminalStatus_def Let_def split: prod.splits)

end

section \<open>Steps before the projection\<close>

lemma planRuntimeReplicas_status:
  "yields (\<lambda>d'. \<exists>s. d' = onStatus (\<lambda>st. st\<lparr>dtScaling := s\<rparr>) d) (planRuntimeReplicas Q p K now d original runtime cacheNode)"
  unfolding planRuntimeReplicas_def applyScaling_def Let_def by (intro yield_rules yields_ok) blast+

lemma reserveGPU_node:
  assumes "reserveGPU Q p K d cacheNode c = (Inr pl, c')" and "cacheNode \<noteq> []"
  shows "gpNodeName pl = cacheNode"
proof -
  obtain nodes as where "planGPU Q p d cacheNode (effectiveGPUReservation d) nodes as = Inr pl"
    using assms(1) by (auto simp: reserveGPU_def andThen_Inr case_throw_Inr Let_def case_prod_beta)
  then have plan: "GPUPlan Q (Some p) (gpuRequestFor d cacheNode (effectiveGPUReservation d)) (nodesNamed nodes cacheNode) as = Inr pl"
    using assms(2) by (simp add: planGPU_def)
  show ?thesis using plan by (rule GPUPlan_InrE) (simp add: Let_def candidateOf_def nodesNamed_def)
qed

lemma cacheLookup_node: "clReady (cacheLookup cache) \<Longrightarrow> clNodeName (cacheLookup cache) \<noteq> []"
  by (auto simp: cacheLookup_def noCacheResult_def Let_def split: if_splits)

text \<open>What the validation step does to the view of a status.\<close>

definition blockedView :: "ModelDeploymentStatus \<Rightarrow> ModelDeploymentStatus \<Rightarrow> bool" where
  "blockedView s s' \<longleftrightarrow> dtAssignedNode s' = dtAssignedNode s \<and>
     (dtPhase s' = dtPhase s \<and> conditionStatus s' ConditionReady = conditionStatus s ConditionReady \<or>
      dtPhase s' \<in> {ModelDeploymentPhaseFailed, ModelDeploymentPhasePending} \<and> conditionStatus s' ConditionReady = Some ConditionFalse)"

lemma setStatusCondition_node [simp]:
  "dtAssignedNode (fst (setStatusCondition now type status reason message s)) = dtAssignedNode s"
  by (simp add: setStatusCondition_def split: prod.splits)

lemma reject_view:
  "blockedView s (rqStatus (fst (rejectSpec now message s)))" "blockedView s (rqStatus (fst (rejectMissingRuntime now ref message s)))"
  "blockedView s (rqStatus (fst (rejectRuntime now ref message s)))"
  "blockedView s (rqStatus (fst (rejectConfiguration now reason message (fst (setRuntimeResolved now img s)))))"
  "blockedView s (rqStatus (fst (acceptDeployment now d restart resolved (fst (setRuntimeResolved now img s)))))"
  by (auto simp: blockedView_def rejectSpec_def rejectMissingRuntime_def rejectRuntime_def rejectConfiguration_def acceptDeployment_def
      setter_defs Let_def case_prod_beta const_defs)

lemma reject_viewD:
  "rejectSpec now message s = (verdict, es) \<Longrightarrow> blockedView s (rqStatus verdict)"
  "rejectMissingRuntime now ref message s = (verdict, es) \<Longrightarrow> blockedView s (rqStatus verdict)"
  "rejectRuntime now ref message s = (verdict, es) \<Longrightarrow> blockedView s (rqStatus verdict)"
  "setRuntimeResolved now img s = (s', changed) \<Longrightarrow> rejectConfiguration now reason message s' = (verdict, es) \<Longrightarrow>
     blockedView s (rqStatus verdict)"
  "setRuntimeResolved now img s = (s', changed) \<Longrightarrow> acceptDeployment now d restart resolved s' = (verdict, es) \<Longrightarrow>
     blockedView s (rqStatus verdict)"
  by (metis reject_view fst_conv)+

lemma ReconcileDeployment_view:
  assumes "ReconcileDeployment N Q X now cancelled getRuntime v d = Inr (verdict, es)"
  shows "blockedView (mdStatus d) (rqStatus verdict)"
proof -
  let ?s = "(mdStatus d)\<lparr>dtObservedGeneration := omGeneration (mdMeta d)\<rparr>"
  have "blockedView ?s (rqStatus verdict)"
  proof (cases "ValidateModelDeployment N Q d")
    case (Some err)
    then show ?thesis using assms by (auto simp: ReconcileDeployment_def Let_def split: if_splits dest: reject_viewD)
  next
    case None
    note run = assms [unfolded ReconcileDeployment_def Let_def None option.case]
    show ?thesis
    proof (cases "Resolve cancelled getRuntime d")
      case (Inl err)
      then show ?thesis using run by (cases err) (auto split: if_splits dest: reject_viewD)
    next
      case (Inr resolved)
      obtain s1 changed where s1: "setRuntimeResolved now (resolvedImage resolved) ?s = (s1, changed)" by force
      show ?thesis
      proof (cases "ValidateForReconciliation N v d")
        case None
        then show ?thesis using run Inr s1 by (auto split: if_splits prod.splits dest: reject_viewD(5) [OF s1])
      next
        case (Some err)
        then show ?thesis using run Inr s1 by (auto split: if_splits prod.splits dest: reject_viewD(4) [OF s1])
      qed
    qed
  qed
  then show ?thesis by (simp add: blockedView_def)
qed

lemma validateDeployment_view: "yields (\<lambda>verdict. blockedView (mdStatus d) (rqStatus verdict)) (validateDeployment C d)"
  by (auto simp: yields_def validateDeployment_def Let_def split: sum.splits dest: ReconcileDeployment_view)

lemma rollout_node:
  "yields (\<lambda>x. fst x = None \<longrightarrow> dtAssignedNode (mdStatus (snd x)) = dtAssignedNode (mdStatus d))
     (reconcileRolloutSpareCapacity C original runtime nodeName cachePath d)"
proof -
  have answered: "yields (\<lambda>x. fst x = None \<longrightarrow> P x) (answer m)" for P and m :: "'a handled"
    unfolding answer_def by (intro yield_rules yields_ok) simp
  show ?thesis
    unfolding reconcileRolloutSpareCapacity_def Let_def proceed_def
    by (intro yield_rules answered) (auto intro!: yields_ok simp: rolloutProgressStatus_def)
qed

lemma activeStatus_fields [simp]:
  "mdSpec (activeStatus now d) = mdSpec d" "mdMeta (activeStatus now d) = mdMeta d"
  "dtPhase (mdStatus (activeStatus now d)) = ModelDeploymentPhaseActive"
  "dtAssignedNode (mdStatus (activeStatus now d)) = dtAssignedNode (mdStatus d)"
  "dtReplicas (mdStatus (activeStatus now d)) = dtReplicas (mdStatus d)"
  "moLoaded (dtModel (mdStatus (activeStatus now d)))"
  "conditionStatus (mdStatus (activeStatus now d)) ConditionReady = Some ConditionTrue"
  by (auto simp: activeStatus_def completeReplacement_def setReplacement_def Let_def split: option.splits)

lemma withReplicas_fields [simp]:
  "mdSpec (withReplicas w d) = mdSpec d" "mdMeta (withReplicas w d) = mdMeta d"
  "dtAssignedNode (mdStatus (withReplicas w d)) = dtAssignedNode (mdStatus d)"
  "dtReplicas (mdStatus (withReplicas w d)) =
     \<lparr>rcDesired = intPointerValue (dpReplicas (rdSpec w)), rcReady = dvReadyReplicas (rdStatus w)\<rparr>"
  by (simp_all add: withReplicas_def)

section \<open>The whole reconciliation\<close>

text \<open>
  What is left to say is what an activation establishes: \<open>Post\<close> follows from the view on every other path, and must hold when the
  projection reports a ready runtime Deployment that was just ensured on the assigned node.
\<close>

locale activation_contract = status_contract R
  for R :: "ModelDeploymentPhase \<Rightarrow> string \<Rightarrow> ConditionStatus option \<Rightarrow> bool" +
  fixes C :: "('c, 'q) ModelDeploymentController"
    and Post :: "ModelDeployment \<Rightarrow> bool"
  assumes final: "viewed R d \<Longrightarrow> Post d"
    and activated:
      "ensureRuntimeDeployment (lcChecks C) (lcQuantities C) (lcBuilder C) (lcClient C) d runtime (dtAssignedNode (mdStatus d)) path c =
         (Inr (w, created), c') \<Longrightarrow>
       runtimeDeploymentReady w \<Longrightarrow> dtAssignedNode (mdStatus d) \<noteq> [] \<Longrightarrow>
       mdStatus d' = (mdStatus (activeStatus (lcNow C) (withReplicas w d)))\<lparr>dtObservedGeneration := omGeneration (mdMeta d)\<rparr> \<Longrightarrow>
       mdSpec d' = mdSpec d \<Longrightarrow> omGeneration (mdMeta d') = omGeneration (mdMeta d) \<Longrightarrow> Post d'"
begin

lemma leads: "leaves R m \<Longrightarrow> yields (\<lambda>x. Post (snd x)) m"
  by (erule yields_mono) (rule final)

lemma leads_project:
  assumes K: "patches_apply (lcClient C)" and d: "viewed R d" "dtAssignedNode (mdStatus d) \<noteq> []"
    and w: "ensureRuntimeDeployment (lcChecks C) (lcQuantities C) (lcBuilder C) (lcClient C) d runtime (dtAssignedNode (mdStatus d)) path c =
         (Inr (w, created), c')"
  shows "yields (\<lambda>x. Post (snd x)) (projectRuntimeDeployment (lcClient C) (lcNow C) original w created' d)"
proof -
  let ?K = "lcClient C"
  have active: "yields (\<lambda>x. Post (snd x)) (patchDeploymentStatus ?K original reason (activeStatus (lcNow C) (withReplicas w d)))"
    if ready: "runtimeDeploymentReady w" for reason
    unfolding yields_def
    using activated [OF w ready d(2)] patchDeploymentStatus_written(1-3) [OF K] by fastforce
  have failing: "viewed R (withReplicas w d)" using d by (simp add: viewed_def withReplicas_def)
  have scaling: "yields (\<lambda>x. Post (snd x)) (withScalingRequeue m)" if "yields (\<lambda>x. Post (snd x)) m" for m :: "'c handled"
    using that unfolding withScalingRequeue_def by (rule yields_andThen_post) (auto intro!: yield_rules yields_ok)
  have observed: "yields (\<lambda>x. Post (snd x)) (andThen m (\<lambda>(result, d'). andThen (n result) (\<lambda>_. ok (result, d'))))"
    if "yields (\<lambda>x. Post (snd x)) m" for m and n :: "Result \<Rightarrow> ('c, unit) act"
    using that by (rule yields_andThen_post) (auto intro!: yield_rules yields_ok)
  have activating: "leaves R (patchDeploymentStatus ?K original reason (activatingStatus (lcNow C) w (withReplicas w d)))" for reason
    by (rule leaves_patch [OF K]) (simp add: viewed_def activatingStatus_def Let_def)
  show ?thesis
    unfolding projectRuntimeDeployment_def Let_def
    by (intro yields_if scaling observed active yields_case_option leads activating leaves_beginRollback [OF K] leaves_fail [OF K]) simp
qed

lemma leads_orFail:
  assumes "patches_apply (lcClient C)" and "\<And>x c c'. step c = (Inr x, c') \<Longrightarrow> yields (\<lambda>x. Post (snd x)) (continue x)"
  shows "yields (\<lambda>x. Post (snd x)) (orFail C original reason d step continue)"
  unfolding orFail_def
proof (rule yields_onOutcome_post)
  show "yields (\<lambda>x. Post (snd x)) (case Inr x of Inl err \<Rightarrow> if is_permanent err then andThen (deleteRuntimeWorkload (lcClient C) d)
      (\<lambda>_. failDeployment (lcClient C) (lcNow C) original reason (lcErrorText C err) d) else throw err | Inr x \<Rightarrow> continue x)"
    if "step c = (Inr x, c')" for x c c'
    using assms(2) [OF that] by simp
  show "yields (\<lambda>x. Post (snd x)) (case Inl e of Inl err \<Rightarrow> if is_permanent err then andThen (deleteRuntimeWorkload (lcClient C) d)
      (\<lambda>_. failDeployment (lcClient C) (lcNow C) original reason (lcErrorText C err) d) else throw err | Inr x \<Rightarrow> continue x)" for e
    unfolding sum.case by (intro yield_rules leads leaves_fail assms(1))
qed

lemma leads_unlessAnswered:
  assumes "yields (\<lambda>x. case fst x of Some _ \<Rightarrow> viewed R (snd x) | None \<Rightarrow> Q (snd x)) step"
    and "\<And>d. Q d \<Longrightarrow> yields (\<lambda>x. Post (snd x)) (continue d)"
  shows "yields (\<lambda>x. Post (snd x)) (unlessAnswered step continue)"
  unfolding unlessAnswered_def using assms(1)
  by (rule yields_andThen_post) (auto intro!: yield_rules yields_ok assms(2) final split: option.splits)

lemma leads_activateOn:
  assumes K: "patches_apply (lcClient C)" and d: "viewed R d" "dtAssignedNode (mdStatus d) \<noteq> []"
  shows "yields (\<lambda>x. Post (snd x)) (activateOn C original runtime cache path node d)"
proof -
  let ?node = "dtAssignedNode (mdStatus d)"
  have rollout: "yields (\<lambda>x. case fst x of Some _ \<Rightarrow> viewed R (snd x) | None \<Rightarrow> viewed R (snd x) \<and> dtAssignedNode (mdStatus (snd x)) = ?node)
      (reconcileRolloutSpareCapacity C original runtime ?node path d)"
    using leaves_rollout [OF K d(1), of original runtime ?node path] rollout_node [of d C original runtime ?node path] by (auto simp: yields_def split: option.splits)
  have continue: "yields (\<lambda>x. Post (snd x))
      (orFail C original ReasonRuntimeUnavailable d1 (ensurePodDisruptionBudget (lcChecks C) (lcClient C) d1) (\<lambda>_.
       orFail C original ReasonRuntimeUnavailable d1
         (ensureRuntimeDeployment (lcChecks C) (lcQuantities C) (lcBuilder C) (lcClient C) d1 runtime ?node path)
         (\<lambda>(w, created). andThen (if cacheTouchDue original cache w created then touchCacheLastUsed (lcClient C) (lcNow C) cache else ok ())
           (\<lambda>_. projectRuntimeDeployment (lcClient C) (lcNow C) original w created d1))))"
    if "viewed R d1 \<and> dtAssignedNode (mdStatus d1) = ?node" for d1
    using that d(2)
    by (intro leads_orFail K) (auto intro!: yields_andThen leads_project [OF K])
  show ?thesis
    unfolding activateOn_def Let_def
    by (intro yields_case_option leads_unlessAnswered [OF rollout] continue leads leaves_preflight [OF K])
qed

lemma leads_scaleToZero:
  assumes K: "patches_apply (lcClient C)"
  shows "yields (\<lambda>x. Post (snd x)) (scaleToZero C original runtime node path d)"
proof -
  have zero: "yields (\<lambda>x. Post (snd x)) (patchDeploymentStatus (lcClient C) original reason (zeroStatus (lcNow C) d))" for reason
    by (rule leads, rule leaves_patch [OF K]) (simp add: viewed_def zeroStatus_def)
  show ?thesis
    unfolding scaleToZero_def Let_def
    by (rule yields_andThen, rule leads_orFail [OF K], rule yields_andThen_post [OF zero]) (auto intro!: yield_rules yields_ok)
qed

lemma leads_activate:
  assumes K: "patches_apply (lcClient C)" and d: "viewed R d" and ready: "clReady cacheResult" "cacheResult = cacheLookup cache"
  shows "yields (\<lambda>x. Post (snd x)) (activate C original runtime cache cacheResult d)"
proof -
  let ?node = "clNodeName cacheResult"
  have node: "?node \<noteq> []" using ready cacheLookup_node by blast
  have gpu: "yields (\<lambda>x. Post (snd x)) (placeOnGPU C original ?node d' (activateOn C original runtime cache path))" if "viewed R d'" for d' path
    unfolding placeOnGPU_def Let_def
  proof (rule yields_onOutcome_post)
    fix pl c c' assume "reserveGPU (lcQuantities C) (lcGPUPlanner C) (lcClient C) d' ?node c = (Inr pl, c')"
    then have "gpNodeName pl = ?node" using node by (rule reserveGPU_node)
    with that node show "yields (\<lambda>x. Post (snd x)) (case Inr pl of
        Inl err \<Rightarrow> handleGPUCapacityError (lcErrorText C) (lcClient C) (lcNow C) original err d'
      | Inr placement \<Rightarrow>
          andThen (api ''get selected GPU node for preflight'' (kGetNode (lcClient C) (gpNodeName placement))) (\<lambda>node.
            activateOn C original runtime cache path node
              (setDeploymentCondition (lcNow C) ConditionGPUAssigned ConditionTrue ReasonGPUCapacityReserved
                (''Reserved '' @ itoa (effectiveGPUReservation d') @ '' '' @ gpuResourceName d' @ '' slot(s) on node '' @
                 gpNodeName placement @ ''; Kubernetes assigns physical devices'')
                (onStatus (\<lambda>s. s\<lparr>dtAssignedNode := gpNodeName placement, dtAssignedGPUs := []\<rparr>) d'))))"
      unfolding sum.case by (intro yields_andThen leads_activateOn [OF K]) (auto simp: viewed_def intro: place)
  qed (unfold sum.case, rule leads [OF leaves_capacity [OF K]])
  have cpu: "yields (\<lambda>x. Post (snd x)) (placeOnCPU C original ?node d' (activateOn C original runtime cache path))" if "viewed R d'" for d' path
    using that node unfolding placeOnCPU_def Let_def
    by (intro yield_rules leads_activateOn [OF K] leads [OF leaves_patch [OF K]]) (auto simp: viewed_def intro: place)
  show ?thesis
    unfolding activate_def Let_def
  proof (rule yields_andThen_post [OF planRuntimeReplicas_status])
    fix d' assume "\<exists>s. d' = onStatus (\<lambda>st. st\<lparr>dtScaling := s\<rparr>) (onStatus (\<lambda>s. s\<lparr>dtDrainStartedAt := None\<rparr>) d)"
    then have "viewed R d'" using d by (auto simp: viewed_def)
    then show "yields (\<lambda>x. Post (snd x))
       (if stDesiredReplicas (dtScaling (mdStatus d')) = 0 then scaleToZero C original runtime ?node (clPath cacheResult) d'
        else if rrGPU (dsResources (mdSpec d')) \<noteq> None
          then placeOnGPU C original ?node d' (activateOn C original runtime cache (clPath cacheResult))
        else placeOnCPU C original ?node d' (activateOn C original runtime cache (clPath cacheResult)))"
      by (intro yields_if leads_scaleToZero [OF K] gpu cpu)
  qed
qed

lemma leads_withCache:
  assumes K: "patches_apply (lcClient C)" and d: "viewed R d"
  shows "yields (\<lambda>x. Post (snd x)) (reconcileWithCache C original runtime cache d)"
proof -
  have projected: "viewed R (projectReadyCache (lcNow C) (cacheLookup cache) d)"
    using d by (simp add: viewed_def projectReadyCache_def)
  have participant: "yields (\<lambda>x. case fst x of Some _ \<Rightarrow> viewed R (snd x) | None \<Rightarrow> viewed R (snd x))
      (reconcileReplacementParticipant (lcClient C) (lcNow C) original cache (projectReadyCache (lcNow C) (cacheLookup cache) d))"
    using leaves_participant [OF K projected, of "lcNow C" original cache] by (rule yields_mono) (simp split: option.splits)
  have requester: "yields (\<lambda>x. case fst x of Some _ \<Rightarrow> viewed R (snd x)
        | None \<Rightarrow> viewed R (snd x) \<or> effectiveDesiredState (snd x) = ActivationDesiredStateInactive)
      (reconcileReplacementRequester (lcErrorText C) (lcClient C) (lcNow C) original d1)" if "viewed R d1" for d1
    using requester_goesOn [OF K that, of "lcErrorText C" "lcNow C" original]
    by (rule yields_mono) (auto simp: goesOn_def split: option.splits)
  show ?thesis
    unfolding reconcileWithCache_def Let_def
    by (intro yields_if leads [OF leaves_cacheNotReady [OF K]] leads_unlessAnswered [OF participant] leads_unlessAnswered [OF requester]
          leads [OF leaves_deactivation [OF K]] leads_activate [OF K]) auto
qed

lemma leads_validated:
  assumes K: "patches_apply (lcClient C)" and d: "viewed R d"
  shows "yields (\<lambda>x. Post (snd x)) (reconcileValidated C original runtime d)"
proof -
  have identified: "viewed R (setStableIdentity d)"
    using d by (simp add: viewed_def setStableIdentity_def Let_def)
  show ?thesis
    unfolding reconcileValidated_def Let_def
    by (intro leads_orFail [OF K] yields_case_prod yields_if leads [OF leaves_patch [OF K]] leads_withCache [OF K identified])
      (simp add: viewed_def projectCachePending_def)
qed

lemma leads_reconcile:
  assumes K: "patches_apply (lcClient C)" and d: "viewed R original"
  shows "yields (\<lambda>x. Post (snd x)) (reconcile C original)"
  unfolding reconcile_def Let_def
proof (rule yields_andThen_post [OF validateDeployment_view])
  fix verdict assume view: "blockedView (mdStatus original) (rqStatus verdict)"
  have checked: "viewed R (original\<lparr>mdStatus := rqStatus verdict\<rparr>)"
    using view d by (auto simp: blockedView_def viewed_def)
  have cleared: "viewed R (clearReplacement x)" if "viewed R x" for x
    using that by (simp add: viewed_def clearReplacement_def setReplacement_def)
  let ?d = "if dtPhase (mdStatus original) = ModelDeploymentPhaseFailed \<and>
      dtPhase (mdStatus (original\<lparr>mdStatus := rqStatus verdict\<rparr>)) = ModelDeploymentPhasePending \<and>
      dtObservedGeneration (mdStatus original) < omGeneration (mdMeta original)
    then clearReplacement (original\<lparr>mdStatus := rqStatus verdict\<rparr>) else original\<lparr>mdStatus := rqStatus verdict\<rparr>"
  have "viewed R ?d" using checked cleared by simp
  then show "yields (\<lambda>x. Post (snd x))
     (if dtPhase (mdStatus ?d) = ModelDeploymentPhaseFailed \<and> \<not> retryableOperationalFailure (mdStatus ?d)
      then reconcileFailed C original ?d
      else reconcileValidated C original (modelRuntimeFromResolved ?d (rqRuntime verdict)) ?d)"
    by (intro yields_if leads [OF leaves_failed [OF K]] leads_validated [OF K])
qed

end

section \<open>Ready only when active\<close>

definition status_sound :: "ModelDeploymentStatus \<Rightarrow> bool" where
  "status_sound s \<longleftrightarrow>
     (conditionStatus s ConditionReady = Some ConditionTrue \<longrightarrow> dtPhase s = ModelDeploymentPhaseActive) \<and>
     (dtPhase s = ModelDeploymentPhaseActive \<longrightarrow> dtAssignedNode s \<noteq> [])"

definition soundView :: "ModelDeploymentPhase \<Rightarrow> string \<Rightarrow> ConditionStatus option \<Rightarrow> bool" where
  "soundView p n r \<longleftrightarrow> (r = Some ConditionTrue \<longrightarrow> p = ModelDeploymentPhaseActive) \<and> (p = ModelDeploymentPhaseActive \<longrightarrow> n \<noteq> [])"

lemma viewed_sound: "viewed soundView d \<longleftrightarrow> status_sound (mdStatus d)"
  by (simp add: viewed_def soundView_def status_sound_def)

interpretation sound: activation_contract soundView C "viewed soundView" for C :: "('c, 'q) ModelDeploymentController"
  by unfold_locales (auto simp: soundView_def viewed_def)

text \<open>
  The histories of a deployment: it starts without conditions, its spec and metadata are edited, the controller of its replacement
  partner marks, releases or restores it, and it is reconciled, at any time and in any state of the world.
\<close>

inductive reconciled :: "('c, 'q) ModelDeploymentController \<Rightarrow> ModelDeployment \<Rightarrow> bool" for C where
  fresh: "dtPhase (mdStatus d) = ModelDeploymentPhaseUnset \<Longrightarrow> dtConditions (mdStatus d) = [] \<Longrightarrow> reconciled C d"
| edited: "reconciled C d \<Longrightarrow> mdStatus d' = mdStatus d \<Longrightarrow> reconciled C d'"
| marked: "reconciled C d \<Longrightarrow> reconciled C (markedTarget now requester d)"
| released: "reconciled C d \<Longrightarrow> reconciled C (releasedTarget d)"
| restoring: "reconciled C d \<Longrightarrow> reconciled C (restoringTarget requester d)"
| step: "reconciled C d \<Longrightarrow> reconcile (C\<lparr>lcNow := now\<rparr>) d c = (Inr (result, d'), c') \<Longrightarrow> reconciled C d'"

text \<open>
  C6. In every history of a deployment the condition Ready is True only in the phase Active, and an active deployment has an
  assigned node. So neither validation failures, nor cache loss, draining, replacement, rollback, scaling to zero or missing capacity
  ever leave a status that reports a runtime that is not there.
\<close>

theorem ready_only_when_active:
  assumes "patches_apply (lcClient C)" and "reconciled C d"
  shows "status_sound (mdStatus d)"
  using assms(2)
proof induction
  case (step d now c result d' c')
  have "patches_apply (lcClient (C\<lparr>lcNow := now\<rparr>))" using assms(1) by simp
  then have "viewed soundView (snd (result, d'))"
    using step by (intro yieldsD [OF sound.leads_reconcile]) (simp_all add: viewed_sound)
  then show ?case by (simp add: viewed_sound)
qed (simp_all add: status_sound_def conditionStatus_none markedTarget_def releasedTarget_def restoringTarget_def setReplacement_def
    Let_def)

text \<open>A deployment whose runtime does not exist, from its creation through its first reconciliation.\<close>

definition sampleOperator :: "(int world, int) ModelDeploymentController" where
  "sampleOperator =
     \<lparr>lcClient = memoryClient, lcChecks = lax_checks, lcQuantities = whole_quantity, lcTexts = plainTexts,
      lcErrorText = (\<lambda>_. ''error''), lcValidator = \<lparr>rvCacheRoot = ''/cache''\<rparr>,
      lcGPUPlanner = \<lparr>plNodeSelector = [], plGPUTypeLabel = ''t''\<rparr>, lcBuilder = sampleBuilder, lcCacheRoot = ''/cache'',
      lcDefaultCacheSize = ''60'', lcNow = 100\<rparr>"

definition sampleNew :: ModelDeployment where
  "sampleNew = onStatus (\<lambda>s. s\<lparr>dtPhase := ModelDeploymentPhaseUnset, dtAssignedNode := [], dtConditions := []\<rparr>) (sampleDeployment ''m'')"

definition sampleStart :: "int world" where
  "sampleStart = emptyWorld\<lparr>wDeployments := [sampleNew], wNodes := sampleNodes\<rparr>"

lemma sample_reconciled:
  "case reconcile sampleOperator sampleNew sampleStart of (Inl _, _) \<Rightarrow> False
   | (Inr (_, d), _) \<Rightarrow> dtPhase (mdStatus d) = ModelDeploymentPhaseFailed"
  by code_simp

theorem ready_only_when_active_witness:
  "\<exists>result d w. reconcile sampleOperator sampleNew sampleStart = (Inr (result, d), w) \<and> dtPhase (mdStatus d) = ModelDeploymentPhaseFailed \<and>
     status_sound (mdStatus d)"
proof -
  obtain result d w where run: "reconcile sampleOperator sampleNew sampleStart = (Inr (result, d), w)"
    and failed: "dtPhase (mdStatus d) = ModelDeploymentPhaseFailed"
    using sample_reconciled by (auto split: prod.splits sum.splits)
  have "reconciled sampleOperator sampleNew"
    by (rule reconciled.fresh) (simp_all add: sampleNew_def onStatus_def)
  moreover have "reconcile (sampleOperator\<lparr>lcNow := 100\<rparr>) sampleNew sampleStart = (Inr (result, d), w)"
    using run by (simp add: sampleOperator_def)
  ultimately have "reconciled sampleOperator d" by (rule reconciled.step)
  moreover have "patches_apply (lcClient sampleOperator)" by (simp add: sampleOperator_def patches_apply_memoryClient)
  ultimately show ?thesis using run failed ready_only_when_active by blast
qed

end
