(* ===== verification/Lifecycle_Routing.thy ===== *)
theory Lifecycle_Routing
  imports Discovery Lifecycle_Invariant
begin

text \<open>
  The lifecycle controller and the gateway together. The status is the only thing they share: the controller writes it, the
  gateway's discovery reads it. A deployment becomes active only for a runtime that is ready, and the status written then passes
  every gate that discovery puts on it.
\<close>

section \<open>Conditions of a generation\<close>

definition confirmed :: "int \<Rightarrow> ModelDeploymentStatus \<Rightarrow> string \<Rightarrow> bool" where
  "confirmed generation s t =
     (case FindCondition (dtConditions s) t of
        Some c \<Rightarrow> cStatus c = ConditionTrue \<and> generation \<le> cObservedGeneration c
      | None \<Rightarrow> False)"

lemma conditionTrueForGeneration_confirmed:
  "conditionTrueForGeneration d t = confirmed (omGeneration (mdMeta d)) (mdStatus d) t"
  by (simp add: conditionTrueForGeneration_def confirmed_def FindCondition_eq_find)

lemma confirmed_conditionTrue: "confirmed generation (mdStatus d) t \<Longrightarrow> conditionTrue d t"
  by (auto simp: conditionTrue_def confirmed_def FindCondition_eq_find simp del: find_eq_None_iff split: option.splits)

lemma confirmed_set [simp]:
  "confirmed generation (mdStatus (setDeploymentCondition now type st r m d)) t =
     (if t = type then st = ConditionTrue \<and> generation \<le> omGeneration (mdMeta d) else confirmed generation (mdStatus d) t)"
  by (auto simp: confirmed_def setDeploymentCondition_def SetCondition_def FindCondition_setConditionLoop newCondition_def
      split: option.splits)

lemma confirmed_fields [simp]:
  "confirmed generation (s\<lparr>dtReplacement := replacement\<rparr>) t = confirmed generation s t"
  "confirmed generation (s\<lparr>dtObservedGeneration := observed\<rparr>) t = confirmed generation s t"
  by (simp_all add: confirmed_def)

lemma routing_conditions_distinct [simp]:
  "ConditionReplacement \<notin> {ConditionRuntimeReady, ConditionModelLoaded, ConditionRoutingReady, ConditionReady}"
  "ConditionRollout \<notin> {ConditionRuntimeReady, ConditionModelLoaded, ConditionRoutingReady, ConditionReady}"
  by (simp_all add: const_defs)

lemma activeStatus_confirms:
  assumes "t \<in> {ConditionRuntimeReady, ConditionModelLoaded, ConditionRoutingReady, ConditionReady}"
  shows "confirmed (omGeneration (mdMeta d)) (mdStatus (activeStatus now d)) t"
proof -
  have "t \<noteq> ConditionReplacement" "t \<noteq> ConditionRollout" using assms routing_conditions_distinct by blast+
  then show ?thesis
    using assms by (auto simp: activeStatus_def completeReplacement_def setReplacement_def Let_def split: option.splits)
qed

lemma activeStatus_serving:
  "dtPhase (mdStatus (activeStatus now d)) = ModelDeploymentPhaseActive" "moLoaded (dtModel (mdStatus (activeStatus now d)))"
  "dtReplicas (mdStatus (activeStatus now d)) = dtReplicas (mdStatus d)"
  "dtAssignedNode (mdStatus (activeStatus now d)) = dtAssignedNode (mdStatus d)"
  by (simp_all add: activeStatus_def completeReplacement_def setReplacement_def Let_def split: option.splits)

text \<open>The gates of discovery, from the facts the controller establishes.\<close>

lemma statusGate_passes:
  assumes "roEnabled (dsRouting (mdSpec d))" "roOpenAICompatible (dsRouting (mdSpec d))"
    and "dtObservedGeneration (mdStatus d) = omGeneration (mdMeta d)" "moLoaded (dtModel (mdStatus d))"
    and "\<And>t. t \<in> {ConditionRuntimeReady, ConditionModelLoaded, ConditionRoutingReady, ConditionReady} \<Longrightarrow>
           confirmed (omGeneration (mdMeta d)) (mdStatus d) t"
    and "1 \<le> rcDesired (dtReplicas (mdStatus d))" "rcDesired (dtReplicas (mdStatus d)) \<le> rcReady (dtReplicas (mdStatus d))"
  shows "statusGate d = None"
  using assms by (auto simp: statusGate_def conditionTrueForGeneration_confirmed intro: confirmed_conditionTrue)

section \<open>Becoming active\<close>

text \<open>What stands behind an active status: the runtime Deployment that was just ensured on the assigned node is ready.\<close>

definition backed :: "('c, 'q) ModelDeploymentController \<Rightarrow> ModelDeployment \<Rightarrow> bool" where
  "backed C d \<longleftrightarrow>
     (\<exists>d0 runtime path w created c c'.
        ensureRuntimeDeployment (lcChecks C) (lcQuantities C) (lcBuilder C) (lcClient C) d0 runtime (dtAssignedNode (mdStatus d)) path c =
          (Inr (w, created), c') \<and>
        runtimeDeploymentReady w \<and> dtAssignedNode (mdStatus d) \<noteq> [] \<and>
        dtReplicas (mdStatus d) = \<lparr>rcDesired = intPointerValue (dpReplicas (rdSpec w)), rcReady = dvReadyReplicas (rdStatus w)\<rparr>)"

definition inactiveView :: "ModelDeploymentPhase \<Rightarrow> string \<Rightarrow> ConditionStatus option \<Rightarrow> bool" where
  "inactiveView p n r \<longleftrightarrow> p \<noteq> ModelDeploymentPhaseActive"

definition backedOrInactive :: "('c, 'q) ModelDeploymentController \<Rightarrow> ModelDeployment \<Rightarrow> bool" where
  "backedOrInactive C d \<longleftrightarrow> dtPhase (mdStatus d) \<noteq> ModelDeploymentPhaseActive \<or>
     backed C d \<and> (roEnabled (dsRouting (mdSpec d)) \<and> roOpenAICompatible (dsRouting (mdSpec d)) \<longrightarrow> statusGate d = None)"

lemma activeStatus_kept [simp]:
  "mdMeta (activeStatus now (withReplicas w d)) = mdMeta d" "mdSpec (activeStatus now (withReplicas w d)) = mdSpec d"
  by (simp_all add: activeStatus_def completeReplacement_def setReplacement_def withReplicas_def Let_def split: option.splits)

lemma activeStatus_gate:
  assumes "runtimeDeploymentReady w"
    and d': "mdStatus d' = (mdStatus (activeStatus now (withReplicas w d)))\<lparr>dtObservedGeneration := omGeneration (mdMeta d)\<rparr>"
      "omGeneration (mdMeta d') = omGeneration (mdMeta d)"
    and "roEnabled (dsRouting (mdSpec d'))" "roOpenAICompatible (dsRouting (mdSpec d'))"
  shows "statusGate d' = None"
proof -
  have gen: "omGeneration (mdMeta d) = omGeneration (mdMeta (withReplicas w d))" by (simp add: withReplicas_def)
  have replicas: "dtReplicas (mdStatus d') = \<lparr>rcDesired = intPointerValue (dpReplicas (rdSpec w)), rcReady = dvReadyReplicas (rdStatus w)\<rparr>"
    by (simp add: d' activeStatus_serving withReplicas_def)
  have loaded: "moLoaded (dtModel (mdStatus d'))" and observed: "dtObservedGeneration (mdStatus d') = omGeneration (mdMeta d')"
    by (simp_all add: d' activeStatus_serving)
  have confirms: "confirmed (omGeneration (mdMeta d')) (mdStatus d') t"
    if "t \<in> {ConditionRuntimeReady, ConditionModelLoaded, ConditionRoutingReady, ConditionReady}" for t
    unfolding d' confirmed_fields gen by (rule activeStatus_confirms [OF that])
  show ?thesis
    using assms(1,4,5) by (intro statusGate_passes) (simp_all add: confirms loaded replicas observed runtimeDeploymentReady_def Let_def)
qed

lemma activated_backed:
  assumes "ensureRuntimeDeployment (lcChecks C) (lcQuantities C) (lcBuilder C) (lcClient C) d runtime (dtAssignedNode (mdStatus d)) path c =
      (Inr (w, created), c')"
    and "runtimeDeploymentReady w" "dtAssignedNode (mdStatus d) \<noteq> []"
    and d': "mdStatus d' = (mdStatus (activeStatus (lcNow C) (withReplicas w d)))\<lparr>dtObservedGeneration := omGeneration (mdMeta d)\<rparr>"
      "omGeneration (mdMeta d') = omGeneration (mdMeta d)"
  shows "backedOrInactive C d'"
proof -
  have "dtAssignedNode (mdStatus d') = dtAssignedNode (mdStatus d)"
    and "dtReplicas (mdStatus d') = \<lparr>rcDesired = intPointerValue (dpReplicas (rdSpec w)), rcReady = dvReadyReplicas (rdStatus w)\<rparr>"
    by (simp_all add: d' activeStatus_serving withReplicas_def)
  then show ?thesis
    using assms(1-3) activeStatus_gate [OF assms(2) d'] unfolding backedOrInactive_def backed_def by metis
qed

interpretation backing: activation_contract inactiveView C "backedOrInactive C" for C :: "('c, 'q) ModelDeploymentController"
proof unfold_locales
  show "backedOrInactive C d" if "viewed inactiveView d" for d
    using that by (simp add: backedOrInactive_def viewed_def inactiveView_def)
qed (auto simp: inactiveView_def intro: activated_backed)



text \<open>
  C35. Once the runtime Deployment of a routed deployment is ready, the projection of it into the status makes the deployment
  active and lets it pass the gates of discovery, whatever its conditions and its replacement record were before.
\<close>

theorem ready_runtime_is_routed:
  assumes "patches_apply K" and "runtimeDeploymentReady w"
    and "roEnabled (dsRouting (mdSpec d))" "roOpenAICompatible (dsRouting (mdSpec d))"
    and "projectRuntimeDeployment K now original w created d c = (Inr (result, d'), c')"
  shows "dtPhase (mdStatus d') = ModelDeploymentPhaseActive \<and> statusGate d' = None"
proof -
  have "intPointerValue (dpReplicas (rdSpec w)) > 0" using assms(2) by (simp add: runtimeDeploymentReady_def Let_def)
  then obtain reason result0 c0 where "patchDeploymentStatus K original reason (activeStatus now (withReplicas w d)) c = (Inr (result0, d'), c0)"
    using assms(2,5) unfolding projectRuntimeDeployment_def Let_def withScalingRequeue_def
    by (auto simp: andThen_Inr split: if_splits)
  note written = patchDeploymentStatus_written [OF assms(1) this]
  then have d': "mdStatus d' = (mdStatus (activeStatus now (withReplicas w d)))\<lparr>dtObservedGeneration := omGeneration (mdMeta d)\<rparr>"
      "omGeneration (mdMeta d') = omGeneration (mdMeta d)" "mdSpec d' = mdSpec d"
    by (simp_all add: activeStatus_kept)
  then show ?thesis
    using activeStatus_gate [OF assms(2) d'(1,2)] assms(3,4) by (simp add: activeStatus_serving)
qed

text \<open>A deployment that is activating, and a runtime Deployment of it with its one replica ready.\<close>

definition sampleActivating :: ModelDeployment where
  "sampleActivating = onStatus (\<lambda>s. s\<lparr>dtPhase := ModelDeploymentPhaseActivating\<rparr>) (sampleDeployment ''m'')"

definition sampleWorkload :: "int Deployment" where
  "sampleWorkload =
     (let w = projr (BuildRuntimeDeployment lax_checks whole_quantity sampleBuilder sampleActivating sampleRuntime ''a'' ''/cache/model'')
      in w\<lparr>rdStatus := (rdStatus w)\<lparr>dvReadyReplicas := 1, dvAvailableReplicas := 1\<rparr>\<rparr>)"

definition sampleCluster :: "int world" where
  "sampleCluster = emptyWorld\<lparr>wDeployments := [sampleActivating], wWorkloads := [sampleWorkload]\<rparr>"

lemma sample_projected:
  "case projectRuntimeDeployment memoryClient 100 sampleActivating sampleWorkload True sampleActivating sampleCluster of
     (Inl _, _) \<Rightarrow> False | (Inr _, _) \<Rightarrow> True"
  "runtimeDeploymentReady sampleWorkload"
  "roEnabled (dsRouting (mdSpec sampleActivating))" "roOpenAICompatible (dsRouting (mdSpec sampleActivating))"
proof -
  have "(case projectRuntimeDeployment memoryClient 100 sampleActivating sampleWorkload True sampleActivating sampleCluster of
       (Inl _, _) \<Rightarrow> False | (Inr _, _) \<Rightarrow> True) \<and>
    runtimeDeploymentReady sampleWorkload \<and>
    roEnabled (dsRouting (mdSpec sampleActivating)) \<and> roOpenAICompatible (dsRouting (mdSpec sampleActivating))"
    by code_simp
  note r = this
  show "case projectRuntimeDeployment memoryClient 100 sampleActivating sampleWorkload True sampleActivating sampleCluster of
       (Inl _, _) \<Rightarrow> False | (Inr _, _) \<Rightarrow> True" by (rule r [THEN conjunct1])
  show "runtimeDeploymentReady sampleWorkload" by (rule r [THEN conjunct2, THEN conjunct1])
  show "roEnabled (dsRouting (mdSpec sampleActivating))" by (rule r [THEN conjunct2, THEN conjunct2, THEN conjunct1])
  show "roOpenAICompatible (dsRouting (mdSpec sampleActivating))" by (rule r [THEN conjunct2, THEN conjunct2, THEN conjunct2])
qed

theorem ready_runtime_is_routed_witness:
  "\<exists>result d w. projectRuntimeDeployment memoryClient 100 sampleActivating sampleWorkload True sampleActivating sampleCluster =
       (Inr (result, d), w) \<and> dtPhase (mdStatus d) = ModelDeploymentPhaseActive \<and> statusGate d = None"
proof -
  obtain result d w where "projectRuntimeDeployment memoryClient 100 sampleActivating sampleWorkload True sampleActivating sampleCluster =
      (Inr (result, d), w)"
    using sample_projected(1) by (auto split: prod.splits sum.splits)
  with ready_runtime_is_routed [OF patches_apply_memoryClient sample_projected(2-4) this] show ?thesis by blast
qed

end
