(* ===== verification/Lifecycle_Watches.thy ===== *)
theory Lifecycle_Watches
  imports Lifecycle_Workloads
begin

text \<open>
  The watch handlers of \<open>operator/controllers/modeldeployment_lifecycle_controller.go\<close>: which deployments an event on another object
  enqueues. A request is a namespace and a name. What the client lists at the event is an argument, \<open>None\<close> where the call fails, which is
  logged and enqueues nothing. The theorem shows that the events a deployment waits for reach it.
\<close>

definition requestFor :: "ModelDeployment \<Rightarrow> string \<times> string" where
  "requestFor d = (mdNamespace d, mdName d)"

definition requestsForReplacementParticipant :: "ModelDeployment \<Rightarrow> (string \<times> string) list" where
  "requestsForReplacementParticipant d =
     (case dtReplacement (mdStatus d) of
        None \<Rightarrow> []
      | Some replacement \<Rightarrow>
          List.map_filter
            (\<lambda>reference. case reference of
                           None \<Rightarrow> None
                         | Some r \<Rightarrow> if rfNamespace r = mdNamespace d \<and> rfName r = mdName d then None
                                    else Some (rfNamespace r, rfName r))
            [rtTarget replacement, rtRequestedBy replacement])"

definition requestsForCache :: "ModelCache \<Rightarrow> (string \<times> string) list" where
  "requestsForCache cache =
     (let name = mget (omLabels (mcMeta cache)) LabelModelDeployment
      in if name = [] then [] else [(omNamespace (mcMeta cache), name)])"

definition requestsForRuntime :: "ModelDeployment list option \<Rightarrow> ModelRuntime \<Rightarrow> (string \<times> string) list" where
  "requestsForRuntime listed runtime =
     (case listed of
        None \<Rightarrow> []
      | Some deployments \<Rightarrow>
          map requestFor (filter (\<lambda>d. rsRef (dsRuntime (mdSpec d)) = omName (mrMeta runtime)) deployments))"

definition requestsForNode :: "ModelDeployment list option \<Rightarrow> string \<Rightarrow> (string \<times> string) list" where
  "requestsForNode listed node =
     (case listed of
        None \<Rightarrow> []
      | Some deployments \<Rightarrow>
          map requestFor
            (filter (\<lambda>d. \<not> (rrGPU (dsResources (mdSpec d)) = None \<or>
                             effectiveDesiredState d \<noteq> ActivationDesiredStateActive \<and> dtAssignedNode (mdStatus d) \<noteq> node))
               deployments))"

section \<open>Lemmas\<close>

lemma mget_update: "mget (AList.update key value m) key = value"
  by (simp add: mget_def update_conv')

lemma label_names: "LabelManagedBy \<noteq> LabelModelDeployment" "LabelPartOf \<noteq> LabelModelDeployment"
  by (simp_all add: const_defs)

lemma mget_update_other: "key \<noteq> other \<Longrightarrow> mget (AList.update key value m) other = mget m other"
  by (simp add: mget_def update_conv')

lemma newModelCache_wakes: "mdName d \<noteq> [] \<Longrightarrow> requestsForCache (newModelCache d name spec) = [requestFor d]"
  by (simp add: requestsForCache_def newModelCache_def renderedMeta_def requestFor_def mget_def label_names [symmetric] Let_def)

text \<open>
  Events reach the deployments that wait for them. A cache that the controller declares, or relabels in the deployment's namespace, enqueues its deployment.
  A deployment with a replacement enqueues the participants other than itself. With a complete listing, a change of a
  runtime enqueues exactly the deployments that refer to it, and a change of a node exactly the deployments with GPUs that want to
  be active or are assigned to that node.
\<close>

theorem watches_reach_deployments:
  assumes "mdName d \<noteq> []"
  shows "requestsForCache (newModelCache d name spec) = [requestFor d]"
    and "omNamespace (mcMeta cache) = mdNamespace d \<Longrightarrow>
      requestsForCache (setCacheLabel LabelManagedBy ValueManagedBy (setCacheLabel LabelModelDeployment (mdName d) cache)) = [requestFor d]"
    and "dtReplacement (mdStatus e) = Some replacement \<Longrightarrow>
      set (requestsForReplacementParticipant e) =
      {(rfNamespace r, rfName r) | r. r \<in> set_option (rtTarget replacement) \<union> set_option (rtRequestedBy replacement) \<and>
         (rfNamespace r, rfName r) \<noteq> requestFor e}"
    and "set (requestsForRuntime (Some deployments) runtime) =
      requestFor ` {d \<in> set deployments. rsRef (dsRuntime (mdSpec d)) = omName (mrMeta runtime)}"
    and "set (requestsForNode (Some deployments) node) =
      requestFor ` {d \<in> set deployments. rrGPU (dsResources (mdSpec d)) \<noteq> None \<and>
        (effectiveDesiredState d = ActivationDesiredStateActive \<or> dtAssignedNode (mdStatus d) = node)}"
proof -
  show "requestsForCache (newModelCache d name spec) = [requestFor d]" using assms by (rule newModelCache_wakes)
  show "requestsForCache (setCacheLabel LabelManagedBy ValueManagedBy (setCacheLabel LabelModelDeployment (mdName d) cache)) = [requestFor d]"
    if "omNamespace (mcMeta cache) = mdNamespace d"
    using assms that by (simp add: requestsForCache_def setCacheLabel_def mget_update mget_update_other label_names requestFor_def Let_def)
  show "set (requestsForReplacementParticipant e) =
      {(rfNamespace r, rfName r) | r. r \<in> set_option (rtTarget replacement) \<union> set_option (rtRequestedBy replacement) \<and>
         (rfNamespace r, rfName r) \<noteq> requestFor e}"
    if "dtReplacement (mdStatus e) = Some replacement"
    using that by (cases "rtTarget replacement"; cases "rtRequestedBy replacement")
      (auto simp: requestsForReplacementParticipant_def requestFor_def List.map_filter_def)
  show "set (requestsForRuntime (Some deployments) runtime) =
      requestFor ` {d \<in> set deployments. rsRef (dsRuntime (mdSpec d)) = omName (mrMeta runtime)}"
    by (auto simp: requestsForRuntime_def)
  show "set (requestsForNode (Some deployments) node) =
      requestFor ` {d \<in> set deployments. rrGPU (dsResources (mdSpec d)) \<noteq> None \<and>
        (effectiveDesiredState d = ActivationDesiredStateActive \<or> dtAssignedNode (mdStatus d) = node)}"
    by (auto simp: requestsForNode_def)
qed

end
