(* ===== verification/Cache_Jobs.thy ===== *)
theory Cache_Jobs
  imports Resources Cache_Contract
begin

text \<open>
  \<open>operator/internal/resources/cache.go\<close>: the downloader Job of a cache, the hashes that identify the artifact and the Job, and the
  observation of a Job. The hash is the SHA-256 of a text; what the text determines is stated for the text. A nil cache has no
  counterpart.
\<close>

section \<open>Constants\<close>

definition defaultModelRevision :: string where
  [const_defs]: "defaultModelRevision = ''main''"

definition CacheInputHashAnnotation :: string where
  [const_defs]: "CacheInputHashAnnotation = ''inferops.dev/cache-input-hash''"

definition CacheJobHashAnnotation :: string where
  [const_defs]: "CacheJobHashAnnotation = ''inferops.dev/cache-job-hash''"

definition CacheRetryAnnotation :: string where
  [const_defs]: "CacheRetryAnnotation = ''inferops.dev/retry''"

definition CacheRetryTokenAnnotation :: string where
  [const_defs]: "CacheRetryTokenAnnotation = ''inferops.dev/cache-retry-token''"

definition cacheTTLSecondsAfterFinished :: int where
  "cacheTTLSecondsAfterFinished = 3600"

definition cacheActiveDeadlineSeconds :: int where
  "cacheActiveDeadlineSeconds = 7200"

definition cacheBackoffLimit :: int where
  "cacheBackoffLimit = 2"

definition cacheStagingDirectory :: string where
  [const_defs]: "cacheStagingDirectory = ''.inferops-staging''"

definition downloaderCacheRootMount :: string where
  [const_defs]: "downloaderCacheRootMount = ''/cache''"

definition downloaderTemporaryVolume :: string where
  [const_defs]: "downloaderTemporaryVolume = ''tmp''"

definition downloaderTemporaryMount :: string where
  [const_defs]: "downloaderTemporaryMount = ''/tmp''"

section \<open>Hashes\<close>

record 'q CachePlacement =
  chNodeName :: string
  chNodeUID :: string
  chPath :: string
  chReservedSize :: 'q

definition effectiveRevision :: "string \<Rightarrow> string" where
  "effectiveRevision revision = (if revision = [] then defaultModelRevision else revision)"

definition hashLine :: "string \<Rightarrow> string \<Rightarrow> string" where
  "hashLine key value = key @ ''='' @ value @ [newline]"

definition cacheInputData :: "'q quantity_ops \<Rightarrow> ModelCache \<Rightarrow> 'q CachePlacement \<Rightarrow> string_map" where
  "cacheInputData Q cache placement =
     [(''source'', ''huggingface''), (''repo'', cpModelRepo (mcSpec cache)),
      (''revision'', effectiveRevision (cpRevision (mcSpec cache))), (''destinationPath'', chPath placement),
      (''nodeName'', chNodeName placement), (''nodeUID'', chNodeUID placement),
      (''reservedSize'', qString Q (chReservedSize placement))]"

definition cacheInputText :: "'q quantity_ops \<Rightarrow> ModelCache \<Rightarrow> 'q CachePlacement \<Rightarrow> string" where
  "cacheInputText Q cache placement =
     (let data = cacheInputData Q cache placement
      in concat (map (\<lambda>key. hashLine key (mget data key)) (sort_by (<) (map fst data))))"

definition CacheInputHash :: "'q quantity_ops \<Rightarrow> ModelCache \<Rightarrow> 'q CachePlacement \<Rightarrow> string" where
  "CacheInputHash Q cache placement = ''sha256:'' @ sha256_hex (cacheInputText Q cache placement)"

definition tolerationLine :: "nat \<times> Toleration \<Rightarrow> string" where
  "tolerationLine x =
     (case x of (i, t) \<Rightarrow>
        hashLine (''toleration.'' @ itoa (int i))
          (toKey t @ ''|'' @ toOperator t @ ''|'' @ toValue t @ ''|'' @ toEffect t @ ''|'' @
           (case toTolerationSeconds t of Some seconds \<Rightarrow> itoa seconds | None \<Rightarrow> [])))"

definition cacheJobHash :: "string \<Rightarrow> string \<Rightarrow> string \<Rightarrow> string_map \<Rightarrow> Toleration list \<Rightarrow> string" where
  "cacheJobHash inputHash secretRef downloaderImage nodeSelector tolerations =
     ''sha256:'' @ sha256_hex
       (hashLine ''inputHash'' inputHash @ hashLine ''secretRef'' secretRef @ hashLine ''downloaderImage'' downloaderImage @
        concat (map (\<lambda>key. hashLine (''nodeSelector.'' @ key) (mget nodeSelector key)) (sort_by (<) (map fst nodeSelector))) @
        concat (map tolerationLine (enumerate 0 tolerations)))"

section \<open>The Job\<close>

datatype cache_job_error =
    CacheNameUnusable resource_error
  | CacheNamespaceRequired
  | CacheUIDRequired
  | CacheRepoRequired
  | PlacementNodeRequired
  | PlacementNodeUIDRequired
  | PlacementPathRequired
  | PlacementPathInvalid path_error
  | PlacementSizeNotPositive
  | CacheSubpathInvalid path_error
  | CachePathReserved string

definition mergeCacheNodeSelector :: "string_map \<Rightarrow> string \<Rightarrow> string_map" where
  "mergeCacheNodeSelector input nodeName = AList.update LabelHostname nodeName input"

definition buildDownloaderContainer ::
  "'q Builder \<Rightarrow> string \<Rightarrow> string \<Rightarrow> string \<Rightarrow> string \<Rightarrow> string \<Rightarrow> string \<Rightarrow> string \<Rightarrow> 'q Container" where
  "buildDownloaderContainer b source repo revision secretRef destSubpath stagingSubpath inputHash =
     \<lparr>ckName = CacheDownloaderContainerName, ckImage = blCacheDownloaderImage b,
      ckImagePullPolicy = imagePullPolicy (blCacheDownloaderImage b),
      ckCommand = [''python'', ''/opt/inferops/download.py'', ''--source'', source, ''--repo'', repo, ''--revision'', revision,
        ''--cache-root'', downloaderCacheRootMount, ''--dest-subpath'', destSubpath, ''--staging-subpath'', stagingSubpath,
        ''--input-hash'', inputHash],
      ckArgs = [], ckPorts = [],
      ckEnv = \<lparr>evName = ''TMPDIR'', evValue = downloaderTemporaryMount, evSecretKeyRef = None\<rparr> #
        (if secretRef = [] then [] else [\<lparr>evName = ''HF_TOKEN'', evValue = [], evSecretKeyRef = Some (secretRef, ''token'')\<rparr>]),
      ckRequests = blDownloaderRequests b, ckLimits = blDownloaderLimits b,
      ckSecurityContext = Some \<lparr>xcAllowPrivilegeEscalation = Some False, xcReadOnlyRootFilesystem = Some True,
        xcRunAsNonRoot = Some True, xcRunAsUser = Some 65532, xcRunAsGroup = Some 65532, xcCapabilitiesDrop = [''ALL''],
        xcSeccompProfile = SeccompProfileTypeRuntimeDefault\<rparr>,
      ckReadinessProbe = None, ckLivenessProbe = None, ckStartupProbe = None,
      ckTerminationMessagePath = [], ckTerminationMessagePolicy = [],
      ckVolumeMounts = [\<lparr>vmName = CacheVolumeName, vmMountPath = downloaderCacheRootMount, vmReadOnly = False\<rparr>,
        \<lparr>vmName = downloaderTemporaryVolume, vmMountPath = downloaderTemporaryMount, vmReadOnly = False\<rparr>]\<rparr>"

definition buildDownloaderVolumes :: "'q Builder \<Rightarrow> Volume list" where
  "buildDownloaderVolumes b =
     [\<lparr>vlName = CacheVolumeName, vlSource = HostPath (blCacheRoot b) HostPathDirectory\<rparr>,
      \<lparr>vlName = downloaderTemporaryVolume, vlSource = EmptyDir\<rparr>]"

definition cacheSubpath :: "'q Builder \<Rightarrow> string \<Rightarrow> (cache_job_error, string) result" where
  "cacheSubpath b cachePath =
     (case ChildOfRoot cachePath (blCacheRoot b) of
        Inl err \<Rightarrow> Inl (CacheSubpathInvalid err)
      | Inr subpath \<Rightarrow>
          if subpath = cacheStagingDirectory \<or> has_prefix subpath (cacheStagingDirectory @ ''/'')
          then Inl (CachePathReserved cachePath) else Inr subpath)"

text \<open>The checks of the input, in the order of the source.\<close>

definition cacheJobInputError ::
  "name_checks \<Rightarrow> 'q quantity_ops \<Rightarrow> 'q Builder \<Rightarrow> ModelCache \<Rightarrow> 'q CachePlacement \<Rightarrow> cache_job_error option" where
  "cacheJobInputError N Q b cache placement =
     (case validateModelCacheName N (mcName cache) of
        Some err \<Rightarrow> Some (CacheNameUnusable err)
      | None \<Rightarrow>
          if omNamespace (mcMeta cache) = [] then Some CacheNamespaceRequired
          else if mcUID cache = [] then Some CacheUIDRequired
          else if cpModelRepo (mcSpec cache) = [] then Some CacheRepoRequired
          else if chNodeName placement = [] then Some PlacementNodeRequired
          else if chNodeUID placement = [] then Some PlacementNodeUIDRequired
          else if chPath placement = [] then Some PlacementPathRequired
          else (case builderValidateCachePath b (chPath placement) of
                  Some err \<Rightarrow> Some (PlacementPathInvalid err)
                | None \<Rightarrow> if qSign Q (chReservedSize placement) \<le> 0 then Some PlacementSizeNotPositive else None))"

definition downloaderPodSpec :: "'q Builder \<Rightarrow> ModelCache \<Rightarrow> string \<Rightarrow> 'q Container \<Rightarrow> 'q PodSpec" where
  "downloaderPodSpec b cache nodeName container =
     \<lparr>poAutomountServiceAccountToken = Some False, poEnableServiceLinks = Some False,
      poTerminationGracePeriodSeconds = None, poRestartPolicy = ''Never'', poDNSPolicy = [], poSchedulerName = [],
      poNodeSelector = mergeCacheNodeSelector (cgNodeSelector (cpStorage (mcSpec cache))) nodeName,
      poAffinity = None, poTolerations = buildTolerations (cgTolerations (cpStorage (mcSpec cache))),
      poTopologySpreadConstraints = [], poVolumes = buildDownloaderVolumes b, poContainers = [container]\<rparr>"

definition jobAnnotations :: "ModelCache \<Rightarrow> string \<Rightarrow> string \<Rightarrow> string_map" where
  "jobAnnotations cache inputHash jobHash =
     [(CacheInputHashAnnotation, inputHash), (CacheJobHashAnnotation, jobHash)] @
     (let retryToken = mget (omAnnotations (mcMeta cache)) CacheRetryAnnotation
      in if retryToken = [] then [] else [(CacheRetryTokenAnnotation, retryToken)])"

definition BuildCacheDownloaderJob ::
  "name_checks \<Rightarrow> 'q quantity_ops \<Rightarrow> 'q Builder \<Rightarrow> ModelCache \<Rightarrow> 'q CachePlacement \<Rightarrow> (cache_job_error, 'q Job) result" where
  "BuildCacheDownloaderJob N Q b cache placement =
     (case cacheJobInputError N Q b cache placement of
        Some err \<Rightarrow> Inl err
      | None \<Rightarrow>
          let spec = mcSpec cache; storage = cpStorage spec;
              inputHash = CacheInputHash Q cache placement;
              jobHash = cacheJobHash inputHash (cpSecretRef spec) (blCacheDownloaderImage b) (cgNodeSelector storage)
                (cgTolerations storage);
              stagingSubpath = path_join [cacheStagingDirectory, omNamespace (mcMeta cache), mcUID cache];
              labels = CacheLabels (mcName cache)
          in bind_result (cacheSubpath b (chPath placement)) (\<lambda>destSubpath.
               Inr \<lparr>jbMeta = renderedMeta (mcName cache @ CacheDownloaderJobSuffix) (omNamespace (mcMeta cache)) labels
                      (jobAnnotations cache inputHash jobHash) [OwnerReferenceForModelCache cache],
                    jbBackoffLimit = Some cacheBackoffLimit, jbTTLSecondsAfterFinished = Some cacheTTLSecondsAfterFinished,
                    jbActiveDeadlineSeconds = Some cacheActiveDeadlineSeconds,
                    jbTemplate = \<lparr>plLabels = labels, plAnnotations = [(CacheInputHashAnnotation, inputHash)],
                      plSpec = downloaderPodSpec b cache (chNodeName placement)
                        (buildDownloaderContainer b ''huggingface'' (cpModelRepo spec) (effectiveRevision (cpRevision spec))
                          (cpSecretRef spec) destSubpath stagingSubpath inputHash)\<rparr>,
                    jbActive = 0, jbSucceeded = 0, jbFailed = 0, jbConditions = []\<rparr>))"

definition CacheVolumeAndMount :: "'q Builder \<Rightarrow> string \<Rightarrow> bool \<Rightarrow> (path_error, Volume \<times> VolumeMount) result" where
  "CacheVolumeAndMount b cacheHostPath readOnly =
     (case builderValidateCachePath b cacheHostPath of
        Some err \<Rightarrow> Inl err
      | None \<Rightarrow> Inr (cacheVolumeAndMount b cacheHostPath readOnly))"

section \<open>Observation of a Job\<close>

definition CacheInputHashFromJob :: "'q Job \<Rightarrow> string" where
  "CacheInputHashFromJob job = mget (omAnnotations (jbMeta job)) CacheInputHashAnnotation"

definition CacheJobHashFromJob :: "'q Job \<Rightarrow> string" where
  "CacheJobHashFromJob job = mget (omAnnotations (jbMeta job)) CacheJobHashAnnotation"

record JobStatus =
  jsActive :: int
  jsSucceeded :: int
  jsFailed :: int
  jsComplete :: bool
  jsFailedTerminal :: bool
  jsMessage :: string

definition observeJobCondition :: "JobStatus \<Rightarrow> JobCondition \<Rightarrow> JobStatus" where
  "observeJobCondition status condition =
     (let completed = (if jcType condition = ''Complete'' \<and> jcStatus condition = ConditionTrue
                       then status\<lparr>jsComplete := True\<rparr> else status)
      in if jcType condition = ''Failed'' \<and> jcStatus condition = ConditionTrue
         then completed\<lparr>jsFailedTerminal := True,
                jsMessage := (if jcMessage condition = [] then jcReason condition else jcMessage condition)\<rparr>
         else completed)"

definition ObserveDownloaderJob :: "'q Job \<Rightarrow> JobStatus" where
  "ObserveDownloaderJob job =
     foldl observeJobCondition
       \<lparr>jsActive = jbActive job, jsSucceeded = jbSucceeded job, jsFailed = jbFailed job, jsComplete = False,
        jsFailedTerminal = False, jsMessage = []\<rparr>
       (jbConditions job)"

section \<open>Lemmas\<close>

text \<open>Lines that end in a newline and hold none before it can be told apart.\<close>

lemma lines_inject:
  assumes "concat (map (\<lambda>l. l @ [newline]) ls) = concat (map (\<lambda>l. l @ [newline]) ms)"
    and "\<forall>l \<in> set ls. newline \<notin> set l" "\<forall>m \<in> set ms. newline \<notin> set m"
  shows "ls = ms"
  using assms
proof (induction ls arbitrary: ms)
  case Nil
  then show ?case by (cases ms) auto
next
  case (Cons l ls)
  then obtain m ms' where ms: "ms = m # ms'" by (cases ms) auto
  have "split_on newline (l @ newline # concat (map (\<lambda>l. l @ [newline]) ls)) =
      split_on newline (m @ newline # concat (map (\<lambda>l. l @ [newline]) ms'))"
    using Cons.prems(1) ms by simp
  then have "l = m" using Cons.prems(2,3) ms by (simp add: split_on_append_sep)
  then show ?case using Cons ms by simp
qed

definition newlineFree :: "'q quantity_ops \<Rightarrow> ModelCache \<Rightarrow> 'q CachePlacement \<Rightarrow> bool" where
  "newlineFree Q cache placement \<longleftrightarrow> list_all (\<lambda>(_, v). newline \<notin> set v) (cacheInputData Q cache placement)"

lemma input_keys_sorted:
  "sort_by (<) (map fst (cacheInputData Q cache placement)) =
     [''destinationPath'', ''nodeName'', ''nodeUID'', ''repo'', ''reservedSize'', ''revision'', ''source'']"
proof -
  have "sort_by (<) [''source'', ''repo'', ''revision'', ''destinationPath'', ''nodeName'', ''nodeUID'', ''reservedSize''] =
      [''destinationPath'', ''nodeName'', ''nodeUID'', ''repo'', ''reservedSize'', ''revision'', ''source'']" by code_simp
  then show ?thesis by (simp add: cacheInputData_def)
qed

lemma cacheInputText_lines:
  "cacheInputText Q cache placement =
     concat (map (\<lambda>l. l @ [newline])
       [''destinationPath='' @ chPath placement, ''nodeName='' @ chNodeName placement, ''nodeUID='' @ chNodeUID placement,
        ''repo='' @ cpModelRepo (mcSpec cache), ''reservedSize='' @ qString Q (chReservedSize placement),
        ''revision='' @ effectiveRevision (cpRevision (mcSpec cache)), ''source=huggingface''])"
  unfolding cacheInputText_def Let_def input_keys_sorted by (simp add: cacheInputData_def hashLine_def)

lemma has_prefix_segment:
  assumes "list_all plain_segment ss" "ss \<noteq> []" "plain_segment d"
  shows "join ''/'' ss = d \<or> has_prefix (join ''/'' ss) (d @ ''/'') \<longleftrightarrow> hd ss = d"
proof (cases ss)
  case (Cons s rest)
  have no: "CHR ''/'' \<notin> set s" "CHR ''/'' \<notin> set d" using assms Cons by (auto simp: plain_segment_def)
  show ?thesis
  proof (cases rest)
    case Nil
    then show ?thesis using Cons no by (auto simp: has_prefix_iff)
  next
    case (Cons r rs)
    have "has_prefix (s @ ''/'' @ join ''/'' (r # rs)) (d @ ''/'') \<longleftrightarrow> s = d"
    proof
      assume "has_prefix (s @ ''/'' @ join ''/'' (r # rs)) (d @ ''/'')"
      then obtain t where "s @ CHR ''/'' # join ''/'' (r # rs) = d @ CHR ''/'' # t" by (auto simp: has_prefix_iff)
      then have "hd (split_on CHR ''/'' (s @ CHR ''/'' # join ''/'' (r # rs))) = hd (split_on CHR ''/'' (d @ CHR ''/'' # t))" by simp
      then show "s = d" using no by (simp add: split_on_append_sep)
    qed (auto simp: has_prefix_iff)
    then show ?thesis using \<open>ss = s # rest\<close> Cons no by auto
  qed
qed (use assms in simp)

lemma cacheSubpath_Inr:
  assumes rs: "list_all plain_segment rs" "rs \<noteq> []" "blCacheRoot b = CHR ''/'' # join ''/'' rs"
    and ok: "builderValidateCachePath b path = None" "cacheSubpath b path = Inr dest"
  obtains ss where "list_all plain_segment ss" "ss \<noteq> []" "path = CHR ''/'' # join ''/'' (rs @ ss)" "dest = join ''/'' ss"
    "hd ss \<noteq> cacheStagingDirectory"
proof -
  have "CleanAbsolutePath (blCacheRoot b) ''cache root'' = Inr (blCacheRoot b)" using rs by (auto simp: CleanAbsolutePath_Inr_iff)
  moreover have "CleanAbsolutePath path ''cache path'' = Inr path \<and> UnderRoot path (blCacheRoot b) ''cache path'' = None"
    using ok(1) by (auto simp: builderValidateCachePath_def CleanAbsolutePath_Inr_iff split: sum.splits)
  ultimately obtain rs' ss where ss: "list_all plain_segment (rs' @ ss)" "blCacheRoot b = CHR ''/'' # join ''/'' rs'"
      "path = CHR ''/'' # join ''/'' (rs' @ ss)"
    using UnderRoot_segments by blast
  then have [simp]: "rs' = rs" using rs join_plain_inject [of rs' rs] by simp
  have child: "ChildOfRoot path (blCacheRoot b) = Inr dest"
    and staging: "\<not> (dest = cacheStagingDirectory \<or> has_prefix dest (cacheStagingDirectory @ ''/''))"
    using ok(2) by (auto simp: cacheSubpath_def split: sum.splits if_splits)
  have trimmed: "trim_suffix (blCacheRoot b) ''/'' = CHR ''/'' # join ''/'' rs" using rs by (simp add: trim_suffix_clean_root)
  have ne: "ss \<noteq> []" using child ss(3) unfolding ChildOfRoot_def trimmed by (auto simp: Let_def)
  then have "path = (CHR ''/'' # join ''/'' rs @ ''/'') @ join ''/'' ss" using ss(3) rs(2) by (simp add: join_append)
  then have dest: "dest = join ''/'' ss"
    using child trim_prefix_append [of "CHR ''/'' # join ''/'' rs @ ''/''" "join ''/'' ss"] unfolding ChildOfRoot_def trimmed
    by (auto simp: Let_def split: if_splits)
  have "plain_segment cacheStagingDirectory" by (simp add: plain_segment_def cacheStagingDirectory_def)
  then have "hd ss \<noteq> cacheStagingDirectory" using staging ss(1) ne has_prefix_segment [of ss cacheStagingDirectory] dest by simp
  then show thesis using that [of ss] ss ne dest by simp
qed

lemma BuildCacheDownloaderJob_Inr:
  assumes "BuildCacheDownloaderJob N Q b cache placement = Inr job"
  obtains dest where "cacheJobInputError N Q b cache placement = None" "cacheSubpath b (chPath placement) = Inr dest"
    "builderValidateCachePath b (chPath placement) = None"
    "plSpec (jbTemplate job) = downloaderPodSpec b cache (chNodeName placement)
       (buildDownloaderContainer b ''huggingface'' (cpModelRepo (mcSpec cache)) (effectiveRevision (cpRevision (mcSpec cache)))
         (cpSecretRef (mcSpec cache)) dest (path_join [cacheStagingDirectory, omNamespace (mcMeta cache), mcUID cache])
         (CacheInputHash Q cache placement))"
  using assms that
  by (auto simp: BuildCacheDownloaderJob_def bind_result_Inr_iff Let_def cacheJobInputError_def split: option.splits if_splits)

lemma staging_segments:
  assumes "plain_segment n" "plain_segment u"
  shows "path_join [cacheStagingDirectory, n, u] = join ''/'' [cacheStagingDirectory, n, u]"
proof -
  have all: "list_all plain_segment [cacheStagingDirectory, n, u]"
    using assms by (simp add: plain_segment_def cacheStagingDirectory_def)
  have ne: "n \<noteq> []" "u \<noteq> []" "cacheStagingDirectory \<noteq> []" using assms by (auto simp: plain_segment_def cacheStagingDirectory_def)
  have "\<not> path_is_abs (join ''/'' [cacheStagingDirectory, n, u])" by (simp add: path_is_abs_def cacheStagingDirectory_def)
  then have "path_clean (join ''/'' [cacheStagingDirectory, n, u]) = join ''/'' [cacheStagingDirectory, n, u]"
    using all clean_segs_plain [OF all, of False "[]"] split_on_join_plain [OF all]
    by (simp add: path_clean_def path_is_abs_def cacheStagingDirectory_def Let_def)
  then show ?thesis using ne by (simp add: path_join_def)
qed

section \<open>Properties\<close>

text \<open>
  C36. The text that the input hash of a cache is taken of determines the artifact and its place: as long as no value holds a
  newline, two caches with the same text have the same repository and effective revision, and their placements name the same
  directory, the same node with the same UID and the same size.
\<close>

theorem input_text_identifies_artifact:
  assumes "newlineFree Q c1 p1" and "newlineFree Q c2 p2" and "cacheInputText Q c1 p1 = cacheInputText Q c2 p2"
  shows "cpModelRepo (mcSpec c1) = cpModelRepo (mcSpec c2) \<and>
    effectiveRevision (cpRevision (mcSpec c1)) = effectiveRevision (cpRevision (mcSpec c2)) \<and>
    chPath p1 = chPath p2 \<and> chNodeName p1 = chNodeName p2 \<and> chNodeUID p1 = chNodeUID p2 \<and>
    qString Q (chReservedSize p1) = qString Q (chReservedSize p2)"
proof -
  have newline: "newline \<notin> set ''destinationPath=nodeName=nodeUID=repo=reservedSize=revision=source=huggingface''" by code_simp
  have "[''destinationPath='' @ chPath p1, ''nodeName='' @ chNodeName p1, ''nodeUID='' @ chNodeUID p1,
        ''repo='' @ cpModelRepo (mcSpec c1), ''reservedSize='' @ qString Q (chReservedSize p1),
        ''revision='' @ effectiveRevision (cpRevision (mcSpec c1)), ''source=huggingface''] =
      [''destinationPath='' @ chPath p2, ''nodeName='' @ chNodeName p2, ''nodeUID='' @ chNodeUID p2,
        ''repo='' @ cpModelRepo (mcSpec c2), ''reservedSize='' @ qString Q (chReservedSize p2),
        ''revision='' @ effectiveRevision (cpRevision (mcSpec c2)), ''source=huggingface'']"
    by (rule lines_inject)
      (use assms newline in \<open>auto simp: cacheInputText_lines newlineFree_def cacheInputData_def\<close>)
  then show ?thesis by simp
qed

definition sampleJobPlacement :: "int CachePlacement" where
  "sampleJobPlacement = \<lparr>chNodeName = ''a'', chNodeUID = ''uid-a'', chPath = ''/cache/model'', chReservedSize = 60\<rparr>"

theorem input_text_identifies_artifact_witness:
  "cacheInputText whole_quantity (sampleCache ''x'' ModelCachePhasePending [] ''/cache/model'') sampleJobPlacement =
     cacheInputText whole_quantity (sampleCache ''y'' ModelCachePhaseReady ''a'' ''/cache/model'') sampleJobPlacement \<and>
   effectiveRevision (cpRevision (mcSpec (sampleCache ''x'' ModelCachePhasePending [] ''/cache/model''))) =
     effectiveRevision (cpRevision (mcSpec (sampleCache ''y'' ModelCachePhaseReady ''a'' ''/cache/model'')))"
proof -
  let ?x = "sampleCache ''x'' ModelCachePhasePending [] ''/cache/model''"
  let ?y = "sampleCache ''y'' ModelCachePhaseReady ''a'' ''/cache/model''"
  have "newlineFree whole_quantity ?x sampleJobPlacement" "newlineFree whole_quantity ?y sampleJobPlacement"
    "cacheInputText whole_quantity ?x sampleJobPlacement = cacheInputText whole_quantity ?y sampleJobPlacement"
    by code_simp+
  with input_text_identifies_artifact [of whole_quantity ?x sampleJobPlacement ?y sampleJobPlacement] show ?thesis by blast
qed

text \<open>
  C37. A downloader Job that is rendered runs on the planned node only, mounts nothing of the host but the cache root, passes the
  credential as a reference to the Secret and never as a value, runs without privileges, and writes to the planned directory
  through a staging directory that neither contains it nor lies below it.
\<close>

theorem downloader_job_confined:
  assumes "list_all plain_segment rs" "rs \<noteq> []" "blCacheRoot b = CHR ''/'' # join ''/'' rs"
    and "plain_segment (omNamespace (mcMeta cache))" "plain_segment (mcUID cache)"
    and "BuildCacheDownloaderJob N Q b cache placement = Inr job"
  shows "map_of (poNodeSelector (plSpec (jbTemplate job))) LabelHostname = Some (chNodeName placement) \<and>
    map vlSource (poVolumes (plSpec (jbTemplate job))) = [HostPath (blCacheRoot b) HostPathDirectory, EmptyDir] \<and>
    (\<exists>container ss ts.
       poContainers (plSpec (jbTemplate job)) = [container] \<and>
       list_all (\<lambda>e. e = \<lparr>evName = ''TMPDIR'', evValue = downloaderTemporaryMount, evSecretKeyRef = None\<rparr> \<or>
                     evValue e = [] \<and> evSecretKeyRef e = Some (cpSecretRef (mcSpec cache), ''token'')) (ckEnv container) \<and>
       map_option xcRunAsNonRoot (ckSecurityContext container) = Some (Some True) \<and>
       map_option xcAllowPrivilegeEscalation (ckSecurityContext container) = Some (Some False) \<and>
       chPath placement = CHR ''/'' # join ''/'' (rs @ ss) \<and>
       ckCommand container ! 11 = join ''/'' ss \<and> ckCommand container ! 13 = join ''/'' ts \<and>
       (\<forall>us. ss \<noteq> ts @ us \<and> ts \<noteq> ss @ us))"
proof -
  obtain dest where dest: "cacheSubpath b (chPath placement) = Inr dest" "builderValidateCachePath b (chPath placement) = None"
    and pod: "plSpec (jbTemplate job) = downloaderPodSpec b cache (chNodeName placement)
       (buildDownloaderContainer b ''huggingface'' (cpModelRepo (mcSpec cache)) (effectiveRevision (cpRevision (mcSpec cache)))
         (cpSecretRef (mcSpec cache)) dest (path_join [cacheStagingDirectory, omNamespace (mcMeta cache), mcUID cache])
         (CacheInputHash Q cache placement))"
    using assms(6) by (rule BuildCacheDownloaderJob_Inr)
  obtain ss where ss: "ss \<noteq> []" "chPath placement = CHR ''/'' # join ''/'' (rs @ ss)" "dest = join ''/'' ss" "hd ss \<noteq> cacheStagingDirectory"
    using cacheSubpath_Inr [OF assms(1-3) dest(2,1)] by metis
  let ?ts = "[cacheStagingDirectory, omNamespace (mcMeta cache), mcUID cache]"
  have apart: "ss \<noteq> ?ts @ us \<and> ?ts \<noteq> ss @ us" for us using ss(1,4) by (cases ss) auto
  define container where "container = buildDownloaderContainer b ''huggingface'' (cpModelRepo (mcSpec cache))
    (effectiveRevision (cpRevision (mcSpec cache))) (cpSecretRef (mcSpec cache)) dest (join ''/'' ?ts) (CacheInputHash Q cache placement)"
  have pod: "plSpec (jbTemplate job) = downloaderPodSpec b cache (chNodeName placement) container"
    unfolding pod container_def staging_segments [OF assms(4,5)] ..
  have selector: "map_of (poNodeSelector (plSpec (jbTemplate job))) LabelHostname = Some (chNodeName placement)"
    and volumes: "map vlSource (poVolumes (plSpec (jbTemplate job))) = [HostPath (blCacheRoot b) HostPathDirectory, EmptyDir]"
    and only: "poContainers (plSpec (jbTemplate job)) = [container]"
    by (simp_all add: pod downloaderPodSpec_def mergeCacheNodeSelector_def update_conv buildDownloaderVolumes_def)
  have env: "list_all (\<lambda>e. e = \<lparr>evName = ''TMPDIR'', evValue = downloaderTemporaryMount, evSecretKeyRef = None\<rparr> \<or>
      evValue e = [] \<and> evSecretKeyRef e = Some (cpSecretRef (mcSpec cache), ''token'')) (ckEnv container)"
    and unprivileged: "map_option xcRunAsNonRoot (ckSecurityContext container) = Some (Some True)"
      "map_option xcAllowPrivilegeEscalation (ckSecurityContext container) = Some (Some False)"
    and command: "ckCommand container ! 11 = join ''/'' ss" "ckCommand container ! 13 = join ''/'' ?ts"
    unfolding container_def by (simp_all add: buildDownloaderContainer_def ss(3))
  show ?thesis using selector volumes only env unprivileged command ss(2) apart by blast
qed

theorem downloader_job_confined_witness:
  "\<exists>job. BuildCacheDownloaderJob lax_checks whole_quantity sampleBuilder (sampleCache ''x'' ModelCachePhasePending [] ''/cache/model'')
       sampleJobPlacement = Inr job \<and>
     map_of (poNodeSelector (plSpec (jbTemplate job))) LabelHostname = Some ''a''"
proof -
  let ?cache = "sampleCache ''x'' ModelCachePhasePending [] ''/cache/model''"
  have "cacheJobInputError lax_checks whole_quantity sampleBuilder ?cache sampleJobPlacement = None"
    "cacheSubpath sampleBuilder (chPath sampleJobPlacement) = Inr ''model''"
    by code_simp+
  then obtain job where job: "BuildCacheDownloaderJob lax_checks whole_quantity sampleBuilder ?cache sampleJobPlacement = Inr job"
    by (simp add: BuildCacheDownloaderJob_def Let_def)
  have facts: "list_all plain_segment [''cache'']" "[''cache''] \<noteq> []" "blCacheRoot sampleBuilder = CHR ''/'' # join ''/'' [''cache'']"
    "plain_segment (omNamespace (mcMeta ?cache))" "plain_segment (mcUID ?cache)" "chNodeName sampleJobPlacement = ''a''"
    by code_simp+
  have "map_of (poNodeSelector (plSpec (jbTemplate job))) LabelHostname = Some (chNodeName sampleJobPlacement)"
    by (rule downloader_job_confined [OF facts(1-5) job, THEN conjunct1])
  then show ?thesis using job unfolding facts(6) by blast
qed

end
