(* ===== verification/Cache_Planner.thy ===== *)
theory Cache_Planner
  imports Route_Paths Gpu_Planner
begin

text \<open>
  The node-local cache planner of \<open>operator/internal/scheduler/planner.go\<close>. The theorems show that
  a placement stays below the configured root, on an eligible node, within the capacity the node
  advertises after every other reservation, and never on a path that another cache owns on that
  node; and that an error is reported only when no node qualifies.
\<close>

section \<open>Cache planner\<close>

record PlannerConfig =
  pcCacheRoot :: string
  pcNodeSelector :: string_map
  pcCapacityAnnotation :: string
  pcRequiredResources :: "string list"

record 'q Placement =
  pmNodeName :: string
  pmNodeUID :: string
  pmPath :: string
  pmReservedSize :: 'q

datatype cache_plan_error =
    CachePathInvalid path_error
  | CacheRootIsFilesystemRoot
  | CapacityAnnotationInvalid string "string list"
  | CacheSelectorKeyInvalid string "string list"
  | CacheSelectorValueInvalid string "string list"
  | RequiredResourceInvalid string "string list"
  | ModelCacheRequired
  | StorageTypeUnsupported string
  | StorageSizeUnparsable string
  | StorageSizeNotPositive string
  | ErrNoEligibleNode
  | ErrPinnedNodeUnavailable string
  | ErrCachePathConflict string string
  | ErrInsufficientCacheCapacity "string option"

definition DefaultCacheCapacityAnnotation :: string where
  [const_defs]: "DefaultCacheCapacityAnnotation = ''inferops.dev/cache-capacity''"

definition NewCachePlanner ::
  "(string \<Rightarrow> string list) \<Rightarrow> (string \<Rightarrow> string list) \<Rightarrow> PlannerConfig \<Rightarrow> (cache_plan_error, PlannerConfig) result" where
  "NewCachePlanner isQualifiedName isValidLabelValue config =
     (case CleanAbsolutePath (pcCacheRoot config) ''cache root'' of
        Inl err \<Rightarrow> Inl (CachePathInvalid err)
      | Inr cacheRoot \<Rightarrow>
          if cacheRoot = ''/'' then Inl CacheRootIsFilesystemRoot
          else
            let annotation = (if pcCapacityAnnotation config = [] then DefaultCacheCapacityAnnotation
                              else pcCapacityAnnotation config)
            in if isQualifiedName annotation \<noteq> []
                 then Inl (CapacityAnnotationInvalid annotation (isQualifiedName annotation))
               else (case checkSelector isQualifiedName isValidLabelValue
                            CacheSelectorKeyInvalid CacheSelectorValueInvalid (pcNodeSelector config) of
                       Some err \<Rightarrow> Inl err
                     | None \<Rightarrow>
                         (case List.find (\<lambda>name. isQualifiedName name \<noteq> []) (pcRequiredResources config) of
                            Some name \<Rightarrow> Inl (RequiredResourceInvalid name (isQualifiedName name))
                          | None \<Rightarrow> Inr \<lparr>pcCacheRoot = cacheRoot, pcNodeSelector = pcNodeSelector config,
                                          pcCapacityAnnotation = annotation,
                                          pcRequiredResources = pcRequiredResources config\<rparr>)))"

definition EffectiveRevision :: "ModelCache option \<Rightarrow> string" where
  "EffectiveRevision cache =
     (case cache of
        None \<Rightarrow> []
      | Some c \<Rightarrow> if cpRevision (mcSpec c) \<noteq> [] then cpRevision (mcSpec c) else ''main'')"

definition filterNodes :: "'q quantity_ops \<Rightarrow> PlannerConfig \<Rightarrow> 'q Node list \<Rightarrow> ModelCacheStorage \<Rightarrow> 'q Node list" where
  "filterNodes Q p nodes storage =
     filter (\<lambda>node. IsNodeEligibleForCache node \<and>
                    nodeMatchesSelector node (pcNodeSelector p) \<and>
                    nodeMatchesSelector node (cgNodeSelector storage) \<and>
                    \<not> hasUntoleratedSchedulingTaint node (cgTolerations storage) \<and>
                    nodeHasRequiredResources Q node (pcRequiredResources p)) nodes"

definition cacheConditionTrue :: "Condition list \<Rightarrow> string \<Rightarrow> bool" where
  "cacheConditionTrue conditions conditionType =
     (case List.find (\<lambda>c. cType c = conditionType) conditions of
        Some c \<Rightarrow> cStatus c = ConditionTrue
      | None \<Rightarrow> False)"

text \<open>A failed cache whose download never completed owns neither bytes nor a path.\<close>

definition releasedByFailure :: "ModelCache \<Rightarrow> bool" where
  "releasedByFailure cache \<longleftrightarrow>
     ctPhase (mcStatus cache) = ModelCachePhaseFailed \<and>
     \<not> cacheConditionTrue (ctConditions (mcStatus cache)) CacheConditionDownloaded"

definition reservationSize :: "'q quantity_ops \<Rightarrow> ModelCache \<Rightarrow> 'q option" where
  "reservationSize Q cache =
     (case qParse Q (ctReservedSize (mcStatus cache)) of
        Some sz \<Rightarrow> if qSign Q sz \<le> 0 then qParse Q (cgSize (cpStorage (mcSpec cache))) else Some sz
      | None \<Rightarrow> qParse Q (cgSize (cpStorage (mcSpec cache))))"

definition addReservation ::
  "'q quantity_ops \<Rightarrow> string \<Rightarrow> (string \<Rightarrow> int) \<Rightarrow> ModelCache \<Rightarrow> (string \<Rightarrow> int)" where
  "addReservation Q selfUID reserved cache =
     (let node = ctNodeName (mcStatus cache)
      in if mcUID cache = selfUID then reserved
         else if node = [] then reserved
         else if releasedByFailure cache then reserved
         else (case reservationSize Q cache of
                 None \<Rightarrow> reserved
               | Some sz \<Rightarrow>
                   let current = reserved node
                   in if qValue Q sz > wrap64 (maxInt64 - current) then reserved(node := maxInt64)
                      else reserved(node := wrap64 (current + qValue Q sz))))"

definition reservedBytesByNode :: "'q quantity_ops \<Rightarrow> ModelCache list \<Rightarrow> string \<Rightarrow> (string \<Rightarrow> int)" where
  "reservedBytesByNode Q caches selfUID = foldl (addReservation Q selfUID) (\<lambda>_. 0) caches"

definition conflictingNodesForPath :: "ModelCache list \<Rightarrow> string \<Rightarrow> string \<Rightarrow> string list" where
  "conflictingNodesForPath caches selfUID cachePath =
     map (\<lambda>cache. ctNodeName (mcStatus cache))
       (filter (\<lambda>cache. \<not> (mcUID cache = selfUID \<or> ctNodeName (mcStatus cache) = [] \<or>
                            ctPath (mcStatus cache) \<noteq> cachePath) \<and>
                         \<not> releasedByFailure cache) caches)"

definition nodeCacheCapacity :: "'q quantity_ops \<Rightarrow> 'q Node \<Rightarrow> string \<Rightarrow> int option" where
  "nodeCacheCapacity Q node annotation =
     (case map_of (ndAnnotations node) annotation of
        None \<Rightarrow> None
      | Some value \<Rightarrow>
          (case qParse Q value of
             None \<Rightarrow> None
           | Some quantity \<Rightarrow> if qSign Q quantity \<le> 0 then None else Some (qValue Q quantity)))"

record 'q rankedNode =
  rnNode :: "'q Node"
  rnCapacity :: int
  rnReserved :: int
  rnHasExistingPlacement :: bool
  rnFreeCapacity :: int

definition collectReadyCopyNodes :: "ModelCache \<Rightarrow> ModelCache list \<Rightarrow> string list" where
  "collectReadyCopyNodes requested caches =
     map (\<lambda>cache. ctNodeName (mcStatus cache))
       (filter (\<lambda>cache. \<not> (ctNodeName (mcStatus cache) = [] \<or>
                            ctPhase (mcStatus cache) \<noteq> ModelCachePhaseReady \<or>
                            \<not> cacheConditionTrue (ctConditions (mcStatus cache)) CacheConditionReady \<or>
                            cpModelRepo (mcSpec cache) \<noteq> cpModelRepo (mcSpec requested) \<or>
                            EffectiveRevision (Some cache) \<noteq> EffectiveRevision (Some requested))) caches)"

fun rankLoop ::
  "'q quantity_ops \<Rightarrow> ModelCache \<Rightarrow> int \<Rightarrow> (string \<Rightarrow> int) \<Rightarrow> string list \<Rightarrow> string list \<Rightarrow> string \<Rightarrow>
   'q Node list \<Rightarrow> 'q rankedNode list" where
  "rankLoop Q cache requestedBytes reserved conflicts readyCopyNodes annotation [] = []"
| "rankLoop Q cache requestedBytes reserved conflicts readyCopyNodes annotation (node # nodes) =
     (let rest = rankLoop Q cache requestedBytes reserved conflicts readyCopyNodes annotation nodes
      in if ndName node \<in> set conflicts then rest
         else (case nodeCacheCapacity Q node annotation of
                 None \<Rightarrow> rest
               | Some capacity \<Rightarrow>
                   let nodeReserved = reserved (ndName node);
                       free = wrap64 (capacity - nodeReserved)
                   in if free < requestedBytes then rest
                      else \<lparr>rnNode = node, rnCapacity = capacity, rnReserved = nodeReserved,
                            rnHasExistingPlacement =
                              (ctNodeName (mcStatus cache) = ndName node \<and>
                               ctPath (mcStatus cache) = cgPath (cpStorage (mcSpec cache)) \<and>
                               ctPhase (mcStatus cache) \<noteq> ModelCachePhaseFailed) \<or>
                              ndName node \<in> set readyCopyNodes,
                            rnFreeCapacity = free\<rparr> # rest))"

definition rankLess :: "'q rankedNode \<Rightarrow> 'q rankedNode \<Rightarrow> bool" where
  "rankLess a b =
     (if rnHasExistingPlacement a \<noteq> rnHasExistingPlacement b then rnHasExistingPlacement a
      else if rnFreeCapacity a \<noteq> rnFreeCapacity b then rnFreeCapacity a > rnFreeCapacity b
      else ndName (rnNode a) < ndName (rnNode b))"

definition rankNodes ::
  "'q quantity_ops \<Rightarrow> ModelCache \<Rightarrow> 'q Node list \<Rightarrow> (string \<Rightarrow> int) \<Rightarrow> string list \<Rightarrow> string list \<Rightarrow>
   string \<Rightarrow> 'q rankedNode list" where
  "rankNodes Q cache nodes reserved conflicts readyCopyNodes annotation =
     (case qParse Q (cgSize (cpStorage (mcSpec cache))) of
        None \<Rightarrow> []
      | Some requested \<Rightarrow>
          sort_by rankLess
            (rankLoop Q cache (qValue Q requested) reserved conflicts readyCopyNodes annotation nodes))"

definition PlanPath :: "PlannerConfig \<Rightarrow> ModelCache option \<Rightarrow> (cache_plan_error, string) result" where
  "PlanPath p cache =
     (case cache of
        None \<Rightarrow> Inl ModelCacheRequired
      | Some c \<Rightarrow>
          (case CleanAbsolutePath (cgPath (cpStorage (mcSpec c))) ''cache path'' of
             Inl err \<Rightarrow> Inl (CachePathInvalid err)
           | Inr cachePath \<Rightarrow>
               (case UnderRoot cachePath (pcCacheRoot p) ''cache path'' of
                  Some err \<Rightarrow> Inl (CachePathInvalid err)
                | None \<Rightarrow> Inr cachePath)))"

text \<open>The candidates after the pin of \<open>spec.storage.nodeName\<close> is applied.\<close>

definition pinCandidates :: "string \<Rightarrow> 'q Node list \<Rightarrow> (cache_plan_error, 'q Node list) result" where
  "pinCandidates pinnedNode candidates =
     (if pinnedNode = [] then Inr candidates
      else (case List.find (\<lambda>node. ndName node = pinnedNode) candidates of
              Some node \<Rightarrow> Inr [node]
            | None \<Rightarrow> Inl (ErrPinnedNodeUnavailable pinnedNode)))"

text \<open>The end of \<open>Plan\<close>: conflicts, ranking and the choice of the first ranked node.\<close>

definition placeOnCandidates ::
  "'q quantity_ops \<Rightarrow> PlannerConfig \<Rightarrow> ModelCache \<Rightarrow> string \<Rightarrow> 'q \<Rightarrow> 'q Node list \<Rightarrow> ModelCache list \<Rightarrow>
   (cache_plan_error, 'q Placement) result" where
  "placeOnCandidates Q p cache cachePath sz candidates caches =
     (let pinnedNode = cgNodeName (cpStorage (mcSpec cache));
          reserved = reservedBytesByNode Q caches (mcUID cache);
          conflicts = conflictingNodesForPath caches (mcUID cache) cachePath;
          nodesWithReadyCopy = collectReadyCopyNodes cache caches
      in if pinnedNode \<noteq> [] \<and> pinnedNode \<in> set conflicts
           then Inl (ErrCachePathConflict cachePath pinnedNode)
         else (case rankNodes Q cache candidates reserved conflicts nodesWithReadyCopy (pcCapacityAnnotation p) of
                 [] \<Rightarrow> Inl (ErrInsufficientCacheCapacity (if pinnedNode \<noteq> [] then Some pinnedNode else None))
               | selected # _ \<Rightarrow>
                   Inr \<lparr>pmNodeName = ndName (rnNode selected), pmNodeUID = ndUID (rnNode selected),
                        pmPath = cachePath, pmReservedSize = sz\<rparr>))"

definition CachePlan ::
  "'q quantity_ops \<Rightarrow> PlannerConfig \<Rightarrow> ModelCache option \<Rightarrow> 'q Node list \<Rightarrow> ModelCache list \<Rightarrow>
   (cache_plan_error, 'q Placement) result" where
  "CachePlan Q p cacheRef nodes caches =
     (case cacheRef of
        None \<Rightarrow> Inl ModelCacheRequired
      | Some cache \<Rightarrow>
          let storage = cpStorage (mcSpec cache)
          in if cgType storage \<noteq> ''nodeLocal'' then Inl (StorageTypeUnsupported (cgType storage))
             else bind_result (PlanPath p (Some cache)) (\<lambda>cachePath.
               case qParse Q (cgSize storage) of
                 None \<Rightarrow> Inl (StorageSizeUnparsable (cgSize storage))
               | Some sz \<Rightarrow>
                   if qSign Q sz \<le> 0 then Inl (StorageSizeNotPositive (cgSize storage))
                   else
                     let candidates = filterNodes Q p nodes storage
                     in if candidates = [] then Inl ErrNoEligibleNode
                        else bind_result (pinCandidates (cgNodeName storage) candidates) (\<lambda>pinned.
                               placeOnCandidates Q p cache cachePath sz pinned caches)))"

section \<open>Lemmas\<close>

text \<open>The bytes a cache other than \<open>selfUID\<close> holds on a node, and their sum without saturation.\<close>

definition ownsOn :: "string \<Rightarrow> string \<Rightarrow> ModelCache \<Rightarrow> bool" where
  "ownsOn selfUID node cache \<longleftrightarrow>
     mcUID cache \<noteq> selfUID \<and> node \<noteq> [] \<and> ctNodeName (mcStatus cache) = node \<and> \<not> releasedByFailure cache"

definition reservationBytes :: "'q quantity_ops \<Rightarrow> ModelCache \<Rightarrow> int" where
  "reservationBytes Q cache = (case reservationSize Q cache of Some sz \<Rightarrow> qValue Q sz | None \<Rightarrow> 0)"

definition reservedSum :: "'q quantity_ops \<Rightarrow> string \<Rightarrow> string \<Rightarrow> ModelCache list \<Rightarrow> int" where
  "reservedSum Q selfUID node caches =
     sum_list (map (reservationBytes Q) (filter (ownsOn selfUID node) caches))"

definition reservations_nonneg :: "'q quantity_ops \<Rightarrow> ModelCache list \<Rightarrow> bool" where
  "reservations_nonneg Q caches \<longleftrightarrow> (\<forall>cache \<in> set caches. 0 \<le> reservationBytes Q cache)"

lemma reservedSum_Cons:
  "reservedSum Q u n (c # cs) = (if ownsOn u n c then reservationBytes Q c else 0) + reservedSum Q u n cs"
  by (simp add: reservedSum_def)

lemma reservedSum_nonneg: "reservations_nonneg Q cs \<Longrightarrow> 0 \<le> reservedSum Q u n cs"
  by (induction cs) (auto simp: reservedSum_def reservations_nonneg_def)

lemma addReservation_at:
  assumes "0 \<le> reserved n" "reserved n \<le> maxInt64" "0 \<le> reservationBytes Q c" "is_int64 (reservationBytes Q c)"
  shows "addReservation Q u reserved c n =
    min maxInt64 (reserved n + (if ownsOn u n c then reservationBytes Q c else 0))"
proof (cases "ownsOn u n c")
  case True
  then have "n = ctNodeName (mcStatus c)" "mcUID c \<noteq> u" "n \<noteq> []" "\<not> releasedByFailure c"
    by (auto simp: ownsOn_def)
  then show ?thesis
    using True assms saturating_add64 [OF assms(1,2,3)]
    by (auto simp: addReservation_def reservationBytes_def Let_def split: option.splits if_splits)
next
  case False
  then show ?thesis
    using assms by (auto simp: addReservation_def ownsOn_def Let_def min_def split: option.splits)
qed

lemma foldl_addReservation:
  assumes "\<forall>c \<in> set cs. 0 \<le> reservationBytes Q c \<and> is_int64 (reservationBytes Q c)"
    and "0 \<le> reserved n" "reserved n \<le> maxInt64"
  shows "foldl (addReservation Q u) reserved cs n = min maxInt64 (reserved n + reservedSum Q u n cs)"
  using assms
proof (induction cs arbitrary: reserved)
  case Nil
  then show ?case by (simp add: reservedSum_def)
next
  case (Cons c cs)
  let ?x = "if ownsOn u n c then reservationBytes Q c else 0"
  have step: "addReservation Q u reserved c n = min maxInt64 (reserved n + ?x)"
    using Cons.prems by (intro addReservation_at) auto
  have nn: "0 \<le> reservedSum Q u n cs"
    using Cons.prems by (intro reservedSum_nonneg) (auto simp: reservations_nonneg_def)
  have "foldl (addReservation Q u) reserved (c # cs) n =
      min maxInt64 (min maxInt64 (reserved n + ?x) + reservedSum Q u n cs)"
    using Cons.IH [of "addReservation Q u reserved c"] Cons.prems step by (auto simp: maxInt64_def)
  then show ?case using nn by (auto simp: reservedSum_Cons)
qed

lemma reservationBytes_int64: "quantity_value_ok Q \<Longrightarrow> is_int64 (reservationBytes Q c)"
  by (auto simp: reservationBytes_def quantity_value_ok_def is_int64_def split: option.splits)

lemma reservedBytesByNode_eq:
  assumes "quantity_value_ok Q" and "reservations_nonneg Q caches"
  shows "reservedBytesByNode Q caches u n = min maxInt64 (reservedSum Q u n caches)"
  using foldl_addReservation [of caches Q "\<lambda>_. 0" n u] assms reservationBytes_int64
  by (auto simp: reservedBytesByNode_def reservations_nonneg_def maxInt64_def)

lemma rankLess_keys:
  "rankLess = less_then (\<lambda>r. \<not> rnHasExistingPlacement r) (less_then (\<lambda>r. - rnFreeCapacity r)
                (less_on (\<lambda>r. ndName (rnNode r))))"
  by (auto simp: fun_eq_iff rankLess_def less_then_def less_on_def)

interpretation cache_rank: go_order rankLess
  unfolding rankLess_keys by (intro go_order_less_then go_order_less_on)

text \<open>A node the loop of \<open>rankNodes\<close> keeps.\<close>

definition canReserve ::
  "'q quantity_ops \<Rightarrow> int \<Rightarrow> (string \<Rightarrow> int) \<Rightarrow> string list \<Rightarrow> string \<Rightarrow> 'q Node \<Rightarrow> bool" where
  "canReserve Q requestedBytes reserved conflicts annotation node \<longleftrightarrow>
     ndName node \<notin> set conflicts \<and>
     (\<exists>capacity. nodeCacheCapacity Q node annotation = Some capacity \<and>
        requestedBytes \<le> wrap64 (capacity - reserved (ndName node)))"

lemma nodes_rankLoop:
  "map rnNode (rankLoop Q cache b reserved conflicts ready annotation nodes) =
   filter (canReserve Q b reserved conflicts annotation) nodes"
  by (induction nodes) (auto simp: Let_def canReserve_def split: option.splits)

lemma set_conflictingNodes:
  "n \<in> set (conflictingNodesForPath caches u path) \<longleftrightarrow>
   (\<exists>c \<in> set caches. ownsOn u n c \<and> ctPath (mcStatus c) = path)"
  by (auto simp: conflictingNodesForPath_def ownsOn_def)

lemma nodeCacheCapacity_Some:
  assumes "quantity_value_ok Q" and "nodeCacheCapacity Q node annotation = Some cap"
  shows "0 < cap \<and> is_int64 cap"
proof -
  obtain q where "\<not> qSign Q q \<le> 0" "cap = qValue Q q"
    using assms(2) by (auto simp: nodeCacheCapacity_def split: option.splits if_splits)
  then show ?thesis using assms(1) by (simp add: quantity_value_ok_def not_le)
qed

lemma canReserve_iff:
  assumes Q: "quantity_value_ok Q" and nn: "reservations_nonneg Q caches" and sz: "0 < b"
  shows "canReserve Q b (reservedBytesByNode Q caches u) (conflictingNodesForPath caches u path) annotation node \<longleftrightarrow>
     (\<forall>c \<in> set caches. \<not> (ownsOn u (ndName node) c \<and> ctPath (mcStatus c) = path)) \<and>
     (\<exists>capacity. nodeCacheCapacity Q node annotation = Some capacity \<and>
        reservedSum Q u (ndName node) caches + b \<le> capacity)"
proof -
  have "b \<le> wrap64 (cap - reservedBytesByNode Q caches u (ndName node)) \<longleftrightarrow>
      reservedSum Q u (ndName node) caches + b \<le> cap"
    if "nodeCacheCapacity Q node annotation = Some cap" for cap
  proof -
    have cap: "0 < cap" "is_int64 cap"
      using nodeCacheCapacity_Some [OF Q that] by auto
    have s: "0 \<le> reservedSum Q u (ndName node) caches" using nn by (rule reservedSum_nonneg)
    have le: "cap \<le> maxInt64" using cap(2) by (rule is_int64_le_max)
    let ?r = "min maxInt64 (reservedSum Q u (ndName node) caches)"
    have "is_int64 (cap - ?r)"
      using cap s le by (auto simp: is_int64_def maxInt64_def)
    then have w: "wrap64 (cap - ?r) = cap - ?r" by (rule wrap64_id)
    show ?thesis unfolding reservedBytesByNode_eq [OF Q nn] w using s sz le by linarith
  qed
  then show ?thesis unfolding canReserve_def set_conflictingNodes by blast
qed

lemma pinCandidates_Inr:
  "pinCandidates pin candidates = Inr pinned \<Longrightarrow>
   set pinned \<subseteq> {node \<in> set candidates. pin = [] \<or> ndName node = pin}"
  by (auto simp: pinCandidates_def split: if_splits option.splits dest: find_eq_Some_memD)

lemma pinCandidates_Inr_unpinned: "pinCandidates [] candidates = Inr candidates"
  by (simp add: pinCandidates_def)

lemma PlanPath_InrD:
  "PlanPath p (Some cache) = Inr path \<Longrightarrow>
   path = cgPath (cpStorage (mcSpec cache)) \<and> CleanAbsolutePath path ''cache path'' = Inr path \<and>
   UnderRoot path (pcCacheRoot p) ''cache path'' = None"
  by (auto simp: PlanPath_def CleanAbsolutePath_Inr_iff split: sum.splits option.splits)

lemma placeOnCandidates_InrD:
  assumes "placeOnCandidates Q p cache path sz pinned caches = Inr pl"
    and "qParse Q (cgSize (cpStorage (mcSpec cache))) = Some sz"
  obtains node where "node \<in> set pinned"
    "canReserve Q (qValue Q sz) (reservedBytesByNode Q caches (mcUID cache))
       (conflictingNodesForPath caches (mcUID cache) path) (pcCapacityAnnotation p) node"
    "pl = \<lparr>pmNodeName = ndName node, pmNodeUID = ndUID node, pmPath = path, pmReservedSize = sz\<rparr>"
proof -
  let ?loop = "rankLoop Q cache (qValue Q sz) (reservedBytesByNode Q caches (mcUID cache))
     (conflictingNodesForPath caches (mcUID cache) path) (collectReadyCopyNodes cache caches)
     (pcCapacityAnnotation p) pinned"
  from assms obtain selected rest where sel: "sort_by rankLess ?loop = selected # rest"
    "pl = \<lparr>pmNodeName = ndName (rnNode selected), pmNodeUID = ndUID (rnNode selected), pmPath = path,
           pmReservedSize = sz\<rparr>"
    by (auto simp: placeOnCandidates_def rankNodes_def Let_def split: if_splits list.splits)
  then have "selected \<in> set ?loop" by (metis list.set_intros(1) set_sort_by)
  then have "rnNode selected \<in> set (map rnNode ?loop)" by simp
  then show ?thesis using that sel(2) unfolding nodes_rankLoop by auto
qed

text \<open>What a successful plan went through.\<close>

lemma CachePlan_InrE:
  assumes "CachePlan Q p (Some cache) nodes caches = Inr pl"
  obtains sz pinned where
    "cgType (cpStorage (mcSpec cache)) = ''nodeLocal''"
    "PlanPath p (Some cache) = Inr (cgPath (cpStorage (mcSpec cache)))"
    "qParse Q (cgSize (cpStorage (mcSpec cache))) = Some sz" "qSign Q sz > 0"
    "pinCandidates (cgNodeName (cpStorage (mcSpec cache)))
       (filterNodes Q p nodes (cpStorage (mcSpec cache))) = Inr pinned"
    "placeOnCandidates Q p cache (cgPath (cpStorage (mcSpec cache))) sz pinned caches = Inr pl"
proof -
  obtain path where "PlanPath p (Some cache) = Inr path"
    using assms by (auto simp: CachePlan_def Let_def bind_result_Inr_iff split: if_splits)
  moreover from this have "path = cgPath (cpStorage (mcSpec cache))" using PlanPath_InrD by blast
  ultimately show ?thesis
    using assms that
    by (auto simp: CachePlan_def Let_def bind_result_Inr_iff split: if_splits option.splits)
qed

lemma CachePlan_placed:
  assumes "quantity_value_ok Q" and "reservations_nonneg Q caches"
    and "CachePlan Q p (Some cache) nodes caches = Inr pl"
  obtains node sz where "node \<in> set (filterNodes Q p nodes (cpStorage (mcSpec cache)))"
    "cgNodeName (cpStorage (mcSpec cache)) \<in> {[], ndName node}"
    "qParse Q (cgSize (cpStorage (mcSpec cache))) = Some sz"
    "pl = \<lparr>pmNodeName = ndName node, pmNodeUID = ndUID node, pmPath = cgPath (cpStorage (mcSpec cache)),
            pmReservedSize = sz\<rparr>"
    "\<forall>c \<in> set caches. \<not> (ownsOn (mcUID cache) (ndName node) c \<and> ctPath (mcStatus c) = pmPath pl)"
    "\<exists>capacity. nodeCacheCapacity Q node (pcCapacityAnnotation p) = Some capacity \<and>
        reservedSum Q (mcUID cache) (ndName node) caches + qValue Q sz \<le> capacity"
    "PlanPath p (Some cache) = Inr (pmPath pl)"
proof -
  let ?st = "cpStorage (mcSpec cache)"
  obtain sz pinned where plan: "PlanPath p (Some cache) = Inr (cgPath ?st)"
      "qParse Q (cgSize ?st) = Some sz" "qSign Q sz > 0"
      "pinCandidates (cgNodeName ?st) (filterNodes Q p nodes ?st) = Inr pinned"
      "placeOnCandidates Q p cache (cgPath ?st) sz pinned caches = Inr pl"
    using assms(3) by (rule CachePlan_InrE)
  obtain node where node: "node \<in> set pinned"
      "canReserve Q (qValue Q sz) (reservedBytesByNode Q caches (mcUID cache))
         (conflictingNodesForPath caches (mcUID cache) (cgPath ?st)) (pcCapacityAnnotation p) node"
      "pl = \<lparr>pmNodeName = ndName node, pmNodeUID = ndUID node, pmPath = cgPath ?st, pmReservedSize = sz\<rparr>"
    using plan(5,2) by (rule placeOnCandidates_InrD)
  have "qValue Q sz > 0" using plan(3) assms(1) by (simp add: quantity_value_ok_def)
  note reserve = node(2) [unfolded canReserve_iff [OF assms(1,2) this]]
  show ?thesis
    using pinCandidates_Inr [OF plan(4)] node reserve plan by (intro that [of node sz]) auto
qed

lemma pinCandidates_mem:
  assumes "distinct (map ndName cs)" and "node \<in> set cs" and "pin \<in> {[], ndName node}"
  shows "\<exists>pinned. pinCandidates pin cs = Inr pinned \<and> node \<in> set pinned"
proof (cases "pin = []")
  case False
  then have "List.find (\<lambda>n. ndName n = pin) cs \<noteq> None" using assms(2,3) by auto
  then obtain n where n: "List.find (\<lambda>n. ndName n = pin) cs = Some n" by (meson not_None_eq)
  then have "n = node"
    using assms False by (auto simp: distinct_map dest!: find_eq_Some_memD dest: inj_onD)
  then show ?thesis using n False by (simp add: pinCandidates_def)
qed (use assms in \<open>simp add: pinCandidates_def\<close>)

lemma placeOnCandidates_complete:
  assumes "node \<in> set pinned"
    and "canReserve Q (qValue Q sz) (reservedBytesByNode Q caches (mcUID cache))
       (conflictingNodesForPath caches (mcUID cache) path) (pcCapacityAnnotation p) node"
    and "qParse Q (cgSize (cpStorage (mcSpec cache))) = Some sz"
    and "cgNodeName (cpStorage (mcSpec cache)) \<in> {[], ndName node}"
  shows "\<exists>pl. placeOnCandidates Q p cache path sz pinned caches = Inr pl"
proof -
  let ?loop = "rankLoop Q cache (qValue Q sz) (reservedBytesByNode Q caches (mcUID cache))
     (conflictingNodesForPath caches (mcUID cache) path) (collectReadyCopyNodes cache caches)
     (pcCapacityAnnotation p) pinned"
  have "node \<in> set (map rnNode ?loop)" using assms(1,2) unfolding nodes_rankLoop by simp
  then have "sort_by rankLess ?loop \<noteq> []" by auto
  moreover have "ndName node \<notin> set (conflictingNodesForPath caches (mcUID cache) path)"
    using assms(2) by (simp add: canReserve_def)
  ultimately show ?thesis
    using assms(3,4) by (auto simp: placeOnCandidates_def rankNodes_def Let_def split: list.splits)
qed

text \<open>Two live caches on the same node and path.\<close>

definition same_place :: "ModelCache \<Rightarrow> ModelCache \<Rightarrow> bool" where
  "same_place a b \<longleftrightarrow>
     \<not> releasedByFailure a \<and> \<not> releasedByFailure b \<and>
     ctNodeName (mcStatus a) \<noteq> [] \<and>
     ctNodeName (mcStatus a) = ctNodeName (mcStatus b) \<and> ctPath (mcStatus a) = ctPath (mcStatus b)"

definition path_exclusive :: "ModelCache list \<Rightarrow> bool" where
  "path_exclusive caches \<longleftrightarrow> (\<forall>a \<in> set caches. \<forall>b \<in> set caches. same_place a b \<longrightarrow> mcUID a = mcUID b)"

definition commitPlacement :: "string \<Rightarrow> 'q Placement \<Rightarrow> ModelCache \<Rightarrow> ModelCache" where
  "commitPlacement uid pl c =
     (if mcUID c = uid
        then c\<lparr>mcStatus := (mcStatus c)\<lparr>ctNodeName := pmNodeName pl, ctPath := pmPath pl\<rparr>\<rparr>
      else c)"

text \<open>A planner, a cache that holds 60 of the 100 units of node \<open>a\<close>, and a new cache.\<close>

definition sampleCachePlanner :: PlannerConfig where
  "sampleCachePlanner = \<lparr>pcCacheRoot = ''/cache'', pcNodeSelector = [],
     pcCapacityAnnotation = DefaultCacheCapacityAnnotation, pcRequiredResources = [''nvidia.com/gpu'']\<rparr>"

definition sampleCaches :: "ModelCache list" where
  "sampleCaches = [sampleCache ''old'' ModelCachePhaseReady ''a'' ''/cache/model'']"

definition sampleNewCache :: ModelCache where
  "sampleNewCache = sampleCache ''new'' ModelCachePhasePending [] ''/cache/model''"

definition samplePlacement :: "int Placement" where
  "samplePlacement = \<lparr>pmNodeName = ''b'', pmNodeUID = ''uid-b'', pmPath = ''/cache/model'', pmReservedSize = 60\<rparr>"

lemma sample_cache_plan:
  "CachePlan whole_quantity sampleCachePlanner (Some sampleNewCache) sampleNodes sampleCaches = Inr samplePlacement"
  by code_simp

lemma sample_reservations: "reservations_nonneg whole_quantity sampleCaches"
  by code_simp

section \<open>Properties\<close>

text \<open>
  C9. A placement is safe: the chosen node is one of the listed nodes, is Ready and schedulable, matches the
  operator's and the cache's selectors, carries no untolerated scheduling taint and advertises the
  required resources; the bytes already reserved there by other caches plus the requested
  size stay within the advertised capacity (computed without overflow); no other live cache owns
  the path on that node; the path is the requested one, clean and below the cache root; and a pin is obeyed.
\<close>

theorem CachePlan_safe:
  assumes "quantity_value_ok Q" and "reservations_nonneg Q caches"
    and "CachePlan Q p (Some cache) nodes caches = Inr pl"
  shows "\<exists>node \<in> set nodes. ndName node = pmNodeName pl \<and> ndUID node = pmNodeUID pl \<and>
     IsNodeEligibleForCache node \<and> nodeMatchesSelector node (pcNodeSelector p) \<and>
     nodeMatchesSelector node (cgNodeSelector (cpStorage (mcSpec cache))) \<and>
     \<not> hasUntoleratedSchedulingTaint node (cgTolerations (cpStorage (mcSpec cache))) \<and>
     nodeHasRequiredResources Q node (pcRequiredResources p) \<and>
     (\<exists>capacity. nodeCacheCapacity Q node (pcCapacityAnnotation p) = Some capacity \<and>
        reservedSum Q (mcUID cache) (ndName node) caches + qValue Q (pmReservedSize pl) \<le> capacity) \<and>
     (\<forall>c \<in> set caches. \<not> (ownsOn (mcUID cache) (ndName node) c \<and> ctPath (mcStatus c) = pmPath pl)) \<and>
     pmPath pl = cgPath (cpStorage (mcSpec cache)) \<and>
     CleanAbsolutePath (pmPath pl) ''cache path'' = Inr (pmPath pl) \<and>
     UnderRoot (pmPath pl) (pcCacheRoot p) ''cache path'' = None \<and>
     cgNodeName (cpStorage (mcSpec cache)) \<in> {[], pmNodeName pl}"
  by (rule CachePlan_placed [OF assms]) (auto simp: filterNodes_def dest!: PlanPath_InrD)

theorem CachePlan_safe_witness:
  "\<exists>node \<in> set sampleNodes. ndName node = ''b'' \<and>
     (\<exists>capacity. nodeCacheCapacity whole_quantity node (pcCapacityAnnotation sampleCachePlanner) = Some capacity \<and>
        reservedSum whole_quantity ''uid-new'' ''b'' sampleCaches + 60 \<le> capacity)"
proof -
  have "\<exists>node \<in> set sampleNodes. ndName node = pmNodeName samplePlacement \<and>
     (\<exists>capacity. nodeCacheCapacity whole_quantity node (pcCapacityAnnotation sampleCachePlanner) = Some capacity \<and>
        reservedSum whole_quantity (mcUID sampleNewCache) (ndName node) sampleCaches +
        qValue whole_quantity (pmReservedSize samplePlacement) \<le> capacity)"
    using CachePlan_safe [OF whole_quantity_value_ok sample_reservations sample_cache_plan] by blast
  moreover have "qValue whole_quantity 60 = 60" "mcUID sampleNewCache = ''uid-new''" by code_simp+
  ultimately show ?thesis by (auto simp: samplePlacement_def)
qed

text \<open>
  The planner is complete: for a well-formed request it finds a placement exactly when some
  eligible node (the pinned one if there is a pin) has room for the requested bytes and no
  conflicting path, so a capacity or conflict error is never spurious.
\<close>

theorem CachePlan_complete:
  assumes "quantity_value_ok Q" and "reservations_nonneg Q caches" and "distinct (map ndName nodes)"
    and "cgType (cpStorage (mcSpec cache)) = ''nodeLocal''"
    and "PlanPath p (Some cache) = Inr path"
    and "qParse Q (cgSize (cpStorage (mcSpec cache))) = Some sz" and "qSign Q sz > 0"
  shows "(\<exists>pl. CachePlan Q p (Some cache) nodes caches = Inr pl) =
    (\<exists>node \<in> set (filterNodes Q p nodes (cpStorage (mcSpec cache))).
       cgNodeName (cpStorage (mcSpec cache)) \<in> {[], ndName node} \<and>
       (\<forall>c \<in> set caches. \<not> (ownsOn (mcUID cache) (ndName node) c \<and> ctPath (mcStatus c) = path)) \<and>
       (\<exists>capacity. nodeCacheCapacity Q node (pcCapacityAnnotation p) = Some capacity \<and>
          reservedSum Q (mcUID cache) (ndName node) caches + qValue Q sz \<le> capacity))"
    (is "?L = (\<exists>node \<in> set ?cs. ?pin node \<and> ?free node)")
proof
  assume ?L
  then obtain pl where pl: "CachePlan Q p (Some cache) nodes caches = Inr pl" ..
  obtain node sz' where x: "node \<in> set ?cs" "?pin node" "qParse Q (cgSize (cpStorage (mcSpec cache))) = Some sz'"
    "\<forall>c \<in> set caches. \<not> (ownsOn (mcUID cache) (ndName node) c \<and> ctPath (mcStatus c) = pmPath pl)"
    "\<exists>capacity. nodeCacheCapacity Q node (pcCapacityAnnotation p) = Some capacity \<and>
        reservedSum Q (mcUID cache) (ndName node) caches + qValue Q sz' \<le> capacity"
    "PlanPath p (Some cache) = Inr (pmPath pl)"
    by (rule CachePlan_placed [OF assms(1,2) pl])
  have "sz' = sz" "pmPath pl = path" using x(3,6) assms(5,6) by auto
  then show "\<exists>node \<in> set ?cs. ?pin node \<and> ?free node" using x by metis
next
  assume "\<exists>node \<in> set ?cs. ?pin node \<and> ?free node"
  then obtain node where node: "node \<in> set ?cs" "?pin node" "?free node" by blast
  have pos: "qValue Q sz > 0" using assms(1,7) by (simp add: quantity_value_ok_def)
  have can: "canReserve Q (qValue Q sz) (reservedBytesByNode Q caches (mcUID cache))
         (conflictingNodesForPath caches (mcUID cache) path) (pcCapacityAnnotation p) node"
    using node(3) unfolding canReserve_iff [OF assms(1,2) pos] .
  have "distinct (map ndName ?cs)"
    using assms(3) by (auto simp: filterNodes_def distinct_map intro: inj_on_subset)
  then obtain pinned where pinned: "pinCandidates (cgNodeName (cpStorage (mcSpec cache))) ?cs = Inr pinned"
      "node \<in> set pinned"
    using pinCandidates_mem node(1,2) by blast
  obtain pl where "placeOnCandidates Q p cache path sz pinned caches = Inr pl"
    using placeOnCandidates_complete [OF pinned(2) can assms(6) node(2)] by blast
  then show ?L using assms(4-7) pinned node(1) by (auto simp: CachePlan_def Let_def)
qed

theorem CachePlan_complete_witness:
  "(\<exists>pl. CachePlan whole_quantity sampleCachePlanner (Some sampleNewCache) sampleNodes sampleCaches = Inr pl) =
    (\<exists>node \<in> set (filterNodes whole_quantity sampleCachePlanner sampleNodes (cpStorage (mcSpec sampleNewCache))).
       cgNodeName (cpStorage (mcSpec sampleNewCache)) \<in> {[], ndName node} \<and>
       (\<forall>c \<in> set sampleCaches. \<not> (ownsOn (mcUID sampleNewCache) (ndName node) c \<and>
          ctPath (mcStatus c) = ''/cache/model'')) \<and>
       (\<exists>capacity. nodeCacheCapacity whole_quantity node (pcCapacityAnnotation sampleCachePlanner) = Some capacity \<and>
          reservedSum whole_quantity (mcUID sampleNewCache) (ndName node) sampleCaches +
            qValue whole_quantity 60 \<le> capacity))"
proof (rule CachePlan_complete [OF whole_quantity_value_ok sample_reservations])
  show "distinct (map ndName sampleNodes)" by code_simp
  show "cgType (cpStorage (mcSpec sampleNewCache)) = ''nodeLocal''" by code_simp
  show "PlanPath sampleCachePlanner (Some sampleNewCache) = Inr ''/cache/model''" by code_simp
  show "qParse whole_quantity (cgSize (cpStorage (mcSpec sampleNewCache))) = Some 60" by code_simp
  show "qSign whole_quantity 60 > 0" by code_simp
qed

text \<open>
  Cache directories are never shared: if no two live caches own the same path on the same
  node, then this still holds after the controller records the node and path of a new
  placement in the status of the planned cache.
\<close>

theorem cache_paths_exclusive:
  assumes "CachePlan Q p (Some cache) nodes caches = Inr pl" and "path_exclusive caches"
    and "quantity_value_ok Q" and "reservations_nonneg Q caches"
  shows "path_exclusive (map (commitPlacement (mcUID cache) pl) caches)"
proof -
  have "\<forall>c \<in> set caches. \<not> (ownsOn (mcUID cache) (pmNodeName pl) c \<and> ctPath (mcStatus c) = pmPath pl)"
    by (rule CachePlan_placed [OF assms(3,4,1)]) simp
  then have free: "\<not> (ownsOn (mcUID cache) (pmNodeName pl) c \<and> ctPath (mcStatus c) = pmPath pl)"
    if "c \<in> set caches" for c
    using that by blast
  show ?thesis
    unfolding path_exclusive_def
  proof (intro ballI impI)
    fix a b
    assume ab: "a \<in> set (map (commitPlacement (mcUID cache) pl) caches)"
      "b \<in> set (map (commitPlacement (mcUID cache) pl) caches)" and same: "same_place a b"
    then obtain a0 b0 where a0: "a0 \<in> set caches" "a = commitPlacement (mcUID cache) pl a0"
      and b0: "b0 \<in> set caches" "b = commitPlacement (mcUID cache) pl b0" by auto
    show "mcUID a = mcUID b"
    proof (cases "mcUID a0 = mcUID cache \<longleftrightarrow> mcUID b0 = mcUID cache")
      case True
      then show ?thesis
        using same assms(2) a0 b0 by (auto simp: path_exclusive_def commitPlacement_def)
    next
      case False
      then show ?thesis
        using same free [OF a0(1)] free [OF b0(1)] a0(2) b0(2)
        by (auto simp: same_place_def commitPlacement_def ownsOn_def releasedByFailure_def)
    qed
  qed
qed

theorem cache_paths_exclusive_witness:
  "path_exclusive (map (commitPlacement ''uid-new'' samplePlacement) (sampleNewCache # sampleCaches))"
proof -
  have plan: "CachePlan whole_quantity sampleCachePlanner (Some sampleNewCache) sampleNodes
      (sampleNewCache # sampleCaches) = Inr samplePlacement" by code_simp
  have excl: "path_exclusive (sampleNewCache # sampleCaches)" by code_simp
  have nn: "reservations_nonneg whole_quantity (sampleNewCache # sampleCaches)" by code_simp
  have "mcUID sampleNewCache = ''uid-new''" by code_simp
  then show ?thesis using cache_paths_exclusive [OF plan excl whole_quantity_value_ok nn] by simp
qed

end
