(* ===== verification/Cache_Controller.thy ===== *)
theory Cache_Controller
  imports Lifecycle_Base Cache_Jobs Cache_Planner Validation Go_Float
begin

text \<open>
  \<open>operator/controllers/modelcache_controller.go\<close>: the reconciliation of one ModelCache. The API server and the recorders are
  the record \<open>cacheClient\<close> of the calls that the controller makes, over an abstract state of the world; a patch returns the object the
  server answers with. The texts of errors are a parameter, and the clock is read once per reconciliation. Failures to update the
  inventory metrics are only logged by the source and leave no trace here.
\<close>

section \<open>What the controller runs against\<close>

datatype cache_observation =
    CacheEventRecorded string string Event
  | CacheFailureCounted string
  | CacheDownloadDurationObserved duration
  | CacheInventorySet "(string \<times> rat) list" "(string \<times> rat) list"

record Secret =
  seData :: string_map

record ('c, 'q) cacheClient =
  kcGetModelCache :: "string \<Rightarrow> string \<Rightarrow> ('c, ModelCache) call"
  kcListModelCaches :: "('c, ModelCache list) call"
  kcPatchModelCacheStatus :: "ModelCache \<Rightarrow> ModelCache \<Rightarrow> ('c, ModelCache) call"
  kcGetNode :: "string \<Rightarrow> ('c, 'q Node) call"
  kcListNodes :: "('c, 'q Node list) call"
  kcGetSecret :: "string \<Rightarrow> string \<Rightarrow> ('c, Secret) call"
  kcGetJob :: "string \<Rightarrow> string \<Rightarrow> ('c, 'q Job) call"
  kcCreateJob :: "'q Job \<Rightarrow> ('c, 'q Job) call"
  kcDeleteJob :: "'q Job \<Rightarrow> ('c, unit) call"
  kcObserve :: "cache_observation \<Rightarrow> 'c \<Rightarrow> 'c"

datatype cache_message =
    SpecMessage validation_error
  | PlanMessage cache_plan_error
  | SizeMessage string

datatype cache_error =
    CacheCallFailed string api_error
  | CachePlacementFailed cache_plan_error
  | CacheJobUnbuildable cache_job_error
  | ReservedSizeInvalid string
  | CacheFailedDuring string cache_error

record ('c, 'q) ModelCacheReconciler =
  crClient :: "('c, 'q) cacheClient"
  crChecks :: name_checks
  crQuantities :: "'q quantity_ops"
  crErrorText :: "cache_message \<Rightarrow> string"
  crNow :: time
  crBuilder :: "'q Builder"
  crPlanner :: PlannerConfig
  crPendingRequeueAfter :: duration
  crDownloadRequeueAfter :: duration

section \<open>Construction\<close>

definition defaultPendingRequeueAfter :: duration where
  "defaultPendingRequeueAfter = 30 * 1000000000"

definition defaultDownloadRequeueAfter :: duration where
  "defaultDownloadRequeueAfter = 10 * 1000000000"

record ModelCacheReconcilerConfig =
  mkCacheRoot :: string
  mkDownloaderImage :: string
  mkCacheNodeSelector :: string_map
  mkCacheCapacityAnnotation :: string
  mkCacheRequiredResources :: "string list"
  mkPendingRequeueAfter :: duration
  mkDownloadRequeueAfter :: duration

datatype cache_config_error =
    PendingRequeueNegative
  | DownloadRequeueNegative
  | CacheBuilderInvalid resource_error
  | CachePlannerInvalid cache_plan_error

definition NewModelCacheReconciler ::
  "('c, 'q) cacheClient \<Rightarrow> name_checks \<Rightarrow> 'q quantity_ops \<Rightarrow> (cache_message \<Rightarrow> string) \<Rightarrow> time \<Rightarrow> ModelCacheReconcilerConfig \<Rightarrow>
   (cache_config_error, ('c, 'q) ModelCacheReconciler) result" where
  "NewModelCacheReconciler K N Q T now config =
     (let pending = (if mkPendingRequeueAfter config = 0 then defaultPendingRequeueAfter else mkPendingRequeueAfter config);
          download = (if mkDownloadRequeueAfter config = 0 then defaultDownloadRequeueAfter else mkDownloadRequeueAfter config)
      in if pending < 0 then Inl PendingRequeueNegative
         else if download < 0 then Inl DownloadRequeueNegative
         else (case NewBuilder Q \<lparr>boCacheRoot = mkCacheRoot config, boCacheDownloaderImage = mkDownloaderImage config,
                      boRequests = [], boLimits = [], boRuntimeModelPath = []\<rparr> of
                 Inl err \<Rightarrow> Inl (CacheBuilderInvalid err)
               | Inr builder \<Rightarrow>
                   (case NewCachePlanner (vIsQualifiedName N) (vIsValidLabelValue N)
                           \<lparr>pcCacheRoot = mkCacheRoot config, pcNodeSelector = mkCacheNodeSelector config,
                            pcCapacityAnnotation = mkCacheCapacityAnnotation config,
                            pcRequiredResources = mkCacheRequiredResources config\<rparr> of
                      Inl err \<Rightarrow> Inl (CachePlannerInvalid err)
                    | Inr planner \<Rightarrow>
                        Inr \<lparr>crClient = K, crChecks = N, crQuantities = Q, crErrorText = T, crNow = now, crBuilder = builder,
                             crPlanner = planner, crPendingRequeueAfter = pending, crDownloadRequeueAfter = download\<rparr>)))"

section \<open>Steps\<close>

type_synonym 'c cache_handled = "(cache_error, 'c, Result \<times> ModelCache) fallible"

definition cacheCall :: "string \<Rightarrow> ('c, 'a) call \<Rightarrow> (cache_error, 'c, 'a) fallible" where
  "cacheCall what m = onOutcome m (\<lambda>r. case r of Inl e \<Rightarrow> throw (CacheCallFailed what e) | Inr x \<Rightarrow> ok x)"

definition cacheCallOptional :: "string \<Rightarrow> ('c, 'a) call \<Rightarrow> (cache_error, 'c, 'a option) fallible" where
  "cacheCallOptional what m =
     onOutcome m (\<lambda>r. case r of Inl e \<Rightarrow> if e = NotFound then ok None else throw (CacheCallFailed what e) | Inr x \<Rightarrow> ok (Some x))"

definition during :: "string \<Rightarrow> (cache_error, 'c, 'a) fallible \<Rightarrow> (cache_error, 'c, 'a) fallible" where
  "during what m = onOutcome m (\<lambda>r. case r of Inl e \<Rightarrow> throw (CacheFailedDuring what e) | Inr x \<Rightarrow> ok x)"

definition cacheObserve :: "('c, 'q) cacheClient \<Rightarrow> cache_observation \<Rightarrow> (cache_error, 'c, unit) fallible" where
  "cacheObserve K e = (\<lambda>c. (Inr (), kcObserve K e c))"

section \<open>Status\<close>

definition onCacheStatus :: "(ModelCacheStatus \<Rightarrow> ModelCacheStatus) \<Rightarrow> ModelCache \<Rightarrow> ModelCache" where
  "onCacheStatus f cache = cache\<lparr>mcStatus := f (mcStatus cache)\<rparr>"

definition setCondition :: "time \<Rightarrow> string \<Rightarrow> ConditionStatus \<Rightarrow> string \<Rightarrow> string \<Rightarrow> ModelCache \<Rightarrow> ModelCache" where
  "setCondition now type st reason message =
     onCacheStatus (\<lambda>s. s\<lparr>ctConditions := fst (SetCondition now (ctConditions s) (ctObservedGeneration s)
                                              (newCondition type st reason message))\<rparr>)"

definition setCachePhase :: "ModelCachePhase \<Rightarrow> ModelCache \<Rightarrow> ModelCache" where
  "setCachePhase phase cache =
     onCacheStatus (\<lambda>s. s\<lparr>ctObservedGeneration := omGeneration (mcMeta cache), ctPhase := phase\<rparr>) cache"

definition statusChanged :: "ModelCacheStatus \<Rightarrow> ModelCacheStatus \<Rightarrow> bool" where
  "statusChanged a b \<longleftrightarrow>
     ctObservedGeneration a \<noteq> ctObservedGeneration b \<or> ctPhase a \<noteq> ctPhase b \<or> ctRevision a \<noteq> ctRevision b \<or>
     ctNodeName a \<noteq> ctNodeName b \<or> ctNodeUID a \<noteq> ctNodeUID b \<or> ctPath a \<noteq> ctPath b \<or> ctSize a \<noteq> ctSize b \<or>
     ctReservedSize a \<noteq> ctReservedSize b \<or> ctInputHash a \<noteq> ctInputHash b \<or> ctLastUsedTime a \<noteq> ctLastUsedTime b \<or>
     \<not> list_all2 conditionsEqual (ctConditions a) (ctConditions b)"

definition requeueForCachePhase :: "('c, 'q) ModelCacheReconciler \<Rightarrow> ModelCachePhase \<Rightarrow> Result" where
  "requeueForCachePhase R phase =
     (case phase of
        ModelCachePhaseDownloading \<Rightarrow> \<lparr>reRequeue = False, reRequeueAfter = crDownloadRequeueAfter R\<rparr>
      | ModelCachePhasePending \<Rightarrow> \<lparr>reRequeue = False, reRequeueAfter = crPendingRequeueAfter R\<rparr>
      | _ \<Rightarrow> noResult)"

section \<open>Inventory\<close>

definition emptyCacheInventory :: "(string \<times> rat) list" where
  "emptyCacheInventory =
     map (\<lambda>phase. (phase, 0))
       (map modelCachePhaseString [ModelCachePhasePending, ModelCachePhaseDownloading, ModelCachePhaseReady, ModelCachePhaseFailed] @
        [''Unknown''])"

definition addFloat :: "string \<Rightarrow> rat \<Rightarrow> (string \<times> rat) list \<Rightarrow> (string \<times> rat) list" where
  "addFloat key x values =
     AList.update key (fl64 ((case map_of values key of Some y \<Rightarrow> y | None \<Rightarrow> 0) + x)) values"

definition addCacheInventory ::
  "'q quantity_ops \<Rightarrow> (string \<times> rat) list \<times> (string \<times> rat) list \<Rightarrow> ModelCache \<Rightarrow> (string \<times> rat) list \<times> (string \<times> rat) list" where
  "addCacheInventory Q inventory cache =
     (let phase = (if modelCachePhaseString (ctPhase (mcStatus cache)) = [] then ''Unknown''
                   else modelCachePhaseString (ctPhase (mcStatus cache)));
          size = (if ctReservedSize (mcStatus cache) = [] then ctSize (mcStatus cache) else ctReservedSize (mcStatus cache));
          phaseCounts = addFloat phase 1 (fst inventory)
      in case qParse Q size of
           None \<Rightarrow> (phaseCounts, snd inventory)
         | Some quantity \<Rightarrow>
             if qSign Q quantity \<le> 0 then (phaseCounts, snd inventory)
             else (phaseCounts, addFloat phase (fl64 (of_int (qValue Q quantity))) (snd inventory)))"

definition sameCache :: "ModelCache \<Rightarrow> ModelCache \<Rightarrow> bool" where
  "sameCache a b \<longleftrightarrow> omNamespace (mcMeta a) = omNamespace (mcMeta b) \<and> mcName a = mcName b"

definition inventoryOf :: "ModelCache option \<Rightarrow> ModelCache list \<Rightarrow> ModelCache list" where
  "inventoryOf current caches =
     filter (\<lambda>cache. omDeletionTimestamp (mcMeta cache) = None)
       (case current of
          None \<Rightarrow> caches
        | Some x \<Rightarrow>
            map (\<lambda>cache. if sameCache cache x then x else cache) caches @
            (if list_ex (\<lambda>cache. sameCache cache x) caches then [] else [x]))"

definition observeCacheInventory ::
  "('c, 'q) ModelCacheReconciler \<Rightarrow> ModelCache option \<Rightarrow> (cache_error, 'c, unit) fallible" where
  "observeCacheInventory R current =
     onOutcome (kcListModelCaches (crClient R)) (\<lambda>listed. case listed of
       Inl _ \<Rightarrow> ok ()
     | Inr caches \<Rightarrow>
         (case foldl (addCacheInventory (crQuantities R)) (emptyCacheInventory, emptyCacheInventory) (inventoryOf current caches) of
            (phaseCounts, reservedBytes) \<Rightarrow> cacheObserve (crClient R) (CacheInventorySet phaseCounts reservedBytes)))"

section \<open>Writing the status\<close>

definition patchStatus ::
  "('c, 'q) ModelCacheReconciler \<Rightarrow> ModelCache \<Rightarrow> string \<Rightarrow> string \<Rightarrow> ModelCache \<Rightarrow> 'c cache_handled" where
  "patchStatus R original eventReason eventMessage cache =
     (if \<not> statusChanged (mcStatus original) (mcStatus cache) then
        andThen (observeCacheInventory R (Some cache)) (\<lambda>_. ok (requeueForCachePhase R (ctPhase (mcStatus cache)), cache))
      else onOutcome (kcPatchModelCacheStatus (crClient R) original cache) (\<lambda>outcome. case outcome of
        Inl err \<Rightarrow>
          if err = Conflict then ok (\<lparr>reRequeue = True, reRequeueAfter = 0\<rparr>, cache)
          else throw (CacheCallFailed ''patch status'' err)
      | Inr stored \<Rightarrow>
          let failed = (ctPhase (mcStatus stored) = ModelCachePhaseFailed)
          in andThen (if eventReason = [] then ok ()
                      else cacheObserve (crClient R) (CacheEventRecorded (omNamespace (mcMeta stored)) (mcName stored)
                             ((if failed then warning else normal) eventReason eventMessage))) (\<lambda>_.
             andThen (if failed \<and> ctPhase (mcStatus original) \<noteq> ModelCachePhaseFailed
                      then cacheObserve (crClient R) (CacheFailureCounted eventReason) else ok ()) (\<lambda>_.
             andThen (observeCacheInventory R (Some stored)) (\<lambda>_.
               ok (requeueForCachePhase R (ctPhase (mcStatus stored)), stored))))))"

definition failedCache :: "time \<Rightarrow> string \<Rightarrow> string \<Rightarrow> ModelCache \<Rightarrow> ModelCache" where
  "failedCache now reason message cache =
     (let failed = setCachePhase ModelCachePhaseFailed cache;
          unevaluated = (if reason = CacheReasonSpecInvalid then
              setCondition now CacheConditionVerified ConditionUnknown reason ''Verification was not evaluated''
                (setCondition now CacheConditionDownloaded ConditionUnknown reason ''Download was not evaluated''
                  (setCondition now CacheConditionPlaced ConditionUnknown reason ''Placement was not evaluated''
                    (setCondition now CacheConditionSpecValid ConditionFalse reason message failed)))
            else failed)
      in setCondition now CacheConditionReady ConditionFalse reason message unevaluated)"

definition failCache :: "('c, 'q) ModelCacheReconciler \<Rightarrow> ModelCache \<Rightarrow> string \<Rightarrow> string \<Rightarrow> ModelCache \<Rightarrow> 'c cache_handled" where
  "failCache R original reason message cache =
     patchStatus R original reason message (failedCache (crNow R) reason message cache)"

definition pendingCache :: "time \<Rightarrow> ModelCache \<Rightarrow> string \<Rightarrow> string \<Rightarrow> ModelCache \<Rightarrow> ModelCache" where
  "pendingCache now original reason message cache =
     (let valid = setCondition now CacheConditionSpecValid ConditionTrue CacheReasonSpecValidated ''Cache spec is valid''
            (setCachePhase ModelCachePhasePending cache);
          kept = (if reason = CacheReasonNodeLost \<and> ctPhase (mcStatus original) = ModelCachePhaseReady then
              setCondition now CacheConditionVerified ConditionTrue CacheReasonVerified ''Cache was verified before node loss''
                (setCondition now CacheConditionDownloaded ConditionTrue CacheReasonDownloadSucceeded
                  ''Download completed before node loss'' valid)
            else valid)
      in setCondition now CacheConditionReady ConditionFalse reason message
           (setCondition now CacheConditionPlaced ConditionFalse reason message kept))"

definition setPending :: "('c, 'q) ModelCacheReconciler \<Rightarrow> ModelCache \<Rightarrow> string \<Rightarrow> string \<Rightarrow> ModelCache \<Rightarrow> 'c cache_handled" where
  "setPending R original reason message cache =
     patchStatus R original reason message (pendingCache (crNow R) original reason message cache)"

text \<open>The conditions of a cache that is placed and downloaded.\<close>

definition placedCache :: "time \<Rightarrow> string \<Rightarrow> string \<Rightarrow> ModelCache \<Rightarrow> ModelCache" where
  "placedCache now node path cache =
     setCondition now CacheConditionPlaced ConditionTrue CacheReasonPlaced (''Cache placed on node '' @ node @ '' at '' @ path)
       (setCondition now CacheConditionSpecValid ConditionTrue CacheReasonSpecValidated ''Cache spec is valid'' cache)"

definition completedCache :: "time \<Rightarrow> ModelCache \<Rightarrow> ModelCache" where
  "completedCache now cache =
     setCondition now CacheConditionReady ConditionTrue CacheReasonCacheReady ''Cache is ready''
       (setCondition now CacheConditionVerified ConditionTrue CacheReasonVerified ''Cache verified''
         (setCondition now CacheConditionDownloaded ConditionTrue CacheReasonDownloadSucceeded ''Download completed'' cache))"

section \<open>A cache that is already downloaded\<close>

definition hasCompletedArtifact :: "ModelCache \<Rightarrow> bool" where
  "hasCompletedArtifact cache =
     (case FindCondition (ctConditions (mcStatus cache)) CacheConditionDownloaded of
        Some downloaded \<Rightarrow> cStatus downloaded = ConditionTrue
      | None \<Rightarrow> False)"

definition jobNameOf :: "ModelCache \<Rightarrow> string" where
  "jobNameOf cache = mcName cache @ CacheDownloaderJobSuffix"

text \<open>The placement that the status records, with an amount and the UID of the node.\<close>

definition recordedPlacement :: "string \<Rightarrow> 'q \<Rightarrow> ModelCache \<Rightarrow> 'q CachePlacement" where
  "recordedPlacement nodeUID amount cache =
     \<lparr>chNodeName = ctNodeName (mcStatus cache), chNodeUID = nodeUID, chPath = ctPath (mcStatus cache), chReservedSize = amount\<rparr>"

definition keepsPlace :: "ModelCache \<Rightarrow> bool" where
  "keepsPlace cache \<longleftrightarrow>
     cgPath (cpStorage (mcSpec cache)) = ctPath (mcStatus cache) \<and>
     (cgNodeName (cpStorage (mcSpec cache)) = [] \<or> cgNodeName (cpStorage (mcSpec cache)) = ctNodeName (mcStatus cache))"

text \<open>Whether the cache is ready, and whether its node is lost.\<close>

definition readyPlacementMatches ::
  "('c, 'q) ModelCacheReconciler \<Rightarrow> ModelCache \<Rightarrow> (cache_error, 'c, bool \<times> bool) fallible" where
  "readyPlacementMatches R cache =
     (let K = crClient R; Q = crQuantities R; st = mcStatus cache
      in if ctPhase st \<noteq> ModelCachePhaseReady \<and> \<not> hasCompletedArtifact cache then ok (False, False)
         else if ctNodeName st = [] \<or> ctPath st = [] then ok (False, False)
         else if \<not> keepsPlace cache then ok (False, False)
         else andThen (cacheCallOptional [] (kcGetNode K (ctNodeName st))) (\<lambda>found. case found of
           None \<Rightarrow> ok (False, True)
         | Some node \<Rightarrow>
             if ctNodeUID st \<noteq> [] \<and> ctNodeUID st \<noteq> ndUID node then ok (False, True)
             else (case qParse Q (cgSize (cpStorage (mcSpec cache))) of
                     None \<Rightarrow> ok (False, False)
                   | Some amount \<Rightarrow>
                       let expectedHash = CacheInputHash Q cache (recordedPlacement (ndUID node) amount cache)
                       in if ctInputHash st = expectedHash then ok (True, False)
                          else andThen (cacheCallOptional [] (kcGetJob K (omNamespace (mcMeta cache)) (jobNameOf cache))) (\<lambda>found. case found of
                            None \<Rightarrow> ok (False, False)
                          | Some job \<Rightarrow>
                              if CacheInputHashFromJob job = expectedHash then ok (jsComplete (ObserveDownloaderJob job), False)
                              else ok (False, False)))))"

text \<open>The UID of the node is filled in when the status has none.\<close>

definition withNodeUID :: "('c, 'q) ModelCacheReconciler \<Rightarrow> ModelCache \<Rightarrow> (cache_error, 'c, ModelCache) fallible" where
  "withNodeUID R cache =
     (if ctNodeUID (mcStatus cache) \<noteq> [] then ok cache
      else andThen (cacheCall ''get ready cache node'' (kcGetNode (crClient R) (ctNodeName (mcStatus cache))))
             (\<lambda>node. ok (onCacheStatus (\<lambda>s. s\<lparr>ctNodeUID := ndUID node\<rparr>) cache)))"

definition readyCache :: "time \<Rightarrow> 'q quantity_ops \<Rightarrow> 'q \<Rightarrow> ModelCache \<Rightarrow> ModelCache" where
  "readyCache now Q amount cache =
     (let st = mcStatus cache
      in completedCache now (placedCache now (ctNodeName st) (ctPath st)
           (onCacheStatus (\<lambda>s. s\<lparr>ctRevision := EffectiveRevision (Some cache),
                              ctInputHash := CacheInputHash Q cache (recordedPlacement (ctNodeUID st) amount cache),
                              ctReservedSize := qString Q amount, ctSize := qString Q amount\<rparr>)
             (setCachePhase ModelCachePhaseReady cache))))"

definition setReady :: "('c, 'q) ModelCacheReconciler \<Rightarrow> ModelCache \<Rightarrow> ModelCache \<Rightarrow> 'c cache_handled" where
  "setReady R original cache =
     (let sizeText = cgSize (cpStorage (mcSpec cache))
      in case qParse (crQuantities R) sizeText of
           None \<Rightarrow> failCache R original CacheReasonSpecInvalid (crErrorText R (SizeMessage sizeText)) cache
         | Some amount \<Rightarrow> andThen (withNodeUID R cache) (\<lambda>cache'.
             patchStatus R original CacheReasonCacheReady ''Cache is ready'' (readyCache (crNow R) (crQuantities R) amount cache')))"

section \<open>The downloader Job\<close>

definition inFlightIdentityMatches :: "'q quantity_ops \<Rightarrow> ModelCache \<Rightarrow> bool option" where
  "inFlightIdentityMatches Q cache =
     (if \<not> keepsPlace cache then Some False
      else map_option (\<lambda>amount. CacheInputHash Q cache (recordedPlacement (ctNodeUID (mcStatus cache)) amount cache) =
                              ctInputHash (mcStatus cache))
             (qParse Q (cgSize (cpStorage (mcSpec cache)))))"

definition inFlightPlacement ::
  "('c, 'q) ModelCacheReconciler \<Rightarrow> ModelCache \<Rightarrow> (cache_error, 'c, 'q CachePlacement option) fallible" where
  "inFlightPlacement R cache =
     (let st = mcStatus cache
      in andThen (cacheCallOptional ''get in-flight cache node'' (kcGetNode (crClient R) (ctNodeName st))) (\<lambda>found. case found of
           None \<Rightarrow> ok None
         | Some node \<Rightarrow>
             if ctNodeUID st \<noteq> [] \<and> ctNodeUID st \<noteq> ndUID node then ok None
             else (case qParse (crQuantities R) (ctReservedSize st) of
                     None \<Rightarrow> throw (ReservedSizeInvalid (ctReservedSize st))
                   | Some amount \<Rightarrow>
                       if qSign (crQuantities R) amount \<le> 0 then throw (ReservedSizeInvalid (ctReservedSize st))
                       else ok (Some (recordedPlacement (ndUID node) amount cache)))))"

definition deleteDownloaderJob :: "('c, 'q) ModelCacheReconciler \<Rightarrow> ModelCache \<Rightarrow> (cache_error, 'c, bool) fallible" where
  "deleteDownloaderJob R cache =
     andThen (cacheCallOptional ''get downloader Job for lost node'' (kcGetJob (crClient R) (omNamespace (mcMeta cache)) (jobNameOf cache)))
       (\<lambda>found. case found of
          None \<Rightarrow> ok False
        | Some job \<Rightarrow>
            if omDeletionTimestamp (jbMeta job) \<noteq> None then ok True
            else andThen (cacheCallOptional ''delete downloader Job for lost node'' (kcDeleteJob (crClient R) job)) (\<lambda>_. ok True))"

definition retryRequested :: "ModelCache \<Rightarrow> 'q Job \<Rightarrow> bool" where
  "retryRequested cache existing \<longleftrightarrow>
     (let retryToken = mget (omAnnotations (mcMeta cache)) CacheRetryAnnotation;
          handledRetryToken = mget (omAnnotations (jbMeta existing)) CacheRetryTokenAnnotation
      in ctPhase (mcStatus cache) \<noteq> ModelCachePhaseReady \<and> retryToken \<noteq> [] \<and> retryToken \<noteq> handledRetryToken)"

text \<open>The Job, or none while an old one is being removed.\<close>

definition reconcileDownloaderJob ::
  "('c, 'q) ModelCacheReconciler \<Rightarrow> ModelCache \<Rightarrow> 'q CachePlacement \<Rightarrow> (cache_error, 'c, 'q Job option) fallible" where
  "reconcileDownloaderJob R cache placement =
     (let K = crClient R
      in case BuildCacheDownloaderJob (crChecks R) (crQuantities R) (crBuilder R) cache placement of
           Inl err \<Rightarrow> throw (CacheJobUnbuildable err)
         | Inr desired \<Rightarrow>
             andThen (cacheCallOptional ''get Job'' (kcGetJob K (omNamespace (mcMeta cache)) (omName (jbMeta desired)))) (\<lambda>found. case found of
               None \<Rightarrow> andThen (cacheCall ''create Job'' (kcCreateJob K desired)) (\<lambda>job. ok (Some job))
             | Some existing \<Rightarrow>
                 if omDeletionTimestamp (jbMeta existing) \<noteq> None then ok None
                 else if \<not> (retryRequested cache existing \<or> CacheJobHashFromJob existing \<noteq> CacheJobHashFromJob desired)
                   then ok (Some existing)
                 else andThen (cacheCallOptional ''delete stale Job'' (kcDeleteJob K existing)) (\<lambda>_. ok None)))"

definition observedCache :: "'q quantity_ops \<Rightarrow> 'q CachePlacement \<Rightarrow> string \<Rightarrow> ModelCache \<Rightarrow> ModelCache" where
  "observedCache Q placement inputHash cache =
     onCacheStatus (\<lambda>s. s\<lparr>ctObservedGeneration := omGeneration (mcMeta cache), ctNodeName := chNodeName placement,
       ctNodeUID := chNodeUID placement, ctPath := chPath placement, ctReservedSize := qString Q (chReservedSize placement),
       ctSize := qString Q (chReservedSize placement), ctRevision := EffectiveRevision (Some cache), ctInputHash := inputHash\<rparr>) cache"

definition observeDownload :: "('c, 'q) ModelCacheReconciler \<Rightarrow> ModelCache \<Rightarrow> 'q Job \<Rightarrow> Result \<Rightarrow> (cache_error, 'c, unit) fallible" where
  "observeDownload R original job result =
     (if \<not> reRequeue result \<and> ctPhase (mcStatus original) \<noteq> ModelCachePhaseReady \<and>
         omCreationTimestamp (jbMeta job) \<noteq> 0 \<and> crNow R - omCreationTimestamp (jbMeta job) \<ge> 0
      then cacheObserve (crClient R) (CacheDownloadDurationObserved (crNow R - omCreationTimestamp (jbMeta job))) else ok ())"

definition projectJobStatus ::
  "('c, 'q) ModelCacheReconciler \<Rightarrow> ModelCache \<Rightarrow> 'q CachePlacement \<Rightarrow> 'q Job \<Rightarrow> ModelCache \<Rightarrow> 'c cache_handled" where
  "projectJobStatus R original placement job cache =
     (let now = crNow R; observed = ObserveDownloaderJob job
      in andThen (withNodeUID R (observedCache (crQuantities R) placement (CacheInputHashFromJob job) cache)) (\<lambda>seen.
           let placed = placedCache now (chNodeName placement) (chPath placement) seen
           in if jsComplete observed then
                andThen (patchStatus R original CacheReasonCacheReady ''Cache is ready''
                           (completedCache now (setCachePhase ModelCachePhaseReady placed)))
                  (\<lambda>(result, cache'). andThen (observeDownload R original job result) (\<lambda>_. ok (result, cache')))
              else if jsFailedTerminal observed then
                let message = ''Download failed: '' @ jsMessage observed
                in failCache R original CacheReasonDownloadFailed (jsMessage observed)
                     (setCondition now CacheConditionReady ConditionFalse CacheReasonCacheFailed message
                       (setCondition now CacheConditionDownloaded ConditionFalse CacheReasonDownloadFailed message
                         (setCachePhase ModelCachePhaseFailed placed)))
              else
                patchStatus R original [] []
                  (setCondition now CacheConditionReady ConditionFalse CacheReasonDownloadRunning ''Download is running''
                    (setCondition now CacheConditionDownloaded ConditionFalse CacheReasonDownloadRunning
                      (''Download is running ('' @ itoa (jsActive observed) @ '' active, '' @ itoa (jsSucceeded observed) @
                       '' succeeded, '' @ itoa (jsFailed observed) @ '' failed)'')
                      (setCachePhase ModelCachePhaseDownloading placed)))))"

section \<open>Placement\<close>

definition resolvePlacement :: "('c, 'q) ModelCacheReconciler \<Rightarrow> ModelCache \<Rightarrow> (cache_error, 'c, 'q CachePlacement) fallible" where
  "resolvePlacement R cache =
     andThen (cacheCall ''list nodes'' (kcListNodes (crClient R))) (\<lambda>nodes.
     andThen (cacheCall ''list caches'' (kcListModelCaches (crClient R))) (\<lambda>caches.
       case CachePlan (crQuantities R) (crPlanner R) (Some cache) nodes caches of
         Inl err \<Rightarrow> throw (CachePlacementFailed err)
       | Inr placement \<Rightarrow>
           ok \<lparr>chNodeName = pmNodeName placement, chNodeUID = pmNodeUID placement, chPath = pmPath placement,
               chReservedSize = pmReservedSize placement\<rparr>))"

definition placementRecorded :: "'q quantity_ops \<Rightarrow> ModelCache \<Rightarrow> 'q CachePlacement \<Rightarrow> bool" where
  "placementRecorded Q cache placement \<longleftrightarrow>
     ctNodeName (mcStatus cache) = chNodeName placement \<and> ctNodeUID (mcStatus cache) = chNodeUID placement \<and>
     ctPath (mcStatus cache) = chPath placement \<and> ctReservedSize (mcStatus cache) = qString Q (chReservedSize placement)"

definition reservedCache :: "time \<Rightarrow> 'q quantity_ops \<Rightarrow> 'q CachePlacement \<Rightarrow> ModelCache \<Rightarrow> ModelCache" where
  "reservedCache now Q placement cache =
     setCondition now CacheConditionReady ConditionFalse CacheReasonPlaced ''Cache placement is reserved''
       (setCondition now CacheConditionVerified ConditionUnknown CacheReasonPlaced ''Cache has not been downloaded''
         (setCondition now CacheConditionDownloaded ConditionFalse CacheReasonPlaced ''Downloader Job has not started''
           (placedCache now (chNodeName placement) (chPath placement)
             (setCachePhase ModelCachePhasePending (observedCache Q placement [] cache)))))"

definition recordPlacement ::
  "('c, 'q) ModelCacheReconciler \<Rightarrow> ModelCache \<Rightarrow> 'q CachePlacement \<Rightarrow> ModelCache \<Rightarrow> 'c cache_handled" where
  "recordPlacement R original placement cache =
     andThen (patchStatus R original CacheReasonPlaced ''Cache placement is reserved''
                (reservedCache (crNow R) (crQuantities R) placement cache))
       (\<lambda>(_, cache'). ok (\<lparr>reRequeue = True, reRequeueAfter = 0\<rparr>, cache'))"

section \<open>Reconciliation\<close>

definition oneSecond :: duration where
  "oneSecond = 1000000000"

definition waitForJob :: "ModelCache \<Rightarrow> 'c cache_handled" where
  "waitForJob cache = ok (\<lparr>reRequeue = False, reRequeueAfter = oneSecond\<rparr>, cache)"

text \<open>The Job of a placement, and what it shows.\<close>

definition runDownload ::
  "('c, 'q) ModelCacheReconciler \<Rightarrow> string \<Rightarrow> ModelCache \<Rightarrow> 'q CachePlacement \<Rightarrow> ModelCache \<Rightarrow> 'c cache_handled" where
  "runDownload R what original placement cache =
     andThen (during what (reconcileDownloaderJob R cache placement)) (\<lambda>found. case found of
       None \<Rightarrow> waitForJob cache
     | Some job \<Rightarrow> projectJobStatus R original placement job cache)"

definition placementReason :: "cache_plan_error \<Rightarrow> string option" where
  "placementReason err =
     (case err of
        ErrPinnedNodeUnavailable _ \<Rightarrow> Some CacheReasonPinnedNodeUnavailable
      | ErrInsufficientCacheCapacity _ \<Rightarrow> Some CacheReasonInsufficientCapacity
      | ErrCachePathConflict _ _ \<Rightarrow> Some CacheReasonPathConflict
      | ErrNoEligibleNode \<Rightarrow> Some CacheReasonNoEligibleNode
      | _ \<Rightarrow> None)"

definition placeCache :: "('c, 'q) ModelCacheReconciler \<Rightarrow> ModelCache \<Rightarrow> ModelCache \<Rightarrow> 'c cache_handled" where
  "placeCache R original cache =
     onOutcome (resolvePlacement R cache) (\<lambda>outcome. case outcome of
       Inl failure \<Rightarrow>
         (case failure of
            CachePlacementFailed err \<Rightarrow>
              (case placementReason err of
                 Some reason \<Rightarrow> setPending R original reason (crErrorText R (PlanMessage err)) cache
               | None \<Rightarrow> throw (CacheFailedDuring ''resolve cache placement'' failure))
          | _ \<Rightarrow> throw (CacheFailedDuring ''resolve cache placement'' failure))
     | Inr placement \<Rightarrow>
         if \<not> placementRecorded (crQuantities R) cache placement then recordPlacement R original placement cache
         else runDownload R ''reconcile downloader Job'' original placement cache)"

definition requireSecret :: "('c, 'q) ModelCacheReconciler \<Rightarrow> ModelCache \<Rightarrow> ModelCache \<Rightarrow> 'c cache_handled \<Rightarrow> 'c cache_handled" where
  "requireSecret R original cache continue =
     (let ref = cpSecretRef (mcSpec cache)
      in if ref = [] then continue
         else andThen (cacheCallOptional ''get referenced Secret'' (kcGetSecret (crClient R) (omNamespace (mcMeta cache)) ref)) (\<lambda>found. case found of
           None \<Rightarrow> setPending R original CacheReasonSecretNotFound (''Referenced Secret '' @ quoted ref @ '' does not exist'') cache
         | Some secret \<Rightarrow>
             if mget (seData secret) ''token'' = []
             then setPending R original CacheReasonSecretKeyMissing
                    (''Referenced Secret '' @ quoted ref @ '' does not contain a non-empty token key'') cache
             else continue))"

text \<open>A running download whose spec has changed is stopped, and its identity is forgotten.\<close>

definition restartedCache :: "time \<Rightarrow> ModelCache \<Rightarrow> ModelCache" where
  "restartedCache now cache =
     setCondition now CacheConditionReady ConditionFalse CacheReasonSpecValidated ''Cache identity change is pending''
       (setCondition now CacheConditionVerified ConditionUnknown CacheReasonSpecValidated
         ''Cache has not been downloaded for the new identity''
         (setCondition now CacheConditionDownloaded ConditionFalse CacheReasonSpecValidated
           ''Downloader Job has not started for the new identity''
           (setCondition now CacheConditionPlaced ConditionFalse CacheReasonSpecValidated
             ''Cache identity changed; placement must be recalculated''
             (onCacheStatus (\<lambda>s. s\<lparr>ctInputHash := []\<rparr>) (setCachePhase ModelCachePhasePending cache)))))"

definition restartDownload :: "('c, 'q) ModelCacheReconciler \<Rightarrow> ModelCache \<Rightarrow> ModelCache \<Rightarrow> 'c cache_handled" where
  "restartDownload R original cache =
     andThen (deleteDownloaderJob R cache) (\<lambda>stopping.
       if stopping then waitForJob cache
       else andThen (patchStatus R original [] [] (restartedCache (crNow R) cache))
              (\<lambda>(_, cache'). ok (\<lparr>reRequeue = True, reRequeueAfter = 0\<rparr>, cache')))"

definition continueDownload :: "('c, 'q) ModelCacheReconciler \<Rightarrow> ModelCache \<Rightarrow> ModelCache \<Rightarrow> 'c cache_handled \<Rightarrow> 'c cache_handled" where
  "continueDownload R original cache continue =
     (case inFlightIdentityMatches (crQuantities R) cache of
        None \<Rightarrow> failCache R original CacheReasonSpecInvalid (crErrorText R (SizeMessage (cgSize (cpStorage (mcSpec cache))))) cache
      | Some matches \<Rightarrow>
          if \<not> matches then restartDownload R original cache
          else andThen (inFlightPlacement R cache) (\<lambda>found. case found of
            Some placement \<Rightarrow> runDownload R ''reconcile in-flight downloader Job'' original placement cache
          | None \<Rightarrow> andThen (deleteDownloaderJob R cache) (\<lambda>stopping. if stopping then waitForJob cache else continue)))"

definition reconcileCache :: "('c, 'q) ModelCacheReconciler \<Rightarrow> ModelCache \<Rightarrow> 'c cache_handled" where
  "reconcileCache R cache =
     (let st = mcStatus cache; acquire = requireSecret R cache cache (placeCache R cache cache)
      in case ValidateModelCache (crChecks R) (crQuantities R) cache of
           Some err \<Rightarrow> failCache R cache CacheReasonSpecInvalid (crErrorText R (SpecMessage err)) cache
         | None \<Rightarrow>
             (case PlanPath (crPlanner R) (Some cache) of
                Inl err \<Rightarrow> failCache R cache CacheReasonSpecInvalid (crErrorText R (PlanMessage err)) cache
              | Inr _ \<Rightarrow>
                  andThen (during ''check ready cache placement'' (readyPlacementMatches R cache)) (\<lambda>(ready, nodeLost).
                    if ready then setReady R cache cache
                    else if nodeLost then
                      setPending R cache CacheReasonNodeLost
                        (''Previously selected node '' @ quoted (ctNodeName st) @ '' no longer exists; cache location is retained'') cache
                    else if hasCompletedArtifact cache then
                      failCache R cache CacheReasonIdentityChanged
                        ''Ready cache identity is immutable; create a new ModelCache for a different repo, revision, path, or node'' cache
                    else if ctPhase st = ModelCachePhaseDownloading \<and> ctInputHash st \<noteq> [] then continueDownload R cache cache acquire
                    else acquire)))"

text \<open>The entry point. Data of a deleted cache is left in place.\<close>

definition ReconcileCacheRequest :: "('c, 'q) ModelCacheReconciler \<Rightarrow> string \<Rightarrow> string \<Rightarrow> (cache_error, 'c, Result) fallible" where
  "ReconcileCacheRequest R namespace name =
     andThen (cacheCallOptional ''get ModelCache'' (kcGetModelCache (crClient R) namespace name)) (\<lambda>found. case found of
       None \<Rightarrow> andThen (observeCacheInventory R None) (\<lambda>_. ok noResult)
     | Some cache \<Rightarrow>
         if omDeletionTimestamp (mcMeta cache) \<noteq> None
         then andThen (observeCacheInventory R (Some cache)) (\<lambda>_. ok noResult)
         else andThen (reconcileCache R cache) (\<lambda>(result, _). ok result))"

text \<open>The caches that a change of a node may concern.\<close>

definition requestsForNodeChange :: "('c, 'q) cacheClient \<Rightarrow> string \<Rightarrow> 'c \<Rightarrow> (string \<times> string) list \<times> 'c" where
  "requestsForNodeChange K node c =
     (case kcListModelCaches K c of
        (Inl _, c') \<Rightarrow> ([], c')
      | (Inr caches, c') \<Rightarrow>
          (map (\<lambda>cache. (omNamespace (mcMeta cache), mcName cache))
             (filter (\<lambda>cache. \<not> (ctPhase (mcStatus cache) \<noteq> ModelCachePhasePending \<and> ctNodeName (mcStatus cache) \<noteq> node \<and>
                                 cgNodeName (cpStorage (mcSpec cache)) \<noteq> node)) caches), c'))"

end
