(* ===== verification/Cache_Invariant.thy ===== *)
theory Cache_Invariant
  imports Cache_Controller Lifecycle_Workloads
begin

text \<open>
  Invariants of the cache controller. The facts that a reconciliation follows are the phase, the recorded place and three
  conditions of the status. A cache occupies its place while it is placed or downloaded and not released by a failure; the
  theorems show that no two caches ever occupy one directory of one node, that the phase Ready is exactly what runtime
  reconciliation may use, and that a downloaded artifact is never moved or downloaded again.
\<close>

section \<open>What is followed\<close>

definition cacheCondition :: "ModelCacheStatus \<Rightarrow> string \<Rightarrow> ConditionStatus option" where
  "cacheCondition st t = map_option cStatus (FindCondition (ctConditions st) t)"

definition occupies :: "ModelCacheStatus \<Rightarrow> bool" where
  "occupies st \<longleftrightarrow> ctNodeName st \<noteq> [] \<and>
     (cacheCondition st CacheConditionDownloaded = Some ConditionTrue \<or>
      cacheCondition st CacheConditionPlaced = Some ConditionTrue \<and> ctPhase st \<noteq> ModelCachePhaseFailed)"

definition cache_ok :: "ModelCacheStatus \<Rightarrow> bool" where
  "cache_ok st \<longleftrightarrow>
     (ctPhase st = ModelCachePhaseReady \<longrightarrow>
        cacheCondition st CacheConditionReady = Some ConditionTrue \<and> cacheCondition st CacheConditionDownloaded = Some ConditionTrue \<and>
        ctNodeName st \<noteq> [] \<and> ctPath st \<noteq> [] \<and> ctRevision st \<noteq> []) \<and>
     (cacheCondition st CacheConditionReady = Some ConditionTrue \<longrightarrow> ctPhase st = ModelCachePhaseReady) \<and>
     (ctPhase st = ModelCachePhaseDownloading \<longrightarrow> cacheCondition st CacheConditionPlaced = Some ConditionTrue)"

definition samePlaceStatus :: "ModelCacheStatus \<Rightarrow> ModelCacheStatus \<Rightarrow> bool" where
  "samePlaceStatus s t \<longleftrightarrow> ctNodeName s = ctNodeName t \<and> ctPath s = ctPath t"

text \<open>No other live cache has the node and the path.\<close>

definition freePlace :: "ModelCache list \<Rightarrow> string \<Rightarrow> ModelCacheStatus \<Rightarrow> bool" where
  "freePlace caches uid st \<longleftrightarrow>
     (\<forall>other \<in> set caches. mcUID other \<noteq> uid \<longrightarrow> \<not> releasedByFailure other \<longrightarrow> \<not> samePlaceStatus (mcStatus other) st)"

definition follows :: "ModelCache list \<Rightarrow> ModelCache \<Rightarrow> ModelCache \<Rightarrow> bool" where
  "follows caches cache cache' \<longleftrightarrow>
     mcUID cache' = mcUID cache \<and> cache_ok (mcStatus cache') \<and>
     (occupies (mcStatus cache') \<longrightarrow>
        occupies (mcStatus cache) \<and> samePlaceStatus (mcStatus cache) (mcStatus cache') \<or> freePlace caches (mcUID cache) (mcStatus cache'))"

section \<open>Conditions after a write\<close>

lemma cacheCondition_fields [simp]:
  "cacheCondition (s\<lparr>ctObservedGeneration := g\<rparr>) t = cacheCondition s t" "cacheCondition (s\<lparr>ctPhase := p\<rparr>) t = cacheCondition s t"
  "cacheCondition (s\<lparr>ctRevision := r\<rparr>) t = cacheCondition s t" "cacheCondition (s\<lparr>ctNodeName := n\<rparr>) t = cacheCondition s t"
  "cacheCondition (s\<lparr>ctNodeUID := u\<rparr>) t = cacheCondition s t" "cacheCondition (s\<lparr>ctPath := q\<rparr>) t = cacheCondition s t"
  "cacheCondition (s\<lparr>ctSize := z\<rparr>) t = cacheCondition s t" "cacheCondition (s\<lparr>ctReservedSize := z\<rparr>) t = cacheCondition s t"
  "cacheCondition (s\<lparr>ctInputHash := h\<rparr>) t = cacheCondition s t" "cacheCondition (s\<lparr>ctLastUsedTime := l\<rparr>) t = cacheCondition s t"
  by (simp_all add: cacheCondition_def)

lemma cacheCondition_set [simp]:
  "cacheCondition (mcStatus (setCondition now type st r m cache)) t = (if t = type then Some st else cacheCondition (mcStatus cache) t)"
  by (auto simp: cacheCondition_def setCondition_def onCacheStatus_def SetCondition_def FindCondition_setConditionLoop newCondition_def
      split: option.splits)

lemma setCondition_fields [simp]:
  "mcMeta (setCondition now type st r m cache) = mcMeta cache" "mcSpec (setCondition now type st r m cache) = mcSpec cache"
  "ctPhase (mcStatus (setCondition now type st r m cache)) = ctPhase (mcStatus cache)"
  "ctNodeName (mcStatus (setCondition now type st r m cache)) = ctNodeName (mcStatus cache)"
  "ctNodeUID (mcStatus (setCondition now type st r m cache)) = ctNodeUID (mcStatus cache)"
  "ctPath (mcStatus (setCondition now type st r m cache)) = ctPath (mcStatus cache)"
  "ctRevision (mcStatus (setCondition now type st r m cache)) = ctRevision (mcStatus cache)"
  "ctInputHash (mcStatus (setCondition now type st r m cache)) = ctInputHash (mcStatus cache)"
  by (simp_all add: setCondition_def onCacheStatus_def)

lemma onCacheStatus_fields [simp]:
  "mcMeta (onCacheStatus f cache) = mcMeta cache" "mcSpec (onCacheStatus f cache) = mcSpec cache"
  "mcStatus (onCacheStatus f cache) = f (mcStatus cache)"
  by (simp_all add: onCacheStatus_def)

lemma setCachePhase_fields [simp]:
  "mcMeta (setCachePhase phase cache) = mcMeta cache" "mcSpec (setCachePhase phase cache) = mcSpec cache"
  "mcStatus (setCachePhase phase cache) = (mcStatus cache)\<lparr>ctObservedGeneration := omGeneration (mcMeta cache), ctPhase := phase\<rparr>"
  by (simp_all add: setCachePhase_def)

lemma cache_conditions_distinct [simp]:
  "CacheConditionReady \<noteq> CacheConditionDownloaded" "CacheConditionReady \<noteq> CacheConditionPlaced" "CacheConditionReady \<noteq> CacheConditionVerified"
  "CacheConditionReady \<noteq> CacheConditionSpecValid" "CacheConditionDownloaded \<noteq> CacheConditionReady"
  "CacheConditionDownloaded \<noteq> CacheConditionPlaced" "CacheConditionDownloaded \<noteq> CacheConditionVerified"
  "CacheConditionDownloaded \<noteq> CacheConditionSpecValid" "CacheConditionPlaced \<noteq> CacheConditionReady"
  "CacheConditionPlaced \<noteq> CacheConditionDownloaded" "CacheConditionPlaced \<noteq> CacheConditionVerified"
  "CacheConditionPlaced \<noteq> CacheConditionSpecValid"
  by (simp_all add: const_defs)

lemma cache_reasons_distinct [simp]:
  "CacheReasonDownloadFailed \<noteq> CacheReasonSpecInvalid" "CacheReasonIdentityChanged \<noteq> CacheReasonSpecInvalid"
  by (simp_all add: const_defs)

lemma hasCompletedArtifact_iff: "hasCompletedArtifact cache \<longleftrightarrow> cacheCondition (mcStatus cache) CacheConditionDownloaded = Some ConditionTrue"
  by (auto simp: hasCompletedArtifact_def cacheCondition_def split: option.splits)

lemma releasedByFailure_iff:
  "releasedByFailure cache \<longleftrightarrow> ctPhase (mcStatus cache) = ModelCachePhaseFailed \<and>
     cacheCondition (mcStatus cache) CacheConditionDownloaded \<noteq> Some ConditionTrue"
  by (auto simp: releasedByFailure_def cacheConditionTrue_def cacheCondition_def FindCondition_eq_find simp del: find_eq_None_iff
      split: option.splits)

lemma occupies_live: "occupies (mcStatus cache) \<Longrightarrow> \<not> releasedByFailure cache"
  by (auto simp: occupies_def releasedByFailure_iff)

lemmas cache_writers = failedCache_def pendingCache_def placedCache_def completedCache_def readyCache_def observedCache_def reservedCache_def
  restartedCache_def Let_def

section \<open>The writes\<close>

text \<open>What the controller relies on: a status patch that succeeds answers with the object that was sent.\<close>

definition cachePatchesApply :: "('c, 'q) cacheClient \<Rightarrow> bool" where
  "cachePatchesApply K \<longleftrightarrow>
     (\<forall>before after c stored c'. kcPatchModelCacheStatus K before after c = (Inr stored, c') \<longrightarrow>
        mcStatus stored = mcStatus after \<and> mcUID stored = mcUID after)"

lemma failed_follows: "cache_ok (mcStatus cache) \<Longrightarrow> follows caches cache (failedCache now reason message cache)"
  by (auto simp: follows_def cache_ok_def occupies_def samePlaceStatus_def cache_writers)

lemma pending_follows: "cache_ok (mcStatus cache) \<Longrightarrow> follows caches cache (pendingCache now cache reason message cache)"
  by (auto simp: follows_def cache_ok_def occupies_def samePlaceStatus_def cache_writers)

lemma restarted_follows: "follows caches cache (restartedCache now cache)"
  by (auto simp: follows_def cache_ok_def occupies_def samePlaceStatus_def cache_writers)

lemma reserved_follows:
  assumes "\<And>st. ctNodeName st = chNodeName placement \<Longrightarrow> ctPath st = chPath placement \<Longrightarrow> freePlace caches (mcUID cache) st"
  shows "follows caches cache (reservedCache now Q placement cache)"
  using assms by (auto simp: follows_def cache_ok_def cache_writers)

lemma follows_cong: "mcStatus a = mcStatus b \<Longrightarrow> mcUID a = mcUID b \<Longrightarrow> follows caches cache a \<longleftrightarrow> follows caches cache b"
  by (simp add: follows_def)

lemma follows_self: "cache_ok (mcStatus cache) \<Longrightarrow> follows caches cache cache"
  by (simp add: follows_def samePlaceStatus_def)

lemma cacheObserve_Inr [simp]: "cacheObserve K e c = (Inr u, c') \<longleftrightarrow> c' = kcObserve K e c"
  by (auto simp: cacheObserve_def)

abbreviation tracks where
  "tracks caches cache m \<equiv> yields (\<lambda>x. follows caches cache (snd x)) m"

text \<open>What holds of the status that is written holds of the answer.\<close>

lemma yields_patch:
  assumes "cachePatchesApply (crClient R)"
    and P: "\<And>stored. mcStatus stored = mcStatus cache' \<Longrightarrow> mcUID stored = mcUID cache' \<Longrightarrow> P stored"
  shows "yields (\<lambda>x. P (snd x)) (patchStatus R original reason message cache')"
proof -
  have stored: "yields (\<lambda>x. P (snd x)) (case outcome of
      Inl err \<Rightarrow> if err = Conflict then ok (\<lparr>reRequeue = True, reRequeueAfter = 0\<rparr>, cache') else throw (CacheCallFailed ''patch status'' err)
    | Inr stored \<Rightarrow>
        let failed = (ctPhase (mcStatus stored) = ModelCachePhaseFailed)
        in andThen (if reason = [] then ok ()
                    else cacheObserve (crClient R) (CacheEventRecorded (omNamespace (mcMeta stored)) (mcName stored)
                           ((if failed then warning else normal) reason message))) (\<lambda>_.
           andThen (if failed \<and> ctPhase (mcStatus original) \<noteq> ModelCachePhaseFailed
                    then cacheObserve (crClient R) (CacheFailureCounted reason) else ok ()) (\<lambda>_.
           andThen (observeCacheInventory R (Some stored)) (\<lambda>_. ok (requeueForCachePhase R (ctPhase (mcStatus stored)), stored)))))"
    if "\<And>stored. outcome = Inr stored \<Longrightarrow> P stored" for outcome
    using that P by (cases outcome) (auto intro!: yield_rules yields_ok simp: Let_def)
  have applied: "P stored" if "kcPatchModelCacheStatus (crClient R) original cache' c = (Inr stored, c')" for stored c c'
    using assms(1) that unfolding cachePatchesApply_def by (intro P) blast+
  show ?thesis
    unfolding patchStatus_def
  proof (intro yields_if)
    show "yields (\<lambda>x. P (snd x)) (andThen (observeCacheInventory R (Some cache')) (\<lambda>_. ok (requeueForCachePhase R (ctPhase (mcStatus cache')), cache')))"
      by (intro yields_andThen yields_ok) (simp add: P)
  qed (rule yields_onOutcome_post; rule stored; auto dest: applied)
qed

lemma tracks_patch:
  assumes "cachePatchesApply (crClient R)" and "follows caches cache cache'"
  shows "tracks caches cache (patchStatus R original reason message cache')"
  by (rule yields_patch [OF assms(1)]) (use assms(2) follows_cong in blast)

lemma tracks_fail:
  "cachePatchesApply (crClient R) \<Longrightarrow> cache_ok (mcStatus cache) \<Longrightarrow> tracks caches cache (failCache R original reason message cache)"
  unfolding failCache_def by (intro tracks_patch failed_follows)

lemma tracks_pending:
  "cachePatchesApply (crClient R) \<Longrightarrow> cache_ok (mcStatus cache) \<Longrightarrow> tracks caches cache (setPending R cache reason message cache)"
  unfolding setPending_def by (intro tracks_patch pending_follows)

lemma withNodeUID_yields: "yields (\<lambda>cache'. \<exists>uid. cache' = onCacheStatus (\<lambda>s. s\<lparr>ctNodeUID := uid\<rparr>) cache) (withNodeUID R cache)"
proof -
  have "\<exists>uid. cache = onCacheStatus (\<lambda>s. s\<lparr>ctNodeUID := uid\<rparr>) cache"
    by (rule exI [of _ "ctNodeUID (mcStatus cache)"]) (simp add: onCacheStatus_def)
  then show ?thesis unfolding withNodeUID_def by (intro yields_if yields_andThen yields_ok) auto
qed

text \<open>A cache that may be ready holds its place already.\<close>

definition readyable :: "ModelCache \<Rightarrow> bool" where
  "readyable cache \<longleftrightarrow> occupies (mcStatus cache) \<and> ctPath (mcStatus cache) \<noteq> []"

lemma EffectiveRevision_nonempty [simp]: "EffectiveRevision (Some cache) \<noteq> []"
  by (simp add: EffectiveRevision_def)

lemma ready_follows:
  "readyable cache \<Longrightarrow> follows caches cache (readyCache now Q amount (onCacheStatus (\<lambda>s. s\<lparr>ctNodeUID := uid\<rparr>) cache))"
  by (auto simp: follows_def readyable_def cache_ok_def occupies_def samePlaceStatus_def cache_writers)

lemma tracks_setReady:
  assumes "cachePatchesApply (crClient R)" "cache_ok (mcStatus cache)" "readyable cache"
  shows "tracks caches cache (setReady R original cache)"
  unfolding setReady_def Let_def
  using assms
  by (intro yields_case_option tracks_fail yields_andThen_post [OF withNodeUID_yields]) (auto intro!: tracks_patch ready_follows)

lemma readyPlacement_yields:
  assumes "cache_ok (mcStatus cache)"
  shows "yields (\<lambda>x. fst x \<longrightarrow> readyable cache) (readyPlacementMatches R cache)"
proof -
  have "readyable cache"
    if "\<not> (ctPhase (mcStatus cache) \<noteq> ModelCachePhaseReady \<and> \<not> hasCompletedArtifact cache)"
      "\<not> (ctNodeName (mcStatus cache) = [] \<or> ctPath (mcStatus cache) = [])"
    using assms that by (auto simp: readyable_def cache_ok_def occupies_def hasCompletedArtifact_iff)
  then show ?thesis unfolding readyPlacementMatches_def Let_def by (intro yield_rules) (auto intro!: yield_rules yields_ok)
qed

lemma during_yields: "yields P m \<Longrightarrow> yields P (during what m)"
  unfolding during_def by (rule yields_onOutcome_post) (auto intro: yields_ok yields_throw dest: yieldsD)

section \<open>The downloads\<close>

lemma reconcileDownloaderJob_yields:
  "yields (\<lambda>job. chNodeName placement \<noteq> [] \<and> chPath placement \<noteq> []) (reconcileDownloaderJob R cache placement)"
proof (cases "BuildCacheDownloaderJob (crChecks R) (crQuantities R) (crBuilder R) cache placement")
  case (Inr job)
  then obtain "cacheJobInputError (crChecks R) (crQuantities R) (crBuilder R) cache placement = None"
    by (rule BuildCacheDownloaderJob_Inr)
  then have "chNodeName placement \<noteq> [] \<and> chPath placement \<noteq> []"
    by (auto simp: cacheJobInputError_def split: option.splits if_splits)
  then show ?thesis by (simp add: yields_def)
qed (auto simp: reconcileDownloaderJob_def intro: yields_throw)

text \<open>The place of a download is the recorded one of an occupant, or it is free.\<close>

definition claimable :: "ModelCache list \<Rightarrow> ModelCache \<Rightarrow> 'q CachePlacement \<Rightarrow> bool" where
  "claimable caches cache placement \<longleftrightarrow>
     (\<forall>st. chNodeName placement \<noteq> [] \<longrightarrow> ctNodeName st = chNodeName placement \<longrightarrow> ctPath st = chPath placement \<longrightarrow>
        occupies (mcStatus cache) \<and> samePlaceStatus (mcStatus cache) st \<or> freePlace caches (mcUID cache) st)"

lemma tracks_project:
  assumes "cachePatchesApply (crClient R)" "claimable caches cache placement" "chNodeName placement \<noteq> []" "chPath placement \<noteq> []"
  shows "tracks caches cache (projectJobStatus R original placement job cache)"
  unfolding projectJobStatus_def Let_def failCache_def
proof (rule yields_andThen_post [OF withNodeUID_yields])
  fix seen assume "\<exists>uid. seen = onCacheStatus (\<lambda>s. s\<lparr>ctNodeUID := uid\<rparr>)
    (observedCache (crQuantities R) placement (CacheInputHashFromJob job) cache)"
  then obtain uid where seen: "seen = onCacheStatus (\<lambda>s. s\<lparr>ctNodeUID := uid\<rparr>)
    (observedCache (crQuantities R) placement (CacheInputHashFromJob job) cache)" ..
  let ?placed = "placedCache (crNow R) (chNodeName placement) (chPath placement) seen"
  have place: "ctNodeName (mcStatus ?placed) = chNodeName placement" "ctPath (mcStatus ?placed) = chPath placement"
    "mcUID ?placed = mcUID cache" "ctRevision (mcStatus ?placed) \<noteq> []"
    "cacheCondition (mcStatus ?placed) CacheConditionPlaced = Some ConditionTrue"
    by (simp_all add: seen cache_writers)
  have claims: "occupies (mcStatus cache) \<and> samePlaceStatus (mcStatus cache) st \<or> freePlace caches (mcUID cache) st"
    if "ctNodeName st = chNodeName placement" "ctPath st = chPath placement" for st
    using assms(2,3) that by (simp add: claimable_def)
  have complete: "follows caches cache (completedCache (crNow R) (setCachePhase ModelCachePhaseReady ?placed))"
    and running: "follows caches cache (setCondition now CacheConditionReady ConditionFalse r1 m1
      (setCondition now CacheConditionDownloaded ConditionFalse r2 m2 (setCachePhase ModelCachePhaseDownloading ?placed)))"
    and failing: "follows caches cache (failedCache now CacheReasonDownloadFailed message
      (setCondition now CacheConditionReady ConditionFalse r1 m1
        (setCondition now CacheConditionDownloaded ConditionFalse r2 m2 (setCachePhase ModelCachePhaseFailed ?placed))))"
    for now r1 r2 m1 m2 message
    using place assms(3,4) claims
    by (auto simp: follows_def cache_ok_def completedCache_def failedCache_def Let_def occupies_def)
  show "tracks caches cache
     (if jsComplete (ObserveDownloaderJob job)
      then andThen (patchStatus R original CacheReasonCacheReady ''Cache is ready''
             (completedCache (crNow R) (setCachePhase ModelCachePhaseReady ?placed)))
             (\<lambda>(result, cache'). andThen (observeDownload R original job result) (\<lambda>_. ok (result, cache')))
      else if jsFailedTerminal (ObserveDownloaderJob job)
      then patchStatus R original CacheReasonDownloadFailed (jsMessage (ObserveDownloaderJob job))
             (failedCache (crNow R) CacheReasonDownloadFailed (jsMessage (ObserveDownloaderJob job))
               (setCondition (crNow R) CacheConditionReady ConditionFalse CacheReasonCacheFailed
                 (''Download failed: '' @ jsMessage (ObserveDownloaderJob job))
                 (setCondition (crNow R) CacheConditionDownloaded ConditionFalse CacheReasonDownloadFailed
                   (''Download failed: '' @ jsMessage (ObserveDownloaderJob job))
                   (setCachePhase ModelCachePhaseFailed ?placed))))
      else patchStatus R original [] []
             (setCondition (crNow R) CacheConditionReady ConditionFalse CacheReasonDownloadRunning ''Download is running''
               (setCondition (crNow R) CacheConditionDownloaded ConditionFalse CacheReasonDownloadRunning
                 (''Download is running ('' @ itoa (jsActive (ObserveDownloaderJob job)) @ '' active, '' @
                  itoa (jsSucceeded (ObserveDownloaderJob job)) @ '' succeeded, '' @ itoa (jsFailed (ObserveDownloaderJob job)) @ '' failed)'')
                 (setCachePhase ModelCachePhaseDownloading ?placed))))"
    using assms(1) complete running failing
    by (intro yields_if tracks_patch yields_andThen_post [OF tracks_patch]) (auto intro!: yield_rules yields_ok)
qed

lemma tracks_waitForJob: "cache_ok (mcStatus cache) \<Longrightarrow> tracks caches cache (waitForJob cache)"
  unfolding waitForJob_def by (rule yields_ok) (simp add: follows_self)

lemma tracks_runDownload:
  assumes "cachePatchesApply (crClient R)" "cache_ok (mcStatus cache)" "claimable caches cache placement"
  shows "tracks caches cache (runDownload R what original placement cache)"
  unfolding runDownload_def
  by (rule yields_andThen_post [OF during_yields [OF reconcileDownloaderJob_yields]])
    (use assms in \<open>auto intro!: yields_case_option tracks_waitForJob tracks_project\<close>)

text \<open>The list calls of one reconciliation answer with the caches as they are.\<close>

definition listsCaches :: "('c, 'q) cacheClient \<Rightarrow> ModelCache list \<Rightarrow> bool" where
  "listsCaches K caches \<longleftrightarrow> (\<forall>c listed c'. kcListModelCaches K c = (Inr listed, c') \<longrightarrow> listed = caches)"

lemma CachePlan_free:
  assumes "CachePlan Q p (Some cache) nodes caches = Inr pl" and "ctNodeName st = pmNodeName pl" "ctPath st = pmPath pl"
    and "pmNodeName pl \<noteq> []"
  shows "freePlace caches (mcUID cache) st"
proof -
  let ?st = "cpStorage (mcSpec cache)"
  obtain sz pinned where plan: "qParse Q (cgSize ?st) = Some sz" "placeOnCandidates Q p cache (cgPath ?st) sz pinned caches = Inr pl"
    using assms(1) by (rule CachePlan_InrE)
  obtain node where "canReserve Q (qValue Q sz) (reservedBytesByNode Q caches (mcUID cache))
       (conflictingNodesForPath caches (mcUID cache) (cgPath ?st)) (pcCapacityAnnotation p) node"
      "pl = \<lparr>pmNodeName = ndName node, pmNodeUID = ndUID node, pmPath = cgPath ?st, pmReservedSize = sz\<rparr>"
    using plan(2,1) by (rule placeOnCandidates_InrD)
  then have "ndName node \<notin> set (conflictingNodesForPath caches (mcUID cache) (cgPath ?st))" "pmNodeName pl = ndName node" "pmPath pl = cgPath ?st"
    by (auto simp: canReserve_def)
  then show ?thesis
    using assms(2-4) unfolding freePlace_def samePlaceStatus_def conflictingNodesForPath_def by (force simp: image_iff)
qed

lemma resolvePlacement_yields:
  assumes "listsCaches (crClient R) caches"
  shows "yields (claimable caches cache) (resolvePlacement R cache)"
proof -
  have lists: "yields (\<lambda>listed. listed = caches) (cacheCall what (kcListModelCaches (crClient R)))" for what
    unfolding cacheCall_def by (rule yields_onOutcome_post) (use assms in \<open>auto simp: listsCaches_def intro: yields_ok yields_throw\<close>)
  have planned: "claimable caches cache \<lparr>chNodeName = pmNodeName pl, chNodeUID = pmNodeUID pl, chPath = pmPath pl, chReservedSize = pmReservedSize pl\<rparr>"
    if "CachePlan (crQuantities R) (crPlanner R) (Some cache) nodes caches = Inr pl" for nodes pl
    using CachePlan_free [OF that] by (simp add: claimable_def)
  show ?thesis
    unfolding resolvePlacement_def
    by (intro yields_andThen yields_andThen_post [OF lists] yields_case_sum yields_throw yields_ok) (simp add: planned)
qed

lemma tracks_recordPlacement:
  assumes "cachePatchesApply (crClient R)" "claimable caches cache placement"
  shows "tracks caches cache (recordPlacement R original placement cache)"
proof -
  have "follows caches cache (reservedCache (crNow R) (crQuantities R) placement cache)"
    unfolding follows_def
  proof (intro conjI impI)
    let ?st = "mcStatus (reservedCache (crNow R) (crQuantities R) placement cache)"
    have place: "ctNodeName ?st = chNodeName placement" "ctPath ?st = chPath placement"
      by (simp_all add: cache_writers)
    show "mcUID (reservedCache (crNow R) (crQuantities R) placement cache) = mcUID cache" "cache_ok ?st"
      by (simp_all add: cache_writers cache_ok_def)
    assume "occupies ?st"
    then have "chNodeName placement \<noteq> []" using place by (simp add: occupies_def)
    then show "occupies (mcStatus cache) \<and> samePlaceStatus (mcStatus cache) ?st \<or> freePlace caches (mcUID cache) ?st"
      using assms(2) place unfolding claimable_def by blast
  qed
  then show ?thesis
    unfolding recordPlacement_def using assms(1)
    by (intro yields_andThen_post [OF tracks_patch]) (auto intro!: yield_rules yields_ok)
qed

lemma tracks_placeCache:
  assumes K: "cachePatchesApply (crClient R)" and "cache_ok (mcStatus cache)" "listsCaches (crClient R) caches"
  shows "tracks caches cache (placeCache R cache cache)"
proof -
  have refused: "tracks caches cache (case failure of
      CachePlacementFailed err \<Rightarrow> (case placementReason err of
          Some reason \<Rightarrow> setPending R cache reason (crErrorText R (PlanMessage err)) cache
        | None \<Rightarrow> throw (CacheFailedDuring ''resolve cache placement'' failure))
    | _ \<Rightarrow> throw (CacheFailedDuring ''resolve cache placement'' failure))" for failure
    by (cases failure) (use assms in \<open>simp_all add: yields_throw yields_case_option tracks_pending\<close>)
  have placed: "claimable caches cache placement" if "resolvePlacement R cache c = (Inr placement, c')" for placement c c'
    by (rule yieldsD [OF resolvePlacement_yields [OF assms(3)] that])
  show ?thesis
    unfolding placeCache_def
    by (rule yields_onOutcome_post; unfold sum.case)
      (use assms(1,2) placed refused in \<open>auto intro!: yields_if tracks_recordPlacement tracks_runDownload simp del: not_not\<close>)
qed

lemma tracks_acquire:
  assumes K: "cachePatchesApply (crClient R)" and "cache_ok (mcStatus cache)" "listsCaches (crClient R) caches"
  shows "tracks caches cache (requireSecret R cache cache (placeCache R cache cache))"
  unfolding requireSecret_def Let_def using assms
  by (intro yields_if yields_andThen yields_case_option tracks_pending tracks_placeCache)

lemma inFlight_yields:
  assumes "cache_ok (mcStatus cache)" "ctPhase (mcStatus cache) = ModelCachePhaseDownloading"
  shows "yields (\<lambda>found. case found of Some placement \<Rightarrow> claimable caches cache placement | None \<Rightarrow> True) (inFlightPlacement R cache)"
proof -
  have "claimable caches cache (recordedPlacement uid amount cache)" for uid amount
    using assms by (auto simp: claimable_def recordedPlacement_def occupies_def cache_ok_def samePlaceStatus_def)
  then show ?thesis
    unfolding inFlightPlacement_def Let_def
    by (intro yields_andThen yields_case_option yields_if yields_ok yields_throw) simp_all
qed

lemma tracks_continueDownload:
  assumes K: "cachePatchesApply (crClient R)" and ok: "cache_ok (mcStatus cache)" "ctPhase (mcStatus cache) = ModelCachePhaseDownloading"
    and continue: "tracks caches cache continue"
  shows "tracks caches cache (continueDownload R cache cache continue)"
proof -
  have restart: "tracks caches cache (restartDownload R cache cache)"
    unfolding restartDownload_def using K ok(1)
    by (intro yields_andThen yields_if tracks_waitForJob yields_andThen_post [OF tracks_patch [OF _ restarted_follows]])
      (auto intro!: yield_rules yields_ok)
  show ?thesis
    unfolding continueDownload_def using K ok(1) continue restart
    by (intro yields_case_option tracks_fail yields_if yields_andThen_post [OF inFlight_yields [OF ok]])
      (auto intro!: yield_rules tracks_runDownload tracks_waitForJob split: option.splits)
qed

lemma tracks_reconcileCache:
  assumes K: "cachePatchesApply (crClient R)" and ok: "cache_ok (mcStatus cache)" and "listsCaches (crClient R) caches"
  shows "tracks caches cache (reconcileCache R cache)"
proof -
  note acquire = tracks_acquire [OF assms]
  have checked: "tracks caches cache (case x of (ready, nodeLost) \<Rightarrow>
      if ready then setReady R cache cache
      else if nodeLost then setPending R cache reason1 message1 cache
      else if hasCompletedArtifact cache then failCache R cache reason2 message2 cache
      else if ctPhase (mcStatus cache) = ModelCachePhaseDownloading \<and> ctInputHash (mcStatus cache) \<noteq> []
        then continueDownload R cache cache (requireSecret R cache cache (placeCache R cache cache))
      else requireSecret R cache cache (placeCache R cache cache))"
    if "fst x \<longrightarrow> readyable cache" for x reason1 message1 reason2 message2
    using that K ok acquire
    by (cases x) (auto intro!: yields_if tracks_setReady tracks_pending tracks_fail tracks_continueDownload)
  show ?thesis
    unfolding reconcileCache_def Let_def using K ok
    by (intro yields_case_option yields_case_sum tracks_fail yields_andThen_post [OF during_yields [OF readyPlacement_yields]] checked)
qed

section \<open>Histories\<close>

text \<open>
  The caches of a cluster: users create, edit and delete them, the deployment controller notes when one was used, and the cache
  controller, which handles one request at a time, reconciles them against the caches as they are.
\<close>

inductive cacheHistory :: "('c, 'q) ModelCacheReconciler \<Rightarrow> ModelCache list \<Rightarrow> bool" for R where
  initial: "cacheHistory R []"
| created: "cacheHistory R caches \<Longrightarrow> mcUID cache \<notin> mcUID ` set caches \<Longrightarrow> mcStatus cache = emptyCacheStatus \<Longrightarrow>
    cacheHistory R (caches @ [cache])"
| edited: "cacheHistory R (before @ cache # later) \<Longrightarrow> mcUID cache' = mcUID cache \<Longrightarrow>
    mcStatus cache' = (mcStatus cache)\<lparr>ctLastUsedTime := used\<rparr> \<Longrightarrow> cacheHistory R (before @ cache' # later)"
| removed: "cacheHistory R (before @ cache # later) \<Longrightarrow> cacheHistory R (before @ later)"
| reconciled: "cacheHistory R (before @ cache # later) \<Longrightarrow> cachePatchesApply K \<Longrightarrow> listsCaches K (before @ cache # later) \<Longrightarrow>
    reconcileCache (R\<lparr>crClient := K, crNow := now\<rparr>) cache c = (Inr (result, cache'), c') \<Longrightarrow> cacheHistory R (before @ cache' # later)"

definition exclusivePlaces :: "ModelCache list \<Rightarrow> bool" where
  "exclusivePlaces caches \<longleftrightarrow>
     distinct (map mcUID caches) \<and>
     (\<forall>cache \<in> set caches. cache_ok (mcStatus cache)) \<and>
     (\<forall>a \<in> set caches. \<forall>b \<in> set caches. mcUID a \<noteq> mcUID b \<longrightarrow> occupies (mcStatus a) \<longrightarrow> occupies (mcStatus b) \<longrightarrow>
        \<not> samePlaceStatus (mcStatus a) (mcStatus b))"

lemma samePlaceStatus_sym: "samePlaceStatus s t \<longleftrightarrow> samePlaceStatus t s"
  by (auto simp: samePlaceStatus_def)

lemma samePlaceStatus_trans: "samePlaceStatus s t \<Longrightarrow> samePlaceStatus t u \<Longrightarrow> samePlaceStatus s u"
  by (auto simp: samePlaceStatus_def)

text \<open>A write that follows keeps the places exclusive.\<close>

lemma exclusive_follows:
  assumes "exclusivePlaces (before @ cache # later)" and "follows (before @ cache # later) cache cache'"
  shows "exclusivePlaces (before @ cache' # later)"
proof -
  let ?caches = "before @ cache # later"
  have uid: "mcUID cache' = mcUID cache" and ok: "cache_ok (mcStatus cache')" using assms(2) by (auto simp: follows_def)
  have apart: "\<not> samePlaceStatus (mcStatus cache') (mcStatus other)"
    if "occupies (mcStatus cache')" "other \<in> set before \<union> set later" "occupies (mcStatus other)" for other
  proof -
    have other: "other \<in> set ?caches" "mcUID other \<noteq> mcUID cache" "\<not> releasedByFailure other"
      using that(2) assms(1) occupies_live [OF that(3)] by (auto simp: exclusivePlaces_def image_iff)
    note held = that(1)
    consider "occupies (mcStatus cache)" "samePlaceStatus (mcStatus cache) (mcStatus cache')" | "freePlace ?caches (mcUID cache) (mcStatus cache')"
      using assms(2) held unfolding follows_def by blast
    then show ?thesis
    proof cases
      case 1
      then have "\<not> samePlaceStatus (mcStatus cache) (mcStatus other)"
        using assms(1) other that(3) unfolding exclusivePlaces_def by (metis in_set_conv_decomp)
      then show ?thesis using 1(2) samePlaceStatus_trans by blast
    next
      case 2
      then show ?thesis using other unfolding freePlace_def samePlaceStatus_sym [of "mcStatus cache'"] by blast
    qed
  qed
  show ?thesis
    unfolding exclusivePlaces_def
  proof (intro conjI ballI impI)
    show "distinct (map mcUID (before @ cache' # later))" using assms(1) uid by (simp add: exclusivePlaces_def)
    show "cache_ok (mcStatus x)" if "x \<in> set (before @ cache' # later)" for x
      using that assms(1) ok by (auto simp: exclusivePlaces_def)
    show "\<not> samePlaceStatus (mcStatus a) (mcStatus b)"
      if "a \<in> set (before @ cache' # later)" "b \<in> set (before @ cache' # later)" "mcUID a \<noteq> mcUID b"
        "occupies (mcStatus a)" "occupies (mcStatus b)" for a b
    proof (cases "a = cache' \<or> b = cache'")
      case True
      then show ?thesis using that apart samePlaceStatus_sym by auto
    next
      case False
      then show ?thesis using that assms(1) by (auto simp: exclusivePlaces_def)
    qed
  qed
qed

lemma history_exclusive: "cacheHistory R caches \<Longrightarrow> exclusivePlaces caches"
proof (induction rule: cacheHistory.induct)
  case (created caches cache)
  have "\<not> occupies (mcStatus cache)" "cache_ok (mcStatus cache)"
    using created(3) by (simp_all add: occupies_def cache_ok_def emptyCacheStatus_def cacheCondition_def)
  then show ?case using created by (auto simp: exclusivePlaces_def)
next
  case (edited before cache later cache' used)
  have "follows (before @ cache # later) cache cache'"
    using edited(2-4) by (auto simp: follows_def exclusivePlaces_def cache_ok_def occupies_def samePlaceStatus_def)
  then show ?case using edited(4) exclusive_follows by blast
next
  case (reconciled before cache later K now c result cache' c')
  have "follows (before @ cache # later) cache (snd (result, cache'))"
    using reconciled by (intro yieldsD [OF tracks_reconcileCache]) (auto simp: exclusivePlaces_def)
  then show ?case using reconciled(5) exclusive_follows by auto
qed (auto simp: exclusivePlaces_def)

section \<open>Completed artifacts\<close>

text \<open>The reconciler with other Job operations.\<close>

definition withJobs ::
  "('c, 'q) ModelCacheReconciler \<Rightarrow> ('q Job \<Rightarrow> ('c, 'q Job) call) \<Rightarrow> ('q Job \<Rightarrow> ('c, unit) call) \<Rightarrow> ('c, 'q) ModelCacheReconciler" where
  "withJobs R create delete = R\<lparr>crClient := (crClient R)\<lparr>kcCreateJob := create, kcDeleteJob := delete\<rparr>\<rparr>"

lemma withJobs_fields [simp]:
  "crChecks (withJobs R f g) = crChecks R" "crQuantities (withJobs R f g) = crQuantities R" "crErrorText (withJobs R f g) = crErrorText R"
  "crNow (withJobs R f g) = crNow R" "crPlanner (withJobs R f g) = crPlanner R"
  "crPendingRequeueAfter (withJobs R f g) = crPendingRequeueAfter R" "crDownloadRequeueAfter (withJobs R f g) = crDownloadRequeueAfter R"
  "kcListModelCaches (crClient (withJobs R f g)) = kcListModelCaches (crClient R)"
  "kcPatchModelCacheStatus (crClient (withJobs R f g)) = kcPatchModelCacheStatus (crClient R)"
  "kcObserve (crClient (withJobs R f g)) = kcObserve (crClient R)"
  "kcGetNode (crClient (withJobs R f g)) = kcGetNode (crClient R)" "kcGetJob (crClient (withJobs R f g)) = kcGetJob (crClient R)"
  by (simp_all add: withJobs_def)

lemma withJobs_observe: "cacheObserve (crClient (withJobs R f g)) = cacheObserve (crClient R)"
  unfolding fun_eq_iff cacheObserve_def withJobs_fields by simp

lemma withJobs_inventory: "observeCacheInventory (withJobs R f g) = observeCacheInventory R"
  unfolding fun_eq_iff observeCacheInventory_def withJobs_fields withJobs_observe by simp

lemma withJobs_patch: "patchStatus (withJobs R f g) = patchStatus R"
  unfolding fun_eq_iff patchStatus_def requeueForCachePhase_def withJobs_fields withJobs_observe withJobs_inventory by simp

lemma withJobs_fail: "failCache (withJobs R f g) = failCache R"
  unfolding fun_eq_iff failCache_def withJobs_fields withJobs_patch by simp

lemma withJobs_pending: "setPending (withJobs R f g) = setPending R"
  unfolding fun_eq_iff setPending_def withJobs_fields withJobs_patch by simp

lemma withJobs_ready: "setReady (withJobs R f g) = setReady R"
  unfolding fun_eq_iff setReady_def withNodeUID_def withJobs_fields withJobs_patch withJobs_fail by simp

lemma withJobs_placement: "readyPlacementMatches (withJobs R f g) = readyPlacementMatches R"
  unfolding fun_eq_iff readyPlacementMatches_def Let_def withJobs_fields by simp

lemmas withJobs = withJobs_fields withJobs_fail withJobs_pending withJobs_ready withJobs_placement

text \<open>The branches that a cache with a completed artifact can take.\<close>

lemma reconcile_completed:
  assumes "hasCompletedArtifact cache"
  shows "reconcileCache R cache =
     (case ValidateModelCache (crChecks R) (crQuantities R) cache of
        Some err \<Rightarrow> failCache R cache CacheReasonSpecInvalid (crErrorText R (SpecMessage err)) cache
      | None \<Rightarrow>
          (case PlanPath (crPlanner R) (Some cache) of
             Inl err \<Rightarrow> failCache R cache CacheReasonSpecInvalid (crErrorText R (PlanMessage err)) cache
           | Inr _ \<Rightarrow>
               andThen (during ''check ready cache placement'' (readyPlacementMatches R cache)) (\<lambda>(ready, nodeLost).
                 if ready then setReady R cache cache
                 else if nodeLost then
                   setPending R cache CacheReasonNodeLost
                     (''Previously selected node '' @ quoted (ctNodeName (mcStatus cache)) @
                      '' no longer exists; cache location is retained'') cache
                 else
                   failCache R cache CacheReasonIdentityChanged
                     ''Ready cache identity is immutable; create a new ModelCache for a different repo, revision, path, or node'' cache)))"
  using assms by (simp add: reconcileCache_def Let_def)

lemma patch_keeps_place:
  assumes "cachePatchesApply (crClient R)" "samePlaceStatus (mcStatus cache) (mcStatus cache')"
  shows "yields (\<lambda>x. samePlaceStatus (mcStatus cache) (mcStatus (snd x))) (patchStatus R original reason message cache')"
  by (rule yields_patch [OF assms(1)]) (use assms(2) in simp)

lemma writes_keep_place:
  assumes "cachePatchesApply (crClient R)"
  shows "yields (\<lambda>x. samePlaceStatus (mcStatus cache) (mcStatus (snd x))) (failCache R cache reason message cache)"
    and "yields (\<lambda>x. samePlaceStatus (mcStatus cache) (mcStatus (snd x))) (setPending R cache reason message cache)"
    and "yields (\<lambda>x. samePlaceStatus (mcStatus cache) (mcStatus (snd x))) (setReady R cache cache)"
proof -
  show fails: "yields (\<lambda>x. samePlaceStatus (mcStatus cache) (mcStatus (snd x))) (failCache R cache reason message cache)" for reason message
    unfolding failCache_def by (rule patch_keeps_place [OF assms]) (simp add: samePlaceStatus_def cache_writers)
  show "yields (\<lambda>x. samePlaceStatus (mcStatus cache) (mcStatus (snd x))) (setPending R cache reason message cache)"
    unfolding setPending_def by (rule patch_keeps_place [OF assms]) (simp add: samePlaceStatus_def cache_writers)
  show "yields (\<lambda>x. samePlaceStatus (mcStatus cache) (mcStatus (snd x))) (setReady R cache cache)"
    unfolding setReady_def Let_def
    by (intro yields_case_option fails yields_andThen_post [OF withNodeUID_yields] patch_keeps_place [OF assms])
      (auto simp: samePlaceStatus_def cache_writers)
qed

section \<open>Properties\<close>


text \<open>
  C21. A cache is offered to runtimes exactly while its phase is Ready: in every history the lookup that runtime reconciliation
  makes succeeds if and only if the phase is Ready, and then it answers with a directory that the cache holds and has downloaded.
\<close>

theorem ready_cache_usable:
  assumes "cacheHistory R caches" and "cache \<in> set caches"
  shows "(clReady (cacheLookup cache) \<longleftrightarrow> ctPhase (mcStatus cache) = ModelCachePhaseReady) \<and>
     (clReady (cacheLookup cache) \<longrightarrow> occupies (mcStatus cache) \<and> hasCompletedArtifact cache \<and>
        clNodeName (cacheLookup cache) = ctNodeName (mcStatus cache) \<and> clPath (cacheLookup cache) = ctPath (mcStatus cache))"
proof -
  have ok: "cache_ok (mcStatus cache)" using history_exclusive [OF assms(1)] assms(2) by (simp add: exclusivePlaces_def)
  have "list_ex (\<lambda>c. cType c = CacheConditionReady \<and> cStatus c = ConditionTrue) (ctConditions (mcStatus cache))"
    if "cacheCondition (mcStatus cache) CacheConditionReady = Some ConditionTrue"
    using that by (auto simp: cacheCondition_def FindCondition_eq_find find_Some_iff list_ex_iff intro!: bexI [OF _ nth_mem])
  then show ?thesis
    using ok by (auto simp: cacheLookup_def Let_def noCacheResult_def cache_ok_def occupies_def hasCompletedArtifact_iff)
qed

text \<open>
  C22. A downloaded artifact is never moved, downloaded again or deleted: a reconciliation of a cache whose download completed leaves
  its node and path as they are, whatever the spec now says and even when the node is gone, and runs the same whatever creating or
  deleting a Job would do, so it does neither.
\<close>

theorem completed_artifact_retained:
  assumes "hasCompletedArtifact cache" and "cachePatchesApply (crClient R)"
    and "reconcileCache R cache c = (Inr (result, cache'), c')"
  shows "ctNodeName (mcStatus cache') = ctNodeName (mcStatus cache) \<and> ctPath (mcStatus cache') = ctPath (mcStatus cache) \<and>
     reconcileCache (withJobs R create delete) cache c = (Inr (result, cache'), c')"
proof -
  have "yields (\<lambda>x. samePlaceStatus (mcStatus cache) (mcStatus (snd x))) (reconcileCache R cache)"
    unfolding reconcile_completed [OF assms(1)]
    by (intro yields_case_option yields_case_sum yields_andThen) (auto intro!: yields_if writes_keep_place [OF assms(2)])
  then have "samePlaceStatus (mcStatus cache) (mcStatus cache')" using assms(3) yieldsD by fastforce
  moreover have "reconcileCache (withJobs R create delete) cache = reconcileCache R cache"
    unfolding reconcile_completed [OF assms(1)] withJobs by (rule refl)
  ultimately show ?thesis using assms(3) by (simp add: samePlaceStatus_def)
qed

text \<open>A cluster with two nodes and the given caches; patches are answered with the object that was sent.\<close>

definition sampleCacheClient :: "ModelCache list \<Rightarrow> (unit, int) cacheClient" where
  "sampleCacheClient caches =
     \<lparr>kcGetModelCache = (\<lambda>_ _ c. (Inl NotFound, c)), kcListModelCaches = (\<lambda>c. (Inr caches, c)),
      kcPatchModelCacheStatus = (\<lambda>_ after c. (Inr after, c)), kcGetNode = (\<lambda>_ c. (Inl NotFound, c)),
      kcListNodes = (\<lambda>c. (Inr sampleNodes, c)), kcGetSecret = (\<lambda>_ _ c. (Inl NotFound, c)),
      kcGetJob = (\<lambda>_ _ c. (Inl NotFound, c)), kcCreateJob = (\<lambda>job c. (Inr job, c)), kcDeleteJob = (\<lambda>_ c. (Inr (), c)),
      kcObserve = (\<lambda>_ c. c)\<rparr>"

definition sampleCacheReconciler :: "ModelCache list \<Rightarrow> (unit, int) ModelCacheReconciler" where
  "sampleCacheReconciler caches =
     \<lparr>crClient = sampleCacheClient caches, crChecks = lax_checks, crQuantities = whole_quantity, crErrorText = (\<lambda>_. ''error''), crNow = 100,
      crBuilder = sampleBuilder, crPlanner = sampleCachePlanner, crPendingRequeueAfter = 30, crDownloadRequeueAfter = 10\<rparr>"

definition freshCache :: "string \<Rightarrow> string \<Rightarrow> ModelCache" where
  "freshCache name path = (sampleCache name ModelCachePhaseUnset [] path)\<lparr>mcStatus := emptyCacheStatus\<rparr>"

definition cacheX :: ModelCache where "cacheX = freshCache ''x'' ''/cache/x''"
definition cacheY :: ModelCache where "cacheY = freshCache ''y'' ''/cache/y''"

definition samplePlace :: "string \<Rightarrow> string \<Rightarrow> int CachePlacement" where
  "samplePlace node path = \<lparr>chNodeName = node, chNodeUID = ''uid-'' @ node, chPath = path, chReservedSize = 60\<rparr>"

definition placedX :: ModelCache where "placedX = reservedCache 100 whole_quantity (samplePlace ''a'' ''/cache/x'') cacheX"
definition placedY :: ModelCache where "placedY = reservedCache 100 whole_quantity (samplePlace ''b'' ''/cache/y'') cacheY"

lemma place_x: "fst (reconcileCache (sampleCacheReconciler ([] @ cacheX # [cacheY])) cacheX ()) = Inr (\<lparr>reRequeue = True, reRequeueAfter = 0\<rparr>, placedX)"
  by code_simp

lemma place_y: "fst (reconcileCache (sampleCacheReconciler ([placedX] @ cacheY # [])) cacheY ()) = Inr (\<lparr>reRequeue = True, reRequeueAfter = 0\<rparr>, placedY)"
  by code_simp

lemma sampleCacheClient_laws: "cachePatchesApply (sampleCacheClient caches)" "listsCaches (sampleCacheClient caches) caches"
  by (simp_all add: cachePatchesApply_def listsCaches_def sampleCacheClient_def)

lemma sampleCacheReconciler_eq:
  "(sampleCacheReconciler [])\<lparr>crClient := sampleCacheClient caches, crNow := 100\<rparr> = sampleCacheReconciler caches"
  by (simp add: sampleCacheReconciler_def)

lemma sample_step:
  assumes "cacheHistory (sampleCacheReconciler []) (before @ cache # later)"
    and "fst (reconcileCache (sampleCacheReconciler (before @ cache # later)) cache ()) = Inr (result, cache')"
  shows "cacheHistory (sampleCacheReconciler []) (before @ cache' # later)"
proof (rule cacheHistory.reconciled [OF assms(1) sampleCacheClient_laws])
  show "reconcileCache ((sampleCacheReconciler [])\<lparr>crClient := sampleCacheClient (before @ cache # later), crNow := 100\<rparr>) cache () =
      (Inr (result, cache'), ())"
    unfolding sampleCacheReconciler_eq using assms(2) by (simp add: prod_eq_iff)
qed

lemma sample_history: "cacheHistory (sampleCacheReconciler []) [placedX, placedY]"
proof -
  have new: "mcStatus cacheX = emptyCacheStatus" "mcStatus cacheY = emptyCacheStatus" "mcUID cacheY \<noteq> mcUID cacheX"
    by code_simp+
  have "cacheHistory (sampleCacheReconciler []) (([] @ [cacheX]) @ [cacheY])"
    by (intro cacheHistory.created cacheHistory.initial) (simp_all add: new)
  then have "cacheHistory (sampleCacheReconciler []) ([] @ placedX # [cacheY])"
    by (intro sample_step [OF _ place_x]) (simp only: append.simps)
  then have "cacheHistory (sampleCacheReconciler []) ([placedX] @ placedY # [])"
    by (intro sample_step [OF _ place_y]) (simp only: append.simps)
  then show ?thesis by (simp only: append.simps)
qed


theorem ready_cache_usable_witness:
  "cacheHistory (sampleCacheReconciler []) [placedX, placedY] \<and>
   (clReady (cacheLookup placedX) \<longleftrightarrow> ctPhase (mcStatus placedX) = ModelCachePhaseReady)"
  using ready_cache_usable [OF sample_history, of placedX] sample_history by (auto simp only: list.set insert_iff simp_thms)

text \<open>A downloaded cache whose spec now names another directory.\<close>

definition movedX :: ModelCache where
  "movedX = (completedCache 100 (setCachePhase ModelCachePhaseReady placedX))\<lparr>mcSpec := mcSpec cacheY\<rparr>"

definition refusedX :: ModelCache where
  "refusedX = failedCache 100 CacheReasonIdentityChanged
     ''Ready cache identity is immutable; create a new ModelCache for a different repo, revision, path, or node'' movedX"

lemma refuse_moved: "fst (reconcileCache (sampleCacheReconciler [movedX]) movedX ()) = Inr (noResult, refusedX)"
  by code_simp

theorem completed_artifact_retained_witness:
  "\<exists>cache'. fst (reconcileCache (withJobs (sampleCacheReconciler [movedX]) (\<lambda>_ c. (Inl NotFound, c)) (\<lambda>_ c. (Inl NotFound, c))) movedX ()) =
     Inr (noResult, cache') \<and> ctPath (mcStatus cache') = ctPath (mcStatus movedX)"
proof -
  have "hasCompletedArtifact movedX" by code_simp
  moreover have "cachePatchesApply (crClient (sampleCacheReconciler [movedX]))"
    by (simp add: sampleCacheReconciler_def sampleCacheClient_laws)
  moreover have "reconcileCache (sampleCacheReconciler [movedX]) movedX () = (Inr (noResult, refusedX), ())"
    using refuse_moved by (simp add: prod_eq_iff)
  ultimately show ?thesis
    using completed_artifact_retained [of movedX "sampleCacheReconciler [movedX]" "()" noResult refusedX "()"] by (metis fst_conv)
qed

text \<open>
  A failed cache no longer owns its place, so another cache may take it. When the failed cache is later set to pending, its
  place is kept in the status: both are live owners again, and the planner refuses the place to both.
\<close>

lemma pending_reclaims_released_place:
  "(let failed = failedCache 100 CacheReasonDownloadFailed ''failed'' placedX;
        heir = onCacheStatus (\<lambda>_. mcStatus placedX) cacheY;
        pending = pendingCache 100 failed CacheReasonNoEligibleNode ''none'' failed
    in path_exclusive [failed, heir] \<and> \<not> path_exclusive [pending, heir])"
  by code_simp

end
