(* ===== verification/Drain_Checker.thy ===== *)
theory Drain_Checker
  imports Lifecycle_Drain Gateway_Serving Discovery
begin

text \<open>
  \<open>operator/controllers/drain_checker.go\<close>: how the operator asks the gateways whether a backend is drained. Listing EndpointSlices,
  reading a file, parsing a URL and sending a request are fields of the record \<open>drainEnv\<close>; a response is its status and the flags that
  its JSON body decodes to. The theorems join the checker with the gateway's drain report and with the deactivation of a deployment.
\<close>

section \<open>What a check runs against\<close>

record drainRequest =
  drURL :: URL
  drQuery :: "(string \<times> string list) list"
  drAuthorization :: "string option"

record drainResponse =
  dpStatus :: int
  dpBackends :: "bool list option"

record 'c drainEnv =
  deListEndpointSlices :: "string \<Rightarrow> ('c, EndpointSlice list) call"
  deReadFile :: "string \<Rightarrow> (unit, 'c, string) fallible"
  deParse :: "string \<Rightarrow> (URL \<times> (string \<times> string list) list) option"
  deRequestable :: "URL \<Rightarrow> (string \<times> string list) list \<Rightarrow> bool"
  deDo :: "drainRequest \<Rightarrow> (unit, 'c, drainResponse) fallible"

datatype drain_error =
    DrainEndpointRequired
  | DrainEndpointUnparsable
  | DrainSchemeInvalid
  | DrainHostRequired
  | DrainNamespaceRequired
  | DrainServiceNameRequired
  | DrainPortInvalid
  | DrainListFailed api_error
  | NoReadyGateways string string
  | DrainTokenUnreadable
  | DrainTokenMissing
  | DrainRequestUnbuildable
  | DrainRequestFailed
  | DrainStatusCode int
  | DrainBodyUndecodable
  | DrainBackendCount nat string string
  | DrainQueryFailed string drain_error

section \<open>Tokens\<close>

definition newDrainTokenSource :: "string \<Rightarrow> string option" where
  "newDrainTokenSource path = (let trimmed = trim_space path in if trimmed = [] then None else Some trimmed)"

definition tokenLines :: "string \<Rightarrow> string list" where
  "tokenLines content =
     filter (\<lambda>line. line \<noteq> []) (concat (map (split_on CHR 0x0D) (split_on CHR 0x0A content)))"

definition fileToken :: "'c drainEnv \<Rightarrow> string \<Rightarrow> (drain_error, 'c, string) fallible" where
  "fileToken E path =
     onOutcome (deReadFile E path) (\<lambda>outcome. case outcome of
       Inl _ \<Rightarrow> throw DrainTokenUnreadable
     | Inr content \<Rightarrow>
         (case List.find (\<lambda>token. token \<noteq> []) (map trim_space (tokenLines content)) of
            Some token \<Rightarrow> ok token
          | None \<Rightarrow> throw DrainTokenMissing))"

section \<open>One query\<close>

definition drainQuery :: "(string \<times> string list) list \<Rightarrow> string \<Rightarrow> string \<Rightarrow> (string \<times> string list) list" where
  "drainQuery values namespace model = AList.update ''model'' [model] (AList.update ''namespace'' [namespace] values)"

definition authorization :: "'c drainEnv \<Rightarrow> string option \<Rightarrow> (drain_error, 'c, string option) fallible" where
  "authorization E token =
     (case token of
        None \<Rightarrow> ok None
      | Some path \<Rightarrow> andThen (fileToken E path) (\<lambda>value. ok (Some (''Bearer '' @ value))))"

definition readDrainResponse :: "string \<Rightarrow> string \<Rightarrow> drainResponse \<Rightarrow> (drain_error, bool) result" where
  "readDrainResponse namespace model response =
     (if dpStatus response \<noteq> 200 then Inl (DrainStatusCode (dpStatus response))
      else (case dpBackends response of
              None \<Rightarrow> Inl DrainBodyUndecodable
            | Some backends \<Rightarrow>
                if length backends \<noteq> 1 then Inl (DrainBackendCount (length backends) namespace model)
                else Inr (backends ! 0)))"

definition queryDrainEndpoint ::
  "'c drainEnv \<Rightarrow> URL \<Rightarrow> (string \<times> string list) list \<Rightarrow> string \<Rightarrow> string \<Rightarrow> string option \<Rightarrow> (drain_error, 'c, bool) fallible" where
  "queryDrainEndpoint E endpoint values namespace model token =
     (let query = drainQuery values namespace model
      in if \<not> deRequestable E endpoint query then throw DrainRequestUnbuildable
         else andThen (authorization E token) (\<lambda>auth.
           onOutcome (deDo E \<lparr>drURL = endpoint, drQuery = query, drAuthorization = auth\<rparr>) (\<lambda>outcome. case outcome of
             Inl _ \<Rightarrow> throw DrainRequestFailed
           | Inr response \<Rightarrow>
               (case readDrainResponse namespace model response of Inl err \<Rightarrow> throw err | Inr drained \<Rightarrow> ok drained))))"

section \<open>A fixed endpoint\<close>

record HTTPDrainChecker =
  hdEndpoint :: string
  hdToken :: "string option"

definition NewHTTPDrainCheckerWithTokenFile :: "'c drainEnv \<Rightarrow> string \<Rightarrow> string \<Rightarrow> (drain_error, HTTPDrainChecker) result" where
  "NewHTTPDrainCheckerWithTokenFile E endpoint tokenFile =
     (let trimmed = trim_space endpoint
      in if trimmed = [] then Inl DrainEndpointRequired
         else (case deParse E trimmed of
                 None \<Rightarrow> Inl DrainEndpointUnparsable
               | Some (parsed, _) \<Rightarrow>
                   if uScheme parsed \<noteq> ''http'' \<and> uScheme parsed \<noteq> ''https'' then Inl DrainSchemeInvalid
                   else if uHost parsed = [] then Inl DrainHostRequired
                   else Inr \<lparr>hdEndpoint = trimmed, hdToken = newDrainTokenSource tokenFile\<rparr>))"

definition NewHTTPDrainChecker :: "'c drainEnv \<Rightarrow> string \<Rightarrow> (drain_error, HTTPDrainChecker) result" where
  "NewHTTPDrainChecker E endpoint = NewHTTPDrainCheckerWithTokenFile E endpoint []"

definition HTTPDrainComplete :: "'c drainEnv \<Rightarrow> HTTPDrainChecker option \<Rightarrow> string \<Rightarrow> string \<Rightarrow> (drain_error, 'c, bool) fallible" where
  "HTTPDrainComplete E checker namespace model =
     (case checker of
        None \<Rightarrow> ok False
      | Some h \<Rightarrow>
          (case deParse E (hdEndpoint h) of
             None \<Rightarrow> throw DrainEndpointUnparsable
           | Some (endpoint, values) \<Rightarrow>
               onOutcome (queryDrainEndpoint E endpoint values namespace model (hdToken h)) (\<lambda>outcome. case outcome of
                 Inl err \<Rightarrow> throw (DrainQueryFailed (hdEndpoint h) err)
               | Inr drained \<Rightarrow> ok drained)))"

section \<open>Every ready gateway\<close>

record EndpointSliceDrainChecker =
  edNamespace :: string
  edServiceName :: string
  edScheme :: string
  edPort :: int
  edToken :: "string option"
  edEndpointPath :: string

record EndpointSliceDrainCheckerConfig =
  egNamespace :: string
  egServiceName :: string
  egScheme :: string
  egPort :: int
  egTokenFile :: string

definition NewEndpointSliceDrainChecker :: "EndpointSliceDrainCheckerConfig \<Rightarrow> (drain_error, EndpointSliceDrainChecker) result" where
  "NewEndpointSliceDrainChecker config =
     (let namespace = trim_space (egNamespace config); serviceName = trim_space (egServiceName config);
          scheme = (if trim_space (egScheme config) = [] then ''http'' else trim_space (egScheme config))
      in if namespace = [] then Inl DrainNamespaceRequired
         else if serviceName = [] then Inl DrainServiceNameRequired
         else if scheme \<noteq> ''http'' \<and> scheme \<noteq> ''https'' then Inl DrainSchemeInvalid
         else if egPort config < 1 \<or> egPort config > 65535 then Inl DrainPortInvalid
         else Inr \<lparr>edNamespace = namespace, edServiceName = serviceName, edScheme = scheme, edPort = egPort config,
                   edToken = newDrainTokenSource (egTokenFile config), edEndpointPath = ''/drainz''\<rparr>)"

definition endpointSliceHasPort :: "EndpointSlice \<Rightarrow> int \<Rightarrow> bool" where
  "endpointSliceHasPort endpointSlice port = list_ex (\<lambda>p. ptPort p = Some port) (esPorts endpointSlice)"

definition gatewayEndpointReady :: "Endpoint \<Rightarrow> bool" where
  "gatewayEndpointReady endpoint \<longleftrightarrow>
     epTerminating endpoint \<noteq> Some True \<and> (epReady endpoint = None \<or> epReady endpoint = Some True)"

definition addressesOf :: "EndpointSliceDrainChecker \<Rightarrow> EndpointSlice \<Rightarrow> string list" where
  "addressesOf checker endpointSlice =
     (if mget (omLabels (esMeta endpointSlice)) LabelServiceName \<noteq> edServiceName checker \<or> omDeletionTimestamp (esMeta endpointSlice) \<noteq> None \<or>
         \<not> endpointSliceHasPort endpointSlice (edPort checker) then []
      else filter (\<lambda>address. address \<noteq> [])
             (map trim_space (concat (map epAddresses (filter gatewayEndpointReady (esEndpoints endpointSlice))))))"

definition sliceAddresses :: "EndpointSliceDrainChecker \<Rightarrow> EndpointSlice list \<Rightarrow> string list" where
  "sliceAddresses checker slices = sort_by (<) (remdups (concat (map (addressesOf checker) slices)))"

definition gatewayEndpointAddresses :: "'c drainEnv \<Rightarrow> EndpointSliceDrainChecker \<Rightarrow> (drain_error, 'c, string list) fallible" where
  "gatewayEndpointAddresses E checker =
     onOutcome (deListEndpointSlices E (edNamespace checker)) (\<lambda>outcome. case outcome of
       Inl err \<Rightarrow> throw (DrainListFailed err)
     | Inr slices \<Rightarrow> ok (sliceAddresses checker slices))"

definition endpointURL :: "EndpointSliceDrainChecker \<Rightarrow> string \<Rightarrow> URL" where
  "endpointURL checker address =
     \<lparr>uScheme = edScheme checker, uHost = joinHostPort address (itoa (edPort checker)), uPath = edEndpointPath checker, uRawPath = []\<rparr>"

fun queryGateways ::
  "'c drainEnv \<Rightarrow> EndpointSliceDrainChecker \<Rightarrow> string \<Rightarrow> string \<Rightarrow> string list \<Rightarrow> (drain_error, 'c, bool) fallible" where
  "queryGateways E checker namespace model [] = ok True"
| "queryGateways E checker namespace model (address # rest) =
     onOutcome (queryDrainEndpoint E (endpointURL checker address) [] namespace model (edToken checker)) (\<lambda>outcome. case outcome of
       Inl err \<Rightarrow> throw (DrainQueryFailed address err)
     | Inr drained \<Rightarrow> if \<not> drained then ok False else queryGateways E checker namespace model rest)"

definition EndpointSliceDrainComplete ::
  "'c drainEnv \<Rightarrow> EndpointSliceDrainChecker option \<Rightarrow> string \<Rightarrow> string \<Rightarrow> (drain_error, 'c, bool) fallible" where
  "EndpointSliceDrainComplete E checker namespace model =
     (case checker of
        None \<Rightarrow> ok False
      | Some s \<Rightarrow> andThen (gatewayEndpointAddresses E s) (\<lambda>addresses.
          if addresses = [] then throw (NoReadyGateways (edNamespace s) (edServiceName s))
          else queryGateways E s namespace model addresses))"

section \<open>The gateways that answer\<close>

text \<open>What the operator reads out of a reply of \<open>ServeDrainStatus\<close>; the fields of an error envelope are unknown to its decoder.\<close>

definition drainResponseOf :: "http_reply \<Rightarrow> drainResponse" where
  "drainResponseOf reply =
     \<lparr>dpStatus = hrStatus reply,
      dpBackends = Some (case hrBody reply of DrainReport backends \<Rightarrow> map dbDrainComplete backends | ErrorEnvelope _ \<Rightarrow> [])\<rparr>"

definition receivedRequest :: "drainRequest \<Rightarrow> http_request" where
  "receivedRequest request =
     \<lparr>rqMethod = ''GET'', rqURL = Some (drURL request), rqQuery = drQuery request,
      rqHeaders = (case drAuthorization request of None \<Rightarrow> [] | Some value \<Rightarrow> [(''Authorization'', [value])])\<rparr>"

text \<open>
  The gateway at an address is a proxy in a run with some requests in flight. A request that is sent to it may fail or be refused on
  the way, but a reply with status 200 is the one of its drain handler.
\<close>

definition gatewaysAnswer :: "'c drainEnv \<Rightarrow> EndpointSliceDrainChecker \<Rightarrow> (string \<Rightarrow> (Proxy \<times> backendKey multiset) option) \<Rightarrow> bool" where
  "gatewaysAnswer E checker gateways \<longleftrightarrow>
     (\<forall>address p M. gateways address = Some (p, M) \<longrightarrow> gateway_run p M \<and>
        (\<forall>request c response c'. drURL request = endpointURL checker address \<longrightarrow> deDo E request c = (Inr response, c') \<longrightarrow>
           dpStatus response = 200 \<longrightarrow> response = drainResponseOf (ServeDrainStatus p (receivedRequest request))))"

section \<open>Lemmas\<close>

lemma queryGateways_True:
  "queryGateways E checker ns model addresses c = (Inr True, c') \<Longrightarrow> a \<in> set addresses \<Longrightarrow>
   \<exists>c0 c1. queryDrainEndpoint E (endpointURL checker a) [] ns model (edToken checker) c0 = (Inr True, c1)"
proof (induction addresses arbitrary: c)
  case (Cons address rest)
  obtain outcome c1 where q: "queryDrainEndpoint E (endpointURL checker address) [] ns model (edToken checker) c = (outcome, c1)"
    by (cases "queryDrainEndpoint E (endpointURL checker address) [] ns model (edToken checker) c")
  with Cons.prems(1) have "outcome = Inr True" "queryGateways E checker ns model rest c1 = (Inr True, c')"
    by (auto simp: onOutcome_def ok_def throw_def split: sum.splits if_splits)
  then show ?case using Cons.IH Cons.prems(2) q by auto
qed simp

lemma queryDrainEndpoint_Inr:
  assumes "queryDrainEndpoint E endpoint values ns model token c = (Inr flag, c')"
  obtains auth response c0 c1 where
    "deDo E \<lparr>drURL = endpoint, drQuery = drainQuery values ns model, drAuthorization = auth\<rparr> c0 = (Inr response, c1)"
    "dpStatus response = 200" "dpBackends response = Some [flag]"
proof -
  obtain auth c0 where "onOutcome (deDo E \<lparr>drURL = endpoint, drQuery = drainQuery values ns model, drAuthorization = auth\<rparr>)
      (\<lambda>outcome. case outcome of Inl _ \<Rightarrow> throw DrainRequestFailed
        | Inr response \<Rightarrow> (case readDrainResponse ns model response of Inl err \<Rightarrow> throw err | Inr drained \<Rightarrow> ok drained)) c0 = (Inr flag, c')"
    using assms by (auto simp: queryDrainEndpoint_def Let_def andThen_Inr split: if_splits)
  moreover obtain outcome c1 where
    "deDo E \<lparr>drURL = endpoint, drQuery = drainQuery values ns model, drAuthorization = auth\<rparr> c0 = (outcome, c1)" by force
  ultimately show ?thesis
    using that by (cases outcome)
      (auto simp: onOutcome_def readDrainResponse_def length_Suc_conv ok_def throw_def split: sum.splits if_splits option.splits)
qed

lemma drainQuery_values:
  "map_of (drainQuery values ns model) ''namespace'' = Some [ns]" "map_of (drainQuery values ns model) ''model'' = Some [model]"
  by (simp_all add: drainQuery_def update_conv)

text \<open>A name that the gateway does not trim or take for an absent filter.\<close>

definition plainName :: "string \<Rightarrow> bool" where
  "plainName name \<longleftrightarrow> name \<noteq> [] \<and> trim_space name = name"

lemma drainReport_single:
  assumes "plainName ns" "plainName model" and "drQuery request = drainQuery values ns model"
    and "dpBackends (drainResponseOf (ServeDrainStatus p (receivedRequest request))) = Some [flag]"
  obtains b where "b \<in> set (Backends (pxRegistry p))" "bNamespace b = ns" "bName b = model" "flag = dbDrainComplete (drainStatusOf p b)"
proof -
  let ?selected = "filter (\<lambda>b. bNamespace b = ns \<and> bName b = model) (Backends (pxRegistry p))"
  have "map dbDrainComplete (map (drainStatusOf p) ?selected) = [flag]"
    using assms by (simp add: drainResponseOf_def ServeDrainStatus_def receivedRequest_def queryGet_def drainQuery_values plainName_def)
  then obtain b where "?selected = [b]" "flag = dbDrainComplete (drainStatusOf p b)" by auto
  then have "b \<in> set ?selected" by simp
  with \<open>flag = _\<close> show ?thesis using that by auto
qed

text \<open>A positive answer of one gateway.\<close>

lemma answered_idle:
  assumes "gatewaysAnswer E checker gateways" "gateways a = Some (p, M)" "plainName ns" "plainName model"
    and "queryDrainEndpoint E (endpointURL checker a) [] ns model token c = (Inr True, c')"
  shows "\<lparr>bkNamespace = ns, bkName = model\<rparr> \<notin># M \<and>
     (\<exists>b \<in> set (Backends (pxRegistry p)). bNamespace b = ns \<and> bName b = model \<and> bState b = StateDraining)"
proof -
  obtain auth response c0 c1 where sent:
    "deDo E \<lparr>drURL = endpointURL checker a, drQuery = drainQuery [] ns model, drAuthorization = auth\<rparr> c0 = (Inr response, c1)"
    "dpStatus response = 200" "dpBackends response = Some [True]"
    using assms(5) by (rule queryDrainEndpoint_Inr)
  let ?request = "\<lparr>drURL = endpointURL checker a, drQuery = drainQuery [] ns model, drAuthorization = auth\<rparr>"
  have answers: "gateway_run p M" "drURL request = endpointURL checker a \<Longrightarrow> deDo E request c = (Inr response, c') \<Longrightarrow>
      dpStatus response = 200 \<Longrightarrow> response = drainResponseOf (ServeDrainStatus p (receivedRequest request))" for request response c c'
    using assms(1,2) unfolding gatewaysAnswer_def by blast+
  have "response = drainResponseOf (ServeDrainStatus p (receivedRequest ?request))"
    using answers(2) [OF _ sent(1,2)] by simp
  then have "dpBackends (drainResponseOf (ServeDrainStatus p (receivedRequest ?request))) = Some [True]" using sent(3) by simp
  then obtain b where b: "b \<in> set (Backends (pxRegistry p))" "bNamespace b = ns" "bName b = model" "True = dbDrainComplete (drainStatusOf p b)"
    using drainReport_single [OF assms(3,4), of ?request] by (metis drainRequest.select_convs(2))
  have "activeCount (pxTracker p) b = int (count M (keyForBackend b))"
    using gateway_run_invariant [OF answers(1)] by (simp add: tracker.counts_def)
  with b show ?thesis
    by (auto simp: drainStatusOf_def Let_def keyForBackend_def not_in_iff)
qed

lemma set_sliceAddresses [simp]: "set (sliceAddresses checker slices) = (\<Union>endpointSlice \<in> set slices. set (addressesOf checker endpointSlice))"
  by (simp add: sliceAddresses_def)

lemma drained_at:
  assumes "EndpointSliceDrainComplete E (Some checker) ns model c = (Inr True, c')"
  obtains slices c0 where "deListEndpointSlices E (edNamespace checker) c = (Inr slices, c0)"
    "\<And>a. a \<in> set (sliceAddresses checker slices) \<Longrightarrow>
      \<exists>c1 c2. queryDrainEndpoint E (endpointURL checker a) [] ns model (edToken checker) c1 = (Inr True, c2)"
proof -
  obtain outcome c0 where l: "deListEndpointSlices E (edNamespace checker) c = (outcome, c0)" by force
  with assms obtain slices where "outcome = Inr slices" "queryGateways E checker ns model (sliceAddresses checker slices) c0 = (Inr True, c')"
    by (cases outcome) (auto simp: EndpointSliceDrainComplete_def gatewayEndpointAddresses_def onOutcome_def andThen_def ok_def throw_def
        split: if_splits)
  then show thesis using l by (intro that [of slices c0]) (auto intro!: queryGateways_True)
qed

text \<open>The checker as the lifecycle controller calls it; an error is passed on as its text.\<close>

definition drainCheck ::
  "(drain_error \<Rightarrow> string) \<Rightarrow> 'c drainEnv \<Rightarrow> EndpointSliceDrainChecker \<Rightarrow> string \<Rightarrow> string \<Rightarrow> 'c \<Rightarrow> (string, bool) result \<times> 'c" where
  "drainCheck T E checker namespace model =
     onOutcome (EndpointSliceDrainComplete E (Some checker) namespace model) (\<lambda>outcome. case outcome of
       Inl err \<Rightarrow> throw (T err) | Inr drained \<Rightarrow> ok drained)"

lemma drainCheck_Inr:
  "drainCheck T E checker ns model c = (Inr drained, c') \<Longrightarrow> EndpointSliceDrainComplete E (Some checker) ns model c = (Inr drained, c')"
  by (cases "EndpointSliceDrainComplete E (Some checker) ns model c")
    (auto simp: drainCheck_def onOutcome_def ok_def throw_def split: sum.splits)

lemma remainingDrain_pos:
  "\<not> drainOver now d \<Longrightarrow> effectiveDrainTimeout d = Inr timeout \<Longrightarrow> 0 < remainingDrain now timeout (startDrainClock now d)"
  by (auto simp: drainOver_def remainingDrain_def startDrainClock_def effectiveDrainTimeout_pos split: option.splits)

lemma continueDraining_waits:
  assumes "patches_apply K" and "continueDraining K now original workload d c = (Inr (result, d'), c')" and "\<not> drainOver now d"
    and waits: "\<And>c1 c2. gatewayDrainComplete K (startDrainClock now d) c1 \<noteq> (Inr True, c2)"
  shows "dtPhase (mdStatus d') = dtPhase (mdStatus d)"
proof -
  obtain timeout where timeout: "effectiveDrainTimeout d = Inr timeout"
    using assms(2) by (auto simp: continueDraining_def split: sum.splits)
  then have "0 < remainingDrain now timeout (startDrainClock now d)" using assms(3) remainingDrain_pos by blast
  then obtain r c1 where
    "patchDeploymentStatus K original ReasonDrainStarted (setDrainingConditions now (startDrainClock now d)) c1 = (Inr (r, d'), c')"
    using assms(2) timeout waits by (auto simp: continueDraining_def Let_def andThen_Inr withRequeueAfter_Inr split: if_splits)
  from patchDeploymentStatus_written(1) [OF assms(1) this] show ?thesis by simp
qed

section \<open>Properties\<close>

text \<open>
  Drained means idle everywhere: when the check of a Service's gateways answers true, there was at least one ready gateway, and every
  gateway behind a ready endpoint of the Service reports the backend as draining and has none of its requests in flight. Gateways
  are the proxies of this development in any of their runs; failed or refused requests and wrong answers never count as drained.
\<close>

theorem drained_gateways_idle:
  assumes "gatewaysAnswer E checker gateways" and "plainName ns" "plainName model"
    and "deListEndpointSlices E (edNamespace checker) c = (Inr slices, c0)"
    and "EndpointSliceDrainComplete E (Some checker) ns model c = (Inr True, c')"
  shows "sliceAddresses checker slices \<noteq> [] \<and>
     (\<forall>a p M. a \<in> set (sliceAddresses checker slices) \<longrightarrow> gateways a = Some (p, M) \<longrightarrow>
        \<lparr>bkNamespace = ns, bkName = model\<rparr> \<notin># M \<and>
        (\<exists>b \<in> set (Backends (pxRegistry p)). bNamespace b = ns \<and> bName b = model \<and> bState b = StateDraining))"
proof (intro conjI allI impI)
  show "sliceAddresses checker slices \<noteq> []"
    using assms(4,5) by (auto simp: EndpointSliceDrainComplete_def gatewayEndpointAddresses_def onOutcome_def andThen_def ok_def throw_def)
  fix a p M assume a: "a \<in> set (sliceAddresses checker slices)" and g: "gateways a = Some (p, M)"
  have "\<exists>c1 c2. queryDrainEndpoint E (endpointURL checker a) [] ns model (edToken checker) c1 = (Inr True, c2)"
    using assms(5) by (rule drained_at) (use a assms(4) in auto)
  then show "\<lparr>bkNamespace = ns, bkName = model\<rparr> \<notin># M"
    "\<exists>b \<in> set (Backends (pxRegistry p)). bNamespace b = ns \<and> bName b = model \<and> bState b = StateDraining"
    using answered_idle [OF assms(1) g assms(2,3)] by blast+
qed

text \<open>
  C5. A deployment is not deactivated under running requests: while its drain timeout has not passed and some gateway behind a ready
  endpoint still has one of its requests in flight, every reconciliation of a draining deployment leaves it draining. This joins
  the lifecycle controller, the drain checker, the gateway's drain report and its request counters.
\<close>

theorem draining_waits_for_requests:
  assumes "patches_apply K" and "kDrainComplete K = Some (drainCheck T E checker)" and "gatewaysAnswer E checker gateways"
    and "plainName (mdNamespace d)" "plainName (mdName d)"
    and "\<And>c listed c'. deListEndpointSlices E (edNamespace checker) c = (Inr listed, c') \<Longrightarrow> listed = slices"
    and "a \<in> set (sliceAddresses checker slices)" "gateways a = Some (p, M)"
    and "\<lparr>bkNamespace = mdNamespace d, bkName = mdName d\<rparr> \<in># M"
    and "dtPhase (mdStatus d) = ModelDeploymentPhaseDraining" "\<not> drainOver now d"
    and "reconcileDeactivation K now original cache reason d c = (Inr (result, d'), c')"
  shows "dtPhase (mdStatus d') = ModelDeploymentPhaseDraining"
proof -
  have "gatewayDrainComplete K (startDrainClock now d) c1 \<noteq> (Inr True, c2)" for c1 c2
  proof
    assume "gatewayDrainComplete K (startDrainClock now d) c1 = (Inr True, c2)"
    then have "drainCheck T E checker (mdNamespace d) (mdName d) c1 = (Inr True, c2)"
      using assms(2) by (auto simp: gatewayDrainComplete_def onOutcome_def ok_def throw_def split: sum.splits prod.splits)
    then have checked: "EndpointSliceDrainComplete E (Some checker) (mdNamespace d) (mdName d) c1 = (Inr True, c2)" by (rule drainCheck_Inr)
    have "\<exists>c3 c4. queryDrainEndpoint E (endpointURL checker a) [] (mdNamespace d) (mdName d) (edToken checker) c3 = (Inr True, c4)"
      using checked by (rule drained_at) (use assms(6,7) in blast)
    then show False using answered_idle [OF assms(3,8,4,5)] assms(9) by blast
  qed
  moreover obtain workload c1 where "continueDraining K now original workload d c1 = (Inr (result, d'), c')"
    using assms(10,12) by (auto simp: reconcileDeactivation_def andThen_Inr)
  ultimately show ?thesis using continueDraining_waits [OF assms(1) _ assms(11)] assms(10) by metis
qed

text \<open>One gateway behind the Service, and the environment in which it answers.\<close>

definition sampleChecker :: EndpointSliceDrainChecker where
  "sampleChecker = \<lparr>edNamespace = ''inferops'', edServiceName = ''gateway'', edScheme = ''http'', edPort = 8080, edToken = None,
     edEndpointPath = ''/drainz''\<rparr>"

definition gatewaySlice :: EndpointSlice where
  "gatewaySlice =
     \<lparr>esMeta = (sampleMeta ''gateway-1'')\<lparr>omLabels := [(LabelServiceName, ''gateway'')]\<rparr>,
      esPorts = [\<lparr>ptName = None, ptPort = Some 8080, ptProtocol = None\<rparr>],
      esEndpoints = [\<lparr>epAddresses = [''10.0.0.1''], epReady = None, epTerminating = None\<rparr>]\<rparr>"

definition sampleDrainEnv :: "Proxy \<Rightarrow> 'c drainEnv" where
  "sampleDrainEnv p =
     \<lparr>deListEndpointSlices = (\<lambda>_. ok [gatewaySlice]), deReadFile = (\<lambda>_. throw ()), deParse = (\<lambda>_. None), deRequestable = (\<lambda>_ _. True),
      deDo = (\<lambda>request. ok (drainResponseOf (ServeDrainStatus p (receivedRequest request))))\<rparr>"

definition oneGateway :: "Proxy \<Rightarrow> backendKey multiset \<Rightarrow> string \<Rightarrow> (Proxy \<times> backendKey multiset) option" where
  "oneGateway p M = [''10.0.0.1'' \<mapsto> (p, M)]"

lemma sample_answers: "gateway_run p M \<Longrightarrow> gatewaysAnswer (sampleDrainEnv p) sampleChecker (oneGateway p M)"
  by (auto simp: gatewaysAnswer_def oneGateway_def sampleDrainEnv_def ok_def split: if_splits)

definition drainingProxy :: Proxy where
  "drainingProxy = sampleProxy\<lparr>pxRegistry := fst (Replace NewMemoryRegistry [sampleStable\<lparr>bState := StateDraining\<rparr>])\<rparr>"

lemma drainingProxy_run: "gateway_run drainingProxy {#}"
proof (rule gateway_run.start)
  show "reg_ok (pxRegistry drainingProxy)" by (simp add: drainingProxy_def Replace_ok)
  show "NewWithMetricsAndOptions (Some (pxRegistry drainingProxy)) \<lparr>opDefaultRateLimit = None, opRequestLoggingEnabled = None\<rparr> =
      Inr drainingProxy"
    by (simp add: NewWithMetricsAndOptions_def drainingProxy_def sampleProxy_def Let_def)
qed

theorem drained_gateways_idle_witness:
  "sliceAddresses sampleChecker [gatewaySlice] = [''10.0.0.1''] \<and>
   (\<exists>b \<in> set (Backends (pxRegistry drainingProxy)). bName b = ''stable'' \<and> bState b = StateDraining)"
proof -
  have addresses: "sliceAddresses sampleChecker [gatewaySlice] = [''10.0.0.1'']" by code_simp
  have names: "plainName ''default''" "plainName ''stable''" by code_simp+
  have listed: "deListEndpointSlices (sampleDrainEnv drainingProxy) (edNamespace sampleChecker) () = (Inr [gatewaySlice], ())"
    by (simp add: sampleDrainEnv_def ok_def)
  have "fst (EndpointSliceDrainComplete (sampleDrainEnv drainingProxy) (Some sampleChecker) ''default'' ''stable'' ()) = Inr True"
    by code_simp
  then have "EndpointSliceDrainComplete (sampleDrainEnv drainingProxy) (Some sampleChecker) ''default'' ''stable'' () = (Inr True, ())"
    by (simp add: prod_eq_iff)
  from drained_gateways_idle [OF sample_answers [OF drainingProxy_run] names listed this] show ?thesis
    using addresses by (auto simp: oneGateway_def)
qed

definition busyDeployment :: ModelDeployment where
  "busyDeployment = onStatus (\<lambda>s. s\<lparr>dtPhase := ModelDeploymentPhaseDraining, dtDrainStartedAt := Some 0\<rparr>) (sampleDeployment ''stable'')"

definition busyClient :: "(int world, int) client" where
  "busyClient = memoryClient\<lparr>kDrainComplete := Some (drainCheck (\<lambda>_. ''failed'') (sampleDrainEnv (fst sampleServed)) sampleChecker)\<rparr>"

definition busyOutcome :: "(lifecycle_error, Result \<times> ModelDeployment) result \<times> int world" where
  "busyOutcome =
     reconcileDeactivation busyClient 1000 busyDeployment (sampleCache ''c'' ModelCachePhaseReady ''a'' ''/cache/c'') ReasonInactive
       busyDeployment (emptyWorld\<lparr>wDeployments := [busyDeployment]\<rparr>)"

lemma busyOutcome_ok: "case fst busyOutcome of Inl _ \<Rightarrow> False | Inr _ \<Rightarrow> True"
  by code_simp

theorem draining_waits_for_requests_witness:
  "\<exists>result d' c'. busyOutcome = (Inr (result, d'), c') \<and> dtPhase (mdStatus d') = ModelDeploymentPhaseDraining"
proof -
  let ?key = "keyForBackend sampleStable" and ?p = "fst sampleServed"
  obtain result d' c' where outcome: "busyOutcome = (Inr (result, d'), c')"
    using busyOutcome_ok by (cases "fst busyOutcome") (auto simp: prod_eq_iff)
  have "ServeHTTP 0 sampleProxy (sampleRequestTo ''/models/llama/v1/chat'') = (?p, Forwarded sampleStable sampleUpstream)"
    using sampleServed_out by (simp add: sampleServed_def prod_eq_iff)
  from gateway_run.forward [OF sample_gateway_start this]
  have run: "gateway_run ?p {#?key#}" by (simp add: maxInt64_def)
  have applies: "patches_apply busyClient"
    using patches_apply_memoryClient by (simp add: patches_apply_def busyClient_def)
  have check: "kDrainComplete busyClient = Some (drainCheck (\<lambda>_. ''failed'') (sampleDrainEnv ?p) sampleChecker)"
    by (simp add: busyClient_def)
  have names: "plainName (mdNamespace busyDeployment)" "plainName (mdName busyDeployment)" by code_simp+
  have address: "''10.0.0.1'' \<in> set (sliceAddresses sampleChecker [gatewaySlice])" by code_simp
  have gateway: "oneGateway ?p {#?key#} ''10.0.0.1'' = Some (?p, {#?key#})" by (simp add: oneGateway_def)
  have key: "\<lparr>bkNamespace = mdNamespace busyDeployment, bkName = mdName busyDeployment\<rparr> = ?key" by code_simp
  have phase: "dtPhase (mdStatus busyDeployment) = ModelDeploymentPhaseDraining" "\<not> drainOver 1000 busyDeployment" by code_simp+
  have "dtPhase (mdStatus d') = ModelDeploymentPhaseDraining"
    by (rule draining_waits_for_requests [OF applies check sample_answers [OF run] names _ address gateway _ phase
          outcome [unfolded busyOutcome_def]]) (simp_all add: sampleDrainEnv_def ok_def key)
  then show ?thesis using outcome by blast
qed

end
