(* ===== verification/Go_Strconv.thy ===== *)
theory Go_Strconv
  imports Go_Duration
begin

text \<open>
  What the processes use of \<open>strconv\<close> and \<open>strings\<close> to read their environment: booleans, integers and changes of case. Case changes act on
  ASCII letters and on the other runes whose lower or upper case is an ASCII letter; the rest keep their bytes, which no comparison
  with an ASCII constant can tell apart. That trimming twice trims nothing more is shown here for the values that are trimmed again
  where they are used.
\<close>

section \<open>Numbers and booleans\<close>

text \<open>\<open>strconv.ParseBool\<close> and \<open>strconv.Atoi\<close> on 64 bits; which of its two errors \<open>Atoi\<close> gives is not distinguished.\<close>

definition ParseBool :: "string \<Rightarrow> bool option" where
  "ParseBool s =
     (if s \<in> {''1'', ''t'', ''T'', ''true'', ''TRUE'', ''True''} then Some True
      else if s \<in> {''0'', ''f'', ''F'', ''false'', ''FALSE'', ''False''} then Some False
      else None)"

definition Atoi :: "string \<Rightarrow> int option" where
  "Atoi s =
     (let signed = s \<noteq> [] \<and> (hd s = CHR ''-'' \<or> hd s = CHR ''+'');
          ds = (if signed then tl s else s);
          n = (if signed \<and> hd s = CHR ''-'' then - dec_value 0 ds else dec_value 0 ds)
      in if ds = [] \<or> \<not> list_all is_digit ds then None else if is_int64 n then Some n else None)"

section \<open>Wrapped errors\<close>

definition wrapError :: "('e \<Rightarrow> 'f) \<Rightarrow> ('e, 'a) result \<Rightarrow> ('f, 'a) result" where
  "wrapError f r = (case r of Inl err \<Rightarrow> Inl (f err) | Inr x \<Rightarrow> Inr x)"

lemma wrapError_Inr [simp]: "wrapError f r = Inr x \<longleftrightarrow> r = Inr x"
  by (cases r) (auto simp: wrapError_def)

lemma wrapError_Inl [simp]: "wrapError f r = Inl e \<longleftrightarrow> (\<exists>err. r = Inl err \<and> e = f err)"
  by (cases r) (auto simp: wrapError_def)

lemma bind_result_Inl_iff: "bind_result r f = Inl e \<longleftrightarrow> r = Inl e \<or> (\<exists>x. r = Inr x \<and> f x = Inl e)"
  by (cases r) auto

section \<open>Case\<close>

fun to_lower :: "string \<Rightarrow> string" where
  "to_lower [] = []"
| "to_lower (c # s) =
     (if map of_char (take 3 (c # s)) = [0xE2, 0x84, 0xAA :: nat] then CHR ''k'' # to_lower (drop 2 s)
      else if map of_char (take 2 (c # s)) = [0xC4, 0xB0 :: nat] then CHR ''i'' # to_lower (drop 1 s)
      else ascii_lower c # to_lower s)"

fun to_upper :: "string \<Rightarrow> string" where
  "to_upper [] = []"
| "to_upper (c # s) =
     (if map of_char (take 2 (c # s)) = [0xC4, 0xB1 :: nat] then CHR ''I'' # to_upper (drop 1 s)
      else if map of_char (take 2 (c # s)) = [0xC5, 0xBF :: nat] then CHR ''S'' # to_upper (drop 1 s)
      else ascii_upper c # to_upper s)"

section \<open>Trimming\<close>

lemma space_len_append: "0 < space_len p \<Longrightarrow> 0 < space_len (p @ t)"
  by (cases p; cases "tl p"; cases "tl (tl p)") (auto simp: space_len_def Let_def split: if_splits)

lemma trim_left_stop: "space_len (trim_left_space s) = 0"
  by (induction s rule: trim_left_space.induct) (metis trim_left_space.simps)

lemma trim_right_stop: "last_space_len (trim_right_space_rev r) = 0"
  by (induction r rule: trim_right_space_rev.induct) (metis trim_right_space_rev.simps)

lemma trim_right_suffix: "\<exists>t. r = t @ trim_right_space_rev r"
proof (induction r rule: trim_right_space_rev.induct)
  case (1 r)
  show ?case
  proof (cases "last_space_len r = 0")
    case False
    then obtain t where "drop (last_space_len r) r = t @ trim_right_space_rev (drop (last_space_len r) r)" using 1 by blast
    then show ?thesis
      using False by (metis append.assoc append_take_drop_id trim_right_space_rev.simps)
  qed (simp add: trim_right_space_rev.simps [of r])
qed

lemma trim_space_idem [simp]: "trim_space (trim_space s) = trim_space s"
proof -
  obtain t where t: "rev (trim_left_space s) = t @ trim_right_space_rev (rev (trim_left_space s))"
    using trim_right_suffix by blast
  then have "trim_left_space s = trim_space s @ rev t" by (metis rev_append rev_rev_ident trim_space_def)
  then have "space_len (trim_space s) = 0" using space_len_append [of "trim_space s" "rev t"] trim_left_stop [of s] by fastforce
  moreover have "last_space_len (rev (trim_space s)) = 0" by (simp add: trim_space_def trim_right_stop)
  ultimately show ?thesis
    by (simp add: trim_space_def [of "trim_space s"] trim_left_space.simps [of "trim_space s"]
        trim_right_space_rev.simps [of "rev (trim_space s)"])
qed

end
