(* ===== verification/Operator_Config.thy ===== *)
theory Operator_Config
  imports Drain_Checker Go_Strconv Cache_Controller Lifecycle_Status
begin

text \<open>
  \<open>operator/cmd/manager/main.go\<close>: the configuration of the operator from its environment, its validation, and the order in which the
  process builds its controllers, with \<open>NewModelDeploymentController\<close> and the registration of the admission webhooks. The environment and
  the service account file are the record \<open>operatorEnv\<close>. A call into controller-runtime that can only fail or succeed is named by the
  text its error is wrapped in and given by the parameter \<open>lib\<close>, which returns the error. Arguments that the process always passes, such as the
  client of its manager, are never nil.
\<close>

section \<open>Reading the environment\<close>

record operatorEnv =
  oeGetenv :: "string \<Rightarrow> string"
  oeNamespaceFile :: "string option"

datatype selector_error =
    SelectorEntryEmpty
  | SelectorEntryMalformed string
  | SelectorKeyInvalid string "string list"
  | SelectorValueInvalid string string "string list"
  | SelectorKeyRepeated string

datatype names_error =
    ResourceEntryEmpty
  | ResourceNameInvalid string "string list"
  | ResourceNameRepeated string

datatype config_error =
    SelectorUnparsable string selector_error
  | ResourcesUnparsable string names_error
  | EnvDurationUnparsable string duration_error
  | EnvDurationNotPositive string
  | EnvBoolUnparsable string
  | EnvIntUnparsable string
  | BothDrainStatusSources
  | DrainStatusURLInvalid drain_error
  | DrainStatusPortOutOfRange int

definition envOrDefault :: "operatorEnv \<Rightarrow> string \<Rightarrow> string \<Rightarrow> string" where
  "envOrDefault env key defaultValue = (if oeGetenv env key \<noteq> [] then oeGetenv env key else defaultValue)"

definition durationFromEnv :: "operatorEnv \<Rightarrow> string \<Rightarrow> int \<Rightarrow> (config_error, int) result" where
  "durationFromEnv env key defaultValue =
     (if oeGetenv env key = [] then Inr defaultValue
      else (case ParseDuration (oeGetenv env key) of
              Inl err \<Rightarrow> Inl (EnvDurationUnparsable key err)
            | Inr duration \<Rightarrow> if duration \<le> 0 then Inl (EnvDurationNotPositive key) else Inr duration))"

definition boolFromEnv :: "operatorEnv \<Rightarrow> string \<Rightarrow> bool \<Rightarrow> (config_error, bool) result" where
  "boolFromEnv env key defaultValue =
     (if oeGetenv env key = [] then Inr defaultValue
      else (case ParseBool (oeGetenv env key) of None \<Rightarrow> Inl (EnvBoolUnparsable key) | Some parsed \<Rightarrow> Inr parsed))"

definition intFromEnv :: "operatorEnv \<Rightarrow> string \<Rightarrow> int \<Rightarrow> (config_error, int) result" where
  "intFromEnv env key defaultValue =
     (if oeGetenv env key = [] then Inr defaultValue
      else (case Atoi (oeGetenv env key) of None \<Rightarrow> Inl (EnvIntUnparsable key) | Some parsed \<Rightarrow> Inr parsed))"

definition leaderElectionNamespace :: "operatorEnv \<Rightarrow> string" where
  "leaderElectionNamespace env =
     (let ns = oeGetenv env ''INFEROPS_OPERATOR_NAMESPACE''
      in if ns \<noteq> [] then trim_space ns
         else (case oeNamespaceFile env of
                 Some data \<Rightarrow> if trim_space data \<noteq> [] then trim_space data else ''inferops-system''
               | None \<Rightarrow> ''inferops-system''))"

section \<open>Selectors and resource names\<close>

text \<open>\<open>strings.SplitN(s, "=", 2)\<close>: one part without the separator, two with it.\<close>

definition splitAtEquals :: "string \<Rightarrow> string list" where
  "splitAtEquals s =
     (if CHR ''='' \<notin> set s then [s]
      else [takeWhile (\<lambda>c. c \<noteq> CHR ''='') s, tl (dropWhile (\<lambda>c. c \<noteq> CHR ''='') s)])"

definition selectorEntry :: "name_checks \<Rightarrow> string_map \<Rightarrow> string \<Rightarrow> (selector_error, string_map) result" where
  "selectorEntry N selected entry =
     (let pair = trim_space entry; parts = splitAtEquals pair
      in if pair = [] then Inl SelectorEntryEmpty
         else if length parts \<noteq> 2 then Inl (SelectorEntryMalformed pair)
         else
           let key = trim_space (parts ! 0); val = trim_space (parts ! 1)
           in if vIsQualifiedName N key \<noteq> [] then Inl (SelectorKeyInvalid key (vIsQualifiedName N key))
              else if vIsValidLabelValue N val \<noteq> [] then Inl (SelectorValueInvalid val key (vIsValidLabelValue N val))
              else if key \<in> fst ` set selected then Inl (SelectorKeyRepeated key)
              else Inr (selected @ [(key, val)]))"

fun selectorEntries :: "name_checks \<Rightarrow> string_map \<Rightarrow> string list \<Rightarrow> (selector_error, string_map) result" where
  "selectorEntries N selected [] = Inr selected"
| "selectorEntries N selected (entry # entries) =
     (case selectorEntry N selected entry of Inl err \<Rightarrow> Inl err | Inr selected' \<Rightarrow> selectorEntries N selected' entries)"

definition parseNodeSelector :: "name_checks \<Rightarrow> string \<Rightarrow> (selector_error, string_map) result" where
  "parseNodeSelector N value = (if value = [] then Inr [] else selectorEntries N [] (split_on CHR '','' value))"

definition resourceEntry :: "name_checks \<Rightarrow> string list \<Rightarrow> string \<Rightarrow> (names_error, string list) result" where
  "resourceEntry N names entry =
     (let item = trim_space entry
      in if item = [] then Inl ResourceEntryEmpty
         else if vIsQualifiedName N item \<noteq> [] then Inl (ResourceNameInvalid item (vIsQualifiedName N item))
         else if item \<in> set names then Inl (ResourceNameRepeated item)
         else Inr (names @ [item]))"

fun resourceEntries :: "name_checks \<Rightarrow> string list \<Rightarrow> string list \<Rightarrow> (names_error, string list) result" where
  "resourceEntries N names [] = Inr names"
| "resourceEntries N names (entry # entries) =
     (case resourceEntry N names entry of Inl err \<Rightarrow> Inl err | Inr names' \<Rightarrow> resourceEntries N names' entries)"

definition parseResourceNames :: "name_checks \<Rightarrow> string \<Rightarrow> (names_error, string list) result" where
  "parseResourceNames N value = (if value = [] then Inr [] else resourceEntries N [] (split_on CHR '','' value))"

section \<open>The configuration\<close>

record operatorConfig =
  ocHealthAddr :: string
  ocMetricsAddr :: string
  ocCacheRoot :: string
  ocDefaultCacheSize :: string
  ocDownloaderImage :: string
  ocCacheNodeSelector :: string_map
  ocCacheCapacityAnnotation :: string
  ocCacheRequiredResources :: "string list"
  ocCachePendingRequeue :: int
  ocCacheDownloadRequeue :: int
  ocGPUNodeSelector :: string_map
  ocGPUTypeLabel :: string
  ocDrainChecker :: "HTTPDrainChecker option"
  ocGatewayDrainService :: "EndpointSliceDrainCheckerConfig option"
  ocWebhookEnabled :: bool
  ocWebhookPort :: int
  ocWebhookCertDir :: string

text \<open>The two ways to find the gateways' drain status, at most one of which is configured.\<close>

definition drainStatusFromEnv ::
  "'c drainEnv \<Rightarrow> operatorEnv \<Rightarrow> (config_error, HTTPDrainChecker option \<times> EndpointSliceDrainCheckerConfig option) result" where
  "drainStatusFromEnv E env =
     (let tokenFile = trim_space (oeGetenv env ''INFEROPS_GATEWAY_DRAIN_STATUS_TOKEN_FILE'');
          url = trim_space (oeGetenv env ''INFEROPS_GATEWAY_DRAIN_STATUS_URL'');
          serviceName = trim_space (oeGetenv env ''INFEROPS_GATEWAY_DRAIN_STATUS_SERVICE_NAME'')
      in if url \<noteq> [] \<and> serviceName \<noteq> [] then Inl BothDrainStatusSources
         else if url \<noteq> [] then
           (case NewHTTPDrainCheckerWithTokenFile E url tokenFile of
              Inl err \<Rightarrow> Inl (DrainStatusURLInvalid err)
            | Inr checker \<Rightarrow> Inr (Some checker, None))
         else if serviceName \<noteq> [] then
           bind_result (intFromEnv env ''INFEROPS_GATEWAY_DRAIN_STATUS_SERVICE_PORT'' 8080) (\<lambda>port.
             if port < 1 \<or> port > 65535 then Inl (DrainStatusPortOutOfRange port)
             else Inr (None, Some
               \<lparr>egNamespace = envOrDefault env ''INFEROPS_GATEWAY_DRAIN_STATUS_SERVICE_NAMESPACE'' (leaderElectionNamespace env),
                egServiceName = serviceName,
                egScheme = envOrDefault env ''INFEROPS_GATEWAY_DRAIN_STATUS_SERVICE_SCHEME'' ''http'',
                egPort = wrap32 port, egTokenFile = tokenFile\<rparr>))
         else Inr (None, None))"

definition operatorConfigFromEnv :: "name_checks \<Rightarrow> 'c drainEnv \<Rightarrow> operatorEnv \<Rightarrow> (config_error, operatorConfig) result" where
  "operatorConfigFromEnv N E env =
     bind_result (wrapError (SelectorUnparsable ''INFEROPS_CACHE_NODE_SELECTOR'')
                    (parseNodeSelector N (oeGetenv env ''INFEROPS_CACHE_NODE_SELECTOR''))) (\<lambda>nodeSelector.
     bind_result (wrapError (ResourcesUnparsable ''INFEROPS_CACHE_REQUIRED_RESOURCES'')
                    (parseResourceNames N (oeGetenv env ''INFEROPS_CACHE_REQUIRED_RESOURCES''))) (\<lambda>requiredResources.
     bind_result (wrapError (SelectorUnparsable ''INFEROPS_GPU_NODE_SELECTOR'')
                    (parseNodeSelector N (oeGetenv env ''INFEROPS_GPU_NODE_SELECTOR''))) (\<lambda>gpuNodeSelector.
     bind_result (durationFromEnv env ''INFEROPS_CACHE_PENDING_REQUEUE'' (30 * 10 ^ 9)) (\<lambda>cachePendingRequeue.
     bind_result (durationFromEnv env ''INFEROPS_CACHE_DOWNLOAD_REQUEUE'' (10 * 10 ^ 9)) (\<lambda>cacheDownloadRequeue.
     bind_result (boolFromEnv env ''INFEROPS_WEBHOOK_ENABLED'' False) (\<lambda>webhookEnabled.
     bind_result (intFromEnv env ''INFEROPS_WEBHOOK_PORT'' 9443) (\<lambda>webhookPort.
     bind_result (drainStatusFromEnv E env) (\<lambda>(drainChecker, gatewayDrainService).
     Inr \<lparr>ocHealthAddr = envOrDefault env ''INFEROPS_HEALTH_ADDR'' '':8081'',
          ocMetricsAddr = envOrDefault env ''INFEROPS_METRICS_ADDR'' '':8080'',
          ocCacheRoot = oeGetenv env ''INFEROPS_CACHE_ROOT'',
          ocDefaultCacheSize = envOrDefault env ''INFEROPS_DEFAULT_CACHE_SIZE'' ''100Gi'',
          ocDownloaderImage = oeGetenv env ''INFEROPS_CACHE_DOWNLOADER_IMAGE'',
          ocCacheNodeSelector = nodeSelector,
          ocCacheCapacityAnnotation = envOrDefault env ''INFEROPS_CACHE_CAPACITY_ANNOTATION'' ''inferops.dev/cache-capacity'',
          ocCacheRequiredResources = requiredResources,
          ocCachePendingRequeue = cachePendingRequeue, ocCacheDownloadRequeue = cacheDownloadRequeue,
          ocGPUNodeSelector = gpuNodeSelector,
          ocGPUTypeLabel = envOrDefault env ''INFEROPS_GPU_TYPE_LABEL'' ''inferops.dev/gpu-type'',
          ocDrainChecker = drainChecker, ocGatewayDrainService = gatewayDrainService,
          ocWebhookEnabled = webhookEnabled, ocWebhookPort = webhookPort,
          ocWebhookCertDir = envOrDefault env ''INFEROPS_WEBHOOK_CERT_DIR'' ''/tmp/k8s-webhook-server/serving-certs''\<rparr>))))))))"

datatype config_rejection =
    ConfigCacheRoot resource_error
  | DownloaderImageRequired
  | ConfigDownloaderImage image_error
  | ConfigCapacityAnnotation string "string list"
  | ConfigDefaultCacheSize string
  | ConfigGPUTypeLabel string "string list"
  | WebhookPortOutOfRange int
  | WebhookCertDirRequired

definition validateConfig :: "name_checks \<Rightarrow> 'q quantity_ops \<Rightarrow> operatorConfig \<Rightarrow> config_rejection option" where
  "validateConfig N Q c =
     (let cacheSize = (if ocDefaultCacheSize c = [] then ''100Gi'' else ocDefaultCacheSize c);
          gpuTypeLabel = (if ocGPUTypeLabel c = [] then ''inferops.dev/gpu-type'' else ocGPUTypeLabel c)
      in case NewReconciliationValidator (ocCacheRoot c) of
           Inl err \<Rightarrow> Some (ConfigCacheRoot err)
         | Inr _ \<Rightarrow>
             if ocDownloaderImage c = [] then Some DownloaderImageRequired
             else (case ValidatePinnedImage (ocDownloaderImage c) of
                     Some err \<Rightarrow> Some (ConfigDownloaderImage err)
                   | None \<Rightarrow>
                       if vIsQualifiedName N (ocCacheCapacityAnnotation c) \<noteq> []
                         then Some (ConfigCapacityAnnotation (ocCacheCapacityAnnotation c)
                                      (vIsQualifiedName N (ocCacheCapacityAnnotation c)))
                       else if (case qParse Q cacheSize of None \<Rightarrow> True | Some q \<Rightarrow> qSign Q q \<le> 0)
                         then Some (ConfigDefaultCacheSize cacheSize)
                       else if vIsQualifiedName N gpuTypeLabel \<noteq> []
                         then Some (ConfigGPUTypeLabel gpuTypeLabel (vIsQualifiedName N gpuTypeLabel))
                       else if ocWebhookEnabled c \<and> (ocWebhookPort c < 1 \<or> ocWebhookPort c > 65535)
                         then Some (WebhookPortOutOfRange (ocWebhookPort c))
                       else if ocWebhookEnabled c \<and> trim_space (ocWebhookCertDir c) = [] then Some WebhookCertDirRequired
                       else None))"

section \<open>The controllers\<close>

record ModelDeploymentControllerConfig =
  mfCacheRoot :: string
  mfDefaultCacheSize :: string
  mfDownloaderImage :: string
  mfGPUNodeSelector :: string_map
  mfGPUTypeLabel :: string

datatype controller_error =
    ControllerBuilderInvalid resource_error
  | ControllerValidatorInvalid resource_error
  | ControllerPlannerInvalid gpu_error

text \<open>
  The client \<open>K\<close> stands for the API client together with the drain checker, the metrics scraper and the recorders that the controller keeps.
\<close>

definition NewModelDeploymentController ::
  "('c, 'q) client \<Rightarrow> name_checks \<Rightarrow> 'q quantity_ops \<Rightarrow> error_texts \<Rightarrow> (lifecycle_error \<Rightarrow> string) \<Rightarrow> time \<Rightarrow>
   ModelDeploymentControllerConfig \<Rightarrow> (controller_error, ('c, 'q) ModelDeploymentController) result" where
  "NewModelDeploymentController K N Q T errorText now config =
     (let cacheSize = (if mfDefaultCacheSize config = [] then ''100Gi'' else mfDefaultCacheSize config)
      in bind_result (wrapError ControllerBuilderInvalid
                        (NewBuilder Q \<lparr>boCacheRoot = mfCacheRoot config, boCacheDownloaderImage = mfDownloaderImage config,
                                       boRequests = [], boLimits = [], boRuntimeModelPath = []\<rparr>)) (\<lambda>builder.
         bind_result (wrapError ControllerValidatorInvalid (NewReconciliationValidator (mfCacheRoot config))) (\<lambda>validator.
         bind_result (wrapError ControllerPlannerInvalid
                        (NewGPUPlanner (vIsQualifiedName N) (vIsValidLabelValue N)
                           \<lparr>gcNodeSelector = mfGPUNodeSelector config, gcGPUTypeLabel = mfGPUTypeLabel config\<rparr>)) (\<lambda>planner.
         Inr \<lparr>lcClient = K, lcChecks = N, lcQuantities = Q, lcTexts = T, lcErrorText = errorText, lcValidator = validator,
              lcGPUPlanner = planner, lcBuilder = builder, lcCacheRoot = mfCacheRoot config,
              lcDefaultCacheSize = cacheSize, lcNow = now\<rparr>))))"

section \<open>Admission webhooks\<close>

definition ModelDeploymentPath :: string where
  [const_defs]: "ModelDeploymentPath = ''/validate-inference-inferops-dev-v1alpha1-modeldeployment''"

definition ModelRuntimePath :: string where
  [const_defs]: "ModelRuntimePath = ''/validate-inference-inferops-dev-v1alpha1-modelruntime''"

definition ModelCachePath :: string where
  [const_defs]: "ModelCachePath = ''/validate-inference-inferops-dev-v1alpha1-modelcache''"

text \<open>The decoder of the scheme, at each of the three types.\<close>

record ('r, 'd) decoders =
  dcModelDeployment :: "'r \<Rightarrow> 'd + ModelDeployment"
  dcModelRuntime :: "'r \<Rightarrow> 'd + ModelRuntime"
  dcModelCache :: "'r \<Rightarrow> 'd + ModelCache"

type_synonym ('r, 'd) webhooks = "(string \<times> (Operation \<Rightarrow> 'r \<Rightarrow> ('d, validation_error) Response)) list"

definition RegisterValidationWebhooks :: "name_checks \<Rightarrow> 'q quantity_ops \<Rightarrow> ('r, 'd) decoders \<Rightarrow> ('r, 'd) webhooks" where
  "RegisterValidationWebhooks N Q decoder =
     [(ModelDeploymentPath, Handle (newModelDeploymentHandler N Q (dcModelDeployment decoder))),
      (ModelRuntimePath, Handle (newModelRuntimeHandler N (dcModelRuntime decoder))),
      (ModelCachePath, Handle (newModelCacheHandler N Q (dcModelCache decoder)))]"

section \<open>The process\<close>

datatype drainSource =
    NoDrainChecker
  | AskURL HTTPDrainChecker
  | AskEndpointSlices EndpointSliceDrainChecker

datatype start_error =
    ConfigUnreadable config_error
  | ConfigRejected config_rejection
  | LeaderNamespaceInvalid string "string list"
  | LibraryFailed string string
  | CacheReconcilerRejected cache_config_error
  | DrainCheckerRejected drain_error
  | ControllerRejected controller_error

text \<open>What surrounds the process: the parameters of the model's components.\<close>

record ('c, 'q, 'r, 'd) surroundings =
  suLib :: "string \<Rightarrow> string option"
  suChecks :: name_checks
  suQuantities :: "'q quantity_ops"
  suCacheClient :: "('c, 'q) cacheClient"
  suCacheErrorText :: "cache_message \<Rightarrow> string"
  suClient :: "drainSource \<Rightarrow> ('c, 'q) client"
  suTexts :: error_texts
  suErrorText :: "lifecycle_error \<Rightarrow> string"
  suDrainEnv :: "'c drainEnv"
  suDecoders :: "('r, 'd) decoders"
  suNow :: time

record ('c, 'q, 'r, 'd) operatorProcess =
  opLeaderNamespace :: string
  opWebhookPort :: "int option"
  opWebhooks :: "('r, 'd) webhooks"
  opCaches :: "('c, 'q) ModelCacheReconciler"
  opDrainSource :: drainSource
  opDeployments :: "('c, 'q) ModelDeploymentController"

definition library :: "(string \<Rightarrow> string option) \<Rightarrow> string \<Rightarrow> (start_error, unit) result" where
  "library lib what = (case lib what of Some err \<Rightarrow> Inl (LibraryFailed what err) | None \<Rightarrow> Inr ())"

definition drainSourceFor :: "operatorConfig \<Rightarrow> (start_error, drainSource) result" where
  "drainSourceFor config =
     (case ocGatewayDrainService config of
        Some service \<Rightarrow> bind_result (wrapError DrainCheckerRejected (NewEndpointSliceDrainChecker service)) (\<lambda>checker.
                          Inr (AskEndpointSlices checker))
      | None \<Rightarrow> Inr (case ocDrainChecker config of None \<Rightarrow> NoDrainChecker | Some checker \<Rightarrow> AskURL checker))"

definition cacheReconcilerFor ::
  "('c, 'q, 'r, 'd) surroundings \<Rightarrow> operatorConfig \<Rightarrow> (cache_config_error, ('c, 'q) ModelCacheReconciler) result" where
  "cacheReconcilerFor S config =
     NewModelCacheReconciler (suCacheClient S) (suChecks S) (suQuantities S) (suCacheErrorText S) (suNow S)
       \<lparr>mkCacheRoot = ocCacheRoot config, mkDownloaderImage = ocDownloaderImage config,
        mkCacheNodeSelector = ocCacheNodeSelector config,
        mkCacheCapacityAnnotation = ocCacheCapacityAnnotation config,
        mkCacheRequiredResources = ocCacheRequiredResources config,
        mkPendingRequeueAfter = ocCachePendingRequeue config,
        mkDownloadRequeueAfter = ocCacheDownloadRequeue config\<rparr>"

definition deploymentControllerFor ::
  "('c, 'q, 'r, 'd) surroundings \<Rightarrow> operatorConfig \<Rightarrow> drainSource \<Rightarrow>
   (controller_error, ('c, 'q) ModelDeploymentController) result" where
  "deploymentControllerFor S config drain =
     NewModelDeploymentController (suClient S drain) (suChecks S) (suQuantities S) (suTexts S) (suErrorText S) (suNow S)
       \<lparr>mfCacheRoot = ocCacheRoot config, mfDefaultCacheSize = ocDefaultCacheSize config,
        mfDownloaderImage = ocDownloaderImage config, mfGPUNodeSelector = ocGPUNodeSelector config,
        mfGPUTypeLabel = ocGPUTypeLabel config\<rparr>"

definition registerWebhooks :: "('c, 'q, 'r, 'd) surroundings \<Rightarrow> operatorConfig \<Rightarrow> (start_error, ('r, 'd) webhooks) result" where
  "registerWebhooks S config =
     (if ocWebhookEnabled config
        then bind_result (library (suLib S) ''add webhook readiness check'') (\<lambda>_.
               Inr (RegisterValidationWebhooks (suChecks S) (suQuantities S) (suDecoders S)))
      else Inr [])"

definition run :: "('c, 'q, 'r, 'd) surroundings \<Rightarrow> operatorEnv \<Rightarrow> (start_error, ('c, 'q, 'r, 'd) operatorProcess) result" where
  "run S env =
     (let lib = library (suLib S)
      in bind_result (lib ''context'') (\<lambda>_.
         bind_result (wrapError ConfigUnreadable (operatorConfigFromEnv (suChecks S) (suDrainEnv S) env)) (\<lambda>config.
         case validateConfig (suChecks S) (suQuantities S) config of
           Some err \<Rightarrow> Inl (ConfigRejected err)
         | None \<Rightarrow>
             bind_result (lib ''load Kubernetes client configuration'') (\<lambda>_.
             let leaderNamespace = leaderElectionNamespace env; messages = vIsDNS1123Label (suChecks S) leaderNamespace
             in if messages \<noteq> [] then Inl (LeaderNamespaceInvalid leaderNamespace messages)
                else
                  bind_result (lib ''create manager'') (\<lambda>_.
                  bind_result (lib ''add healthz check'') (\<lambda>_.
                  bind_result (lib ''add readyz check'') (\<lambda>_.
                  bind_result (registerWebhooks S config) (\<lambda>webhooks.
                  bind_result (lib ''register controller metrics'') (\<lambda>_.
                  bind_result (wrapError CacheReconcilerRejected (cacheReconcilerFor S config)) (\<lambda>caches.
                  bind_result (lib ''setup cache controller'') (\<lambda>_.
                  bind_result (drainSourceFor config) (\<lambda>drain.
                  bind_result (wrapError ControllerRejected (deploymentControllerFor S config drain)) (\<lambda>deployments.
                  bind_result (lib ''setup ModelDeployment controller'') (\<lambda>_.
                  bind_result (lib ''setup ModelRuntime controller'') (\<lambda>_.
                  bind_result (lib ''start manager'') (\<lambda>_.
                  Inr \<lparr>opLeaderNamespace = leaderNamespace,
                       opWebhookPort = (if ocWebhookEnabled config then Some (ocWebhookPort config) else None),
                       opWebhooks = webhooks, opCaches = caches, opDrainSource = drain,
                       opDeployments = deployments\<rparr>))))))))))))))))"

section \<open>What a parsed value satisfies\<close>

definition validSelector :: "name_checks \<Rightarrow> string_map \<Rightarrow> bool" where
  "validSelector N selector \<longleftrightarrow>
     distinct (map fst selector) \<and>
     list_all (\<lambda>(key, val). vIsQualifiedName N key = [] \<and> vIsValidLabelValue N val = []) selector"

definition validNames :: "name_checks \<Rightarrow> string list \<Rightarrow> bool" where
  "validNames N names \<longleftrightarrow> distinct names \<and> list_all (\<lambda>name. vIsQualifiedName N name = []) names"

lemma selectorEntry_valid: "selectorEntry N selected entry = Inr s \<Longrightarrow> validSelector N selected \<Longrightarrow> validSelector N s"
  by (auto simp: selectorEntry_def validSelector_def Let_def split: if_splits)

lemma selectorEntries_valid: "selectorEntries N selected entries = Inr s \<Longrightarrow> validSelector N selected \<Longrightarrow> validSelector N s"
  by (induction entries arbitrary: selected) (auto split: sum.splits dest: selectorEntry_valid)

lemma parseNodeSelector_valid: "parseNodeSelector N value = Inr s \<Longrightarrow> validSelector N s"
  by (auto simp: parseNodeSelector_def validSelector_def split: if_splits dest: selectorEntries_valid)

lemma resourceEntry_valid: "resourceEntry N names entry = Inr s \<Longrightarrow> validNames N names \<Longrightarrow> validNames N s"
  by (auto simp: resourceEntry_def validNames_def Let_def split: if_splits)

lemma resourceEntries_valid: "resourceEntries N names entries = Inr s \<Longrightarrow> validNames N names \<Longrightarrow> validNames N s"
  by (induction entries arbitrary: names) (auto split: sum.splits dest: resourceEntry_valid)

lemma parseResourceNames_valid: "parseResourceNames N value = Inr s \<Longrightarrow> validNames N s"
  by (auto simp: parseResourceNames_def validNames_def split: if_splits dest: resourceEntries_valid)

lemma checkSelector_accepts:
  "validSelector N selector \<Longrightarrow> checkSelector (vIsQualifiedName N) (vIsValidLabelValue N) keyError valueError selector = None"
  unfolding validSelector_def
  by (induction selector) auto

lemma find_accepts: "validNames N names \<Longrightarrow> List.find (\<lambda>name. vIsQualifiedName N name \<noteq> []) names = None"
  by (auto simp: validNames_def list_all_iff)

lemma durationFromEnv_positive: "durationFromEnv env key d = Inr v \<Longrightarrow> 0 < d \<Longrightarrow> 0 < v"
  by (auto simp: durationFromEnv_def split: if_splits sum.splits)

text \<open>Every configuration read from an environment.\<close>

definition readable :: "name_checks \<Rightarrow> operatorConfig \<Rightarrow> bool" where
  "readable N c \<longleftrightarrow>
     validSelector N (ocCacheNodeSelector c) \<and> validSelector N (ocGPUNodeSelector c) \<and>
     validNames N (ocCacheRequiredResources c) \<and> 0 < ocCachePendingRequeue c \<and> 0 < ocCacheDownloadRequeue c \<and>
     ocDefaultCacheSize c \<noteq> [] \<and> ocGPUTypeLabel c \<noteq> [] \<and> ocCacheCapacityAnnotation c \<noteq> []"

lemma envOrDefault_nonempty: "d \<noteq> [] \<Longrightarrow> envOrDefault env key d \<noteq> []"
  by (simp add: envOrDefault_def)

lemma operatorConfigFromEnv_readable:
  assumes "operatorConfigFromEnv N E env = Inr c"
  shows "readable N c"
  using assms unfolding operatorConfigFromEnv_def
  by (auto simp: bind_result_Inr_iff readable_def envOrDefault_nonempty parseNodeSelector_valid parseResourceNames_valid
      elim!: durationFromEnv_positive)

section \<open>A validated configuration is enough for every controller\<close>

lemma clean_model_path: "CleanAbsolutePath RuntimeModelMountPath what = Inr RuntimeModelMountPath \<and> RuntimeModelMountPath \<noteq> ''/''"
  by (simp add: CleanAbsolutePath_def RuntimeModelMountPath_def) (code_simp)

text \<open>The parts of \<open>validate\<close> that the constructors rely on.\<close>

lemma validateConfig_parts:
  assumes "validateConfig N Q c = None" and "CleanAbsolutePath (ocCacheRoot c) ''cache root'' = Inr cleanRoot"
  shows "cleanRoot \<noteq> ''/''" and "NewReconciliationValidator (ocCacheRoot c) = Inr \<lparr>rvCacheRoot = cleanRoot\<rparr>"
    and "ValidatePinnedImage (ocDownloaderImage c) = None" and "vIsQualifiedName N (ocCacheCapacityAnnotation c) = []"
  using assms
  by (auto simp: validateConfig_def NewReconciliationValidator_def Let_def split: if_splits option.splits sum.splits)

lemma validateConfig_root:
  assumes "validateConfig N Q c = None"
  obtains cleanRoot where "CleanAbsolutePath (ocCacheRoot c) ''cache root'' = Inr cleanRoot"
  using assms by (auto simp: validateConfig_def NewReconciliationValidator_def Let_def split: sum.splits)

lemma NewBuilder_default:
  assumes "CleanAbsolutePath root0 ''cache root'' = Inr cleanRoot" and "cleanRoot \<noteq> ''/''" and "ValidatePinnedImage img = None"
  obtains b where "NewBuilder Q \<lparr>boCacheRoot = root0, boCacheDownloaderImage = img, boRequests = [], boLimits = [],
                                boRuntimeModelPath = []\<rparr> = Inr b" and "blCacheRoot b = cleanRoot"
  using assms clean_model_path by (auto simp: NewBuilder_def validatedCacheDownloaderResources_def)

lemma cacheReconcilerFor_succeeds:
  assumes "validateConfig (suChecks S) (suQuantities S) c = None" and "readable (suChecks S) c"
    and root: "CleanAbsolutePath (ocCacheRoot c) ''cache root'' = Inr cleanRoot"
  obtains r where "cacheReconcilerFor S c = Inr r" and "blCacheRoot (crBuilder r) = cleanRoot" and "pcCacheRoot (crPlanner r) = cleanRoot"
    and "crPendingRequeueAfter r = ocCachePendingRequeue c" and "crDownloadRequeueAfter r = ocCacheDownloadRequeue c"
proof -
  note parts = validateConfig_parts [OF assms(1) root]
  from NewBuilder_default [OF root parts(1,3)] obtain b
    where "NewBuilder (suQuantities S) \<lparr>boCacheRoot = ocCacheRoot c, boCacheDownloaderImage = ocDownloaderImage c,
             boRequests = [], boLimits = [], boRuntimeModelPath = []\<rparr> = Inr b" and "blCacheRoot b = cleanRoot" .
  then show thesis
    using that root parts assms(2)
    by (simp add: cacheReconcilerFor_def NewModelCacheReconciler_def NewCachePlanner_def readable_def checkSelector_accepts
        find_accepts Let_def)
qed

lemma deploymentControllerFor_succeeds:
  assumes "validateConfig (suChecks S) (suQuantities S) c = None" and "readable (suChecks S) c"
    and root: "CleanAbsolutePath (ocCacheRoot c) ''cache root'' = Inr cleanRoot"
  obtains r where "deploymentControllerFor S c drain = Inr r" and "blCacheRoot (lcBuilder r) = cleanRoot"
    and "rvCacheRoot (lcValidator r) = cleanRoot" and "lcDefaultCacheSize r = ocDefaultCacheSize c" and "lcClient r = suClient S drain"
proof -
  note parts = validateConfig_parts [OF assms(1) root]
  from NewBuilder_default [OF root parts(1,3)] obtain b
    where "NewBuilder (suQuantities S) \<lparr>boCacheRoot = ocCacheRoot c, boCacheDownloaderImage = ocDownloaderImage c,
             boRequests = [], boLimits = [], boRuntimeModelPath = []\<rparr> = Inr b" and "blCacheRoot b = cleanRoot" .
  moreover have "vIsQualifiedName (suChecks S) (ocGPUTypeLabel c) = []"
    using assms(1,2) by (auto simp: validateConfig_def readable_def Let_def split: if_splits option.splits sum.splits)
  ultimately show thesis
    using that parts assms(2)
    by (auto simp: deploymentControllerFor_def NewModelDeploymentController_def NewGPUPlanner_def readable_def wrapError_def
        checkSelector_accepts Let_def)
qed

text \<open>Errors of the constructors.\<close>

definition controllerRejected :: "start_error \<Rightarrow> bool" where
  "controllerRejected err = (case err of CacheReconcilerRejected _ \<Rightarrow> True | ControllerRejected _ \<Rightarrow> True | _ \<Rightarrow> False)"

lemma library_not_rejected: "library lib what = Inl err \<Longrightarrow> \<not> controllerRejected err"
  by (auto simp: library_def controllerRejected_def split: option.splits)

lemma drainSourceFor_not_rejected: "drainSourceFor c = Inl err \<Longrightarrow> \<not> controllerRejected err"
  by (auto simp: drainSourceFor_def controllerRejected_def bind_result_Inl_iff split: option.splits)

lemma registerWebhooks_not_rejected: "registerWebhooks S c = Inl err \<Longrightarrow> \<not> controllerRejected err"
  by (auto simp: registerWebhooks_def bind_result_Inl_iff library_not_rejected split: if_splits)

lemmas not_rejected = library_not_rejected drainSourceFor_not_rejected registerWebhooks_not_rejected

text \<open>The part of \<open>run\<close> after a configuration is accepted.\<close>

lemma run_cases:
  obtains (failed) err where "run S env = Inl err" and "\<not> controllerRejected err"
  | (started) c caches drain deployments p where "operatorConfigFromEnv (suChecks S) (suDrainEnv S) env = Inr c"
      and "validateConfig (suChecks S) (suQuantities S) c = None" and "drainSourceFor c = Inr drain"
      and "cacheReconcilerFor S c = Inr caches" and "deploymentControllerFor S c drain = Inr deployments"
      and "run S env = Inr p" and "opCaches p = caches" and "opDeployments p = deployments" and "opDrainSource p = drain"
      and "opWebhookPort p = (if ocWebhookEnabled c then Some (ocWebhookPort c) else None)"
proof (cases "run S env")
  case (Inl err)
  have "\<not> controllerRejected err"
  proof (cases "\<exists>c. operatorConfigFromEnv (suChecks S) (suDrainEnv S) env = Inr c \<and>
                     validateConfig (suChecks S) (suQuantities S) c = None")
    case True
    then obtain c where c: "operatorConfigFromEnv (suChecks S) (suDrainEnv S) env = Inr c"
      "validateConfig (suChecks S) (suQuantities S) c = None" by blast
    note ready = operatorConfigFromEnv_readable [OF c(1)]
    obtain cleanRoot where r: "CleanAbsolutePath (ocCacheRoot c) ''cache root'' = Inr cleanRoot" by (rule validateConfig_root [OF c(2)])
    have "cacheReconcilerFor S c \<noteq> Inl e" "deploymentControllerFor S c drain \<noteq> Inl e'" for e e' drain
      using cacheReconcilerFor_succeeds [OF c(2) ready r] deploymentControllerFor_succeeds [OF c(2) ready r, of drain] by fastforce+
    then show ?thesis
      using Inl c
      by (auto simp: run_def Let_def bind_result_Inl_iff not_rejected split: if_splits) (auto simp: controllerRejected_def)
  next
    case False
    then have "library (suLib S) ''context'' = Inl err \<or> (\<exists>e. err = ConfigUnreadable e) \<or> (\<exists>e. err = ConfigRejected e)"
      using Inl unfolding run_def Let_def
      by (cases "operatorConfigFromEnv (suChecks S) (suDrainEnv S) env"; cases "library (suLib S) ''context''")
        (auto simp: wrapError_def split: option.splits)
    then show ?thesis using library_not_rejected [of "suLib S" "''context''" err] by (auto simp: controllerRejected_def)
  qed
  then show ?thesis by (rule failed [OF Inl])
next
  case (Inr p)
  then obtain c webhooks caches drain deployments where c: "operatorConfigFromEnv (suChecks S) (suDrainEnv S) env = Inr c"
    "validateConfig (suChecks S) (suQuantities S) c = None" "drainSourceFor c = Inr drain"
    "cacheReconcilerFor S c = Inr caches" "deploymentControllerFor S c drain = Inr deployments"
    and p: "p = \<lparr>opLeaderNamespace = leaderElectionNamespace env,
                opWebhookPort = (if ocWebhookEnabled c then Some (ocWebhookPort c) else None), opWebhooks = webhooks, opCaches = caches,
                opDrainSource = drain, opDeployments = deployments\<rparr>"
    unfolding run_def Let_def by (auto simp: bind_result_Inr_iff split: if_splits option.splits)
  show ?thesis by (rule started [OF c Inr]) (simp_all add: p)
qed

text \<open>C20. A configuration that is read from the environment and passes validation is enough to build the controllers: the process never
  stops because the cache reconciler or the deployment controller rejects it. A process that starts has the configured cache root, a clean absolute path other than
  \<open>/\<close>, in the builders, the cache planner and the validator of both controllers, requeues after positive intervals, and creates caches with a default
  size that is a positive quantity. Its webhook server, if it has one, has a valid port.\<close>

theorem operator_starts_consistently:
  "case run S env of
     Inl err \<Rightarrow> \<not> controllerRejected err
   | Inr p \<Rightarrow>
       (\<exists>cleanRoot. cleanRoot = oeGetenv env ''INFEROPS_CACHE_ROOT'' \<and> path_is_abs cleanRoot \<and> path_clean cleanRoot = cleanRoot \<and> cleanRoot \<noteq> ''/'' \<and>
          blCacheRoot (crBuilder (opCaches p)) = cleanRoot \<and> pcCacheRoot (crPlanner (opCaches p)) = cleanRoot \<and>
          blCacheRoot (lcBuilder (opDeployments p)) = cleanRoot \<and> rvCacheRoot (lcValidator (opDeployments p)) = cleanRoot) \<and>
       0 < crPendingRequeueAfter (opCaches p) \<and> 0 < crDownloadRequeueAfter (opCaches p) \<and>
       (\<exists>q. qParse (suQuantities S) (lcDefaultCacheSize (opDeployments p)) = Some q \<and> 0 < qSign (suQuantities S) q) \<and>
       pred_option (\<lambda>port. 1 \<le> port \<and> port \<le> 65535) (opWebhookPort p)"
proof (cases rule: run_cases [of S env])
  case failed
  then show ?thesis by simp
next
  case (started c caches drain deployments p)
  note ready = operatorConfigFromEnv_readable [OF started(1)]
  obtain cleanRoot where r: "CleanAbsolutePath (ocCacheRoot c) ''cache root'' = Inr cleanRoot" by (rule validateConfig_root [OF started(2)])
  have env: "ocCacheRoot c = oeGetenv env ''INFEROPS_CACHE_ROOT''"
    using started(1) by (auto simp: operatorConfigFromEnv_def bind_result_Inr_iff)
  have "\<exists>q. qParse (suQuantities S) (ocDefaultCacheSize c) = Some q \<and> 0 < qSign (suQuantities S) q"
    "pred_option (\<lambda>port. 1 \<le> port \<and> port \<le> 65535) (opWebhookPort p)"
    using started(2,10) ready
    by (auto simp: validateConfig_def readable_def Let_def not_le split: if_splits option.splits sum.splits)
  moreover obtain "blCacheRoot (crBuilder caches) = cleanRoot" "pcCacheRoot (crPlanner caches) = cleanRoot"
    "crPendingRequeueAfter caches = ocCachePendingRequeue c" "crDownloadRequeueAfter caches = ocCacheDownloadRequeue c"
    using cacheReconcilerFor_succeeds [OF started(2) ready r] started(4) by (metis sum.inject(2))
  moreover obtain "blCacheRoot (lcBuilder deployments) = cleanRoot" "rvCacheRoot (lcValidator deployments) = cleanRoot"
    "lcDefaultCacheSize deployments = ocDefaultCacheSize c"
    using deploymentControllerFor_succeeds [OF started(2) ready r] started(5) by (metis sum.inject(2))
  moreover have "cleanRoot = ocCacheRoot c" "path_is_abs cleanRoot" "path_clean cleanRoot = cleanRoot"
    using r by (auto simp: CleanAbsolutePath_def Let_def split: if_splits)
  ultimately show ?thesis
    using started(6-9) ready r validateConfig_parts(1) [OF started(2) r] env by (simp add: readable_def)
qed

section \<open>Printing and parsing selectors\<close>

text \<open>The characters of qualified names and label values, and the text of a selector as the variable holds it.\<close>

definition name_char :: "char \<Rightarrow> bool" where
  "name_char c \<longleftrightarrow>
     (let n = of_char c :: nat
      in 45 \<le> n \<and> n \<le> 57 \<or> 65 \<le> n \<and> n \<le> 90 \<or> n = 95 \<or> 97 \<le> n \<and> n \<le> 122)"

definition printSelector :: "string_map \<Rightarrow> string" where
  "printSelector selector = join '','' (map (\<lambda>(key, val). key @ ''='' @ val) selector)"

definition visible :: "char \<Rightarrow> bool" where
  "visible c \<longleftrightarrow> (of_char c :: nat) \<in> {33..126}"

lemma space_len_visible: "list_all visible s \<Longrightarrow> space_len s = 0"
  by (cases s) (auto simp: space_len_def visible_def Let_def take_Cons')

lemma list_all_rev_take: "list_all P r \<Longrightarrow> list_all P (rev (take n r))"
  by (auto simp: list_all_iff dest: in_set_takeD)

lemma last_space_len_visible: "list_all visible r \<Longrightarrow> last_space_len r = 0"
  unfolding last_space_len_def by (simp only: space_len_visible list_all_rev_take) simp

lemma trim_space_visible:
  assumes "list_all visible s"
  shows "trim_space s = s"
proof -
  have "list_all visible (rev s)" using assms by (simp only: list_all_iff set_rev)
  then show ?thesis
    using assms
    by (simp add: trim_space_def trim_left_space.simps [of s] trim_right_space_rev.simps [of "rev s"] space_len_visible
        last_space_len_visible)
qed

lemma name_char_visible: "list_all name_char s \<Longrightarrow> list_all visible s"
  by (erule list.pred_mono_strong) (auto simp: name_char_def visible_def Let_def)

lemma name_char_no_sep: "list_all name_char s \<Longrightarrow> CHR ''='' \<notin> set s \<and> CHR '','' \<notin> set s"
proof -
  have "\<not> name_char CHR ''=''" "\<not> name_char CHR '',''" by (simp_all add: name_char_def)
  then show "list_all name_char s \<Longrightarrow> ?thesis" by (auto simp only: list_all_iff)
qed

lemma splitAtEquals_pair: "CHR ''='' \<notin> set key \<Longrightarrow> splitAtEquals (key @ ''='' @ val) = [key, val]"
proof -
  assume "CHR ''='' \<notin> set key"
  then have "\<And>c. c \<in> set key \<Longrightarrow> c \<noteq> CHR ''=''" by auto
  then show ?thesis by (simp add: splitAtEquals_def takeWhile_append2 dropWhile_append2)
qed

lemma selectorEntry_printed:
  assumes "list_all name_char key" and "list_all name_char val" and "vIsQualifiedName N key = []" and "vIsValidLabelValue N val = []"
    and "key \<notin> fst ` set selected"
  shows "selectorEntry N selected (key @ ''='' @ val) = Inr (selected @ [(key, val)])"
proof -
  have "list_all visible (key @ ''='' @ val)" using assms(1,2) by (simp add: name_char_visible visible_def)
  then show ?thesis
    using assms unfolding selectorEntry_def Let_def
    by (simp add: trim_space_visible name_char_visible splitAtEquals_pair [simplified] name_char_no_sep)
qed

lemma selectorEntries_printed:
  assumes "validSelector N (selected @ selector)" and "list_all (\<lambda>(key, val). list_all name_char key \<and> list_all name_char val) selector"
  shows "selectorEntries N selected (map (\<lambda>(key, val). key @ ''='' @ val) selector) = Inr (selected @ selector)"
  using assms
proof (induction selector arbitrary: selected)
  case (Cons entry selector)
  obtain key val where e: "entry = (key, val)" by (cases entry)
  have "selectorEntry N selected (key @ ''='' @ val) = Inr (selected @ [entry])"
    using Cons.prems by (auto simp: e validSelector_def intro!: selectorEntry_printed [simplified])
  then show ?case using Cons by (simp add: e)
qed simp

text \<open>C39. Node selectors survive printing and parsing: with name checks that accept only the documented characters, the text
  \<open>key=value,...\<close> of a selector whose keys are distinct and whose keys and values are valid parses to that selector.\<close>

theorem parseNodeSelector_round_trip:
  assumes "\<And>s. vIsQualifiedName N s = [] \<Longrightarrow> list_all name_char s" and "\<And>s. vIsValidLabelValue N s = [] \<Longrightarrow> list_all name_char s"
    and "validSelector N selector"
  shows "parseNodeSelector N (printSelector selector) = Inr selector"
proof (cases "selector = []")
  case False
  have chars: "list_all (\<lambda>(key, val). list_all name_char key \<and> list_all name_char val) selector"
    using assms by (fastforce simp: validSelector_def list_all_iff)
  define printed where "printed = map (\<lambda>(key, val). key @ ''='' @ val) selector"
  have "\<forall>s \<in> set printed. CHR '','' \<notin> set s"
    using chars by (fastforce simp: printed_def list_all_iff dest: name_char_no_sep [unfolded list_all_iff])
  then have split: "split_on CHR '','' (printSelector selector) = printed"
    using False split_on_join [of printed "CHR '',''"] by (simp add: printSelector_def printed_def)
  moreover have "printSelector selector \<noteq> []"
    using False split by (cases selector) (auto simp: printed_def)
  ultimately show ?thesis
    using selectorEntries_printed [of N "[]" selector] assms(3) chars by (simp add: parseNodeSelector_def printed_def)
qed (simp add: printSelector_def parseNodeSelector_def)

definition strict_checks :: name_checks where
  "strict_checks =
     (let check = (\<lambda>s. if s \<noteq> [] \<and> list_all name_char s then [] else [''invalid''])
      in \<lparr>vIsDNS1035Label = check, vIsDNS1123Label = check, vIsDNS1123Subdomain = check, vIsValidLabelValue = check,
          vIsQualifiedName = check, vIsEnvVarName = check\<rparr>)"

theorem parseNodeSelector_round_trip_witness:
  "parseNodeSelector strict_checks (printSelector [(''disk'', ''ssd''), (''inferops.dev/pool'', ''gpu-1'')]) =
   Inr [(''disk'', ''ssd''), (''inferops.dev/pool'', ''gpu-1'')]"
  by (rule parseNodeSelector_round_trip) (auto simp: strict_checks_def validSelector_def name_char_def Let_def split: if_splits)

section \<open>An operator that starts\<close>

definition sampleOperatorEnv :: operatorEnv where
  "sampleOperatorEnv =
     \<lparr>oeGetenv = (\<lambda>key. if key = ''INFEROPS_CACHE_ROOT'' then ''/c''
                      else if key = ''INFEROPS_CACHE_DOWNLOADER_IMAGE'' then ''dl:v1''
                      else if key = ''INFEROPS_DEFAULT_CACHE_SIZE'' then ''1'' else []),
      oeNamespaceFile = None\<rparr>"

lemma trim_space_Nil: "trim_space [] = []" by code_simp

lemma sample_checks:
  "CleanAbsolutePath ''/c'' ''cache root'' = Inr ''/c''" "ValidatePinnedImage ''dl:v1'' = None"
  "qParse whole_quantity ''1'' = Some 1" "qSign whole_quantity 1 = 1"
proof -
  have "CleanAbsolutePath ''/c'' ''cache root'' = Inr ''/c'' \<and> ValidatePinnedImage ''dl:v1'' = None \<and>
    qParse whole_quantity ''1'' = Some 1 \<and> qSign whole_quantity 1 = 1" by code_simp
  note r = this
  show "CleanAbsolutePath ''/c'' ''cache root'' = Inr ''/c''" by (rule r [THEN conjunct1])
  show "ValidatePinnedImage ''dl:v1'' = None" by (rule r [THEN conjunct2, THEN conjunct1])
  show "qParse whole_quantity ''1'' = Some 1" by (rule r [THEN conjunct2, THEN conjunct2, THEN conjunct1])
  show "qSign whole_quantity 1 = 1" by (rule r [THEN conjunct2, THEN conjunct2, THEN conjunct2])
qed

definition sampleOperatorConfig :: operatorConfig where
  "sampleOperatorConfig =
     \<lparr>ocHealthAddr = '':8081'', ocMetricsAddr = '':8080'', ocCacheRoot = ''/c'', ocDefaultCacheSize = ''1'', ocDownloaderImage = ''dl:v1'',
      ocCacheNodeSelector = [], ocCacheCapacityAnnotation = ''inferops.dev/cache-capacity'', ocCacheRequiredResources = [],
      ocCachePendingRequeue = 30 * 10 ^ 9, ocCacheDownloadRequeue = 10 * 10 ^ 9, ocGPUNodeSelector = [],
      ocGPUTypeLabel = ''inferops.dev/gpu-type'', ocDrainChecker = None, ocGatewayDrainService = None, ocWebhookEnabled = False,
      ocWebhookPort = 9443, ocWebhookCertDir = ''/tmp/k8s-webhook-server/serving-certs''\<rparr>"

lemma sample_config: "operatorConfigFromEnv lax_checks E sampleOperatorEnv = Inr sampleOperatorConfig"
  unfolding operatorConfigFromEnv_def sampleOperatorEnv_def sampleOperatorConfig_def
  by (simp add: parseNodeSelector_def parseResourceNames_def durationFromEnv_def boolFromEnv_def intFromEnv_def drainStatusFromEnv_def
      trim_space_Nil envOrDefault_def wrapError_def)

lemma sample_valid: "validateConfig lax_checks whole_quantity sampleOperatorConfig = None"
  by (simp add: validateConfig_def sampleOperatorConfig_def NewReconciliationValidator_def sample_checks lax_checks_def Let_def)

text \<open>With a controller library whose calls succeed, this environment starts an operator.\<close>

lemma sample_operator_starts:
  assumes "suLib S = (\<lambda>_. None)" and "suChecks S = lax_checks" and "suQuantities S = whole_quantity"
  obtains p where "run S sampleOperatorEnv = Inr p" and "opDrainSource p = NoDrainChecker"
proof -
  have v: "validateConfig (suChecks S) (suQuantities S) sampleOperatorConfig = None" using sample_valid assms by simp
  have r: "readable (suChecks S) sampleOperatorConfig" using operatorConfigFromEnv_readable [OF sample_config] assms by simp
  have root: "CleanAbsolutePath (ocCacheRoot sampleOperatorConfig) ''cache root'' = Inr ''/c''"
    by (simp add: sampleOperatorConfig_def sample_checks)
  obtain caches where "cacheReconcilerFor S sampleOperatorConfig = Inr caches" by (rule cacheReconcilerFor_succeeds [OF v r root])
  moreover obtain deployments where "deploymentControllerFor S sampleOperatorConfig NoDrainChecker = Inr deployments"
    by (rule deploymentControllerFor_succeeds [OF v r root])
  moreover have "drainSourceFor sampleOperatorConfig = Inr NoDrainChecker" "registerWebhooks S sampleOperatorConfig = Inr []"
    by (simp_all add: drainSourceFor_def registerWebhooks_def sampleOperatorConfig_def)
  moreover have "vIsDNS1123Label lax_checks (leaderElectionNamespace sampleOperatorEnv) = []"
    by (simp add: leaderElectionNamespace_def sampleOperatorEnv_def lax_checks_def Let_def)
  ultimately show thesis
    using that v assms unfolding run_def Let_def
    by (simp add: library_def sample_config wrapError_def)
qed

end
