(* ===== verification/Operator_Metrics.thy ===== *)
theory Operator_Metrics
  imports Cache_Controller Gateway_Proxy
begin

text \<open>
  \<open>operator/internal/metrics/controller.go\<close>: the collectors of the controllers as a state, and what each observation of the controllers does to
  it. A gauge without a value for a label is \<open>None\<close>; a histogram is the list of the observed seconds. Values are \<open>float64\<close>.
  The theorems show that the failure counters agree and that the gauges of the cache inventory count the caches.
\<close>

record ControllerMetrics =
  cmGPUSlotsTotal :: "string \<Rightarrow> rat option"
  cmGPUSlotsOccupied :: "string \<Rightarrow> rat option"
  cmGPUSlotsAvailable :: "string \<Rightarrow> rat option"
  cmActivationQueue :: rat
  cmModelCachePhases :: "string \<Rightarrow> rat option"
  cmModelCacheReserved :: "string \<Rightarrow> rat option"
  cmActivationDuration :: "rat list"
  cmCacheDownload :: "rat list"
  cmReconciliationError :: "string \<times> string \<Rightarrow> nat"
  cmActivationFailures :: "string \<Rightarrow> nat"
  cmCacheFailures :: "string \<Rightarrow> nat"

definition emptyMetrics :: ControllerMetrics where
  "emptyMetrics =
     \<lparr>cmGPUSlotsTotal = (\<lambda>_. None), cmGPUSlotsOccupied = (\<lambda>_. None), cmGPUSlotsAvailable = (\<lambda>_. None), cmActivationQueue = 0,
      cmModelCachePhases = (\<lambda>_. None), cmModelCacheReserved = (\<lambda>_. None), cmActivationDuration = [], cmCacheDownload = [],
      cmReconciliationError = (\<lambda>_. 0), cmActivationFailures = (\<lambda>_. 0), cmCacheFailures = (\<lambda>_. 0)\<rparr>"

text \<open>Registration stops at the first error and keeps what was registered before it.\<close>

definition controllerCollectors :: "string list" where
  "controllerCollectors = [''inferops_gpu_slots_total'', ''inferops_gpu_slots_occupied'', ''inferops_gpu_slots_available'',
     ''inferops_activation_queue_depth'', ''inferops_modelcache_phase_count'', ''inferops_modelcache_reserved_bytes'',
     ''inferops_model_activation_duration_seconds'', ''inferops_cache_download_duration_seconds'', ''inferops_controller_failures_total'',
     ''inferops_activation_failures_total'', ''inferops_cache_download_failures_total'']"

fun registerInOrder :: "(string \<Rightarrow> 's \<Rightarrow> ('e, 's) result) \<Rightarrow> string list \<Rightarrow> 's \<Rightarrow> 's \<times> 'e option" where
  "registerInOrder register [] s = (s, None)"
| "registerInOrder register (c # cs) s =
     (case register c s of Inl err \<Rightarrow> (s, Some err) | Inr s' \<Rightarrow> registerInOrder register cs s')"

definition NewControllerMetrics :: "(string \<Rightarrow> 's \<Rightarrow> ('e, 's) result) \<Rightarrow> 's \<Rightarrow> 's \<times> ('e, ControllerMetrics) result" where
  "NewControllerMetrics register s =
     (case registerInOrder register controllerCollectors s of
        (s', Some err) \<Rightarrow> (s', Inl err)
      | (s', None) \<Rightarrow> (s', Inr emptyMetrics))"

section \<open>Observations\<close>

definition setGPUSlots :: "string \<Rightarrow> rat \<Rightarrow> rat \<Rightarrow> rat \<Rightarrow> ControllerMetrics \<Rightarrow> ControllerMetrics" where
  "setGPUSlots resource capacity occupied available m =
     m\<lparr>cmGPUSlotsTotal := (cmGPUSlotsTotal m)(resource \<mapsto> capacity), cmGPUSlotsOccupied := (cmGPUSlotsOccupied m)(resource \<mapsto> occupied),
       cmGPUSlotsAvailable := (cmGPUSlotsAvailable m)(resource \<mapsto> available)\<rparr>"

definition setModelCacheInventory :: "(string \<times> rat) list \<Rightarrow> (string \<times> rat) list \<Rightarrow> ControllerMetrics \<Rightarrow> ControllerMetrics" where
  "setModelCacheInventory phaseCounts reservedBytes m =
     m\<lparr>cmModelCachePhases := cmModelCachePhases m ++ map_of phaseCounts,
       cmModelCacheReserved := cmModelCacheReserved m ++ map_of reservedBytes\<rparr>"

definition incFailure :: "string \<Rightarrow> string \<Rightarrow> ControllerMetrics \<Rightarrow> ControllerMetrics" where
  "incFailure controller reason m =
     (let m' = m\<lparr>cmReconciliationError := (cmReconciliationError m)((controller, reason) := cmReconciliationError m (controller, reason) + 1)\<rparr>
      in if controller = ''modeldeployment''
           then m'\<lparr>cmActivationFailures := (cmActivationFailures m')(reason := cmActivationFailures m' reason + 1)\<rparr>
         else if controller = ''modelcache'' then m'\<lparr>cmCacheFailures := (cmCacheFailures m')(reason := cmCacheFailures m' reason + 1)\<rparr>
         else m')"

text \<open>What the recorder does for the observations of the three controllers; events go to the API server.\<close>

definition recordObservation :: "observation \<Rightarrow> ControllerMetrics \<Rightarrow> ControllerMetrics" where
  "recordObservation ob m =
     (case ob of
        EventRecorded _ _ _ \<Rightarrow> m
      | SetGPUSlots resource capacity occupied available \<Rightarrow>
          setGPUSlots resource (fl64 (of_int capacity)) (fl64 (of_int occupied)) (fl64 (of_int available)) m
      | SetActivationQueueDepth depth \<Rightarrow> m\<lparr>cmActivationQueue := fl64 (of_int depth)\<rparr>
      | ObserveActivationDuration d \<Rightarrow> m\<lparr>cmActivationDuration := cmActivationDuration m @ [durationSeconds d]\<rparr>
      | IncFailure controller reason \<Rightarrow> incFailure controller reason m)"

definition recordCacheObservation :: "cache_observation \<Rightarrow> ControllerMetrics \<Rightarrow> ControllerMetrics" where
  "recordCacheObservation ob m =
     (case ob of
        CacheEventRecorded _ _ _ \<Rightarrow> m
      | CacheFailureCounted reason \<Rightarrow> incFailure ''modelcache'' reason m
      | CacheDownloadDurationObserved d \<Rightarrow> m\<lparr>cmCacheDownload := cmCacheDownload m @ [durationSeconds d]\<rparr>
      | CacheInventorySet phaseCounts reservedBytes \<Rightarrow> setModelCacheInventory phaseCounts reservedBytes m)"

section \<open>Failure counters\<close>

definition failuresAgree :: "ControllerMetrics \<Rightarrow> bool" where
  "failuresAgree m \<longleftrightarrow>
     cmActivationFailures m = (\<lambda>reason. cmReconciliationError m (''modeldeployment'', reason)) \<and>
     cmCacheFailures m = (\<lambda>reason. cmReconciliationError m (''modelcache'', reason))"

lemma incFailure_agree: "failuresAgree m \<Longrightarrow> failuresAgree (incFailure controller reason m)"
  by (auto simp: failuresAgree_def incFailure_def Let_def fun_eq_iff)

lemma recordObservation_agree: "failuresAgree m \<Longrightarrow> failuresAgree (recordObservation ob m)"
  using incFailure_agree [of m]
  by (cases ob) (simp_all add: recordObservation_def, simp_all add: setGPUSlots_def failuresAgree_def)

lemma recordCacheObservation_agree: "failuresAgree m \<Longrightarrow> failuresAgree (recordCacheObservation ob m)"
  using incFailure_agree [of m]
  by (cases ob) (simp_all add: recordCacheObservation_def, simp_all add: setModelCacheInventory_def failuresAgree_def)

text \<open>The failure counters by controller always agree with the common counter.\<close>

theorem failure_counters_agree:
  "failuresAgree (fold (\<lambda>ob. case ob of Inl a \<Rightarrow> recordObservation a | Inr b \<Rightarrow> recordCacheObservation b) obs emptyMetrics)"
proof -
  have "failuresAgree (fold (\<lambda>ob. case ob of Inl a \<Rightarrow> recordObservation a | Inr b \<Rightarrow> recordCacheObservation b) obs m)"
    if "failuresAgree m" for m
    using that
    by (induction obs arbitrary: m) (auto simp: recordObservation_agree recordCacheObservation_agree split: sum.split)
  then show ?thesis by (simp add: failuresAgree_def emptyMetrics_def)
qed

section \<open>The inventory of caches\<close>

definition phaseLabel :: "ModelCache \<Rightarrow> string" where
  "phaseLabel cache =
     (if modelCachePhaseString (ctPhase (mcStatus cache)) = [] then ''Unknown'' else modelCachePhaseString (ctPhase (mcStatus cache)))"

lemma addCacheInventory_counts: "fst (addCacheInventory Q inventory cache) = addFloat (phaseLabel cache) 1 (fst inventory)"
  by (simp add: addCacheInventory_def phaseLabel_def Let_def split: option.split)

lemma fold_inventory_counts:
  "fst (foldl (addCacheInventory Q) inventory caches) = foldl (\<lambda>counts cache. addFloat (phaseLabel cache) 1 counts) (fst inventory) caches"
  by (induction caches arbitrary: inventory) (simp_all add: addCacheInventory_counts)

lemma addFloat_one:
  assumes "map_of counts key = Some (of_nat n)" and "n < 2 ^ 52"
  shows "map_of (addFloat key 1 counts) key = Some (of_nat (Suc n))"
proof -
  have "fl64 (of_nat (Suc n) :: rat) = of_nat (Suc n)"
    using assms(2) fl64_small_nat [of "int (Suc n)"] by simp
  then show ?thesis using assms(1) by (simp add: addFloat_def update_conv' add.commute)
qed

lemma addFloat_other: "other \<noteq> key \<Longrightarrow> map_of (addFloat key x counts) other = map_of counts other"
  by (simp add: addFloat_def update_conv')

lemma counts_fold:
  assumes "map_of counts l = Some (of_nat n)" and "n + length caches \<le> 2 ^ 52"
  shows "map_of (foldl (\<lambda>counts cache. addFloat (phaseLabel cache) 1 counts) counts caches) l =
    Some (of_nat (n + length (filter (\<lambda>cache. phaseLabel cache = l) caches)))"
  using assms
proof (induction caches arbitrary: counts n)
  case (Cons cache caches)
  let ?counts = "addFloat (phaseLabel cache) 1 counts" and ?n = "if phaseLabel cache = l then Suc n else n"
  have "map_of ?counts l = Some (of_nat ?n)"
    using Cons.prems addFloat_one [of counts l n] by (auto simp: addFloat_other)
  moreover have "?n + length caches \<le> 2 ^ 52" using Cons.prems(2) by simp
  ultimately show ?case using Cons.IH [of ?counts ?n] by simp
qed simp

definition phaseLabels :: "string set" where
  "phaseLabels = {''Pending'', ''Downloading'', ''Ready'', ''Failed'', ''Unknown''}"

lemma emptyCacheInventory_zero: "l \<in> phaseLabels \<Longrightarrow> map_of emptyCacheInventory l = Some (of_nat 0)"
  by (auto simp: emptyCacheInventory_def phaseLabels_def modelCachePhaseString_def)

text \<open>
  After an inventory is observed the gauge of every phase, phases without caches included, is the number of listed caches that are not being deleted
  and have that phase, whatever was recorded before.
\<close>

theorem inventory_gauges_exact:
  assumes "l \<in> phaseLabels"
    and "foldl (addCacheInventory Q) (emptyCacheInventory, emptyCacheInventory) (inventoryOf current caches) = (phaseCounts, reservedBytes)"
    and "length (inventoryOf current caches) \<le> 2 ^ 52"
  shows "cmModelCachePhases (recordCacheObservation (CacheInventorySet phaseCounts reservedBytes) m) l =
    Some (of_nat (length (filter (\<lambda>cache. phaseLabel cache = l) (inventoryOf current caches))))"
proof -
  have "phaseCounts = foldl (\<lambda>counts cache. addFloat (phaseLabel cache) 1 counts) emptyCacheInventory (inventoryOf current caches)"
    using fold_inventory_counts [of Q "(emptyCacheInventory, emptyCacheInventory)" "inventoryOf current caches"] assms(2) by simp
  moreover have "map_of (foldl (\<lambda>counts cache. addFloat (phaseLabel cache) 1 counts) emptyCacheInventory (inventoryOf current caches)) l =
      Some (of_nat (0 + length (filter (\<lambda>cache. phaseLabel cache = l) (inventoryOf current caches))))"
    by (rule counts_fold) (use assms in \<open>simp_all add: emptyCacheInventory_zero\<close>)
  ultimately show ?thesis by (simp add: recordCacheObservation_def setModelCacheInventory_def map_add_Some_iff)
qed

end
