(* ===== verification/Runtime_Scraper.thy ===== *)
theory Runtime_Scraper
  imports Kube_Client Go_Float Discovery
begin

text \<open>
  \<open>operator/controllers/runtime_metrics_scraper.go\<close>: the queue signals that replica planning reads from a runtime. Sending the request and
  the Prometheus text parser are parameters. A gauge is an IEEE double, which may be infinite or not a number; the conversion of
  such values, and of values outside the range of \<open>int64\<close>, to an integer is left to the implementation by Go, so it is an argument.
\<close>

section \<open>Doubles\<close>

datatype float64 =
    Finite rat
  | PosInfinity
  | NegInfinity
  | NotANumber

definition overflowed :: "rat \<Rightarrow> float64" where
  "overflowed x = (if x \<ge> 2 ^ 1024 then PosInfinity else if x \<le> - (2 ^ 1024) then NegInfinity else Finite x)"

fun addFloat64 :: "float64 \<Rightarrow> float64 \<Rightarrow> float64" where
  "addFloat64 (Finite x) (Finite y) = overflowed (fl64 (x + y))"
| "addFloat64 NotANumber _ = NotANumber"
| "addFloat64 _ NotANumber = NotANumber"
| "addFloat64 PosInfinity NegInfinity = NotANumber"
| "addFloat64 NegInfinity PosInfinity = NotANumber"
| "addFloat64 PosInfinity _ = PosInfinity"
| "addFloat64 _ PosInfinity = PosInfinity"
| "addFloat64 NegInfinity _ = NegInfinity"
| "addFloat64 _ NegInfinity = NegInfinity"

definition negativeFloat64 :: "float64 \<Rightarrow> bool" where
  "negativeFloat64 x = (case x of Finite r \<Rightarrow> r < 0 | NegInfinity \<Rightarrow> True | _ \<Rightarrow> False)"

definition toInt64 :: "(float64 \<Rightarrow> int) \<Rightarrow> float64 \<Rightarrow> int" where
  "toInt64 X x =
     (case x of
        Finite r \<Rightarrow>
          (let truncated = (if r \<ge> 0 then floor r else - floor (- r))
           in if is_int64 truncated then truncated else X x)
      | _ \<Rightarrow> X x)"

section \<open>Gauges\<close>

text \<open>A family of metrics: the value of the gauge of each one, if there is such a value.\<close>

type_synonym metric_family = "float64 option list"

fun sumGauges :: "float64 \<Rightarrow> metric_family \<Rightarrow> float64" where
  "sumGauges acc [] = acc"
| "sumGauges acc (None # metrics) = sumGauges acc metrics"
| "sumGauges acc (Some x # metrics) = sumGauges (addFloat64 acc x) metrics"

definition sumGaugeFamily :: "(float64 \<Rightarrow> int) \<Rightarrow> metric_family option \<Rightarrow> int" where
  "sumGaugeFamily X family =
     (case family of
        None \<Rightarrow> 0
      | Some metrics \<Rightarrow>
          (let acc = sumGauges (Finite 0) metrics
           in if negativeFloat64 acc then 0 else toInt64 X (addFloat64 acc (Finite (1 / 2)))))"

definition runtimeMetricsFromFamilies :: "(float64 \<Rightarrow> int) \<Rightarrow> (string \<times> metric_family) list \<Rightarrow> RuntimeMetrics" where
  "runtimeMetricsFromFamilies X families =
     \<lparr>rmPendingRequests = sumGaugeFamily X (map_of families ''vllm:num_requests_waiting''),
      rmRunningRequests = sumGaugeFamily X (map_of families ''vllm:num_requests_running'')\<rparr>"

section \<open>A scrape\<close>

record ('c, 'b) scrapeEnv =
  scRequestable :: "URL \<Rightarrow> bool"
  scSend :: "URL \<Rightarrow> (unit, 'c, int \<times> 'b) fallible"
  scParse :: "'b \<Rightarrow> (string \<times> metric_family) list option"
  scOther :: "float64 \<Rightarrow> int"

datatype scrape_error =
    MetricsPortInvalid
  | MetricsRequestUnbuildable
  | MetricsScrapeFailed
  | MetricsStatus int
  | MetricsUnparsable

definition metricsURL :: "string \<Rightarrow> string \<Rightarrow> int \<Rightarrow> string \<Rightarrow> URL" where
  "metricsURL namespace serviceName port path =
     \<lparr>uScheme = ''http'', uHost = serviceName @ ''.'' @ namespace @ ''.svc:'' @ itoa port,
      uPath = (if path = [] then ''/metrics'' else path), uRawPath = []\<rparr>"

definition ScrapeRuntimeMetrics ::
  "('c, 'b) scrapeEnv \<Rightarrow> string \<Rightarrow> string \<Rightarrow> int \<Rightarrow> string \<Rightarrow> (scrape_error, 'c, RuntimeMetrics) fallible" where
  "ScrapeRuntimeMetrics E namespace serviceName port path =
     (let url = metricsURL namespace serviceName port path
      in if port \<le> 0 then throw MetricsPortInvalid
         else if \<not> scRequestable E url then throw MetricsRequestUnbuildable
         else onOutcome (scSend E url) (\<lambda>outcome. case outcome of
           Inl _ \<Rightarrow> throw MetricsScrapeFailed
         | Inr (status, body) \<Rightarrow>
             if status < 200 \<or> status \<ge> 300 then throw (MetricsStatus status)
             else (case scParse E body of
                     None \<Rightarrow> throw MetricsUnparsable
                   | Some families \<Rightarrow> ok (runtimeMetricsFromFamilies (scOther E) families))))"

section \<open>Lemmas\<close>

text \<open>Halves of small integers are doubles.\<close>

lemma fl64_small_half:
  assumes "0 < m" and "m < 2 ^ 53"
  shows "fl64 (of_int m / 2) = of_int m / 2"
proof -
  let ?x = "of_int m / 2 :: rat" and ?i = "max (exponent (of_int m / 2)) (- 1022) - 52"
  have pos: "0 < ?x" using assms(1) by simp
  have "(2 :: rat) powi exponent ?x \<le> ?x" using exponent_bounds(1) [OF pos] .
  also have "?x < 2 ^ 52"
  proof -
    have "(of_int m :: rat) < 2 ^ 53" using assms(2) by (metis of_int_less_iff of_int_numeral of_int_power)
    then show ?thesis by simp
  qed
  finally have lt: "(2 :: rat) powi exponent ?x < 2 powi 52" by simp
  have i: "?i \<le> - 1"
  proof (rule ccontr)
    assume "\<not> ?i \<le> - 1"
    then have "(2 :: rat) powi 52 \<le> 2 powi exponent ?x" by (intro power_int_increasing) auto
    then show False using lt by simp
  qed
  then have "?x / ulp64 ?x = of_int m / 2 * 2 ^ nat (- ?i)" by (simp add: ulp64_def power_int_def field_simps)
  also have "\<dots> = of_int (m * 2 ^ nat (- ?i - 1))"
  proof -
    have "nat (- ?i) = Suc (nat (- ?i - 1))" using i by linarith
    then show ?thesis by simp
  qed
  finally have e: "?x / ulp64 ?x = of_int (m * 2 ^ nat (- ?i - 1))" .
  then have "of_int (round_even (?x / ulp64 ?x)) = ?x / ulp64 ?x" by (simp only: round_even_of_int)
  then show ?thesis using pos ulp64_pos [of ?x] by (simp add: fl64_def)
qed

lemma small_not_overflowed:
  assumes "\<bar>x\<bar> < 2 ^ 53"
  shows "overflowed x = Finite x"
proof -
  have "(2 :: rat) ^ 53 < 2 ^ 1024" by (intro power_strict_increasing) auto
  then show ?thesis using assms by (auto simp: overflowed_def)
qed

lemma addFloat64_small:
  assumes "0 \<le> a" "0 \<le> b" "a + b < 2 ^ 53"
  shows "addFloat64 (Finite (of_int a)) (Finite (of_int b)) = Finite (of_int (a + b))"
proof -
  have "fl64 (of_int (a + b)) = of_int (a + b)" using assms by (intro float64.small_int) simp
  moreover have "\<bar>of_int (a + b) :: rat\<bar> < 2 ^ 53"
    using assms by (metis abs_of_nonneg add_nonneg_nonneg of_int_abs of_int_less_iff of_int_numeral of_int_power)
  ultimately show ?thesis by (simp add: small_not_overflowed)
qed

text \<open>The family that reports the given counts.\<close>

definition reported :: "nat option list \<Rightarrow> metric_family" where
  "reported counts = map (map_option (\<lambda>n. Finite (of_nat n))) counts"

definition counted :: "nat option list \<Rightarrow> nat" where
  "counted counts = sum_list (map (\<lambda>c. case c of None \<Rightarrow> 0 | Some n \<Rightarrow> n) counts)"

lemma sumGauges_reported:
  "int n + int (counted counts) < 2 ^ 53 \<Longrightarrow> sumGauges (Finite (of_nat n)) (reported counts) = Finite (of_nat (n + counted counts))"
proof (induction counts arbitrary: n)
  case (Cons c counts)
  show ?case
  proof (cases c)
    case None
    then show ?thesis using Cons by (simp add: reported_def counted_def)
  next
    case (Some m)
    have "addFloat64 (Finite (of_nat n)) (Finite (of_nat m)) = Finite (of_nat (n + m))"
      using addFloat64_small [of "int n" "int m"] Cons.prems Some by (simp add: counted_def)
    moreover have "int (n + m) + int (counted counts) < 2 ^ 53" using Cons.prems Some by (simp add: counted_def)
    ultimately show ?thesis using Cons.IH [of "n + m"] Some by (simp add: reported_def counted_def add.assoc)
  qed
qed (simp add: reported_def counted_def)

section \<open>Properties\<close>

text \<open>
  Counts are read exactly: when the gauges of a family hold natural numbers with a sum below \<open>2 ^ 52\<close>, the signal is that sum, whatever
  metrics without a value are among them; a missing family is zero.
\<close>

theorem queue_signal_exact:
  assumes "counted counts < 2 ^ 52"
  shows "sumGaugeFamily X (Some (reported counts)) = int (counted counts) \<and> sumGaugeFamily X None = 0"
proof -
  let ?n = "counted counts"
  have total: "sumGauges (Finite 0) (reported counts) = Finite (of_nat ?n)"
    using sumGauges_reported [of 0 counts] assms by simp
  have "fl64 (of_int (2 * int ?n + 1) / 2) = of_int (2 * int ?n + 1) / 2" using assms by (intro fl64_small_half) simp_all
  then have half: "fl64 (of_nat ?n + 1 / 2) = of_nat ?n + 1 / 2" by (simp add: add_divide_distrib)
  have "(of_nat ?n :: rat) + 1 \<le> 2 ^ 52"
    using assms by (metis Suc_leI add.commute of_nat_Suc of_nat_le_iff of_nat_numeral of_nat_power)
  then have "\<bar>of_nat ?n + 1 / 2 :: rat\<bar> < 2 ^ 53" by simp
  then have "addFloat64 (Finite (of_nat ?n)) (Finite (1 / 2)) = Finite (of_nat ?n + 1 / 2)"
    using half by (simp add: small_not_overflowed)
  moreover have "floor (of_nat ?n + 1 / 2 :: rat) = int ?n" by (simp add: floor_unique)
  moreover have "is_int64 (int ?n)" using assms by (simp add: is_int64_def)
  ultimately show ?thesis using total by (simp add: sumGaugeFamily_def negativeFloat64_def toInt64_def Let_def)
qed

end
