(* ===== verification/Gateway_Auth.thy ===== *)
theory Gateway_Auth
  imports Gateway_Serving
begin

text \<open>
  \<open>gateway/internal/auth/auth.go\<close>: bearer-token authentication in front of the proxy, and its token file
  with a bounded cache. The file system is an argument: reading the file at a call yields its content
  or an error. The theorems show that the middleware fails closed, that a request reaches the next
  handler only with a token of the file and without its credentials, and that a change of the file takes effect
  within the reload interval.
\<close>

section \<open>Token source\<close>

datatype token_error =
    TokenSourceNotConfigured
  | TokenFileUnreadable
  | TokenFileEmpty

datatype token_config_error =
    TokenPathRequired
  | ReloadIntervalNegative

record FileTokenSource =
  fsPath :: string
  fsReloadInterval :: duration
  fsTokens :: "string list"
  fsReloadErr :: "token_error option"
  fsNextReload :: time

definition defaultReloadInterval :: duration where
  "defaultReloadInterval = 1000000000"

definition newFileTokenSource :: "string \<Rightarrow> duration \<Rightarrow> (token_config_error, FileTokenSource) result" where
  "newFileTokenSource path0 reloadInterval =
     (let path = trim_space path0
      in if path = [] then Inl TokenPathRequired
         else if reloadInterval < 0 then Inl ReloadIntervalNegative
         else Inr \<lparr>fsPath = path, fsReloadInterval = reloadInterval, fsTokens = [], fsReloadErr = None,
                   fsNextReload = 0\<rparr>)"

definition NewFileTokenSource :: "string \<Rightarrow> (token_config_error, FileTokenSource) result" where
  "NewFileTokenSource path = newFileTokenSource path defaultReloadInterval"

definition parseTokens :: "string \<Rightarrow> string list" where
  "parseTokens content =
     filter (\<lambda>token. token \<noteq> []) (map trim_space (split_on CHR 0x0A content))"

text \<open>\<open>readFile\<close> is what \<open>os.ReadFile\<close> yields at this call.\<close>

definition Tokens ::
  "time \<Rightarrow> (string \<Rightarrow> string option) \<Rightarrow> FileTokenSource \<Rightarrow> FileTokenSource \<times> (token_error, string list) result" where
  "Tokens now readFile s =
     (if fsPath s = [] then (s, Inl TokenSourceNotConfigured)
      else if fsNextReload s \<noteq> 0 \<and> now < fsNextReload s
        then (s, case fsReloadErr s of Some err \<Rightarrow> Inl err | None \<Rightarrow> Inr (fsTokens s))
      else
        let s1 = s\<lparr>fsNextReload := now + fsReloadInterval s\<rparr>
        in (case readFile (fsPath s) of
              None \<Rightarrow> (s1\<lparr>fsTokens := [], fsReloadErr := Some TokenFileUnreadable\<rparr>, Inl TokenFileUnreadable)
            | Some content \<Rightarrow>
                let tokens = parseTokens content
                in if tokens = []
                     then (s1\<lparr>fsTokens := [], fsReloadErr := Some TokenFileEmpty\<rparr>, Inl TokenFileEmpty)
                   else (s1\<lparr>fsTokens := tokens, fsReloadErr := None\<rparr>, Inr tokens)))"

section \<open>Middleware\<close>

definition bearerToken :: "string list \<Rightarrow> string option" where
  "bearerToken values =
     (case values of
        [value] \<Rightarrow>
          (case Go_Strings.fields value of
             [scheme, token] \<Rightarrow> if \<not> equal_fold scheme ''Bearer'' \<or> token = [] then None else Some token
           | _ \<Rightarrow> None)
      | _ \<Rightarrow> None)"

definition constantTimeCompare :: "string \<Rightarrow> string \<Rightarrow> bool" where
  "constantTimeCompare x y \<longleftrightarrow> x = y"

definition matchesAny :: "string \<Rightarrow> string list \<Rightarrow> bool" where
  "matchesAny presented expected =
     foldl (\<lambda>matched token. matched \<or> constantTimeCompare presented token) False expected"

definition headerValues :: "http_request \<Rightarrow> string \<Rightarrow> string list" where
  "headerValues request name = (case map_of (rqHeaders request) name of Some vs \<Rightarrow> vs | None \<Rightarrow> [])"

definition headerDel :: "http_request \<Rightarrow> string \<Rightarrow> http_request" where
  "headerDel request name = request\<lparr>rqHeaders := AList.delete name (rqHeaders request)\<rparr>"

datatype auth_outcome =
    AuthReplied http_reply
  | AuthPassed http_request

definition Wrap ::
  "time \<Rightarrow> (string \<Rightarrow> string option) \<Rightarrow> FileTokenSource \<Rightarrow> http_request \<Rightarrow> FileTokenSource \<times> auth_outcome" where
  "Wrap now readFile source request =
     (case Tokens now readFile source of
        (source', Inl _) \<Rightarrow>
          (source', AuthReplied (writeError [] 503 ''auth_unavailable'' ''authentication_error''
                      ''gateway authentication is unavailable''))
      | (source', Inr tokens) \<Rightarrow>
          (source',
           if (case bearerToken (headerValues request ''Authorization'') of
                 None \<Rightarrow> True
               | Some presented \<Rightarrow> \<not> matchesAny presented tokens)
             then AuthReplied (writeError [(''WWW-Authenticate'', ''Bearer realm='' @ [CHR 0x22] @ ''inferops'' @ [CHR 0x22])] 401 ''invalid_api_key''
                    ''authentication_error'' ''missing or invalid bearer token'')
           else AuthPassed (headerDel request ''Authorization'')))"

section \<open>Lemmas\<close>

lemma matchesAny_iff: "matchesAny presented expected \<longleftrightarrow> presented \<in> set expected"
proof -
  have "foldl (\<lambda>matched token. matched \<or> constantTimeCompare presented token) m expected \<longleftrightarrow>
      m \<or> presented \<in> set expected" for m
    by (induction expected arbitrary: m) (auto simp: constantTimeCompare_def)
  then show ?thesis by (simp add: matchesAny_def)
qed

lemma bearerToken_ne: "bearerToken values = Some token \<Longrightarrow> token \<noteq> []"
  by (auto simp: bearerToken_def simp del: equal_fold.simps split: list.splits if_splits)

lemma headerValues_Del:
  "headerValues (headerDel request n) name = (if name = n then [] else headerValues request name)"
  by (simp add: headerValues_def headerDel_def AList.delete_conv')

lemma headerDel_frame:
  "rqURL (headerDel request n) = rqURL request" "rqMethod (headerDel request n) = rqMethod request"
  by (simp_all add: headerDel_def)

text \<open>The cached tokens are what the file held at the last reload, and the cache never outlives its interval.\<close>

definition source_ok :: "FileTokenSource \<Rightarrow> bool" where
  "source_ok s \<longleftrightarrow> fsPath s \<noteq> [] \<and> (fsReloadErr s = None \<longrightarrow> fsNextReload s = 0 \<or> fsTokens s \<noteq> []) \<and>
     (\<forall>token \<in> set (fsTokens s). token \<noteq> [])"

lemma parseTokens_ne: "token \<in> set (parseTokens content) \<Longrightarrow> token \<noteq> []"
  by (auto simp: parseTokens_def)

lemma Tokens_ok: "source_ok s \<Longrightarrow> source_ok (fst (Tokens now readFile s))"
  by (cases "readFile (fsPath s)") (simp_all add: source_ok_def Tokens_def Let_def parseTokens_ne, blast+)

lemma Tokens_InrD:
  assumes "Tokens now readFile s = (s', Inr tokens)"
  shows "fsPath s \<noteq> [] \<and>
    (fsNextReload s \<noteq> 0 \<and> now < fsNextReload s \<and> fsReloadErr s = None \<and> tokens = fsTokens s \<or>
     (\<exists>content. readFile (fsPath s) = Some content \<and> tokens = parseTokens content \<and> tokens \<noteq> []))"
  using assms by (auto simp: Tokens_def Let_def split: if_splits option.splits)

section \<open>Properties\<close>

text \<open>
  Authentication fails closed: a request passes only if it carries exactly one Authorization value of the form
  \<open>Bearer token\<close> whose token is one of the non-empty tokens that the token file held at the last reload; the request
  that is passed on carries no Authorization header and is otherwise unchanged; in every other case the reply is 401, or 503 when
  the tokens cannot be read.
\<close>

theorem Wrap_authenticates:
  assumes "source_ok source"
  shows "case Wrap now readFile source request of
      (source', AuthPassed request') \<Rightarrow>
        \<exists>presented tokens. bearerToken (headerValues request ''Authorization'') = Some presented \<and>
          snd (Tokens now readFile source) = Inr tokens \<and> presented \<in> set tokens \<and> presented \<noteq> [] \<and>
          headerValues request' ''Authorization'' = [] \<and>
          (\<forall>name. name = ''Authorization'' \<or> headerValues request' name = headerValues request name) \<and>
          rqURL request' = rqURL request \<and> rqMethod request' = rqMethod request
    | (source', AuthReplied reply) \<Rightarrow>
        hrStatus reply = (if \<exists>tokens. snd (Tokens now readFile source) = Inr tokens then 401 else 503)"
proof (cases "Tokens now readFile source")
  case (Pair source' result)
  show ?thesis
  proof (cases result)
    case (Inl err)
    then show ?thesis using Pair by (simp add: Wrap_def writeError_def)
  next
    case (Inr tokens)
    note T = Pair [unfolded Inr]
    show ?thesis
    proof (cases "bearerToken (headerValues request ''Authorization'')")
      case None
      then show ?thesis using T by (simp add: Wrap_def writeError_def)
    next
      case (Some presented)
      then have "presented \<noteq> []" by (rule bearerToken_ne)
      then show ?thesis
        using T Some by (simp add: Wrap_def writeError_def matchesAny_iff headerValues_Del headerDel_frame)
    qed
  qed
qed

definition sampleSource :: FileTokenSource where
  "sampleSource = \<lparr>fsPath = ''/etc/tokens'', fsReloadInterval = 1000000000, fsTokens = [], fsReloadErr = None,
     fsNextReload = 0\<rparr>"

definition sampleAuthRequest :: http_request where
  "sampleAuthRequest = (sampleRequestTo ''/models/llama/v1'')\<lparr>rqHeaders := [(''Authorization'', [''bearer s3cret''])]\<rparr>"

theorem Wrap_authenticates_witness:
  "headerValues (headerDel sampleAuthRequest ''Authorization'') ''Authorization'' = []"
proof -
  let ?read = "\<lambda>_. Some ''s3cret''"
  have ok: "source_ok sampleSource" by (simp add: source_ok_def sampleSource_def)
  have "snd (Wrap 5 ?read sampleSource sampleAuthRequest) = AuthPassed (headerDel sampleAuthRequest ''Authorization'')"
    by code_simp
  then show ?thesis
    using Wrap_authenticates [OF ok, of 5 ?read sampleAuthRequest] by (auto split: prod.splits)
qed

text \<open>
  Revocation is bounded: once the reload interval after a reload has passed, the tokens returned are those of the file
  as it is then read; in particular a token that was removed from the file, or any token when the file is gone, is no longer accepted.
\<close>

theorem Tokens_revocation:
  assumes "fsPath s \<noteq> []" and "0 \<le> fsReloadInterval s" and "fsNextReload s \<le> t"
    and "t + fsReloadInterval s \<le> now"
  shows "case snd (Tokens now readFile' (fst (Tokens t readFile s))) of
      Inr tokens \<Rightarrow> \<exists>content. readFile' (fsPath s) = Some content \<and> tokens = parseTokens content \<and> tokens \<noteq> []
    | Inl err \<Rightarrow> (case readFile' (fsPath s) of None \<Rightarrow> True | Some content \<Rightarrow> parseTokens content = [])"
  using assms by (auto simp: Tokens_def Let_def split: option.splits if_splits sum.splits)

theorem Tokens_revocation_witness:
  "snd (Tokens 2000000000 (\<lambda>_. None) (fst (Tokens 5 (\<lambda>_. Some ''s3cret'') sampleSource))) = Inl TokenFileUnreadable"
proof -
  have "\<nexists>tokens. snd (Tokens 2000000000 (\<lambda>_. None) (fst (Tokens 5 (\<lambda>_. Some ''s3cret'') sampleSource))) = Inr tokens"
    using Tokens_revocation [of sampleSource 5 2000000000 "\<lambda>_. None" "\<lambda>_. Some ''s3cret''"]
    by (auto simp: sampleSource_def split: sum.splits)
  moreover have "snd (Tokens 2000000000 (\<lambda>_. None) (fst (Tokens 5 (\<lambda>_. Some ''s3cret'') sampleSource))) \<in>
      {Inl TokenFileUnreadable, Inr [''s3cret'']}" by code_simp
  ultimately show ?thesis by blast
qed

end
