(* ===== verification/Gateway_Process.thy ===== *)
theory Gateway_Process
  imports Discovery Gateway_Auth
begin

text \<open>
  The gateway process: discovery and the proxy share one registry. Discovery iterations, requests and
  completions interleave in any order; the theorem follows a forwarded request back to the deployment and the Service of the
  last complete snapshot that justify it.
\<close>

section \<open>Interleavings\<close>

text \<open>
  The state of a run: discovery, the proxy, and (for the statements only) the last complete snapshot that a synchronisation
  read. Both components hold the same registry, so an iteration starts from the registry the proxy left.
\<close>

definition snapshotRead :: "bool \<Rightarrow> cluster_lists \<Rightarrow> bool" where
  "snapshotRead syncDone listed \<longleftrightarrow>
     \<not> syncDone \<and> clDeployments listed \<noteq> None \<and> clServices listed \<noteq> None \<and> clEndpointSlices listed \<noteq> None"

inductive gateway_process :: "Discovery \<Rightarrow> Proxy \<Rightarrow> cluster_lists option \<Rightarrow> bool" where
  start: "NewDiscovery True (Some NewMemoryRegistry) namespace interval = Inr d \<Longrightarrow>
    NewWithMetricsAndOptions (Some NewMemoryRegistry) options = Inr p \<Longrightarrow> gateway_process d p None"
| iterate: "gateway_process d p snapshot \<Longrightarrow>
    RunIteration now syncDone contextDone listed (d\<lparr>dcRegistry := pxRegistry p\<rparr>) retryDelay = (d', delay, retryDelay', continue) \<Longrightarrow>
    gateway_process d' (p\<lparr>pxRegistry := dcRegistry d'\<rparr>) (if snapshotRead syncDone listed then Some listed else snapshot)"
| serve: "gateway_process d p snapshot \<Longrightarrow> ServeHTTP now p request = (p', out) \<Longrightarrow> gateway_process d p' snapshot"
| finish: "gateway_process d p snapshot \<Longrightarrow> finishForward p b result = (p', client, observed) \<Longrightarrow> gateway_process d p' snapshot"

text \<open>What the registry owes to the snapshot: every ready backend is the normal form of a ready projection.\<close>

definition justified :: "cluster_lists option \<Rightarrow> Backend \<Rightarrow> bool" where
  "justified snapshot b \<longleftrightarrow>
     (\<exists>listed deployments services slices deployment.
        snapshot = Some listed \<and> clDeployments listed = Some deployments \<and> clServices listed = Some services \<and>
        clEndpointSlices listed = Some slices \<and> deployment \<in> set deployments \<and>
        normalizeBackend (backendFor deployment (serviceByName services) (readyServicesByName slices)) = Inr b)"

lemma serveBackend_registry: "serveBackend now p b up = (p', out) \<Longrightarrow> pxRegistry p' = pxRegistry p"
  by (auto simp: serveBackend_def beginForward_def retryReply_def Let_def
      split: State.splits if_splits prod.splits option.splits dest: rateLimitAllowed_frame)

lemma ServeHTTP_same_routes:
  assumes "ServeHTTP now p request = (p', out)"
  shows "mrRoutes (pxRegistry p') = mrRoutes (pxRegistry p)" "mrPrefixes (pxRegistry p') = mrPrefixes (pxRegistry p)"
  using ServeHTTP_cases [OF assms] by (auto simp: proxyLookup_def Let_def split: option.splits dest!: serveBackend_registry)

lemma finishForward_registry: "finishForward p b result = (p', client, observed) \<Longrightarrow> pxRegistry p' = pxRegistry p"
  by (auto simp: finishForward_def Let_def split: upstream_result.splits if_splits)

lemma RunIteration_registry:
  assumes "RunIteration now syncDone contextDone listed d retryDelay = (d', delay, retryDelay', continue)"
  shows "if snapshotRead syncDone listed
    then \<exists>deployments services slices. clDeployments listed = Some deployments \<and> clServices listed = Some services \<and>
      clEndpointSlices listed = Some slices \<and>
      dcRegistry d' = fst (Replace (dcRegistry d) (snapshotBackends deployments services slices))
    else dcRegistry d' = dcRegistry d \<or> (\<exists>message. dcRegistry d' = MarkReadyUnavailable (dcRegistry d) message)"
  using assms by (auto simp: snapshotRead_def RunIteration_def Sync_def Let_def case_prod_beta split: option.splits if_splits)

lemma gateway_process_invariant:
  assumes "gateway_process d p snapshot"
  shows "reg_ok (pxRegistry p) \<and> (\<forall>b \<in> set (Backends (pxRegistry p)). bState b = StateReady \<longrightarrow> justified snapshot b)"
  using assms
proof (induction rule: gateway_process.induct)
  case (start namespace interval d options p)
  then have "pxRegistry p = NewMemoryRegistry" by (auto simp: NewWithMetricsAndOptions_def Let_def split: option.splits if_splits)
  then show ?case using NewMemoryRegistry_ok by (simp add: Backends_def NewMemoryRegistry_def)
next
  case (iterate d p snapshot now syncDone contextDone listed retryDelay d' delay retryDelay' continue)
  note reg = RunIteration_registry [OF iterate.hyps(2)]
  show ?case
  proof (cases "snapshotRead syncDone listed")
    case True
    then obtain ds ss es where l: "clDeployments listed = Some ds" "clServices listed = Some ss" "clEndpointSlices listed = Some es"
      and r: "dcRegistry d' = fst (Replace (pxRegistry p) (snapshotBackends ds ss es))" using reg by auto
    have "justified (Some listed) b" if "b \<in> set (Backends (dcRegistry d'))" for b
      using memory_registry.replace_sound [OF that [unfolded r]] l by (auto simp: justified_def snapshotBackends_def)
    then show ?thesis using True r memory_registry.replace_inv by simp
  next
    case False
    then show ?thesis using reg iterate.IH memory_registry.mark_inv memory_registry.mark_closed by auto
  qed
next
  case (serve d p snapshot now request p' out)
  have "reg_ok (pxRegistry p')" "Backends (pxRegistry p') = Backends (pxRegistry p)"
    using ServeHTTP_same_routes [OF serve.hyps(2)] serve.IH by (simp_all add: reg_ok_def Backends_def)
  then show ?case using serve.IH by simp
next
  case (finish d p snapshot b result p' client observed)
  then show ?case using finishForward_registry by metis
qed

lemma justified_ready:
  assumes "justified snapshot b" and "bState b = StateReady"
  obtains listed deployments services slices deployment service port where
    "snapshot = Some listed" "clDeployments listed = Some deployments" "clServices listed = Some services"
    "clEndpointSlices listed = Some slices" "deployment \<in> set deployments" "service \<in> set services"
    "asDesiredState (dsActivation (mdSpec deployment)) = ActivationDesiredStateActive"
    "dtPhase (mdStatus deployment) = ModelDeploymentPhaseActive" "moLoaded (dtModel (mdStatus deployment))"
    "service_serves deployment service port" "omName (svMeta service) \<in> set (readyServicesByName slices)"
    "bEndpoint b = Some \<lparr>uScheme = ''http'',
       uHost = joinHostPort (omName (svMeta service) @ ''.'' @ mdNamespace deployment @ ''.svc'') (itoa port),
       uPath = [], uRawPath = []\<rparr>"
proof -
  obtain listed ds ss es deployment where l: "snapshot = Some listed" "clDeployments listed = Some ds"
    "clServices listed = Some ss" "clEndpointSlices listed = Some es" "deployment \<in> set ds"
    and nb: "normalizeBackend (backendFor deployment (serviceByName ss) (readyServicesByName es)) = Inr b"
    using assms(1) by (auto simp: justified_def)
  let ?x = "backendFor deployment (serviceByName ss) (readyServicesByName es)"
  obtain prefix policy where b: "b = ?x\<lparr>bName := trim_space (bName ?x), bRoutePrefix := prefix, bPolicy := policy\<rparr>"
    using nb by (rule normalizeBackend_InrE)
  then have "bState ?x = StateReady" using assms(2) by simp
  then obtain host port where g: "dtPhase (mdStatus deployment) = ModelDeploymentPhaseActive"
    "asDesiredState (dsActivation (mdSpec deployment)) = ActivationDesiredStateActive" "statusGate deployment = None"
    "serviceGate deployment (serviceByName ss) (readyServicesByName es) = Inr (host, port)"
    "bEndpoint ?x = Some \<lparr>uScheme = ''http'', uHost = joinHostPort host (itoa port), uPath = [], uRawPath = []\<rparr>"
    by (rule backendFor_ReadyE)
  obtain service name where s: "serviceByName ss name = Some service" "service_serves deployment service port"
    "omName (svMeta service) \<in> set (readyServicesByName es)"
    "host = omName (svMeta service) @ ''.'' @ mdNamespace deployment @ ''.svc''"
    using g(4) by (rule serviceGate_Inr)
  have e: "bEndpoint b = bEndpoint ?x" using b by simp
  show ?thesis
    using that [OF l(1-5) _ g(2,1) _ s(2,3)] serviceByName_Some [OF s(1)] statusGate_None [OF g(3)] g(5) s(4) e by simp
qed

section \<open>Properties\<close>

text \<open>
  C1. End to end, in every interleaving of discovery, requests and completions: a request is forwarded only when the last
  complete snapshot of the cluster contains a deployment that is desired and observed active with its model loaded, and a live
  Service owned by it with a ready endpoint; the request goes to exactly that Service's in-cluster address over
  plain HTTP, on a path that is \<open>/v1\<close> or below it, with every segment free of dots and escapes.
\<close>

theorem forwarded_request_justified:
  assumes "gateway_process d p snapshot" and "ServeHTTP now p request = (p', Forwarded b u)"
  shows "\<exists>listed deployments services slices deployment service port.
    snapshot = Some listed \<and> clDeployments listed = Some deployments \<and> clServices listed = Some services \<and>
    clEndpointSlices listed = Some slices \<and> deployment \<in> set deployments \<and> service \<in> set services \<and>
    asDesiredState (dsActivation (mdSpec deployment)) = ActivationDesiredStateActive \<and>
    dtPhase (mdStatus deployment) = ModelDeploymentPhaseActive \<and> moLoaded (dtModel (mdStatus deployment)) \<and>
    service_serves deployment service port \<and> omName (svMeta service) \<in> set (readyServicesByName slices) \<and>
    uScheme u = ''http'' \<and>
    uHost u = joinHostPort (omName (svMeta service) @ ''.'' @ mdNamespace deployment @ ''.svc'') (itoa port) \<and>
    (uPath u = ''/v1'' \<or> has_prefix (uPath u) ''/v1/'') \<and>
    (\<forall>s \<in> set (split_on CHR ''/'' (uPath u)). s = [] \<or> plain_segment s)"
proof -
  have inv: "reg_ok (pxRegistry p)" "\<forall>b \<in> set (Backends (pxRegistry p)). bState b = StateReady \<longrightarrow> justified snapshot b"
    using gateway_process_invariant [OF assms(1)] by auto
  obtain url endpoint up where f: "rqURL request = Some url" "canonicalRequestPath (Some url)" "bState b = StateReady"
    "backend_ok (bRoutePrefix b) b" "effectiveWeight b > 0" "b \<in> set (Backends (pxRegistry p))"
    "bEndpoint b = Some endpoint" "u = rewriteURL endpoint up" "uPath url = bRoutePrefix b @ up"
    "up = ''/v1'' \<or> has_prefix up ''/v1/''" "has_prefix (bRoutePrefix b) ''/''"
    using inv(1) assms(2) by (rule ServeHTTP_ForwardedE)
  have v1: "has_prefix up ''/v1''" using f(10) by (auto simp: has_prefix_iff)
  then have "has_prefix up ''/''" by (auto simp: has_prefix_iff)
  then have segs: "\<forall>s \<in> set (split_on CHR ''/'' up). s = [] \<or> plain_segment s"
    using upstream_segments [OF f(2,9,11)] by blast
  have "justified snapshot b" using inv(2) f(3,6) by blast
  then show ?thesis
    using f(3)
    by (rule justified_ready)
      (use f(7,8,10) segs joinURLPath_empty_base [OF _ v1] in \<open>fastforce simp: rewriteURL_def\<close>)
qed

definition sampleNewProxy :: Proxy where
  "sampleNewProxy = \<lparr>pxRegistry = NewMemoryRegistry, pxTracker = newRequestTracker, pxLimiter = newRateLimiter,
     pxOptions = \<lparr>opDefaultRateLimit = None, opRequestLoggingEnabled = None\<rparr>\<rparr>"

definition sampleSynced :: Discovery where
  "sampleSynced = fst (RunIteration 7 False False sampleLists sampleNewDiscovery 250000000)"

definition sampleSyncedProxy :: Proxy where
  "sampleSyncedProxy = sampleNewProxy\<lparr>pxRegistry := dcRegistry sampleSynced\<rparr>"

lemma trim_space_default: "trim_space ''default'' = ''default''" by code_simp

lemma sample_process: "gateway_process sampleSynced sampleSyncedProxy (Some sampleLists)"
proof -
  have start: "gateway_process sampleNewDiscovery sampleNewProxy None"
  proof (rule gateway_process.start)
    show "NewDiscovery True (Some NewMemoryRegistry) ''default'' 0 = Inr sampleNewDiscovery"
      by (simp add: NewDiscovery_def sampleNewDiscovery_def trim_space_default defaultSyncInterval_def minimumSyncInterval_def
          staleIntervalCount_def maxInt64_def)
    show "NewWithMetricsAndOptions (Some NewMemoryRegistry) \<lparr>opDefaultRateLimit = None, opRequestLoggingEnabled = None\<rparr> =
        Inr sampleNewProxy"
      by (simp add: NewWithMetricsAndOptions_def sampleNewProxy_def Let_def)
  qed
  have same: "sampleNewDiscovery\<lparr>dcRegistry := pxRegistry sampleNewProxy\<rparr> = sampleNewDiscovery"
    by (simp add: sampleNewDiscovery_def sampleNewProxy_def)
  obtain delay retry go where "RunIteration 7 False False sampleLists sampleNewDiscovery 250000000 = (sampleSynced, delay, retry, go)"
    unfolding sampleSynced_def by (metis prod.collapse)
  from gateway_process.iterate [OF start, unfolded same, OF this] show ?thesis
    by (simp add: snapshotRead_def sampleLists_def sampleSyncedProxy_def)
qed

theorem forwarded_request_justified_witness:
  "\<exists>b u. snd (ServeHTTP 9 sampleSyncedProxy (sampleRequestTo ''/models/llama/v1/chat'')) = Forwarded b u \<and>
     uScheme u = ''http''"
proof -
  have "\<exists>b u. snd (ServeHTTP 9 sampleSyncedProxy (sampleRequestTo ''/models/llama/v1/chat'')) = Forwarded b u"
  proof -
    have "(case snd (ServeHTTP 9 sampleSyncedProxy (sampleRequestTo ''/models/llama/v1/chat'')) of
      Forwarded b u \<Rightarrow> True | _ \<Rightarrow> False)" by code_simp
    then show ?thesis by (auto split: serve_outcome.splits)
  qed
  then obtain b u where "snd (ServeHTTP 9 sampleSyncedProxy (sampleRequestTo ''/models/llama/v1/chat'')) = Forwarded b u" by blast
  moreover from this have "ServeHTTP 9 sampleSyncedProxy (sampleRequestTo ''/models/llama/v1/chat'') =
    (fst (ServeHTTP 9 sampleSyncedProxy (sampleRequestTo ''/models/llama/v1/chat'')), Forwarded b u)"
    by (simp add: prod_eq_iff)
  from forwarded_request_justified [OF sample_process this] have "uScheme u = ''http''" by blast
  ultimately show ?thesis by blast
qed

end
