(* ===== verification/Gateway_Main.thy ===== *)
theory Gateway_Main
  imports Gateway_Process Go_Strconv
begin

text \<open>
  The gateway as a process: \<open>gateway/cmd/gateway/main.go\<close>, its metrics recorder \<open>gateway/internal/metrics\<close> and the health endpoints of
  \<open>internal/health\<close>, joined with discovery, authentication and the proxy. The environment is a function \<open>getenv\<close>, a call into a
  library that can only fail or succeed is given by \<open>lib\<close>, and reading the token file by \<open>readFile\<close> at each request. A forwarded request is in
  flight from \<open>serveGateway\<close> to \<open>finishGateway\<close>.
\<close>

section \<open>Metrics\<close>

text \<open>The collectors: counters by label values, the number of observed latencies, and the gauge of requests in flight.\<close>

record gatewayMetrics =
  gmRequests :: "string \<times> string \<Rightarrow> nat"
  gmLatency :: "string \<Rightarrow> nat"
  gmActiveRequests :: int
  gmUpstreamErrors :: "string \<Rightarrow> nat"

definition newMetrics :: gatewayMetrics where
  "newMetrics = \<lparr>gmRequests = (\<lambda>_. 0), gmLatency = (\<lambda>_. 0), gmActiveRequests = 0, gmUpstreamErrors = (\<lambda>_. 0)\<rparr>"

definition knownMethods :: "string list" where
  "knownMethods = [''GET'', ''POST'', ''PUT'', ''PATCH'', ''DELETE'', ''HEAD'', ''OPTIONS'']"

definition boundedMethod :: "string \<Rightarrow> string" where
  "boundedMethod m = (let u = to_upper m in if u \<in> set knownMethods then u else ''OTHER'')"

definition ObserveUpstreamError :: "string \<Rightarrow> gatewayMetrics \<Rightarrow> gatewayMetrics" where
  "ObserveUpstreamError reason m =
     (let label = (if reason \<in> {''transport'', ''response_5xx''} then reason else ''other'')
      in m\<lparr>gmUpstreamErrors := (gmUpstreamErrors m)(label := gmUpstreamErrors m label + 1)\<rparr>)"

text \<open>
  \<open>Middleware\<close> around the next handler: entering it, leaving it with the status of the response, and leaving it by a panic, which runs the
  deferred decrement only.
\<close>

definition middlewareEnter :: "gatewayMetrics \<Rightarrow> gatewayMetrics" where
  "middlewareEnter m = m\<lparr>gmActiveRequests := gmActiveRequests m + 1\<rparr>"

definition middlewarePanic :: "gatewayMetrics \<Rightarrow> gatewayMetrics" where
  "middlewarePanic m = m\<lparr>gmActiveRequests := gmActiveRequests m - 1\<rparr>"

definition middlewareLeave :: "string \<Rightarrow> int \<Rightarrow> gatewayMetrics \<Rightarrow> gatewayMetrics" where
  "middlewareLeave httpMethod status m =
     (let label = (httpMethod, itoa status)
      in m\<lparr>gmRequests := (gmRequests m)(label := gmRequests m label + 1),
           gmLatency := (gmLatency m)(httpMethod := gmLatency m httpMethod + 1),
           gmActiveRequests := gmActiveRequests m - 1\<rparr>)"

section \<open>The status writer\<close>

record statusWriter =
  swStatus :: int
  swWroteHeader :: bool
  swCalls :: "writer_call list"

definition newStatusWriter :: statusWriter where
  "newStatusWriter = \<lparr>swStatus = 0, swWroteHeader = False, swCalls = []\<rparr>"

definition swWriteHeader :: "statusWriter \<Rightarrow> int \<Rightarrow> statusWriter" where
  "swWriteHeader w status =
     (if swWroteHeader w then w
      else w\<lparr>swStatus := status, swWroteHeader := True, swCalls := swCalls w @ [CallWriteHeader status]\<rparr>)"

definition swEnsureHeader :: "statusWriter \<Rightarrow> statusWriter" where
  "swEnsureHeader w = (if swWroteHeader w then w else swWriteHeader w 200)"

fun swApply :: "statusWriter \<Rightarrow> log_op \<Rightarrow> statusWriter" where
  "swApply w (OpWriteHeader status) = swWriteHeader w status"
| "swApply w (OpWrite content) = (let w' = swEnsureHeader w in w'\<lparr>swCalls := swCalls w' @ [CallWrite content]\<rparr>)"
| "swApply w OpFlush = (let w' = swEnsureHeader w in w'\<lparr>swCalls := swCalls w' @ [CallFlush]\<rparr>)"
| "swApply w (OpReadFrom chunks) = (let w' = swEnsureHeader w in w'\<lparr>swCalls := swCalls w' @ map CallWrite chunks\<rparr>)"

text \<open>The status that \<open>Middleware\<close> counts.\<close>

definition countedStatus :: "statusWriter \<Rightarrow> bool \<Rightarrow> int" where
  "countedStatus w requestCanceled = (if swWroteHeader w then swStatus w else if requestCanceled then 499 else 200)"

section \<open>Registration of the collectors\<close>

record ('s, 'e) registerer =
  rgRegister :: "string \<Rightarrow> 's \<Rightarrow> ('e, 's) result"
  rgUnregister :: "string \<Rightarrow> 's \<Rightarrow> 's"

definition gatewayCollectors :: "string list" where
  "gatewayCollectors = [''inferops_gateway_requests_total'', ''inferops_gateway_request_duration_seconds'',
     ''inferops_gateway_active_requests'', ''inferops_gateway_upstream_errors_total'']"

fun registerCollectors :: "('s, 'e) registerer \<Rightarrow> string list \<Rightarrow> string list \<Rightarrow> 's \<Rightarrow> 's \<times> 'e option" where
  "registerCollectors R registered [] s = (s, None)"
| "registerCollectors R registered (c # cs) s =
     (case rgRegister R c s of
        Inl err \<Rightarrow> (fold (rgUnregister R) registered s, Some err)
      | Inr s' \<Rightarrow> registerCollectors R (registered @ [c]) cs s')"

definition NewRecorder :: "('s, 'e) registerer \<Rightarrow> 's \<Rightarrow> 's \<times> ('e, gatewayMetrics) result" where
  "NewRecorder R s =
     (case registerCollectors R [] gatewayCollectors s of
        (s', Some err) \<Rightarrow> (s', Inl err)
      | (s', None) \<Rightarrow> (s', Inr newMetrics))"

section \<open>Health endpoints\<close>

text \<open>
  The mux of \<open>HandlerWithReadiness\<close>: status and text. A pattern for \<open>GET\<close> also matches \<open>HEAD\<close>. \<open>ready\<close> is evaluated for readiness requests only.
\<close>

definition HandlerWithReadiness :: "bool option \<Rightarrow> string \<Rightarrow> string \<Rightarrow> int \<times> string" where
  "HandlerWithReadiness ready httpMethod path =
     (if path \<noteq> ''/healthz'' \<and> path \<noteq> ''/readyz'' then (404, ''404 page not found'')
      else if httpMethod \<noteq> ''GET'' \<and> httpMethod \<noteq> ''HEAD'' then (405, ''Method Not Allowed'')
      else if path = ''/readyz'' \<and> ready = Some False then (503, ''not ready'')
      else (200, ''ok''))"

text \<open>
  \<open>RunWithHandler\<close>: what the server's goroutine and the context do first, with the errors of the calls that follow.
\<close>

datatype serve_end =
    ServeReturned "string option"
  | ContextDone "string option" "string option"

datatype server_error =
    AddressRequired
  | ServeFailed string
  | ShutdownFailed string

definition RunWithHandler :: "string \<Rightarrow> serve_end \<Rightarrow> server_error option" where
  "RunWithHandler address e =
     (if address = [] then Some AddressRequired
      else (case e of
              ServeReturned err \<Rightarrow> map_option ServeFailed err
            | ContextDone shutdown served \<Rightarrow>
                (case shutdown of Some err \<Rightarrow> Some (ShutdownFailed err) | None \<Rightarrow> map_option ServeFailed served)))"

section \<open>Reading the environment\<close>

datatype gateway_error =
    GatewayLibrary string string
  | PodNamespaceRequired
  | SyncIntervalUnparsable duration_error
  | SyncIntervalNotPositive
  | DiscoveryRejected discovery_config_error
  | RegistryUnsupported string
  | GatewayIntUnparsable string
  | GatewayIntNegative string
  | BurstWithoutRate
  | GatewayNotBoolean string
  | ProxyRejected proxy_error
  | TokenSourceRejected token_config_error

definition nonNegativeIntFromEnvironment :: "(string \<Rightarrow> string) \<Rightarrow> string \<Rightarrow> (gateway_error, int) result" where
  "nonNegativeIntFromEnvironment getenv name =
     (let value = trim_space (getenv name)
      in if value = [] then Inr 0
         else (case Atoi value of
                 None \<Rightarrow> Inl (GatewayIntUnparsable name)
               | Some parsed \<Rightarrow> if parsed < 0 then Inl (GatewayIntNegative name) else Inr parsed))"

definition optionalBoolFromEnvironment :: "(string \<Rightarrow> string) \<Rightarrow> string \<Rightarrow> (gateway_error, bool option) result" where
  "optionalBoolFromEnvironment getenv name =
     (let raw = trim_space (getenv name); lower = to_lower raw
      in if raw = [] then Inr None
         else if lower \<in> {''1'', ''t'', ''true'', ''y'', ''yes'', ''on''} then Inr (Some True)
         else if lower \<in> {''0'', ''f'', ''false'', ''n'', ''no'', ''off''} then Inr (Some False)
         else Inl (GatewayNotBoolean name))"

definition syncIntervalFromEnvironment :: "(string \<Rightarrow> string) \<Rightarrow> (gateway_error, duration) result" where
  "syncIntervalFromEnvironment getenv =
     (let value = trim_space (getenv ''INFEROPS_GATEWAY_SYNC_INTERVAL'')
      in if value = [] then Inr (5 * 10 ^ 9)
         else (case ParseDuration value of
                 Inl err \<Rightarrow> Inl (SyncIntervalUnparsable err)
               | Inr interval \<Rightarrow> if interval \<le> 0 then Inl SyncIntervalNotPositive else Inr interval))"

definition proxyOptionsFromEnvironment :: "(string \<Rightarrow> string) \<Rightarrow> (gateway_error, Options) result" where
  "proxyOptionsFromEnvironment getenv =
     bind_result (nonNegativeIntFromEnvironment getenv ''INFEROPS_GATEWAY_RATE_LIMIT_RPM'') (\<lambda>requestsPerMinute.
     bind_result (nonNegativeIntFromEnvironment getenv ''INFEROPS_GATEWAY_RATE_LIMIT_BURST'') (\<lambda>burst.
     bind_result (if requestsPerMinute > 0 \<or> burst > 0
                    then (if requestsPerMinute \<le> 0 then Inl BurstWithoutRate
                          else Inr (Some \<lparr>lmRequestsPerMinute = requestsPerMinute, lmBurst = burst\<rparr>))
                  else Inr None) (\<lambda>rateLimit.
     bind_result (optionalBoolFromEnvironment getenv ''INFEROPS_GATEWAY_REQUEST_LOGGING'') (\<lambda>requestLogging.
     Inr \<lparr>opDefaultRateLimit = rateLimit, opRequestLoggingEnabled = requestLogging\<rparr>))))"

section \<open>The process\<close>

record gateway =
  gwAddress :: string
  gwDiscovery :: "Discovery option"
  gwProxy :: Proxy
  gwTokens :: "FileTokenSource option"
  gwMetrics :: gatewayMetrics

definition gatewayLibrary :: "(string \<Rightarrow> string option) \<Rightarrow> string \<Rightarrow> (gateway_error, unit) result" where
  "gatewayLibrary lib what = (case lib what of Some err \<Rightarrow> Inl (GatewayLibrary what err) | None \<Rightarrow> Inr ())"

definition discoveryFromEnvironment :: "(string \<Rightarrow> string option) \<Rightarrow> (string \<Rightarrow> string) \<Rightarrow> (gateway_error, Discovery option) result" where
  "discoveryFromEnvironment lib getenv =
     (let configured = to_lower (trim_space (getenv ''INFEROPS_GATEWAY_REGISTRY''));
          registryMode = (if configured = [] then ''kubernetes'' else configured)
      in if registryMode = ''fake'' then Inr None
         else if registryMode = ''kubernetes'' then
           (let namespace = trim_space (getenv ''POD_NAMESPACE'')
            in if namespace = [] then Inl PodNamespaceRequired
               else
                 bind_result (syncIntervalFromEnvironment getenv) (\<lambda>syncInterval.
                 bind_result (gatewayLibrary lib ''create Kubernetes discovery client'') (\<lambda>_.
                 bind_result (wrapError DiscoveryRejected (NewDiscovery True (Some NewMemoryRegistry) namespace syncInterval)) (\<lambda>d.
                 Inr (Some d)))))
         else Inl (RegistryUnsupported registryMode))"

definition tokenSourceFromEnvironment :: "(string \<Rightarrow> string) \<Rightarrow> (gateway_error, FileTokenSource option) result" where
  "tokenSourceFromEnvironment getenv =
     (let tokenFile = trim_space (getenv ''INFEROPS_GATEWAY_AUTH_TOKEN_FILE'')
      in if tokenFile = [] then Inr None
         else bind_result (wrapError TokenSourceRejected (NewFileTokenSource tokenFile)) (\<lambda>s. Inr (Some s)))"

definition startGateway :: "(string \<Rightarrow> string option) \<Rightarrow> (string \<Rightarrow> string) \<Rightarrow> (gateway_error, gateway) result" where
  "startGateway lib getenv =
     (let configured = trim_space (getenv ''INFEROPS_GATEWAY_ADDRESS''); address = (if configured = [] then '':8080'' else configured)
      in bind_result (gatewayLibrary lib ''context'') (\<lambda>_.
         bind_result (discoveryFromEnvironment lib getenv) (\<lambda>modelDiscovery.
         bind_result (gatewayLibrary lib ''register gateway process metrics'') (\<lambda>_.
         bind_result (gatewayLibrary lib ''configure gateway metrics'') (\<lambda>_.
         bind_result (proxyOptionsFromEnvironment getenv) (\<lambda>options.
         bind_result (wrapError ProxyRejected (NewWithMetricsAndOptions (Some NewMemoryRegistry) options)) (\<lambda>gatewayProxy.
         bind_result (tokenSourceFromEnvironment getenv) (\<lambda>tokenSource.
         Inr \<lparr>gwAddress = address, gwDiscovery = modelDiscovery, gwProxy = gatewayProxy, gwTokens = tokenSource,
              gwMetrics = newMetrics\<rparr>))))))))"

text \<open>The readiness check: \<open>readinessWithTokenSource\<close> when a token file is configured.\<close>

definition gatewayReady :: "time \<Rightarrow> (string \<Rightarrow> string option) \<Rightarrow> gateway \<Rightarrow> gateway \<times> bool" where
  "gatewayReady now readFile g =
     (let upstreamReady = (case gwDiscovery g of None \<Rightarrow> True | Some d \<Rightarrow> DiscoveryReady now d)
      in case gwTokens g of
           None \<Rightarrow> (g, upstreamReady)
         | Some source \<Rightarrow>
             if \<not> upstreamReady then (g, False)
             else (case Tokens now readFile source of
                     (source', Inl _) \<Rightarrow> (g\<lparr>gwTokens := Some source'\<rparr>, False)
                   | (source', Inr _) \<Rightarrow> (g\<lparr>gwTokens := Some source'\<rparr>, True)))"

definition authenticate :: "time \<Rightarrow> (string \<Rightarrow> string option) \<Rightarrow> gateway \<Rightarrow> http_request \<Rightarrow> gateway \<times> auth_outcome" where
  "authenticate now readFile g request =
     (case gwTokens g of
        None \<Rightarrow> (g, AuthPassed request)
      | Some source \<Rightarrow>
          (case Wrap now readFile source request of (source', out) \<Rightarrow> (g\<lparr>gwTokens := Some source'\<rparr>, out)))"

datatype gateway_outcome =
    HealthReply int string
  | MetricsReply gatewayMetrics
  | AuthReply http_reply
  | DrainReply http_reply
  | ProxyReply http_reply
  | ProxyForwards string Backend URL http_request
  | ProxyPanics

definition onMetrics :: "(gatewayMetrics \<Rightarrow> gatewayMetrics) \<Rightarrow> gateway \<Rightarrow> gateway" where
  "onMetrics f g = g\<lparr>gwMetrics := f (gwMetrics g)\<rparr>"

definition serveDrain :: "time \<Rightarrow> (string \<Rightarrow> string option) \<Rightarrow> gateway \<Rightarrow> http_request \<Rightarrow> gateway \<times> gateway_outcome" where
  "serveDrain now readFile g request =
     (case authenticate now readFile g request of
        (g', AuthReplied reply) \<Rightarrow> (g', AuthReply reply)
      | (g', AuthPassed request') \<Rightarrow> (g', DrainReply (ServeDrainStatus (gwProxy g') request')))"

definition serveProxy :: "time \<Rightarrow> (string \<Rightarrow> string option) \<Rightarrow> gateway \<Rightarrow> http_request \<Rightarrow> gateway \<times> gateway_outcome" where
  "serveProxy now readFile g request =
     (let httpMethod = boundedMethod (rqMethod request)
      in case authenticate now readFile (onMetrics middlewareEnter g) request of
           (g', AuthReplied reply) \<Rightarrow> (onMetrics (middlewareLeave httpMethod (hrStatus reply)) g', AuthReply reply)
         | (g', AuthPassed request') \<Rightarrow>
             (case ServeHTTP now (gwProxy g') request' of
                (p, Replied reply) \<Rightarrow>
                  (onMetrics (middlewareLeave httpMethod (hrStatus reply)) (g'\<lparr>gwProxy := p\<rparr>), ProxyReply reply)
              | (p, Forwarded b u) \<Rightarrow> (g'\<lparr>gwProxy := p\<rparr>, ProxyForwards httpMethod b u request')
              | (p, ForwardPanics) \<Rightarrow> (onMetrics middlewarePanic (g'\<lparr>gwProxy := p\<rparr>), ProxyPanics)))"

text \<open>\<open>gatewayHandler\<close>: which handler a request reaches.\<close>

definition plainPath :: "http_request \<Rightarrow> string option" where
  "plainPath request = (case rqURL request of Some u \<Rightarrow> if uRawPath u = [] then Some (uPath u) else None | None \<Rightarrow> None)"

definition serveGateway :: "time \<Rightarrow> (string \<Rightarrow> string option) \<Rightarrow> gateway \<Rightarrow> http_request \<Rightarrow> gateway \<times> gateway_outcome" where
  "serveGateway now readFile g request =
     (let path = plainPath request
      in if path = Some ''/healthz''
           then (case HandlerWithReadiness None (rqMethod request) ''/healthz'' of (status, body) \<Rightarrow> (g, HealthReply status body))
         else if path = Some ''/readyz'' then
           (if rqMethod request \<noteq> ''GET'' \<and> rqMethod request \<noteq> ''HEAD''
              then (case HandlerWithReadiness None (rqMethod request) ''/readyz'' of (status, body) \<Rightarrow> (g, HealthReply status body))
            else (case gatewayReady now readFile g of
                    (g', ready) \<Rightarrow>
                      (case HandlerWithReadiness (Some ready) (rqMethod request) ''/readyz'' of
                         (status, body) \<Rightarrow> (g', HealthReply status body))))
         else if path = Some ''/metrics'' then (g, MetricsReply (gwMetrics g))
         else if path = Some ''/drainz'' then serveDrain now readFile g request
         else serveProxy now readFile g request)"

definition clientStatus :: "client_result \<Rightarrow> int" where
  "clientStatus client = (case client of ClientResponse status _ \<Rightarrow> status | ClientError reply \<Rightarrow> hrStatus reply | ClientGone \<Rightarrow> 499)"

definition finishGateway :: "gateway \<Rightarrow> string \<Rightarrow> Backend \<Rightarrow> upstream_result \<Rightarrow> gateway \<times> client_result" where
  "finishGateway g httpMethod b upstream =
     (case finishForward (gwProxy g) b upstream of
        (p, client, reasons) \<Rightarrow>
          (onMetrics (\<lambda>m. middlewareLeave httpMethod (clientStatus client) (fold ObserveUpstreamError reasons m)) (g\<lparr>gwProxy := p\<rparr>),
           client))"

definition iterateGateway :: "time \<Rightarrow> bool \<Rightarrow> bool \<Rightarrow> cluster_lists \<Rightarrow> duration \<Rightarrow> Discovery \<Rightarrow> gateway \<Rightarrow> gateway" where
  "iterateGateway now syncDone contextDone listed retryDelay d g =
     (case RunIteration now syncDone contextDone listed (d\<lparr>dcRegistry := pxRegistry (gwProxy g)\<rparr>) retryDelay of
        (d', _) \<Rightarrow> g\<lparr>gwDiscovery := Some d', gwProxy := (gwProxy g)\<lparr>pxRegistry := dcRegistry d'\<rparr>\<rparr>)"

section \<open>Runs of the process\<close>

text \<open>
  Requests, completions and discovery iterations interleave. The multiset holds the requests in flight; the last argument is, for the
  statements, the last complete snapshot that discovery read.
\<close>

inductive gateway_service :: "(string \<Rightarrow> string) \<Rightarrow> gateway \<Rightarrow> (string \<times> Backend) multiset \<Rightarrow> cluster_lists option \<Rightarrow> bool" where
  start: "startGateway lib getenv = Inr g \<Longrightarrow> gateway_service getenv g {#} None"
| iterate: "gateway_service getenv g M snapshot \<Longrightarrow> gwDiscovery g = Some d \<Longrightarrow>
    gateway_service getenv (iterateGateway now syncDone contextDone listed retryDelay d g) M
      (if snapshotRead syncDone listed then Some listed else snapshot)"
| reply: "gateway_service getenv g M snapshot \<Longrightarrow> serveGateway now readFile g request = (g', out) \<Longrightarrow>
    \<forall>httpMethod b u request'. out \<noteq> ProxyForwards httpMethod b u request' \<Longrightarrow> gateway_service getenv g' M snapshot"
| forward: "gateway_service getenv g M snapshot \<Longrightarrow>
    serveGateway now readFile g request = (g', ProxyForwards httpMethod b u request') \<Longrightarrow>
    gateway_service getenv g' (add_mset (httpMethod, b) M) snapshot"
| finish: "gateway_service getenv g M snapshot \<Longrightarrow> (httpMethod, b) \<in># M \<Longrightarrow> finishGateway g httpMethod b upstream = (g', client) \<Longrightarrow>
    gateway_service getenv g' (M - {#(httpMethod, b)#}) snapshot"

inductive_cases gateway_serviceE: "gateway_service getenv g M snapshot"

section \<open>Lemmas\<close>

lemma authenticate_frame:
  assumes "authenticate now readFile g request = (g', out)"
  shows "gwProxy g' = gwProxy g \<and> gwDiscovery g' = gwDiscovery g \<and> gwMetrics g' = gwMetrics g \<and>
    (gwTokens g' = None \<longleftrightarrow> gwTokens g = None)"
  using assms by (auto simp: authenticate_def split: option.splits prod.splits)

lemma gatewayReady_frame:
  assumes "gatewayReady now readFile g = (g', ready)"
  shows "gwProxy g' = gwProxy g \<and> gwDiscovery g' = gwDiscovery g \<and> gwMetrics g' = gwMetrics g \<and>
    (gwTokens g' = None \<longleftrightarrow> gwTokens g = None)"
  using assms by (auto simp: gatewayReady_def Let_def split: option.splits prod.splits sum.splits if_splits)

lemma onMetrics_frame [simp]:
  "gwProxy (onMetrics f g) = gwProxy g" "gwDiscovery (onMetrics f g) = gwDiscovery g" "gwTokens (onMetrics f g) = gwTokens g"
  "gwMetrics (onMetrics f g) = f (gwMetrics g)"
  by (simp_all add: onMetrics_def)

lemma middleware_active [simp]:
  "gmActiveRequests (middlewareEnter m) = gmActiveRequests m + 1" "gmActiveRequests (middlewarePanic m) = gmActiveRequests m - 1"
  "gmActiveRequests (middlewareLeave httpMethod status m) = gmActiveRequests m - 1"
  "gmActiveRequests (ObserveUpstreamError reason m) = gmActiveRequests m"
  by (simp_all add: middlewareEnter_def middlewarePanic_def middlewareLeave_def ObserveUpstreamError_def Let_def)

lemma fold_observe_active [simp]: "gmActiveRequests (fold ObserveUpstreamError reasons m) = gmActiveRequests m"
  by (induction reasons arbitrary: m) simp_all

text \<open>The proxy takes at most one step of \<open>ServeHTTP\<close> per request; forwarding is that step.\<close>

lemma serveProxy_step:
  assumes "serveProxy now readFile g request = (g', out)"
  shows "gwDiscovery g' = gwDiscovery g \<and> (gwTokens g' = None \<longleftrightarrow> gwTokens g = None) \<and>
    (gwProxy g' = gwProxy g \<and> (\<nexists>httpMethod b u request'. out = ProxyForwards httpMethod b u request') \<or>
     (\<exists>request' result. ServeHTTP now (gwProxy g) request' = (gwProxy g', result) \<and>
        (\<forall>httpMethod b u r. out = ProxyForwards httpMethod b u r \<longrightarrow> result = Forwarded b u \<and> r = request')))"
proof -
  obtain g1 passed where a: "authenticate now readFile (onMetrics middlewareEnter g) request = (g1, passed)" by fastforce
  then have f: "gwProxy g1 = gwProxy g" "gwDiscovery g1 = gwDiscovery g" "gwTokens g1 = None \<longleftrightarrow> gwTokens g = None"
    using authenticate_frame [OF a] by simp_all
  show ?thesis
  proof (cases passed)
    case (AuthReplied reply)
    then show ?thesis using assms a f by (auto simp: serveProxy_def Let_def)
  next
    case (AuthPassed request')
    obtain q result where r: "ServeHTTP now (gwProxy g) request' = (q, result)" by fastforce
    show ?thesis
      using assms a f AuthPassed r by (cases result) (auto simp: serveProxy_def Let_def)
  qed
qed

lemma serveGateway_step:
  assumes "serveGateway now readFile g request = (g', out)"
  shows "gwDiscovery g' = gwDiscovery g \<and> (gwTokens g' = None \<longleftrightarrow> gwTokens g = None) \<and>
    (gwProxy g' = gwProxy g \<and> (\<nexists>httpMethod b u request'. out = ProxyForwards httpMethod b u request') \<or>
     (\<exists>request' result. ServeHTTP now (gwProxy g) request' = (gwProxy g', result) \<and>
        (\<forall>httpMethod b u r. out = ProxyForwards httpMethod b u r \<longrightarrow> result = Forwarded b u \<and> r = request')))"
proof -
  have "gwProxy g' = gwProxy g \<and> gwDiscovery g' = gwDiscovery g \<and> (gwTokens g' = None \<longleftrightarrow> gwTokens g = None) \<and>
      (\<nexists>httpMethod b u request'. out = ProxyForwards httpMethod b u request') \<or> serveProxy now readFile g request = (g', out)"
    using assms
    by (auto simp: serveGateway_def serveDrain_def Let_def split: prod.splits auth_outcome.splits if_splits
        dest: gatewayReady_frame authenticate_frame)
  then show ?thesis
    using serveProxy_step [of now readFile g request g' out] by blast
qed

lemma serveGateway_active:
  assumes "serveGateway now readFile g request = (g', out)"
  shows "gmActiveRequests (gwMetrics g') =
    gmActiveRequests (gwMetrics g) + (case out of ProxyForwards _ _ _ _ \<Rightarrow> 1 | _ \<Rightarrow> 0)"
  using assms
  by (auto simp: serveGateway_def serveDrain_def serveProxy_def Let_def
      split: prod.splits auth_outcome.splits serve_outcome.splits if_splits
      dest!: gatewayReady_frame authenticate_frame)

section \<open>Starting\<close>

lemma proxyOptions_accepted:
  assumes "proxyOptionsFromEnvironment getenv = Inr options"
  obtains p where "NewWithMetricsAndOptions (Some NewMemoryRegistry) options = Inr p" "pxRegistry p = NewMemoryRegistry"
  using assms
  by (auto simp: proxyOptionsFromEnvironment_def NewWithMetricsAndOptions_def nonNegativeIntFromEnvironment_def bind_result_Inr_iff
      Let_def split: if_splits option.splits)

lemma tokenSource_accepted:
  "tokenSourceFromEnvironment getenv =
   Inr (let path = trim_space (getenv ''INFEROPS_GATEWAY_AUTH_TOKEN_FILE'')
        in if path = [] then None
           else Some \<lparr>fsPath = path, fsReloadInterval = defaultReloadInterval, fsTokens = [], fsReloadErr = None, fsNextReload = 0\<rparr>)"
  by (simp add: tokenSourceFromEnvironment_def NewFileTokenSource_def newFileTokenSource_def defaultReloadInterval_def wrapError_def Let_def)

lemma startGateway_state:
  assumes "startGateway lib getenv = Inr g"
  shows "gwMetrics g = newMetrics" and "pxRegistry (gwProxy g) = NewMemoryRegistry"
    and "gwTokens g = None \<longleftrightarrow> trim_space (getenv ''INFEROPS_GATEWAY_AUTH_TOKEN_FILE'') = []"
    and "\<exists>options. NewWithMetricsAndOptions (Some NewMemoryRegistry) options = Inr (gwProxy g)"
    and "discoveryFromEnvironment lib getenv = Inr (gwDiscovery g)"
  using assms
  by (auto simp: startGateway_def tokenSource_accepted Let_def bind_result_Inr_iff split: if_splits elim!: proxyOptions_accepted)

lemma discoveryFromEnvironment_new:
  assumes "discoveryFromEnvironment lib getenv = Inr (Some d)"
  obtains namespace interval where "NewDiscovery True (Some NewMemoryRegistry) namespace interval = Inr d"
  using assms
  by (auto simp: discoveryFromEnvironment_def Let_def bind_result_Inr_iff split: if_splits)

section \<open>Invariants\<close>

text \<open>A run of the process with discovery is a run of \<open>gateway_process\<close>; without discovery the registry stays empty.\<close>

lemma service_is_process:
  assumes "gateway_service getenv g M snapshot"
  shows "case gwDiscovery g of
      Some d \<Rightarrow> gateway_process d (gwProxy g) snapshot
    | None \<Rightarrow> mrRoutes (pxRegistry (gwProxy g)) = mrRoutes NewMemoryRegistry \<and> mrPrefixes (pxRegistry (gwProxy g)) = mrPrefixes NewMemoryRegistry"
  using assms
proof (induction rule: gateway_service.induct)
  case (start lib getenv g)
  note st = startGateway_state [OF start]
  show ?case
  proof (cases "gwDiscovery g")
    case (Some d)
    then obtain namespace interval where "NewDiscovery True (Some NewMemoryRegistry) namespace interval = Inr d"
      using st(5) by (auto elim: discoveryFromEnvironment_new)
    then show ?thesis using st(4) Some by (auto intro: gateway_process.start)
  qed (simp add: st(2))
next
  case (iterate getenv g M snapshot d now syncDone contextDone listed retryDelay)
  obtain d' delay retryDelay' continue where r:
    "RunIteration now syncDone contextDone listed (d\<lparr>dcRegistry := pxRegistry (gwProxy g)\<rparr>) retryDelay = (d', delay, retryDelay', continue)"
    by (metis prod_cases4)
  then show ?case
    using gateway_process.iterate [OF _ r] iterate by (auto simp: iterateGateway_def)
next
  case (reply getenv g M snapshot now readFile request g' out)
  then show ?case
    using serveGateway_step [OF reply.hyps(2)]
    by (auto split: option.splits intro: gateway_process.serve dest: ServeHTTP_same_routes)
next
  case (forward getenv g M snapshot now readFile request g' httpMethod b u request')
  then show ?case
    using serveGateway_step [OF forward.hyps(2)]
    by (auto split: option.splits intro: gateway_process.serve dest: ServeHTTP_same_routes)
next
  case (finish getenv g M snapshot httpMethod b upstream g' client)
  obtain p cl reasons where f: "finishForward (gwProxy g) b upstream = (p, cl, reasons)" by (metis prod_cases3)
  then have "gwProxy g' = p" "gwDiscovery g' = gwDiscovery g" using finish.hyps(3) by (auto simp: finishGateway_def)
  then show ?case
    using finish.IH f finishForward_registry [OF f] by (auto split: option.splits intro: gateway_process.finish)
qed

lemma service_tokens:
  assumes "gateway_service getenv g M snapshot"
  shows "gwTokens g = None \<longleftrightarrow> trim_space (getenv ''INFEROPS_GATEWAY_AUTH_TOKEN_FILE'') = []"
  using assms
proof (induction rule: gateway_service.induct)
  case (start lib getenv g)
  then show ?case by (rule startGateway_state)
next
  case (iterate getenv g M snapshot d now syncDone contextDone listed retryDelay)
  then show ?case by (simp add: iterateGateway_def split: prod.splits)
next
  case (finish getenv g M snapshot httpMethod b upstream g' client)
  then show ?case by (auto simp: finishGateway_def split: prod.splits)
next
  case (reply getenv g M snapshot now readFile request g' out)
  show ?case using reply.IH serveGateway_step [OF reply.hyps(2)] by simp
next
  case (forward getenv g M snapshot now readFile request g' httpMethod b u request')
  show ?case using forward.IH serveGateway_step [OF forward.hyps(2)] by simp
qed

section \<open>The gauge and the labels of the metrics\<close>

definition metricMethods :: "string set" where
  "metricMethods = insert ''OTHER'' (set knownMethods)"

definition metricReasons :: "string set" where
  "metricReasons = {''transport'', ''response_5xx'', ''other''}"

text \<open>Every label value that has a sample is one of a fixed set.\<close>

definition boundedLabels :: "gatewayMetrics \<Rightarrow> bool" where
  "boundedLabels m \<longleftrightarrow>
     (\<forall>httpMethod status. gmRequests m (httpMethod, status) \<noteq> 0 \<longrightarrow> httpMethod \<in> metricMethods) \<and>
     (\<forall>httpMethod. gmLatency m httpMethod \<noteq> 0 \<longrightarrow> httpMethod \<in> metricMethods) \<and>
     (\<forall>reason. gmUpstreamErrors m reason \<noteq> 0 \<longrightarrow> reason \<in> metricReasons)"

lemma boundedMethod_metric: "boundedMethod m \<in> metricMethods"
  by (simp add: boundedMethod_def metricMethods_def Let_def)

lemma boundedLabels_steps:
  "boundedLabels m \<Longrightarrow> boundedLabels (middlewareEnter m)" "boundedLabels m \<Longrightarrow> boundedLabels (middlewarePanic m)"
  "boundedLabels m \<Longrightarrow> httpMethod \<in> metricMethods \<Longrightarrow> boundedLabels (middlewareLeave httpMethod status m)"
  "boundedLabels m \<Longrightarrow> boundedLabels (ObserveUpstreamError reason m)"
  by (auto simp: boundedLabels_def middlewareEnter_def middlewarePanic_def middlewareLeave_def ObserveUpstreamError_def metricReasons_def
      Let_def)

lemma boundedLabels_fold: "boundedLabels m \<Longrightarrow> boundedLabels (fold ObserveUpstreamError reasons m)"
  by (induction reasons arbitrary: m) (simp_all add: boundedLabels_steps)

lemma serveGateway_labels:
  assumes "serveGateway now readFile g request = (g', out)" and "boundedLabels (gwMetrics g)"
  shows "boundedLabels (gwMetrics g') \<and> (\<forall>httpMethod b u r. out = ProxyForwards httpMethod b u r \<longrightarrow> httpMethod \<in> metricMethods)"
  using assms
  by (auto simp: serveGateway_def serveDrain_def serveProxy_def Let_def boundedMethod_metric boundedLabels_steps
      split: prod.splits auth_outcome.splits serve_outcome.splits if_splits
      dest!: gatewayReady_frame authenticate_frame)

text \<open>
  The gauge of active requests is the number of requests in flight in every run, and the metrics have a bounded number of label values
  whatever methods clients send.
\<close>

theorem gateway_metrics_exact:
  assumes "gateway_service getenv g M snapshot"
  shows "gmActiveRequests (gwMetrics g) = int (size M) \<and> boundedLabels (gwMetrics g) \<and> (\<forall>(httpMethod, b) \<in># M. httpMethod \<in> metricMethods)"
  using assms
proof (induction rule: gateway_service.induct)
  case (start lib getenv g)
  then show ?case by (simp add: startGateway_state(1) newMetrics_def boundedLabels_def)
next
  case (iterate getenv g M snapshot d now syncDone contextDone listed retryDelay)
  then show ?case by (simp add: iterateGateway_def split: prod.splits)
next
  case (reply getenv g M snapshot now readFile request g' out)
  then show ?case
    using serveGateway_active [OF reply.hyps(2)] serveGateway_labels [OF reply.hyps(2)] by (cases out) auto
next
  case (forward getenv g M snapshot now readFile request g' httpMethod b u request')
  then show ?case
    using serveGateway_active [OF forward.hyps(2)] serveGateway_labels [OF forward.hyps(2)] by auto
next
  case (finish getenv g M snapshot httpMethod b upstream g' client)
  then have "httpMethod \<in> metricMethods" "M \<noteq> {#}" by auto
  then show ?case
    using finish nonempty_has_size [of M]
    by (auto simp: finishGateway_def boundedLabels_steps boundedLabels_fold size_Diff_singleton
        split: prod.splits dest: in_diffD)
qed

section \<open>What a request needs\<close>

text \<open>The request presents a token that the source accepts now.\<close>

definition presentsToken :: "time \<Rightarrow> (string \<Rightarrow> string option) \<Rightarrow> FileTokenSource \<Rightarrow> http_request \<Rightarrow> bool" where
  "presentsToken now readFile source request =
     (case (bearerToken (headerValues request ''Authorization''), snd (Tokens now readFile source)) of
        (Some presented, Inr tokens) \<Rightarrow> presented \<in> set tokens
      | _ \<Rightarrow> False)"

definition admitted :: "time \<Rightarrow> (string \<Rightarrow> string option) \<Rightarrow> gateway \<Rightarrow> http_request \<Rightarrow> bool" where
  "admitted now readFile g request = (case gwTokens g of None \<Rightarrow> True | Some source \<Rightarrow> presentsToken now readFile source request)"

lemma authenticate_passed:
  assumes "authenticate now readFile g request = (g', AuthPassed request')"
  shows "admitted now readFile g request \<and> (gwTokens g \<noteq> None \<longrightarrow> headerValues request' ''Authorization'' = [])"
  using assms
  by (auto simp: authenticate_def admitted_def presentsToken_def Wrap_def matchesAny_iff headerValues_Del
      split: option.splits prod.splits sum.splits if_splits)

lemma authenticate_replied:
  assumes "authenticate now readFile g request = (g', AuthReplied reply)"
  shows "\<not> admitted now readFile g request \<and> hrStatus reply \<in> {401, 503}"
  using assms
  by (auto simp: authenticate_def admitted_def presentsToken_def Wrap_def matchesAny_iff writeError_def
      split: option.splits prod.splits sum.splits if_splits)

lemma authenticate_onMetrics:
  "admitted now readFile (onMetrics f g) request = admitted now readFile g request"
  by (simp add: admitted_def)

lemma serveProxy_admitted:
  assumes "serveProxy now readFile g request = (g', out)"
  shows "case out of
      AuthReply reply \<Rightarrow> \<not> admitted now readFile g request \<and> hrStatus reply \<in> {401, 503}
    | ProxyForwards httpMethod b u request' \<Rightarrow>
        admitted now readFile g request \<and> (gwTokens g \<noteq> None \<longrightarrow> headerValues request' ''Authorization'' = [])
    | ProxyReply reply \<Rightarrow> admitted now readFile g request
    | ProxyPanics \<Rightarrow> admitted now readFile g request
    | _ \<Rightarrow> False"
  using assms
  by (auto simp: serveProxy_def Let_def authenticate_onMetrics split: prod.splits auth_outcome.splits serve_outcome.splits
      dest: authenticate_passed authenticate_replied)

lemma serveDrain_admitted:
  assumes "serveDrain now readFile g request = (g', out)"
  shows "case out of
      AuthReply reply \<Rightarrow> \<not> admitted now readFile g request \<and> hrStatus reply \<in> {401, 503}
    | DrainReply reply \<Rightarrow> admitted now readFile g request
    | _ \<Rightarrow> False"
  using assms
  by (auto simp: serveDrain_def split: prod.splits auth_outcome.splits dest: authenticate_passed authenticate_replied)

text \<open>A request that is forwarded goes to a ready backend that the last complete snapshot justifies.\<close>

lemma service_registry:
  assumes "gateway_service getenv g M snapshot"
  shows "reg_ok (pxRegistry (gwProxy g)) \<and>
    (\<forall>b \<in> set (Backends (pxRegistry (gwProxy g))). bState b = StateReady \<longrightarrow> justified snapshot b)"
proof (cases "gwDiscovery g")
  case None
  then have "reg_ok (pxRegistry (gwProxy g)) = reg_ok NewMemoryRegistry"
    "Backends (pxRegistry (gwProxy g)) = Backends NewMemoryRegistry"
    using service_is_process [OF assms] by (simp_all add: reg_ok_def Backends_def)
  then show ?thesis using NewMemoryRegistry_ok by (simp add: Backends_def NewMemoryRegistry_def)
next
  case (Some d)
  then show ?thesis using service_is_process [OF assms] gateway_process_invariant by simp
qed

lemma forwarded_justified:
  assumes "gateway_service getenv g M snapshot" and "serveGateway now readFile g request = (g', ProxyForwards httpMethod b u request')"
  shows "bState b = StateReady \<and> justified snapshot b"
proof -
  have "ServeHTTP now (gwProxy g) request' = (gwProxy g', Forwarded b u)"
    using serveGateway_step [OF assms(2)] by auto
  with service_registry [OF assms(1), THEN conjunct1] have "bState b = StateReady \<and> b \<in> set (Backends (pxRegistry (gwProxy g)))"
    by (rule ServeHTTP_ForwardedE) blast
  then show ?thesis using service_registry [OF assms(1)] by blast
qed

text \<open>C2. What the running gateway lets through, in every interleaving of requests, completions and discovery. The endpoints that need no
  credentials are exactly the health checks and the metrics. Where a token file is configured, every other request is rejected with 401
  or 503 unless it presents a token of the file: only then is it forwarded or shown the drain status, and what is forwarded
  carries no credentials. A request is forwarded only to a ready backend that the last complete snapshot of the cluster justifies.\<close>

theorem gateway_guarded:
  assumes "gateway_service getenv g M snapshot" and "serveGateway now readFile g request = (g', out)"
  shows "(gwTokens g = None) = (trim_space (getenv ''INFEROPS_GATEWAY_AUTH_TOKEN_FILE'') = []) \<and>
    (case out of
       HealthReply status body \<Rightarrow> plainPath request \<in> {Some ''/healthz'', Some ''/readyz''}
     | MetricsReply metrics \<Rightarrow> plainPath request = Some ''/metrics''
     | AuthReply reply \<Rightarrow> \<not> admitted now readFile g request \<and> hrStatus reply \<in> {401, 503}
     | DrainReply reply \<Rightarrow> admitted now readFile g request \<and> plainPath request = Some ''/drainz''
     | ProxyReply reply \<Rightarrow> admitted now readFile g request
     | ProxyForwards httpMethod b u request' \<Rightarrow>
         admitted now readFile g request \<and> (gwTokens g \<noteq> None \<longrightarrow> headerValues request' ''Authorization'' = []) \<and>
         bState b = StateReady \<and> justified snapshot b
     | ProxyPanics \<Rightarrow> admitted now readFile g request)"
proof -
  consider "plainPath request \<in> {Some ''/healthz'', Some ''/readyz''}" "\<exists>status body. out = HealthReply status body"
    | "plainPath request = Some ''/metrics''" "\<exists>metrics. out = MetricsReply metrics"
    | "plainPath request = Some ''/drainz''" "serveDrain now readFile g request = (g', out)"
    | "serveProxy now readFile g request = (g', out)"
    using assms(2) by (auto simp: serveGateway_def Let_def split: if_splits prod.splits)
  then show ?thesis
  proof cases
    case 3
    then show ?thesis
      using serveDrain_admitted [OF 3(2)] service_tokens [OF assms(1)] by (auto split: gateway_outcome.splits)
  next
    case 4
    show ?thesis
      using serveProxy_admitted [OF 4] service_tokens [OF assms(1)] forwarded_justified [OF assms(1)] assms(2)
      by (auto split: gateway_outcome.splits)
  qed (use service_tokens [OF assms(1)] in auto)
qed

definition sampleGatewayEnv :: "string \<Rightarrow> string" where
  "sampleGatewayEnv name =
     (if name = ''INFEROPS_GATEWAY_REGISTRY'' then ''Fake'' else if name = ''INFEROPS_GATEWAY_AUTH_TOKEN_FILE'' then ''/t'' else [])"

definition sampleGateway :: gateway where
  "sampleGateway =
     \<lparr>gwAddress = '':8080'', gwDiscovery = None,
      gwProxy = \<lparr>pxRegistry = NewMemoryRegistry, pxTracker = newRequestTracker, pxLimiter = newRateLimiter,
                 pxOptions = \<lparr>opDefaultRateLimit = None, opRequestLoggingEnabled = None\<rparr>\<rparr>,
      gwTokens = Some \<lparr>fsPath = ''/t'', fsReloadInterval = defaultReloadInterval, fsTokens = [], fsReloadErr = None, fsNextReload = 0\<rparr>,
      gwMetrics = newMetrics\<rparr>"

definition sampleDrainRequest :: http_request where
  "sampleDrainRequest =
     \<lparr>rqMethod = ''GET'', rqURL = Some \<lparr>uScheme = [], uHost = [], uPath = ''/drainz'', uRawPath = []\<rparr>, rqQuery = [],
      rqHeaders = [(''Authorization'', [''bearer s3cret''])]\<rparr>"

lemma sample_env_values:
  "trim_space (sampleGatewayEnv ''INFEROPS_GATEWAY_ADDRESS'') = []" "trim_space (sampleGatewayEnv ''INFEROPS_GATEWAY_REGISTRY'') = ''Fake''"
  "trim_space (sampleGatewayEnv ''INFEROPS_GATEWAY_RATE_LIMIT_RPM'') = []" "trim_space (sampleGatewayEnv ''INFEROPS_GATEWAY_RATE_LIMIT_BURST'') = []"
  "trim_space (sampleGatewayEnv ''INFEROPS_GATEWAY_REQUEST_LOGGING'') = []" "trim_space (sampleGatewayEnv ''INFEROPS_GATEWAY_AUTH_TOKEN_FILE'') = ''/t''"
  "to_lower ''Fake'' = ''fake''"
  by code_simp+

lemma sampleGateway_starts: "startGateway (\<lambda>_. None) sampleGatewayEnv = Inr sampleGateway"
  by (simp add: startGateway_def gatewayLibrary_def discoveryFromEnvironment_def proxyOptionsFromEnvironment_def
      nonNegativeIntFromEnvironment_def optionalBoolFromEnvironment_def tokenSource_accepted sample_env_values Let_def
      NewWithMetricsAndOptions_def wrapError_def sampleGateway_def del: to_lower.simps)

lemma sampleGateway_drain:
  "case snd (serveGateway 5 (\<lambda>_. Some ''s3cret'') sampleGateway sampleDrainRequest) of DrainReply reply \<Rightarrow> True | _ \<Rightarrow> False"
  by code_simp

theorem gateway_guarded_witness:
  "admitted 5 (\<lambda>_. Some ''s3cret'') sampleGateway sampleDrainRequest \<and> gwTokens sampleGateway \<noteq> None"
proof -
  obtain g' out where o: "serveGateway 5 (\<lambda>_. Some ''s3cret'') sampleGateway sampleDrainRequest = (g', out)" by fastforce
  have "gateway_service sampleGatewayEnv sampleGateway {#} None" by (rule gateway_service.start [OF sampleGateway_starts])
  from gateway_guarded [OF this o] show ?thesis
    using sampleGateway_drain o by (auto simp: sample_env_values split: gateway_outcome.splits)
qed

section \<open>The status writer and the registration\<close>

text \<open>The counted status is the one the client sees: the first header written, and no header is written twice.\<close>

definition sw_ok :: "statusWriter \<Rightarrow> bool" where
  "sw_ok w \<longleftrightarrow>
     (if swWroteHeader w
        then \<exists>rest. swCalls w = CallWriteHeader (swStatus w) # rest \<and> list_all (\<lambda>c. \<not> is_header_call c) rest
      else swCalls w = [])"

lemma sw_ok_header: "sw_ok w \<Longrightarrow> sw_ok (swWriteHeader w status) \<and> swWroteHeader (swWriteHeader w status)"
  by (auto simp: sw_ok_def swWriteHeader_def split: if_splits)

lemma sw_ok_ensure: "sw_ok w \<Longrightarrow> sw_ok (swEnsureHeader w) \<and> swWroteHeader (swEnsureHeader w)"
  by (simp add: swEnsureHeader_def sw_ok_header)

lemma sw_ok_calls:
  "sw_ok w \<Longrightarrow> swWroteHeader w \<Longrightarrow> list_all (\<lambda>c. \<not> is_header_call c) calls \<Longrightarrow> sw_ok (w\<lparr>swCalls := swCalls w @ calls\<rparr>)"
  by (auto simp: sw_ok_def)

lemma sw_ok_apply: "sw_ok w \<Longrightarrow> sw_ok (swApply w op)"
  by (cases op) (simp_all add: sw_ok_header sw_ok_calls sw_ok_ensure Let_def list_all_iff)

theorem counted_status_exact:
  assumes "foldl swApply newStatusWriter ops = w"
  shows "(case swCalls w of [] \<Rightarrow> countedStatus w canceled = (if canceled then 499 else 200)
          | c # rest \<Rightarrow> c = CallWriteHeader (countedStatus w canceled) \<and> list_all (\<lambda>c. \<not> is_header_call c) rest)"
proof -
  have "sw_ok (foldl swApply v ops)" if "sw_ok v" for v using that by (induction ops arbitrary: v) (simp_all add: sw_ok_apply)
  then have "sw_ok w" using assms by (auto simp: newStatusWriter_def sw_ok_def)
  then show ?thesis by (auto simp: sw_ok_def countedStatus_def split: list.splits if_splits)
qed

text \<open>A registration that fails leaves the registerer as it was, for a registerer whose operations act on a set of names.\<close>

lemma registerCollectors_failed:
  assumes "\<And>c s s'. rgRegister R c s = Inr s' \<Longrightarrow> names s' = insert c (names s) \<and> c \<notin> names s"
    and "\<And>c s. names (rgUnregister R c s) = names s - {c}"
    and "registerCollectors R registered cs s = (s', Some err)"
  shows "names s' = names s - set registered"
proof -
  have undo: "names (fold (rgUnregister R) done' t) = names t - set done'" for done' t
    by (induction done' arbitrary: t) (auto simp: assms(2))
  show ?thesis
    using assms(3)
  proof (induction cs arbitrary: registered s)
    case (Cons c cs)
    then show ?case
      by (auto simp: undo split: sum.splits dest!: assms(1))
  qed simp
qed

end
