(* ===== verification/Dashboard.thy ===== *)
theory Dashboard
  imports Kube_Client Cache_Contract Resources Samples Go_Strconv
begin

text \<open>
  \<open>dashboard/internal/server\<close>: the read-only view of a namespace. The cluster is the record \<open>dashboardClient\<close> of the list calls that the
  server makes, so it can neither write nor read a Secret. A conversion of a string type to a string is the identity, so enumerations keep
  their types. The text of a time and the addition of quantities are parameters, and so are the JSON encoding of a spec and the YAML
  printer; encoding a reply never fails for these types. The static files are one reply.
\<close>

section \<open>Options\<close>

definition defaultRequestTimeout :: duration where
  [const_defs]: "defaultRequestTimeout = 5 * 1000000000"

definition defaultMaxEvents :: int where
  [const_defs]: "defaultMaxEvents = 25"

record DashboardOptions =
  doNamespace :: string
  doPrometheusURL :: string
  doGatewayBaseURL :: string
  doRequestTimeout :: duration
  doMaxEvents :: int

datatype dashboard_config_error =
    DashboardNamespaceRequired
  | RequestTimeoutTooShort
  | MaxEventsNegative

record DashboardServer =
  dvNamespace :: string
  dvPrometheusURL :: string
  dvGatewayBaseURL :: string
  dvRequestTimeout :: duration
  dvMaxEvents :: int

definition NewDashboard :: "DashboardOptions \<Rightarrow> (dashboard_config_error, DashboardServer) result" where
  "NewDashboard options =
     (let namespace = trim_space (doNamespace options);
          requestTimeout = (if doRequestTimeout options = 0 then defaultRequestTimeout else doRequestTimeout options);
          maxEvents = (if doMaxEvents options = 0 then defaultMaxEvents else doMaxEvents options)
      in if namespace = [] then Inl DashboardNamespaceRequired
         else if requestTimeout < 1000000000 then Inl RequestTimeoutTooShort
         else if maxEvents < 0 then Inl MaxEventsNegative
         else Inr \<lparr>dvNamespace = namespace, dvPrometheusURL = trim_right (trim_space (doPrometheusURL options)) ''/'',
                   dvGatewayBaseURL = trim_right (trim_space (doGatewayBaseURL options)) ''/'', dvRequestTimeout = requestTimeout,
                   dvMaxEvents = maxEvents\<rparr>)"

section \<open>What is listed\<close>

record 'q CapacityNode = "'q Node" +
  ndCapacity :: "(string \<times> 'q) list"

record 'q ListedPod =
  pdNodeName :: string
  pdPhase :: string
  pdRequests :: "(string \<times> 'q) list list"

record ListedEvent =
  leType :: string
  leReason :: string
  leMessage :: string
  leKind :: string
  leName :: string
  leCount :: int
  leLastTimestamp :: time
  leEventTime :: time
  leFirstTimestamp :: time
  leCreationTimestamp :: time

record ('c, 'q) dashboardClient =
  dcListModelDeployments :: "string \<Rightarrow> ('c, ModelDeployment list) call"
  dcListModelCaches :: "string \<Rightarrow> ('c, ModelCache list) call"
  dcListModelRuntimes :: "string \<Rightarrow> ('c, ModelRuntime list) call"
  dcListServices :: "string \<Rightarrow> ('c, Service list) call"
  dcListPods :: "string \<Rightarrow> ('c, 'q ListedPod list) call"
  dcListNodes :: "('c, 'q CapacityNode list) call"
  dcListEvents :: "string \<Rightarrow> ('c, ListedEvent list) call"

text \<open>The parameters.\<close>

record ('q, 'j) dashboardOps =
  daQuantities :: "'q quantity_ops"
  daAdd :: "'q \<Rightarrow> 'q \<Rightarrow> 'q"
  daTime :: "time \<Rightarrow> string"
  daSpecJSON :: "ModelDeploymentSpec \<Rightarrow> (string \<rightharpoonup> 'j)"
  daLabelsJSON :: "string_map \<Rightarrow> 'j"
  daTextJSON :: "string \<Rightarrow> 'j"
  daObjectJSON :: "(string \<rightharpoonup> 'j) \<Rightarrow> 'j"
  daYAML :: "(string \<rightharpoonup> 'j) \<Rightarrow> string"

section \<open>Summaries\<close>

record EndpointSummary =
  esuNamespace :: string
  esuName :: string
  esuRoute :: string
  esuGatewayURL :: string
  esuStatusURL :: string
  esuService :: string
  esuServiceType :: string
  esuClusterIP :: string

record ActivationSummary =
  asuDesiredState :: ActivationDesiredState
  asuWhenFull :: ActivationWhenFull
  asuPriority :: int
  asuDrainTimeout :: string
  asuDrainStarted :: string

record ScalingSummary =
  ssuMinReplicas :: int
  ssuMaxReplicas :: int
  ssuTargetPending :: int
  ssuIdleTimeout :: string
  ssuDesiredReplicas :: int
  ssuReadyReplicas :: int
  ssuPendingRequests :: int
  ssuRunningRequests :: int
  ssuCapacityLimited :: bool
  ssuReason :: string
  ssuMessage :: string
  ssuLastActivityTime :: string

record GPUAssignment =
  gsuRequestedCount :: int
  gsuVendor :: string
  gsuType :: string
  gsuAssignedNode :: string
  gsuAssignedGPUs :: "string list"

record RoutingSummary =
  rsuEnabled :: bool
  rsuOpenAICompatible :: bool
  rsuPath :: string
  rsuStrategy :: RoutingStrategy
  rsuWeight :: int

record LogsSummary =
  lsuPodSelector :: string
  lsuKubectl :: string

record ConditionSummary =
  csuType :: string
  csuStatus :: ConditionStatus
  csuReason :: string
  csuMessage :: string
  csuLastTransitionTime :: string

record DeploymentSummary =
  dsuNamespace :: string
  dsuName :: string
  dsuModel :: string
  dsuRuntime :: string
  dsuPhase :: ModelDeploymentPhase
  dsuEndpoint :: EndpointSummary
  dsuActivation :: ActivationSummary
  dsuScaling :: ScalingSummary
  dsuCache :: ModelCacheSummary
  dsuGPU :: GPUAssignment
  dsuRouting :: RoutingSummary
  dsuLogs :: LogsSummary
  dsuConditions :: "ConditionSummary list"

record CacheSummary =
  cauNamespace :: string
  cauName :: string
  cauModelRepo :: string
  cauRevision :: string
  cauPhase :: ModelCachePhase
  cauNodeName :: string
  cauPath :: string
  cauSize :: string
  cauReservedSize :: string
  cauLastUsedTime :: string
  cauConditions :: "ConditionSummary list"

record RuntimeSummary =
  rtuNamespace :: string
  rtuName :: string
  rtuEngine :: string
  rtuProtocol :: string
  rtuDefaultImage :: string
  rtuPort :: int
  rtuHealthPath :: string
  rtuReadinessPath :: string
  rtuMetricsPath :: string
  rtuPhase :: ModelRuntimePhase
  rtuConditions :: "ConditionSummary list"

record GPUSummary =
  gpuNodeName :: string
  gpuResource :: string
  gpuCapacity :: string
  gpuAllocatable :: string
  gpuRequested :: string

record EventSummary =
  evuType :: string
  evuReason :: string
  evuMessage :: string
  evuInvolvedObject :: string
  evuLastSeen :: string
  evuCount :: int

record MetricQuery =
  mqName :: string
  mqCategory :: string
  mqDescription :: string
  mqQuery :: string

record MetricsLinks =
  mlPrometheusURL :: string
  mlQueries :: "MetricQuery list"

record Summary =
  smDeployments :: nat
  smCaches :: nat
  smRuntimes :: nat

record DashboardSnapshot =
  snGeneratedAt :: string
  snNamespace :: string
  snSummary :: Summary
  snDeployments :: "DeploymentSummary list"
  snCaches :: "CacheSummary list"
  snRuntimes :: "RuntimeSummary list"
  snGPUs :: "GPUSummary list"
  snEndpoints :: "EndpointSummary list"
  snEvents :: "EventSummary list"
  snMetrics :: MetricsLinks

section \<open>Small helpers\<close>

definition timeString :: "(time \<Rightarrow> string) \<Rightarrow> time option \<Rightarrow> string" where
  "timeString F value = (case value of None \<Rightarrow> [] | Some t \<Rightarrow> if t = 0 then [] else F t)"

definition timeValueString :: "(time \<Rightarrow> string) \<Rightarrow> time \<Rightarrow> string" where
  "timeValueString F value = (if value = 0 then [] else F value)"

definition firstNonEmpty :: "string list \<Rightarrow> string" where
  "firstNonEmpty values = (case List.find (\<lambda>v. v \<noteq> []) values of Some v \<Rightarrow> v | None \<Rightarrow> [])"

definition int32PtrValue :: "int option \<Rightarrow> int" where
  "int32PtrValue value = (case value of None \<Rightarrow> 0 | Some n \<Rightarrow> n)"

definition quantityString :: "'q quantity_ops \<Rightarrow> 'q \<Rightarrow> string" where
  "quantityString Q quantity = (if qSign Q quantity = 0 then ''0'' else qString Q quantity)"

definition quantityAt :: "'q quantity_ops \<Rightarrow> (string \<times> 'q) list \<Rightarrow> string \<Rightarrow> 'q" where
  "quantityAt Q resources name = (case map_of resources name of Some quantity \<Rightarrow> quantity | None \<Rightarrow> qZero Q)"

definition requestedGPUCount :: "ModelDeployment \<Rightarrow> int" where
  "requestedGPUCount d = (case rrGPU (dsResources (mdSpec d)) of None \<Rightarrow> 0 | Some gpu \<Rightarrow> grCount gpu)"

definition requestedGPUVendor :: "ModelDeployment \<Rightarrow> string" where
  "requestedGPUVendor d = (case rrGPU (dsResources (mdSpec d)) of None \<Rightarrow> [] | Some gpu \<Rightarrow> grVendor gpu)"

definition requestedGPUType :: "ModelDeployment \<Rightarrow> string" where
  "requestedGPUType d = (case rrGPU (dsResources (mdSpec d)) of None \<Rightarrow> [] | Some gpu \<Rightarrow> grType gpu)"

definition indexServices :: "Service list \<Rightarrow> (string \<Rightarrow> Service option)" where
  "indexServices services = map_of (rev (map (\<lambda>service. (omName (svMeta service), service)) services))"

text \<open>ASCII letters are enough here: no other character has a lower case in the searched word.\<close>

definition lowerChar :: "char \<Rightarrow> char" where
  "lowerChar c = (if of_char c \<ge> (65 :: nat) \<and> of_char c \<le> (90 :: nat) then char_of (of_char c + 32 :: nat) else c)"

fun containsText :: "string \<Rightarrow> string \<Rightarrow> bool" where
  "containsText [] word = (word = [])"
| "containsText (c # s) word = (has_prefix (c # s) word \<or> containsText s word)"

definition isGPUResource :: "string \<Rightarrow> bool" where
  "isGPUResource name = containsText (map lowerChar name) ''gpu''"

section \<open>Summaries of objects\<close>

definition summarizeConditions :: "(time \<Rightarrow> string) \<Rightarrow> Condition list \<Rightarrow> ConditionSummary list" where
  "summarizeConditions F conditions =
     sort_by (\<lambda>a b. csuType a < csuType b)
       (map (\<lambda>c. \<lparr>csuType = cType c, csuStatus = cStatus c, csuReason = cReason c, csuMessage = cMessage c,
                   csuLastTransitionTime = timeValueString F (cLastTransitionTime c)\<rparr>) conditions)"

definition podSelector :: "string \<Rightarrow> string" where
  "podSelector name =
     ''app.kubernetes.io/part-of=inferops,app.kubernetes.io/component=model-runtime,inferops.dev/model-deployment='' @ name"

definition summarizeEndpoint :: "ModelDeployment \<Rightarrow> (string \<Rightarrow> Service option) \<Rightarrow> string \<Rightarrow> EndpointSummary" where
  "summarizeEndpoint d services gatewayBaseURL =
     (let route = (if roPath (dsRouting (mdSpec d)) = [] then ''/models/'' @ mdName d else roPath (dsRouting (mdSpec d)));
          service = services (dtServiceName (mdStatus d))
      in \<lparr>esuNamespace = mdNamespace d, esuName = mdName d, esuRoute = route,
          esuGatewayURL = (if gatewayBaseURL = [] then [] else gatewayBaseURL @ route), esuStatusURL = dtEndpoint (mdStatus d),
          esuService = dtServiceName (mdStatus d),
          esuServiceType = (case service of None \<Rightarrow> [] | Some x \<Rightarrow> svType x),
          esuClusterIP = (case service of None \<Rightarrow> [] | Some x \<Rightarrow> svClusterIP x)\<rparr>)"

definition summarizeDeployment ::
  "(time \<Rightarrow> string) \<Rightarrow> ModelDeployment \<Rightarrow> (string \<Rightarrow> Service option) \<Rightarrow> string \<Rightarrow> DeploymentSummary" where
  "summarizeDeployment F d services gatewayBaseURL =
     (let spec = mdSpec d; st = mdStatus d; endpoint = summarizeEndpoint d services gatewayBaseURL
      in \<lparr>dsuNamespace = mdNamespace d, dsuName = mdName d, dsuModel = msRepo (dsModel spec), dsuRuntime = rsRef (dsRuntime spec),
          dsuPhase = dtPhase st, dsuEndpoint = endpoint,
          dsuActivation = \<lparr>asuDesiredState = asDesiredState (dsActivation spec), asuWhenFull = asWhenFull (dsActivation spec),
            asuPriority = asPriority (dsActivation spec), asuDrainTimeout = asDrainTimeout (dsActivation spec),
            asuDrainStarted = timeString F (dtDrainStartedAt st)\<rparr>,
          dsuScaling = \<lparr>ssuMinReplicas = scMinReplicas (dsScaling spec), ssuMaxReplicas = scMaxReplicas (dsScaling spec),
            ssuTargetPending = scTargetPendingRequests (dsScaling spec), ssuIdleTimeout = scIdleTimeout (dsScaling spec),
            ssuDesiredReplicas = stDesiredReplicas (dtScaling st), ssuReadyReplicas = rcReady (dtReplicas st),
            ssuPendingRequests = stPendingRequests (dtScaling st), ssuRunningRequests = stRunningRequests (dtScaling st),
            ssuCapacityLimited = stCapacityLimited (dtScaling st), ssuReason = stReason (dtScaling st),
            ssuMessage = stMessage (dtScaling st), ssuLastActivityTime = timeString F (stLastActivityTime (dtScaling st))\<rparr>,
          dsuCache = dtCache st,
          dsuGPU = \<lparr>gsuRequestedCount = requestedGPUCount d, gsuVendor = requestedGPUVendor d, gsuType = requestedGPUType d,
            gsuAssignedNode = dtAssignedNode st, gsuAssignedGPUs = dtAssignedGPUs st\<rparr>,
          dsuRouting = \<lparr>rsuEnabled = roEnabled (dsRouting spec), rsuOpenAICompatible = roOpenAICompatible (dsRouting spec),
            rsuPath = esuRoute endpoint, rsuStrategy = rpRoutingStrategy (roPolicy (dsRouting spec)),
            rsuWeight = int32PtrValue (rpWeight (roPolicy (dsRouting spec)))\<rparr>,
          dsuLogs = \<lparr>lsuPodSelector = podSelector (mdName d),
            lsuKubectl = ''kubectl -n '' @ mdNamespace d @ '' logs -l '' @ podSelector (mdName d) @ '' --tail=100''\<rparr>,
          dsuConditions = summarizeConditions F (dtConditions st)\<rparr>)"

definition summarizeCache :: "(time \<Rightarrow> string) \<Rightarrow> ModelCache \<Rightarrow> CacheSummary" where
  "summarizeCache F cache =
     (let st = mcStatus cache
      in \<lparr>cauNamespace = omNamespace (mcMeta cache), cauName = mcName cache, cauModelRepo = cpModelRepo (mcSpec cache),
          cauRevision = firstNonEmpty [ctRevision st, cpRevision (mcSpec cache)], cauPhase = ctPhase st, cauNodeName = ctNodeName st,
          cauPath = ctPath st, cauSize = ctSize st, cauReservedSize = ctReservedSize st,
          cauLastUsedTime = timeValueString F (ctLastUsedTime st), cauConditions = summarizeConditions F (ctConditions st)\<rparr>)"

definition summarizeRuntime :: "(time \<Rightarrow> string) \<Rightarrow> ModelRuntime \<Rightarrow> RuntimeSummary" where
  "summarizeRuntime F runtime =
     (let spec = mrSpec runtime
      in \<lparr>rtuNamespace = omNamespace (mrMeta runtime), rtuName = omName (mrMeta runtime), rtuEngine = reEngine spec,
          rtuProtocol = reProtocol spec, rtuDefaultImage = reDefaultImage spec, rtuPort = rePort spec, rtuHealthPath = reHealthPath spec,
          rtuReadinessPath = reReadinessPath spec, rtuMetricsPath = reMetricsPath spec, rtuPhase = ruPhase (mrStatus runtime),
          rtuConditions = summarizeConditions F (ruConditions (mrStatus runtime))\<rparr>)"

section \<open>GPUs and events\<close>

definition runningPod :: "'q ListedPod \<Rightarrow> bool" where
  "runningPod pod \<longleftrightarrow> \<not> (pdNodeName pod = [] \<or> pdPhase pod = ''Succeeded'' \<or> pdPhase pod = ''Failed'')"

definition addGPURequest :: "('q, 'j) dashboardOps \<Rightarrow> (string \<times> 'q) list \<Rightarrow> string \<times> 'q \<Rightarrow> (string \<times> 'q) list" where
  "addGPURequest A requested request =
     (case request of (name, quantity) \<Rightarrow>
        if \<not> isGPUResource name then requested
        else AList.update name (daAdd A (quantityAt (daQuantities A) requested name) quantity) requested)"

definition addPodRequests ::
  "('q, 'j) dashboardOps \<Rightarrow> (string \<times> (string \<times> 'q) list) list \<Rightarrow> 'q ListedPod \<Rightarrow> (string \<times> (string \<times> 'q) list) list" where
  "addPodRequests A out pod =
     (if \<not> runningPod pod then out
      else let current = (case map_of out (pdNodeName pod) of None \<Rightarrow> [] | Some requested \<Rightarrow> requested)
           in AList.update (pdNodeName pod) (foldl (addGPURequest A) current (concat (pdRequests pod))) out)"

definition requestedGPUByNode :: "('q, 'j) dashboardOps \<Rightarrow> 'q ListedPod list \<Rightarrow> (string \<times> (string \<times> 'q) list) list" where
  "requestedGPUByNode A pods = foldl (addPodRequests A) [] pods"

definition gpuResourceNames :: "(string \<times> 'q) list list \<Rightarrow> string list" where
  "gpuResourceNames resourceLists = sort_by (<) (remdups (filter isGPUResource (map fst (concat resourceLists))))"

definition requestedOn :: "(string \<times> (string \<times> 'q) list) list \<Rightarrow> string \<Rightarrow> (string \<times> 'q) list" where
  "requestedOn requested node = (case map_of requested node of None \<Rightarrow> [] | Some resources \<Rightarrow> resources)"

definition summarizeGPUs :: "('q, 'j) dashboardOps \<Rightarrow> 'q CapacityNode list \<Rightarrow> 'q ListedPod list \<Rightarrow> GPUSummary list" where
  "summarizeGPUs A nodes pods =
     (let requested = requestedGPUByNode A pods; Q = daQuantities A
      in sort_by (\<lambda>a b. if gpuNodeName a = gpuNodeName b then gpuResource a < gpuResource b else gpuNodeName a < gpuNodeName b)
           (concat (map (\<lambda>node. map (\<lambda>name.
               \<lparr>gpuNodeName = ndName node, gpuResource = name, gpuCapacity = quantityString Q (quantityAt Q (ndCapacity node) name),
                gpuAllocatable = quantityString Q (quantityAt Q (ndAllocatable node) name),
                gpuRequested = quantityString Q (quantityAt Q (requestedOn requested (ndName node)) name)\<rparr>)
             (gpuResourceNames [ndCapacity node, ndAllocatable node, requestedOn requested (ndName node)])) nodes)))"

definition eventTime :: "ListedEvent \<Rightarrow> time" where
  "eventTime event =
     (if leLastTimestamp event \<noteq> 0 then leLastTimestamp event else if leEventTime event \<noteq> 0 then leEventTime event
      else if leFirstTimestamp event \<noteq> 0 then leFirstTimestamp event else leCreationTimestamp event)"

definition recentEvents :: "int \<Rightarrow> ListedEvent list \<Rightarrow> ListedEvent list" where
  "recentEvents maxEvents events = take (nat maxEvents) (sort_by (\<lambda>a b. eventTime a > eventTime b) events)"

definition summarizeEvents :: "(time \<Rightarrow> string) \<Rightarrow> ListedEvent list \<Rightarrow> int \<Rightarrow> EventSummary list" where
  "summarizeEvents F events maxEvents =
     map (\<lambda>event. \<lparr>evuType = leType event, evuReason = leReason event, evuMessage = leMessage event,
                     evuInvolvedObject = leKind event @ ''/'' @ leName event, evuLastSeen = F (eventTime event), evuCount = leCount event\<rparr>)
       (recentEvents maxEvents events)"

definition defaultMetricQueries :: "MetricQuery list" where
  "defaultMetricQueries =
     [\<lparr>mqName = ''TTFT p95'', mqCategory = ''Runtime'',
       mqDescription = ''vLLM time to first token. llama.cpp versions may not expose a TTFT histogram.'',
       mqQuery = ''histogram_quantile(0.95, sum(rate(vllm:time_to_first_token_seconds_bucket[5m])) by (le, model_name))''\<rparr>,
      \<lparr>mqName = ''Generation tokens/sec'', mqCategory = ''Runtime'',
       mqDescription = ''Decode throughput from vLLM or llama.cpp runtime counters.'',
       mqQuery = ''sum(rate(vllm:generation_tokens_total[5m])) by (model_name) or sum(rate(llamacpp:tokens_predicted_total[5m]))''\<rparr>,
      \<lparr>mqName = ''Prompt tokens/sec'', mqCategory = ''Runtime'',
       mqDescription = ''Prompt ingestion throughput from vLLM or llama.cpp runtime counters.'',
       mqQuery = ''sum(rate(vllm:prompt_tokens_total[5m])) by (model_name) or sum(rate(llamacpp:prompt_tokens_total[5m]))''\<rparr>,
      \<lparr>mqName = ''Waiting requests'', mqCategory = ''Queue'',
       mqDescription = ''Runtime-side queued request pressure.'',
       mqQuery = ''sum(vllm:num_requests_waiting) by (model_name) or sum(llamacpp:requests_deferred)''\<rparr>,
      \<lparr>mqName = ''Cache availability'', mqCategory = ''Cache'',
       mqDescription = ''ModelCache count by lifecycle phase. Ready caches are available for activation.'',
       mqQuery = ''sum(inferops_modelcache_phase_count) by (phase)''\<rparr>,
      \<lparr>mqName = ''Cache reserved storage'', mqCategory = ''Cache'',
       mqDescription = ''Total model-cache storage reserved by lifecycle phase.'',
       mqQuery = ''sum(inferops_modelcache_reserved_bytes) by (phase)''\<rparr>,
      \<lparr>mqName = ''Cache download p95'', mqCategory = ''Cache'',
       mqDescription = ''Downloader Job duration from creation to verified cache completion.'',
       mqQuery = ''histogram_quantile(0.95, sum(rate(inferops_cache_download_duration_seconds_bucket[30m])) by (le))''\<rparr>,
      \<lparr>mqName = ''Cache download failures'', mqCategory = ''Cache'',
       mqDescription = ''Terminal cache download failures by stable reason.'',
       mqQuery = ''sum(rate(inferops_cache_download_failures_total[30m])) by (reason)''\<rparr>,
      \<lparr>mqName = ''Active requests'', mqCategory = ''Gateway'',
       mqDescription = ''Requests currently in flight through the InferOps gateway.'',
       mqQuery = ''sum(inferops_gateway_active_requests)''\<rparr>,
      \<lparr>mqName = ''Gateway latency p95'', mqCategory = ''Gateway'',
       mqDescription = ''End-to-end gateway request duration.'',
       mqQuery = ''histogram_quantile(0.95, sum(rate(inferops_gateway_request_duration_seconds_bucket[5m])) by (le, method))''\<rparr>,
      \<lparr>mqName = ''Gateway request rate'', mqCategory = ''Gateway'',
       mqDescription = ''Gateway request throughput by bounded HTTP method and status code.'',
       mqQuery = ''sum(rate(inferops_gateway_requests_total[5m])) by (method, status_code)''\<rparr>,
      \<lparr>mqName = ''Gateway upstream errors'', mqCategory = ''Gateway'',
       mqDescription = ''Runtime upstream failures grouped by stable reason.'',
       mqQuery = ''sum(rate(inferops_gateway_upstream_errors_total[5m])) by (reason)''\<rparr>,
      \<lparr>mqName = ''GPU slots available'', mqCategory = ''Capacity'',
       mqDescription = ''Scheduler-visible GPU capacity tracked by InferOps.'',
       mqQuery = ''sum(inferops_gpu_slots_available) by (resource)''\<rparr>,
      \<lparr>mqName = ''Activation duration p95'', mqCategory = ''Rollout'',
       mqDescription = ''Time from activation request to ready runtime.'',
       mqQuery = ''histogram_quantile(0.95, sum(rate(inferops_model_activation_duration_seconds_bucket[30m])) by (le))''\<rparr>]"

section \<open>Snapshots\<close>

datatype dashboard_error = DashboardListFailed string api_error

definition listing :: "string \<Rightarrow> ('c, 'a) call \<Rightarrow> (dashboard_error, 'c, 'a) fallible" where
  "listing what m =
     onOutcome m (\<lambda>outcome. case outcome of Inl err \<Rightarrow> throw (DashboardListFailed what err) | Inr items \<Rightarrow> ok items)"

definition sortSnapshot :: "DashboardSnapshot \<Rightarrow> DashboardSnapshot" where
  "sortSnapshot snapshot =
     snapshot\<lparr>snDeployments := sort_by (\<lambda>a b. dsuName a < dsuName b) (snDeployments snapshot),
       snCaches := sort_by (\<lambda>a b. cauName a < cauName b) (snCaches snapshot),
       snRuntimes := sort_by (\<lambda>a b. rtuName a < rtuName b) (snRuntimes snapshot),
       snEndpoints := sort_by (\<lambda>a b. esuName a < esuName b) (snEndpoints snapshot)\<rparr>"

definition snapshotOf ::
  "('q, 'j) dashboardOps \<Rightarrow> DashboardServer \<Rightarrow> time \<Rightarrow> ModelDeployment list \<Rightarrow> ModelCache list \<Rightarrow> ModelRuntime list \<Rightarrow> Service list \<Rightarrow>
   'q ListedPod list \<Rightarrow> 'q CapacityNode list \<Rightarrow> ListedEvent list \<Rightarrow> DashboardSnapshot" where
  "snapshotOf A s now deployments caches runtimes services pods nodes events =
     (let F = daTime A; index = indexServices services;
          summaries = map (\<lambda>d. summarizeDeployment F d index (dvGatewayBaseURL s)) deployments
      in sortSnapshot
           \<lparr>snGeneratedAt = F now, snNamespace = dvNamespace s,
            snSummary = \<lparr>smDeployments = length deployments, smCaches = length caches, smRuntimes = length runtimes\<rparr>,
            snDeployments = summaries, snCaches = map (summarizeCache F) caches, snRuntimes = map (summarizeRuntime F) runtimes,
            snGPUs = summarizeGPUs A nodes pods, snEndpoints = map dsuEndpoint summaries,
            snEvents = summarizeEvents F events (dvMaxEvents s),
            snMetrics = \<lparr>mlPrometheusURL = dvPrometheusURL s, mlQueries = defaultMetricQueries\<rparr>\<rparr>)"

definition buildSnapshot ::
  "('q, 'j) dashboardOps \<Rightarrow> ('c, 'q) dashboardClient \<Rightarrow> DashboardServer \<Rightarrow> time \<Rightarrow> (dashboard_error, 'c, DashboardSnapshot) fallible" where
  "buildSnapshot A K s now =
     (let namespace = dvNamespace s
      in andThen (listing ''list model deployments'' (dcListModelDeployments K namespace)) (\<lambda>deployments.
         andThen (listing ''list model caches'' (dcListModelCaches K namespace)) (\<lambda>caches.
         andThen (listing ''list model runtimes'' (dcListModelRuntimes K namespace)) (\<lambda>runtimes.
         andThen (listing ''list services'' (dcListServices K namespace)) (\<lambda>services.
         andThen (listing ''list pods'' (dcListPods K namespace)) (\<lambda>pods.
         andThen (listing ''list nodes'' (dcListNodes K)) (\<lambda>nodes.
         andThen (if dvMaxEvents s > 0 then listing ''list events'' (dcListEvents K namespace) else ok []) (\<lambda>events.
           ok (snapshotOf A s now deployments caches runtimes services pods nodes events)))))))))"

section \<open>Generated manifests\<close>

record YAMLSnippet =
  ysNamespace :: string
  ysName :: string
  ysKind :: string
  ysYAML :: string

record GeneratedYAMLResponse =
  gyGeneratedAt :: string
  gyNamespace :: string
  gyDeployments :: "YAMLSnippet list"

definition sanitizedSpecMap :: "('q, 'j) dashboardOps \<Rightarrow> ModelDeploymentSpec \<Rightarrow> (string \<rightharpoonup> 'j)" where
  "sanitizedSpecMap A spec = (daSpecJSON A spec)(''secrets'' := None)"

definition sanitizedManifest :: "('q, 'j) dashboardOps \<Rightarrow> ModelDeployment \<Rightarrow> (string \<rightharpoonup> 'j)" where
  "sanitizedManifest A d =
     (let named = [''name'' \<mapsto> daTextJSON A (mdName d), ''namespace'' \<mapsto> daTextJSON A (mdNamespace d)];
          metadata = (if omLabels (mdMeta d) = [] then named else named(''labels'' \<mapsto> daLabelsJSON A (omLabels (mdMeta d))))
      in [''apiVersion'' \<mapsto> daTextJSON A GroupVersion, ''kind'' \<mapsto> daTextJSON A ''ModelDeployment'',
          ''metadata'' \<mapsto> daObjectJSON A metadata, ''spec'' \<mapsto> daObjectJSON A (sanitizedSpecMap A (mdSpec d))])"

definition sanitizedDeploymentYAML :: "('q, 'j) dashboardOps \<Rightarrow> ModelDeployment \<Rightarrow> string" where
  "sanitizedDeploymentYAML A d = trim_space (daYAML A (sanitizedManifest A d)) @ [CHR 0x0A]"

definition buildGeneratedYAML ::
  "('q, 'j) dashboardOps \<Rightarrow> ('c, 'q) dashboardClient \<Rightarrow> DashboardServer \<Rightarrow> time \<Rightarrow> (dashboard_error, 'c, GeneratedYAMLResponse) fallible" where
  "buildGeneratedYAML A K s now =
     andThen (listing ''list model deployments'' (dcListModelDeployments K (dvNamespace s))) (\<lambda>deployments.
       ok \<lparr>gyGeneratedAt = daTime A now, gyNamespace = dvNamespace s,
           gyDeployments = sort_by (\<lambda>a b. ysName a < ysName b)
             (map (\<lambda>d. \<lparr>ysNamespace = mdNamespace d, ysName = mdName d, ysKind = ''ModelDeployment'',
                         ysYAML = sanitizedDeploymentYAML A d\<rparr>) deployments)\<rparr>)"

section \<open>Handlers\<close>

datatype dashboard_body =
    PlainText string
  | SnapshotBody DashboardSnapshot
  | GeneratedYAMLBody GeneratedYAMLResponse
  | ProblemBody dashboard_error
  | StaticFile string string

record dashboard_reply =
  dyStatus :: int
  dyHeaders :: string_map
  dyBody :: dashboard_body

definition securityHeaders :: "string_map \<Rightarrow> string_map" where
  "securityHeaders headers =
     [(''X-Content-Type-Options'', ''nosniff''), (''X-Frame-Options'', ''DENY''), (''Referrer-Policy'', ''no-referrer''),
      (''Content-Security-Policy'', ''default-src ''@[CHR 0x27]@''self''@[CHR 0x27]@''; style-src ''@[CHR 0x27]@''self''@[CHR 0x27]@
         ''; script-src ''@[CHR 0x27]@''self''@[CHR 0x27]@''; connect-src ''@[CHR 0x27]@''self''@[CHR 0x27])] @ headers"

definition plainText :: "int \<Rightarrow> string \<Rightarrow> dashboard_reply" where
  "plainText status body = \<lparr>dyStatus = status, dyHeaders = [(''Content-Type'', ''text/plain; charset=utf-8'')], dyBody = PlainText body\<rparr>"

definition dashboardJSON :: "int \<Rightarrow> dashboard_body \<Rightarrow> dashboard_reply" where
  "dashboardJSON status body = \<lparr>dyStatus = status, dyHeaders = [(''Content-Type'', ''application/json'')], dyBody = body\<rparr>"

definition writeProblem :: "int \<Rightarrow> dashboard_error \<Rightarrow> dashboard_reply" where
  "writeProblem status err = dashboardJSON status (ProblemBody err)"

definition okText :: string where
  "okText = ''ok'' @ [CHR 0x0A]"

definition readyz :: "('c, 'q) dashboardClient \<Rightarrow> DashboardServer \<Rightarrow> 'c \<Rightarrow> dashboard_reply \<times> 'c" where
  "readyz K s c =
     (case listing ''list model deployments'' (dcListModelDeployments K (dvNamespace s)) c of
        (Inl err, c') \<Rightarrow> (writeProblem 503 err, c')
      | (Inr _, c') \<Rightarrow> (plainText 200 okText, c'))"

definition snapshotReply ::
  "('q, 'j) dashboardOps \<Rightarrow> ('c, 'q) dashboardClient \<Rightarrow> DashboardServer \<Rightarrow> time \<Rightarrow> 'c \<Rightarrow> dashboard_reply \<times> 'c" where
  "snapshotReply A K s now c =
     (case buildSnapshot A K s now c of
        (Inl err, c') \<Rightarrow> (writeProblem 503 err, c')
      | (Inr snapshot, c') \<Rightarrow> (dashboardJSON 200 (SnapshotBody snapshot), c'))"

definition generatedYAML ::
  "('q, 'j) dashboardOps \<Rightarrow> ('c, 'q) dashboardClient \<Rightarrow> DashboardServer \<Rightarrow> time \<Rightarrow> 'c \<Rightarrow> dashboard_reply \<times> 'c" where
  "generatedYAML A K s now c =
     (case buildGeneratedYAML A K s now c of
        (Inl err, c') \<Rightarrow> (writeProblem 503 err, c')
      | (Inr snippets, c') \<Rightarrow> (dashboardJSON 200 (GeneratedYAMLBody snippets), c'))"

text \<open>A pattern with the method GET also serves HEAD; every other request goes to the static files.\<close>

definition dashboardHandler ::
  "('q, 'j) dashboardOps \<Rightarrow> ('c, 'q) dashboardClient \<Rightarrow> DashboardServer \<Rightarrow> time \<Rightarrow> string \<Rightarrow> string \<Rightarrow> 'c \<Rightarrow> dashboard_reply \<times> 'c" where
  "dashboardHandler A K s now verb path c =
     (let reads = (verb = ''GET'' \<or> verb = ''HEAD'');
          (reply, c') =
            (if reads \<and> path = ''/healthz'' then (plainText 200 okText, c)
             else if reads \<and> path = ''/readyz'' then readyz K s c
             else if reads \<and> path = ''/api/snapshot'' then snapshotReply A K s now c
             else if reads \<and> path = ''/api/generated-yaml'' then generatedYAML A K s now c
             else (\<lparr>dyStatus = 200, dyHeaders = [], dyBody = StaticFile verb path\<rparr>, c))
      in (reply\<lparr>dyHeaders := securityHeaders (dyHeaders reply)\<rparr>, c'))"

section \<open>Starting\<close>

text \<open>
  \<open>dashboard/cmd/dashboard/main.go\<close>: the options from the environment \<open>getenv\<close>. Building the Kubernetes client and the server loop are
  library calls; \<open>client\<close> is the error of the former.
\<close>

datatype dashboard_start_error =
    DashboardDurationUnparsable string duration_error
  | DashboardDurationTooShort string
  | DashboardIntUnparsable string
  | DashboardIntNegative string
  | DashboardClientFailed string
  | DashboardRejected dashboard_config_error

definition dashboardEnvOrDefault :: "(string \<Rightarrow> string) \<Rightarrow> string \<Rightarrow> string \<Rightarrow> string" where
  "dashboardEnvOrDefault getenv name fallback = (let value = trim_space (getenv name) in if value = [] then fallback else value)"

definition dashboardDurationFromEnv :: "(string \<Rightarrow> string) \<Rightarrow> string \<Rightarrow> duration \<Rightarrow> (dashboard_start_error, duration) result" where
  "dashboardDurationFromEnv getenv name fallback =
     (let value = trim_space (getenv name)
      in if value = [] then Inr fallback
         else (case ParseDuration value of
                 Inl err \<Rightarrow> Inl (DashboardDurationUnparsable name err)
               | Inr parsed \<Rightarrow> if parsed < 10 ^ 9 then Inl (DashboardDurationTooShort name) else Inr parsed))"

definition dashboardIntFromEnv :: "(string \<Rightarrow> string) \<Rightarrow> string \<Rightarrow> int \<Rightarrow> (dashboard_start_error, int) result" where
  "dashboardIntFromEnv getenv name fallback =
     (let value = trim_space (getenv name)
      in if value = [] then Inr fallback
         else (case Atoi value of
                 None \<Rightarrow> Inl (DashboardIntUnparsable name)
               | Some parsed \<Rightarrow> if parsed < 0 then Inl (DashboardIntNegative name) else Inr parsed))"

definition startDashboard :: "(string \<Rightarrow> string) \<Rightarrow> string option \<Rightarrow> (dashboard_start_error, string \<times> DashboardServer) result" where
  "startDashboard getenv client =
     (let address = dashboardEnvOrDefault getenv ''INFEROPS_DASHBOARD_ADDRESS'' '':8080'';
          namespace = dashboardEnvOrDefault getenv ''INFEROPS_DASHBOARD_NAMESPACE'' (getenv ''POD_NAMESPACE'')
      in bind_result (dashboardDurationFromEnv getenv ''INFEROPS_DASHBOARD_REQUEST_TIMEOUT'' (5 * 10 ^ 9)) (\<lambda>timeout.
         bind_result (dashboardIntFromEnv getenv ''INFEROPS_DASHBOARD_MAX_EVENTS'' 25) (\<lambda>maxEvents.
         bind_result (case client of Some err \<Rightarrow> Inl (DashboardClientFailed err) | None \<Rightarrow> Inr ()) (\<lambda>_.
         bind_result (wrapError DashboardRejected (NewDashboard
           \<lparr>doNamespace = namespace, doPrometheusURL = getenv ''INFEROPS_DASHBOARD_PROMETHEUS_URL'',
            doGatewayBaseURL = getenv ''INFEROPS_DASHBOARD_GATEWAY_BASE_URL'', doRequestTimeout = timeout,
            doMaxEvents = maxEvents\<rparr>)) (\<lambda>server.
         Inr (address, server))))))"

section \<open>Lemmas\<close>

interpretation event_order: go_order "\<lambda>a b. eventTime a > eventTime b"
  by unfold_locales auto

text \<open>The client without the secrets of the specs it lists.\<close>

definition blankSecrets :: "ModelDeployment \<Rightarrow> ModelDeployment" where
  "blankSecrets d = d\<lparr>mdSpec := (mdSpec d)\<lparr>dsSecrets := \<lparr>srHuggingFaceTokenSecretName = []\<rparr>\<rparr>\<rparr>"

definition mapListed :: "('a \<Rightarrow> 'b) \<Rightarrow> ('c, 'a list) call \<Rightarrow> ('c, 'b list) call" where
  "mapListed f m c = (case m c of (Inl err, c') \<Rightarrow> (Inl err, c') | (Inr items, c') \<Rightarrow> (Inr (map f items), c'))"

definition withoutSecrets :: "('c, 'q) dashboardClient \<Rightarrow> ('c, 'q) dashboardClient" where
  "withoutSecrets K = K\<lparr>dcListModelDeployments := \<lambda>namespace. mapListed blankSecrets (dcListModelDeployments K namespace)\<rparr>"

lemma blankSecrets_fields [simp]:
  "mdMeta (blankSecrets d) = mdMeta d" "mdStatus (blankSecrets d) = mdStatus d"
  "dsModel (mdSpec (blankSecrets d)) = dsModel (mdSpec d)" "dsRuntime (mdSpec (blankSecrets d)) = dsRuntime (mdSpec d)"
  "dsResources (mdSpec (blankSecrets d)) = dsResources (mdSpec d)" "dsActivation (mdSpec (blankSecrets d)) = dsActivation (mdSpec d)"
  "dsScaling (mdSpec (blankSecrets d)) = dsScaling (mdSpec d)" "dsRouting (mdSpec (blankSecrets d)) = dsRouting (mdSpec d)"
  by (simp_all add: blankSecrets_def)

lemma summarize_blank: "summarizeDeployment F (blankSecrets d) services base = summarizeDeployment F d services base"
  by (simp add: summarizeDeployment_def summarizeEndpoint_def requestedGPUCount_def requestedGPUVendor_def requestedGPUType_def Let_def)

lemma snapshotOf_blank:
  "snapshotOf A s now (map blankSecrets deployments) caches runtimes services pods nodes events =
   snapshotOf A s now deployments caches runtimes services pods nodes events"
  by (simp add: snapshotOf_def summarize_blank comp_def Let_def)

lemma andThen_listing_map:
  assumes "\<And>items. f (map g items) = f' items"
  shows "andThen (listing what (mapListed g m)) f = andThen (listing what m) f'"
  by (rule ext) (auto simp: andThen_def listing_def onOutcome_def mapListed_def ok_def throw_def assms split: prod.splits sum.splits)

text \<open>JSON encodes a struct field by field: the secrets are in their own field only.\<close>

definition encodesFieldwise :: "('q, 'j) dashboardOps \<Rightarrow> bool" where
  "encodesFieldwise A \<longleftrightarrow>
     (\<forall>spec secrets key. key \<noteq> ''secrets'' \<longrightarrow> daSpecJSON A (spec\<lparr>dsSecrets := secrets\<rparr>) key = daSpecJSON A spec key)"

lemma sanitized_blank: "encodesFieldwise A \<Longrightarrow> sanitizedDeploymentYAML A (blankSecrets d) = sanitizedDeploymentYAML A d"
proof -
  assume "encodesFieldwise A"
  then have "sanitizedSpecMap A (mdSpec (blankSecrets d)) = sanitizedSpecMap A (mdSpec d)"
    by (auto simp: sanitizedSpecMap_def encodesFieldwise_def blankSecrets_def fun_eq_iff)
  then show ?thesis by (simp add: sanitizedDeploymentYAML_def sanitizedManifest_def Let_def)
qed

lemma withoutSecrets_fields [simp]:
  "dcListModelCaches (withoutSecrets K) = dcListModelCaches K" "dcListModelRuntimes (withoutSecrets K) = dcListModelRuntimes K"
  "dcListServices (withoutSecrets K) = dcListServices K" "dcListPods (withoutSecrets K) = dcListPods K"
  "dcListNodes (withoutSecrets K) = dcListNodes K" "dcListEvents (withoutSecrets K) = dcListEvents K"
  "dcListModelDeployments (withoutSecrets K) namespace = mapListed blankSecrets (dcListModelDeployments K namespace)"
  by (simp_all add: withoutSecrets_def)

lemma buildSnapshot_blank: "buildSnapshot A (withoutSecrets K) s now = buildSnapshot A K s now"
  unfolding buildSnapshot_def Let_def withoutSecrets_fields by (rule andThen_listing_map) (simp add: snapshotOf_blank)

lemma buildGeneratedYAML_blank:
  assumes "encodesFieldwise A"
  shows "buildGeneratedYAML A (withoutSecrets K) s now = buildGeneratedYAML A K s now"
  unfolding buildGeneratedYAML_def withoutSecrets_fields
  by (rule andThen_listing_map) (simp add: comp_def sanitized_blank [OF assms])

lemma readyz_blank: "readyz (withoutSecrets K) s = readyz K s"
  by (rule ext) (auto simp: readyz_def listing_def mapListed_def onOutcome_def ok_def throw_def split: prod.splits sum.splits)

text \<open>What the pods on a node request of a resource.\<close>

definition requestsFor :: "'q quantity_ops \<Rightarrow> string \<Rightarrow> (string \<times> 'q) list \<Rightarrow> int" where
  "requestsFor Q name requests = sum_list (map (\<lambda>(k, q). if k = name then qValue Q q else 0) requests)"

definition podRequests :: "'q quantity_ops \<Rightarrow> string \<Rightarrow> string \<Rightarrow> 'q ListedPod list \<Rightarrow> int" where
  "podRequests Q node name pods =
     sum_list (map (\<lambda>pod. if runningPod pod \<and> pdNodeName pod = node then requestsFor Q name (concat (pdRequests pod)) else 0) pods)"

text \<open>Adding quantities adds their values; this holds as long as no value is rounded or saturates.\<close>

definition addsValues :: "('q, 'j) dashboardOps \<Rightarrow> bool" where
  "addsValues A \<longleftrightarrow>
     (\<forall>a b. qValue (daQuantities A) (daAdd A a b) = qValue (daQuantities A) a + qValue (daQuantities A) b) \<and>
     qValue (daQuantities A) (qZero (daQuantities A)) = 0"

lemma value_addGPURequests:
  assumes "addsValues A" "isGPUResource name"
  shows "qValue (daQuantities A) (quantityAt (daQuantities A) (foldl (addGPURequest A) requested requests) name) =
     qValue (daQuantities A) (quantityAt (daQuantities A) requested name) + requestsFor (daQuantities A) name requests"
proof (induction requests arbitrary: requested)
  case (Cons r requests)
  obtain k q where r: "r = (k, q)" by (cases r)
  have "qValue (daQuantities A) (quantityAt (daQuantities A) (addGPURequest A requested r) name) =
      qValue (daQuantities A) (quantityAt (daQuantities A) requested name) + (if k = name then qValue (daQuantities A) q else 0)"
    using assms by (auto simp: r addGPURequest_def addsValues_def quantityAt_def update_conv)
  then show ?case using Cons by (simp add: r requestsFor_def)
qed (simp add: requestsFor_def)

lemma value_addPodRequests:
  assumes "addsValues A" "isGPUResource name"
  shows "qValue (daQuantities A) (quantityAt (daQuantities A) (requestedOn (foldl (addPodRequests A) out pods) node) name) =
     qValue (daQuantities A) (quantityAt (daQuantities A) (requestedOn out node) name) + podRequests (daQuantities A) node name pods"
proof (induction pods arbitrary: out)
  case (Cons pod pods)
  have "qValue (daQuantities A) (quantityAt (daQuantities A) (requestedOn (addPodRequests A out pod) node) name) =
      qValue (daQuantities A) (quantityAt (daQuantities A) (requestedOn out node) name) +
      (if runningPod pod \<and> pdNodeName pod = node then requestsFor (daQuantities A) name (concat (pdRequests pod)) else 0)"
    using value_addGPURequests [OF assms] by (auto simp: addPodRequests_def requestedOn_def update_conv Let_def split: option.splits)
  then show ?case using Cons by (simp add: podRequests_def)
qed (simp add: podRequests_def)

section \<open>Properties\<close>


definition sampleDashboardOps :: "(int, string) dashboardOps" where
  "sampleDashboardOps =
     \<lparr>daQuantities = whole_quantity, daAdd = (+), daTime = itoa,
      daSpecJSON = (\<lambda>spec. [''model'' \<mapsto> msRepo (dsModel spec), ''secrets'' \<mapsto> srHuggingFaceTokenSecretName (dsSecrets spec)]),
      daLabelsJSON = (\<lambda>labels. concat (map fst labels)), daTextJSON = (\<lambda>text. text),
      daObjectJSON = (\<lambda>obj. case obj ''model'' of Some repo \<Rightarrow> repo | None \<Rightarrow> []),
      daYAML = (\<lambda>obj. case obj ''spec'' of Some text \<Rightarrow> text | None \<Rightarrow> [])\<rparr>"

definition sampleDashboardClient :: "(unit, int) dashboardClient" where
  "sampleDashboardClient =
     \<lparr>dcListModelDeployments = (\<lambda>_ c. (Inr [sampleDeployment ''m'', sampleDeployment ''n''], c)), dcListModelCaches = (\<lambda>_ c. (Inr [], c)),
      dcListModelRuntimes = (\<lambda>_ c. (Inr [], c)), dcListServices = (\<lambda>_ c. (Inr [], c)), dcListPods = (\<lambda>_ c. (Inr [], c)),
      dcListNodes = (\<lambda>c. (Inr [], c)), dcListEvents = (\<lambda>_ c. (Inr [], c))\<rparr>"

definition sampleDashboard :: DashboardServer where
  "sampleDashboard = \<lparr>dvNamespace = ''ns'', dvPrometheusURL = [], dvGatewayBaseURL = [], dvRequestTimeout = 5, dvMaxEvents = 25\<rparr>"


text \<open>The events shown are the newest ones, as many as configured.\<close>

theorem recent_events_newest:
  "recentEvents n events @ drop (nat n) (sort_by (\<lambda>a b. eventTime a > eventTime b) events) =
     sort_by (\<lambda>a b. eventTime a > eventTime b) events \<and>
   mset (sort_by (\<lambda>a b. eventTime a > eventTime b) events) = mset events \<and>
   length (recentEvents n events) = min (nat n) (length events) \<and>
   (\<forall>shown \<in> set (recentEvents n events). \<forall>omitted \<in> set (drop (nat n) (sort_by (\<lambda>a b. eventTime a > eventTime b) events)).
      eventTime omitted \<le> eventTime shown)"
proof -
  let ?sorted = "sort_by (\<lambda>a b. eventTime a > eventTime b) events"
  have "sorted_wrt (\<lambda>a b. \<not> eventTime a < eventTime b) (take (nat n) ?sorted @ drop (nat n) ?sorted)"
    using event_order.sorted_sort_by [of events] by simp
  then show ?thesis unfolding sorted_wrt_append recentEvents_def by (auto simp: min.commute not_less)
qed

text \<open>The GPU requests shown for a node are those of the pods that run there, and nothing else.\<close>

theorem dashboard_gpu_requests:
  assumes "addsValues A" "isGPUResource name"
  shows "qValue (daQuantities A) (quantityAt (daQuantities A) (requestedOn (requestedGPUByNode A pods) node) name) =
     podRequests (daQuantities A) node name pods"
  using value_addPodRequests [OF assms, of "[]" pods node] assms(1)
  by (simp add: requestedGPUByNode_def requestedOn_def quantityAt_def addsValues_def)

text \<open>
  The log hint of a deployment selects on a label that the pods of its runtime do not carry, so it matches none of them.
\<close>

lemma log_hint_misses_runtime_pods:
  "podSelector name = join '','' [''app.kubernetes.io/part-of=inferops'', ''app.kubernetes.io/component=model-runtime'',
     ''inferops.dev/model-deployment='' @ name] \<and>
   map_of (BaseLabels name) ''inferops.dev/model-deployment'' = None"
  by (simp add: podSelector_def BaseLabels_def const_defs join.simps)

text \<open>The environment yields a usable configuration: the server is rejected only without a namespace, and one that starts shows at least one event.\<close>

lemma dashboardDuration_long: "dashboardDurationFromEnv getenv name d = Inr v \<Longrightarrow> 10 ^ 9 \<le> d \<Longrightarrow> 10 ^ 9 \<le> v"
  by (auto simp: dashboardDurationFromEnv_def Let_def split: if_splits sum.splits)

lemma dashboardInt_nonneg: "dashboardIntFromEnv getenv name d = Inr v \<Longrightarrow> 0 \<le> d \<Longrightarrow> 0 \<le> v"
  by (auto simp: dashboardIntFromEnv_def Let_def split: if_splits option.splits)

theorem dashboard_starts:
  "case startDashboard getenv client of
     Inl (DashboardRejected err) \<Rightarrow> err = DashboardNamespaceRequired
   | Inl _ \<Rightarrow> True
   | Inr (address, server) \<Rightarrow> dvNamespace server \<noteq> [] \<and> 10 ^ 9 \<le> dvRequestTimeout server \<and> 0 < dvMaxEvents server"
proof -
  let ?t = "dashboardDurationFromEnv getenv ''INFEROPS_DASHBOARD_REQUEST_TIMEOUT'' (5 * 10 ^ 9)"
  let ?m = "dashboardIntFromEnv getenv ''INFEROPS_DASHBOARD_MAX_EVENTS'' 25"
  have t: "10 ^ 9 \<le> v" if "?t = Inr v" for v using that by (rule dashboardDuration_long) simp
  have m: "0 \<le> v" if "?m = Inr v" for v using that by (rule dashboardInt_nonneg) simp
  have te: "\<not> (\<exists>err. e = DashboardRejected err)" if "?t = Inl e" for e
    using that by (auto simp: dashboardDurationFromEnv_def Let_def split: if_splits sum.splits)
  have me: "\<not> (\<exists>err. e = DashboardRejected err)" if "?m = Inl e" for e
    using that by (auto simp: dashboardIntFromEnv_def Let_def split: if_splits option.splits)
  show ?thesis
    using t m te me
    by (cases ?t; cases ?m)
      (auto simp: startDashboard_def NewDashboard_def wrapError_def const_defs Let_def split: option.splits dashboard_start_error.splits)
qed

end
