(* ===== verification/Spec2Isabelle.thy ===== *)
theory Spec2Isabelle
  imports Lifecycle_Routing Lifecycle_Watches Cache_Invariant Operator_Config Operator_Metrics Runtime_Status Runtime_Scraper
    Gateway_Main Dashboard
begin

text \<open>
  A verification library for InferOps: the Kubernetes operator that places models on GPU nodes, the gateway that routes
  requests to them, and the dashboard that shows them.

  \<^bold>\<open>The program.\<close> Users declare ModelDeployments, ModelCaches and ModelRuntimes. The operator (\<open>src/operator\<close>) admits them through
  webhooks, downloads a model into a directory of a node with a Job, reserves whole GPUs, renders a Deployment with its Service, ConfigMap and
  disruption budget, follows its rollout, and drains and deactivates it. It runs three controllers, each with one worker, whose only
  shared state is the API server. The gateway (\<open>src/gateway\<close>) reads ModelDeployments, Services and EndpointSlices, publishes the
  active ones in a registry, authenticates requests and forwards them. The two meet twice: the status that the operator writes is what the gateway
  routes by, and the gateway's count of requests in flight is what the operator waits for before it stops a runtime. The dashboard
  (\<open>src/dashboard\<close>) only lists. All share the rules on route prefixes and Service names in \<open>src/internal\<close>.

  \<^bold>\<open>Foundations.\<close>
  \<^item> \<open>Prelude\<close>: results, wrap-around of 64 and 32 bits, Go maps as association lists, sorting by a comparison (locale \<open>go_order\<close>).
  \<^item> \<open>Go_Strings\<close>, \<open>Go_Float\<close>, \<open>Go_Duration\<close>, \<open>Go_Strconv\<close>, \<open>Sha256\<close>: strings and paths as bytes, rounding of
    \<open>float64\<close>, \<open>time.ParseDuration\<close>, numbers and booleans, and the digest that names caches.
  \<^item> \<open>Api_Types\<close>, \<open>Kube_Model\<close>, \<open>Kube_Workloads\<close>: \<open>operator/api/v1alpha1\<close> and the Kubernetes objects as the code reads and writes
    them. \<open>Samples\<close>: concrete objects.
  \<^item> \<open>Kube_Client\<close>, \<open>Kube_Memory\<close>: the API client as a record of calls on an abstract state, with errors as values and rules for what a
    program yields, and an API server in memory that satisfies the laws the theorems ask of a client.

  \<^bold>\<open>The operator.\<close>
  \<^item> \<open>Route_Paths\<close>: \<open>internal/routingpath\<close>, \<open>internal/runtimecontract\<close>, \<open>templates\<close>, \<open>paths\<close>. Accepted prefixes and cache
    directories are canonical.
  \<^item> \<open>Conditions\<close>: \<open>internal/status\<close>. \<open>Gpu_Planner\<close>, \<open>Cache_Planner\<close>, \<open>Preflight\<close>: \<open>internal/scheduler\<close>. Plans fit, are
    found exactly when they exist, and no sequence of them oversubscribes a node.
  \<^item> \<open>Resources\<close>, \<open>Cache_Jobs\<close>: \<open>internal/resources\<close>. What rendered workloads and downloader Jobs may do. \<open>Validation\<close>:
    \<open>internal/validation\<close> and \<open>internal/admission\<close>. Which admitted objects render.
  \<^item> \<open>Runtime_Resolver\<close>: \<open>internal/runtime\<close>. \<open>Cache_Contract\<close>: \<open>internal/cachecontract\<close>. \<open>Deployment_Validation\<close>:
    \<open>controllers/modeldeployment_controller.go\<close>.
  \<^item> \<open>Lifecycle_Base\<close>, \<open>Lifecycle_Workloads\<close>, \<open>Lifecycle_Capacity\<close>, \<open>Lifecycle_Status\<close>, \<open>Lifecycle_Drain\<close>, \<open>Lifecycle_Replacement\<close>,
    \<open>Lifecycle_Reconcile\<close>, \<open>Lifecycle_Watches\<close>: \<open>controllers/modeldeployment_lifecycle_controller.go\<close> and
    \<open>modeldeployment_lifecycle_transitions.go\<close>, one definition per method and per part of a long one. Reservations fit, replica counts are bounded,
    deactivation refines a machine of four stages and ends.
  \<^item> \<open>Lifecycle_Invariant\<close>: histories of a deployment under reconciliations and edits. \<open>Lifecycle_Routing\<close>: activation and the gates of
    the gateway's discovery.
  \<^item> \<open>Cache_Controller\<close>, \<open>Cache_Invariant\<close>: \<open>controllers/modelcache_controller.go\<close> and histories of the caches of a cluster: held directories
    are exclusive, a cache is usable exactly while it is ready, and a downloaded artifact is not given up.
  \<^item> \<open>Drain_Checker\<close>: \<open>controllers/drain_checker.go\<close> joined with the gateway's drain report. \<open>Runtime_Status\<close>, \<open>Runtime_Scraper\<close>:
    \<open>modelruntime_status_controller.go\<close> and \<open>runtime_metrics_scraper.go\<close>.
  \<^item> \<open>Operator_Config\<close>, \<open>Operator_Metrics\<close>: \<open>cmd/manager\<close> with the constructors of the controllers, and \<open>internal/metrics\<close>.

  \<^bold>\<open>The gateway and the dashboard.\<close>
  \<^item> \<open>Registry\<close>, \<open>Registry_Selection\<close>: \<open>internal/routing\<close>: a registry with an invariant (locale of its operations, interpreted on it), the longest
    prefix, exact proportions of weighted selection. \<open>Gateway_Proxy\<close>, \<open>Gateway_Serving\<close>: \<open>internal/proxy\<close> with the request counter (a
    locale, too), token buckets and the access log. \<open>Gateway_Auth\<close>: \<open>internal/auth\<close>. \<open>Discovery\<close>: \<open>internal/discovery\<close>.
  \<^item> \<open>Gateway_Process\<close>: discovery and the proxy on one registry. \<open>Gateway_Main\<close>: \<open>cmd/gateway\<close>, \<open>internal/metrics\<close> and
    \<open>src/internal/health\<close>: every interleaving of requests, completions and discovery of the whole process.
  \<^item> \<open>Dashboard\<close>: \<open>dashboard/internal/server\<close> and \<open>dashboard/cmd\<close>.

  \<^bold>\<open>Parameters.\<close> Code outside the repository is an argument: API clients \<open>K\<close> (what each call returns, and the state behind it), the
  name checks \<open>N\<close> of \<open>k8s.io/apimachinery\<close>, the arithmetic \<open>Q\<close> of \<open>resource.Quantity\<close>, texts of errors, URL parsing, HTTP transport, JSON
  and YAML encoders, the Prometheus parser and registerer, and the outcomes of calls into controller-runtime. Laws that a theorem needs of them are
  hypotheses with names (\<open>patches_apply\<close>, \<open>quantity_value_ok\<close>, \<open>encodesFieldwise\<close>, ...), and each such theorem has a witness on concrete
  functions. \<open>patches_apply\<close>, \<open>cachePatchesApply\<close> and \<open>listsCaches\<close> state that a reconciliation reads what was written
  before and that its writes take effect: the controllers set \<open>MaxConcurrentReconciles\<close> to 1 for this; a stale informer cache is excluded by these
  hypotheses, not by the code. A clock is read once per step.

  \<^bold>\<open>Conventions.\<close> A nil and an empty slice or map are the same value, and copying is the identity on values. Errors keep their
  kinds and the arguments of their messages. Integers are \<open>int\<close> with the wrap-around written out where it can happen; \<open>float64\<close> is a rational
  with explicit rounding. Every loop is a total function (structural, or with a measure), so no fuel is used anywhere. Steps of a
  process are inductive relations, and the mutex of the registry and of the limiter makes each handler one step.

  \<^bold>\<open>Not modelled.\<close> \<open>SetupWithManager\<close> and \<open>main\<close>, which hand functions to libraries; the \<open>DeepCopy\<close> methods and lists of the API types, which
  have no counterpart on immutable values; the recorder of events, an interface with a test double; text of log lines; listening, TLS and
  streaming of bodies; the command line and client library in Python, charts, images and scripts, which are not Go code.
\<close>

end
